(* ===== verification/Sllurp_Prelude.thy ===== *)
theory Sllurp_Prelude
  imports Complex_Main "HOL-Library.Word" "HOL-Library.AList"
begin

text \<open>
  Shared vocabulary of the development: the result type with Python's exception classes as
  error values, the values that LLRP dictionaries hold, dictionaries as association lists in
  insertion order, and the bit tests of \<^verbatim>\<open>sllurp/util.py\<close>.  The lemma collections
  \<open>res_simps\<close>, \<open>dict_simps\<close> and \<open>byte_simps\<close> carry the routine steps of the component proofs.
\<close>

named_theorems res_simps "sequencing and inversion of fallible computations"
named_theorems dict_simps "lookup and update of ordered dictionaries"
named_theorems byte_simps "lengths and values of packed byte strings"

section \<open>Exceptions and results\<close>

text \<open>
  One constructor per exception class the source raises or catches by name.
  \<open>ReaderConfigurationError\<close> and \<open>LLRPResponseError\<close> are subclasses of \<open>LLRPError\<close> in
  \<^verbatim>\<open>sllurp/llrp_errors.py\<close>; \<open>binascii.Error\<close> is a \<open>ValueError\<close>.  Messages are not part of
  the model.  \<open>RecursionError\<close> is what a fuelled recursion answers when its fuel is spent.
\<close>

datatype py_error =
    LLRPError | LLRPResponseError | ReaderConfigurationError
  | StructError | ValueError | TypeError | IndexError | KeyError | AttributeError
  | StopIteration | OSError | RecursionError
  | ReaderManagementError | UnsupportedReaderOperation | ZebraIoTError

type_synonym 'a res = "py_error + 'a"

definition is_LLRPError :: "py_error \<Rightarrow> bool" where
  "is_LLRPError e \<longleftrightarrow> e \<in> {LLRPError, LLRPResponseError, ReaderConfigurationError}"

fun bindE :: "'a res \<Rightarrow> ('a \<Rightarrow> 'b res) \<Rightarrow> 'b res" where
  "bindE (Inl e) f = Inl e"
| "bindE (Inr x) f = f x"

text \<open>\<open>raise_if b e\<close> is the statement \<open>if b: raise e\<close>.\<close>

definition raise_if :: "bool \<Rightarrow> py_error \<Rightarrow> unit res" where
  "raise_if b e = (if b then Inl e else Inr ())"

text \<open>\<open>catchE x h\<close> is \<open>try: x  except: h\<close>, where \<open>h\<close> answers \<open>None\<close> to let the exception pass.\<close>

definition catchE :: "'a res \<Rightarrow> (py_error \<Rightarrow> 'a res option) \<Rightarrow> 'a res" where
  "catchE x h = (case x of Inr v \<Rightarrow> Inr v
     | Inl e \<Rightarrow> (case h e of None \<Rightarrow> Inl e | Some r \<Rightarrow> r))"

fun mapE :: "('a \<Rightarrow> 'b res) \<Rightarrow> 'a list \<Rightarrow> 'b list res" where
  "mapE f [] = Inr []"
| "mapE f (x # xs) = bindE (f x) (\<lambda>y. bindE (mapE f xs) (\<lambda>ys. Inr (y # ys)))"

lemma bindE_eq_Inr [res_simps]: "bindE m f = Inr y \<longleftrightarrow> (\<exists>x. m = Inr x \<and> f x = Inr y)"
  by (cases m) auto

lemma bindE_eq_Inl [res_simps]:
  "bindE m f = Inl e \<longleftrightarrow> m = Inl e \<or> (\<exists>x. m = Inr x \<and> f x = Inl e)"
  by (cases m) auto

lemma bindE_assoc: "bindE (bindE m f) g = bindE m (\<lambda>x. bindE (f x) g)"
  by (cases m) auto

lemma bindE_Inr_right [simp]: "bindE m Inr = m"
  by (cases m) auto

lemma bindE_cong [fundef_cong]:
  "m = m' \<Longrightarrow> (\<And>x. m' = Inr x \<Longrightarrow> f x = f' x) \<Longrightarrow> bindE m f = bindE m' f'"
  by (cases m') auto

lemma raise_if_simps [simp]:
  "raise_if True e = Inl e" "raise_if False e = Inr ()"
  by (simp_all add: raise_if_def)

lemma raise_if_eq [res_simps]:
  "raise_if b e = Inr u \<longleftrightarrow> \<not> b" "raise_if b e = Inl e' \<longleftrightarrow> b \<and> e' = e"
  by (auto simp: raise_if_def)

lemma catchE_Inr [simp]: "catchE (Inr x) h = Inr x"
  by (simp add: catchE_def)

lemma mapE_cong [fundef_cong]:
  "xs = ys \<Longrightarrow> (\<And>x. x \<in> set ys \<Longrightarrow> f x = g x) \<Longrightarrow> mapE f xs = mapE g ys"
  by (induction ys arbitrary: xs) (auto intro!: bindE_cong)

lemma mapE_Inr: "(\<And>x. x \<in> set xs \<Longrightarrow> f x = Inr (g x)) \<Longrightarrow> mapE f xs = Inr (map g xs)"
  by (induction xs) auto

lemma mapE_error: "mapE f xs = Inl e \<Longrightarrow> \<exists>x. f x = Inl e"
  by (induction xs) (auto simp: res_simps)

lemma mapE_length: "mapE f xs = Inr ys \<Longrightarrow> length ys = length xs"
  by (induction xs arbitrary: ys) (auto simp: res_simps)

section \<open>Python values\<close>

type_synonym byte = "8 word"
type_synonym bytes = "byte list"

text \<open>
  The values an LLRP dictionary can hold.  Python integers are unbounded, hence \<open>int\<close>.  The
  only floats the codec produces are exact binary fractions, so \<open>rat\<close> represents them exactly.
\<close>

datatype pyval =
    PNone
  | PBool bool
  | PInt int
  | PFloat rat
  | PBytes bytes
  | PStr string
  | PList "pyval list"
  | PDict "(string \<times> pyval) list"

type_synonym pydict = "(string \<times> pyval) list"

abbreviation dict_get :: "('k \<times> 'v) list \<Rightarrow> 'k \<Rightarrow> 'v option" where
  "dict_get \<equiv> map_of"

text \<open>\<open>d[k] = v\<close>: replaces in place, or appends a new key (insertion order is kept).\<close>

abbreviation dict_set :: "('k \<times> 'v) list \<Rightarrow> 'k \<Rightarrow> 'v \<Rightarrow> ('k \<times> 'v) list" where
  "dict_set d k v \<equiv> AList.update k v d"

abbreviation dict_pop :: "('k \<times> 'v) list \<Rightarrow> 'k \<Rightarrow> ('k \<times> 'v) list" where
  "dict_pop d k \<equiv> AList.delete k d"

text \<open>\<open>d.update(e)\<close>.\<close>

definition dict_update :: "('k \<times> 'v) list \<Rightarrow> ('k \<times> 'v) list \<Rightarrow> ('k \<times> 'v) list" where
  "dict_update d e = fold (\<lambda>(k, v) acc. dict_set acc k v) e d"

lemma dict_get_set [dict_simps]:
  "dict_get (dict_set d k v) k' = (if k' = k then Some v else dict_get d k')"
  by (simp add: update_conv)

lemma dict_get_pop [dict_simps]:
  "dict_get (dict_pop d k) k' = (if k' = k then None else dict_get d k')"
  by (simp add: delete_conv)

lemma dict_set_new: "k \<notin> fst ` set d \<Longrightarrow> dict_set d k v = d @ [(k, v)]"
  by (induction d) auto

lemma dict_set_append_new:
  "k \<notin> fst ` set d \<Longrightarrow> dict_set (d @ e) k v = d @ dict_set e k v"
  by (induction d) auto

lemma dict_update_Nil [simp]: "dict_update d [] = d"
  by (simp add: dict_update_def)

lemma dict_update_Cons [simp]: "dict_update d ((k, v) # e) = dict_update (dict_set d k v) e"
  by (simp add: dict_update_def)

lemma distinct_dict_update: "distinct (map fst d) \<Longrightarrow> distinct (map fst (dict_update d e))"
  by (induction e arbitrary: d) (auto simp: distinct_update)

lemma set_dict_set_subset: "set (dict_set d k v) \<subseteq> insert (k, v) (set d)"
  by (induction d) auto

lemma set_dict_update_subset: "set (dict_update d e) \<subseteq> set d \<union> set e"
proof (induction e arbitrary: d)
  case Nil
  then show ?case by simp
next
  case (Cons a e)
  then show ?case using set_dict_set_subset [of "fst a" "snd a" d] by (cases a) fastforce
qed

lemma dom_dict_update: "fst ` set (dict_update d e) = fst ` set d \<union> fst ` set e"
proof (induction e arbitrary: d)
  case Nil
  then show ?case by simp
next
  case (Cons a e)
  have "fst ` set (dict_set d (fst a) (snd a)) = insert (fst a) (fst ` set d)"
    using dom_update [of "fst a" "snd a" d] by simp
  then show ?case using Cons by (cases a) auto
qed

lemma map_of_dict_update:
  "map_of (dict_update d e) k = (case map_of (rev e) k of Some v \<Rightarrow> Some v | None \<Rightarrow> map_of d k)"
  by (induction e arbitrary: d) (auto simp: update_conv map_add_def split: option.splits)

text \<open>A key assigned once.\<close>

lemma map_of_dict_update_once:
  assumes "(k, v) \<in> set e" "filter (\<lambda>x. x = k) (map fst e) = [k]"
  shows "map_of (dict_update [] e) k = Some v"
proof -
  obtain xs ys where e: "e = xs @ (k, v) # ys" using assms(1) by (meson split_list)
  then have "k \<notin> fst ` set ys"
    using assms(2) by (auto simp: filter_empty_conv append_eq_Cons_conv)
  then show ?thesis
    by (simp add: e map_of_dict_update map_add_def map_of_eq_None_iff [THEN iffD2])
qed

lemma map_dict_set: "map (\<lambda>(k, v). (k, f v)) (dict_set d k v) = dict_set (map (\<lambda>(k, v). (k, f v)) d) k (f v)"
  by (induction d) auto

lemma map_dict_update:
  "map (\<lambda>(k, v). (k, f v)) (dict_update d e) =
     dict_update (map (\<lambda>(k, v). (k, f v)) d) (map (\<lambda>(k, v). (k, f v)) e)"
  by (induction e arbitrary: d) (auto simp: map_dict_set)

lemma map_of_map_snd: "map_of (map (\<lambda>(k, v). (k, f k v)) d) k = map_option (f k) (map_of d k)"
  by (induction d) auto

text \<open>\<open>par[k]\<close> on a decoded value: a missing key raises \<open>KeyError\<close>, a non-dictionary \<open>TypeError\<close>.\<close>

definition py_item :: "pyval \<Rightarrow> string \<Rightarrow> pyval res" where
  "py_item v k = (case v of
     PDict d \<Rightarrow> (case dict_get d k of None \<Rightarrow> Inl KeyError | Some x \<Rightarrow> Inr x)
   | _ \<Rightarrow> Inl TypeError)"

text \<open>\<open>par.get(k, default)\<close>: only dictionaries have the method.\<close>

definition py_get :: "pyval \<Rightarrow> string \<Rightarrow> pyval \<Rightarrow> pyval res" where
  "py_get v k dflt = (case v of
     PDict d \<Rightarrow> Inr (case dict_get d k of None \<Rightarrow> dflt | Some x \<Rightarrow> x)
   | _ \<Rightarrow> Inl AttributeError)"

text \<open>Truth value of an object, as in \<open>if x:\<close>.\<close>

fun py_true :: "pyval \<Rightarrow> bool" where
  "py_true PNone = False"
| "py_true (PBool b) = b"
| "py_true (PInt i) = (i \<noteq> 0)"
| "py_true (PFloat r) = (r \<noteq> 0)"
| "py_true (PBytes b) = (b \<noteq> [])"
| "py_true (PStr s) = (s \<noteq> [])"
| "py_true (PList l) = (l \<noteq> [])"
| "py_true (PDict d) = (d \<noteq> [])"

text \<open>Nesting depth of a value; the measure of the encoder's recursion.\<close>

fun pydepth :: "pyval \<Rightarrow> nat" where
  "pydepth (PList l) = Suc (foldr max (map pydepth l) 0)"
| "pydepth (PDict d) = Suc (foldr max (map (\<lambda>kv. pydepth (snd kv)) d) 0)"
| "pydepth _ = 0"

lemma le_foldr_max: "x \<in> set xs \<Longrightarrow> (x::nat) \<le> foldr max xs 0"
  by (induction xs) auto

lemma foldr_max_le: "(\<And>x. x \<in> set xs \<Longrightarrow> x \<le> (n::nat)) \<Longrightarrow> foldr max xs 0 \<le> n"
  by (induction xs) auto

lemma pydepth_list_elem: "x \<in> set l \<Longrightarrow> pydepth x < pydepth (PList l)"
  using le_foldr_max [of "pydepth x" "map pydepth l"] by (simp add: less_Suc_eq_le)

lemma pydepth_dict_elem: "(k, x) \<in> set d \<Longrightarrow> pydepth x < pydepth (PDict d)"
  using le_foldr_max [of "pydepth x" "map (\<lambda>kv. pydepth (snd kv)) d"]
  by (force simp: less_Suc_eq_le)

lemma pydepth_item: "py_item v k = Inr x \<Longrightarrow> pydepth x < pydepth v"
  by (auto simp: py_item_def split: pyval.splits option.splits
      dest!: map_of_SomeD pydepth_dict_elem)

section \<open>Bits (\<^verbatim>\<open>sllurp/util.py\<close>)\<close>

definition BIT :: "nat \<Rightarrow> int" where
  "BIT n = push_bit n 1"

definition BITMASK :: "nat \<Rightarrow> int" where
  "BITMASK n = push_bit n 1 - 1"

text \<open>The recurring test \<open>flags & BIT(n) == BIT(n)\<close>.\<close>

definition flag_at :: "int \<Rightarrow> nat \<Rightarrow> bool" where
  "flag_at flags n \<longleftrightarrow> and flags (BIT n) = BIT n"

lemma BIT_eq: "BIT n = 2 ^ n"
  by (simp add: BIT_def push_bit_eq_mult)

lemma BITMASK_eq: "BITMASK n = mask n"
  by (simp add: BITMASK_def mask_eq_exp_minus_1 push_bit_eq_mult)

lemma flag_at_bit: "flag_at flags n \<longleftrightarrow> bit flags n"
proof -
  have "and flags (2 ^ n) = (if bit flags n then 2 ^ n else 0 :: int)"
    by (rule bit_eqI) (auto simp: bit_simps)
  then show ?thesis by (simp add: flag_at_def BIT_eq)
qed

end
