(* ===== verification/Byte_Codec.thy ===== *)
theory Byte_Codec
  imports Sllurp_Prelude
begin

text \<open>
  Network-order integers and the part of Python's \<^verbatim>\<open>struct\<close> and \<^verbatim>\<open>binascii\<close> modules
  that the codec uses.  A format such as \<open>"!BHI"\<close> is the list \<open>[U8, U16, U32]\<close>; packing checks
  each value's range, unpacking checks the exact length, as \<^verbatim>\<open>struct.Struct\<close> does.
\<close>

section \<open>Big-endian integers\<close>

fun be_bytes :: "nat \<Rightarrow> int \<Rightarrow> bytes" where
  "be_bytes 0 i = []"
| "be_bytes (Suc n) i = be_bytes n (i div 256) @ [word_of_int i]"

fun be_val_acc :: "int \<Rightarrow> bytes \<Rightarrow> int" where
  "be_val_acc a [] = a"
| "be_val_acc a (b # bs) = be_val_acc (a * 256 + uint b) bs"

definition be_val :: "bytes \<Rightarrow> int" where
  "be_val bs = be_val_acc 0 bs"

lemma length_be_bytes [simp, byte_simps]: "length (be_bytes n i) = n"
  by (induction n arbitrary: i) auto

lemma be_bytes_numeral:
  "be_bytes (numeral k) i = be_bytes (pred_numeral k) (i div 256) @ [word_of_int i]"
  by (simp add: numeral_eq_Suc)

lemma be_val_acc_append: "be_val_acc a (xs @ ys) = be_val_acc (be_val_acc a xs) ys"
  by (induction xs arbitrary: a) auto

lemma be_val_Nil [simp]: "be_val [] = 0"
  by (simp add: be_val_def)

lemma be_val_snoc [simp]: "be_val (xs @ [b]) = be_val xs * 256 + uint b"
  by (simp add: be_val_def be_val_acc_append)

lemma uint_byte_bound: "uint (b :: byte) < 256" "0 \<le> uint (b :: byte)"
  using uint_bounded [of b] by simp_all

lemma be_val_nonneg: "0 \<le> be_val bs"
  by (induction bs rule: rev_induct) auto

lemma be_val_bound: "be_val bs < 256 ^ length bs"
proof (induction bs rule: rev_induct)
  case Nil
  then show ?case by simp
next
  case (snoc b bs)
  then have "be_val bs * 256 + 256 \<le> 256 ^ length bs * 256" by linarith
  with uint_byte_bound(1) [of b] show ?case by (simp add: mult.commute)
qed

lemma be_val_be_bytes [byte_simps]: "be_val (be_bytes n i) = i mod 256 ^ n"
proof (induction n arbitrary: i)
  case 0
  then show ?case by simp
next
  case (Suc n)
  have "uint (word_of_int i :: byte) = i mod 256"
    by (simp add: uint_word_of_int)
  with Suc show ?case
    using zmod_zmult2_eq [of "256 ^ n" i 256] by (simp add: mult.commute)
qed

lemma be_bytes_be_val [byte_simps]: "be_bytes (length bs) (be_val bs) = bs"
proof (induction bs rule: rev_induct)
  case Nil
  then show ?case by simp
next
  case (snoc b bs)
  have "(be_val bs * 256 + uint b) div 256 = be_val bs"
    using uint_byte_bound [of b] by simp
  moreover have "(word_of_int (be_val bs * 256 + uint b) :: byte) = b"
  proof -
    have "take_bit 8 (be_val bs * 256 + uint b) = take_bit 8 (uint b)"
      by (simp only: take_bit_eq_mod) simp
    then have "(word_of_int (be_val bs * 256 + uint b) :: byte) = word_of_int (uint b)"
      by (simp only: word_of_int_eq_iff) simp
    then show ?thesis by (simp only: word_of_int_uint)
  qed
  ultimately show ?case using snoc by simp
qed

lemma be_bytes_mod: "be_bytes n (i mod 256 ^ n) = be_bytes n i"
  by (metis be_bytes_be_val be_val_be_bytes length_be_bytes)

section \<open>\<^verbatim>\<open>struct.pack\<close> and \<^verbatim>\<open>struct.unpack\<close>\<close>

datatype fmt = U8 | U16 | U32 | U64 | S8 | S16

fun fmt_size :: "fmt \<Rightarrow> nat" where
  "fmt_size U8 = 1" | "fmt_size S8 = 1" | "fmt_size U16 = 2" | "fmt_size S16 = 2"
| "fmt_size U32 = 4" | "fmt_size U64 = 8"

fun fmt_signed :: "fmt \<Rightarrow> bool" where
  "fmt_signed S8 = True" | "fmt_signed S16 = True" | "fmt_signed _ = False"

definition fmt_lo :: "fmt \<Rightarrow> int" where
  "fmt_lo f = (if fmt_signed f then - (2 ^ (8 * fmt_size f - 1)) else 0)"

definition fmt_hi :: "fmt \<Rightarrow> int" where
  "fmt_hi f = (if fmt_signed f then 2 ^ (8 * fmt_size f - 1) else 2 ^ (8 * fmt_size f))"

definition in_range :: "fmt \<Rightarrow> int \<Rightarrow> bool" where
  "in_range f i \<longleftrightarrow> fmt_lo f \<le> i \<and> i < fmt_hi f"

definition pack1 :: "fmt \<Rightarrow> int \<Rightarrow> bytes res" where
  "pack1 f i = (if in_range f i then Inr (be_bytes (fmt_size f) i) else Inl StructError)"

definition unpack1 :: "fmt \<Rightarrow> bytes \<Rightarrow> int" where
  "unpack1 f bs = (let v = be_val bs in
     if fmt_signed f \<and> 2 ^ (8 * fmt_size f - 1) \<le> v then v - 2 ^ (8 * fmt_size f) else v)"

definition struct_size :: "fmt list \<Rightarrow> nat" where
  "struct_size fs = sum_list (map fmt_size fs)"

fun struct_pack :: "fmt list \<Rightarrow> int list \<Rightarrow> bytes res" where
  "struct_pack [] [] = Inr []"
| "struct_pack (f # fs) (i # is) =
     bindE (pack1 f i) (\<lambda>b. bindE (struct_pack fs is) (\<lambda>bs. Inr (b @ bs)))"
| "struct_pack _ _ = Inl StructError"

fun unpack_all :: "fmt list \<Rightarrow> bytes \<Rightarrow> int list" where
  "unpack_all [] bs = []"
| "unpack_all (f # fs) bs =
     unpack1 f (take (fmt_size f) bs) # unpack_all fs (drop (fmt_size f) bs)"

definition struct_unpack :: "fmt list \<Rightarrow> bytes \<Rightarrow> int list res" where
  "struct_unpack fs bs =
     (if length bs = struct_size fs then Inr (unpack_all fs bs) else Inl StructError)"

lemma struct_size_simps [simp]:
  "struct_size [] = 0" "struct_size (f # fs) = fmt_size f + struct_size fs"
  by (simp_all add: struct_size_def)

lemma fmt_size_pos: "0 < fmt_size f"
  by (cases f) auto

lemma mod_wrap_negative: "- m \<le> i \<Longrightarrow> i < 0 \<Longrightarrow> i mod m = i + m" for i m :: int
  using mod_pos_pos_trivial [of "i + m" m] by simp

lemma pow256: "(256 :: int) ^ n = 2 ^ (8 * n)"
  by (simp add: power_mult)

lemma unpack1_be_bytes [byte_simps]:
  assumes "in_range f i"
  shows "unpack1 f (be_bytes (fmt_size f) i) = i"
proof (cases "fmt_signed f")
  case False
  with assms show ?thesis
    by (simp add: unpack1_def be_val_be_bytes in_range_def fmt_lo_def fmt_hi_def pow256)
next
  case True
  define h where "h = (2 :: int) ^ (8 * fmt_size f - 1)"
  then have h: "2 ^ (8 * fmt_size f - Suc 0) = h" by simp
  have two: "2 ^ (8 * fmt_size f) = 2 * h"
    using fmt_size_pos [of f] by (simp add: h_def power_eq_if)
  from assms True have i: "- h \<le> i" "i < h"
    by (simp_all add: in_range_def fmt_lo_def fmt_hi_def h_def)
  have "be_val (be_bytes (fmt_size f) i) = i mod (2 * h)"
    by (simp add: be_val_be_bytes pow256 two)
  also have "\<dots> = (if 0 \<le> i then i else i + 2 * h)"
    using i by (simp add: mod_wrap_negative)
  finally show ?thesis
    using True i by (auto simp: unpack1_def two h Let_def)
qed

lemma unpack1_range: "length bs = fmt_size f \<Longrightarrow> in_range f (unpack1 f bs)"
proof -
  assume len: "length bs = fmt_size f"
  define h where "h = (2 :: int) ^ (8 * fmt_size f - 1)"
  then have h: "2 ^ (8 * fmt_size f - Suc 0) = h" by simp
  have two: "2 ^ (8 * fmt_size f) = 2 * h"
    using fmt_size_pos [of f] by (simp add: h_def power_eq_if)
  have "0 \<le> be_val bs" "be_val bs < 2 * h"
    using be_val_nonneg be_val_bound [of bs] by (simp_all add: len pow256 two)
  then show ?thesis
    by (auto simp: in_range_def fmt_lo_def fmt_hi_def unpack1_def two h Let_def)
qed

lemma be_bytes_unpack1 [byte_simps]:
  "length bs = fmt_size f \<Longrightarrow> be_bytes (fmt_size f) (unpack1 f bs) = bs"
proof -
  assume len: "length bs = fmt_size f"
  have "unpack1 f bs mod 256 ^ fmt_size f = be_val bs mod 256 ^ fmt_size f"
    by (auto simp: unpack1_def Let_def pow256 minus_mod_self2)
  then have "be_bytes (fmt_size f) (unpack1 f bs) = be_bytes (fmt_size f) (be_val bs)"
    by (metis be_bytes_mod)
  with len show ?thesis by (metis be_bytes_be_val)
qed

lemma pack1_Inr [res_simps]: "pack1 f i = Inr b \<longleftrightarrow> in_range f i \<and> b = be_bytes (fmt_size f) i"
  by (auto simp: pack1_def)

lemma length_unpack_all [simp]: "length (unpack_all fs bs) = length fs"
  by (induction fs arbitrary: bs) auto

lemma struct_pack_length: "struct_pack fs is = Inr b \<Longrightarrow> length b = struct_size fs"
  by (induction fs "is" arbitrary: b rule: struct_pack.induct) (auto simp: res_simps)

lemma struct_pack_total:
  "list_all2 in_range fs is \<Longrightarrow>
     \<exists>b. struct_pack fs is = Inr b \<and> length b = struct_size fs"
  by (induction fs "is" rule: list_all2_induct) (auto simp: pack1_def)

lemma struct_pack_args: "struct_pack fs is = Inr b \<Longrightarrow> list_all2 in_range fs is"
  by (induction fs "is" arbitrary: b rule: struct_pack.induct) (auto simp: res_simps)

lemma struct_pack_error: "struct_pack fs is = Inl e \<Longrightarrow> e = StructError"
  by (induction fs "is" arbitrary: e rule: struct_pack.induct)
    (auto simp: res_simps pack1_def split: if_splits)

lemma unpack_all_pack: "struct_pack fs is = Inr b \<Longrightarrow> unpack_all fs (b @ rest) = is"
  by (induction fs "is" arbitrary: b rule: struct_pack.induct) (auto simp: res_simps byte_simps)

lemma struct_unpack_pack [byte_simps]: "struct_pack fs is = Inr b \<Longrightarrow> struct_unpack fs b = Inr is"
  using unpack_all_pack [of fs "is" b "[]"] by (simp add: struct_unpack_def struct_pack_length)

lemma struct_unpack_pack_prefix:
  "struct_pack fs is = Inr b \<Longrightarrow> struct_unpack fs (take (struct_size fs) (b @ rest)) = Inr is"
  by (simp add: struct_pack_length [symmetric] struct_unpack_pack)

lemma struct_pack_unpack:
  "struct_unpack fs bs = Inr is \<Longrightarrow> struct_pack fs is = Inr bs"
proof (induction fs arbitrary: bs "is")
  case Nil
  then show ?case by (simp add: struct_unpack_def split: if_splits)
next
  case (Cons f fs)
  let ?h = "take (fmt_size f) bs" and ?t = "drop (fmt_size f) bs"
  from Cons.prems have len: "length bs = fmt_size f + struct_size fs"
    and "is": "is = unpack1 f ?h # unpack_all fs ?t"
    by (auto simp: struct_unpack_def split: if_splits)
  from len have h: "length ?h = fmt_size f" and t: "length ?t = struct_size fs" by simp_all
  have "struct_pack fs (unpack_all fs ?t) = Inr ?t"
    using t by (intro Cons.IH) (simp add: struct_unpack_def)
  with "is" show ?case
    by (simp add: pack1_def unpack1_range [OF h] be_bytes_unpack1 [OF h])
qed

lemma struct_unpack_Inr: "struct_unpack fs bs = Inr is \<Longrightarrow> length bs = struct_size fs \<and> length is = length fs"
  by (auto simp: struct_unpack_def split: if_splits)

lemma struct_unpack_range: "struct_unpack fs bs = Inr is \<Longrightarrow> list_all2 in_range fs is"
  by (blast dest: struct_pack_unpack struct_pack_args)

text \<open>Packing a Python value: \<open>bool\<close> is an \<open>int\<close>, everything else is a \<open>struct.error\<close>.\<close>

definition pack_arg :: "pyval \<Rightarrow> int res" where
  "pack_arg v = (case v of PInt i \<Rightarrow> Inr i | PBool b \<Rightarrow> Inr (if b then 1 else 0)
     | _ \<Rightarrow> Inl StructError)"

definition pack_vals :: "fmt list \<Rightarrow> pyval list \<Rightarrow> bytes res" where
  "pack_vals fs vs = bindE (mapE pack_arg vs) (struct_pack fs)"

lemma pack_vals_PInt [simp]: "pack_vals fs (map PInt is) = struct_pack fs is"
proof -
  have "mapE pack_arg (map PInt is) = Inr is"
    by (induction "is") (auto simp: pack_arg_def)
  then show ?thesis by (simp add: pack_vals_def)
qed

lemma pack_arg_error: "pack_arg v = Inl e \<Longrightarrow> e = StructError"
  by (auto simp: pack_arg_def split: pyval.splits)

lemma pack_vals_error: "pack_vals fs vs = Inl e \<Longrightarrow> e = StructError"
  by (auto simp: pack_vals_def res_simps dest: struct_pack_error pack_arg_error mapE_error)

section \<open>Hexadecimal text (\<^verbatim>\<open>binascii\<close>)\<close>

definition nibble_char :: "nat \<Rightarrow> byte" where
  "nibble_char n = word_of_nat (if n < 10 then 48 + n else 87 + n)"

definition hexlify :: "bytes \<Rightarrow> bytes" where
  "hexlify bs = concat (map (\<lambda>b. [nibble_char (unat b div 16), nibble_char (unat b mod 16)]) bs)"

text \<open>The value of a hexadecimal digit, by its ASCII code; \<^verbatim>\<open>unhexlify\<close> takes both cases.\<close>

definition hex_digit :: "nat \<Rightarrow> nat option" where
  "hex_digit c = (if 48 \<le> c \<and> c \<le> 57 then Some (c - 48)
     else if 97 \<le> c \<and> c \<le> 102 then Some (c - 87)
     else if 65 \<le> c \<and> c \<le> 70 then Some (c - 55) else None)"

fun unhexlify :: "nat list \<Rightarrow> bytes res" where
  "unhexlify [] = Inr []"
| "unhexlify [c] = Inl ValueError"
| "unhexlify (c # d # cs) =
     (case (hex_digit c, hex_digit d) of
        (Some h, Some l) \<Rightarrow> bindE (unhexlify cs) (\<lambda>bs. Inr (word_of_nat (16 * h + l) # bs))
      | _ \<Rightarrow> Inl ValueError)"

definition char_codes :: "string \<Rightarrow> nat list" where
  "char_codes s = map of_char s"

lemma length_hexlify [simp]: "length (hexlify bs) = 2 * length bs"
  by (simp add: hexlify_def length_concat sum_list_triv o_def)

lemma unat_nibble_char: "n < 16 \<Longrightarrow> unat (nibble_char n) = (if n < 10 then 48 + n else 87 + n)"
  by (simp add: nibble_char_def unat_of_nat)

lemma hex_digit_nibble: "n < 16 \<Longrightarrow> hex_digit (unat (nibble_char n)) = Some n"
  by (auto simp: unat_nibble_char hex_digit_def)

lemma unhexlify_hexlify [byte_simps]: "unhexlify (map unat (hexlify bs)) = Inr bs"
proof (induction bs)
  case Nil
  then show ?case by (simp add: hexlify_def)
next
  case (Cons b bs)
  have "unat b < 2 ^ LENGTH(8)" by (rule unsigned_less)
  then have "unat b div 16 < 16" by simp
  moreover have "word_of_nat (16 * (unat b div 16) + unat b mod 16) = b"
    by simp
  moreover have "map unat (hexlify (b # bs)) =
      unat (nibble_char (unat b div 16)) # unat (nibble_char (unat b mod 16)) # map unat (hexlify bs)"
    by (simp add: hexlify_def)
  ultimately show ?case using Cons by (simp add: hex_digit_nibble)
qed

end
