(* ===== verification/Header_Codec.thy ===== *)
theory Header_Codec
  imports Byte_Codec
begin

unbundle bit_operations_syntax

text \<open>
  \<^verbatim>\<open>sllurp/llrp_decoder.py\<close>: the headers of messages and parameters.  A message header is
  reserved(3) version(3) type(10), a 32-bit total length and a 32-bit message id; a custom
  message adds a 32-bit vendor and an 8-bit subtype.  A TV parameter header is one byte with
  its top bit set; a TLV header is a 10-bit type and a 16-bit total length, and a custom TLV
  adds vendor and subtype words.  The lemmas at the end are the round trips of the three
  header forms and the bounds every decoded header satisfies.
\<close>

section \<open>Formats and constants\<close>

definition msg_header_struct :: "fmt list" where
  "msg_header_struct = [U16, U32, U32]"

definition msg_vendor_subtype_struct :: "fmt list" where
  "msg_vendor_subtype_struct = [U32, U8]"

definition msg_header_custom_struct :: "fmt list" where
  "msg_header_custom_struct = [U16, U32, U32, U32, U8]"

definition tlv_par_header_struct :: "fmt list" where
  "tlv_par_header_struct = [U16, U16]"

definition par_vendor_subtype_struct :: "fmt list" where
  "par_vendor_subtype_struct = [U32, U32]"

definition TYPE_CUSTOM :: int where "TYPE_CUSTOM = 1023"
definition VENDOR_ID_IMPINJ :: int where "VENDOR_ID_IMPINJ = 25882"
definition VENDOR_ID_MOTOROLA :: int where "VENDOR_ID_MOTOROLA = 161"

text \<open>
  The body format of a TV parameter: integers, or a raw byte string as in \<open>"!12s"\<close>.
\<close>

datatype tv_format = TVInts "fmt list" | TVRaw nat

fun tv_size :: "tv_format \<Rightarrow> nat" where
  "tv_size (TVInts fs) = struct_size fs"
| "tv_size (TVRaw n) = n"

definition TVE_PARAM_FORMATS :: "(int \<times> string \<times> tv_format) list" where
  "TVE_PARAM_FORMATS = [
    (1, ''AntennaID'', TVInts [U16]),
    (2, ''FirstSeenTimestampUTC'', TVInts [U64]),
    (3, ''FirstSeenTimestampUptime'', TVInts [U64]),
    (4, ''LastSeenTimestampUTC'', TVInts [U64]),
    (5, ''LastSeenTimestampUptime'', TVInts [U64]),
    (6, ''PeakRSSI'', TVInts [S8]),
    (7, ''ChannelIndex'', TVInts [U16]),
    (8, ''TagSeenCount'', TVInts [U16]),
    (9, ''ROSpecID'', TVInts [U32]),
    (10, ''InventoryParameterSpecID'', TVInts [U16]),
    (11, ''C1G2CRC'', TVInts [U16]),
    (12, ''C1G2PC'', TVInts [U16]),
    (13, ''EPC-96'', TVRaw 12),
    (14, ''SpecIndex'', TVInts [U16]),
    (15, ''ClientRequestOpSpecResult'', TVInts [U16]),
    (16, ''AccessSpecID'', TVInts [U32]),
    (17, ''OpSpecID'', TVInts [U16]),
    (18, ''C1G2SingulationDetails'', TVInts [U16, U16]),
    (19, ''C1G2XPCW1'', TVInts [U16]),
    (20, ''C1G2XPCW2'', TVInts [U16])]"

section \<open>Message headers\<close>

definition msg_header_encode :: "int \<Rightarrow> int \<Rightarrow> nat \<Rightarrow> int \<Rightarrow> int \<Rightarrow> int \<Rightarrow> bytes res" where
  "msg_header_encode msgtype version len msgid vendorid subtype =
    (let ver = version AND 0x07; msgtype = msgtype AND 0x03FF in
     if msgtype = TYPE_CUSTOM
     then struct_pack msg_header_custom_struct
            [push_bit 10 ver OR msgtype, int (struct_size msg_header_custom_struct + len),
             msgid, vendorid, subtype]
     else struct_pack msg_header_struct
            [push_bit 10 ver OR msgtype, int (struct_size msg_header_struct + len), msgid])"

record msg_header =
  mh_type :: int
  mh_vendor :: int
  mh_subtype :: int
  mh_version :: int
  mh_hdr_len :: nat
  mh_length :: nat
  mh_id :: int

definition msg_header_decode :: "bytes \<Rightarrow> msg_header res" where
  "msg_header_decode data =
    (if length data < struct_size msg_header_struct then Inl ValueError
     else case struct_unpack msg_header_struct (take (struct_size msg_header_struct) data) of
       Inr [msgtype, len, msgid] \<Rightarrow>
        (let hdr_len = struct_size msg_header_struct;
             version = drop_bit 10 msgtype AND 0x07;
             msgtype = msgtype AND 0x03FF
         in if msgtype = TYPE_CUSTOM
            then (let custom_size = hdr_len + struct_size msg_vendor_subtype_struct in
              if length data < custom_size then Inl ValueError
              else case struct_unpack msg_vendor_subtype_struct
                          (take (custom_size - hdr_len) (drop hdr_len data)) of
                 Inr [vendorid, subtype] \<Rightarrow>
                  (if len < int custom_size then Inl ValueError
                   else Inr \<lparr>mh_type = msgtype, mh_vendor = vendorid, mh_subtype = subtype,
                     mh_version = version, mh_hdr_len = custom_size, mh_length = nat len,
                     mh_id = msgid\<rparr>)
               | _ \<Rightarrow> Inl ValueError)
            else (if len < int hdr_len then Inl ValueError
                  else Inr \<lparr>mh_type = msgtype, mh_vendor = 0, mh_subtype = 0,
                    mh_version = version, mh_hdr_len = hdr_len, mh_length = nat len,
                    mh_id = msgid\<rparr>))
     | _ \<Rightarrow> Inl ValueError)"

section \<open>Parameter headers\<close>

text \<open>
  A decoded parameter header is \<open>(type or None, vendor, subtype, header length, total length)\<close>.
\<close>

type_synonym par_header = "int option \<times> int \<times> int \<times> nat \<times> nat"

definition no_header :: par_header where
  "no_header = (None, 0, 0, 0, 0)"

definition tlv_param_header_decode :: "bytes \<Rightarrow> par_header res" where
  "tlv_param_header_decode data =
    (if length data < struct_size tlv_par_header_struct then Inr no_header
     else bindE (struct_unpack tlv_par_header_struct
                   (take (struct_size tlv_par_header_struct) data)) (\<lambda>vs.
       case vs of [partype, len] \<Rightarrow>
        (let hdr_len = struct_size tlv_par_header_struct in
         if len < int hdr_len then Inl ValueError
         else let partype = partype AND 0x03FF in
           if partype \<noteq> TYPE_CUSTOM then Inr (Some partype, 0, 0, hdr_len, nat len)
           else let custom_header_size = hdr_len + struct_size par_vendor_subtype_struct in
             if length data < custom_header_size then Inr no_header
             else if len < int custom_header_size then Inl ValueError
             else bindE (struct_unpack par_vendor_subtype_struct
                    (take (struct_size par_vendor_subtype_struct) (drop hdr_len data))) (\<lambda>ws.
               case ws of [vendorid, subtype] \<Rightarrow>
                  Inr (Some partype, vendorid, subtype, custom_header_size, nat len)
               | _ \<Rightarrow> Inl StructError))
       | _ \<Rightarrow> Inl StructError))"

definition tve_param_header_decode :: "bytes \<Rightarrow> int option \<times> nat \<times> nat" where
  "tve_param_header_decode data =
    (case data of [] \<Rightarrow> (None, 0, 0)
     | b # _ \<Rightarrow>
        (let tve_msgtype = uint b in
         if tve_msgtype AND 0b10000000 = 0 then (None, 0, 0)
         else let tve_msgtype = tve_msgtype AND 0x7F in
           case map_of TVE_PARAM_FORMATS tve_msgtype of
             None \<Rightarrow> (None, 0, 0)
           | Some (param_name, param_struct) \<Rightarrow> (Some tve_msgtype, 1, 1 + tv_size param_struct)))"

text \<open>\<open>if not partype\<close>: a missing type and type 0 are both falsy.\<close>

definition falsy_type :: "int option \<Rightarrow> bool" where
  "falsy_type t \<longleftrightarrow> t = None \<or> t = Some 0"

definition param_header_decode :: "bytes \<Rightarrow> par_header res" where
  "param_header_decode data =
    (if length data < 1 then Inr no_header
     else case tve_param_header_decode data of (partype, hdr_len, full_length) \<Rightarrow>
       if falsy_type partype then tlv_param_header_decode data
       else Inr (partype, 0, 0, hdr_len, full_length))"

section \<open>Properties\<close>

lemma mask10: "(0x03FF :: int) = mask 10" and mask3: "(0x07 :: int) = mask 3"
  and mask7: "(0x7F :: int) = mask 7"
  by (simp_all add: mask_eq_exp_minus_1)

lemma and_3FF: "x AND 0x03FF = take_bit 10 x" and and_7: "x AND 0x07 = take_bit 3 x"
  and and_7F: "x AND 0x7F = take_bit 7 x" for x :: int
  unfolding mask10 mask3 mask7 by (simp_all flip: take_bit_eq_mask)

lemma header_word_type: "(push_bit 10 v OR take_bit 10 t) AND 0x03FF = take_bit 10 t" for v t :: int
  unfolding and_3FF by (rule bit_eqI) (auto simp: bit_simps)

lemma header_word_version:
  "drop_bit 10 (push_bit 10 (take_bit 3 v) OR take_bit 10 t) AND 0x07 = take_bit 3 v" for v t :: int
  unfolding and_7 by (rule bit_eqI) (auto simp: bit_simps)

lemma header_word_range: "in_range U16 (push_bit 10 (take_bit 3 v) OR take_bit 10 t)"
proof -
  have "take_bit 13 (push_bit 10 (take_bit 3 v) OR take_bit 10 t) = push_bit 10 (take_bit 3 v) OR take_bit 10 t"
    by (rule bit_eqI) (auto simp: bit_simps)
  then have "0 \<le> push_bit 10 (take_bit 3 v) OR take_bit 10 t"
    "push_bit 10 (take_bit 3 v) OR take_bit 10 t < 2 ^ 13"
    by (metis take_bit_nonnegative, metis take_bit_int_less_exp)
  then show ?thesis by (simp add: in_range_def fmt_lo_def fmt_hi_def)
qed

lemma take_bit_small: "0 \<le> x \<Longrightarrow> x < 2 ^ n \<Longrightarrow> take_bit n x = x" for x :: int
  by (simp add: take_bit_int_eq_self_iff)

lemma header_formats [simp]:
  "struct_size msg_header_struct = 10" "struct_size msg_vendor_subtype_struct = 5"
  "struct_size msg_header_custom_struct = 15" "struct_size tlv_par_header_struct = 4"
  "struct_size par_vendor_subtype_struct = 8"
  by (simp_all add: msg_header_struct_def msg_vendor_subtype_struct_def
      msg_header_custom_struct_def tlv_par_header_struct_def par_vendor_subtype_struct_def)

text \<open>The header a message of the given identity and body length is framed with.\<close>

definition header_len :: "int \<Rightarrow> nat" where
  "header_len t = (if t = TYPE_CUSTOM then 15 else 10)"

definition header_args_ok :: "int \<Rightarrow> int \<Rightarrow> nat \<Rightarrow> int \<Rightarrow> int \<Rightarrow> int \<Rightarrow> bool" where
  "header_args_ok t ver len msgid vid sub \<longleftrightarrow>
     0 \<le> t \<and> t < 1024 \<and> 0 \<le> ver \<and> ver < 8 \<and> in_range U32 msgid \<and>
     header_len t + len < 2 ^ 32 \<and>
     (if t = TYPE_CUSTOM then in_range U32 vid \<and> in_range U8 sub else vid = 0 \<and> sub = 0)"

lemma in_range_unsigned:
  "in_range U8 i \<longleftrightarrow> 0 \<le> i \<and> i < 2 ^ 8" "in_range U16 i \<longleftrightarrow> 0 \<le> i \<and> i < 2 ^ 16"
  "in_range U32 i \<longleftrightarrow> 0 \<le> i \<and> i < 2 ^ 32" "in_range U64 i \<longleftrightarrow> 0 \<le> i \<and> i < 2 ^ 64"
  by (simp_all add: in_range_def fmt_lo_def fmt_hi_def)

lemma struct_pack_append:
  "length fs = length is \<Longrightarrow> struct_pack (fs @ gs) (is @ js) =
     bindE (struct_pack fs is) (\<lambda>a. bindE (struct_pack gs js) (\<lambda>b. Inr (a @ b)))"
  by (induction fs "is" rule: list_induct2) (auto simp: bindE_assoc intro!: bindE_cong)

lemma msg_header_roundtrip_plain:
  assumes ok: "header_args_ok t ver len msgid vid sub" and t: "t \<noteq> TYPE_CUSTOM"
  obtains h where "msg_header_encode t ver len msgid vid sub = Inr h" "length h = 10"
    "\<And>body. msg_header_decode (h @ body) = Inr \<lparr>mh_type = t, mh_vendor = 0, mh_subtype = 0,
       mh_version = ver, mh_hdr_len = 10, mh_length = 10 + len, mh_id = msgid\<rparr>"
proof -
  let ?w = "push_bit 10 ver OR t"
  have tb: "take_bit 10 t = t" "take_bit 3 ver = ver"
    using ok by (simp_all add: header_args_ok_def take_bit_small)
  have w: "in_range U16 ?w" "?w AND 0x03FF = t" "drop_bit 10 ?w AND 0x07 = ver"
    using header_word_range [of ver t] header_word_type [of ver t] header_word_version [of ver t]
    by (simp_all only: tb)
  have "list_all2 in_range msg_header_struct [?w, int (10 + len), msgid]"
    using ok w(1) t by (simp add: msg_header_struct_def header_args_ok_def header_len_def in_range_unsigned)
  from struct_pack_total [OF this] obtain h where
    h: "struct_pack msg_header_struct [?w, int (10 + len), msgid] = Inr h" and lh: "length h = 10"
    by auto
  have enc: "msg_header_encode t ver len msgid vid sub = Inr h"
    using h t by (simp add: msg_header_encode_def and_3FF and_7 tb Let_def)
  have "msg_header_decode (h @ body) = Inr \<lparr>mh_type = t, mh_vendor = 0, mh_subtype = 0,
       mh_version = ver, mh_hdr_len = 10, mh_length = 10 + len, mh_id = msgid\<rparr>" for body
    using lh t w(2,3) struct_unpack_pack [OF h]
    by (simp add: msg_header_decode_def Let_def nat_add_distrib)
  with enc lh show thesis by (rule that)
qed

lemma msg_header_roundtrip_custom:
  assumes ok: "header_args_ok TYPE_CUSTOM ver len msgid vid sub"
  obtains h where "msg_header_encode TYPE_CUSTOM ver len msgid vid sub = Inr h" "length h = 15"
    "\<And>body. msg_header_decode (h @ body) = Inr \<lparr>mh_type = TYPE_CUSTOM, mh_vendor = vid,
       mh_subtype = sub, mh_version = ver, mh_hdr_len = 15, mh_length = 15 + len, mh_id = msgid\<rparr>"
proof -
  let ?w = "push_bit 10 ver OR TYPE_CUSTOM"
  have tb: "take_bit 10 TYPE_CUSTOM = TYPE_CUSTOM" "take_bit 3 ver = ver"
    using ok by (simp_all add: header_args_ok_def take_bit_small TYPE_CUSTOM_def)
  have w: "in_range U16 ?w" "?w AND 0x03FF = TYPE_CUSTOM" "drop_bit 10 ?w AND 0x07 = ver"
    using header_word_range [of ver TYPE_CUSTOM] header_word_type [of ver TYPE_CUSTOM]
      header_word_version [of ver TYPE_CUSTOM]
    by (simp_all only: tb)
  have "list_all2 in_range msg_header_struct [?w, int (15 + len), msgid]"
    using ok w(1) by (simp add: msg_header_struct_def header_args_ok_def header_len_def in_range_unsigned)
  from struct_pack_total [OF this] obtain h where
    h: "struct_pack msg_header_struct [?w, int (15 + len), msgid] = Inr h" and lh: "length h = 10"
    by auto
  have "list_all2 in_range msg_vendor_subtype_struct [vid, sub]"
    using ok by (simp add: msg_vendor_subtype_struct_def header_args_ok_def)
  from struct_pack_total [OF this] obtain v where
    v: "struct_pack msg_vendor_subtype_struct [vid, sub] = Inr v" and lv: "length v = 5"
    by auto
  have "struct_pack msg_header_custom_struct [?w, int (15 + len), msgid, vid, sub] = Inr (h @ v)"
    using struct_pack_append [of msg_header_struct "[?w, int (15 + len), msgid]"
        msg_vendor_subtype_struct "[vid, sub]"] h v
    by (simp add: msg_header_struct_def msg_vendor_subtype_struct_def msg_header_custom_struct_def)
  then have enc: "msg_header_encode TYPE_CUSTOM ver len msgid vid sub = Inr (h @ v)"
    by (simp add: msg_header_encode_def and_3FF and_7 tb Let_def)
  have "msg_header_decode ((h @ v) @ body) = Inr \<lparr>mh_type = TYPE_CUSTOM, mh_vendor = vid,
       mh_subtype = sub, mh_version = ver, mh_hdr_len = 15, mh_length = 15 + len, mh_id = msgid\<rparr>" for body
    using lh lv w(2,3) struct_unpack_pack [OF h] struct_unpack_pack [OF v]
    by (simp add: msg_header_decode_def Let_def nat_add_distrib)
  moreover have "length (h @ v) = 15" using lh lv by simp
  ultimately show thesis using enc by (intro that)
qed

lemma msg_header_roundtrip:
  assumes "header_args_ok t ver len msgid vid sub"
  obtains h where "msg_header_encode t ver len msgid vid sub = Inr h" "length h = header_len t"
    "\<And>body. msg_header_decode (h @ body) = Inr \<lparr>mh_type = t, mh_vendor = vid, mh_subtype = sub,
       mh_version = ver, mh_hdr_len = header_len t, mh_length = header_len t + len, mh_id = msgid\<rparr>"
proof (cases "t = TYPE_CUSTOM")
  case True
  with assms show ?thesis
    by (metis msg_header_roundtrip_custom header_len_def that)
next
  case False
  with assms have "vid = 0" "sub = 0" by (simp_all add: header_args_ok_def)
  with assms False show ?thesis
    by (metis msg_header_roundtrip_plain header_len_def that)
qed

text \<open>Whatever was encoded decodes to the masked version and the exact total length.\<close>

lemma msg_header_encode_masked:
  "msg_header_encode t ver len msgid vid sub = msg_header_encode t (take_bit 3 ver) len msgid vid sub"
  by (simp add: msg_header_encode_def and_7)

lemma msg_header_encode_decode:
  assumes t: "0 \<le> t" "t < 1024" and plain: "t \<noteq> TYPE_CUSTOM \<Longrightarrow> vid = 0 \<and> sub = 0"
    and enc: "msg_header_encode t ver len msgid vid sub = Inr h"
  shows "length h = header_len t \<and> msg_header_decode (h @ body) = Inr \<lparr>mh_type = t, mh_vendor = vid,
    mh_subtype = sub, mh_version = take_bit 3 ver, mh_hdr_len = header_len t,
    mh_length = header_len t + len, mh_id = msgid\<rparr>"
proof -
  have tb: "take_bit 10 t = t" using t by (simp add: take_bit_small)
  have v: "0 \<le> take_bit 3 ver" "take_bit 3 ver < 8"
    using take_bit_int_less_exp [of 3 ver] by simp_all
  have "header_args_ok t (take_bit 3 ver) len msgid vid sub"
  proof (cases "t = TYPE_CUSTOM")
    case True
    with enc have "struct_pack msg_header_custom_struct
        [push_bit 10 (take_bit 3 ver) OR t, int (15 + len), msgid, vid, sub] = Inr h"
      using tb by (simp add: msg_header_encode_def and_3FF and_7 Let_def)
    from struct_pack_args [OF this] show ?thesis
      using True t v by (simp add: header_args_ok_def header_len_def msg_header_custom_struct_def in_range_unsigned)
  next
    case False
    with enc have "struct_pack msg_header_struct
        [push_bit 10 (take_bit 3 ver) OR t, int (10 + len), msgid] = Inr h"
      using tb by (simp add: msg_header_encode_def and_3FF and_7 Let_def)
    from struct_pack_args [OF this] show ?thesis
      using False t v plain by (simp add: header_args_ok_def header_len_def msg_header_struct_def in_range_unsigned)
  qed
  from msg_header_roundtrip [OF this] enc show ?thesis
    unfolding msg_header_encode_masked [of t ver] by (metis sum.inject(2))
qed

lemma msg_header_decode_error: "msg_header_decode data = Inl e \<Longrightarrow> e = ValueError"
  by (auto simp: msg_header_decode_def Let_def split: if_splits sum.splits list.splits)

lemma msg_header_decode_bounds:
  "msg_header_decode data = Inr h \<Longrightarrow>
     mh_hdr_len h = header_len (mh_type h) \<and> mh_hdr_len h \<le> mh_length h \<and>
     mh_hdr_len h \<le> length data \<and> 0 \<le> mh_type h \<and> mh_type h < 1024"
  by (auto simp: msg_header_decode_def Let_def header_len_def TYPE_CUSTOM_def and_3FF
      simp: take_bit_int_less_exp [of 10, simplified]
      split: if_splits sum.splits list.splits)

lemma tlv_param_header_decode_error: "tlv_param_header_decode data = Inl e \<Longrightarrow> e \<in> {ValueError, StructError}"
  by (auto simp: tlv_param_header_decode_def Let_def res_simps struct_unpack_def
      split: if_splits list.splits)

lemma struct_unpack_2: "length bs = struct_size [f, g] \<Longrightarrow> \<exists>a b. struct_unpack [f, g] bs = Inr [a, b]"
  by (simp add: struct_unpack_def)

lemma tlv_param_header_decode_ValueError:
  "tlv_param_header_decode data = Inl e \<Longrightarrow> e = ValueError"
  using struct_unpack_2 [of "take 4 data" U16 U16] struct_unpack_2 [of "take 8 (drop 4 data)" U32 U32]
  by (auto simp: tlv_param_header_decode_def Let_def tlv_par_header_struct_def
      par_vendor_subtype_struct_def struct_unpack_def split: if_splits)

lemma param_header_decode_error: "param_header_decode data = Inl e \<Longrightarrow> e = ValueError"
  by (auto simp: param_header_decode_def dest: tlv_param_header_decode_ValueError
      split: if_splits prod.splits)

lemma take_bit_10_bounds: "0 \<le> take_bit 10 x" "take_bit 10 x < 1024" for x :: int
  using take_bit_int_less_exp [of 10 x] by simp_all

lemma tlv_param_header_decode_bounds:
  assumes "tlv_param_header_decode data = Inr (Some t, v, s, hl, n)"
  shows "hl \<le> n \<and> 4 \<le> hl \<and> hl \<le> length data \<and> 0 \<le> t \<and> t < 1024"
proof -
  have len: "4 \<le> length data"
    using assms by (auto simp: tlv_param_header_decode_def no_header_def split: if_splits)
  then obtain p l where u: "struct_unpack tlv_par_header_struct (take 4 data) = Inr [p, l]"
    using struct_unpack_2 [of "take 4 data" U16 U16] by (auto simp: tlv_par_header_struct_def)
  show ?thesis
  proof (cases "take_bit 10 p = TYPE_CUSTOM")
    case False
    with assms len u show ?thesis
      by (auto simp: tlv_param_header_decode_def Let_def and_3FF take_bit_10_bounds split: if_splits)
  next
    case True
    with assms len u have "12 \<le> length data"
      by (auto simp: tlv_param_header_decode_def Let_def and_3FF no_header_def split: if_splits)
    then obtain a c where "struct_unpack par_vendor_subtype_struct (take 8 (drop 4 data)) = Inr [a, c]"
      using struct_unpack_2 [of "take 8 (drop 4 data)" U32 U32]
      by (auto simp: par_vendor_subtype_struct_def)
    with assms len u True show ?thesis
      by (auto simp: tlv_param_header_decode_def Let_def and_3FF TYPE_CUSTOM_def no_header_def
          split: if_splits)
  qed
qed

lemma tve_param_header_decode_bounds:
  "tve_param_header_decode data = (Some t, hl, n) \<Longrightarrow> hl \<le> n \<and> hl = 1 \<and> hl \<le> length data \<and> 1 \<le> t \<and> t \<le> 20"
  by (auto simp: tve_param_header_decode_def Let_def TVE_PARAM_FORMATS_def
      split: if_splits list.splits option.splits)

lemma param_header_decode_bounds:
  assumes "param_header_decode data = Inr (Some t, v, s, hl, n)"
  shows "hl \<le> n \<and> 1 \<le> hl \<and> hl \<le> length data \<and> 0 \<le> t \<and> t < 1024"
proof (cases "falsy_type (fst (tve_param_header_decode data))")
  case True
  with assms have "tlv_param_header_decode data = Inr (Some t, v, s, hl, n)"
    by (auto simp: param_header_decode_def no_header_def split: if_splits prod.splits)
  then show ?thesis by (auto dest: tlv_param_header_decode_bounds)
next
  case False
  with assms have "tve_param_header_decode data = (Some t, hl, n)"
    by (auto simp: param_header_decode_def no_header_def split: if_splits prod.splits)
  then show ?thesis by (auto dest: tve_param_header_decode_bounds)
qed

text \<open>A TLV header never looks like a TV header: its first byte is below 128.\<close>

lemma tlv_not_tve: "0 \<le> t \<Longrightarrow> t < 1024 \<Longrightarrow> tve_param_header_decode (be_bytes 2 t @ rest) = (None, 0, 0)"
proof -
  assume "0 \<le> t" "t < 1024"
  then have "uint (word_of_int (t div 256) :: byte) = t div 256" and b: "t div 256 < 128" "0 \<le> t div 256"
    by (simp_all add: uint_word_of_int)
  moreover have "\<not> bit (t div 256) 7" using b by (simp add: bit_iff_odd)
  then have "(t div 256) AND 2 ^ 7 = 0" by (simp only: and_exp_eq_0_iff_not_bit) simp
  ultimately show ?thesis
    by (simp add: tve_param_header_decode_def Let_def numeral_2_eq_2)
qed

lemma tlv_header_roundtrip:
  assumes t: "0 \<le> t" "t < 1024" "t \<noteq> TYPE_CUSTOM" and len: "4 + len < 65536"
  obtains h where "struct_pack tlv_par_header_struct [t, int (4 + len)] = Inr h" "length h = 4"
    "\<And>rest. param_header_decode (h @ rest) = Inr (Some t, 0, 0, 4, 4 + len)"
proof -
  have "list_all2 in_range tlv_par_header_struct [t, int (4 + len)]"
    using t len by (simp add: tlv_par_header_struct_def in_range_unsigned)
  from struct_pack_total [OF this] obtain h where
    h: "struct_pack tlv_par_header_struct [t, int (4 + len)] = Inr h" and lh: "length h = 4"
    by auto
  then obtain tl where ht: "h = be_bytes 2 t @ tl"
    by (auto simp: tlv_par_header_struct_def res_simps)
  have tb: "t AND 0x03FF = t" using t by (simp add: and_3FF take_bit_small)
  have "param_header_decode (h @ rest) = Inr (Some t, 0, 0, 4, 4 + len)" for rest
  proof -
    have "tlv_param_header_decode (h @ rest) = Inr (Some t, 0, 0, 4, 4 + len)"
      using lh t(3) struct_unpack_pack [OF h]
      by (simp add: tlv_param_header_decode_def Let_def tb nat_add_distrib)
    moreover have "tve_param_header_decode (h @ rest) = (None, 0, 0)"
      using t unfolding ht append_assoc by (intro tlv_not_tve)
    ultimately show ?thesis using lh by (simp add: param_header_decode_def falsy_type_def)
  qed
  with h lh show thesis by (rule that)
qed

definition par_custom_header_struct :: "fmt list" where
  "par_custom_header_struct = [U16, U16, U32, U32]"

lemma custom_tlv_header_roundtrip:
  assumes len: "12 + len < 65536" and vs: "in_range U32 vid" "in_range U32 sub"
  obtains h where
    "struct_pack par_custom_header_struct [TYPE_CUSTOM, int (12 + len), vid, sub] = Inr h" "length h = 12"
    "\<And>rest. param_header_decode (h @ rest) = Inr (Some TYPE_CUSTOM, vid, sub, 12, 12 + len)"
proof -
  have "list_all2 in_range tlv_par_header_struct [TYPE_CUSTOM, int (12 + len)]"
    "list_all2 in_range par_vendor_subtype_struct [vid, sub]"
    using len vs by (simp_all add: tlv_par_header_struct_def par_vendor_subtype_struct_def
        in_range_unsigned TYPE_CUSTOM_def)
  from this [THEN struct_pack_total] obtain h v where
    h: "struct_pack tlv_par_header_struct [TYPE_CUSTOM, int (12 + len)] = Inr h" and lh: "length h = 4"
    and v: "struct_pack par_vendor_subtype_struct [vid, sub] = Inr v" and lv: "length v = 8"
    by auto
  then obtain tl where ht: "h = be_bytes 2 TYPE_CUSTOM @ tl"
    by (auto simp: tlv_par_header_struct_def res_simps)
  have pack: "struct_pack par_custom_header_struct [TYPE_CUSTOM, int (12 + len), vid, sub] = Inr (h @ v)"
    using struct_pack_append [of tlv_par_header_struct "[TYPE_CUSTOM, int (12 + len)]"
        par_vendor_subtype_struct "[vid, sub]"] h v
    by (simp add: tlv_par_header_struct_def par_vendor_subtype_struct_def par_custom_header_struct_def)
  have tb: "TYPE_CUSTOM AND 0x03FF = TYPE_CUSTOM" by (simp add: TYPE_CUSTOM_def)
  have "param_header_decode ((h @ v) @ rest) = Inr (Some TYPE_CUSTOM, vid, sub, 12, 12 + len)" for rest
  proof -
    have "tlv_param_header_decode ((h @ v) @ rest) = Inr (Some TYPE_CUSTOM, vid, sub, 12, 12 + len)"
      using lh lv struct_unpack_pack [OF h] struct_unpack_pack [OF v]
      by (simp add: tlv_param_header_decode_def Let_def tb nat_add_distrib)
    moreover have "tve_param_header_decode ((h @ v) @ rest) = (None, 0, 0)"
      unfolding ht append_assoc by (intro tlv_not_tve) (simp_all add: TYPE_CUSTOM_def)
    ultimately show ?thesis using lh by (simp add: param_header_decode_def falsy_type_def)
  qed
  moreover have "length (h @ v) = 12" using lh lv by simp
  ultimately show thesis using pack by (intro that)
qed

lemma tve_header_roundtrip:
  assumes "map_of TVE_PARAM_FORMATS t = Some (nm, f)" and "t \<in> {1..20}"
  shows "param_header_decode (word_of_int (0x80 OR t) # rest) = Inr (Some t, 0, 0, 1, 1 + tv_size f)"
proof -
  have "(0x80 OR t) AND 0x80 = 0x80"
    by (rule bit_eqI) (auto simp: bit_simps)
  moreover have t: "take_bit 8 (0x80 OR t) = 0x80 OR t" "take_bit 7 (0x80 OR t) = t"
    using assms(2) by (auto simp: take_bit_or take_bit_small)
  have "uint (word_of_int (0x80 OR t) :: byte) = 0x80 OR t"
    using t(1) by (simp add: uint_word_of_int_eq)
  ultimately show ?thesis
    using assms t(2)
    by (simp add: param_header_decode_def tve_param_header_decode_def Let_def falsy_type_def and_7F)
qed

end
