(* ===== verification/Py_Values.thy ===== *)
theory Py_Values
  imports Byte_Codec
begin

text \<open>
  The built-in operations the sources apply to dictionary values of unknown type: \<open>int()\<close>,
  \<open>len()\<close>, iteration, membership, use as an operand of \<open><<\<close> or as a key of a name table.
  Each raises the exception Python raises on a value of the wrong type.  Text is ASCII.
\<close>

section \<open>Parsing integers\<close>

definition is_space :: "nat \<Rightarrow> bool" where
  "is_space c \<longleftrightarrow> c = 32 \<or> (9 \<le> c \<and> c \<le> 13)"

definition strip :: "nat list \<Rightarrow> nat list" where
  "strip cs = rev (dropWhile is_space (rev (dropWhile is_space cs)))"

definition digit_of :: "int \<Rightarrow> nat \<Rightarrow> int option" where
  "digit_of base c = (case hex_digit c of None \<Rightarrow> None
     | Some d \<Rightarrow> if int d < base then Some (int d) else None)"

text \<open>Digits, with single underscores allowed between two digits (code 95).\<close>

fun digit_seq :: "int \<Rightarrow> int \<Rightarrow> nat list \<Rightarrow> int option" where
  "digit_seq base a [] = Some a"
| "digit_seq base a (c # cs) = (case digit_of base c of
     Some d \<Rightarrow> digit_seq base (a * base + d) cs
   | None \<Rightarrow> if c \<noteq> 95 then None
       else (case cs of [] \<Rightarrow> None
         | c' # cs' \<Rightarrow> (case digit_of base c' of None \<Rightarrow> None
             | Some d \<Rightarrow> digit_seq base (a * base + d) cs')))"

text \<open>An optional sign, an optional \<open>0x\<close> in base 16, then at least one digit.\<close>

definition unsigned_int :: "int \<Rightarrow> nat list \<Rightarrow> int option" where
  "unsigned_int base cs = (case cs of
     [] \<Rightarrow> None
   | c # ds \<Rightarrow> if base = 16 \<and> c = 48 \<and> ds \<noteq> [] \<and> hd ds \<in> {120, 88}
       then (if tl ds = [] then None else digit_seq base 0 (tl ds))
       else if c = 95 then None else digit_seq base 0 cs)"

definition py_int_parse :: "int \<Rightarrow> nat list \<Rightarrow> int res" where
  "py_int_parse base cs = (case strip cs of
     [] \<Rightarrow> Inl ValueError
   | c # ds \<Rightarrow> (case (if c = 45 then map_option uminus (unsigned_int base ds)
                    else if c = 43 then unsigned_int base ds
                    else unsigned_int base (c # ds)) of
        None \<Rightarrow> Inl ValueError | Some i \<Rightarrow> Inr i))"

lemma py_int_parse_error: "py_int_parse base cs = Inl e \<Longrightarrow> e = ValueError"
  by (auto simp: py_int_parse_def split: list.splits option.splits)

text \<open>Decimal text of a natural number, as \<open>str\<close> writes it.\<close>

fun dec_str :: "nat \<Rightarrow> string" where
  "dec_str n = (if n < 10 then [char_of (48 + n)] else dec_str (n div 10) @ [char_of (48 + n mod 10)])"

declare dec_str.simps [simp del]

lemma dec_str_graphic: "c \<in> set (char_codes (dec_str n)) \<Longrightarrow> 48 \<le> c \<and> c \<le> 57"
proof (induction n rule: dec_str.induct)
  case (1 n)
  have "of_char (char_of (48 + d) :: char) = (48 + d :: nat)" if "d < 10" for d :: nat
    using that by simp
  then have "48 \<le> (of_char (char_of (48 + d) :: char) :: nat) \<and> (of_char (char_of (48 + d) :: char) :: nat) \<le> 57"
    if "d < 10" for d :: nat using that by simp
  from this [of n] this [of "n mod 10"] 1 show ?case
    by (cases "n < 10") (auto simp: dec_str.simps [of n] char_codes_def simp del: of_char_of)
qed

lemma dec_str_nonempty: "dec_str n \<noteq> []"
  by (subst dec_str.simps) simp

lemma digit_seq_append:
  "\<forall>c \<in> set xs. digit_of base c \<noteq> None \<Longrightarrow>
     digit_seq base a (xs @ ys) = (case digit_seq base a xs of None \<Rightarrow> None | Some v \<Rightarrow> digit_seq base v ys)"
  by (induction base a xs rule: digit_seq.induct) (auto split: option.splits)

lemma digit_of_dec: "48 \<le> c \<Longrightarrow> c \<le> 57 \<Longrightarrow> digit_of 10 c = Some (int c - 48)"
  by (simp add: digit_of_def hex_digit_def)

lemma digit_seq_dec_str: "digit_seq 10 0 (char_codes (dec_str n)) = Some (int n)"
proof (induction n rule: dec_str.induct)
  case (1 n)
  show ?case
  proof (cases "n < 10")
    case True
    then show ?thesis by (simp add: dec_str.simps [of n] char_codes_def digit_of_dec)
  next
    case False
    have "\<forall>c \<in> set (char_codes (dec_str (n div 10))). digit_of 10 c \<noteq> None"
      using dec_str_graphic digit_of_dec by fastforce
    moreover have "char_codes (dec_str n) = char_codes (dec_str (n div 10)) @ [48 + n mod 10]"
      using False by (subst dec_str.simps) (simp add: char_codes_def)
    moreover have "int (n div 10) * 10 + int (n mod 10) = int n"
      using div_mult_mod_eq [of n 10] by (metis of_nat_add of_nat_mult of_nat_numeral)
    ultimately show ?thesis using 1 False by (simp add: digit_seq_append digit_of_dec)
  qed
qed

lemma strip_graphic: "\<forall>c \<in> set cs. 48 \<le> c \<Longrightarrow> strip cs = cs"
proof -
  assume all: "\<forall>c \<in> set cs. 48 \<le> c"
  have "dropWhile is_space ds = ds" if "set ds \<subseteq> set cs" for ds
    using that all by (cases ds) (auto simp: is_space_def)
  then show ?thesis by (simp add: strip_def)
qed

text \<open>\<open>int(str(n)) == n\<close>.\<close>

lemma py_int_parse_dec_str: "py_int_parse 10 (char_codes (dec_str n)) = Inr (int n)"
proof -
  let ?cs = "char_codes (dec_str n)"
  have g: "\<forall>c \<in> set ?cs. 48 \<le> c \<and> c \<le> 57" using dec_str_graphic by blast
  then have "strip ?cs = ?cs" by (intro strip_graphic) blast
  moreover obtain c cs where "?cs = c # cs"
    using dec_str_nonempty [of n] by (cases "dec_str n") (auto simp: char_codes_def)
  ultimately show ?thesis
    using g digit_seq_dec_str [of n] by (auto simp: py_int_parse_def unsigned_int_def)
qed

text \<open>\<open>int(x)\<close>; a float is truncated towards zero.\<close>

definition py_int :: "pyval \<Rightarrow> int res" where
  "py_int v = (case v of
     PInt i \<Rightarrow> Inr i
   | PBool b \<Rightarrow> Inr (of_bool b)
   | PFloat r \<Rightarrow> Inr (if 0 \<le> r then \<lfloor>r\<rfloor> else \<lceil>r\<rceil>)
   | PStr s \<Rightarrow> py_int_parse 10 (char_codes s)
   | PBytes b \<Rightarrow> py_int_parse 10 (map unat b)
   | _ \<Rightarrow> Inl TypeError)"

text \<open>An integer operand, as in \<open>par['MB'] << 6\<close>.\<close>

definition py_operand :: "pyval \<Rightarrow> int res" where
  "py_operand v = (case v of PInt i \<Rightarrow> Inr i | PBool b \<Rightarrow> Inr (of_bool b) | _ \<Rightarrow> Inl TypeError)"

section \<open>Containers\<close>

definition py_len :: "pyval \<Rightarrow> int res" where
  "py_len v = (case v of
     PBytes b \<Rightarrow> Inr (int (length b))
   | PStr s \<Rightarrow> Inr (int (length s))
   | PList l \<Rightarrow> Inr (int (length l))
   | PDict d \<Rightarrow> Inr (int (length d))
   | _ \<Rightarrow> Inl TypeError)"

definition py_iter :: "pyval \<Rightarrow> pyval list res" where
  "py_iter v = (case v of
     PList l \<Rightarrow> Inr l
   | PBytes b \<Rightarrow> Inr (map (\<lambda>x. PInt (uint x)) b)
   | PStr s \<Rightarrow> Inr (map (\<lambda>c. PStr [c]) s)
   | PDict d \<Rightarrow> Inr (map (\<lambda>kv. PStr (fst kv)) d)
   | _ \<Rightarrow> Inl TypeError)"

text \<open>\<open>x.items()\<close>.\<close>

definition py_items :: "pyval \<Rightarrow> (string \<times> pyval) list res" where
  "py_items v = (case v of PDict d \<Rightarrow> Inr d | _ \<Rightarrow> Inl AttributeError)"

text \<open>Operand of \<open>bytes + x\<close>.\<close>

definition py_bytes :: "pyval \<Rightarrow> bytes res" where
  "py_bytes v = (case v of PBytes b \<Rightarrow> Inr b | _ \<Rightarrow> Inl TypeError)"

fun substring :: "string \<Rightarrow> string \<Rightarrow> bool" where
  "substring s [] = (s = [])"
| "substring s (c # cs) = (take (length s) (c # cs) = s \<or> substring s cs)"

text \<open>\<open>k in x\<close> for a string \<open>k\<close>.\<close>

definition py_in :: "string \<Rightarrow> pyval \<Rightarrow> bool res" where
  "py_in k v = (case v of
     PDict d \<Rightarrow> Inr (dict_get d k \<noteq> None)
   | PList l \<Rightarrow> Inr (PStr k \<in> set l)
   | PStr s \<Rightarrow> Inr (substring k s)
   | _ \<Rightarrow> Inl TypeError)"

section \<open>Name tables\<close>

text \<open>
  \<open>table[x]\<close> and \<open>table.get(x)\<close> on a table with string keys: an unhashable key is a
  \<open>TypeError\<close>, any other key that is not in the table is missing.
\<close>

definition py_lookup_opt :: "(string \<times> int) list \<Rightarrow> pyval \<Rightarrow> int option res" where
  "py_lookup_opt t v = (case v of
     PStr s \<Rightarrow> Inr (map_of t s)
   | PList _ \<Rightarrow> Inl TypeError
   | PDict _ \<Rightarrow> Inl TypeError
   | _ \<Rightarrow> Inr None)"

definition py_lookup :: "(string \<times> int) list \<Rightarrow> pyval \<Rightarrow> int res" where
  "py_lookup t v = bindE (py_lookup_opt t v) (\<lambda>r.
     case r of None \<Rightarrow> Inl KeyError | Some i \<Rightarrow> Inr i)"

text \<open>\<open>reverse_dict\<close> of \<^verbatim>\<open>sllurp/util.py\<close>: the last name of a value wins, at its first place.\<close>

definition reverse_dict :: "('k \<times> 'v) list \<Rightarrow> ('v \<times> 'k) list" where
  "reverse_dict t = fold (\<lambda>(k, v) acc. dict_set acc v k) t []"

definition type2name :: "(int \<times> string) list \<Rightarrow> int \<Rightarrow> string res" where
  "type2name t i = (case map_of t i of None \<Rightarrow> Inl KeyError | Some s \<Rightarrow> Inr s)"

lemma py_lookup_PStr [simp]:
  "py_lookup t (PStr s) = (case map_of t s of None \<Rightarrow> Inl KeyError | Some i \<Rightarrow> Inr i)"
  by (simp add: py_lookup_def py_lookup_opt_def)

lemma fold_dict_set_get:
  "map_of (fold (\<lambda>(k, v) acc. dict_set acc v k) t a) x =
     (case map_of (rev (map prod.swap t)) x of None \<Rightarrow> map_of a x | Some k \<Rightarrow> Some k)"
  by (induction t arbitrary: a)
    (auto simp: dict_simps map_add_def prod.swap_def split: option.splits prod.splits)

lemma reverse_dict_get: "map_of (reverse_dict t) x = map_of (rev (map prod.swap t)) x"
  by (simp add: reverse_dict_def fold_dict_set_get split: option.split)

text \<open>A table without repeated values is inverted exactly.\<close>

lemma reverse_dict_inverse:
  assumes "distinct (map fst t)" "distinct (map snd t)"
  shows "map_of (reverse_dict t) v = Some k \<longleftrightarrow> map_of t k = Some v"
proof -
  have d: "distinct (map fst (rev (map prod.swap t)))"
    using assms(2) by (simp add: rev_map [symmetric] comp_def)
  then show ?thesis using assms(1)
    by (auto simp: reverse_dict_get map_of_eq_Some_iff intro: rev_image_eqI)
qed

lemma type2name_error: "type2name t i = Inl e \<Longrightarrow> e = KeyError"
  by (auto simp: type2name_def split: option.splits)

section \<open>Nesting depth\<close>

lemma pydepth_items: "py_items v = Inr d \<Longrightarrow> (k, x) \<in> set d \<Longrightarrow> pydepth x < pydepth v"
  by (auto simp: py_items_def dest: pydepth_dict_elem split: pyval.splits)

lemma pydepth_iter: "py_iter v = Inr l \<Longrightarrow> x \<in> set l \<Longrightarrow> pydepth x \<le> pydepth v"
  by (auto simp: py_iter_def dest: pydepth_list_elem split: pyval.splits)

end
