(* ===== verification/Codec_Core.thy ===== *)
theory Codec_Core
  imports Header_Codec Py_Values
begin

unbundle bit_operations_syntax

text \<open>
  The vocabulary of the parameter registry of \<^verbatim>\<open>sllurp/llrp_proto.py\<close>: what an entry holds,
  the encode and decode function generators, and the generic encoder of sub-parameters.

  Registry decoders call \<open>decode_all_parameters\<close>, which calls \<open>decode_param\<close>, which calls
  registry decoders; here a decoder takes \<open>decode_all_parameters\<close> as its first argument, and an
  encoder takes \<open>encode_param\<close>.  The predicates \<open>dec_local\<close> and \<open>enc_local\<close> say that these
  arguments are only applied to shorter data or shallower values, which is what makes
  the recursion of the codec terminate.  Sizes of struct formats are written as numbers.
\<close>

section \<open>Unpacking to tuples\<close>

definition unpack_1 :: "fmt \<Rightarrow> bytes \<Rightarrow> int res" where
  "unpack_1 a data = bindE (struct_unpack [a] data) (\<lambda>v. Inr (v ! 0))"

definition unpack_2 :: "fmt \<Rightarrow> fmt \<Rightarrow> bytes \<Rightarrow> (int \<times> int) res" where
  "unpack_2 a b data = bindE (struct_unpack [a, b] data) (\<lambda>v. Inr (v ! 0, v ! 1))"

definition unpack_3 :: "fmt \<Rightarrow> fmt \<Rightarrow> fmt \<Rightarrow> bytes \<Rightarrow> (int \<times> int \<times> int) res" where
  "unpack_3 a b c data =
     bindE (struct_unpack [a, b, c] data) (\<lambda>v. Inr (v ! 0, v ! 1, v ! 2))"

abbreviation "ubyte_unpack \<equiv> unpack_1 U8"
abbreviation "short_unpack \<equiv> unpack_1 S16"
abbreviation "ushort_unpack \<equiv> unpack_1 U16"
abbreviation "uint_unpack \<equiv> unpack_1 U32"
abbreviation "ubyte_ubyte_unpack \<equiv> unpack_2 U8 U8"
abbreviation "ubyte_ushort_unpack \<equiv> unpack_2 U8 U16"
abbreviation "ubyte_uint_unpack \<equiv> unpack_2 U8 U32"
abbreviation "ushort_ubyte_unpack \<equiv> unpack_2 U16 U8"
abbreviation "ushort_ushort_unpack \<equiv> unpack_2 U16 U16"
abbreviation "uint_ubyte_unpack \<equiv> unpack_2 U32 U8"
abbreviation "ubyte_ubyte_ushort_unpack \<equiv> unpack_3 U8 U8 U16"
abbreviation "ubyte_ushort_short_unpack \<equiv> unpack_3 U8 U16 S16"
abbreviation "ubyte_ushort_ushort_unpack \<equiv> unpack_3 U8 U16 U16"
abbreviation "ubyte_ushort_uint_unpack \<equiv> unpack_3 U8 U16 U32"
abbreviation "ubyte_uint_ushort_unpack \<equiv> unpack_3 U8 U32 U16"
abbreviation "ubyte_uint_uint_unpack \<equiv> unpack_3 U8 U32 U32"
abbreviation "ushort_ubyte_ubyte_unpack \<equiv> unpack_3 U16 U8 U8"
abbreviation "ushort_ubyte_uint_unpack \<equiv> unpack_3 U16 U8 U32"
abbreviation "ushort_ushort_ushort_unpack \<equiv> unpack_3 U16 U16 U16"

lemma unpack_1_eq: "unpack_1 a data =
    (if length data = fmt_size a then Inr (unpack1 a data) else Inl StructError)"
  by (simp add: unpack_1_def struct_unpack_def)

lemma unpack_2_eq: "unpack_2 a b data =
    (if length data = fmt_size a + fmt_size b
     then Inr (unpack1 a (take (fmt_size a) data), unpack1 b (drop (fmt_size a) data))
     else Inl StructError)"
  by (simp add: unpack_2_def struct_unpack_def)

lemma unpack_3_eq: "unpack_3 a b c data =
    (if length data = fmt_size a + fmt_size b + fmt_size c
     then Inr (unpack1 a (take (fmt_size a) data),
               unpack1 b (take (fmt_size b) (drop (fmt_size a) data)),
               unpack1 c (drop (fmt_size a + fmt_size b) data))
     else Inl StructError)"
  by (simp add: unpack_3_def struct_unpack_def add.commute)

lemma unpack_error [res_simps]:
  "unpack_1 a data = Inl e \<Longrightarrow> e = StructError"
  "unpack_2 a b data = Inl e \<Longrightarrow> e = StructError"
  "unpack_3 a b c data = Inl e \<Longrightarrow> e = StructError"
  by (auto simp: unpack_1_eq unpack_2_eq unpack_3_eq split: if_splits)

lemma unpack_packed [byte_simps]:
  "struct_pack [a] [x] = Inr d \<Longrightarrow> unpack_1 a d = Inr x"
  "struct_pack [a, b] [x, y] = Inr d \<Longrightarrow> unpack_2 a b d = Inr (x, y)"
  "struct_pack [a, b, c] [x, y, z] = Inr d \<Longrightarrow> unpack_3 a b c d = Inr (x, y, z)"
  by (simp_all only: unpack_1_def unpack_2_def unpack_3_def struct_unpack_pack bindE.simps) simp_all

text \<open>\<open>n\<close> items of one format, each read from the front of what is left.\<close>

fun unpack_repeat :: "fmt \<Rightarrow> nat \<Rightarrow> bytes \<Rightarrow> int list res" where
  "unpack_repeat f 0 data = Inr []"
| "unpack_repeat f (Suc n) data =
     bindE (unpack_1 f (take (fmt_size f) data)) (\<lambda>x.
     bindE (unpack_repeat f n (drop (fmt_size f) data)) (\<lambda>xs. Inr (x # xs)))"

section \<open>Registry entries\<close>

type_synonym dec_all = "bytes \<Rightarrow> string \<Rightarrow> pydict \<Rightarrow> pydict res"
type_synonym decoder = "dec_all \<Rightarrow> bytes \<Rightarrow> string \<Rightarrow> pyval res"

text \<open>The data of an entry; \<open>pi_auto\<close> is its \<open>"auto_fields"\<close>, filled in by the post-processing.\<close>

record pinfo =
  pi_type :: int
  pi_vendor :: "int option"
  pi_subtype :: "int option"
  pi_tv :: bool
  pi_fields :: "string list"
  pi_o_fields :: "string list"
  pi_n_fields :: "string list"
  pi_auto :: "(string \<times> bool) list"

type_synonym enc_param = "string \<Rightarrow> pyval \<Rightarrow> bytes res"
type_synonym encoder = "enc_param \<Rightarrow> pyval \<Rightarrow> pinfo \<Rightarrow> bytes res"

record pstruct =
  ps_info :: pinfo
  ps_encode :: "encoder option"
  ps_decode :: "decoder option"

text \<open>A standard TLV entry and a vendor entry, before the post-processing.\<close>

definition tlv_info :: "int \<Rightarrow> string list \<Rightarrow> string list \<Rightarrow> string list \<Rightarrow> pinfo" where
  "tlv_info t flds oflds nflds = \<lparr>pi_type = t, pi_vendor = None, pi_subtype = None,
     pi_tv = False, pi_fields = flds, pi_o_fields = oflds, pi_n_fields = nflds, pi_auto = []\<rparr>"

definition custom_info :: "int \<Rightarrow> int \<Rightarrow> string list \<Rightarrow> string list \<Rightarrow> string list \<Rightarrow> pinfo" where
  "custom_info v s flds oflds nflds = \<lparr>pi_type = TYPE_CUSTOM, pi_vendor = Some v,
     pi_subtype = Some s, pi_tv = False, pi_fields = flds, pi_o_fields = oflds,
     pi_n_fields = nflds, pi_auto = []\<rparr>"

definition tv_info :: "int \<Rightarrow> string list \<Rightarrow> pinfo" where
  "tv_info t flds = \<lparr>pi_type = t, pi_vendor = None, pi_subtype = None,
     pi_tv = True, pi_fields = flds, pi_o_fields = [], pi_n_fields = [], pi_auto = []\<rparr>"

text \<open>
  What the post-processing at the end of \<^verbatim>\<open>llrp_proto.py\<close> does to one entry: every entry may
  repeat \<open>CustomParameter\<close>; optional and multiple fields join the full list in declared order;
  \<open>auto_fields\<close> lists the sub-parameters in that order with their multiplicity.
\<close>

definition finish_info :: "pinfo \<Rightarrow> pinfo" where
  "finish_info p =
    (let n_flds = pi_n_fields p @ [''CustomParameter''];
         flds = pi_fields p @ filter (\<lambda>x. x \<notin> set (pi_fields p)) (pi_o_fields p);
         flds = flds @ filter (\<lambda>x. x \<notin> set flds) n_flds;
         auto = concat (map (\<lambda>e. if e \<in> set (pi_o_fields p) then [(e, False)]
                                  else if e \<in> set n_flds then [(e, True)] else []) flds)
     in p\<lparr>pi_n_fields := n_flds, pi_fields := flds, pi_auto := auto\<rparr>)"

section \<open>Helpers of the registry functions\<close>

text \<open>\<open>hex_to_bit_array\<close>: bit count and octets of a hexadecimal string, padded with a zero digit.\<close>

definition hex_to_bit_array :: "pyval \<Rightarrow> (int \<times> bytes) res" where
  "hex_to_bit_array data =
    (if \<not> py_true data then Inr (0, [])
     else bindE (py_len data) (\<lambda>n.
       let bitcount = n * 4 in
       case data of
         PStr s \<Rightarrow> (let s = (if n mod 2 \<noteq> 0 then s @ ''0'' else s) in
           bindE (unhexlify (char_codes s)) (\<lambda>b. Inr (bitcount, b)))
       | PBytes b \<Rightarrow> (if n mod 2 \<noteq> 0 then Inl TypeError
           else bindE (unhexlify (map unat b)) (\<lambda>b. Inr (bitcount, b)))
       | _ \<Rightarrow> Inl TypeError))"

text \<open>
  The loops of the content selectors: one bit per field, from the top bit \<open>i\<close> downwards,
  skipping the fields that are sub-parameters.
\<close>

fun pack_selector :: "string list \<Rightarrow> (string \<Rightarrow> bool res) \<Rightarrow> int \<Rightarrow> string list \<Rightarrow> int \<Rightarrow> int res" where
  "pack_selector skip test i [] flags = Inr flags"
| "pack_selector skip test i (f # fs) flags =
    (if f \<in> set skip then pack_selector skip test i fs flags
     else bindE (test f) (\<lambda>on.
       if on then (if i < 0 then Inl ValueError
                   else pack_selector skip test (i - 1) fs (flags OR push_bit (nat i) 1))
       else pack_selector skip test (i - 1) fs flags))"

fun unpack_selector :: "string list \<Rightarrow> int \<Rightarrow> int \<Rightarrow> string list \<Rightarrow> pydict \<Rightarrow> pydict res" where
  "unpack_selector skip flags i [] par = Inr par"
| "unpack_selector skip flags i (f # fs) par =
    (if f \<in> set skip then unpack_selector skip flags i fs par
     else if i < 0 then Inl ValueError
     else unpack_selector skip flags (i - 1) fs (dict_set par f (PBool (flag_at flags (nat i)))))"

text \<open>Byte strings with a 16-bit count in front, one per field, from an offset on.\<close>

fun unpack_counted :: "string list \<Rightarrow> bytes \<Rightarrow> nat \<Rightarrow> pydict \<Rightarrow> (pydict \<times> nat) res" where
  "unpack_counted [] data offset par = Inr (par, offset)"
| "unpack_counted (f # fs) data offset par =
    bindE (ushort_unpack (take 2 (drop offset data))) (\<lambda>byte_count.
    let offset = offset + 2;
        par = dict_set par f (PBytes (take (nat byte_count) (drop offset data))) in
    unpack_counted fs data (offset + nat byte_count) par)"

text \<open>\<open>table.get(k, table[0])\<close>.\<close>

definition table_get :: "(int \<times> string) list \<Rightarrow> int \<Rightarrow> string" where
  "table_get t k = (case map_of t k of Some s \<Rightarrow> s | None \<Rightarrow> the (map_of t 0))"

section \<open>Generic encoding\<close>

text \<open>\<open>int(par[k])\<close>.\<close>

definition item_int :: "pyval \<Rightarrow> string \<Rightarrow> int res" where
  "item_int par k = bindE (py_item par k) py_int"

definition concatE :: "bytes res list \<Rightarrow> bytes res" where
  "concatE rs = bindE (mapE (\<lambda>r. r) rs) (\<lambda>bss. Inr (concat bss))"

text \<open>One round of the loop of \<open>encode_all_parameters\<close>: the bytes of one auto field.\<close>

definition encode_auto_field :: "enc_param \<Rightarrow> pyval \<Rightarrow> string \<times> bool \<Rightarrow> bytes res" where
  "encode_auto_field encode_param par_dict field = (case field of (key, is_multiple) \<Rightarrow>
     bindE (py_in key par_dict) (\<lambda>present.
       if \<not> present then Inr []
       else bindE (py_item par_dict key) (\<lambda>val.
         if \<not> is_multiple then encode_param key val
         else (case val of
             PList subs \<Rightarrow> bindE (mapE (encode_param key) subs) (\<lambda>bss. Inr (concat bss))
           | _ \<Rightarrow> Inr []))))"

definition encode_all_parameters :: "enc_param \<Rightarrow> pyval \<Rightarrow> pinfo \<Rightarrow> bytes \<Rightarrow> bytes res" where
  "encode_all_parameters encode_param par_dict param_info data =
     bindE (mapE (encode_auto_field encode_param par_dict) (pi_auto param_info)) (\<lambda>bss.
     Inr (data @ concat bss))"

text \<open>As a registry encoder, called without a packed prefix.\<close>

definition encode_all :: encoder where
  "encode_all encode_param par param_info = encode_all_parameters encode_param par param_info []"

definition basic_param_encode_empty :: encoder where
  "basic_param_encode_empty encode_param par param_info = Inr []"

definition basic_param_encode_generator :: "fmt list \<Rightarrow> string list \<Rightarrow> encoder" where
  "basic_param_encode_generator fs args = (\<lambda>encode_param par param_info.
     bindE (mapE (py_item par) args) (pack_vals fs))"

definition basic_auto_param_encode_generator :: "fmt list \<Rightarrow> string list \<Rightarrow> encoder" where
  "basic_auto_param_encode_generator fs args = (\<lambda>encode_param par param_info.
     bindE (mapE (py_item par) args) (\<lambda>vals.
     bindE (pack_vals fs vals) (\<lambda>packed.
     encode_all_parameters encode_param par param_info packed)))"

section \<open>Generic decoding\<close>

definition zip_dict :: "string list \<Rightarrow> int list \<Rightarrow> pydict" where
  "zip_dict args vals = dict_update [] (zip args (map PInt vals))"

definition basic_param_decode_generator :: "fmt list \<Rightarrow> string list \<Rightarrow> decoder" where
  "basic_param_decode_generator fs args = (\<lambda>decode_all data name.
     bindE (struct_unpack fs data) (\<lambda>unpacked.
     Inr (if args \<noteq> [] then PDict (zip_dict args unpacked) else PInt (unpacked ! 0))))"

definition basic_auto_param_decode_generator :: "fmt list \<Rightarrow> nat \<Rightarrow> string list \<Rightarrow> decoder" where
  "basic_auto_param_decode_generator fs unpack_size args = (\<lambda>decode_all data name.
     bindE (struct_unpack fs (take unpack_size data)) (\<lambda>unpacked.
     let par = zip_dict args unpacked; data = drop unpack_size data in
     if data \<noteq> [] then bindE (decode_all data name par) (\<lambda>par. Inr (PDict par))
     else Inr (PDict par)))"

text \<open>\<open>decode_all_parameters\<close> as a registry decoder, and the automatic TV decoder.\<close>

definition decode_all_entry :: decoder where
  "decode_all_entry decode_all data name =
     bindE (decode_all data name []) (\<lambda>par. Inr (PDict par))"

definition local_decode :: "tv_format \<Rightarrow> decoder" where
  "local_decode f = (\<lambda>decode_all data name. case f of
     TVInts fs \<Rightarrow> bindE (struct_unpack fs data) (\<lambda>v. Inr (PInt (v ! 0)))
   | TVRaw n \<Rightarrow> if length data = n then Inr (PBytes data) else Inl StructError)"

section \<open>Locality\<close>

text \<open>A decoder hands \<open>decode_all_parameters\<close> nothing longer than its own data.\<close>

definition dec_local :: "decoder \<Rightarrow> bool" where
  "dec_local d \<longleftrightarrow> (\<forall>r r' data name.
     (\<forall>data' n p. length data' \<le> length data \<longrightarrow> r data' n p = r' data' n p) \<longrightarrow>
     d r data name = d r' data name)"

text \<open>An encoder hands \<open>encode_param\<close> only values nested less deeply than its own.\<close>

definition enc_local :: "encoder \<Rightarrow> bool" where
  "enc_local c \<longleftrightarrow> (\<forall>r r' par param_info.
     (\<forall>k v. pydepth v < pydepth par \<longrightarrow> r k v = r' k v) \<longrightarrow>
     c r par param_info = c r' par param_info)"

named_theorems dec_local "decoders that recurse on no longer data"
named_theorems enc_local "encoders that recurse on less deeply nested values"

lemma dec_localI:
  "(\<And>r r' data name.
      (\<And>data' n p. length data' \<le> length data \<Longrightarrow> r data' n p = r' data' n p) \<Longrightarrow>
      d r data name = d r' data name) \<Longrightarrow> dec_local d"
  unfolding dec_local_def by blast

lemma dec_localD:
  "dec_local d \<Longrightarrow> (\<And>data' n p. length data' \<le> length data \<Longrightarrow> r data' n p = r' data' n p) \<Longrightarrow>
     d r data name = d r' data name"
  unfolding dec_local_def by blast

lemma enc_localI:
  "(\<And>r r' par param_info.
      (\<And>k v. pydepth v < pydepth par \<Longrightarrow> r k v = r' k v) \<Longrightarrow>
      c r par param_info = c r' par param_info) \<Longrightarrow> enc_local c"
  unfolding enc_local_def by blast

lemma enc_localD:
  "enc_local c \<Longrightarrow> (\<And>k v. pydepth v < pydepth par \<Longrightarrow> r k v = r' k v) \<Longrightarrow>
     c r par param_info = c r' par param_info"
  unfolding enc_local_def by blast

lemma dec_local_const [dec_local]: "dec_local (\<lambda>r data name. f data name)"
  by (simp add: dec_local_def)

lemma enc_local_const [enc_local]: "enc_local (\<lambda>r par param_info. f par param_info)"
  by (simp add: enc_local_def)

lemma dec_local_generators [dec_local]:
  "dec_local (basic_param_decode_generator fs args)"
  "dec_local (basic_auto_param_decode_generator fs n args)"
  "dec_local decode_all_entry" "dec_local (local_decode f)"
  by (rule dec_localI, auto simp: basic_param_decode_generator_def Let_def
      basic_auto_param_decode_generator_def decode_all_entry_def local_decode_def
      intro!: bindE_cong)+

lemma encode_auto_field_local:
  assumes "\<And>k v. pydepth v < pydepth par \<Longrightarrow> r k v = r' k v"
  shows "encode_auto_field r par field = encode_auto_field r' par field"
proof -
  have list: "mapE (r k) subs = mapE (r' k) subs" if "py_item par k = Inr (PList subs)" for k subs
    using assms pydepth_item [OF that] pydepth_list_elem by (intro mapE_cong refl) (meson order.strict_trans)
  show ?thesis
    unfolding encode_auto_field_def
    by (cases field) (auto intro!: bindE_cong simp: assms pydepth_item list split: pyval.split)
qed

lemma encode_all_parameters_local:
  "(\<And>k v. pydepth v < pydepth par \<Longrightarrow> r k v = r' k v) \<Longrightarrow>
     encode_all_parameters r par param_info data = encode_all_parameters r' par param_info data"
  unfolding encode_all_parameters_def
  by (intro bindE_cong mapE_cong refl) (rule encode_auto_field_local)

lemma enc_local_generators [enc_local]:
  "enc_local basic_param_encode_empty" "enc_local (basic_param_encode_generator fs args)"
  "enc_local (basic_auto_param_encode_generator fs args)" "enc_local encode_all"
  by (rule enc_localI, auto simp: basic_param_encode_empty_def basic_param_encode_generator_def
      basic_auto_param_encode_generator_def encode_all_def
      intro!: bindE_cong encode_all_parameters_local)+

section \<open>Failures\<close>

text \<open>
  The exceptions that \<open>decode_param\<close> turns into an \<open>LLRPError\<close> or an undecoded parameter, and,
  where \<open>deep\<close> allows it, the \<open>RecursionError\<close> that it lets through.  A decoder is safe when it
  raises no other, provided that \<open>decode_all_parameters\<close> raises no other on dictionaries that
  hold none of the reserved keys: the names of the repeatable sub-parameters, under which lists
  are accumulated.  In particular a safe decoder raises \<open>RecursionError\<close> only when one of its
  calls of \<open>decode_all_parameters\<close> did.
\<close>

definition tame :: "bool \<Rightarrow> 'a res \<Rightarrow> bool" where
  "tame deep r \<longleftrightarrow> (case r of Inr _ \<Rightarrow> True | Inl e \<Rightarrow>
     e \<in> {LLRPError, StructError, ValueError, TypeError, IndexError, KeyError} \<or>
     deep \<and> e = RecursionError)"

definition DECODE_ERROR_PARNAME :: string where
  "DECODE_ERROR_PARNAME = ''SllurpDecodeError''"

definition reserved_keys :: "string set" where
  "reserved_keys = {DECODE_ERROR_PARNAME, ''CustomParameter'',
    ''AISpec'', ''ImpinjAdvancedGPOConfiguration'', ''PeakRSSI'', ''AccessSpec'', ''RFSurveySpec'',
    ''MotoFilterRule'', ''ImpinjHubConfiguration'', ''PerAntennaAirProtocol'',
    ''MotoFilterTimeFormatChoice'', ''TagReportData'', ''C1G2LockPayload'',
    ''ImpinjGPIDebounceConfiguration'', ''EventNotificationState'', ''UHFC1G2RFModeTableEntry'',
    ''InventoryParameterSpec'', ''C1G2TargetTag'', ''LoopSpec'',
    ''PerAntennaReceiveSensitivityRange'', ''FrequencyHopTable'', ''GPIPortCurrentState'',
    ''C1G2Read'', ''ReceiveSensitivityTableEntry'', ''C1G2Filter'', ''MotoFilterTagList'',
    ''C1G2InventoryCommand'', ''EPC'', ''ImpinjArrayVersion'', ''TransmitPowerLevelTableEntry'',
    ''AntennaProperties'', ''AntennaConfiguration'', ''GPOWriteData''}"

definition no_reserved :: "pydict \<Rightarrow> bool" where
  "no_reserved p \<longleftrightarrow> fst ` set p \<inter> reserved_keys = {}"

definition dec_safe :: "decoder \<Rightarrow> bool" where
  "dec_safe d \<longleftrightarrow> (\<forall>deep r data name.
     (\<forall>data' n p. length data' \<le> length data \<longrightarrow> no_reserved p \<longrightarrow> tame deep (r data' n p)) \<longrightarrow>
     tame deep (d r data name))"

named_theorems dec_safe "decoders that raise only what decode_param handles"

lemma dec_safeI:
  "(\<And>deep r data name.
      (\<And>data' n p. length data' \<le> length data \<Longrightarrow> no_reserved p \<Longrightarrow> tame deep (r data' n p)) \<Longrightarrow>
      tame deep (d r data name)) \<Longrightarrow> dec_safe d"
  unfolding dec_safe_def by blast

lemma dec_safeD:
  "dec_safe d \<Longrightarrow>
     (\<And>data' n p. length data' \<le> length data \<Longrightarrow> no_reserved p \<Longrightarrow> tame deep (r data' n p)) \<Longrightarrow>
     tame deep (d r data name)"
  unfolding dec_safe_def by blast

lemma tame_bindE: "tame deep m \<Longrightarrow> (\<And>x. m = Inr x \<Longrightarrow> tame deep (f x)) \<Longrightarrow> tame deep (bindE m f)"
  by (cases m) (auto simp: tame_def)

lemma tame_simps [simp]:
  "tame deep (Inr x)"
  "tame deep (Inl e) \<longleftrightarrow>
     e \<in> {LLRPError, StructError, ValueError, TypeError, IndexError, KeyError} \<or> deep \<and> e = RecursionError"
  by (simp_all add: tame_def)

lemma tame_unpack [simp]:
  "tame deep (unpack_1 a data)" "tame deep (unpack_2 a b data)" "tame deep (unpack_3 a b c data)"
  "tame deep (struct_unpack fs data)" "tame deep (type2name t i)"
  by (simp_all add: unpack_1_eq unpack_2_eq unpack_3_eq struct_unpack_def type2name_def
      split: option.split)

lemma tame_mapE: "(\<And>x. x \<in> set xs \<Longrightarrow> tame deep (f x)) \<Longrightarrow> tame deep (mapE f xs)"
  by (induction xs) (auto intro!: tame_bindE)

lemma tame_unpack_repeat [simp]: "tame deep (unpack_repeat f n data)"
  by (induction f n data rule: unpack_repeat.induct) (auto intro!: tame_bindE)

lemma tame_unpack_counted [simp]: "tame deep (unpack_counted fs data offset par)"
  by (induction fs data offset par rule: unpack_counted.induct) (auto intro!: tame_bindE simp: Let_def)

lemma tame_unpack_selector [simp]: "tame deep (unpack_selector skip flags i fs par)"
  by (induction skip flags i fs par rule: unpack_selector.induct) auto

lemma no_reserved_simps [simp]:
  "no_reserved []"
  "no_reserved ((k, v) # p) \<longleftrightarrow> k \<notin> reserved_keys \<and> no_reserved p"
  "no_reserved (dict_set p k v) \<longleftrightarrow> k \<notin> reserved_keys \<and> no_reserved p"
  by (auto simp: no_reserved_def dom_update)

lemma unpack_counted_no_reserved:
  "unpack_counted fs data offset par = Inr (par', offset') \<Longrightarrow> no_reserved par \<Longrightarrow>
     list_all (\<lambda>k. k \<notin> reserved_keys) fs \<Longrightarrow> no_reserved par'"
  by (induction fs data offset par rule: unpack_counted.induct) (auto simp: res_simps Let_def)

lemma unpack_selector_no_reserved:
  "unpack_selector skip flags i fs par = Inr par' \<Longrightarrow> no_reserved par \<Longrightarrow>
     list_all (\<lambda>k. k \<in> set skip \<or> k \<notin> reserved_keys) fs \<Longrightarrow> no_reserved par'"
  by (induction skip flags i fs par rule: unpack_selector.induct) (auto split: if_splits)

lemma no_reserved_zip: "list_all (\<lambda>k. k \<notin> reserved_keys) args \<Longrightarrow> no_reserved (zip_dict args vals)"
proof -
  have "fst ` set (zip_dict args vals) \<subseteq> set args"
    unfolding zip_dict_def dom_dict_update by (auto dest: set_zip_leftD)
  then show "list_all (\<lambda>k. k \<notin> reserved_keys) args \<Longrightarrow> no_reserved (zip_dict args vals)"
    by (auto simp: no_reserved_def list_all_iff)
qed

lemma dec_safe_generators [dec_safe]:
  "dec_safe (basic_param_decode_generator fs args)"
  "dec_safe decode_all_entry" "dec_safe (local_decode f)"
  by (rule dec_safeI, auto simp: basic_param_decode_generator_def decode_all_entry_def local_decode_def
      intro!: tame_bindE split: tv_format.split)+

lemma dec_safe_auto_generator [dec_safe]:
  "list_all (\<lambda>k. k \<notin> reserved_keys) args \<Longrightarrow> dec_safe (basic_auto_param_decode_generator fs n args)"
  by (rule dec_safeI, auto simp: basic_auto_param_decode_generator_def Let_def
      no_reserved_zip intro!: tame_bindE)

end
