(* ===== verification/Proto_Enums.thy ===== *)
theory Proto_Enums
  imports Codec_Core
begin

text \<open>
  The name tables of \<^verbatim>\<open>sllurp/llrp_proto.py\<close> and their inverses, built by \<open>reverse_dict\<close>.
  The lemma at the end shows that each numeric table is the exact inverse of its name table.
\<close>

section \<open>Tables\<close>

definition AirProtocol :: "(string \<times> int) list" where
  "AirProtocol = [
    (''UnspecifiedAirProtocol'', 0),
    (''EPCGlobalClass1Gen2'', 1)]"

definition Capability_Name2Type :: "(string \<times> int) list" where
  "Capability_Name2Type = [
    (''All'', 0),
    (''General Device Capabilities'', 1),
    (''LLRP Capabilities'', 2),
    (''Regulatory Capabilities'', 3),
    (''Air Protocol LLRP Capabilities'', 4)]"

definition Capability_Type2Name :: "(int \<times> string) list" where
  "Capability_Type2Name = reverse_dict Capability_Name2Type"

definition ROSpecState_Name2Type :: "(string \<times> int) list" where
  "ROSpecState_Name2Type = [
    (''Disabled'', 0),
    (''Inactive'', 1),
    (''Active'', 2)]"

definition ROSpecState_Type2Name :: "(int \<times> string) list" where
  "ROSpecState_Type2Name = reverse_dict ROSpecState_Name2Type"

definition ROSpecStartTriggerType_Name2Type :: "(string \<times> int) list" where
  "ROSpecStartTriggerType_Name2Type = [
    (''Null'', 0),
    (''Immediate'', 1),
    (''Periodic'', 2),
    (''GPI'', 3)]"

definition ROSpecStartTriggerType_Type2Name :: "(int \<times> string) list" where
  "ROSpecStartTriggerType_Type2Name = reverse_dict ROSpecStartTriggerType_Name2Type"

definition ROSpecStopTriggerType_Name2Type :: "(string \<times> int) list" where
  "ROSpecStopTriggerType_Name2Type = [
    (''Null'', 0),
    (''Duration'', 1),
    (''GPI with timeout'', 2)]"

definition ROSpecStopTriggerType_Type2Name :: "(int \<times> string) list" where
  "ROSpecStopTriggerType_Type2Name = reverse_dict ROSpecStopTriggerType_Name2Type"

definition AISpecStopTriggerType_Name2Type :: "(string \<times> int) list" where
  "AISpecStopTriggerType_Name2Type = [
    (''Null'', 0),
    (''Duration'', 1),
    (''GPI with timeout'', 2),
    (''Tag observation'', 3)]"

definition AISpecStopTriggerType_Type2Name :: "(int \<times> string) list" where
  "AISpecStopTriggerType_Type2Name = reverse_dict AISpecStopTriggerType_Name2Type"

definition TagObservationTrigger_Name2Type :: "(string \<times> int) list" where
  "TagObservationTrigger_Name2Type = [
    (''UponNTags'', 0),
    (''UponSilenceMs'', 1),
    (''UponNAttempts'', 2),
    (''UponNUniqueTags'', 3),
    (''UponUniqueSilenceMs'', 4)]"

definition TagObservationTrigger_Type2Name :: "(int \<times> string) list" where
  "TagObservationTrigger_Type2Name = reverse_dict TagObservationTrigger_Name2Type"

definition AccessReportTrigger_Name2Type :: "(string \<times> int) list" where
  "AccessReportTrigger_Name2Type = [
    (''Upon_ROReport'', 0),
    (''Upon_End_Of_AccessSpec'', 1)]"

definition AccessReportTrigger_Type2Name :: "(int \<times> string) list" where
  "AccessReportTrigger_Type2Name = reverse_dict AccessReportTrigger_Name2Type"

definition KeepaliveTriggerType_Name2Type :: "(string \<times> int) list" where
  "KeepaliveTriggerType_Name2Type = [
    (''Null'', 0),
    (''Immediate'', 1)]"

definition KeepaliveTriggerType_Type2Name :: "(int \<times> string) list" where
  "KeepaliveTriggerType_Type2Name = reverse_dict KeepaliveTriggerType_Name2Type"

definition ConnEvent_Name2Type :: "(string \<times> int) list" where
  "ConnEvent_Name2Type = [
    (''Success'', 0),
    (''Failed (a Reader initiated connection already exists)'', 1),
    (''Failed (a Client initiated connection already exists)'', 2),
    (''Failed (any reason other than a connection already exists)'', 3),
    (''Another connection attempted'', 4)]"

definition ConnEvent_Type2Name :: "(int \<times> string) list" where
  "ConnEvent_Type2Name = reverse_dict ConnEvent_Name2Type"

definition Error_Name2Type :: "(string \<times> int) list" where
  "Error_Name2Type = [
    (''Success'', 0),
    (''ParameterError'', 100),
    (''FieldError'', 101),
    (''UnexpectedParameter'', 102),
    (''MissingParameter'', 103),
    (''DuplicateParameter'', 104),
    (''OverflowParameter'', 105),
    (''OverflowField'', 106),
    (''UnknownParameter'', 107),
    (''UnknownField'', 108),
    (''UnsupportedMessage'', 109),
    (''UnsupportedVersion'', 110),
    (''UnsupportedParameter'', 111),
    (''P_ParameterError'', 200),
    (''P_FieldError'', 201),
    (''P_UnexpectedParameter'', 202),
    (''P_MissingParameter'', 203),
    (''P_DuplicateParameter'', 204),
    (''P_OverflowParameter'', 205),
    (''P_OverflowField'', 206),
    (''P_UnknownParameter'', 207),
    (''P_UnknownField'', 208),
    (''P_UnsupportedParameter'', 209),
    (''A_Invalid'', 300),
    (''A_OutOfRange'', 301),
    (''DeviceError'', 401)]"

definition Error_Type2Name :: "(int \<times> string) list" where
  "Error_Type2Name = reverse_dict Error_Name2Type"

definition EventState_Name2Value :: "(string \<times> int) list" where
  "EventState_Name2Value = [
    (''HoppingEvent'', 0),
    (''GPIEvent'', 1),
    (''ROSpecEvent'', 2),
    (''ReportBufferFillWarning'', 3),
    (''ReaderExceptionEvent'', 4),
    (''RFSurveyEvent'', 5),
    (''AISpecEvent'', 6),
    (''AISpecEventWithSingulation'', 7),
    (''AntennaEvent'', 8),
    (''SpecLoopEvent'', 9)]"

definition EventState_Value2Name :: "(int \<times> string) list" where
  "EventState_Value2Name = reverse_dict EventState_Name2Value"

definition ROReportTrigger_Name2Value :: "(string \<times> int) list" where
  "ROReportTrigger_Name2Value = [
    (''None'', 0),
    (''Upon_N_Tags_Or_End_Of_AISpec'', 1),
    (''Upon_N_Tags_Or_End_Of_ROSpec'', 2),
    (''Upon_N_Seconds'', 3),
    (''Upon_N_Seconds_Or_End_Of_ROSpec'', 4),
    (''Upon_N_Milliseconds'', 5),
    (''Upon_N_Milliseconds_Or_End_Of_ROSpec'', 6)]"

definition ROReportTrigger_Value2Name :: "(int \<times> string) list" where
  "ROReportTrigger_Value2Name = reverse_dict ROReportTrigger_Name2Value"

definition Modulation_Name2Type :: "(string \<times> int) list" where
  "Modulation_Name2Type = [
    (''FM0'', 0),
    (''M2'', 1),
    (''M4'', 2),
    (''M8'', 3),
    (''WISP5pre'', 0),
    (''WISP5'', 0)]"

definition ImpinjHubConnectedType :: "(int \<times> string) list" where
  "ImpinjHubConnectedType = [
    (0, ''Unknown''),
    (1, ''Disconnected''),
    (2, ''Connected'')]"

definition ImpinjHubFaultType :: "(int \<times> string) list" where
  "ImpinjHubFaultType = [
    (0, ''No_Fault''),
    (1, ''RF_Power''),
    (2, ''RF_Power_On_Hub_1''),
    (3, ''RF_Power_On_Hub_2''),
    (4, ''RF_Power_On_Hub_3''),
    (5, ''RF_Power_On_Hub_4''),
    (6, ''No_Init''),
    (7, ''Serial_Overflow''),
    (8, ''Disconnected'')]"

definition MotoTagEventSelector_Name2Type :: "(string \<times> int) list" where
  "MotoTagEventSelector_Name2Type = [
    (''Never'', 0),
    (''Immediate'', 1),
    (''Moderate'', 2)]"

definition MotoTagEventSelector_Type2Name :: "(int \<times> string) list" where
  "MotoTagEventSelector_Type2Name = reverse_dict MotoTagEventSelector_Name2Type"

definition MotoTagReportMode_Name2Type :: "(string \<times> int) list" where
  "MotoTagReportMode_Name2Type = [
    (''No reporting'', 0),
    (''Report Notification'', 1),
    (''Report events'', 2)]"

definition MotoTagReportMode_Type2Name :: "(int \<times> string) list" where
  "MotoTagReportMode_Type2Name = reverse_dict MotoTagReportMode_Name2Type"

definition Match_Name2Type :: "(string \<times> int) list" where
  "Match_Name2Type = [
    (''Within range'', 0),
    (''Outside range'', 1),
    (''Greater than lower limit'', 2),
    (''Lower than upper limit'', 3)]"

definition Match_Type2Name :: "(int \<times> string) list" where
  "Match_Type2Name = reverse_dict Match_Name2Type"

definition RuleType_Name2Type :: "(string \<times> int) list" where
  "RuleType_Name2Type = [
    (''Inclusive'', 0),
    (''Exclusive'', 1),
    (''Continue'', 2)]"

definition RuleType_Type2Name :: "(int \<times> string) list" where
  "RuleType_Type2Name = reverse_dict RuleType_Name2Type"

section \<open>The tables are inverses of each other\<close>

lemma Capability_Type2Name_inverse:
  "map_of Capability_Type2Name v = Some k \<longleftrightarrow> map_of Capability_Name2Type k = Some v"
  unfolding Capability_Type2Name_def by (rule reverse_dict_inverse) (simp_all add: Capability_Name2Type_def)

lemma ROSpecState_Type2Name_inverse:
  "map_of ROSpecState_Type2Name v = Some k \<longleftrightarrow> map_of ROSpecState_Name2Type k = Some v"
  unfolding ROSpecState_Type2Name_def by (rule reverse_dict_inverse) (simp_all add: ROSpecState_Name2Type_def)

lemma ROSpecStartTriggerType_Type2Name_inverse:
  "map_of ROSpecStartTriggerType_Type2Name v = Some k \<longleftrightarrow> map_of ROSpecStartTriggerType_Name2Type k = Some v"
  unfolding ROSpecStartTriggerType_Type2Name_def by (rule reverse_dict_inverse) (simp_all add: ROSpecStartTriggerType_Name2Type_def)

lemma ROSpecStopTriggerType_Type2Name_inverse:
  "map_of ROSpecStopTriggerType_Type2Name v = Some k \<longleftrightarrow> map_of ROSpecStopTriggerType_Name2Type k = Some v"
  unfolding ROSpecStopTriggerType_Type2Name_def by (rule reverse_dict_inverse) (simp_all add: ROSpecStopTriggerType_Name2Type_def)

lemma AISpecStopTriggerType_Type2Name_inverse:
  "map_of AISpecStopTriggerType_Type2Name v = Some k \<longleftrightarrow> map_of AISpecStopTriggerType_Name2Type k = Some v"
  unfolding AISpecStopTriggerType_Type2Name_def by (rule reverse_dict_inverse) (simp_all add: AISpecStopTriggerType_Name2Type_def)

lemma TagObservationTrigger_Type2Name_inverse:
  "map_of TagObservationTrigger_Type2Name v = Some k \<longleftrightarrow> map_of TagObservationTrigger_Name2Type k = Some v"
  unfolding TagObservationTrigger_Type2Name_def by (rule reverse_dict_inverse) (simp_all add: TagObservationTrigger_Name2Type_def)

lemma AccessReportTrigger_Type2Name_inverse:
  "map_of AccessReportTrigger_Type2Name v = Some k \<longleftrightarrow> map_of AccessReportTrigger_Name2Type k = Some v"
  unfolding AccessReportTrigger_Type2Name_def by (rule reverse_dict_inverse) (simp_all add: AccessReportTrigger_Name2Type_def)

lemma KeepaliveTriggerType_Type2Name_inverse:
  "map_of KeepaliveTriggerType_Type2Name v = Some k \<longleftrightarrow> map_of KeepaliveTriggerType_Name2Type k = Some v"
  unfolding KeepaliveTriggerType_Type2Name_def by (rule reverse_dict_inverse) (simp_all add: KeepaliveTriggerType_Name2Type_def)

lemma ConnEvent_Type2Name_inverse:
  "map_of ConnEvent_Type2Name v = Some k \<longleftrightarrow> map_of ConnEvent_Name2Type k = Some v"
  unfolding ConnEvent_Type2Name_def by (rule reverse_dict_inverse) (simp_all add: ConnEvent_Name2Type_def)

lemma Error_Type2Name_inverse:
  "map_of Error_Type2Name v = Some k \<longleftrightarrow> map_of Error_Name2Type k = Some v"
  unfolding Error_Type2Name_def by (rule reverse_dict_inverse) (simp_all add: Error_Name2Type_def)

lemma EventState_Value2Name_inverse:
  "map_of EventState_Value2Name v = Some k \<longleftrightarrow> map_of EventState_Name2Value k = Some v"
  unfolding EventState_Value2Name_def by (rule reverse_dict_inverse) (simp_all add: EventState_Name2Value_def)

lemma ROReportTrigger_Value2Name_inverse:
  "map_of ROReportTrigger_Value2Name v = Some k \<longleftrightarrow> map_of ROReportTrigger_Name2Value k = Some v"
  unfolding ROReportTrigger_Value2Name_def by (rule reverse_dict_inverse) (simp_all add: ROReportTrigger_Name2Value_def)

lemma MotoTagEventSelector_Type2Name_inverse:
  "map_of MotoTagEventSelector_Type2Name v = Some k \<longleftrightarrow> map_of MotoTagEventSelector_Name2Type k = Some v"
  unfolding MotoTagEventSelector_Type2Name_def by (rule reverse_dict_inverse) (simp_all add: MotoTagEventSelector_Name2Type_def)

lemma MotoTagReportMode_Type2Name_inverse:
  "map_of MotoTagReportMode_Type2Name v = Some k \<longleftrightarrow> map_of MotoTagReportMode_Name2Type k = Some v"
  unfolding MotoTagReportMode_Type2Name_def by (rule reverse_dict_inverse) (simp_all add: MotoTagReportMode_Name2Type_def)

lemma Match_Type2Name_inverse:
  "map_of Match_Type2Name v = Some k \<longleftrightarrow> map_of Match_Name2Type k = Some v"
  unfolding Match_Type2Name_def by (rule reverse_dict_inverse) (simp_all add: Match_Name2Type_def)

lemma RuleType_Type2Name_inverse:
  "map_of RuleType_Type2Name v = Some k \<longleftrightarrow> map_of RuleType_Name2Type k = Some v"
  unfolding RuleType_Type2Name_def by (rule reverse_dict_inverse) (simp_all add: RuleType_Name2Type_def)

end
