(* ===== verification/Proto_Capabilities.thy ===== *)
theory Proto_Capabilities
  imports Proto_Enums
begin

unbundle bit_operations_syntax

text \<open>
  Registry entries of \<^verbatim>\<open>sllurp/llrp_proto.py\<close>: the capability parameters of LLRP 1.1 section 9 (regulatory, device, protocol and air-protocol capabilities).  Each \<open>Param_X\<close> is the entry
  \<open>Param_struct["X"]\<close> as written there, with its encode and decode functions in front of it.
\<close>

section \<open>Entries\<close>

definition Param_UTCTimestamp :: pstruct where
  "Param_UTCTimestamp = \<lparr>
    ps_info = tlv_info 128
      [''Microseconds'']
      [] [],
    ps_encode = Some (basic_param_encode_generator [U64] [''Microseconds'']),
    ps_decode = Some (basic_param_decode_generator [U64] [''Microseconds''])\<rparr>"

definition Param_Uptime :: pstruct where
  "Param_Uptime = \<lparr>
    ps_info = tlv_info 129
      [''Microseconds'']
      [] [],
    ps_encode = Some (basic_param_encode_generator [U64] [''Microseconds'']),
    ps_decode = Some (basic_param_decode_generator [U64] [''Microseconds''])\<rparr>"

definition Param_RegulatoryCapabilities :: pstruct where
  "Param_RegulatoryCapabilities = \<lparr>
    ps_info = tlv_info 143
      [''CountryCode'', ''CommunicationsStandard'']
      [''UHFBandCapabilities''] [],
    ps_encode = Some (basic_auto_param_encode_generator [U16, U16] [''CountryCode'', ''CommunicationsStandard'']),
    ps_decode = Some (basic_auto_param_decode_generator [U16, U16] 4 [''CountryCode'', ''CommunicationsStandard''])\<rparr>"

definition Param_UHFBandCapabilities :: pstruct where
  "Param_UHFBandCapabilities = \<lparr>
    ps_info = tlv_info 144
      []
      [''TransmitPowerLevelTableEntry'', ''FrequencyInformation'', ''UHFC1G2RFModeTable'',
      ''RFSurveyFrequencyCapabilities''] [''TransmitPowerLevelTableEntry''],
    ps_encode = None,
    ps_decode = Some decode_all_entry\<rparr>"

definition Param_TransmitPowerLevelTableEntry :: pstruct where
  "Param_TransmitPowerLevelTableEntry = \<lparr>
    ps_info = tlv_info 145
      [''Index'', ''TransmitPowerValue'']
      [] [],
    ps_encode = None,
    ps_decode = Some (basic_param_decode_generator [U16, U16] [''Index'', ''TransmitPowerValue''])\<rparr>"

definition decode_FrequencyInformation :: decoder where
  "decode_FrequencyInformation decode_all data name =
    bindE (ubyte_unpack (take 1 data)) (\<lambda>flags.
    let par = [(''Hopping'', PBool (flag_at flags 7))];
      data = drop 1 data in
    bindE (decode_all data ''FrequencyInformation'' par) (\<lambda>par.
    Inr (PDict par)))"

definition Param_FrequencyInformation :: pstruct where
  "Param_FrequencyInformation = \<lparr>
    ps_info = tlv_info 146
      [''Hopping'', ''FrequencyHopTable'', ''FixedFrequencyTable'']
      [''FixedFrequencyTable''] [''FrequencyHopTable''],
    ps_encode = None,
    ps_decode = Some decode_FrequencyInformation\<rparr>"

definition decode_FrequencyHopTable :: decoder where
  "decode_FrequencyHopTable decode_all data name =
    bindE (ubyte_ubyte_ushort_unpack (take 4 data)) (\<lambda>(v_HopTableId, flags, v_NumHops).
    let par = [(''HopTableId'', PInt v_HopTableId), (''NumHops'', PInt v_NumHops)];
        data = drop 4 data in
    if v_NumHops \<noteq> 0
    then bindE (unpack_repeat U32 (nat v_NumHops) data) (\<lambda>freqs.
         Inr (PDict (dict_set par ''Frequency'' (PList (map PInt freqs)))))
    else Inr (PDict par))"

definition Param_FrequencyHopTable :: pstruct where
  "Param_FrequencyHopTable = \<lparr>
    ps_info = tlv_info 147
      [''HopTableId'', ''NumHops'', ''Frequency'']
      [] [],
    ps_encode = None,
    ps_decode = Some decode_FrequencyHopTable\<rparr>"

definition decode_FixedFrequencyTable :: decoder where
  "decode_FixedFrequencyTable decode_all data name =
    bindE (ushort_unpack (take 2 data)) (\<lambda>v_NumFrequencies.
    let par = [(''NumFrequencies'', PInt v_NumFrequencies)];
        data = drop 2 data in
    if v_NumFrequencies \<noteq> 0
    then bindE (unpack_repeat U32 (nat v_NumFrequencies) data) (\<lambda>freqs.
         Inr (PDict (dict_set par ''Frequency'' (PList (map PInt freqs)))))
    else Inr (PDict par))"

definition Param_FixedFrequencyTable :: pstruct where
  "Param_FixedFrequencyTable = \<lparr>
    ps_info = tlv_info 148
      [''NumFrequencies'', ''Frequency'']
      [] [],
    ps_encode = None,
    ps_decode = Some decode_FixedFrequencyTable\<rparr>"

definition decode_C1G2LLRPCapabilities :: decoder where
  "decode_C1G2LLRPCapabilities decode_all data name =
    (let par = [] in
    bindE (ubyte_ushort_unpack data) (\<lambda>(flags, v_MaxNumSelectFiltersPerQuery).
    let par = dict_set par ''MaxNumSelectFiltersPerQuery'' (PInt v_MaxNumSelectFiltersPerQuery);
      par = dict_set par ''CanSupportBlockErase'' (PBool (flag_at flags 7));
      par = dict_set par ''CanSupportBlockWrite'' (PBool (flag_at flags 6));
      par = dict_set par ''CanSupportBlockPermalock'' (PBool (flag_at flags 5));
      par = dict_set par ''CanSupportTagRecommissioning'' (PBool (flag_at flags 4));
      par = dict_set par ''CanSupportUMIMethod2'' (PBool (flag_at flags 3));
      par = dict_set par ''CanSupportXPC'' (PBool (flag_at flags 2)) in
    Inr (PDict par)))"

definition Param_C1G2LLRPCapabilities :: pstruct where
  "Param_C1G2LLRPCapabilities = \<lparr>
    ps_info = tlv_info 327
      [''CanSupportBlockErase'', ''CanSupportBlockWrite'', ''CanSupportBlockPermalock'',
      ''CanSupportTagRecommissioning'', ''CanSupportUMIMethod2'', ''CanSupportXPC'',
      ''MaxNumSelectFiltersPerQuery'']
      [] [],
    ps_encode = None,
    ps_decode = Some decode_C1G2LLRPCapabilities\<rparr>"

definition Param_UHFC1G2RFModeTable :: pstruct where
  "Param_UHFC1G2RFModeTable = \<lparr>
    ps_info = tlv_info 328
      []
      [] [''UHFC1G2RFModeTableEntry''],
    ps_encode = None,
    ps_decode = Some decode_all_entry\<rparr>"

definition decode_UHFC1G2RFModeTableEntry :: decoder where
  "decode_UHFC1G2RFModeTableEntry decode_all data name =
    (let par = [] in
    bindE (struct_unpack [U32, U8, U8, U8, U8, U32, U32, U32, U32, U32] data) (\<lambda>v.
    let v_ModeIdentifier = v ! 0;
      RC = v ! 1;
      v_Mod = v ! 2;
      v_FLM = v ! 3;
      v_M = v ! 4;
      v_BDR = v ! 5;
      v_PIE = v ! 6;
      v_MinTari = v ! 7;
      v_MaxTari = v ! 8;
      v_StepTari = v ! 9;
      par = dict_set par ''ModeIdentifier'' (PInt v_ModeIdentifier);
      par = dict_set par ''Mod'' (PInt v_Mod);
      par = dict_set par ''FLM'' (PInt v_FLM);
      par = dict_set par ''M'' (PInt v_M);
      par = dict_set par ''BDR'' (PInt v_BDR);
      par = dict_set par ''PIE'' (PInt v_PIE);
      par = dict_set par ''MinTari'' (PInt v_MinTari);
      par = dict_set par ''MaxTari'' (PInt v_MaxTari);
      par = dict_set par ''StepTari'' (PInt v_StepTari);
      par = dict_set par ''DR'' (PInt (drop_bit 7 RC));
      par = dict_set par ''EPCHAGTCConformance'' (PBool (flag_at RC 6)) in
    Inr (PDict par)))"

definition Param_UHFC1G2RFModeTableEntry :: pstruct where
  "Param_UHFC1G2RFModeTableEntry = \<lparr>
    ps_info = tlv_info 329
      [''ModeIdentifier'', ''DR'', ''EPCHAGTCConformance'', ''Mod'', ''FLM'', ''M'', ''BDR'',
      ''PIE'', ''MinTari'', ''MaxTari'', ''StepTari'']
      [] [],
    ps_encode = None,
    ps_decode = Some decode_UHFC1G2RFModeTableEntry\<rparr>"

definition Param_RFSurveyFrequencyCapabilities :: pstruct where
  "Param_RFSurveyFrequencyCapabilities = \<lparr>
    ps_info = tlv_info 365
      [''MinimumFrequency'', ''MaximumFrequency'']
      [] [],
    ps_encode = None,
    ps_decode = Some (basic_param_decode_generator [U32, U32] [''MinimumFrequency'', ''MaximumFrequency''])\<rparr>"

definition decode_LLRPCapabilities :: decoder where
  "decode_LLRPCapabilities decode_all data name =
    (let par = [] in
    bindE (struct_unpack [U8, U8, U16, U32, U32, U32, U32, U32] data) (\<lambda>v.
    let flags = v ! 0;
      v_MaxPriorityLevelSupported = v ! 1;
      v_ClientRequestOpSpecTimeout = v ! 2;
      v_MaxNumROSpec = v ! 3;
      v_MaxNumSpecsPerROSpec = v ! 4;
      v_MaxNumInventoryParametersSpecsPerAISpec = v ! 5;
      v_MaxNumAccessSpec = v ! 6;
      v_MaxNumOpSpecsPerAccessSpec = v ! 7;
      par = dict_set par ''MaxPriorityLevelSupported'' (PInt v_MaxPriorityLevelSupported);
      par = dict_set par ''ClientRequestOpSpecTimeout'' (PInt v_ClientRequestOpSpecTimeout);
      par = dict_set par ''MaxNumROSpec'' (PInt v_MaxNumROSpec);
      par = dict_set par ''MaxNumSpecsPerROSpec'' (PInt v_MaxNumSpecsPerROSpec);
      par = dict_set par ''MaxNumInventoryParametersSpecsPerAISpec'' (PInt v_MaxNumInventoryParametersSpecsPerAISpec);
      par = dict_set par ''MaxNumAccessSpec'' (PInt v_MaxNumAccessSpec);
      par = dict_set par ''MaxNumOpSpecsPerAccessSpec'' (PInt v_MaxNumOpSpecsPerAccessSpec);
      par = dict_set par ''CanDoRFSurvey'' (PBool (flag_at flags 7));
      par = dict_set par ''CanReportBufferFillWarning'' (PBool (flag_at flags 6));
      par = dict_set par ''SupportsClientRequestOpSpec'' (PBool (flag_at flags 5));
      par = dict_set par ''CanDoTagInventoryStateAwareSingulation'' (PBool (flag_at flags 4));
      par = dict_set par ''SupportsEventAndReportHolding'' (PBool (flag_at flags 3)) in
    Inr (PDict par)))"

definition Param_LLRPCapabilities :: pstruct where
  "Param_LLRPCapabilities = \<lparr>
    ps_info = tlv_info 142
      [''CanDoRFSurvey'', ''CanReportBufferFillWarning'', ''SupportsClientRequestOpSpec'',
      ''CanDoTagInventoryStateAwareSingulation'', ''SupportsEventAndReportHolding'',
      ''MaxPriorityLevelSupported'', ''ClientRequestOpSpecTimeout'', ''MaxNumROSpec'',
      ''MaxNumSpecsPerROSpec'', ''MaxNumInventoryParametersSpecsPerAISpec'',
      ''MaxNumAccessSpec'', ''MaxNumOpSpecsPerAccessSpec'']
      [] [],
    ps_encode = None,
    ps_decode = Some decode_LLRPCapabilities\<rparr>"

definition decode_GeneralDeviceCapabilities :: decoder where
  "decode_GeneralDeviceCapabilities decode_all data name =
    bindE (struct_unpack [U16, U16, U32, U32, U16] (take 14 data)) (\<lambda>v.
    let flags = v ! 1; byte_count = v ! 4;
        par = [(''MaxNumberOfAntennaSupported'', PInt (v ! 0)),
               (''DeviceManufacturerName'', PInt (v ! 2)),
               (''ModelName'', PInt (v ! 3)),
               (''FirmwareVersionByteCount'', PInt byte_count)];
        par = dict_set par ''CanSetAntennaProperties'' (PBool (flag_at flags 15));
        par = dict_set par ''HasUTCClockCapability'' (PBool (flag_at flags 14));
        pastVer = 14 + nat byte_count;
        par = dict_set par ''ReaderFirmwareVersion'' (PBytes (take (pastVer - 14) (drop 14 data)));
        data = drop pastVer data in
    bindE (decode_all data ''GeneralDeviceCapabilities'' par) (\<lambda>par.
    Inr (PDict par)))"

definition Param_GeneralDeviceCapabilities :: pstruct where
  "Param_GeneralDeviceCapabilities = \<lparr>
    ps_info = tlv_info 137
      [''MaxNumberOfAntennaSupported'', ''CanSetAntennaProperties'', ''HasUTCClockCapability'',
      ''DeviceManufacturerName'', ''ModelName'', ''FirmwareVersionByteCount'',
      ''ReaderFirmwareVersion'', ''ReceiveSensitivityTableEntry'',
      ''PerAntennaReceiveSensitivityRange'', ''GPIOCapabilities'', ''PerAntennaAirProtocol'',
      ''MaximumReceiveSensitivity'']
      [''GPIOCapabilities'', ''MaximumReceiveSensitivity''] [''ReceiveSensitivityTableEntry'', ''PerAntennaReceiveSensitivityRange'',
      ''PerAntennaAirProtocol''],
    ps_encode = None,
    ps_decode = Some decode_GeneralDeviceCapabilities\<rparr>"

definition Param_MaximumReceiveSensitivity :: pstruct where
  "Param_MaximumReceiveSensitivity = \<lparr>
    ps_info = tlv_info 363
      [''MaximumSensitivityValue'']
      [] [],
    ps_encode = None,
    ps_decode = Some (basic_param_decode_generator [U16] [''MaximumSensitivityValue''])\<rparr>"

definition Param_ReceiveSensitivityTableEntry :: pstruct where
  "Param_ReceiveSensitivityTableEntry = \<lparr>
    ps_info = tlv_info 139
      [''Index'', ''ReceiveSensitivityValue'']
      [] [],
    ps_encode = None,
    ps_decode = Some (basic_param_decode_generator [U16, U16] [''Index'', ''ReceiveSensitivityValue''])\<rparr>"

definition Param_PerAntennaReceiveSensitivityRange :: pstruct where
  "Param_PerAntennaReceiveSensitivityRange = \<lparr>
    ps_info = tlv_info 149
      [''AntennaID'', ''ReceiveSensitivityIndexMin'', ''ReceiveSensitivityIndexMax'']
      [] [],
    ps_encode = None,
    ps_decode = Some (basic_param_decode_generator [U16, U16, U16] [''AntennaID'', ''ReceiveSensitivityIndexMin'', ''ReceiveSensitivityIndexMax''])\<rparr>"

definition decode_PerAntennaAirProtocol :: decoder where
  "decode_PerAntennaAirProtocol decode_all data name =
    bindE (ushort_ushort_unpack (take 4 data)) (\<lambda>(v_AntennaID, v_NumProtocols).
    let par = [(''AntennaID'', PInt v_AntennaID), (''NumProtocols'', PInt v_NumProtocols)];
        data = drop 4 data in
    if v_NumProtocols \<noteq> 0
    then bindE (unpack_repeat U8 (nat v_NumProtocols) data) (\<lambda>ids.
         Inr (PDict (dict_set par ''ProtocolID'' (PList (map PInt ids)))))
    else Inr (PDict par))"

definition Param_PerAntennaAirProtocol :: pstruct where
  "Param_PerAntennaAirProtocol = \<lparr>
    ps_info = tlv_info 140
      [''AntennaID'', ''NumProtocols'', ''ProtocolID'']
      [] [],
    ps_encode = None,
    ps_decode = Some decode_PerAntennaAirProtocol\<rparr>"

definition Param_GPIOCapabilities :: pstruct where
  "Param_GPIOCapabilities = \<lparr>
    ps_info = tlv_info 141
      [''NumGPIs'', ''NumGPOs'']
      [] [],
    ps_encode = None,
    ps_decode = Some (basic_param_decode_generator [U16, U16] [''NumGPIs'', ''NumGPOs''])\<rparr>"

definition Params_Capabilities :: "(string \<times> pstruct) list" where
  "Params_Capabilities = [
    (''UTCTimestamp'', Param_UTCTimestamp),
    (''Uptime'', Param_Uptime),
    (''RegulatoryCapabilities'', Param_RegulatoryCapabilities),
    (''UHFBandCapabilities'', Param_UHFBandCapabilities),
    (''TransmitPowerLevelTableEntry'', Param_TransmitPowerLevelTableEntry),
    (''FrequencyInformation'', Param_FrequencyInformation),
    (''FrequencyHopTable'', Param_FrequencyHopTable),
    (''FixedFrequencyTable'', Param_FixedFrequencyTable),
    (''C1G2LLRPCapabilities'', Param_C1G2LLRPCapabilities),
    (''UHFC1G2RFModeTable'', Param_UHFC1G2RFModeTable),
    (''UHFC1G2RFModeTableEntry'', Param_UHFC1G2RFModeTableEntry),
    (''RFSurveyFrequencyCapabilities'', Param_RFSurveyFrequencyCapabilities),
    (''LLRPCapabilities'', Param_LLRPCapabilities),
    (''GeneralDeviceCapabilities'', Param_GeneralDeviceCapabilities),
    (''MaximumReceiveSensitivity'', Param_MaximumReceiveSensitivity),
    (''ReceiveSensitivityTableEntry'', Param_ReceiveSensitivityTableEntry),
    (''PerAntennaReceiveSensitivityRange'', Param_PerAntennaReceiveSensitivityRange),
    (''PerAntennaAirProtocol'', Param_PerAntennaAirProtocol),
    (''GPIOCapabilities'', Param_GPIOCapabilities)]"

lemmas Params_Capabilities_entries = Params_Capabilities_def
  Param_UTCTimestamp_def
  Param_Uptime_def
  Param_RegulatoryCapabilities_def
  Param_UHFBandCapabilities_def
  Param_TransmitPowerLevelTableEntry_def
  Param_FrequencyInformation_def
  Param_FrequencyHopTable_def
  Param_FixedFrequencyTable_def
  Param_C1G2LLRPCapabilities_def
  Param_UHFC1G2RFModeTable_def
  Param_UHFC1G2RFModeTableEntry_def
  Param_RFSurveyFrequencyCapabilities_def
  Param_LLRPCapabilities_def
  Param_GeneralDeviceCapabilities_def
  Param_MaximumReceiveSensitivity_def
  Param_ReceiveSensitivityTableEntry_def
  Param_PerAntennaReceiveSensitivityRange_def
  Param_PerAntennaAirProtocol_def
  Param_GPIOCapabilities_def

section \<open>Locality\<close>

lemmas Capabilities_dec_local_defs =
  decode_FrequencyInformation_def
  decode_FrequencyHopTable_def
  decode_FixedFrequencyTable_def
  decode_C1G2LLRPCapabilities_def
  decode_UHFC1G2RFModeTableEntry_def
  decode_LLRPCapabilities_def
  decode_GeneralDeviceCapabilities_def
  decode_PerAntennaAirProtocol_def

lemma Capabilities_dec_local [dec_local]:
  "dec_local decode_FrequencyInformation"
  "dec_local decode_FrequencyHopTable"
  "dec_local decode_FixedFrequencyTable"
  "dec_local decode_C1G2LLRPCapabilities"
  "dec_local decode_UHFC1G2RFModeTableEntry"
  "dec_local decode_LLRPCapabilities"
  "dec_local decode_GeneralDeviceCapabilities"
  "dec_local decode_PerAntennaAirProtocol"
  by (rule dec_localI, auto simp: Capabilities_dec_local_defs Let_def
      intro!: bindE_cong split: option.split)+

lemma Capabilities_dec_safe [dec_safe]:
  "dec_safe decode_FrequencyInformation"
  "dec_safe decode_FrequencyHopTable"
  "dec_safe decode_FixedFrequencyTable"
  "dec_safe decode_C1G2LLRPCapabilities"
  "dec_safe decode_UHFC1G2RFModeTableEntry"
  "dec_safe decode_LLRPCapabilities"
  "dec_safe decode_GeneralDeviceCapabilities"
  "dec_safe decode_PerAntennaAirProtocol"
  by (rule dec_safeI, auto simp: Capabilities_dec_local_defs Let_def reserved_keys_def DECODE_ERROR_PARNAME_def
      intro!: tame_bindE tame_mapE split: option.split)+

end
