(* ===== verification/Proto_Access.thy ===== *)
theory Proto_Access
  imports Proto_Capabilities
begin

unbundle bit_operations_syntax

text \<open>
  Registry entries of \<^verbatim>\<open>sllurp/llrp_proto.py\<close>: \<open>ROSpec\<close> and \<open>AccessSpec\<close> with the C1G2 operation specifications an AccessSpec carries.  Each \<open>Param_X\<close> is the entry
  \<open>Param_struct["X"]\<close> as written there, with its encode and decode functions in front of it.
\<close>

section \<open>Entries\<close>

definition encode_ROSpec :: encoder where
  "encode_ROSpec encode_param par param_info =
    bindE (py_item par ''CurrentState'') (\<lambda>v_CurrentState.
    bindE (py_lookup ROSpecState_Name2Type v_CurrentState) (\<lambda>state.
    bindE (py_item par ''ROSpecID'') (\<lambda>v_ROSpecID.
    bindE (py_item par ''Priority'') (\<lambda>v_Priority.
    bindE (pack_vals [U32, U8, U8] [v_ROSpecID, v_Priority, PInt state]) (\<lambda>packed.
    encode_all_parameters encode_param par param_info packed)))))"

definition Param_ROSpec :: pstruct where
  "Param_ROSpec = \<lparr>
    ps_info = tlv_info 177
      [''ROSpecID'', ''Priority'', ''CurrentState'', ''ROBoundarySpec'', ''AISpec'',
      ''RFSurveySpec'', ''LoopSpec'', ''ROReportSpec'']
      [''ROBoundarySpec'', ''ROReportSpec''] [''AISpec'', ''RFSurveySpec'', ''LoopSpec''],
    ps_encode = Some encode_ROSpec,
    ps_decode = Some (basic_auto_param_decode_generator [U32, U8, U8] 6 [''ROSpecID'', ''Priority'', ''CurrentState''])\<rparr>"

definition encode_AccessSpec :: encoder where
  "encode_AccessSpec encode_param par param_info =
    bindE (py_item par ''CurrentState'') (\<lambda>v_CurrentState.
    let current_state = (if py_true v_CurrentState then push_bit 7 1 else 0) in
    bindE (item_int par ''AccessSpecID'') (\<lambda>i_AccessSpecID.
    bindE (item_int par ''AntennaID'') (\<lambda>i_AntennaID.
    bindE (py_item par ''ProtocolID'') (\<lambda>v_ProtocolID.
    bindE (py_item par ''ROSpecID'') (\<lambda>v_ROSpecID.
    bindE (pack_vals [U32, U16, U8, U8, U32] [PInt i_AccessSpecID, PInt i_AntennaID, v_ProtocolID, PInt current_state, v_ROSpecID]) (\<lambda>packed.
    encode_all_parameters encode_param par param_info packed))))))"

definition Param_AccessSpec :: pstruct where
  "Param_AccessSpec = \<lparr>
    ps_info = tlv_info 207
      [''AccessSpecID'', ''AntennaID'', ''ProtocolID'', ''CurrentState'', ''ROSpecID'']
      [''AccessSpecStopTrigger'', ''AccessCommand'', ''AccessReportSpec'',
      ''ImpinjAccessSpecConfiguration''] [],
    ps_encode = Some encode_AccessSpec,
    ps_decode = None\<rparr>"

definition encode_AccessSpecStopTrigger :: encoder where
  "encode_AccessSpecStopTrigger encode_param par param_info =
    bindE (item_int par ''AccessSpecStopTriggerType'') (\<lambda>i_AccessSpecStopTriggerType.
    bindE (item_int par ''OperationCountValue'') (\<lambda>i_OperationCountValue.
    struct_pack [U8, U16] [i_AccessSpecStopTriggerType, i_OperationCountValue]))"

definition Param_AccessSpecStopTrigger :: pstruct where
  "Param_AccessSpecStopTrigger = \<lparr>
    ps_info = tlv_info 208
      [''AccessSpecStopTriggerType'', ''OperationCountValue'']
      [] [],
    ps_encode = Some encode_AccessSpecStopTrigger,
    ps_decode = None\<rparr>"

definition encode_operation :: "enc_param \<Rightarrow> pyval \<Rightarrow> bytes res" where
  "encode_operation encode_param operation =
    bindE (py_items operation) (\<lambda>specs.
    bindE (mapE (\<lambda>(opName, spec_info). encode_param opName spec_info) specs) (\<lambda>bss.
    Inr (concat bss)))"

definition encode_AccessCommand :: encoder where
  "encode_AccessCommand encode_param par param_info =
    bindE (py_item par ''TagSpecParameter'') (\<lambda>tagSpec.
    bindE (py_items tagSpec) (\<lambda>specs.
    case specs of [] \<Rightarrow> Inl StopIteration
    | (opName, spec_info) # _ \<Rightarrow>
      bindE (encode_param opName spec_info) (\<lambda>data.
      bindE (py_item par ''OpSpecParameter'') (\<lambda>opSpecs.
      bindE (py_iter opSpecs) (\<lambda>operations.
      bindE (mapE (encode_operation encode_param) operations) (\<lambda>bss.
      encode_all_parameters encode_param par param_info (data @ concat bss)))))))"

definition Param_AccessCommand :: pstruct where
  "Param_AccessCommand = \<lparr>
    ps_info = tlv_info 209
      [''TagSpecParameter'', ''OpSpecParameter'']
      [] [],
    ps_encode = Some encode_AccessCommand,
    ps_decode = None\<rparr>"

definition Param_C1G2TagSpec :: pstruct where
  "Param_C1G2TagSpec = \<lparr>
    ps_info = tlv_info 338
      []
      [] [''C1G2TargetTag''],
    ps_encode = Some encode_all,
    ps_decode = None\<rparr>"

definition encode_C1G2TargetTag :: encoder where
  "encode_C1G2TargetTag encode_param par param_info =
    bindE (py_item par ''TagMask'') (\<lambda>v_TagMask.
    bindE (hex_to_bit_array v_TagMask) (\<lambda>(mask_bitcount, tag_mask).
    bindE (py_item par ''TagData'') (\<lambda>v_TagData.
    bindE (hex_to_bit_array v_TagData) (\<lambda>(data_bitcount, tag_data).
    bindE (item_int par ''MB'') (\<lambda>i_MB.
    bindE (py_item par ''M'') (\<lambda>v_M.
    let MB_M_byte = push_bit 6 i_MB OR (if py_true v_M then push_bit 5 1 else 0) in
    bindE (item_int par ''Pointer'') (\<lambda>i_Pointer.
    bindE (struct_pack [U8, U16, U16] [MB_M_byte, i_Pointer, mask_bitcount]) (\<lambda>head.
    bindE (struct_pack [U16] [data_bitcount]) (\<lambda>count.
    Inr (head @ (if mask_bitcount \<noteq> 0 then tag_mask else []) @ count @
         (if data_bitcount \<noteq> 0 then tag_data else [])))))))))))"

definition Param_C1G2TargetTag :: pstruct where
  "Param_C1G2TargetTag = \<lparr>
    ps_info = tlv_info 339
      [''MB'', ''M'', ''Pointer'', ''MaskBitCount'', ''TagMask'', ''DataBitCount'', ''TagData'']
      [] [],
    ps_encode = Some encode_C1G2TargetTag,
    ps_decode = None\<rparr>"

definition encode_C1G2Read :: encoder where
  "encode_C1G2Read encode_param par param_info =
    bindE (item_int par ''OpSpecID'') (\<lambda>i_OpSpecID.
    bindE (item_int par ''AccessPassword'') (\<lambda>i_AccessPassword.
    bindE (item_int par ''MB'') (\<lambda>i_MB.
    bindE (item_int par ''WordPtr'') (\<lambda>i_WordPtr.
    bindE (item_int par ''WordCount'') (\<lambda>i_WordCount.
    struct_pack [U16, U32, U8, U16, U16] [i_OpSpecID, i_AccessPassword, push_bit 6 i_MB, i_WordPtr, i_WordCount])))))"

definition Param_C1G2Read :: pstruct where
  "Param_C1G2Read = \<lparr>
    ps_info = tlv_info 341
      [''OpSpecID'', ''AccessPassword'', ''MB'', ''WordPtr'', ''WordCount'']
      [] [],
    ps_encode = Some encode_C1G2Read,
    ps_decode = None\<rparr>"

definition encode_C1G2Write :: encoder where
  "encode_C1G2Write encode_param par param_info =
    bindE (item_int par ''OpSpecID'') (\<lambda>i_OpSpecID.
    bindE (item_int par ''AccessPassword'') (\<lambda>i_AccessPassword.
    bindE (item_int par ''MB'') (\<lambda>i_MB.
    bindE (item_int par ''WordPtr'') (\<lambda>i_WordPtr.
    bindE (item_int par ''WriteDataWordCount'') (\<lambda>i_WriteDataWordCount.
    bindE (struct_pack [U16, U32, U8, U16, U16] [i_OpSpecID, i_AccessPassword, push_bit 6 i_MB, i_WordPtr, i_WriteDataWordCount]) (\<lambda>data.
    bindE (py_item par ''WriteData'') (\<lambda>v_WriteData.
    bindE (py_bytes v_WriteData) (\<lambda>b.
    let data = data @ b in
    Inr data))))))))"

definition Param_C1G2Write :: pstruct where
  "Param_C1G2Write = \<lparr>
    ps_info = tlv_info 342
      [''OpSpecID'', ''AccessPassword'', ''MB'', ''WordPtr'', ''WriteDataWordCount'',
      ''WriteData'']
      [] [],
    ps_encode = Some encode_C1G2Write,
    ps_decode = None\<rparr>"

definition encode_C1G2Lock :: encoder where
  "encode_C1G2Lock encode_param par param_info =
    bindE (item_int par ''OpSpecID'') (\<lambda>i_OpSpecID.
    bindE (item_int par ''AccessPassword'') (\<lambda>i_AccessPassword.
    bindE (struct_pack [U16, U32] [i_OpSpecID, i_AccessPassword]) (\<lambda>packed.
    encode_all_parameters encode_param par param_info packed)))"

definition Param_C1G2Lock :: pstruct where
  "Param_C1G2Lock = \<lparr>
    ps_info = tlv_info 344
      [''OpSpecID'', ''AccessPassword'']
      [] [''C1G2LockPayload''],
    ps_encode = Some encode_C1G2Lock,
    ps_decode = None\<rparr>"

definition encode_C1G2LockPayload :: encoder where
  "encode_C1G2LockPayload encode_param par param_info =
    bindE (item_int par ''Privilege'') (\<lambda>i_Privilege.
    bindE (item_int par ''DataField'') (\<lambda>i_DataField.
    struct_pack [S8, U8] [i_Privilege, i_DataField]))"

definition Param_C1G2LockPayload :: pstruct where
  "Param_C1G2LockPayload = \<lparr>
    ps_info = tlv_info 345
      [''Privilege'', ''DataField'']
      [] [],
    ps_encode = Some encode_C1G2LockPayload,
    ps_decode = None\<rparr>"

definition encode_C1G2BlockWrite :: encoder where
  "encode_C1G2BlockWrite encode_param par param_info =
    bindE (item_int par ''OpSpecID'') (\<lambda>i_OpSpecID.
    bindE (item_int par ''AccessPassword'') (\<lambda>i_AccessPassword.
    bindE (item_int par ''MB'') (\<lambda>i_MB.
    bindE (item_int par ''WordPtr'') (\<lambda>i_WordPtr.
    bindE (item_int par ''WriteDataWordCount'') (\<lambda>i_WriteDataWordCount.
    bindE (struct_pack [U16, U32, U8, U16, U16] [i_OpSpecID, i_AccessPassword, push_bit 6 i_MB, i_WordPtr, i_WriteDataWordCount]) (\<lambda>data.
    bindE (py_item par ''WriteData'') (\<lambda>v_WriteData.
    bindE (py_bytes v_WriteData) (\<lambda>b.
    let data = data @ b in
    Inr data))))))))"

definition Param_C1G2BlockWrite :: pstruct where
  "Param_C1G2BlockWrite = \<lparr>
    ps_info = tlv_info 347
      [''OpSpecID'', ''AccessPassword'', ''MB'', ''WordPtr'', ''WriteDataWordCount'',
      ''WriteData'']
      [] [],
    ps_encode = Some encode_C1G2BlockWrite,
    ps_decode = None\<rparr>"

definition Param_AccessReportSpec :: pstruct where
  "Param_AccessReportSpec = \<lparr>
    ps_info = tlv_info 239
      [''AccessReportTrigger'']
      [] [],
    ps_encode = Some (basic_param_encode_generator [U8] [''AccessReportTrigger'']),
    ps_decode = Some (basic_param_decode_generator [U8] [])\<rparr>"

definition Params_Access :: "(string \<times> pstruct) list" where
  "Params_Access = [
    (''ROSpec'', Param_ROSpec),
    (''AccessSpec'', Param_AccessSpec),
    (''AccessSpecStopTrigger'', Param_AccessSpecStopTrigger),
    (''AccessCommand'', Param_AccessCommand),
    (''C1G2TagSpec'', Param_C1G2TagSpec),
    (''C1G2TargetTag'', Param_C1G2TargetTag),
    (''C1G2Read'', Param_C1G2Read),
    (''C1G2Write'', Param_C1G2Write),
    (''C1G2Lock'', Param_C1G2Lock),
    (''C1G2LockPayload'', Param_C1G2LockPayload),
    (''C1G2BlockWrite'', Param_C1G2BlockWrite),
    (''AccessReportSpec'', Param_AccessReportSpec)]"

lemmas Params_Access_entries = Params_Access_def
  Param_ROSpec_def
  Param_AccessSpec_def
  Param_AccessSpecStopTrigger_def
  Param_AccessCommand_def
  Param_C1G2TagSpec_def
  Param_C1G2TargetTag_def
  Param_C1G2Read_def
  Param_C1G2Write_def
  Param_C1G2Lock_def
  Param_C1G2LockPayload_def
  Param_C1G2BlockWrite_def
  Param_AccessReportSpec_def

section \<open>Locality\<close>

lemmas Access_enc_local_defs =
  encode_ROSpec_def
  encode_AccessSpec_def
  encode_AccessSpecStopTrigger_def
  encode_C1G2TargetTag_def
  encode_C1G2Read_def
  encode_C1G2Write_def
  encode_C1G2Lock_def
  encode_C1G2LockPayload_def
  encode_C1G2BlockWrite_def

lemma Access_enc_local [enc_local]:
  "enc_local encode_ROSpec"
  "enc_local encode_AccessSpec"
  "enc_local encode_AccessSpecStopTrigger"
  "enc_local encode_C1G2TargetTag"
  "enc_local encode_C1G2Read"
  "enc_local encode_C1G2Write"
  "enc_local encode_C1G2Lock"
  "enc_local encode_C1G2LockPayload"
  "enc_local encode_C1G2BlockWrite"
  by (rule enc_localI, auto simp: Access_enc_local_defs Let_def
      intro!: bindE_cong mapE_cong encode_all_parameters_local split: option.split)+

lemma encode_operation_local:
  assumes "\<And>k v. pydepth v < pydepth operation \<Longrightarrow> r k v = r' k v"
  shows "encode_operation r operation = encode_operation r' operation"
  unfolding encode_operation_def
  by (intro bindE_cong mapE_cong refl) (auto simp: assms dest: pydepth_items)

lemma encode_AccessCommand_local [enc_local]: "enc_local encode_AccessCommand"
proof (rule enc_localI)
  fix r r' :: enc_param and par param_info
  assume rr: "\<And>k v. pydepth v < pydepth par \<Longrightarrow> r k v = r' k v"
  have spec: "r k v = r' k v"
    if "py_item par ''TagSpecParameter'' = Inr x" "py_items x = Inr ((k, v) # kvs)" for x k v kvs
    using pydepth_item [OF that(1)] pydepth_items [OF that(2), of k v] by (intro rr) simp
  have ops: "mapE (encode_operation r) l = mapE (encode_operation r') l"
    if "py_item par ''OpSpecParameter'' = Inr x" "py_iter x = Inr l" for x l
    using pydepth_item [OF that(1)] pydepth_iter [OF that(2)]
    by (intro mapE_cong refl encode_operation_local rr) fastforce
  show "encode_AccessCommand r par param_info = encode_AccessCommand r' par param_info"
    unfolding encode_AccessCommand_def
    by (intro bindE_cong refl)
      (auto split: list.split simp: spec ops rr
        intro!: bindE_cong encode_all_parameters_local)
qed

end
