(* ===== verification/Proto_ROSpec.thy ===== *)
theory Proto_ROSpec
  imports Proto_Access
begin

unbundle bit_operations_syntax

text \<open>
  Registry entries of \<^verbatim>\<open>sllurp/llrp_proto.py\<close>: the triggers and specifications nested in a \<open>ROSpec\<close>.  Each \<open>Param_X\<close> is the entry
  \<open>Param_struct["X"]\<close> as written there, with its encode and decode functions in front of it.
\<close>

section \<open>Entries\<close>

definition Param_ROBoundarySpec :: pstruct where
  "Param_ROBoundarySpec = \<lparr>
    ps_info = tlv_info 178
      []
      [''ROSpecStartTrigger'', ''ROSpecStopTrigger''] [],
    ps_encode = Some encode_all,
    ps_decode = Some decode_all_entry\<rparr>"

definition encode_ROSpecStartTrigger :: encoder where
  "encode_ROSpecStartTrigger encode_param par param_info =
    bindE (py_item par ''ROSpecStartTriggerType'') (\<lambda>v_ROSpecStartTriggerType.
    bindE (py_lookup ROSpecStartTriggerType_Name2Type v_ROSpecStartTriggerType) (\<lambda>t_type.
    bindE (struct_pack [U8] [t_type]) (\<lambda>packed.
    encode_all_parameters encode_param par param_info packed)))"

definition Param_ROSpecStartTrigger :: pstruct where
  "Param_ROSpecStartTrigger = \<lparr>
    ps_info = tlv_info 179
      [''ROSpecStartTriggerType'']
      [''PeriodicTriggerValue'', ''GPITriggerValue''] [],
    ps_encode = Some encode_ROSpecStartTrigger,
    ps_decode = Some (basic_auto_param_decode_generator [U8] 1 [''ROSpecStartTriggerType''])\<rparr>"

definition Param_PeriodicTriggerValue :: pstruct where
  "Param_PeriodicTriggerValue = \<lparr>
    ps_info = tlv_info 180
      [''Offset'', ''Period'']
      [''UTCTimestamp''] [],
    ps_encode = Some (basic_auto_param_encode_generator [U32, U32] [''Offset'', ''Period'']),
    ps_decode = Some (basic_auto_param_decode_generator [U32, U32] 8 [''Offset'', ''Period''])\<rparr>"

definition encode_GPITriggerValue :: encoder where
  "encode_GPITriggerValue encode_param par param_info =
    bindE (py_item par ''GPIEvent'') (\<lambda>v_GPIEvent.
    let gpievent = push_bit 7 (of_bool (py_true v_GPIEvent)) in
    bindE (py_item par ''GPIPortNum'') (\<lambda>v_GPIPortNum.
    bindE (item_int par ''Timeout'') (\<lambda>i_Timeout.
    pack_vals [U16, U8, U32] [v_GPIPortNum, PInt gpievent, PInt i_Timeout])))"

definition decode_GPITriggerValue :: decoder where
  "decode_GPITriggerValue decode_all data name =
    bindE (ushort_ubyte_uint_unpack (take 7 data)) (\<lambda>(gpi_port_num, gpi_event, timeout).
    let par = [(''GPIPortNum'', PInt gpi_port_num),
      (''GPIEvent'', PBool (flag_at gpi_event 7)),
      (''Timeout'', PInt timeout)] in
    Inr (PDict par))"

definition Param_GPITriggerValue :: pstruct where
  "Param_GPITriggerValue = \<lparr>
    ps_info = tlv_info 181
      [''GPIPortNum'', ''GPIEvent'', ''Timeout'']
      [] [],
    ps_encode = Some encode_GPITriggerValue,
    ps_decode = Some decode_GPITriggerValue\<rparr>"

definition encode_ROSpecStopTrigger :: encoder where
  "encode_ROSpecStopTrigger encode_param par param_info =
    bindE (py_item par ''ROSpecStopTriggerType'') (\<lambda>v_ROSpecStopTriggerType.
    bindE (py_lookup ROSpecStopTriggerType_Name2Type v_ROSpecStopTriggerType) (\<lambda>t_type.
    bindE (item_int par ''DurationTriggerValue'') (\<lambda>duration.
    bindE (struct_pack [U8, U32] [t_type, duration]) (\<lambda>packed.
    encode_all_parameters encode_param par param_info packed))))"

definition decode_ROSpecStopTrigger :: decoder where
  "decode_ROSpecStopTrigger decode_all data name =
    bindE (ubyte_uint_unpack (take 5 data)) (\<lambda>(trigger_type, duration_trigger_value).
    bindE (type2name ROSpecStopTriggerType_Type2Name trigger_type) (\<lambda>nm.
    let par = [(''ROSpecStopTriggerType'', PStr nm),
      (''DurationTriggerValue'', PInt duration_trigger_value)];
      data = drop 5 data in
    bindE (decode_all data ''ROSpecStopTrigger'' par) (\<lambda>par.
    Inr (PDict par))))"

definition Param_ROSpecStopTrigger :: pstruct where
  "Param_ROSpecStopTrigger = \<lparr>
    ps_info = tlv_info 182
      [''ROSpecStopTriggerType'', ''DurationTriggerValue'']
      [''GPITriggerValue''] [],
    ps_encode = Some encode_ROSpecStopTrigger,
    ps_decode = Some decode_ROSpecStopTrigger\<rparr>"

definition encode_AISpec :: encoder where
  "encode_AISpec encode_param par param_info =
    bindE (py_item par ''AntennaID'') (\<lambda>v_AntennaID.
    bindE (py_len v_AntennaID) (\<lambda>n.
    bindE (struct_pack [U16] [n]) (\<lambda>count.
    bindE (py_iter v_AntennaID) (\<lambda>antids.
    bindE (mapE (\<lambda>antid. bindE (py_int antid) (\<lambda>i. struct_pack [U16] [i])) antids) (\<lambda>ids.
    encode_all_parameters encode_param par param_info (count @ concat ids))))))"

definition decode_AISPec :: decoder where
  "decode_AISPec decode_all data name =
    bindE (ushort_unpack (take 2 data)) (\<lambda>antenna_count.
    let antenna_ids_length = 2 * nat antenna_count;
        antenna_ids = take antenna_ids_length (drop 2 data) in
    bindE (mapE (\<lambda>b. ushort_unpack (take 2 (drop (2 * b) antenna_ids)))
             [0..<length antenna_ids div 2]) (\<lambda>ids.
    let par = [(''AntennaCount'', PInt antenna_count), (''AntennaID'', PList (map PInt ids))];
        data = drop (2 + antenna_ids_length) data in
    bindE (decode_all data ''AISpec'' par) (\<lambda>par.
    Inr (PDict par))))"

definition Param_AISpec :: pstruct where
  "Param_AISpec = \<lparr>
    ps_info = tlv_info 183
      [''AntennaCount'', ''AntennaID'']
      [''AISpecStopTrigger''] [''InventoryParameterSpec''],
    ps_encode = Some encode_AISpec,
    ps_decode = Some decode_AISPec\<rparr>"

definition encode_AISpecStopTrigger :: encoder where
  "encode_AISpecStopTrigger encode_param par param_info =
    bindE (py_item par ''AISpecStopTriggerType'') (\<lambda>v_AISpecStopTriggerType.
    bindE (py_lookup AISpecStopTriggerType_Name2Type v_AISpecStopTriggerType) (\<lambda>t_type.
    bindE (py_get par ''DurationTriggerValue'' (PInt 0)) (\<lambda>v_DurationTriggerValue.
    bindE (py_int v_DurationTriggerValue) (\<lambda>duration.
    bindE (struct_pack [U8, U32] [t_type, duration]) (\<lambda>packed.
    encode_all_parameters encode_param par param_info packed)))))"

definition Param_AISpecStopTrigger :: pstruct where
  "Param_AISpecStopTrigger = \<lparr>
    ps_info = tlv_info 184
      [''AISpecStopTriggerType'', ''DurationTriggerValue'']
      [''GPITriggerValue'', ''TagObservationTrigger''] [],
    ps_encode = Some encode_AISpecStopTrigger,
    ps_decode = Some (basic_auto_param_decode_generator [U8, U32] 5 [''AISpecStopTriggerType'', ''DurationTriggerValue''])\<rparr>"

definition encode_TagObservationTrigger :: encoder where
  "encode_TagObservationTrigger encode_param par param_info =
    bindE (py_item par ''TriggerType'') (\<lambda>v_TriggerType.
    bindE (py_lookup TagObservationTrigger_Name2Type v_TriggerType) (\<lambda>t_type.
    bindE (item_int par ''NumberOfTags'') (\<lambda>n_tags.
    bindE (item_int par ''NumberOfAttempts'') (\<lambda>n_attempts.
    bindE (item_int par ''T'') (\<lambda>t.
    bindE (item_int par ''Timeout'') (\<lambda>timeout.
    struct_pack [U8, U8, U16, U16, U16, U32] [t_type, 0, n_tags, n_attempts, t, timeout]))))))"

definition decode_TagObservationTrigger :: decoder where
  "decode_TagObservationTrigger decode_all data name =
    bindE (struct_unpack [U8, U8, U16, U16, U16, U32] data) (\<lambda>v.
    let trigger_type = v ! 0;
      number_of_tags = v ! 2;
      number_of_attempts = v ! 3;
      t = v ! 4;
      timeout = v ! 5 in
    bindE (type2name TagObservationTrigger_Type2Name trigger_type) (\<lambda>nm.
    let par = [(''TriggerType'', PStr nm),
      (''NumberOfTags'', PInt number_of_tags),
      (''NumberOfAttempts'', PInt number_of_attempts),
      (''T'', PInt t),
      (''Timeout'', PInt timeout)] in
    Inr (PDict par)))"

definition Param_TagObservationTrigger :: pstruct where
  "Param_TagObservationTrigger = \<lparr>
    ps_info = tlv_info 185
      [''TriggerType'', ''NumberOfTags'', ''NumberOfAttempts'', ''T'', ''Timeout'']
      [] [],
    ps_encode = Some encode_TagObservationTrigger,
    ps_decode = Some decode_TagObservationTrigger\<rparr>"

definition Param_InventoryParameterSpec :: pstruct where
  "Param_InventoryParameterSpec = \<lparr>
    ps_info = tlv_info 186
      [''InventoryParameterSpecID'', ''ProtocolID'']
      [] [''AntennaConfiguration''],
    ps_encode = Some (basic_auto_param_encode_generator [U16, U8] [''InventoryParameterSpecID'', ''ProtocolID'']),
    ps_decode = Some (basic_auto_param_decode_generator [U16, U8] 3 [''InventoryParameterSpecID'', ''ProtocolID''])\<rparr>"

definition Params_ROSpec :: "(string \<times> pstruct) list" where
  "Params_ROSpec = [
    (''ROBoundarySpec'', Param_ROBoundarySpec),
    (''ROSpecStartTrigger'', Param_ROSpecStartTrigger),
    (''PeriodicTriggerValue'', Param_PeriodicTriggerValue),
    (''GPITriggerValue'', Param_GPITriggerValue),
    (''ROSpecStopTrigger'', Param_ROSpecStopTrigger),
    (''AISpec'', Param_AISpec),
    (''AISpecStopTrigger'', Param_AISpecStopTrigger),
    (''TagObservationTrigger'', Param_TagObservationTrigger),
    (''InventoryParameterSpec'', Param_InventoryParameterSpec)]"

lemmas Params_ROSpec_entries = Params_ROSpec_def
  Param_ROBoundarySpec_def
  Param_ROSpecStartTrigger_def
  Param_PeriodicTriggerValue_def
  Param_GPITriggerValue_def
  Param_ROSpecStopTrigger_def
  Param_AISpec_def
  Param_AISpecStopTrigger_def
  Param_TagObservationTrigger_def
  Param_InventoryParameterSpec_def

section \<open>Locality\<close>

lemmas ROSpec_dec_local_defs =
  decode_GPITriggerValue_def
  decode_ROSpecStopTrigger_def
  decode_AISPec_def
  decode_TagObservationTrigger_def

lemma ROSpec_dec_local [dec_local]:
  "dec_local decode_GPITriggerValue"
  "dec_local decode_ROSpecStopTrigger"
  "dec_local decode_AISPec"
  "dec_local decode_TagObservationTrigger"
  by (rule dec_localI, auto simp: ROSpec_dec_local_defs Let_def
      intro!: bindE_cong split: option.split)+

lemma ROSpec_dec_safe [dec_safe]:
  "dec_safe decode_GPITriggerValue"
  "dec_safe decode_ROSpecStopTrigger"
  "dec_safe decode_AISPec"
  "dec_safe decode_TagObservationTrigger"
  by (rule dec_safeI, auto simp: ROSpec_dec_local_defs Let_def reserved_keys_def DECODE_ERROR_PARNAME_def
      intro!: tame_bindE tame_mapE split: option.split)+

lemmas ROSpec_enc_local_defs =
  encode_ROSpecStartTrigger_def
  encode_GPITriggerValue_def
  encode_ROSpecStopTrigger_def
  encode_AISpec_def
  encode_AISpecStopTrigger_def
  encode_TagObservationTrigger_def

lemma ROSpec_enc_local [enc_local]:
  "enc_local encode_ROSpecStartTrigger"
  "enc_local encode_GPITriggerValue"
  "enc_local encode_ROSpecStopTrigger"
  "enc_local encode_AISpec"
  "enc_local encode_AISpecStopTrigger"
  "enc_local encode_TagObservationTrigger"
  by (rule enc_localI, auto simp: ROSpec_enc_local_defs Let_def
      intro!: bindE_cong mapE_cong encode_all_parameters_local split: option.split)+

end
