(* ===== verification/Proto_Config.thy ===== *)
theory Proto_Config
  imports Proto_ROSpec
begin

unbundle bit_operations_syntax

text \<open>
  Registry entries of \<^verbatim>\<open>sllurp/llrp_proto.py\<close>: the reader and antenna configuration parameters, the C1G2 inventory command and the report specification.  Each \<open>Param_X\<close> is the entry
  \<open>Param_struct["X"]\<close> as written there, with its encode and decode functions in front of it.
\<close>

section \<open>Entries\<close>

definition Param_LLRPConfigurationStateValue :: pstruct where
  "Param_LLRPConfigurationStateValue = \<lparr>
    ps_info = tlv_info 217
      [''LLRPConfigurationStateValue'']
      [] [],
    ps_encode = None,
    ps_decode = Some (basic_param_decode_generator [U32] [''LLRPConfigurationStateValue''])\<rparr>"

definition decode_Identification :: decoder where
  "decode_Identification decode_all data name =
    bindE (ubyte_ushort_unpack (take 3 data)) (\<lambda>(idtype, bytecount).
    let idtypes = [''MAC Address'', ''EPC''];
        ret = [(''IDType'', PStr (if nat idtype < length idtypes then idtypes ! nat idtype else ''''))];
        ret = dict_set ret ''ReaderID'' (PBytes (hexlify (take (nat bytecount) (drop 3 data)))) in
    Inr (PDict ret))"

definition Param_Identification :: pstruct where
  "Param_Identification = \<lparr>
    ps_info = tlv_info 218
      [''IDType'', ''ReaderID'']
      [] [],
    ps_encode = None,
    ps_decode = Some decode_Identification\<rparr>"

definition decode_GPOEvent :: decoder where
  "decode_GPOEvent decode_all data name =
    (let par = [] in
    bindE (ushort_ubyte_unpack data) (\<lambda>(v_GPOPortNumber, flags).
    let par = dict_set par ''GPOPortNumber'' (PInt v_GPOPortNumber);
      par = dict_set par ''GPOData'' (PBool (flag_at flags 7)) in
    Inr (PDict par)))"

definition Param_GPOWriteData :: pstruct where
  "Param_GPOWriteData = \<lparr>
    ps_info = tlv_info 219
      [''GPOPortNumber'', ''GPOData'']
      [] [],
    ps_encode = None,
    ps_decode = Some decode_GPOEvent\<rparr>"

definition decode_KeepaliveSpec :: decoder where
  "decode_KeepaliveSpec decode_all data name =
    bindE (ubyte_uint_unpack data) (\<lambda>(trigger_type, time_interval).
    bindE (type2name KeepaliveTriggerType_Type2Name trigger_type) (\<lambda>nm.
    let par = [(''KeepaliveTriggerType'', PStr nm),
      (''TimeInterval'', PInt time_interval)] in
    Inr (PDict par)))"

definition Param_KeepaliveSpec :: pstruct where
  "Param_KeepaliveSpec = \<lparr>
    ps_info = tlv_info 220
      [''KeepaliveTriggerType'', ''TimeInterval'']
      [] [],
    ps_encode = Some (basic_auto_param_encode_generator [U8, U32] [''KeepaliveTriggerType'', ''TimeInterval'']),
    ps_decode = Some decode_KeepaliveSpec\<rparr>"

definition decode_AntennaProperties :: decoder where
  "decode_AntennaProperties decode_all data name =
    (let par = [] in
    bindE (ubyte_ushort_short_unpack data) (\<lambda>(flags, v_AntennaID, v_AntennaGain).
    let par = dict_set par ''AntennaID'' (PInt v_AntennaID);
      par = dict_set par ''AntennaGain'' (PInt v_AntennaGain);
      par = dict_set par ''AntennaConnected'' (PBool (flag_at flags 7)) in
    Inr (PDict par)))"

definition Param_AntennaProperties :: pstruct where
  "Param_AntennaProperties = \<lparr>
    ps_info = tlv_info 221
      [''Type'', ''AntennaConnected'', ''AntennaID'', ''AntennaGain'']
      [] [],
    ps_encode = None,
    ps_decode = Some decode_AntennaProperties\<rparr>"

definition Param_AntennaConfiguration :: pstruct where
  "Param_AntennaConfiguration = \<lparr>
    ps_info = tlv_info 222
      [''AntennaID'']
      [''RFReceiver'', ''RFTransmitter''] [''C1G2InventoryCommand''],
    ps_encode = Some (basic_auto_param_encode_generator [U16] [''AntennaID'']),
    ps_decode = Some (basic_auto_param_decode_generator [U16] 2 [''AntennaID''])\<rparr>"

definition Param_RFReceiver :: pstruct where
  "Param_RFReceiver = \<lparr>
    ps_info = tlv_info 223
      [''ReceiverSensitivity'']
      [] [],
    ps_encode = Some (basic_param_encode_generator [U16] [''ReceiverSensitivity'']),
    ps_decode = Some (basic_param_decode_generator [U16] [''ReceiverSensitivity''])\<rparr>"

definition Param_RFTransmitter :: pstruct where
  "Param_RFTransmitter = \<lparr>
    ps_info = tlv_info 224
      [''HopTableId'', ''ChannelIndex'', ''TransmitPower'']
      [] [],
    ps_encode = Some (basic_param_encode_generator [U16, U16, U16] [''HopTableId'', ''ChannelIndex'', ''TransmitPower'']),
    ps_decode = Some (basic_param_decode_generator [U16, U16, U16] [''HopTableId'', ''ChannelIndex'', ''TransmitPower''])\<rparr>"

definition encode_GPIPortCurrentState :: encoder where
  "encode_GPIPortCurrentState encode_param par param_info =
    bindE (py_item par ''GPIConfig'') (\<lambda>v_GPIConfig.
    let gpiconfig = push_bit 7 (of_bool (py_true v_GPIConfig)) in
    bindE (py_item par ''GPIPortNum'') (\<lambda>v_GPIPortNum.
    pack_vals [U16, U8, U8] [v_GPIPortNum, PInt gpiconfig, PInt 0]))"

definition decode_GPIPortCurrentState :: decoder where
  "decode_GPIPortCurrentState decode_all data name =
    (let par = [] in
    bindE (ushort_ubyte_ubyte_unpack data) (\<lambda>(v_GPIPortNum, flags, v_GPIState).
    let par = dict_set par ''GPIPortNum'' (PInt v_GPIPortNum);
      par = dict_set par ''GPIState'' (PInt v_GPIState);
      par = dict_set par ''GPIConfig'' (PBool (flag_at flags 7)) in
    Inr (PDict par)))"

definition Param_GPIPortCurrentState :: pstruct where
  "Param_GPIPortCurrentState = \<lparr>
    ps_info = tlv_info 225
      [''GPIPortNum'', ''GPIConfig'', ''GPIState'']
      [] [],
    ps_encode = Some encode_GPIPortCurrentState,
    ps_decode = Some decode_GPIPortCurrentState\<rparr>"

definition decode_EventsAndReports :: decoder where
  "decode_EventsAndReports decode_all data name =
    bindE (ubyte_unpack data) (\<lambda>flags.
    let par = [(''HoldEventsAndReportsUponReconnect'', PBool (flag_at flags 7))] in
    Inr (PDict par))"

definition Param_EventsAndReports :: pstruct where
  "Param_EventsAndReports = \<lparr>
    ps_info = tlv_info 226
      [''HoldEventsAndReportsUponReconnect'']
      [] [],
    ps_encode = None,
    ps_decode = Some decode_EventsAndReports\<rparr>"

definition encode_C1G2InventoryCommand :: encoder where
  "encode_C1G2InventoryCommand encode_param par param_info =
    bindE (py_item par ''TagInventoryStateAware'') (\<lambda>v_TagInventoryStateAware.
    bindE (struct_pack [U8] [push_bit 7 ((if py_true v_TagInventoryStateAware then 1 else 0))]) (\<lambda>packed.
    encode_all_parameters encode_param par param_info packed))"

definition decode_C1G2InventoryCommand :: decoder where
  "decode_C1G2InventoryCommand decode_all data name =
    (let par = [] in
    bindE (ubyte_unpack (take 1 data)) (\<lambda>flags.
    let par = dict_set par ''TagInventoryStateAware'' (PBool (flag_at flags 7)) in
    bindE (decode_all (drop 1 data) ''C1G2InventoryCommand'' par) (\<lambda>par.
    Inr (PDict par))))"

definition Param_C1G2InventoryCommand :: pstruct where
  "Param_C1G2InventoryCommand = \<lparr>
    ps_info = tlv_info 330
      [''TagInventoryStateAware'', ''C1G2Filter'', ''C1G2RFControl'',
      ''C1G2SingulationControl'', ''ImpinjInventoryConfiguration'',
      ''ImpinjInventorySearchMode'', ''ImpinjIntelligentAntennaManagement'',
      ''ImpinjFixedFrequencyList'', ''ImpinjReducedPowerFrequencyList'',
      ''ImpinjLowDutyCycle'', ''ImpinjRFPowerSweep'']
      [''C1G2RFControl'', ''C1G2SingulationControl'', ''ImpinjInventoryConfiguration'',
      ''ImpinjInventorySearchMode'', ''ImpinjIntelligentAntennaManagement'',
      ''ImpinjFixedFrequencyList'', ''ImpinjReducedPowerFrequencyList'',
      ''ImpinjLowDutyCycle'', ''ImpinjRFPowerSweep''] [''C1G2Filter''],
    ps_encode = Some encode_C1G2InventoryCommand,
    ps_decode = Some decode_C1G2InventoryCommand\<rparr>"

definition encode_C1G2Filter :: encoder where
  "encode_C1G2Filter encode_param par param_info =
    bindE (py_get par ''T'' (PInt 0)) (\<lambda>v_T.
    bindE (py_int v_T) (\<lambda>t.
    bindE (struct_pack [U8] [push_bit 6 (t AND 3)]) (\<lambda>packed.
    encode_all_parameters encode_param par param_info packed)))"

definition Param_C1G2Filter :: pstruct where
  "Param_C1G2Filter = \<lparr>
    ps_info = tlv_info 331
      [''T'']
      [''C1G2TagInventoryMask'', ''C1G2TagInventoryStateAwareFilterAction'',
      ''C1G2TagInventoryStateUnawareFilterAction''] [],
    ps_encode = Some encode_C1G2Filter,
    ps_decode = None\<rparr>"

definition encode_C1G2TagInventoryMask :: encoder where
  "encode_C1G2TagInventoryMask encode_param par param_info =
    bindE (py_item par ''TagMask'') (\<lambda>v_TagMask.
    bindE (hex_to_bit_array v_TagMask) (\<lambda>(tag_mask_bitcount, tag_mask).
    bindE (py_item par ''MB'') (\<lambda>v_MB.
    bindE (py_operand v_MB) (\<lambda>i_MB.
    bindE (py_item par ''Pointer'') (\<lambda>v_Pointer.
    bindE (pack_vals [U8, U16, U16] [PInt (push_bit 6 i_MB), v_Pointer, PInt tag_mask_bitcount]) (\<lambda>data.
    Inr (data @ tag_mask)))))))"

definition Param_C1G2TagInventoryMask :: pstruct where
  "Param_C1G2TagInventoryMask = \<lparr>
    ps_info = tlv_info 332
      [''MB'', ''Pointer'', ''TagMask'', ''MaskBitCount'']
      [] [],
    ps_encode = Some encode_C1G2TagInventoryMask,
    ps_decode = None\<rparr>"

definition Param_C1G2RFControl :: pstruct where
  "Param_C1G2RFControl = \<lparr>
    ps_info = tlv_info 335
      [''ModeIndex'', ''Tari'']
      [] [],
    ps_encode = Some (basic_param_encode_generator [U16, U16] [''ModeIndex'', ''Tari'']),
    ps_decode = Some (basic_param_decode_generator [U16, U16] [''ModeIndex'', ''Tari''])\<rparr>"

definition encode_C1G2SingulationControl :: encoder where
  "encode_C1G2SingulationControl encode_param par param_info =
    bindE (py_item par ''Session'') (\<lambda>v_Session.
    bindE (py_operand v_Session) (\<lambda>i_Session.
    bindE (py_item par ''TagPopulation'') (\<lambda>v_TagPopulation.
    bindE (py_item par ''TagTransitTime'') (\<lambda>v_TagTransitTime.
    pack_vals [U8, U16, U32] [PInt (push_bit 6 i_Session), v_TagPopulation, v_TagTransitTime]))))"

definition decode_C1G2SingulationControl :: decoder where
  "decode_C1G2SingulationControl decode_all data name =
    (let par = [] in
    bindE (ubyte_ushort_uint_unpack (take 7 data)) (\<lambda>(bitfield, v_TagPopulation, v_TagTransitTime).
    let par = dict_set par ''TagPopulation'' (PInt v_TagPopulation);
      par = dict_set par ''TagTransitTime'' (PInt v_TagTransitTime);
      par = dict_set par ''Session'' (PInt (drop_bit 6 bitfield));
      data = drop 7 data in
    bindE (decode_all data ''C1G2SingulationControl'' par) (\<lambda>par.
    Inr (PDict par))))"

definition Param_C1G2SingulationControl :: pstruct where
  "Param_C1G2SingulationControl = \<lparr>
    ps_info = tlv_info 336
      [''Session'', ''TagPopulation'', ''TagTransitTime'']
      [''C1G2TagInventoryStateAwareSingulationAction''] [],
    ps_encode = Some encode_C1G2SingulationControl,
    ps_decode = Some decode_C1G2SingulationControl\<rparr>"

definition decode_C1G2TagInventoryStateAwareSingulationAction :: decoder where
  "decode_C1G2TagInventoryStateAwareSingulationAction decode_all data name =
    (let par = [] in
    bindE (ubyte_unpack data) (\<lambda>ISA.
    let par = dict_set par ''I'' (PStr (if drop_bit 7 ISA \<noteq> 0 then ''State_B'' else ''State_A''));
      par = dict_set par ''S'' (PStr (if drop_bit 6 ISA AND 1 \<noteq> 0 then ''Not_SL'' else ''SL''));
      par = dict_set par ''A'' (PStr (if drop_bit 5 ISA AND 1 \<noteq> 0 then ''All'' else ''No'')) in
    Inr (PDict par)))"

definition Param_C1G2TagInventoryStateAwareSingulationAction :: pstruct where
  "Param_C1G2TagInventoryStateAwareSingulationAction = \<lparr>
    ps_info = tlv_info 337
      [''I'', ''S'', ''A'']
      [] [],
    ps_encode = None,
    ps_decode = Some decode_C1G2TagInventoryStateAwareSingulationAction\<rparr>"

definition encode_ROReportSpec :: encoder where
  "encode_ROReportSpec encode_param par param_info =
    bindE (py_item par ''ROReportTrigger'') (\<lambda>v_ROReportTrigger.
    bindE (py_lookup ROReportTrigger_Name2Value v_ROReportTrigger) (\<lambda>roReportTrigger.
    bindE (item_int par ''N'') (\<lambda>n.
    bindE (struct_pack [U8, U16] [roReportTrigger, n]) (\<lambda>packed.
    encode_all_parameters encode_param par param_info packed))))"

definition decode_ROReportSpec :: decoder where
  "decode_ROReportSpec decode_all data name =
    (let par = [] in
    bindE (ubyte_ushort_unpack (take 3 data)) (\<lambda>(trigger_type, v_N).
    let par = dict_set par ''N'' (PInt v_N) in
    bindE (type2name ROReportTrigger_Value2Name trigger_type) (\<lambda>nm.
    let par = dict_set par ''ROReportTrigger'' (PStr nm) in
    bindE (decode_all (drop 3 data) ''ROReportSpec'' par) (\<lambda>par.
    Inr (PDict par)))))"

definition Param_ROReportSpec :: pstruct where
  "Param_ROReportSpec = \<lparr>
    ps_info = tlv_info 237
      [''ROReportTrigger'', ''N'']
      [''TagReportContentSelector'', ''ImpinjTagReportContentSelector'',
      ''MotoTagReportContentSelector''] [],
    ps_encode = Some encode_ROReportSpec,
    ps_decode = Some decode_ROReportSpec\<rparr>"

definition encode_ReaderEventNotificationSpec :: encoder where
  "encode_ReaderEventNotificationSpec encode_param par param_info =
    bindE (py_item par ''EventNotificationState'') (\<lambda>states.
    bindE (py_items states) (\<lambda>items.
    bindE (mapE (\<lambda>(ev_type, flag).
        if map_of EventState_Name2Value ev_type = None then Inr []
        else encode_param ''EventNotificationState''
               (PDict [(''EventType'', PStr ev_type), (''NotificationState'', flag)])) items) (\<lambda>bss.
    Inr (concat bss))))"

definition Param_ReaderEventNotificationSpec :: pstruct where
  "Param_ReaderEventNotificationSpec = \<lparr>
    ps_info = tlv_info 244
      []
      [] [''EventNotificationState''],
    ps_encode = Some encode_ReaderEventNotificationSpec,
    ps_decode = Some decode_all_entry\<rparr>"

definition encode_EventNotificationState :: encoder where
  "encode_EventNotificationState encode_param par param_info =
    bindE (py_item par ''EventType'') (\<lambda>v_EventType.
    bindE (py_lookup EventState_Name2Value v_EventType) (\<lambda>event_type.
    bindE (py_item par ''NotificationState'') (\<lambda>v_NotificationState.
    let enabled = push_bit 7 (of_bool (py_true v_NotificationState)) AND 255 in
    struct_pack [U16, U8] [event_type, enabled])))"

definition decode_EventNotificationState :: decoder where
  "decode_EventNotificationState decode_all data name =
    bindE (ushort_ubyte_unpack data) (\<lambda>(event_type, flags).
    bindE (type2name EventState_Value2Name event_type) (\<lambda>nm.
    let par = [(''EventType'', PStr nm),
      (''NotificationState'', PBool (flag_at flags 7))] in
    Inr (PDict par)))"

definition Param_EventNotificationState :: pstruct where
  "Param_EventNotificationState = \<lparr>
    ps_info = tlv_info 245
      [''EventType'', ''NotificationState'']
      [] [],
    ps_encode = Some encode_EventNotificationState,
    ps_decode = Some decode_EventNotificationState\<rparr>"

definition TagReportContentSelector_info :: pinfo where
  "TagReportContentSelector_info = tlv_info 238
      [''EnableROSpecID'', ''EnableSpecIndex'', ''EnableInventoryParameterSpecID'',
      ''EnableAntennaID'', ''EnableChannelIndex'', ''EnablePeakRSSI'',
      ''EnableFirstSeenTimestamp'', ''EnableLastSeenTimestamp'', ''EnableTagSeenCount'',
      ''EnableAccessSpecID'']
      [''C1G2EPCMemorySelector''] []"

definition encode_TagReportContentSelector :: encoder where
  "encode_TagReportContentSelector encode_param par param_info =
    bindE (pack_selector [''C1G2EPCMemorySelector'', ''CustomParameter'']
             (\<lambda>field. bindE (py_get par field (PBool False)) (\<lambda>v. Inr (py_true v)))
             15 (pi_fields param_info) 0) (\<lambda>flags.
    bindE (struct_pack [U16] [flags]) (\<lambda>packed.
    encode_all_parameters encode_param par param_info packed))"

definition decode_TagReportContentSelector :: decoder where
  "decode_TagReportContentSelector decode_all data name =
    bindE (ushort_unpack (take 2 data)) (\<lambda>flags.
    bindE (unpack_selector [''C1G2EPCMemorySelector'', ''CustomParameter''] flags
             15 (pi_fields (finish_info TagReportContentSelector_info)) []) (\<lambda>par.
    let data = drop 2 data in
    bindE (decode_all data ''TagReportContentSelector'' par) (\<lambda>par.
    Inr (PDict par))))"

definition Param_TagReportContentSelector :: pstruct where
  "Param_TagReportContentSelector = \<lparr>
    ps_info = TagReportContentSelector_info,
    ps_encode = Some encode_TagReportContentSelector,
    ps_decode = Some decode_TagReportContentSelector\<rparr>"

definition encode_C1G2EPCMemorySelector :: encoder where
  "encode_C1G2EPCMemorySelector encode_param par param_info =
    bindE (pack_selector [''CustomParameter'']
             (\<lambda>field. bindE (py_in field par) (\<lambda>present.
                if present then bindE (py_item par field) (\<lambda>v. Inr (py_true v)) else Inr False))
             7 (pi_fields param_info) 0) (\<lambda>flags.
    struct_pack [U8] [flags])"

definition decode_C1G2EPCMemorySelector :: decoder where
  "decode_C1G2EPCMemorySelector decode_all data name =
    bindE (ubyte_unpack data) (\<lambda>flags.
    let par = [(''EnableCRC'', PBool (flag_at flags 7)),
      (''EnablePCBits'', PBool (flag_at flags 6)),
      (''EnableXPCBits'', PBool (flag_at flags 5))] in
    Inr (PDict par))"

definition Param_C1G2EPCMemorySelector :: pstruct where
  "Param_C1G2EPCMemorySelector = \<lparr>
    ps_info = tlv_info 348
      [''EnableCRC'', ''EnablePCBits'', ''EnableXPCBits'']
      [] [],
    ps_encode = Some encode_C1G2EPCMemorySelector,
    ps_decode = Some decode_C1G2EPCMemorySelector\<rparr>"

definition Params_Config :: "(string \<times> pstruct) list" where
  "Params_Config = [
    (''LLRPConfigurationStateValue'', Param_LLRPConfigurationStateValue),
    (''Identification'', Param_Identification),
    (''GPOWriteData'', Param_GPOWriteData),
    (''KeepaliveSpec'', Param_KeepaliveSpec),
    (''AntennaProperties'', Param_AntennaProperties),
    (''AntennaConfiguration'', Param_AntennaConfiguration),
    (''RFReceiver'', Param_RFReceiver),
    (''RFTransmitter'', Param_RFTransmitter),
    (''GPIPortCurrentState'', Param_GPIPortCurrentState),
    (''EventsAndReports'', Param_EventsAndReports),
    (''C1G2InventoryCommand'', Param_C1G2InventoryCommand),
    (''C1G2Filter'', Param_C1G2Filter),
    (''C1G2TagInventoryMask'', Param_C1G2TagInventoryMask),
    (''C1G2RFControl'', Param_C1G2RFControl),
    (''C1G2SingulationControl'', Param_C1G2SingulationControl),
    (''C1G2TagInventoryStateAwareSingulationAction'', Param_C1G2TagInventoryStateAwareSingulationAction),
    (''ROReportSpec'', Param_ROReportSpec),
    (''ReaderEventNotificationSpec'', Param_ReaderEventNotificationSpec),
    (''EventNotificationState'', Param_EventNotificationState),
    (''TagReportContentSelector'', Param_TagReportContentSelector),
    (''C1G2EPCMemorySelector'', Param_C1G2EPCMemorySelector)]"

lemmas Params_Config_entries = Params_Config_def
  Param_LLRPConfigurationStateValue_def
  Param_Identification_def
  Param_GPOWriteData_def
  Param_KeepaliveSpec_def
  Param_AntennaProperties_def
  Param_AntennaConfiguration_def
  Param_RFReceiver_def
  Param_RFTransmitter_def
  Param_GPIPortCurrentState_def
  Param_EventsAndReports_def
  Param_C1G2InventoryCommand_def
  Param_C1G2Filter_def
  Param_C1G2TagInventoryMask_def
  Param_C1G2RFControl_def
  Param_C1G2SingulationControl_def
  Param_C1G2TagInventoryStateAwareSingulationAction_def
  Param_ROReportSpec_def
  Param_ReaderEventNotificationSpec_def
  Param_EventNotificationState_def
  Param_TagReportContentSelector_def
  Param_C1G2EPCMemorySelector_def

section \<open>Locality\<close>

lemmas Config_dec_local_defs =
  decode_Identification_def
  decode_GPOEvent_def
  decode_KeepaliveSpec_def
  decode_AntennaProperties_def
  decode_GPIPortCurrentState_def
  decode_EventsAndReports_def
  decode_C1G2InventoryCommand_def
  decode_C1G2SingulationControl_def
  decode_C1G2TagInventoryStateAwareSingulationAction_def
  decode_ROReportSpec_def
  decode_EventNotificationState_def
  decode_TagReportContentSelector_def
  decode_C1G2EPCMemorySelector_def

lemma Config_dec_local [dec_local]:
  "dec_local decode_Identification"
  "dec_local decode_GPOEvent"
  "dec_local decode_KeepaliveSpec"
  "dec_local decode_AntennaProperties"
  "dec_local decode_GPIPortCurrentState"
  "dec_local decode_EventsAndReports"
  "dec_local decode_C1G2InventoryCommand"
  "dec_local decode_C1G2SingulationControl"
  "dec_local decode_C1G2TagInventoryStateAwareSingulationAction"
  "dec_local decode_ROReportSpec"
  "dec_local decode_EventNotificationState"
  "dec_local decode_TagReportContentSelector"
  "dec_local decode_C1G2EPCMemorySelector"
  by (rule dec_localI, auto simp: Config_dec_local_defs Let_def
      intro!: bindE_cong split: option.split)+

lemma Config_dec_safe [dec_safe]:
  "dec_safe decode_Identification"
  "dec_safe decode_GPOEvent"
  "dec_safe decode_KeepaliveSpec"
  "dec_safe decode_AntennaProperties"
  "dec_safe decode_GPIPortCurrentState"
  "dec_safe decode_EventsAndReports"
  "dec_safe decode_C1G2InventoryCommand"
  "dec_safe decode_C1G2SingulationControl"
  "dec_safe decode_C1G2TagInventoryStateAwareSingulationAction"
  "dec_safe decode_ROReportSpec"
  "dec_safe decode_EventNotificationState"
  "dec_safe decode_C1G2EPCMemorySelector"
  by (rule dec_safeI, auto simp: Config_dec_local_defs Let_def reserved_keys_def DECODE_ERROR_PARNAME_def
      intro!: tame_bindE tame_mapE split: option.split)+

lemmas Config_enc_local_defs =
  encode_GPIPortCurrentState_def
  encode_C1G2InventoryCommand_def
  encode_C1G2Filter_def
  encode_C1G2TagInventoryMask_def
  encode_C1G2SingulationControl_def
  encode_ROReportSpec_def
  encode_EventNotificationState_def
  encode_TagReportContentSelector_def
  encode_C1G2EPCMemorySelector_def

lemma Config_enc_local [enc_local]:
  "enc_local encode_GPIPortCurrentState"
  "enc_local encode_C1G2InventoryCommand"
  "enc_local encode_C1G2Filter"
  "enc_local encode_C1G2TagInventoryMask"
  "enc_local encode_C1G2SingulationControl"
  "enc_local encode_ROReportSpec"
  "enc_local encode_EventNotificationState"
  "enc_local encode_TagReportContentSelector"
  "enc_local encode_C1G2EPCMemorySelector"
  by (rule enc_localI, auto simp: Config_enc_local_defs Let_def
      intro!: bindE_cong mapE_cong encode_all_parameters_local split: option.split)+

lemma encode_ReaderEventNotificationSpec_local [enc_local]:
  "enc_local encode_ReaderEventNotificationSpec"
proof (rule enc_localI)
  fix r r' :: enc_param and par param_info
  assume rr: "\<And>k v. pydepth v < pydepth par \<Longrightarrow> r k v = r' k v"
  have "r k (PDict [(a, PStr e), (b, flag)]) = r' k (PDict [(a, PStr e), (b, flag)])"
    if "py_item par ''EventNotificationState'' = Inr x" "py_items x = Inr l" "(e, flag) \<in> set l"
    for x l e flag k a b
    using pydepth_item [OF that(1)] pydepth_items [OF that(2,3)] by (intro rr) simp
  then show "encode_ReaderEventNotificationSpec r par param_info =
      encode_ReaderEventNotificationSpec r' par param_info"
    unfolding encode_ReaderEventNotificationSpec_def
    by (auto intro!: bindE_cong mapE_cong split: if_splits)
qed

lemma decode_TagReportContentSelector_safe [dec_safe]: "dec_safe decode_TagReportContentSelector"
proof (rule dec_safeI)
  fix deep and r :: dec_all and data :: bytes and name
  assume r: "\<And>data' n p. length data' \<le> length data \<Longrightarrow> no_reserved p \<Longrightarrow> tame deep (r data' n p)"
  have "list_all (\<lambda>k. k \<in> set [''C1G2EPCMemorySelector'', ''CustomParameter''] \<or> k \<notin> reserved_keys)
      (pi_fields (finish_info TagReportContentSelector_info))"
    by (simp add: TagReportContentSelector_info_def tlv_info_def finish_info_def Let_def reserved_keys_def
        DECODE_ERROR_PARNAME_def)
  then show "tame deep (decode_TagReportContentSelector r data name)"
    unfolding decode_TagReportContentSelector_def Let_def
    by (intro tame_bindE r tame_unpack tame_unpack_selector tame_simps(1))
      (auto elim!: unpack_selector_no_reserved)
qed

end
