(* ===== verification/Proto_Report.thy ===== *)
theory Proto_Report
  imports Proto_Config
begin

unbundle bit_operations_syntax

text \<open>
  Registry entries of \<^verbatim>\<open>sllurp/llrp_proto.py\<close>: tag report data, operation results and EPC values.  Each \<open>Param_X\<close> is the entry
  \<open>Param_struct["X"]\<close> as written there, with its encode and decode functions in front of it.
\<close>

section \<open>Entries\<close>

definition decode_TagReportData :: decoder where
  "decode_TagReportData decode_all data name =
    bindE (decode_all data ''TagReportData'' []) (\<lambda>par.
    Inr (PDict (case dict_get par ''EPC-96'' of
        None \<Rightarrow> par | Some epc \<Rightarrow> dict_set par ''EPC'' epc)))"

definition Param_TagReportData :: pstruct where
  "Param_TagReportData = \<lparr>
    ps_info = tlv_info 240
      []
      [''EPC'', ''EPC-96'', ''ROSpecID'', ''SpecIndex'', ''InventoryParameterSpecID'',
      ''AntennaID'', ''PeakRSSI'', ''ChannelIndex'', ''FirstSeenTimestampUTC'',
      ''FirstSeenTimestampUptime'', ''LastSeenTimestampUTC'', ''LastSeenTimestampUptime'',
      ''TagSeenCount'', ''C1G2CRC'', ''C1G2PC'', ''C1G2XPCW1'', ''C1G2XPCW2'',
      ''AccessSpecID'', ''C1G2ReadOpSpecResult'', ''C1G2WriteOpSpecResult'',
      ''C1G2KillOpSpecResult'', ''C1G2RecommissionOpSpecResult'', ''C1G2LockOpSpecResult'',
      ''C1G2BlockEraseOpSpecResult'', ''C1G2BlockWriteOpSpecResult'',
      ''C1G2BlockPermalockOpSpecResult'', ''C1G2GetBlockPermalockStatusOpSpecResult'',
      ''ImpinjRFPhaseAngle'', ''ImpinjPeakRSSI'', ''ImpinjRFDopplerFrequency'',
      ''ImpinjSerializedTID'', ''ImpinjGPSCoordinates'', ''ImpinjTxPower'', ''MotoTagPhase''] [],
    ps_encode = None,
    ps_decode = Some decode_TagReportData\<rparr>"

definition basic_OpSpecResult :: "bytes \<Rightarrow> (pydict \<times> bytes) res" where
  "basic_OpSpecResult data =
    bindE (ubyte_ushort_unpack (take 3 data)) (\<lambda>(v_Result, v_OpSpecID).
    Inr ([(''Result'', PInt v_Result), (''OpSpecID'', PInt v_OpSpecID)], drop 3 data))"

definition decode_basic_OpSpecResult :: decoder where
  "decode_basic_OpSpecResult decode_all data name =
    bindE (basic_OpSpecResult data) (\<lambda>(par, data). Inr (PDict par))"

definition decode_C1G2ReadOpSpecResult :: decoder where
  "decode_C1G2ReadOpSpecResult decode_all data name =
    bindE (basic_OpSpecResult data) (\<lambda>(par, data).
    bindE (ushort_unpack (take 2 data)) (\<lambda>wordcnt.
    let par = dict_set par ''ReadDataWordCount'' (PInt wordcnt);
        end_pos = 2 + nat wordcnt * 2;
        par = dict_set par ''ReadData'' (PBytes (take (end_pos - 2) (drop 2 data))) in
    Inr (PDict par)))"

definition decode_C1G2WriteOpSpecResult :: decoder where
  "decode_C1G2WriteOpSpecResult decode_all data name =
    bindE (basic_OpSpecResult data) (\<lambda>(par, data).
    bindE (ushort_unpack (take 2 data)) (\<lambda>words.
    let par = dict_set par ''NumWordsWritten'' (PInt words) in
    Inr (PDict par)))"

definition decode_C1G2GetBlockPermalockStatusOpSpecResult :: decoder where
  "decode_C1G2GetBlockPermalockStatusOpSpecResult decode_all data name =
    bindE (basic_OpSpecResult data) (\<lambda>(par, data).
    bindE (ushort_unpack (take 2 data)) (\<lambda>wordcnt.
    let par = dict_set par ''StatusWordCount'' (PInt wordcnt);
        end_pos = 2 + nat wordcnt * 2;
        par = dict_set par ''PermalockStatus'' (PBytes (take (end_pos - 2) (drop 2 data))) in
    Inr (PDict par)))"

definition Param_C1G2ReadOpSpecResult :: pstruct where
  "Param_C1G2ReadOpSpecResult = \<lparr>
    ps_info = tlv_info 349
      [''Result'', ''OpSpecID'', ''ReadDataWordCount'', ''ReadData'']
      [] [],
    ps_encode = None,
    ps_decode = Some decode_C1G2ReadOpSpecResult\<rparr>"

definition Param_C1G2WriteOpSpecResult :: pstruct where
  "Param_C1G2WriteOpSpecResult = \<lparr>
    ps_info = tlv_info 350
      [''Result'', ''OpSpecID'', ''NumWordsWritten'']
      [] [],
    ps_encode = None,
    ps_decode = Some decode_C1G2WriteOpSpecResult\<rparr>"

definition Param_C1G2KillOpSpecResult :: pstruct where
  "Param_C1G2KillOpSpecResult = \<lparr>
    ps_info = tlv_info 351
      [''Result'', ''OpSpecID'']
      [] [],
    ps_encode = None,
    ps_decode = Some decode_basic_OpSpecResult\<rparr>"

definition Param_C1G2RecommissionOpSpecResult :: pstruct where
  "Param_C1G2RecommissionOpSpecResult = \<lparr>
    ps_info = tlv_info 360
      [''Result'', ''OpSpecID'']
      [] [],
    ps_encode = None,
    ps_decode = Some decode_basic_OpSpecResult\<rparr>"

definition Param_C1G2LockOpSpecResult :: pstruct where
  "Param_C1G2LockOpSpecResult = \<lparr>
    ps_info = tlv_info 352
      [''Result'', ''OpSpecID'']
      [] [],
    ps_encode = None,
    ps_decode = Some decode_basic_OpSpecResult\<rparr>"

definition Param_C1G2BlockEraseOpSpecResult :: pstruct where
  "Param_C1G2BlockEraseOpSpecResult = \<lparr>
    ps_info = tlv_info 353
      [''Result'', ''OpSpecID'']
      [] [],
    ps_encode = None,
    ps_decode = Some decode_basic_OpSpecResult\<rparr>"

definition Param_C1G2BlockWriteOpSpecResult :: pstruct where
  "Param_C1G2BlockWriteOpSpecResult = \<lparr>
    ps_info = tlv_info 354
      [''Result'', ''OpSpecID'', ''NumWordsWritten'']
      [] [],
    ps_encode = None,
    ps_decode = Some decode_C1G2WriteOpSpecResult\<rparr>"

definition Param_C1G2BlockPermalockOpSpecResult :: pstruct where
  "Param_C1G2BlockPermalockOpSpecResult = \<lparr>
    ps_info = tlv_info 361
      [''Result'', ''OpSpecID'']
      [] [],
    ps_encode = None,
    ps_decode = Some decode_basic_OpSpecResult\<rparr>"

definition Param_C1G2GetBlockPermalockStatusOpSpecResult :: pstruct where
  "Param_C1G2GetBlockPermalockStatusOpSpecResult = \<lparr>
    ps_info = tlv_info 362
      [''Result'', ''OpSpecID'', ''StatusWordCount'', ''PermalockStatus'']
      [] [],
    ps_encode = None,
    ps_decode = Some decode_C1G2GetBlockPermalockStatusOpSpecResult\<rparr>"

definition decode_EPCData :: decoder where
  "decode_EPCData decode_all data name = Inr (PBytes (hexlify (drop 2 data)))"

definition Param_EPC :: pstruct where
  "Param_EPC = \<lparr>
    ps_info = tlv_info 241
      []
      [] [],
    ps_encode = None,
    ps_decode = Some decode_EPCData\<rparr>"

definition decode_EPC96 :: decoder where
  "decode_EPC96 decode_all data name =
    (let data = take 12 data in Inr (PBytes (hexlify data)))"

definition Param_EPC_96 :: pstruct where
  "Param_EPC_96 = \<lparr>
    ps_info = tv_info 13 [],
    ps_encode = None,
    ps_decode = Some decode_EPC96\<rparr>"

definition Param_C1G2SingulationDetails :: pstruct where
  "Param_C1G2SingulationDetails = \<lparr>
    ps_info = tv_info 18 [''NumCollisionSlots'', ''NumEmptySlots''],
    ps_encode = Some (basic_param_encode_generator [U16, U16] [''NumCollisionSlots'', ''NumEmptySlots'']),
    ps_decode = Some (basic_param_decode_generator [U16, U16] [''NumCollisionSlots'', ''NumEmptySlots''])\<rparr>"

definition Params_Report :: "(string \<times> pstruct) list" where
  "Params_Report = [
    (''TagReportData'', Param_TagReportData),
    (''C1G2ReadOpSpecResult'', Param_C1G2ReadOpSpecResult),
    (''C1G2WriteOpSpecResult'', Param_C1G2WriteOpSpecResult),
    (''C1G2KillOpSpecResult'', Param_C1G2KillOpSpecResult),
    (''C1G2RecommissionOpSpecResult'', Param_C1G2RecommissionOpSpecResult),
    (''C1G2LockOpSpecResult'', Param_C1G2LockOpSpecResult),
    (''C1G2BlockEraseOpSpecResult'', Param_C1G2BlockEraseOpSpecResult),
    (''C1G2BlockWriteOpSpecResult'', Param_C1G2BlockWriteOpSpecResult),
    (''C1G2BlockPermalockOpSpecResult'', Param_C1G2BlockPermalockOpSpecResult),
    (''C1G2GetBlockPermalockStatusOpSpecResult'', Param_C1G2GetBlockPermalockStatusOpSpecResult),
    (''EPC'', Param_EPC),
    (''EPC-96'', Param_EPC_96),
    (''C1G2SingulationDetails'', Param_C1G2SingulationDetails)]"

lemmas Params_Report_entries = Params_Report_def
  Param_TagReportData_def
  Param_C1G2ReadOpSpecResult_def
  Param_C1G2WriteOpSpecResult_def
  Param_C1G2KillOpSpecResult_def
  Param_C1G2RecommissionOpSpecResult_def
  Param_C1G2LockOpSpecResult_def
  Param_C1G2BlockEraseOpSpecResult_def
  Param_C1G2BlockWriteOpSpecResult_def
  Param_C1G2BlockPermalockOpSpecResult_def
  Param_C1G2GetBlockPermalockStatusOpSpecResult_def
  Param_EPC_def
  Param_EPC_96_def
  Param_C1G2SingulationDetails_def

section \<open>Locality\<close>

lemmas Report_dec_local_defs =
  decode_TagReportData_def
  decode_basic_OpSpecResult_def
  decode_C1G2ReadOpSpecResult_def
  decode_C1G2WriteOpSpecResult_def
  decode_C1G2GetBlockPermalockStatusOpSpecResult_def
  decode_EPCData_def
  decode_EPC96_def

lemma Report_dec_local [dec_local]:
  "dec_local decode_TagReportData"
  "dec_local decode_basic_OpSpecResult"
  "dec_local decode_C1G2ReadOpSpecResult"
  "dec_local decode_C1G2WriteOpSpecResult"
  "dec_local decode_C1G2GetBlockPermalockStatusOpSpecResult"
  "dec_local decode_EPCData"
  "dec_local decode_EPC96"
  by (rule dec_localI, auto simp: Report_dec_local_defs Let_def
      intro!: bindE_cong split: option.split)+

lemma Report_dec_safe [dec_safe]:
  "dec_safe decode_TagReportData"
  "dec_safe decode_basic_OpSpecResult"
  "dec_safe decode_C1G2ReadOpSpecResult"
  "dec_safe decode_C1G2WriteOpSpecResult"
  "dec_safe decode_C1G2GetBlockPermalockStatusOpSpecResult"
  "dec_safe decode_EPCData"
  "dec_safe decode_EPC96"
  by (rule dec_safeI, auto simp: Report_dec_local_defs Let_def reserved_keys_def DECODE_ERROR_PARNAME_def
      intro!: tame_bindE tame_mapE simp: basic_OpSpecResult_def split: option.split)+

end
