(* ===== verification/Proto_Events.thy ===== *)
theory Proto_Events
  imports Proto_Report
begin

unbundle bit_operations_syntax

text \<open>
  Registry entries of \<^verbatim>\<open>sllurp/llrp_proto.py\<close>: reader events, status and error parameters and the custom parameter.  Each \<open>Param_X\<close> is the entry
  \<open>Param_struct["X"]\<close> as written there, with its encode and decode functions in front of it.
\<close>

section \<open>Entries\<close>

definition Param_HoppingEvent :: pstruct where
  "Param_HoppingEvent = \<lparr>
    ps_info = tlv_info 247
      [''HopTableID'', ''NextChannelIndex'']
      [] [],
    ps_encode = Some (basic_param_encode_generator [U16, U16] [''HopTableID'', ''NextChannelIndex'']),
    ps_decode = Some (basic_param_decode_generator [U16, U16] [''HopTableID'', ''NextChannelIndex''])\<rparr>"

definition encode_GPIEvent :: encoder where
  "encode_GPIEvent encode_param par param_info =
    bindE (py_item par ''GPIEvent'') (\<lambda>v_GPIEvent.
    let gpievent = push_bit 7 ((if py_true v_GPIEvent then 1 else 0)) in
    bindE (py_item par ''GPIPortNumber'') (\<lambda>v_GPIPortNumber.
    pack_vals [U16, U8] [v_GPIPortNumber, PInt gpievent]))"

definition decode_GPIEvent :: decoder where
  "decode_GPIEvent decode_all data name =
    (let par = [] in
    bindE (ushort_ubyte_unpack data) (\<lambda>(v_GPIPortNumber, flags).
    let par = dict_set par ''GPIPortNumber'' (PInt v_GPIPortNumber);
      par = dict_set par ''GPIEvent'' (PBool (flag_at flags 7)) in
    Inr (PDict par)))"

definition Param_GPIEvent :: pstruct where
  "Param_GPIEvent = \<lparr>
    ps_info = tlv_info 248
      [''GPIPortNumber'', ''GPIEvent'']
      [] [],
    ps_encode = Some encode_GPIEvent,
    ps_decode = Some decode_GPIEvent\<rparr>"

definition encode_ROSpecEvent :: encoder where
  "encode_ROSpecEvent encode_param par param_info =
    (let events = [(''Start_of_ROSpec'', 0), (''End_of_ROSpec'', 1), (''Preemption_of_ROSpec'', 2)] in
    bindE (py_item par ''EventType'') (\<lambda>v_EventType.
    bindE (py_lookup_opt events v_EventType) (\<lambda>event_type.
    case event_type of None \<Rightarrow> Inl LLRPError
    | Some event_type \<Rightarrow>
      bindE (py_item par ''ROSpecID'') (\<lambda>v_ROSpecID.
      bindE (py_item par ''PreemptingROSpecID'') (\<lambda>v_PreemptingROSpecID.
      pack_vals [U8, U32, U32] [PInt event_type, v_ROSpecID, v_PreemptingROSpecID])))))"

definition decode_ROSpecEvent :: decoder where
  "decode_ROSpecEvent decode_all data name =
    bindE (ubyte_uint_uint_unpack data) (\<lambda>(event_type, v_ROSpecID, v_PreemptingROSpecID).
    let par = [(''ROSpecID'', PInt v_ROSpecID), (''PreemptingROSpecID'', PInt v_PreemptingROSpecID)];
        par = dict_set par ''EventType'' (PStr
          (if event_type = 0 then ''Start_of_ROSpec''
           else if event_type = 1 then ''End_of_ROSpec'' else ''Preemption_of_ROSpec'')) in
    Inr (PDict par))"

definition Param_ROSpecEvent :: pstruct where
  "Param_ROSpecEvent = \<lparr>
    ps_info = tlv_info 249
      [''EventType'', ''ROSpecID'', ''PreemptingROSpecID'']
      [] [],
    ps_encode = Some encode_ROSpecEvent,
    ps_decode = Some decode_ROSpecEvent\<rparr>"

definition Param_ReportBufferLevelWarning :: pstruct where
  "Param_ReportBufferLevelWarning = \<lparr>
    ps_info = tlv_info 250
      [''ReportBufferPercentageFull'']
      [] [],
    ps_encode = Some (basic_param_encode_generator [U8] [''ReportBufferPercentageFull'']),
    ps_decode = Some (basic_param_decode_generator [U8] [''ReportBufferPercentageFull''])\<rparr>"

definition Param_ReportBufferOverflowErrorEvent :: pstruct where
  "Param_ReportBufferOverflowErrorEvent = \<lparr>
    ps_info = tlv_info 251
      []
      [] [],
    ps_encode = Some basic_param_encode_empty,
    ps_decode = Some decode_all_entry\<rparr>"

definition encode_ReaderExceptionEvent :: encoder where
  "encode_ReaderExceptionEvent encode_param par param_info =
    bindE (py_item par ''Message'') (\<lambda>message.
    bindE (py_len message) (\<lambda>len_message.
    bindE (struct_pack [U16] [len_message]) (\<lambda>data.
    bindE (py_item par ''Message'') (\<lambda>v_Message.
    bindE (py_bytes v_Message) (\<lambda>b.
    let data = data @ b in
    encode_all_parameters encode_param par param_info data)))))"

definition decode_ReaderExceptionEvent :: decoder where
  "decode_ReaderExceptionEvent decode_all data name =
    (let offset = 2 in
    bindE (ushort_unpack (take offset data)) (\<lambda>msg_bytecount.
    let par = [(''Message'', PBytes (take (nat msg_bytecount) (drop offset data)))];
        data = drop (offset + nat msg_bytecount) data in
    bindE (decode_all data ''ReaderExceptionEvent'' par) (\<lambda>par.
    Inr (PDict par))))"

definition Param_ReaderExceptionEvent :: pstruct where
  "Param_ReaderExceptionEvent = \<lparr>
    ps_info = tlv_info 252
      [''MessageByteCount'', ''Message'']
      [''ROSpecID'', ''SpecIndex'', ''InventoryParameterSpec'', ''AntennaID'', ''AccessSpecID'',
      ''OpSpecID'', ''ImpinjHubConfiguration''] [],
    ps_encode = Some encode_ReaderExceptionEvent,
    ps_decode = Some decode_ReaderExceptionEvent\<rparr>"

definition encode_RFSurveyEvent :: encoder where
  "encode_RFSurveyEvent encode_param par param_info =
    (let events = [(''Start_of_RFSurvey'', 0), (''End_of_RFSurvey'', 1)] in
    bindE (py_item par ''EventType'') (\<lambda>v_EventType.
    bindE (py_lookup_opt events v_EventType) (\<lambda>event_type.
    case event_type of None \<Rightarrow> Inl LLRPError
    | Some event_type \<Rightarrow>
      bindE (py_item par ''ROSpecID'') (\<lambda>v_ROSpecID.
      bindE (py_item par ''SpecIndex'') (\<lambda>v_SpecIndex.
      pack_vals [U8, U32, U16] [PInt event_type, v_ROSpecID, v_SpecIndex])))))"

definition decode_RFSurveyEvent :: decoder where
  "decode_RFSurveyEvent decode_all data name =
    bindE (ubyte_uint_ushort_unpack data) (\<lambda>(event_type, v_ROSpecID, v_SpecIndex).
    let par = [(''ROSpecID'', PInt v_ROSpecID), (''SpecIndex'', PInt v_SpecIndex)];
        par = dict_set par ''EventType'' (PStr
          (if event_type = 0 then ''Start_of_RFSurvey'' else ''End_of_RFSurvey'')) in
    Inr (PDict par))"

definition Param_RFSurveyEvent :: pstruct where
  "Param_RFSurveyEvent = \<lparr>
    ps_info = tlv_info 253
      [''EventType'', ''ROSpecID'', ''SpecIndex'']
      [] [],
    ps_encode = Some encode_RFSurveyEvent,
    ps_decode = Some decode_RFSurveyEvent\<rparr>"

definition encode_AISpecEvent :: encoder where
  "encode_AISpecEvent encode_param par param_info =
    bindE (py_item par ''ROSpecID'') (\<lambda>v_ROSpecID.
    bindE (py_item par ''SpecIndex'') (\<lambda>v_SpecIndex.
    bindE (pack_vals [U8, U32, U16] [PInt 0, v_ROSpecID, v_SpecIndex]) (\<lambda>data.
    encode_all_parameters encode_param par param_info data)))"

definition decode_AISpecEvent_original :: decoder where
  "decode_AISpecEvent_original decode_all data name =
    bindE (ubyte_uint_ushort_unpack (take 7 data)) (\<lambda>(_, v_ROSpecID, v_SpecIndex).
    let par = [(''ROSpecID'', PInt v_ROSpecID), (''SpecIndex'', PInt v_SpecIndex)];
        data = drop 7 data;
        par = dict_set par ''EventType'' (PStr ''End_of_AISpec'') in
    bindE (decode_all data ''AISpecEvent'' par) (\<lambda>par.
    Inr (PDict par)))"

definition Param_AISpecEvent :: pstruct where
  "Param_AISpecEvent = \<lparr>
    ps_info = tlv_info 254
      [''EventType'', ''ROSpecID'', ''SpecIndex'']
      [''C1G2SingulationDetails''] [],
    ps_encode = Some encode_AISpecEvent,
    ps_decode = Some decode_AISpecEvent_original\<rparr>"

definition encode_AntennaEvent :: encoder where
  "encode_AntennaEvent encode_param par param_info =
    (let events = [(''Disconnected'', 0), (''Connected'', 1)] in
    bindE (py_item par ''EventType'') (\<lambda>v_EventType.
    bindE (py_lookup_opt events v_EventType) (\<lambda>event_type.
    case event_type of None \<Rightarrow> Inl LLRPError
    | Some event_type \<Rightarrow>
      bindE (py_item par ''AntennaID'') (\<lambda>v_AntennaID.
      pack_vals [U8, U16] [PInt event_type, v_AntennaID]))))"

definition decode_AntennaEvent :: decoder where
  "decode_AntennaEvent decode_all data name =
    (let par = [] in
    bindE (ubyte_ushort_unpack data) (\<lambda>(event_type, v_AntennaID).
    let par = dict_set par ''AntennaID'' (PInt v_AntennaID);
      par = dict_set par ''EventType'' (PStr (if event_type \<noteq> 0 then ''Connected'' else ''Disconnected'')) in
    Inr (PDict par)))"

definition Param_AntennaEvent :: pstruct where
  "Param_AntennaEvent = \<lparr>
    ps_info = tlv_info 255
      [''EventType'', ''AntennaID'']
      [] [],
    ps_encode = Some encode_AntennaEvent,
    ps_decode = Some decode_AntennaEvent\<rparr>"

definition encode_ConnectionAttemptEvent :: encoder where
  "encode_ConnectionAttemptEvent encode_param par param_info =
    bindE (py_item par ''Status'') (\<lambda>v_Status.
    bindE (py_lookup ConnEvent_Name2Type v_Status) (\<lambda>status.
    struct_pack [U16] [status]))"

definition decode_ConnectionAttemptEvent :: decoder where
  "decode_ConnectionAttemptEvent decode_all data name =
    (let par = [] in
    bindE (ushort_unpack data) (\<lambda>status.
    bindE (type2name ConnEvent_Type2Name status) (\<lambda>nm.
    let par = dict_set par ''Status'' (PStr nm) in
    Inr (PDict par))))"

definition Param_ConnectionAttemptEvent :: pstruct where
  "Param_ConnectionAttemptEvent = \<lparr>
    ps_info = tlv_info 256
      [''Status'']
      [] [],
    ps_encode = Some encode_ConnectionAttemptEvent,
    ps_decode = Some decode_ConnectionAttemptEvent\<rparr>"

definition Param_ConnectionCloseEvent :: pstruct where
  "Param_ConnectionCloseEvent = \<lparr>
    ps_info = tlv_info 257
      []
      [] [],
    ps_encode = Some basic_param_encode_empty,
    ps_decode = Some decode_all_entry\<rparr>"

definition Param_SpecLoopEvent :: pstruct where
  "Param_SpecLoopEvent = \<lparr>
    ps_info = tlv_info 356
      [''ROSpecID'', ''LoopCount'']
      [] [],
    ps_encode = Some (basic_param_encode_generator [U32, U32] [''ROSpecID'', ''LoopCount'']),
    ps_decode = Some (basic_param_decode_generator [U32, U32] [''ROSpecID'', ''LoopCount''])\<rparr>"

definition Param_ReaderEventNotificationData :: pstruct where
  "Param_ReaderEventNotificationData = \<lparr>
    ps_info = tlv_info 246
      []
      [''UTCTimestamp'', ''Uptime'', ''HoppingEvent'', ''GPIEvent'', ''ROSpecEvent'',
      ''ReportBufferLevelWarningEvent'', ''ReportBufferOverflowErrorEvent'',
      ''ReaderExceptionEvent'', ''RFSurveyEvent'', ''AISpecEvent'', ''AntennaEvent'',
      ''ConnectionAttemptEvent'', ''ConnectionCloseEvent'', ''SpecLoopEvent'',
      ''ImpinjAntennaAttemptEvent''] [],
    ps_encode = Some encode_all,
    ps_decode = Some decode_all_entry\<rparr>"

definition decode_LLRPStatus :: decoder where
  "decode_LLRPStatus decode_all data name =
    (let offset = 4 in
    bindE (ushort_ushort_unpack (take offset data)) (\<lambda>(code, n).
    let par = (case map_of Error_Type2Name code of
          None \<Rightarrow> [] | Some nm \<Rightarrow> [(''StatusCode'', PStr nm)]);
        par = dict_set par ''ErrorDescription'' (PBytes (take (nat n) (drop offset data)));
        data = drop (offset + nat n) data in
    bindE (decode_all data ''LLRPStatus'' par) (\<lambda>par.
    Inr (PDict par))))"

definition Param_LLRPStatus :: pstruct where
  "Param_LLRPStatus = \<lparr>
    ps_info = tlv_info 287
      [''StatusCode'', ''ErrorDescription'']
      [''FieldError'', ''ParameterError''] [],
    ps_encode = None,
    ps_decode = Some decode_LLRPStatus\<rparr>"

definition decode_FieldError :: decoder where
  "decode_FieldError decode_all data name =
    bindE (ushort_ushort_unpack data) (\<lambda>(field_num, err_code).
    let par = [(''FieldNum'', PInt field_num)];
        par = dict_set par ''ErrorCode'' (case map_of Error_Type2Name err_code of
          Some nm \<Rightarrow> PStr nm | None \<Rightarrow> PInt err_code) in
    Inr (PDict par))"

definition Param_FieldError :: pstruct where
  "Param_FieldError = \<lparr>
    ps_info = tlv_info 288
      [''FieldNum'', ''ErrorCode'']
      [] [],
    ps_encode = None,
    ps_decode = Some decode_FieldError\<rparr>"

definition decode_ParameterError :: "(int \<times> int \<times> int \<Rightarrow> string option) \<Rightarrow> decoder" where
  "decode_ParameterError type2name_opt decode_all data name =
    bindE (ushort_ushort_unpack (take 4 data)) (\<lambda>(par_type, par_errcode).
    let par = [(''ParameterType'',
          if par_type \<noteq> 1023
          then (case type2name_opt (par_type, 0, 0) of Some nm \<Rightarrow> PStr nm | None \<Rightarrow> PInt par_type)
          else PStr ''CustomParameter'')];
        par = dict_set par ''ErrorCode'' (case map_of Error_Type2Name par_errcode of
          Some nm \<Rightarrow> PStr nm | None \<Rightarrow> PInt par_errcode);
        data = drop 4 data in
    if data \<noteq> [] then bindE (decode_all data ''ParameterError'' par) (\<lambda>par. Inr (PDict par))
    else Inr (PDict par))"

definition Param_ParameterError :: "(int \<times> int \<times> int \<Rightarrow> string option) \<Rightarrow> pstruct" where
  "Param_ParameterError type2name_opt = \<lparr>
    ps_info = tlv_info 289
      [''ParameterType'', ''ErrorCode'']
      [''FieldError'', ''ParameterError''] [],
    ps_encode = None,
    ps_decode = Some (decode_ParameterError type2name_opt)\<rparr>"

definition encode_CustomParameter :: encoder where
  "encode_CustomParameter encode_param par param_info =
    bindE (py_get par ''Payload'' (PBytes [])) py_bytes"

definition Param_CustomParameter :: pstruct where
  "Param_CustomParameter = \<lparr>
    ps_info = tlv_info TYPE_CUSTOM
      [''VendorID'', ''Subtype'', ''Payload'']
      [] [],
    ps_encode = Some encode_CustomParameter,
    ps_decode = None\<rparr>"

definition Params_Events :: "(int \<times> int \<times> int \<Rightarrow> string option) \<Rightarrow> (string \<times> pstruct) list" where
  "Params_Events type2name_opt = [
    (''HoppingEvent'', Param_HoppingEvent),
    (''GPIEvent'', Param_GPIEvent),
    (''ROSpecEvent'', Param_ROSpecEvent),
    (''ReportBufferLevelWarning'', Param_ReportBufferLevelWarning),
    (''ReportBufferOverflowErrorEvent'', Param_ReportBufferOverflowErrorEvent),
    (''ReaderExceptionEvent'', Param_ReaderExceptionEvent),
    (''RFSurveyEvent'', Param_RFSurveyEvent),
    (''AISpecEvent'', Param_AISpecEvent),
    (''AntennaEvent'', Param_AntennaEvent),
    (''ConnectionAttemptEvent'', Param_ConnectionAttemptEvent),
    (''ConnectionCloseEvent'', Param_ConnectionCloseEvent),
    (''SpecLoopEvent'', Param_SpecLoopEvent),
    (''ReaderEventNotificationData'', Param_ReaderEventNotificationData),
    (''LLRPStatus'', Param_LLRPStatus),
    (''FieldError'', Param_FieldError),
    (''ParameterError'', Param_ParameterError type2name_opt),
    (''CustomParameter'', Param_CustomParameter)]"

lemmas Params_Events_entries = Params_Events_def
  Param_HoppingEvent_def
  Param_GPIEvent_def
  Param_ROSpecEvent_def
  Param_ReportBufferLevelWarning_def
  Param_ReportBufferOverflowErrorEvent_def
  Param_ReaderExceptionEvent_def
  Param_RFSurveyEvent_def
  Param_AISpecEvent_def
  Param_AntennaEvent_def
  Param_ConnectionAttemptEvent_def
  Param_ConnectionCloseEvent_def
  Param_SpecLoopEvent_def
  Param_ReaderEventNotificationData_def
  Param_LLRPStatus_def
  Param_FieldError_def
  Param_ParameterError_def
  Param_CustomParameter_def

section \<open>Locality\<close>

lemmas Events_dec_local_defs =
  decode_GPIEvent_def
  decode_ROSpecEvent_def
  decode_ReaderExceptionEvent_def
  decode_RFSurveyEvent_def
  decode_AISpecEvent_original_def
  decode_AntennaEvent_def
  decode_ConnectionAttemptEvent_def
  decode_LLRPStatus_def
  decode_FieldError_def
  decode_ParameterError_def

lemma Events_dec_local [dec_local]:
  "dec_local decode_GPIEvent"
  "dec_local decode_ROSpecEvent"
  "dec_local decode_ReaderExceptionEvent"
  "dec_local decode_RFSurveyEvent"
  "dec_local decode_AISpecEvent_original"
  "dec_local decode_AntennaEvent"
  "dec_local decode_ConnectionAttemptEvent"
  "dec_local decode_LLRPStatus"
  "dec_local decode_FieldError"
  "dec_local (decode_ParameterError type2name_opt)"
  by (rule dec_localI, auto simp: Events_dec_local_defs Let_def
      intro!: bindE_cong split: option.split)+

lemma Events_dec_safe [dec_safe]:
  "dec_safe decode_GPIEvent"
  "dec_safe decode_ROSpecEvent"
  "dec_safe decode_ReaderExceptionEvent"
  "dec_safe decode_RFSurveyEvent"
  "dec_safe decode_AISpecEvent_original"
  "dec_safe decode_AntennaEvent"
  "dec_safe decode_ConnectionAttemptEvent"
  "dec_safe decode_LLRPStatus"
  "dec_safe decode_FieldError"
  "dec_safe (decode_ParameterError type2name_opt)"
  by (rule dec_safeI, auto simp: Events_dec_local_defs Let_def reserved_keys_def DECODE_ERROR_PARNAME_def
      intro!: tame_bindE tame_mapE split: option.split)+

lemmas Events_enc_local_defs =
  encode_GPIEvent_def
  encode_ROSpecEvent_def
  encode_ReaderExceptionEvent_def
  encode_RFSurveyEvent_def
  encode_AISpecEvent_def
  encode_AntennaEvent_def
  encode_ConnectionAttemptEvent_def
  encode_CustomParameter_def

lemma Events_enc_local [enc_local]:
  "enc_local encode_GPIEvent"
  "enc_local encode_ROSpecEvent"
  "enc_local encode_ReaderExceptionEvent"
  "enc_local encode_RFSurveyEvent"
  "enc_local encode_AISpecEvent"
  "enc_local encode_AntennaEvent"
  "enc_local encode_ConnectionAttemptEvent"
  "enc_local encode_CustomParameter"
  by (rule enc_localI, auto simp: Events_enc_local_defs Let_def
      intro!: bindE_cong mapE_cong encode_all_parameters_local split: option.split)+

end
