(* ===== verification/Proto_Impinj.thy ===== *)
theory Proto_Impinj
  imports Proto_Events
begin

unbundle bit_operations_syntax

text \<open>
  Registry entries of \<^verbatim>\<open>sllurp/llrp_proto.py\<close>: the Impinj vendor parameters.  Each \<open>Param_X\<close> is the entry
  \<open>Param_struct["X"]\<close> as written there, with its encode and decode functions in front of it.
\<close>

section \<open>Entries\<close>

definition Param_ImpinjRequestedData :: pstruct where
  "Param_ImpinjRequestedData = \<lparr>
    ps_info = custom_info VENDOR_ID_IMPINJ 21
      [''RequestedData'']
      [] [],
    ps_encode = Some (basic_param_encode_generator [U32] [''RequestedData'']),
    ps_decode = None\<rparr>"

definition Param_ImpinjSubRegulatoryRegion :: pstruct where
  "Param_ImpinjSubRegulatoryRegion = \<lparr>
    ps_info = custom_info VENDOR_ID_IMPINJ 22
      [''RegulatoryRegion'']
      [] [],
    ps_encode = None,
    ps_decode = Some (basic_param_decode_generator [U16] [''RegulatoryRegion''])\<rparr>"

definition Param_ImpinjInventorySearchMode :: pstruct where
  "Param_ImpinjInventorySearchMode = \<lparr>
    ps_info = custom_info VENDOR_ID_IMPINJ 23
      [''InventorySearchMode'']
      [] [],
    ps_encode = Some (basic_auto_param_encode_generator [U16] [''InventorySearchMode'']),
    ps_decode = Some (basic_auto_param_decode_generator [U16] 2 [''InventorySearchMode''])\<rparr>"

definition encode_ImpinjFixedFrequencyList :: encoder where
  "encode_ImpinjFixedFrequencyList encode_param par param_info =
    bindE (py_get par ''ChannelList'' (PList [])) (\<lambda>channel_list.
    bindE (py_len channel_list) (\<lambda>n.
    bindE (py_item par ''FixedFrequencyMode'') (\<lambda>v_FixedFrequencyMode.
    bindE (pack_vals [U16, U16, U16] [v_FixedFrequencyMode, PInt 0, PInt n]) (\<lambda>head.
    bindE (py_iter channel_list) (\<lambda>channels.
    bindE (mapE (\<lambda>index. pack_vals [U16] [index]) channels) (\<lambda>bss.
    encode_all_parameters encode_param par param_info (head @ concat bss)))))))"

definition decode_ImpinjFixedFrequencyList :: decoder where
  "decode_ImpinjFixedFrequencyList decode_all data name =
    bindE (ushort_ushort_ushort_unpack (take 6 data)) (\<lambda>(v_FixedFrequencyMode, _, channel_count).
    let par = [(''FixedFrequencyMode'', PInt v_FixedFrequencyMode)] in
    bindE (mapE (\<lambda>x. let start_pos = 6 + x * 2 in ushort_unpack (take 2 (drop start_pos data)))
             [0..<nat channel_count]) (\<lambda>channels.
    Inr (PDict (dict_set par ''ChannelList'' (PList (map PInt channels))))))"

definition Param_ImpinjFixedFrequencyList :: pstruct where
  "Param_ImpinjFixedFrequencyList = \<lparr>
    ps_info = custom_info VENDOR_ID_IMPINJ 26
      [''FixedFrequencyMode'', ''Reserved'', ''ChannelList'']
      [] [],
    ps_encode = Some encode_ImpinjFixedFrequencyList,
    ps_decode = Some decode_ImpinjFixedFrequencyList\<rparr>"

definition decode_ImpinjReducedPowerFrequencyList :: decoder where
  "decode_ImpinjReducedPowerFrequencyList decode_all data name =
    bindE (ushort_ushort_ushort_unpack (take 6 data)) (\<lambda>(v_ReducedPowerMode, _, channel_count).
    let par = [(''ReducedPowerMode'', PInt v_ReducedPowerMode)] in
    bindE (mapE (\<lambda>x. let start_pos = 6 + x * 2 in ushort_unpack (take 2 (drop start_pos data)))
             [0..<nat channel_count]) (\<lambda>channels.
    Inr (PDict (dict_set par ''ReducedPowerChannelList'' (PList (map PInt channels))))))"

definition Param_ImpinjReducedPowerFrequencyList :: pstruct where
  "Param_ImpinjReducedPowerFrequencyList = \<lparr>
    ps_info = custom_info VENDOR_ID_IMPINJ 27
      [''ReducedPowerMode'', ''ReducedPowerChannelList'']
      [] [],
    ps_encode = None,
    ps_decode = Some decode_ImpinjReducedPowerFrequencyList\<rparr>"

definition Param_ImpinjLowDutyCycle :: pstruct where
  "Param_ImpinjLowDutyCycle = \<lparr>
    ps_info = custom_info VENDOR_ID_IMPINJ 28
      [''LowDutyCycleMode'', ''EmptyFieldTimeout'', ''FieldPingInterval'']
      [] [],
    ps_encode = None,
    ps_decode = Some (basic_auto_param_decode_generator [U16, U16, U16] 6 [''LowDutyCycleMode'', ''EmptyFieldTimeout'', ''FieldPingInterval''])\<rparr>"

definition decode_ImpinjDetailedVersion :: decoder where
  "decode_ImpinjDetailedVersion decode_all data name =
    bindE (unpack_counted [''ModelName'', ''SerialNumber'', ''SoftwareVersion'',
             ''FirmwareVersion'', ''FPGAVersion'', ''PCBAVersion''] data 0 []) (\<lambda>(par, offset).
    let data = drop offset data in
    bindE (decode_all data ''ImpinjDetailedVersion'' par) (\<lambda>par.
    Inr (PDict par)))"

definition Param_ImpinjDetailedVersion :: pstruct where
  "Param_ImpinjDetailedVersion = \<lparr>
    ps_info = custom_info VENDOR_ID_IMPINJ 29
      [''ModelName'', ''SerialNumber'', ''SoftwareVersion'', ''FirmwareVersion'',
      ''FPGAVersion'', ''PCBAVersion'']
      [''ImpinjHubVersions'', ''ImpinjArrayVersion'', ''ImpinjBLEVersion''] [],
    ps_encode = None,
    ps_decode = Some decode_ImpinjDetailedVersion\<rparr>"

definition decode_ImpinjFrequencyCapabilities :: decoder where
  "decode_ImpinjFrequencyCapabilities decode_all data name =
    bindE (ushort_unpack (take 2 data)) (\<lambda>v_NumFrequencies.
    bindE (mapE (\<lambda>x. let start_pos = 2 + x * 4 in uint_unpack (take 4 (drop start_pos data)))
             [0..<nat v_NumFrequencies]) (\<lambda>freqs.
    Inr (PDict [(''NumFrequencies'', PInt v_NumFrequencies),
                (''FrequencyList'', PList (map PInt freqs))])))"

definition Param_ImpinjFrequencyCapabilities :: pstruct where
  "Param_ImpinjFrequencyCapabilities = \<lparr>
    ps_info = custom_info VENDOR_ID_IMPINJ 30
      [''NumFrequencies'', ''FrequencyList'']
      [] [],
    ps_encode = None,
    ps_decode = Some decode_ImpinjFrequencyCapabilities\<rparr>"

definition Param_ImpinjGPIDebounceConfiguration :: pstruct where
  "Param_ImpinjGPIDebounceConfiguration = \<lparr>
    ps_info = custom_info VENDOR_ID_IMPINJ 36
      [''GPIPortNum'', ''GPIDebounceTimerMSec'']
      [] [],
    ps_encode = None,
    ps_decode = Some (basic_param_decode_generator [U16, U32] [''GPIPortNum'', ''GPIDebounceTimerMSec''])\<rparr>"

definition Param_ImpinjReaderTemperature :: pstruct where
  "Param_ImpinjReaderTemperature = \<lparr>
    ps_info = custom_info VENDOR_ID_IMPINJ 37
      [''Temperature'']
      [] [],
    ps_encode = None,
    ps_decode = Some (basic_auto_param_decode_generator [S16] 2 [''Temperature''])\<rparr>"

definition Param_ImpinjLinkMonitorConfiguration :: pstruct where
  "Param_ImpinjLinkMonitorConfiguration = \<lparr>
    ps_info = custom_info VENDOR_ID_IMPINJ 38
      [''LinkMonitorMode'', ''LinkDownThreshold'']
      [] [],
    ps_encode = None,
    ps_decode = Some (basic_auto_param_decode_generator [U16, U16] 4 [''LinkMonitorMode'', ''LinkDownThreshold''])\<rparr>"

definition Param_ImpinjReportBufferConfiguration :: pstruct where
  "Param_ImpinjReportBufferConfiguration = \<lparr>
    ps_info = custom_info VENDOR_ID_IMPINJ 39
      [''ReportBufferMode'']
      [] [],
    ps_encode = None,
    ps_decode = Some (basic_auto_param_decode_generator [U16] 2 [''ReportBufferMode''])\<rparr>"

definition Param_ImpinjAccessSpecConfiguration :: pstruct where
  "Param_ImpinjAccessSpecConfiguration = \<lparr>
    ps_info = custom_info VENDOR_ID_IMPINJ 40
      []
      [''ImpinjBlockWriteWordCount'', ''ImpinjOpSpecRetryCount'', ''ImpinjAccessSpecOrdering''] [],
    ps_encode = None,
    ps_decode = Some decode_all_entry\<rparr>"

definition Param_ImpinjBlockWriteWordCount :: pstruct where
  "Param_ImpinjBlockWriteWordCount = \<lparr>
    ps_info = custom_info VENDOR_ID_IMPINJ 41
      [''WordCount'']
      [] [],
    ps_encode = None,
    ps_decode = Some (basic_auto_param_decode_generator [U16] 2 [''WordCount''])\<rparr>"

definition Param_ImpinjTagReportContentSelector :: pstruct where
  "Param_ImpinjTagReportContentSelector = \<lparr>
    ps_info = custom_info VENDOR_ID_IMPINJ 50
      []
      [''ImpinjEnableSerializedTID'', ''ImpinjEnableRFPhaseAngle'', ''ImpinjEnablePeakRSSI'',
      ''ImpinjEnableGPSCoordinates'', ''ImpinjEnableOptimizedRead'',
      ''ImpinjEnableRFDopplerFrequency'', ''ImpinjEnableTxPower''] [],
    ps_encode = Some encode_all,
    ps_decode = Some decode_all_entry\<rparr>"

definition Param_ImpinjEnableSerializedTID :: pstruct where
  "Param_ImpinjEnableSerializedTID = \<lparr>
    ps_info = custom_info VENDOR_ID_IMPINJ 51
      [''SerializedTIDMode'']
      [] [],
    ps_encode = Some (basic_param_encode_generator [U16] [''SerializedTIDMode'']),
    ps_decode = Some (basic_param_decode_generator [U16] [''SerializedTIDMode''])\<rparr>"

definition Param_ImpinjEnableRFPhaseAngle :: pstruct where
  "Param_ImpinjEnableRFPhaseAngle = \<lparr>
    ps_info = custom_info VENDOR_ID_IMPINJ 52
      [''RFPhaseAngleMode'']
      [] [],
    ps_encode = Some (basic_param_encode_generator [U16] [''RFPhaseAngleMode'']),
    ps_decode = Some (basic_param_decode_generator [U16] [''RFPhaseAngleMode''])\<rparr>"

definition Param_ImpinjEnablePeakRSSI :: pstruct where
  "Param_ImpinjEnablePeakRSSI = \<lparr>
    ps_info = custom_info VENDOR_ID_IMPINJ 53
      [''PeakRSSIMode'']
      [] [],
    ps_encode = Some (basic_param_encode_generator [U16] [''PeakRSSIMode'']),
    ps_decode = Some (basic_param_decode_generator [U16] [''PeakRSSIMode''])\<rparr>"

definition Param_ImpinjEnableGPSCoordinates :: pstruct where
  "Param_ImpinjEnableGPSCoordinates = \<lparr>
    ps_info = custom_info VENDOR_ID_IMPINJ 54
      [''GPSCoordinatesMode'']
      [] [],
    ps_encode = Some (basic_param_encode_generator [U16] [''GPSCoordinatesMode'']),
    ps_decode = Some (basic_param_decode_generator [U16] [''GPSCoordinatesMode''])\<rparr>"

definition decode_ImpinjSerializedTID :: decoder where
  "decode_ImpinjSerializedTID decode_all data name =
    bindE (ushort_unpack (take 2 data)) (\<lambda>v_TIDWordCount.
    let par = [(''TIDWordCount'', PInt v_TIDWordCount)];
        wordcnt = nat v_TIDWordCount;
        par = (if wordcnt \<noteq> 0
               then dict_set par ''TID'' (PBytes (take (wordcnt * 2) (drop 2 data))) else par);
        data = drop (2 + wordcnt * 2) data in
    bindE (decode_all data ''ImpinjSerializedTID'' par) (\<lambda>par.
    Inr (PDict par)))"

definition Param_ImpinjSerializedTID :: pstruct where
  "Param_ImpinjSerializedTID = \<lparr>
    ps_info = custom_info VENDOR_ID_IMPINJ 55
      [''TIDWordCount'', ''TID'']
      [] [],
    ps_encode = None,
    ps_decode = Some decode_ImpinjSerializedTID\<rparr>"

definition Param_ImpinjRFPhaseAngle :: pstruct where
  "Param_ImpinjRFPhaseAngle = \<lparr>
    ps_info = custom_info VENDOR_ID_IMPINJ 56
      []
      [] [],
    ps_encode = None,
    ps_decode = Some (basic_param_decode_generator [U16] [])\<rparr>"

definition Param_ImpinjPeakRSSI :: pstruct where
  "Param_ImpinjPeakRSSI = \<lparr>
    ps_info = custom_info VENDOR_ID_IMPINJ 57
      []
      [] [],
    ps_encode = None,
    ps_decode = Some (basic_param_decode_generator [S16] [])\<rparr>"

definition Param_ImpinjGPSCoordinates :: pstruct where
  "Param_ImpinjGPSCoordinates = \<lparr>
    ps_info = custom_info VENDOR_ID_IMPINJ 58
      [''Latitude'', ''Longitude'']
      [] [],
    ps_encode = None,
    ps_decode = Some (basic_auto_param_decode_generator [U32, U32] 8 [''Latitude'', ''Longitude''])\<rparr>"

definition Param_ImpinjGPSNMEASentences :: pstruct where
  "Param_ImpinjGPSNMEASentences = \<lparr>
    ps_info = custom_info VENDOR_ID_IMPINJ 60
      []
      [''ImpinjGGASentence'', ''ImpinjRMCSentence''] [],
    ps_encode = None,
    ps_decode = Some decode_all_entry\<rparr>"

definition decode_ImpinjGGASentence :: decoder where
  "decode_ImpinjGGASentence decode_all data name =
    bindE (ushort_unpack (take 2 data)) (\<lambda>byte_count.
    let data = drop 2 data;
      par = [(''GGASentence'', PBytes (take (nat byte_count) data))];
      data = drop (nat byte_count) data in
    bindE (decode_all data ''ImpinjGGASentence'' par) (\<lambda>par.
    Inr (PDict par)))"

definition Param_ImpinjGGASentence :: pstruct where
  "Param_ImpinjGGASentence = \<lparr>
    ps_info = custom_info VENDOR_ID_IMPINJ 61
      [''GGASentence'']
      [] [],
    ps_encode = None,
    ps_decode = Some decode_ImpinjGGASentence\<rparr>"

definition decode_ImpinjRMCSentence :: decoder where
  "decode_ImpinjRMCSentence decode_all data name =
    bindE (ushort_unpack (take 2 data)) (\<lambda>byte_count.
    let data = drop 2 data;
      par = [(''RMCSentence'', PBytes (take (nat byte_count) data))];
      data = drop (nat byte_count) data in
    bindE (decode_all data ''ImpinjRMCSentence'' par) (\<lambda>par.
    Inr (PDict par)))"

definition Param_ImpinjRMCSentence :: pstruct where
  "Param_ImpinjRMCSentence = \<lparr>
    ps_info = custom_info VENDOR_ID_IMPINJ 62
      [''RMCSentence'']
      [] [],
    ps_encode = None,
    ps_decode = Some decode_ImpinjRMCSentence\<rparr>"

definition Param_ImpinjOpSpecRetryCount :: pstruct where
  "Param_ImpinjOpSpecRetryCount = \<lparr>
    ps_info = custom_info VENDOR_ID_IMPINJ 63
      [''RetryCount'']
      [] [],
    ps_encode = None,
    ps_decode = Some (basic_auto_param_decode_generator [U16] 2 [''RetryCount''])\<rparr>"

definition Param_ImpinjAdvancedGPOConfiguration :: pstruct where
  "Param_ImpinjAdvancedGPOConfiguration = \<lparr>
    ps_info = custom_info VENDOR_ID_IMPINJ 64
      [''GPOPortNum'', ''GPOMode'', ''GPOPulseDurationMSec'']
      [] [],
    ps_encode = None,
    ps_decode = Some (basic_auto_param_decode_generator [U16, U16, U32] 8 [''GPOPortNum'', ''GPOMode'', ''GPOPulseDurationMSec''])\<rparr>"

definition Param_ImpinjEnableOptimizedRead :: pstruct where
  "Param_ImpinjEnableOptimizedRead = \<lparr>
    ps_info = custom_info VENDOR_ID_IMPINJ 65
      [''OptimizedReadMode'']
      [] [''C1G2Read''],
    ps_encode = Some (basic_auto_param_encode_generator [U16] [''OptimizedReadMode'']),
    ps_decode = Some (basic_auto_param_decode_generator [U16] 2 [''OptimizedReadMode''])\<rparr>"

definition Param_ImpinjAccessSpecOrdering :: pstruct where
  "Param_ImpinjAccessSpecOrdering = \<lparr>
    ps_info = custom_info VENDOR_ID_IMPINJ 66
      [''OrderingMode'']
      [] [],
    ps_encode = None,
    ps_decode = Some (basic_param_decode_generator [U16] [''OrderingMode''])\<rparr>"

definition Param_ImpinjEnableRFDopplerFrequency :: pstruct where
  "Param_ImpinjEnableRFDopplerFrequency = \<lparr>
    ps_info = custom_info VENDOR_ID_IMPINJ 67
      [''RFDopplerFrequencyMode'']
      [] [],
    ps_encode = Some (basic_param_encode_generator [U16] [''RFDopplerFrequencyMode'']),
    ps_decode = Some (basic_param_decode_generator [U16] [''RFDopplerFrequencyMode''])\<rparr>"

definition Param_ImpinjRFDopplerFrequency :: pstruct where
  "Param_ImpinjRFDopplerFrequency = \<lparr>
    ps_info = custom_info VENDOR_ID_IMPINJ 68
      []
      [] [],
    ps_encode = None,
    ps_decode = Some (basic_param_decode_generator [S16] [])\<rparr>"

definition decode_ImpinjInventoryConfiguration :: decoder where
  "decode_ImpinjInventoryConfiguration decode_all data name =
    bindE (ubyte_unpack (take 1 data)) (\<lambda>flags.
    let par = [(''EnableAntDwellTimeLimit'', PBool (flag_at flags 7)),
      (''EnableSelectGapClose'', PBool (flag_at flags 6))];
      data = drop 1 data in
    bindE (decode_all data ''ImpinjInventoryConfiguration'' par) (\<lambda>par.
    Inr (PDict par)))"

definition Param_ImpinjInventoryConfiguration :: pstruct where
  "Param_ImpinjInventoryConfiguration = \<lparr>
    ps_info = custom_info VENDOR_ID_IMPINJ 69
      [''EnableAntDwellTimeLimit'', ''EnableSelectGapClose'']
      [] [],
    ps_encode = None,
    ps_decode = Some decode_ImpinjInventoryConfiguration\<rparr>"

definition Param_ImpinjEnableTxPower :: pstruct where
  "Param_ImpinjEnableTxPower = \<lparr>
    ps_info = custom_info VENDOR_ID_IMPINJ 72
      [''TxPowerMode'']
      [] [],
    ps_encode = Some (basic_param_encode_generator [U16] [''TxPowerMode'']),
    ps_decode = Some (basic_param_decode_generator [U16] [''TxPowerMode''])\<rparr>"

definition Param_ImpinjTxPower :: pstruct where
  "Param_ImpinjTxPower = \<lparr>
    ps_info = custom_info VENDOR_ID_IMPINJ 73
      []
      [] [],
    ps_encode = None,
    ps_decode = Some (basic_param_decode_generator [U16] [])\<rparr>"

definition decode_ImpinjArrayVersion :: decoder where
  "decode_ImpinjArrayVersion decode_all data name =
    bindE (unpack_counted [''SerialNumber'', ''FirmwareVersion'', ''PCBAVersion''] data 0 [])
      (\<lambda>(par, offset).
    let data = drop offset data in
    bindE (decode_all data ''ImpinjArrayVersion'' par) (\<lambda>par.
    Inr (PDict par)))"

definition Param_ImpinjArrayVersion :: pstruct where
  "Param_ImpinjArrayVersion = \<lparr>
    ps_info = custom_info VENDOR_ID_IMPINJ 1520
      [''SerialNumber'', ''FirmwareVersion'', ''PCBAVersion'']
      [] [],
    ps_encode = None,
    ps_decode = Some decode_ImpinjArrayVersion\<rparr>"

definition Param_ImpinjAntennaConfiguration :: pstruct where
  "Param_ImpinjAntennaConfiguration = \<lparr>
    ps_info = custom_info VENDOR_ID_IMPINJ 1524
      []
      [''ImpinjAntennaEventConfiguration'', ''ImpinjAntennaEventHysteresis''] [],
    ps_encode = Some encode_all,
    ps_decode = Some decode_all_entry\<rparr>"

definition Param_ImpinjAntennaEventHysteresis :: pstruct where
  "Param_ImpinjAntennaEventHysteresis = \<lparr>
    ps_info = custom_info VENDOR_ID_IMPINJ 1526
      [''AntennaEventConnected'', ''AntennaEventDisconnected'']
      [] [],
    ps_encode = Some (basic_auto_param_encode_generator [U64, U64] [''AntennaEventConnected'', ''AntennaEventDisconnected'']),
    ps_decode = Some (basic_auto_param_decode_generator [U64, U64] 16 [''AntennaEventConnected'', ''AntennaEventDisconnected''])\<rparr>"

definition Param_ImpinjHubVersions :: pstruct where
  "Param_ImpinjHubVersions = \<lparr>
    ps_info = custom_info VENDOR_ID_IMPINJ 1537
      []
      [] [''ImpinjArrayVersion''],
    ps_encode = Some encode_all,
    ps_decode = Some decode_all_entry\<rparr>"

definition decode_ImpinjHubConfiguration :: decoder where
  "decode_ImpinjHubConfiguration decode_all data name =
    bindE (ushort_ushort_ushort_unpack (take 6 data)) (\<lambda>(v_HubID, connected, fault).
    let par = [(''HubID'', PInt v_HubID)];
        par = dict_set par ''Connected'' (PStr (table_get ImpinjHubConnectedType connected));
        par = dict_set par ''Fault'' (PStr (table_get ImpinjHubFaultType fault)) in
    Inr (PDict par))"

definition Param_ImpinjHubConfiguration :: pstruct where
  "Param_ImpinjHubConfiguration = \<lparr>
    ps_info = custom_info VENDOR_ID_IMPINJ 1538
      [''HubID'', ''Connected'', ''Fault'']
      [] [],
    ps_encode = None,
    ps_decode = Some decode_ImpinjHubConfiguration\<rparr>"

definition encode_ImpinjIntelligentAntennaManagement :: encoder where
  "encode_ImpinjIntelligentAntennaManagement encode_param par param_info =
    (let enabled_flags = push_bit 7 (of_bool (py_true par)) AND 0xff in
     struct_pack [U8] [enabled_flags])"

definition decode_ImpinjIntelligentAntennaManagement :: decoder where
  "decode_ImpinjIntelligentAntennaManagement decode_all data name =
    bindE (ubyte_unpack data) (\<lambda>flags.
    let par = [(''ManagementEnabled'', PBool (flag_at flags 7))] in
    Inr (PDict par))"

definition Param_ImpinjIntelligentAntennaManagement :: pstruct where
  "Param_ImpinjIntelligentAntennaManagement = \<lparr>
    ps_info = custom_info VENDOR_ID_IMPINJ 1554
      [''ManagementEnabled'']
      [] [],
    ps_encode = Some encode_ImpinjIntelligentAntennaManagement,
    ps_decode = Some decode_ImpinjIntelligentAntennaManagement\<rparr>"

definition decode_ImpinjTIDParity :: decoder where
  "decode_ImpinjTIDParity decode_all data name =
    bindE (ushort_unpack (take 2 data)) (\<lambda>flags.
    let par = [(''ParityError'', PBool (flag_at flags 15))] in
    Inr (PDict par))"

definition Param_ImpinjTIDParity :: pstruct where
  "Param_ImpinjTIDParity = \<lparr>
    ps_info = custom_info VENDOR_ID_IMPINJ 1566
      [''ParityError'']
      [] [],
    ps_encode = None,
    ps_decode = Some decode_ImpinjTIDParity\<rparr>"

definition encode_ImpinjAntennaEventConfiguration :: encoder where
  "encode_ImpinjAntennaEventConfiguration encode_param par param_info =
    (let enabled_flags = push_bit 7 (of_bool (py_true par)) AND 0xff in
     struct_pack [U8] [enabled_flags])"

definition decode_ImpinjAntennaEventConfiguration :: decoder where
  "decode_ImpinjAntennaEventConfiguration decode_all data name =
    bindE (ubyte_unpack (take 1 data)) (\<lambda>flags.
    let par = [(''EnableAntennaAttemptNotification'', PBool (flag_at flags 7))];
      data = drop 1 data in
    bindE (decode_all data ''ImpinjAntennaEventConfiguration'' par) (\<lambda>par.
    Inr (PDict par)))"

definition Param_ImpinjAntennaEventConfiguration :: pstruct where
  "Param_ImpinjAntennaEventConfiguration = \<lparr>
    ps_info = custom_info VENDOR_ID_IMPINJ 1576
      [''EnableAntennaAttemptNotification'']
      [] [],
    ps_encode = Some encode_ImpinjAntennaEventConfiguration,
    ps_decode = Some decode_ImpinjAntennaEventConfiguration\<rparr>"

definition Param_ImpinjAntennaAttemptEvent :: pstruct where
  "Param_ImpinjAntennaAttemptEvent = \<lparr>
    ps_info = custom_info VENDOR_ID_IMPINJ 1577
      [''AntennaID'']
      [] [],
    ps_encode = Some (basic_param_encode_generator [U16] [''AntennaID'']),
    ps_decode = Some (basic_param_decode_generator [U16] [''AntennaID''])\<rparr>"

definition decode_ImpinjBLEVersion :: decoder where
  "decode_ImpinjBLEVersion decode_all data name =
    (let par = [] in
    bindE (ushort_unpack (take 2 data)) (\<lambda>byte_count.
    let par = dict_set par ''FirmwareVersion'' (PBytes (take (nat byte_count) (drop 2 data)));
      data = drop (2 + (nat byte_count)) data in
    bindE (decode_all data ''ImpinjBLEVersion'' par) (\<lambda>par.
    Inr (PDict par))))"

definition Param_ImpinjBLEVersion :: pstruct where
  "Param_ImpinjBLEVersion = \<lparr>
    ps_info = custom_info VENDOR_ID_IMPINJ 1580
      [''FirmwareVersion'']
      [] [],
    ps_encode = None,
    ps_decode = Some decode_ImpinjBLEVersion\<rparr>"

definition decode_ImpinjRFPowerSweep :: decoder where
  "decode_ImpinjRFPowerSweep decode_all data name =
    (let par = [] in
    bindE (ubyte_ushort_ushort_unpack data) (\<lambda>(flags, v_MinimumPowerLevel, v_PowerLevelStepSize).
    let par = dict_set par ''MinimumPowerLevel'' (PInt v_MinimumPowerLevel);
      par = dict_set par ''PowerLevelStepSize'' (PInt v_PowerLevelStepSize);
      par = dict_set par ''EnableRFPowerSweep'' (PBool (flag_at flags 7)) in
    Inr (PDict par)))"

definition Param_ImpinjRFPowerSweep :: pstruct where
  "Param_ImpinjRFPowerSweep = \<lparr>
    ps_info = custom_info VENDOR_ID_IMPINJ 1582
      [''EnableRFPowerSweep'', ''MinimumPowerLevel'', ''PowerLevelStepSize'']
      [] [],
    ps_encode = None,
    ps_decode = Some decode_ImpinjRFPowerSweep\<rparr>"

definition Params_Impinj :: "(string \<times> pstruct) list" where
  "Params_Impinj = [
    (''ImpinjRequestedData'', Param_ImpinjRequestedData),
    (''ImpinjSubRegulatoryRegion'', Param_ImpinjSubRegulatoryRegion),
    (''ImpinjInventorySearchMode'', Param_ImpinjInventorySearchMode),
    (''ImpinjFixedFrequencyList'', Param_ImpinjFixedFrequencyList),
    (''ImpinjReducedPowerFrequencyList'', Param_ImpinjReducedPowerFrequencyList),
    (''ImpinjLowDutyCycle'', Param_ImpinjLowDutyCycle),
    (''ImpinjDetailedVersion'', Param_ImpinjDetailedVersion),
    (''ImpinjFrequencyCapabilities'', Param_ImpinjFrequencyCapabilities),
    (''ImpinjGPIDebounceConfiguration'', Param_ImpinjGPIDebounceConfiguration),
    (''ImpinjReaderTemperature'', Param_ImpinjReaderTemperature),
    (''ImpinjLinkMonitorConfiguration'', Param_ImpinjLinkMonitorConfiguration),
    (''ImpinjReportBufferConfiguration'', Param_ImpinjReportBufferConfiguration),
    (''ImpinjAccessSpecConfiguration'', Param_ImpinjAccessSpecConfiguration),
    (''ImpinjBlockWriteWordCount'', Param_ImpinjBlockWriteWordCount),
    (''ImpinjTagReportContentSelector'', Param_ImpinjTagReportContentSelector),
    (''ImpinjEnableSerializedTID'', Param_ImpinjEnableSerializedTID),
    (''ImpinjEnableRFPhaseAngle'', Param_ImpinjEnableRFPhaseAngle),
    (''ImpinjEnablePeakRSSI'', Param_ImpinjEnablePeakRSSI),
    (''ImpinjEnableGPSCoordinates'', Param_ImpinjEnableGPSCoordinates),
    (''ImpinjSerializedTID'', Param_ImpinjSerializedTID),
    (''ImpinjRFPhaseAngle'', Param_ImpinjRFPhaseAngle),
    (''ImpinjPeakRSSI'', Param_ImpinjPeakRSSI),
    (''ImpinjGPSCoordinates'', Param_ImpinjGPSCoordinates),
    (''ImpinjGPSNMEASentences'', Param_ImpinjGPSNMEASentences),
    (''ImpinjGGASentence'', Param_ImpinjGGASentence),
    (''ImpinjRMCSentence'', Param_ImpinjRMCSentence),
    (''ImpinjOpSpecRetryCount'', Param_ImpinjOpSpecRetryCount),
    (''ImpinjAdvancedGPOConfiguration'', Param_ImpinjAdvancedGPOConfiguration),
    (''ImpinjEnableOptimizedRead'', Param_ImpinjEnableOptimizedRead),
    (''ImpinjAccessSpecOrdering'', Param_ImpinjAccessSpecOrdering),
    (''ImpinjEnableRFDopplerFrequency'', Param_ImpinjEnableRFDopplerFrequency),
    (''ImpinjRFDopplerFrequency'', Param_ImpinjRFDopplerFrequency),
    (''ImpinjInventoryConfiguration'', Param_ImpinjInventoryConfiguration),
    (''ImpinjEnableTxPower'', Param_ImpinjEnableTxPower),
    (''ImpinjTxPower'', Param_ImpinjTxPower),
    (''ImpinjArrayVersion'', Param_ImpinjArrayVersion),
    (''ImpinjAntennaConfiguration'', Param_ImpinjAntennaConfiguration),
    (''ImpinjAntennaEventHysteresis'', Param_ImpinjAntennaEventHysteresis),
    (''ImpinjHubVersions'', Param_ImpinjHubVersions),
    (''ImpinjHubConfiguration'', Param_ImpinjHubConfiguration),
    (''ImpinjIntelligentAntennaManagement'', Param_ImpinjIntelligentAntennaManagement),
    (''ImpinjTIDParity'', Param_ImpinjTIDParity),
    (''ImpinjAntennaEventConfiguration'', Param_ImpinjAntennaEventConfiguration),
    (''ImpinjAntennaAttemptEvent'', Param_ImpinjAntennaAttemptEvent),
    (''ImpinjBLEVersion'', Param_ImpinjBLEVersion),
    (''ImpinjRFPowerSweep'', Param_ImpinjRFPowerSweep)]"

lemmas Params_Impinj_entries = Params_Impinj_def
  Param_ImpinjRequestedData_def
  Param_ImpinjSubRegulatoryRegion_def
  Param_ImpinjInventorySearchMode_def
  Param_ImpinjFixedFrequencyList_def
  Param_ImpinjReducedPowerFrequencyList_def
  Param_ImpinjLowDutyCycle_def
  Param_ImpinjDetailedVersion_def
  Param_ImpinjFrequencyCapabilities_def
  Param_ImpinjGPIDebounceConfiguration_def
  Param_ImpinjReaderTemperature_def
  Param_ImpinjLinkMonitorConfiguration_def
  Param_ImpinjReportBufferConfiguration_def
  Param_ImpinjAccessSpecConfiguration_def
  Param_ImpinjBlockWriteWordCount_def
  Param_ImpinjTagReportContentSelector_def
  Param_ImpinjEnableSerializedTID_def
  Param_ImpinjEnableRFPhaseAngle_def
  Param_ImpinjEnablePeakRSSI_def
  Param_ImpinjEnableGPSCoordinates_def
  Param_ImpinjSerializedTID_def
  Param_ImpinjRFPhaseAngle_def
  Param_ImpinjPeakRSSI_def
  Param_ImpinjGPSCoordinates_def
  Param_ImpinjGPSNMEASentences_def
  Param_ImpinjGGASentence_def
  Param_ImpinjRMCSentence_def
  Param_ImpinjOpSpecRetryCount_def
  Param_ImpinjAdvancedGPOConfiguration_def
  Param_ImpinjEnableOptimizedRead_def
  Param_ImpinjAccessSpecOrdering_def
  Param_ImpinjEnableRFDopplerFrequency_def
  Param_ImpinjRFDopplerFrequency_def
  Param_ImpinjInventoryConfiguration_def
  Param_ImpinjEnableTxPower_def
  Param_ImpinjTxPower_def
  Param_ImpinjArrayVersion_def
  Param_ImpinjAntennaConfiguration_def
  Param_ImpinjAntennaEventHysteresis_def
  Param_ImpinjHubVersions_def
  Param_ImpinjHubConfiguration_def
  Param_ImpinjIntelligentAntennaManagement_def
  Param_ImpinjTIDParity_def
  Param_ImpinjAntennaEventConfiguration_def
  Param_ImpinjAntennaAttemptEvent_def
  Param_ImpinjBLEVersion_def
  Param_ImpinjRFPowerSweep_def

section \<open>Locality\<close>

lemmas Impinj_dec_local_defs =
  decode_ImpinjFixedFrequencyList_def
  decode_ImpinjReducedPowerFrequencyList_def
  decode_ImpinjDetailedVersion_def
  decode_ImpinjFrequencyCapabilities_def
  decode_ImpinjSerializedTID_def
  decode_ImpinjGGASentence_def
  decode_ImpinjRMCSentence_def
  decode_ImpinjInventoryConfiguration_def
  decode_ImpinjArrayVersion_def
  decode_ImpinjHubConfiguration_def
  decode_ImpinjIntelligentAntennaManagement_def
  decode_ImpinjTIDParity_def
  decode_ImpinjAntennaEventConfiguration_def
  decode_ImpinjBLEVersion_def
  decode_ImpinjRFPowerSweep_def

lemma Impinj_dec_local [dec_local]:
  "dec_local decode_ImpinjFixedFrequencyList"
  "dec_local decode_ImpinjReducedPowerFrequencyList"
  "dec_local decode_ImpinjDetailedVersion"
  "dec_local decode_ImpinjFrequencyCapabilities"
  "dec_local decode_ImpinjSerializedTID"
  "dec_local decode_ImpinjGGASentence"
  "dec_local decode_ImpinjRMCSentence"
  "dec_local decode_ImpinjInventoryConfiguration"
  "dec_local decode_ImpinjArrayVersion"
  "dec_local decode_ImpinjHubConfiguration"
  "dec_local decode_ImpinjIntelligentAntennaManagement"
  "dec_local decode_ImpinjTIDParity"
  "dec_local decode_ImpinjAntennaEventConfiguration"
  "dec_local decode_ImpinjBLEVersion"
  "dec_local decode_ImpinjRFPowerSweep"
  by (rule dec_localI, auto simp: Impinj_dec_local_defs Let_def
      intro!: bindE_cong split: option.split)+

lemma Impinj_dec_safe [dec_safe]:
  "dec_safe decode_ImpinjFixedFrequencyList"
  "dec_safe decode_ImpinjReducedPowerFrequencyList"
  "dec_safe decode_ImpinjFrequencyCapabilities"
  "dec_safe decode_ImpinjSerializedTID"
  "dec_safe decode_ImpinjGGASentence"
  "dec_safe decode_ImpinjRMCSentence"
  "dec_safe decode_ImpinjInventoryConfiguration"
  "dec_safe decode_ImpinjHubConfiguration"
  "dec_safe decode_ImpinjIntelligentAntennaManagement"
  "dec_safe decode_ImpinjTIDParity"
  "dec_safe decode_ImpinjAntennaEventConfiguration"
  "dec_safe decode_ImpinjBLEVersion"
  "dec_safe decode_ImpinjRFPowerSweep"
  by (rule dec_safeI, auto simp: Impinj_dec_local_defs Let_def reserved_keys_def DECODE_ERROR_PARNAME_def
      intro!: tame_bindE tame_mapE split: option.split)+

lemmas Impinj_enc_local_defs =
  encode_ImpinjFixedFrequencyList_def
  encode_ImpinjIntelligentAntennaManagement_def
  encode_ImpinjAntennaEventConfiguration_def

lemma Impinj_enc_local [enc_local]:
  "enc_local encode_ImpinjFixedFrequencyList"
  "enc_local encode_ImpinjIntelligentAntennaManagement"
  "enc_local encode_ImpinjAntennaEventConfiguration"
  by (rule enc_localI, auto simp: Impinj_enc_local_defs Let_def
      intro!: bindE_cong mapE_cong encode_all_parameters_local split: option.split)+

lemma decode_ImpinjVersions_safe [dec_safe]:
  "dec_safe decode_ImpinjDetailedVersion" "dec_safe decode_ImpinjArrayVersion"
proof -
  have n: "list_all (\<lambda>k. k \<notin> reserved_keys) [''ModelName'', ''SerialNumber'', ''SoftwareVersion'',
      ''FirmwareVersion'', ''FPGAVersion'', ''PCBAVersion'']"
    "list_all (\<lambda>k. k \<notin> reserved_keys) [''SerialNumber'', ''FirmwareVersion'', ''PCBAVersion'']"
    by (simp_all add: reserved_keys_def DECODE_ERROR_PARNAME_def)
  note safe = unpack_counted_no_reserved [where par = "[]", OF _ no_reserved_simps(1)]
  show "dec_safe decode_ImpinjDetailedVersion" "dec_safe decode_ImpinjArrayVersion"
    by (rule dec_safeI, auto simp: decode_ImpinjDetailedVersion_def decode_ImpinjArrayVersion_def
        safe [OF _ n(1)] safe [OF _ n(2)] simp del: unpack_counted.simps intro!: tame_bindE)+
qed

end
