(* ===== verification/Proto_Moto.thy ===== *)
theory Proto_Moto
  imports Proto_Impinj
begin

unbundle bit_operations_syntax

text \<open>
  Registry entries of \<^verbatim>\<open>sllurp/llrp_proto.py\<close>: the Motorola (Zebra) vendor parameters.  Each \<open>Param_X\<close> is the entry
  \<open>Param_struct["X"]\<close> as written there, with its encode and decode functions in front of it.
\<close>

section \<open>Entries\<close>

definition decode_MotoGeneralCapabilities :: decoder where
  "decode_MotoGeneralCapabilities decode_all data name =
    bindE (uint_ubyte_unpack (take 5 data)) (\<lambda>(version, flags).
    let par = [(''Version'', PInt version),
      (''CanGetGeneralParams'', PBool (flag_at flags 7)),
      (''CanReportPartNumber'', PBool (flag_at flags 6)),
      (''CanReportRadioVersion'', PBool (flag_at flags 5)),
      (''CanSupportRadioPowerState'', PBool (flag_at flags 4)),
      (''CanSupportRadioTransmitDelay'', PBool (flag_at flags 3)),
      (''CanSupportZebraTrigger'', PBool (flag_at flags 2))] in
    Inr (PDict par))"

definition Param_MotoGeneralCapabilities :: pstruct where
  "Param_MotoGeneralCapabilities = \<lparr>
    ps_info = custom_info VENDOR_ID_MOTOROLA 1
      [''Version'', ''CanGetGeneralParams'', ''CanReportPartNumber'', ''CanReportRadioVersion'',
      ''CanSupportRadioPowerState'', ''CanSupportRadioTransmitDelay'',
      ''CanSupportZebraTrigger'']
      [] [],
    ps_encode = None,
    ps_decode = Some decode_MotoGeneralCapabilities\<rparr>"

definition decode_MotoAutonomousCapabilities :: decoder where
  "decode_MotoAutonomousCapabilities decode_all data name =
    bindE (uint_ubyte_unpack (take 5 data)) (\<lambda>(version, flags).
    let par = [(''Version'', PInt version),
      (''CanSupportAutonomousMode'', PBool (flag_at flags 7))] in
    Inr (PDict par))"

definition Param_MotoAutonomousCapabilities :: pstruct where
  "Param_MotoAutonomousCapabilities = \<lparr>
    ps_info = custom_info VENDOR_ID_MOTOROLA 100
      [''Version'', ''CanSupportAutonomousMode'']
      [] [],
    ps_encode = None,
    ps_decode = Some decode_MotoAutonomousCapabilities\<rparr>"

definition decode_MotoAutonomousState :: decoder where
  "decode_MotoAutonomousState decode_all data name =
    bindE (ubyte_unpack (take 1 data)) (\<lambda>flags.
    let par = [(''AutonomousModeState'', PBool (flag_at flags 7))] in
    Inr (PDict par))"

definition Param_MotoAutonomousState :: pstruct where
  "Param_MotoAutonomousState = \<lparr>
    ps_info = custom_info VENDOR_ID_MOTOROLA 101
      [''AutonomousModeState'']
      [] [],
    ps_encode = None,
    ps_decode = Some decode_MotoAutonomousState\<rparr>"

definition decode_MotoDefaultSpec :: decoder where
  "decode_MotoDefaultSpec decode_all data name =
    bindE (ubyte_unpack (take 1 data)) (\<lambda>flags.
    let par = [(''UseDefaultSpecForAutoMode'', PBool (flag_at flags 7))] in
    bindE (decode_all (drop 1 data) ''MotoDefaultSpec'' par) (\<lambda>par.
    Inr (PDict par)))"

definition Param_MotoDefaultSpec :: pstruct where
  "Param_MotoDefaultSpec = \<lparr>
    ps_info = custom_info VENDOR_ID_MOTOROLA 102
      [''UseDefaultSpecForAutoMode'']
      [''ROSpec''] [''AccessSpec''],
    ps_encode = None,
    ps_decode = Some decode_MotoDefaultSpec\<rparr>"

definition decode_MotoTagEventsGenerationCapabilities :: decoder where
  "decode_MotoTagEventsGenerationCapabilities decode_all data name =
    bindE (uint_ubyte_unpack (take 5 data)) (\<lambda>(version, flags).
    let par = [(''Version'', PInt version),
      (''CanSelectTagEvents'', PBool (flag_at flags 7)),
      (''CanSelectTagReportingFormat'', PBool (flag_at flags 6)),
      (''CanSelectMovingEvent'', PBool (flag_at flags 5))] in
    Inr (PDict par))"

definition Param_MotoTagEventsGenerationCapabilities :: pstruct where
  "Param_MotoTagEventsGenerationCapabilities = \<lparr>
    ps_info = custom_info VENDOR_ID_MOTOROLA 120
      [''Version'', ''CanSelectTagEvents'', ''CanSelectTagReportingFormat'',
      ''CanSelectMovingEvent'']
      [] [],
    ps_encode = None,
    ps_decode = Some decode_MotoTagEventsGenerationCapabilities\<rparr>"

definition decode_MotoTagEventSelector :: decoder where
  "decode_MotoTagEventSelector decode_all data name =
    bindE (struct_unpack [U8, U16, U8, U16, U8, U16] (take 9 data)) (\<lambda>v.
    let report_new_tag_event = v ! 0;
      new_tag_event_timeout = v ! 1;
      report_tag_inv_event = v ! 2;
      tag_inv_event_timeout = v ! 3;
      report_tag_visibility_change_event = v ! 4;
      tag_visibility_change_event_timeout = v ! 5 in
    bindE (type2name MotoTagEventSelector_Type2Name report_new_tag_event) (\<lambda>nm.
    bindE (type2name MotoTagEventSelector_Type2Name report_tag_inv_event) (\<lambda>nm_1.
    bindE (type2name MotoTagEventSelector_Type2Name report_tag_visibility_change_event) (\<lambda>nm_2.
    let par = [(''ReportNewTagEvent'', PStr nm),
      (''NewTagEventModeratedTimeout'', PInt new_tag_event_timeout),
      (''ReportTagInvisibleEvent'', PStr nm_1),
      (''TagInvisibleEventModeratedTimeout'', PInt tag_inv_event_timeout),
      (''ReportTagVisibilityChangeEvent'', PStr nm_2),
      (''TagVisibilityChangeEventModeratedTimeout'', PInt tag_visibility_change_event_timeout)] in
    Inr (PDict par)))))"

definition Param_MotoTagEventSelector :: pstruct where
  "Param_MotoTagEventSelector = \<lparr>
    ps_info = custom_info VENDOR_ID_MOTOROLA 121
      [''ReportNewTagEvent'', ''NewTagEventModeratedTimeout'', ''ReportTagInvisibleEvent'',
      ''TagInvisibleEventModeratedTimeout'', ''ReportTagVisibilityChangeEvent'',
      ''TagVisibilityChangeEventModeratedTimeout'']
      [] [],
    ps_encode = None,
    ps_decode = Some decode_MotoTagEventSelector\<rparr>"

definition decode_MotoTagReportMode :: decoder where
  "decode_MotoTagReportMode decode_all data name =
    bindE (ubyte_unpack (take 1 data)) (\<lambda>report_format.
    bindE (type2name MotoTagReportMode_Type2Name report_format) (\<lambda>nm.
    let par = [(''ReportFormat'', PStr nm)] in
    Inr (PDict par)))"

definition Param_MotoTagReportMode :: pstruct where
  "Param_MotoTagReportMode = \<lparr>
    ps_info = custom_info VENDOR_ID_MOTOROLA 122
      [''ReportFormat'']
      [] [],
    ps_encode = None,
    ps_decode = Some decode_MotoTagReportMode\<rparr>"

definition MotoTagReportContentSelector_info :: pinfo where
  "MotoTagReportContentSelector_info = custom_info VENDOR_ID_MOTOROLA 708
      [''EnableZoneID'', ''EnableZoneName'', ''EnableAntennaPhysicalPortConfig'',
      ''EnablePhase'', ''EnableGPS'', ''EnableMLTReport'']
      [] []"

definition encode_MotoTagReportContentSelector :: encoder where
  "encode_MotoTagReportContentSelector encode_param par param_info =
    bindE (pack_selector [''CustomParameter'']
             (\<lambda>field. bindE (py_get par field (PBool False)) (\<lambda>v. Inr (py_true v)))
             31 (pi_fields param_info) 0) (\<lambda>flags.
    struct_pack [U32] [flags])"

definition decode_MotoTagReportContentSelector :: decoder where
  "decode_MotoTagReportContentSelector decode_all data name =
    bindE (uint_unpack (take 4 data)) (\<lambda>flags.
    bindE (unpack_selector [''CustomParameter''] flags
             31 (pi_fields (finish_info MotoTagReportContentSelector_info)) []) (\<lambda>par.
    Inr (PDict par)))"

definition Param_MotoTagReportContentSelector :: pstruct where
  "Param_MotoTagReportContentSelector = \<lparr>
    ps_info = MotoTagReportContentSelector_info,
    ps_encode = Some encode_MotoTagReportContentSelector,
    ps_decode = Some decode_MotoTagReportContentSelector\<rparr>"

definition decode_MotoTagPhase :: decoder where
  "decode_MotoTagPhase decode_all data name =
    bindE (short_unpack (take 2 data)) (\<lambda>raw_phase.
    Inr (PFloat (rat_of_int raw_phase * 180 / 32768)))"

definition Param_MotoTagPhase :: pstruct where
  "Param_MotoTagPhase = \<lparr>
    ps_info = custom_info VENDOR_ID_MOTOROLA 709
      []
      [] [],
    ps_encode = None,
    ps_decode = Some decode_MotoTagPhase\<rparr>"

definition decode_MotoFilterCapabilities :: decoder where
  "decode_MotoFilterCapabilities decode_all data name =
    bindE (uint_ubyte_unpack (take 5 data)) (\<lambda>(version, flags).
    let par = [(''Version'', PInt version),
      (''CanFilterTagsBasedOnRSSI'', PBool (flag_at flags 7)),
      (''CanFilterTagsBasedOnTimeOfDay'', PBool (flag_at flags 6)),
      (''CanFilterTagsBasedOnUTCTimeStamp'', PBool (flag_at flags 5))] in
    Inr (PDict par))"

definition Param_MotoFilterCapabilities :: pstruct where
  "Param_MotoFilterCapabilities = \<lparr>
    ps_info = custom_info VENDOR_ID_MOTOROLA 200
      [''Version'', ''CanFilterTagsBasedOnRSSI'', ''CanFilterTagsBasedOnTimeOfDay'',
      ''CanFilterTagsBasedOnUTCTimeStamp'']
      [] [],
    ps_encode = None,
    ps_decode = Some decode_MotoFilterCapabilities\<rparr>"

definition Param_MotoUTCTimestamp :: pstruct where
  "Param_MotoUTCTimestamp = \<lparr>
    ps_info = custom_info VENDOR_ID_MOTOROLA 250
      [''Microseconds'']
      [] [],
    ps_encode = None,
    ps_decode = Some (basic_auto_param_decode_generator [U64] 8 [''Microseconds''])\<rparr>"

definition Param_MotoFilterTimeOfDay :: pstruct where
  "Param_MotoFilterTimeOfDay = \<lparr>
    ps_info = custom_info VENDOR_ID_MOTOROLA 251
      [''Microseconds'']
      [] [],
    ps_encode = None,
    ps_decode = Some (basic_auto_param_decode_generator [U64] 8 [''Microseconds''])\<rparr>"

definition decode_MotoFilterTimeRange :: decoder where
  "decode_MotoFilterTimeRange decode_all data name =
    bindE (ubyte_ubyte_unpack (take 2 data)) (\<lambda>(time_format, match).
    bindE (type2name Match_Type2Name match) (\<lambda>nm.
    let par = [(''TimeFormat'', PInt time_format),
      (''Match'', PStr nm)] in
    bindE (decode_all (drop 2 data) ''MotoFilterTimeRange'' par) (\<lambda>par.
    Inr (PDict par))))"

definition Param_MotoFilterTimeRange :: pstruct where
  "Param_MotoFilterTimeRange = \<lparr>
    ps_info = custom_info VENDOR_ID_MOTOROLA 252
      [''TimeFormat'', ''Match'']
      [] [''MotoFilterTimeFormatChoice''],
    ps_encode = None,
    ps_decode = Some decode_MotoFilterTimeRange\<rparr>"

definition decode_MotoFilterRSSIRange :: decoder where
  "decode_MotoFilterRSSIRange decode_all data name =
    bindE (ushort_unpack (take 2 data)) (\<lambda>match.
    bindE (type2name Match_Type2Name match) (\<lambda>nm.
    let par = [(''Match'', PStr nm)] in
    bindE (decode_all (drop 2 data) ''MotoFilterRSSIRange'' par) (\<lambda>par.
    Inr (PDict par))))"

definition Param_MotoFilterRSSIRange :: pstruct where
  "Param_MotoFilterRSSIRange = \<lparr>
    ps_info = custom_info VENDOR_ID_MOTOROLA 253
      [''Match'']
      [] [''PeakRSSI''],
    ps_encode = None,
    ps_decode = Some decode_MotoFilterRSSIRange\<rparr>"

definition decode_MotoFilterRule :: decoder where
  "decode_MotoFilterRule decode_all data name =
    bindE (ubyte_unpack (take 1 data)) (\<lambda>rule_type.
    bindE (type2name RuleType_Type2Name rule_type) (\<lambda>nm.
    let par = [(''RuleType'', PStr nm)] in
    bindE (decode_all (drop 1 data) ''MotoFilterRule'' par) (\<lambda>par.
    Inr (PDict par))))"

definition Param_MotoFilterRule :: pstruct where
  "Param_MotoFilterRule = \<lparr>
    ps_info = custom_info VENDOR_ID_MOTOROLA 254
      [''RuleType'']
      [''MotoFilterRSSIRange'', ''MotoFilterTimeRange''] [''MotoFilterTagList''],
    ps_encode = None,
    ps_decode = Some decode_MotoFilterRule\<rparr>"

definition decode_MotoFilterList :: decoder where
  "decode_MotoFilterList decode_all data name =
    bindE (uint_unpack (take 4 data)) (\<lambda>use_filter.
    let par = [(''UseFilter'', PBool (flag_at use_filter 31))] in
    bindE (decode_all (drop 4 data) ''MotoFilterList'' par) (\<lambda>par.
    Inr (PDict par)))"

definition Param_MotoFilterList :: pstruct where
  "Param_MotoFilterList = \<lparr>
    ps_info = custom_info VENDOR_ID_MOTOROLA 255
      [''UseFilter'']
      [] [''MotoFilterRule''],
    ps_encode = None,
    ps_decode = Some decode_MotoFilterList\<rparr>"

definition decode_MotoFilterTagList :: decoder where
  "decode_MotoFilterTagList decode_all data name =
    bindE (ubyte_unpack (take 1 data)) (\<lambda>match.
    bindE (type2name RuleType_Type2Name match) (\<lambda>nm.
    let par = [(''Match'', PStr nm)] in
    bindE (decode_all (drop 1 data) ''MotoFilterTagList'' par) (\<lambda>par.
    Inr (PDict par))))"

definition Param_MotoFilterTagList :: pstruct where
  "Param_MotoFilterTagList = \<lparr>
    ps_info = custom_info VENDOR_ID_MOTOROLA 258
      [''Match'']
      [] [''EPC''],
    ps_encode = None,
    ps_decode = Some decode_MotoFilterTagList\<rparr>"

definition decode_MotoPersistenceCapabilities :: decoder where
  "decode_MotoPersistenceCapabilities decode_all data name =
    bindE (uint_ubyte_unpack (take 5 data)) (\<lambda>(version, flags).
    let par = [(''Version'', PInt version),
      (''CanSaveConfiguration'', PBool (flag_at flags 7)),
      (''CanSaveTags'', PBool (flag_at flags 6)),
      (''CanSaveEvents'', PBool (flag_at flags 5))] in
    Inr (PDict par))"

definition Param_MotoPersistenceCapabilities :: pstruct where
  "Param_MotoPersistenceCapabilities = \<lparr>
    ps_info = custom_info VENDOR_ID_MOTOROLA 300
      [''Version'', ''CanSaveConfiguration'', ''CanSaveTags'', ''CanSaveEvents'']
      [] [],
    ps_encode = None,
    ps_decode = Some decode_MotoPersistenceCapabilities\<rparr>"

definition decode_MotoPersistenceSaveParams :: decoder where
  "decode_MotoPersistenceSaveParams decode_all data name =
    bindE (ubyte_unpack (take 1 data)) (\<lambda>flags.
    let par = [(''SaveConfiguration'', PBool (flag_at flags 7)),
      (''SaveTagData'', PBool (flag_at flags 6)),
      (''SaveTagEventData'', PBool (flag_at flags 5))] in
    Inr (PDict par))"

definition Param_MotoPersistenceSaveParams :: pstruct where
  "Param_MotoPersistenceSaveParams = \<lparr>
    ps_info = custom_info VENDOR_ID_MOTOROLA 350
      [''SaveConfiguration'', ''SaveTagData'', ''SaveTagEventData'']
      [] [],
    ps_encode = None,
    ps_decode = Some decode_MotoPersistenceSaveParams\<rparr>"

definition decode_MotoC1G2LLRPCapabilities :: decoder where
  "decode_MotoC1G2LLRPCapabilities decode_all data name =
    bindE (uint_ubyte_unpack (take 5 data)) (\<lambda>(version, flags).
    let par = [(''Version'', PInt version),
      (''CanSupportBlockPermalock'', PBool (flag_at flags 7)),
      (''CanSupportRecommissioning'', PBool (flag_at flags 6)),
      (''CanWriteUMI'', PBool (flag_at flags 5)),
      (''CanSupportNXPCuxtomCommands'', PBool (flag_at flags 4)),
      (''CanSupportFujitsuCuxtomCommands'', PBool (flag_at flags 3)),
      (''CanSupportG2V2Commands'', PBool (flag_at flags 2))] in
    Inr (PDict par))"

definition Param_MotoC1G2LLRPCapabilities :: pstruct where
  "Param_MotoC1G2LLRPCapabilities = \<lparr>
    ps_info = custom_info VENDOR_ID_MOTOROLA 400
      [''Version'', ''CanSupportBlockPermalock'', ''CanSupportRecommissioning'',
      ''CanWriteUMI'', ''CanSupportNXPCuxtomCommands'', ''CanSupportFujitsuCuxtomCommands'',
      ''CanSupportG2V2Commands '']
      [] [],
    ps_encode = None,
    ps_decode = Some decode_MotoC1G2LLRPCapabilities\<rparr>"

definition decode_MotoCustomCommandOptions :: decoder where
  "decode_MotoCustomCommandOptions decode_all data name =
    bindE (uint_unpack (take 4 data)) (\<lambda>flags.
    let par = [(''EnableNXPSetAndResetQuietCommands'', PBool (flag_at flags 31))] in
    Inr (PDict par))"

definition Param_MotoCustomCommandOptions :: pstruct where
  "Param_MotoCustomCommandOptions = \<lparr>
    ps_info = custom_info VENDOR_ID_MOTOROLA 466
      [''EnableNXPSetAndResetQuietCommands '']
      [] [],
    ps_encode = None,
    ps_decode = Some decode_MotoCustomCommandOptions\<rparr>"

definition Params_Moto :: "(string \<times> pstruct) list" where
  "Params_Moto = [
    (''MotoGeneralCapabilities'', Param_MotoGeneralCapabilities),
    (''MotoAutonomousCapabilities'', Param_MotoAutonomousCapabilities),
    (''MotoAutonomousState'', Param_MotoAutonomousState),
    (''MotoDefaultSpec'', Param_MotoDefaultSpec),
    (''MotoTagEventsGenerationCapabilities'', Param_MotoTagEventsGenerationCapabilities),
    (''MotoTagEventSelector'', Param_MotoTagEventSelector),
    (''MotoTagReportMode'', Param_MotoTagReportMode),
    (''MotoTagReportContentSelector'', Param_MotoTagReportContentSelector),
    (''MotoTagPhase'', Param_MotoTagPhase),
    (''MotoFilterCapabilities'', Param_MotoFilterCapabilities),
    (''MotoUTCTimestamp'', Param_MotoUTCTimestamp),
    (''MotoFilterTimeOfDay'', Param_MotoFilterTimeOfDay),
    (''MotoFilterTimeRange'', Param_MotoFilterTimeRange),
    (''MotoFilterRSSIRange'', Param_MotoFilterRSSIRange),
    (''MotoFilterRule'', Param_MotoFilterRule),
    (''MotoFilterList'', Param_MotoFilterList),
    (''MotoFilterTagList'', Param_MotoFilterTagList),
    (''MotoPersistenceCapabilities'', Param_MotoPersistenceCapabilities),
    (''MotoPersistenceSaveParams'', Param_MotoPersistenceSaveParams),
    (''MotoC1G2LLRPCapabilities'', Param_MotoC1G2LLRPCapabilities),
    (''MotoCustomCommandOptions'', Param_MotoCustomCommandOptions)]"

lemmas Params_Moto_entries = Params_Moto_def
  Param_MotoGeneralCapabilities_def
  Param_MotoAutonomousCapabilities_def
  Param_MotoAutonomousState_def
  Param_MotoDefaultSpec_def
  Param_MotoTagEventsGenerationCapabilities_def
  Param_MotoTagEventSelector_def
  Param_MotoTagReportMode_def
  Param_MotoTagReportContentSelector_def
  Param_MotoTagPhase_def
  Param_MotoFilterCapabilities_def
  Param_MotoUTCTimestamp_def
  Param_MotoFilterTimeOfDay_def
  Param_MotoFilterTimeRange_def
  Param_MotoFilterRSSIRange_def
  Param_MotoFilterRule_def
  Param_MotoFilterList_def
  Param_MotoFilterTagList_def
  Param_MotoPersistenceCapabilities_def
  Param_MotoPersistenceSaveParams_def
  Param_MotoC1G2LLRPCapabilities_def
  Param_MotoCustomCommandOptions_def

section \<open>Locality\<close>

lemmas Moto_dec_local_defs =
  decode_MotoGeneralCapabilities_def
  decode_MotoAutonomousCapabilities_def
  decode_MotoAutonomousState_def
  decode_MotoDefaultSpec_def
  decode_MotoTagEventsGenerationCapabilities_def
  decode_MotoTagEventSelector_def
  decode_MotoTagReportMode_def
  decode_MotoTagReportContentSelector_def
  decode_MotoTagPhase_def
  decode_MotoFilterCapabilities_def
  decode_MotoFilterTimeRange_def
  decode_MotoFilterRSSIRange_def
  decode_MotoFilterRule_def
  decode_MotoFilterList_def
  decode_MotoFilterTagList_def
  decode_MotoPersistenceCapabilities_def
  decode_MotoPersistenceSaveParams_def
  decode_MotoC1G2LLRPCapabilities_def
  decode_MotoCustomCommandOptions_def

lemma Moto_dec_local [dec_local]:
  "dec_local decode_MotoGeneralCapabilities"
  "dec_local decode_MotoAutonomousCapabilities"
  "dec_local decode_MotoAutonomousState"
  "dec_local decode_MotoDefaultSpec"
  "dec_local decode_MotoTagEventsGenerationCapabilities"
  "dec_local decode_MotoTagEventSelector"
  "dec_local decode_MotoTagReportMode"
  "dec_local decode_MotoTagReportContentSelector"
  "dec_local decode_MotoTagPhase"
  "dec_local decode_MotoFilterCapabilities"
  "dec_local decode_MotoFilterTimeRange"
  "dec_local decode_MotoFilterRSSIRange"
  "dec_local decode_MotoFilterRule"
  "dec_local decode_MotoFilterList"
  "dec_local decode_MotoFilterTagList"
  "dec_local decode_MotoPersistenceCapabilities"
  "dec_local decode_MotoPersistenceSaveParams"
  "dec_local decode_MotoC1G2LLRPCapabilities"
  "dec_local decode_MotoCustomCommandOptions"
  by (rule dec_localI, auto simp: Moto_dec_local_defs Let_def
      intro!: bindE_cong split: option.split)+

lemma Moto_dec_safe [dec_safe]:
  "dec_safe decode_MotoGeneralCapabilities"
  "dec_safe decode_MotoAutonomousCapabilities"
  "dec_safe decode_MotoAutonomousState"
  "dec_safe decode_MotoDefaultSpec"
  "dec_safe decode_MotoTagEventsGenerationCapabilities"
  "dec_safe decode_MotoTagEventSelector"
  "dec_safe decode_MotoTagReportMode"
  "dec_safe decode_MotoTagReportContentSelector"
  "dec_safe decode_MotoTagPhase"
  "dec_safe decode_MotoFilterCapabilities"
  "dec_safe decode_MotoFilterTimeRange"
  "dec_safe decode_MotoFilterRSSIRange"
  "dec_safe decode_MotoFilterRule"
  "dec_safe decode_MotoFilterList"
  "dec_safe decode_MotoFilterTagList"
  "dec_safe decode_MotoPersistenceCapabilities"
  "dec_safe decode_MotoPersistenceSaveParams"
  "dec_safe decode_MotoC1G2LLRPCapabilities"
  "dec_safe decode_MotoCustomCommandOptions"
  by (rule dec_safeI, auto simp: Moto_dec_local_defs Let_def reserved_keys_def DECODE_ERROR_PARNAME_def
      intro!: tame_bindE tame_mapE split: option.split)+

lemmas Moto_enc_local_defs =
  encode_MotoTagReportContentSelector_def

lemma Moto_enc_local [enc_local]:
  "enc_local encode_MotoTagReportContentSelector"
  by (rule enc_localI, auto simp: Moto_enc_local_defs Let_def
      intro!: bindE_cong mapE_cong encode_all_parameters_local split: option.split)+

end
