(* ===== verification/Codec_Loop.thy ===== *)
theory Codec_Loop
  imports Codec_Core
begin

unbundle bit_operations_syntax

text \<open>
  The recursive part of the codec: \<open>decode_param\<close>, \<open>decode_all_parameters\<close> and \<open>encode_param\<close>
  of \<^verbatim>\<open>sllurp/llrp_proto.py\<close> (the latter as replaced by \<^verbatim>\<open>sllurp/_protocol_fixes.py\<close>), over a
  registry given as an argument.

  Nothing in the source bounds the nesting of received parameters, so the interpreter's recursion
  limit does: every nested call of \<open>decode_all_parameters\<close> takes room on the stack, and
  the call that finds none raises \<open>RecursionError\<close>, which \<open>decode_param\<close> does not catch.  Here the
  room is the argument \<open>stack\<close>, the number of nested calls of \<open>decode_all_parameters\<close> that still
  fit.  Encoding recurses over a dictionary of the application and runs on fuel, the depth of the
  dictionary.

  Locale \<open>param_registry\<close> states what the codec relies on in a registry and proves there that
  the fuel of the encoder never runs out, that more stack than data makes no difference, and that
  decoding inverts the framing of encoding; \<open>safe_registry\<close> adds what bounds the exceptions.
\<close>

section \<open>Registry interface\<close>

text \<open>\<open>Param_struct[name]\<close> and \<open>Param_Type2Name.get((type, vendorid, subtype))\<close>.\<close>

record registry =
  reg_struct :: "string \<Rightarrow> pstruct option"
  reg_name :: "int \<times> int \<times> int \<Rightarrow> string option"

section \<open>Decoding\<close>

text \<open>The fallback value of a parameter that no decoder understood.\<close>

definition undecoded :: "int \<Rightarrow> int \<Rightarrow> int \<Rightarrow> string \<Rightarrow> string option \<Rightarrow> bytes \<Rightarrow> pyval" where
  "undecoded partype vendorid subtype decoder_error param_name pardata =
    (let ret = [(''Name'', PStr ''''), (''Type'', PInt partype),
                (''DecodeError'', PStr decoder_error), (''Data'', PBytes pardata)];
         ret = (if vendorid \<noteq> 0 \<and> subtype \<noteq> 0
                then dict_set (dict_set ret ''VendorID'' (PInt vendorid)) ''Subtype'' (PInt subtype)
                else ret);
         ret = (case param_name of None \<Rightarrow> ret | Some nm \<Rightarrow> dict_set ret ''Name'' (PStr nm))
     in PDict ret)"

text \<open>\<open>Param_struct[param_name]["decode"](pardata, param_name)\<close>.\<close>

definition call_decoder :: "registry \<Rightarrow> dec_all \<Rightarrow> string \<Rightarrow> bytes \<Rightarrow> pyval res" where
  "call_decoder reg decode_all param_name pardata = (case reg_struct reg param_name of
     None \<Rightarrow> Inl KeyError
   | Some e \<Rightarrow> (case ps_decode e of None \<Rightarrow> Inl KeyError
       | Some d \<Rightarrow> d decode_all pardata param_name))"

text \<open>
  \<open>decode_outcome\<close> is the exception handling around a registered decoder.  A result is
  \<open>None\<close> when there is no parameter header, else the name (if the value was decoded
  under that name), the value, and the length of the whole parameter.
\<close>

type_synonym param_result = "(string option \<times> pyval \<times> nat) option"

definition decode_outcome :: "int \<Rightarrow> int \<Rightarrow> int \<Rightarrow> string \<Rightarrow> bytes \<Rightarrow> nat \<Rightarrow> pyval res \<Rightarrow> param_result res" where
  "decode_outcome pt vendorid subtype param_name pardata full_length result = (case result of
     Inr ret \<Rightarrow> (if ret = PNone
       then Inr (Some (None, undecoded pt vendorid subtype ''UnknownParameter'' (Some param_name) pardata,
                       full_length))
       else Inr (Some (Some param_name, ret, full_length)))
   | Inl e \<Rightarrow>
       if e = KeyError
       then Inr (Some (None, undecoded pt vendorid subtype ''DecodeFunctionMissing'' (Some param_name) pardata,
                       full_length))
       else if e \<in> {StructError, ValueError, TypeError, IndexError} then Inl LLRPError
       else Inl e)"

definition decode_param_with :: "registry \<Rightarrow> dec_all \<Rightarrow> bytes \<Rightarrow> param_result res" where
  "decode_param_with reg decode_all data =
    (case param_header_decode data of
      Inl e \<Rightarrow> Inl (if e = ValueError then LLRPError else e)
    | Inr (partype, vendorid, subtype, hdr_len, full_length) \<Rightarrow>
      (if falsy_type partype then Inr None
       else if full_length < hdr_len then Inl LLRPError
       else if full_length > length data then Inl LLRPError
       else let pt = the partype;
                pardata = take (full_length - hdr_len) (drop hdr_len data) in
         case reg_name reg (pt, vendorid, subtype) of
           None \<Rightarrow> Inr (Some (None, undecoded pt vendorid subtype ''UnknownParameter'' None pardata, full_length))
         | Some param_name \<Rightarrow>
           decode_outcome pt vendorid subtype param_name pardata full_length
             (call_decoder reg decode_all param_name pardata)))"

text \<open>\<open>par_dict.setdefault(key, []).append(value)\<close>.\<close>

definition setdefault_append :: "pydict \<Rightarrow> string \<Rightarrow> pyval \<Rightarrow> pydict res" where
  "setdefault_append par key val = (case dict_get par key of
     None \<Rightarrow> Inr (dict_set par key (PList [val]))
   | Some (PList l) \<Rightarrow> Inr (dict_set par key (PList (l @ [val])))
   | Some _ \<Rightarrow> Inl AttributeError)"

definition store_param :: "string list \<Rightarrow> string option \<Rightarrow> pyval \<Rightarrow> pydict \<Rightarrow> pydict res" where
  "store_param n_fields subname ret par_dict = (case subname of
     None \<Rightarrow> setdefault_append par_dict DECODE_ERROR_PARNAME ret
   | Some nm \<Rightarrow> if nm \<notin> set n_fields then Inr (dict_set par_dict nm ret)
                else setdefault_append par_dict nm ret)"

text \<open>The loop of \<open>decode_all_parameters\<close>; \<open>data\<close> is what is left from \<open>start_pos\<close> on.\<close>

function dap_loop :: "(bytes \<Rightarrow> param_result res) \<Rightarrow> string list \<Rightarrow> bytes \<Rightarrow> pydict \<Rightarrow> pydict res" where
  "dap_loop decode_param n_fields data par_dict =
    (if data = [] then Inr par_dict
     else bindE (decode_param data) (\<lambda>r. case r of
       None \<Rightarrow> Inl LLRPError
     | Some (subname, ret, sublength) \<Rightarrow>
       bindE (store_param n_fields subname ret par_dict) (\<lambda>par_dict.
         if sublength = 0 then Inr par_dict
         else dap_loop decode_param n_fields (drop sublength data) par_dict)))"
  by pat_completeness auto
termination
  by (relation "measure (\<lambda>(_, _, data, _). length data)") auto

declare dap_loop.simps [simp del]

definition n_fields_of :: "registry \<Rightarrow> string \<Rightarrow> string list res" where
  "n_fields_of reg name = (if name = '''' then Inr []
     else case reg_struct reg name of None \<Rightarrow> Inl KeyError | Some e \<Rightarrow> Inr (pi_n_fields (ps_info e)))"

fun decode_all_of :: "registry \<Rightarrow> nat \<Rightarrow> dec_all" where
  "decode_all_of reg 0 data name par = Inl RecursionError"
| "decode_all_of reg (Suc stack) data name par =
     bindE (n_fields_of reg name) (\<lambda>n_fields.
       dap_loop (decode_param_with reg (decode_all_of reg stack)) n_fields data par)"

definition decode_param_of :: "registry \<Rightarrow> nat \<Rightarrow> bytes \<Rightarrow> param_result res" where
  "decode_param_of reg stack data = decode_param_with reg (decode_all_of reg stack) data"

section \<open>Encoding\<close>

text \<open>The header \<open>encode_param\<close> puts in front of \<open>n\<close> bytes of encoded fields.\<close>

definition encode_header :: "pinfo \<Rightarrow> string \<Rightarrow> pyval \<Rightarrow> nat \<Rightarrow> bytes res" where
  "encode_header info name par n =
    (if pi_tv info
     then (if \<not> (0 \<le> pi_type info \<and> pi_type info \<le> 0x7F) then Inl LLRPError
           else struct_pack [U8] [0x80 OR pi_type info])
     else if pi_type info = TYPE_CUSTOM
     then bindE (if name \<noteq> ''CustomParameter''
                 then (case pi_vendor info of None \<Rightarrow> Inl KeyError | Some v \<Rightarrow> Inr (PInt v))
                 else py_item par ''VendorID'') (\<lambda>vendor_id.
          bindE (if name \<noteq> ''CustomParameter''
                 then (case pi_subtype info of None \<Rightarrow> Inl KeyError | Some s \<Rightarrow> Inr (PInt s))
                 else py_item par ''Subtype'') (\<lambda>subtype.
          pack_vals par_custom_header_struct
            [PInt (pi_type info), PInt (int (12 + n)), vendor_id, subtype]))
     else struct_pack tlv_par_header_struct [pi_type info, int (4 + n)])"

definition encode_param_with :: "registry \<Rightarrow> enc_param \<Rightarrow> string \<Rightarrow> pyval \<Rightarrow> bytes res" where
  "encode_param_with reg encode_param name par = (case reg_struct reg name of
     None \<Rightarrow> Inr []
   | Some e \<Rightarrow> (case ps_encode e of
       None \<Rightarrow> Inr []
     | Some encode_func \<Rightarrow>
         bindE (encode_func encode_param par (ps_info e)) (\<lambda>sub_data.
         bindE (encode_header (ps_info e) name par (length sub_data)) (\<lambda>data.
         Inr (data @ sub_data)))))"

fun encode_fuel :: "registry \<Rightarrow> nat \<Rightarrow> enc_param" where
  "encode_fuel reg 0 name par = Inl RecursionError"
| "encode_fuel reg (Suc k) name par = encode_param_with reg (encode_fuel reg k) name par"

definition encode_param_of :: "registry \<Rightarrow> enc_param" where
  "encode_param_of reg name par = encode_fuel reg (Suc (pydepth par)) name par"

section \<open>Auxiliary facts\<close>

lemma decode_param_with_cong:
  assumes local: "\<And>n e d. reg_struct reg n = Some e \<Longrightarrow> ps_decode e = Some d \<Longrightarrow> dec_local d"
    and agree: "\<And>data' n p. length data' < length data \<Longrightarrow> r data' n p = r' data' n p"
  shows "decode_param_with reg r data = decode_param_with reg r' data"
proof (cases "param_header_decode data")
  case (Inl e)
  then show ?thesis by (simp add: decode_param_with_def)
next
  case (Inr h)
  obtain partype v s hl fl where h: "h = (partype, v, s, hl, fl)" by (cases h)
  show ?thesis
  proof (cases "falsy_type partype \<or> fl < hl \<or> length data < fl")
    case True
    with Inr h show ?thesis by (auto simp: decode_param_with_def)
  next
    case False
    then obtain t where t: "partype = Some t" by (auto simp: falsy_type_def)
    let ?pd = "take (fl - hl) (drop hl data)"
    have "1 \<le> hl" "hl \<le> length data"
      using param_header_decode_bounds [of data t v s hl fl] Inr h t by auto
    then have "length ?pd < length data" using False by auto
    then have "call_decoder reg r nm ?pd = call_decoder reg r' nm ?pd" for nm
      using local agree unfolding call_decoder_def
      by (auto split: option.split intro!: dec_localD)
    with Inr h False show ?thesis by (simp add: decode_param_with_def Let_def split: option.split)
  qed
qed

lemma dap_loop_cong:
  "(\<And>d. length d \<le> length data \<Longrightarrow> f d = g d) \<Longrightarrow> dap_loop f n_flds data par = dap_loop g n_flds data par"
proof (induction f n_flds data par rule: dap_loop.induct)
  case (1 f n_flds data par)
  show ?case
    by (subst dap_loop.simps, subst dap_loop.simps, rule if_cong [OF refl refl], intro bindE_cong)
      (auto split: option.split prod.split intro!: bindE_cong 1 simp: "1.prems")
qed

declare decode_all_of.simps [simp del] encode_fuel.simps [simp del]

lemma encode_header_error:
  "encode_header info name par n = Inl e \<Longrightarrow> e \<in> {LLRPError, StructError, KeyError, TypeError}"
  by (auto simp: encode_header_def py_item_def res_simps pack1_def
      split: if_splits option.splits pyval.splits dest: struct_pack_error pack_vals_error)

section \<open>Accumulating parameters\<close>

text \<open>Under the names of repeatable parameters and of undecoded ones a dictionary holds lists.\<close>

definition lists_ok :: "string list \<Rightarrow> pydict \<Rightarrow> bool" where
  "lists_ok n_fields par \<longleftrightarrow> (\<forall>k \<in> insert DECODE_ERROR_PARNAME (set n_fields).
     case dict_get par k of None \<Rightarrow> True | Some v \<Rightarrow> (\<exists>l. v = PList l))"

lemma setdefault_append_ok:
  assumes "case dict_get par k of None \<Rightarrow> True | Some v \<Rightarrow> (\<exists>l. v = PList l)"
  obtains l where "setdefault_append par k val = Inr (dict_set par k (PList l))"
  using assms by (auto simp: setdefault_append_def split: option.splits)

lemma store_param_ok:
  assumes ok: "lists_ok n_fields par" and nm: "subname \<noteq> Some DECODE_ERROR_PARNAME"
  obtains par' where "store_param n_fields subname ret par = Inr par'" "lists_ok n_fields par'"
proof (cases "\<exists>nm. subname = Some nm \<and> nm \<notin> set n_fields")
  case True
  with ok nm have "lists_ok n_fields (dict_set par (the subname) ret)"
    by (auto simp: lists_ok_def dict_simps)
  with True show thesis by (intro that) (auto simp: store_param_def)
next
  case False
  define k where "k = (case subname of None \<Rightarrow> DECODE_ERROR_PARNAME | Some nm \<Rightarrow> nm)"
  have st: "store_param n_fields subname ret par = setdefault_append par k ret"
    using False by (auto simp: store_param_def k_def split: option.split)
  have "k \<in> insert DECODE_ERROR_PARNAME (set n_fields)"
    using False by (auto simp: k_def split: option.split)
  with ok obtain l where "setdefault_append par k ret = Inr (dict_set par k (PList l))"
    using setdefault_append_ok [of par k ret] by (auto simp: lists_ok_def)
  moreover have "lists_ok n_fields (dict_set par k (PList l))"
    using ok by (auto simp: lists_ok_def dict_simps)
  ultimately show thesis using st that by simp
qed

lemma dap_loop_error:
  assumes "\<And>d e. length d \<le> length data \<Longrightarrow> f d = Inl e \<Longrightarrow> P e" and "P LLRPError"
    and "\<And>d ret n. f d \<noteq> Inr (Some (Some DECODE_ERROR_PARNAME, ret, n))"
    and "lists_ok n_flds par" and "dap_loop f n_flds data par = Inl e"
  shows "P e"
  using assms
proof (induction f n_flds data par rule: dap_loop.induct)
  case (1 f n_flds data par)
  show ?case
  proof (cases "f data")
    case (Inl err)
    with "1.prems" show ?thesis
      by (subst (asm) dap_loop.simps [of f]) (auto split: if_splits)
  next
    case (Inr r)
    show ?thesis
    proof (cases r)
      case None
      with Inr "1.prems"(2,5) show ?thesis
        by (subst (asm) dap_loop.simps [of f]) (auto split: if_splits)
    next
      case (Some q)
      then obtain subname ret n where q: "r = Some (subname, ret, n)" by (cases q) auto
      with Inr "1.prems"(3) [of data] have "subname \<noteq> Some DECODE_ERROR_PARNAME" by auto
      with "1.prems"(4) obtain par' where
        st: "store_param n_flds subname ret par = Inr par'" "lists_ok n_flds par'"
        by (rule store_param_ok)
      have unf: "(if data = [] then Inr par else if n = 0 then Inr par'
          else dap_loop f n_flds (drop n data) par') = Inl e"
        using "1.prems"(5) Inr q st(1) by (subst (asm) dap_loop.simps [of f]) (simp cong: if_cong)
      then have loop: "data \<noteq> []" "n \<noteq> 0" "dap_loop f n_flds (drop n data) par' = Inl e"
        by (auto split: if_splits)
      have rest: "P e'" if "length d \<le> length (drop n data)" "f d = Inl e'" for d e'
        using "1.prems"(1) [of d e'] that by simp
      show ?thesis
        by (rule "1.IH" [of r "(subname, ret, n)" subname "(ret, n)" ret n par'])
          (use loop Inr q st "1.prems"(2,3) rest in auto)
    qed
  qed
qed

section \<open>What the codec relies on\<close>

text \<open>
  The key an entry is registered under.  The laws: registered functions recurse on smaller
  arguments only; the name found under a key is an entry with that key; and an entry with an
  encoder that is neither TV encoded nor the generic custom parameter is found under its key.
\<close>

definition info_key :: "pinfo \<Rightarrow> int \<times> int \<times> int" where
  "info_key p = (pi_type p,
     case pi_vendor p of None \<Rightarrow> 0 | Some v \<Rightarrow> v, case pi_subtype p of None \<Rightarrow> 0 | Some s \<Rightarrow> s)"

text \<open>The identity of a TLV entry fits the header it is framed with.\<close>

definition framed_info :: "pinfo \<Rightarrow> bool" where
  "framed_info p \<longleftrightarrow> \<not> pi_tv p \<and> 0 < pi_type p \<and> pi_type p < 1024 \<and>
     (if pi_type p = TYPE_CUSTOM
      then (case (pi_vendor p, pi_subtype p) of
              (Some v, Some s) \<Rightarrow> in_range U32 v \<and> in_range U32 s | _ \<Rightarrow> False)
      else pi_vendor p = None \<and> pi_subtype p = None)"

locale param_registry =
  fixes reg :: registry
  assumes decoder_local: "reg_struct reg n = Some e \<Longrightarrow> ps_decode e = Some d \<Longrightarrow> dec_local d"
    and encoder_local: "reg_struct reg n = Some e \<Longrightarrow> ps_encode e = Some c \<Longrightarrow> enc_local c"
    and name_struct: "reg_name reg k = Some n \<Longrightarrow> \<exists>e. reg_struct reg n = Some e \<and> info_key (ps_info e) = k"
    and framed_name: "reg_struct reg n = Some e \<Longrightarrow> n \<noteq> ''CustomParameter'' \<Longrightarrow> ps_encode e \<noteq> None \<Longrightarrow>
       \<not> pi_tv (ps_info e) \<Longrightarrow> framed_info (ps_info e) \<and> reg_name reg (info_key (ps_info e)) = Some n"
begin

text \<open>A stack deeper than the data is long is as good as any other.\<close>

lemma decode_stack_enough:
  "length data < stack \<Longrightarrow> length data < stack' \<Longrightarrow>
     decode_all_of reg stack data name par = decode_all_of reg stack' data name par"
proof (induction stack arbitrary: stack' data name par)
  case 0
  then show ?case by simp
next
  case (Suc k)
  then obtain j where k': "stack' = Suc j" by (cases stack') auto
  have "decode_param_with reg (decode_all_of reg k) d = decode_param_with reg (decode_all_of reg j) d"
    if "length d \<le> length data" for d
    using that Suc.prems k' by (intro decode_param_with_cong Suc.IH decoder_local) auto
  then show ?case
    by (auto simp: k' decode_all_of.simps intro!: bindE_cong dap_loop_cong)
qed

lemma decode_param_stack_enough:
  "length data \<le> stack \<Longrightarrow> length data \<le> stack' \<Longrightarrow>
     decode_param_of reg stack data = decode_param_of reg stack' data"
  unfolding decode_param_of_def
  by (intro decode_param_with_cong decoder_local decode_stack_enough) auto

lemma encode_fuel_enough:
  "pydepth par < k \<Longrightarrow> pydepth par < k' \<Longrightarrow> encode_fuel reg k name par = encode_fuel reg k' name par"
proof (induction k arbitrary: k' name par)
  case 0
  then show ?case by simp
next
  case (Suc k)
  then obtain j where k': "k' = Suc j" by (cases k') auto
  have "c (encode_fuel reg k) par info = c (encode_fuel reg j) par info"
    if "reg_struct reg name = Some e" "ps_encode e = Some c" for e c info
    using Suc.prems k' by (intro enc_localD [OF encoder_local [OF that]] Suc.IH) auto
  then show ?case
    by (auto simp: k' encode_fuel.simps encode_param_with_def intro!: bindE_cong split: option.split)
qed

text \<open>\<open>encode_param\<close> satisfies the equation of the source.\<close>

lemma encode_param_equation:
  "encode_param_of reg name par = encode_param_with reg (encode_param_of reg) name par"
proof -
  have "c (encode_fuel reg (pydepth par)) par info = c (encode_param_of reg) par info"
    if "reg_struct reg name = Some e" "ps_encode e = Some c" for e c info
    by (intro enc_localD [OF encoder_local [OF that]])
      (auto simp: encode_param_of_def intro!: encode_fuel_enough)
  then have "encode_param_with reg (encode_fuel reg (pydepth par)) name par =
      encode_param_with reg (encode_param_of reg) name par"
    by (auto simp: encode_param_with_def intro!: bindE_cong split: option.split)
  then show ?thesis
    by (subst encode_param_of_def) (simp add: encode_fuel.simps)
qed

lemma encode_header_roundtrip:
  assumes f: "framed_info info" and n: "name \<noteq> ''CustomParameter''"
    and h: "encode_header info name par len = Inr h"
  shows "param_header_decode (h @ rest) =
     Inr (Some (pi_type info), fst (snd (info_key info)), snd (snd (info_key info)), length h, length h + len)"
proof (cases "pi_type info = TYPE_CUSTOM")
  case False
  with f h have p: "struct_pack tlv_par_header_struct [pi_type info, int (4 + len)] = Inr h"
    by (simp add: encode_header_def framed_info_def)
  then have "4 + len < 65536"
    using struct_pack_args [OF p] by (simp add: tlv_par_header_struct_def in_range_unsigned)
  then obtain h' where "struct_pack tlv_par_header_struct [pi_type info, int (4 + len)] = Inr h'"
      "length h' = 4" "param_header_decode (h' @ rest) = Inr (Some (pi_type info), 0, 0, 4, 4 + len)"
    using tlv_header_roundtrip [of "pi_type info" len] f False by (auto simp: framed_info_def)
  with p f False show ?thesis by (auto simp: info_key_def framed_info_def)
next
  case True
  with f obtain v s where vs: "pi_vendor info = Some v" "pi_subtype info = Some s"
      "in_range U32 v" "in_range U32 s" "\<not> pi_tv info"
    by (auto simp: framed_info_def split: option.splits)
  with h n True have p: "struct_pack par_custom_header_struct [TYPE_CUSTOM, int (12 + len), v, s] = Inr h"
    using pack_vals_PInt [of par_custom_header_struct "[TYPE_CUSTOM, int (12 + len), v, s]"]
    by (simp add: encode_header_def)
  then have "12 + len < 65536"
    using struct_pack_args [OF p] by (simp add: par_custom_header_struct_def in_range_unsigned)
  then obtain h' where "struct_pack par_custom_header_struct [TYPE_CUSTOM, int (12 + len), v, s] = Inr h'"
      "length h' = 12" "param_header_decode (h' @ rest) = Inr (Some TYPE_CUSTOM, v, s, 12, 12 + len)"
    using custom_tlv_header_roundtrip [of len v s] vs by blast
  with p vs True show ?thesis by (auto simp: info_key_def)
qed

text \<open>
  What an encoder framed, \<open>decode_param\<close> hands to the decoder of the same name: exactly the
  encoded fields, whatever follows them in the stream.
\<close>

lemma decode_param_frame:
  assumes e: "reg_struct reg n = Some e" "n \<noteq> ''CustomParameter''" "ps_encode e = Some c"
      "\<not> pi_tv (ps_info e)"
    and bs: "encode_param_of reg n v = Inr bs"
  shows "\<exists>sub. c (encode_param_of reg) v (ps_info e) = Inr sub \<and> length sub < length bs \<and>
     decode_param_of reg stack (bs @ rest) =
       decode_outcome (pi_type (ps_info e)) (fst (snd (info_key (ps_info e))))
         (snd (snd (info_key (ps_info e)))) n sub (length bs) (call_decoder reg (decode_all_of reg stack) n sub)"
proof -
  let ?i = "ps_info e"
  have f: "framed_info ?i" and nm: "reg_name reg (info_key ?i) = Some n"
    using framed_name e by auto
  from bs e obtain sub h where sub: "c (encode_param_of reg) v ?i = Inr sub"
      and h: "encode_header ?i n v (length sub) = Inr h" and b: "bs = h @ sub"
    unfolding encode_param_equation [of n v] by (auto simp: encode_param_with_def res_simps)
  have hd: "param_header_decode (bs @ rest) = Inr (Some (pi_type ?i), fst (snd (info_key ?i)),
      snd (snd (info_key ?i)), length h, length h + length sub)"
    using encode_header_roundtrip [OF f e(2) h, of "sub @ rest"] b by simp
  then have "1 \<le> length h" by (rule param_header_decode_bounds [THEN conjunct2, THEN conjunct1])
  moreover have "\<not> falsy_type (Some (pi_type ?i))"
    using f by (auto simp: falsy_type_def framed_info_def)
  moreover have "(pi_type ?i, fst (snd (info_key ?i)), snd (snd (info_key ?i))) = info_key ?i"
    by (simp add: info_key_def)
  ultimately show ?thesis
    using sub hd nm b by (auto simp: decode_param_of_def decode_param_with_def Let_def)
qed

end

text \<open>
  A registry whose decoders are safe and whose repeatable names are reserved.
\<close>

locale safe_registry = param_registry +
  assumes decoder_safe: "reg_struct reg n = Some e \<Longrightarrow> ps_decode e = Some d \<Longrightarrow> dec_safe d"
    and n_fields_reserved: "reg_struct reg n = Some e \<Longrightarrow> set (pi_n_fields (ps_info e)) \<subseteq> reserved_keys"
    and error_name: "reg_name reg k \<noteq> Some DECODE_ERROR_PARNAME"
begin

lemma decode_outcome_error:
  "tame deep c \<Longrightarrow> decode_outcome t v s nm pd fl c = Inl e \<Longrightarrow> e = LLRPError \<or> deep \<and> e = RecursionError"
  by (cases c) (auto simp: decode_outcome_def split: if_splits)

lemma decode_param_with_error:
  assumes tame: "\<And>data' n p. length data' < length data \<Longrightarrow> no_reserved p \<Longrightarrow> tame deep (r data' n p)"
    and err: "decode_param_with reg r data = Inl e"
  shows "e = LLRPError \<or> deep \<and> e = RecursionError"
proof (cases "param_header_decode data")
  case (Inl e')
  with err show ?thesis
    using param_header_decode_error by (auto simp: decode_param_with_def)
next
  case (Inr h)
  obtain partype v s hl fl where h: "h = (partype, v, s, hl, fl)" by (cases h)
  show ?thesis
  proof (cases "falsy_type partype \<or> fl < hl \<or> length data < fl")
    case True
    with Inr h err show ?thesis by (auto simp: decode_param_with_def split: if_splits)
  next
    case False
    then obtain t where t: "partype = Some t" by (auto simp: falsy_type_def)
    let ?pd = "take (fl - hl) (drop hl data)"
    have "1 \<le> hl" "hl \<le> length data"
      using param_header_decode_bounds [of data t v s hl fl] Inr h t by auto
    then have shorter: "length ?pd < length data" using False by auto
    have "tame deep (d r ?pd nm)" if "reg_struct reg nm = Some e" "ps_decode e = Some d" for d e nm
      by (rule dec_safeD [OF decoder_safe [OF that]]) (rule tame, use shorter in auto)
    then have "tame deep (call_decoder reg r nm ?pd)" for nm
      by (auto simp: call_decoder_def split: option.split)
    then have "decode_outcome t v s nm ?pd fl (call_decoder reg r nm ?pd) = Inl e \<Longrightarrow>
        e = LLRPError \<or> deep \<and> e = RecursionError" for nm
      by (rule decode_outcome_error)
    with err Inr h t False show ?thesis
      by (auto simp: decode_param_with_def Let_def split: option.splits)
  qed
qed

lemma decode_param_with_name:
  "decode_param_with reg r data \<noteq> Inr (Some (Some DECODE_ERROR_PARNAME, ret, n))"
  using error_name
  by (auto simp: decode_param_with_def decode_outcome_def Let_def
      split: sum.splits prod.splits if_splits option.splits)

lemma registry_lists_ok:
  assumes "n_fields_of reg name = Inr ns" "no_reserved par"
  shows "lists_ok ns par"
proof -
  have "set ns \<subseteq> reserved_keys"
    using assms(1) n_fields_reserved by (auto simp: n_fields_of_def split: if_splits option.splits)
  moreover have "dict_get par k = None" if "k \<in> reserved_keys" for k
    using assms(2) that by (auto simp: no_reserved_def map_of_eq_None_iff)
  moreover have "DECODE_ERROR_PARNAME \<in> reserved_keys" by (simp add: reserved_keys_def)
  ultimately show ?thesis by (auto simp: lists_ok_def)
qed

text \<open>
  Decoding raises \<open>LLRPError\<close>, or \<open>RecursionError\<close> where the stack is not deeper than the data is
  long; an unregistered name raises \<open>KeyError\<close>.
\<close>

lemma decode_all_error:
  "no_reserved par \<Longrightarrow> decode_all_of reg stack data name par = Inl e \<Longrightarrow>
     e = LLRPError \<or> stack \<le> length data \<and> e = RecursionError \<or>
     e = KeyError \<and> name \<noteq> '''' \<and> reg_struct reg name = None"
proof (induction stack arbitrary: data name par e)
  case 0
  then show ?case by (simp add: decode_all_of.simps)
next
  case (Suc stack)
  let ?deep = "Suc stack \<le> length data"
  show ?case
  proof (cases "n_fields_of reg name")
    case (Inl e')
    with Suc.prems show ?thesis
      by (auto simp: decode_all_of.simps n_fields_of_def split: if_splits option.splits)
  next
    case (Inr ns)
    have tame: "tame ?deep (decode_all_of reg stack data' n p)"
      if "length data' < length data" "no_reserved p" for data' n p
      using Suc.IH [OF that(2), of data' n] that(1) by (auto simp: tame_def split: sum.split)
    have err: "e' = LLRPError \<or> ?deep \<and> e' = RecursionError"
      if "length d \<le> length data" "decode_param_with reg (decode_all_of reg stack) d = Inl e'" for d e'
      by (rule decode_param_with_error [OF tame that(2)]) (use that(1) in linarith, assumption)
    have loop: "dap_loop (decode_param_with reg (decode_all_of reg stack)) ns data par = Inl e"
      using Suc.prems(2) Inr by (simp add: decode_all_of.simps)
    have "e = LLRPError \<or> ?deep \<and> e = RecursionError"
      by (rule dap_loop_error [where P = "\<lambda>e. e = LLRPError \<or> ?deep \<and> e = RecursionError",
          OF err _ decode_param_with_name registry_lists_ok [OF Inr Suc.prems(1)] loop]) simp_all
    then show ?thesis by blast
  qed
qed

lemma decode_param_error:
  assumes "decode_param_of reg stack data = Inl e"
  shows "e = LLRPError \<or> stack < length data \<and> e = RecursionError"
proof (rule decode_param_with_error)
  show "decode_param_with reg (decode_all_of reg stack) data = Inl e"
    using assms by (simp add: decode_param_of_def)
  show "tame (stack < length data) (decode_all_of reg stack data' n p)"
    if "length data' < length data" "no_reserved p" for data' n p
    using decode_all_error [OF that(2), of stack data' n] that(1) by (auto simp: tame_def split: sum.split)
qed

text \<open>The same for a loop whose repeatable fields and initial dictionary are given, as for a message.\<close>

lemma dap_loop_registry_error:
  assumes "lists_ok n_flds par" "dap_loop (decode_param_of reg stack) n_flds data par = Inl e"
  shows "e = LLRPError \<or> stack < length data \<and> e = RecursionError"
proof (rule dap_loop_error [where P = "\<lambda>e. e = LLRPError \<or> stack < length data \<and> e = RecursionError",
    OF _ _ _ assms])
  show "e = LLRPError \<or> stack < length data \<and> e = RecursionError"
    if "length d \<le> length data" "decode_param_of reg stack d = Inl e" for d e
    using decode_param_error [OF that(2)] that(1) by linarith
  show "decode_param_of reg stack d \<noteq> Inr (Some (Some DECODE_ERROR_PARNAME, ret, n))" for d ret n
    unfolding decode_param_of_def by (rule decode_param_with_name)
qed simp

end

end
