(* ===== verification/Proto_Registry.thy ===== *)
theory Proto_Registry
  imports Proto_Moto Codec_Loop
begin

unbundle bit_operations_syntax

text \<open>
  The parameter registry as the client uses it: the automatic TV entries, the entries of
  \<^verbatim>\<open>sllurp/llrp_proto.py\<close> in source order, its post-processing, and the corrections that
  \<^verbatim>\<open>sllurp/_protocol_fixes.py\<close> applies on import.  The interpretation at the end discharges
  the laws of locale \<open>param_registry\<close> for it.
\<close>

section \<open>The registry of \<^verbatim>\<open>llrp_proto.py\<close>\<close>

type_synonym type_key = "int \<times> int \<times> int"

definition tve_struct :: "int \<Rightarrow> tv_format \<Rightarrow> pstruct" where
  "tve_struct p_type f = \<lparr>ps_info = tv_info p_type [], ps_encode = None,
     ps_decode = Some (local_decode f)\<rparr>"

definition tve_entries :: "(string \<times> pstruct) list" where
  "tve_entries = map (\<lambda>(p_type, p_name, f). (p_name, tve_struct p_type f)) TVE_PARAM_FORMATS"

text \<open>All assignments to \<open>Param_struct\<close>, in source order; later ones replace earlier ones in place.\<close>

definition Param_assignments :: "(type_key \<Rightarrow> string option) \<Rightarrow> (string \<times> pstruct) list" where
  "Param_assignments type2name_opt =
     tve_entries @ Params_Capabilities @ Params_Access @ Params_ROSpec @ Params_Config @
      Params_Report @ Params_Events type2name_opt @ Params_Impinj @ Params_Moto"

definition Param_struct_assigned :: "(type_key \<Rightarrow> string option) \<Rightarrow> (string \<times> pstruct) list" where
  "Param_struct_assigned type2name_opt = dict_update [] (Param_assignments type2name_opt)"

text \<open>
  The post-processing loop: a custom entry without vendor or subtype is skipped, unless it is
  the generic custom one; every other entry is completed and entered in the reverse table.
\<close>

definition postprocessed :: "string \<Rightarrow> pinfo \<Rightarrow> bool" where
  "postprocessed name p \<longleftrightarrow> \<not> (pi_type p = TYPE_CUSTOM \<and>
     (pi_vendor p \<in> {None, Some 0} \<or> pi_subtype p \<in> {None, Some 0}) \<and>
     name \<notin> {''CUSTOM_MESSAGE'', ''CustomParameter''})"

definition postprocess :: "(string \<times> pstruct) list \<Rightarrow> (string \<times> pstruct) list" where
  "postprocess = map (\<lambda>(name, e). (name,
     if postprocessed name (ps_info e) then e\<lparr>ps_info := finish_info (ps_info e)\<rparr> else e))"

definition type2name_table :: "(string \<times> pinfo) list \<Rightarrow> (type_key \<times> string) list" where
  "type2name_table infos = fold (\<lambda>(name, p) acc.
     if postprocessed name p then dict_set acc (info_key p) name else acc) infos []"

section \<open>The corrections of \<^verbatim>\<open>_protocol_fixes.py\<close>\<close>

definition fixed_decode_aispec_event :: decoder where
  "fixed_decode_aispec_event decode_all data name =
    (if length data < 7 then Inl LLRPError
     else bindE (ubyte_uint_ushort_unpack (take 7 data)) (\<lambda>(event_type, rospec_id, spec_index).
       if event_type \<noteq> 0 then Inl LLRPError
       else let par = [(''ROSpecID'', PInt rospec_id), (''SpecIndex'', PInt spec_index),
                       (''EventType'', PStr ''End_of_AISpec'')];
                trailing = drop 7 data;
                rest = bindE (decode_all trailing name par) (\<lambda>par. Inr (PDict par)) in
         if trailing = [] then Inr (PDict par)
         else if length trailing = 4
         then bindE (ushort_ushort_unpack trailing) (\<lambda>(collisions, empty).
              Inr (PDict (dict_set par ''C1G2SingulationDetails''
                (PDict [(''NumCollisionSlots'', PInt collisions), (''NumEmptySlots'', PInt empty)]))))
         else if length trailing = 6
         then bindE (ushort_ushort_ushort_unpack trailing) (\<lambda>(legacy_type, collisions, empty).
              if legacy_type = pi_type (ps_info Param_C1G2SingulationDetails)
              then Inr (PDict (dict_set par ''C1G2SingulationDetails''
                (PDict [(''NumCollisionSlots'', PInt collisions), (''NumEmptySlots'', PInt empty)])))
              else rest)
         else rest))"

definition decode_nmea_sentence :: "string \<Rightarrow> dec_all \<Rightarrow> bytes \<Rightarrow> string \<Rightarrow> pyval res" where
  "decode_nmea_sentence field_name decode_all data parameter_name =
    (if length data < 2 then Inl LLRPError
     else bindE (ushort_unpack (take 2 data)) (\<lambda>byte_count.
       let body = drop 2 data in
       if length body < nat byte_count then Inl LLRPError
       else let par = [(field_name, PBytes (take (nat byte_count) body))];
                trailing = drop (nat byte_count) body in
         if trailing \<noteq> [] then bindE (decode_all trailing parameter_name par) (\<lambda>par. Inr (PDict par))
         else Inr (PDict par)))"

definition decode_impinj_gga :: decoder where
  "decode_impinj_gga decode_all data name =
     decode_nmea_sentence ''GGASentence'' decode_all data (if name = '''' then ''ImpinjGGASentence'' else name)"

definition decode_impinj_rmc :: decoder where
  "decode_impinj_rmc decode_all data name =
     decode_nmea_sentence ''RMCSentence'' decode_all data (if name = '''' then ''ImpinjRMCSentence'' else name)"

definition update_entry :: "string \<Rightarrow> (pstruct \<Rightarrow> pstruct) \<Rightarrow> (string \<times> pstruct) list \<Rightarrow> (string \<times> pstruct) list" where
  "update_entry name f = map (\<lambda>(n, e). (n, if n = name then f e else e))"

definition apply_fixes :: "(string \<times> pstruct) list \<Rightarrow> (string \<times> pstruct) list" where
  "apply_fixes = update_entry ''GPITriggerValue''
        (\<lambda>e. e\<lparr>ps_info := (ps_info e)\<lparr>pi_type := 181\<rparr>\<rparr>)
     \<circ> update_entry ''AISpecEvent'' (\<lambda>e. e\<lparr>ps_decode := Some fixed_decode_aispec_event\<rparr>)
     \<circ> update_entry ''ImpinjGGASentence'' (\<lambda>e. e\<lparr>ps_decode := Some decode_impinj_gga\<rparr>)
     \<circ> update_entry ''ImpinjRMCSentence'' (\<lambda>e. e\<lparr>ps_decode := Some decode_impinj_rmc\<rparr>)
     \<circ> update_entry ''RegulatoryCapabilities'' (\<lambda>e. e\<lparr>ps_encode := Some
          (basic_auto_param_encode_generator [U16, U16] [''CountryCode'', ''CommunicationsStandard''])\<rparr>)
     \<circ> update_entry ''MotoFilterTagList'' (\<lambda>e. e\<lparr>ps_decode := Some decode_MotoFilterTagList\<rparr>)"

definition fixed_type2name :: "(type_key \<times> string) list \<Rightarrow> (type_key \<times> string) list" where
  "fixed_type2name t =
     dict_set (dict_set t (180, 0, 0) ''PeriodicTriggerValue'') (181, 0, 0) ''GPITriggerValue''"

section \<open>The registry in use\<close>

text \<open>The reverse table does not depend on the functions of the entries, which may look names up in it.\<close>

definition Param_Type2Name :: "(type_key \<times> string) list" where
  "Param_Type2Name = fixed_type2name
     (type2name_table (map (\<lambda>(n, e). (n, ps_info e)) (Param_struct_assigned (\<lambda>_. None))))"

definition Param_struct :: "(string \<times> pstruct) list" where
  "Param_struct = apply_fixes (postprocess (Param_struct_assigned (map_of Param_Type2Name)))"

definition llrp_registry :: registry where
  "llrp_registry = \<lparr>reg_struct = map_of Param_struct, reg_name = map_of Param_Type2Name\<rparr>"

definition decode_all_parameters :: "nat \<Rightarrow> dec_all" where
  "decode_all_parameters stack = decode_all_of llrp_registry stack"

definition decode_param :: "nat \<Rightarrow> bytes \<Rightarrow> param_result res" where
  "decode_param stack = decode_param_of llrp_registry stack"

definition encode_param :: enc_param where
  "encode_param = encode_param_of llrp_registry"

section \<open>Facts about the assignments\<close>

text \<open>Every assignment with the key it is registered under, in source order.\<close>

definition keys_TV :: "(type_key \<times> string) list" where
  "keys_TV = [
    ((1, 0, 0), ''AntennaID''), ((2, 0, 0), ''FirstSeenTimestampUTC''),
    ((3, 0, 0), ''FirstSeenTimestampUptime''), ((4, 0, 0), ''LastSeenTimestampUTC''),
    ((5, 0, 0), ''LastSeenTimestampUptime''), ((6, 0, 0), ''PeakRSSI''),
    ((7, 0, 0), ''ChannelIndex''), ((8, 0, 0), ''TagSeenCount''), ((9, 0, 0), ''ROSpecID''),
    ((10, 0, 0), ''InventoryParameterSpecID''), ((11, 0, 0), ''C1G2CRC''),
    ((12, 0, 0), ''C1G2PC''), ((13, 0, 0), ''EPC-96''), ((14, 0, 0), ''SpecIndex''),
    ((15, 0, 0), ''ClientRequestOpSpecResult''), ((16, 0, 0), ''AccessSpecID''),
    ((17, 0, 0), ''OpSpecID''), ((18, 0, 0), ''C1G2SingulationDetails''),
    ((19, 0, 0), ''C1G2XPCW1''), ((20, 0, 0), ''C1G2XPCW2'')]"

definition keys_Capabilities :: "(type_key \<times> string) list" where
  "keys_Capabilities = [
    ((128, 0, 0), ''UTCTimestamp''), ((129, 0, 0), ''Uptime''),
    ((143, 0, 0), ''RegulatoryCapabilities''), ((144, 0, 0), ''UHFBandCapabilities''),
    ((145, 0, 0), ''TransmitPowerLevelTableEntry''), ((146, 0, 0), ''FrequencyInformation''),
    ((147, 0, 0), ''FrequencyHopTable''), ((148, 0, 0), ''FixedFrequencyTable''),
    ((327, 0, 0), ''C1G2LLRPCapabilities''), ((328, 0, 0), ''UHFC1G2RFModeTable''),
    ((329, 0, 0), ''UHFC1G2RFModeTableEntry''),
    ((365, 0, 0), ''RFSurveyFrequencyCapabilities''), ((142, 0, 0), ''LLRPCapabilities''),
    ((137, 0, 0), ''GeneralDeviceCapabilities''), ((363, 0, 0), ''MaximumReceiveSensitivity''),
    ((139, 0, 0), ''ReceiveSensitivityTableEntry''),
    ((149, 0, 0), ''PerAntennaReceiveSensitivityRange''),
    ((140, 0, 0), ''PerAntennaAirProtocol''), ((141, 0, 0), ''GPIOCapabilities'')]"

definition keys_Access :: "(type_key \<times> string) list" where
  "keys_Access = [
    ((177, 0, 0), ''ROSpec''), ((207, 0, 0), ''AccessSpec''),
    ((208, 0, 0), ''AccessSpecStopTrigger''), ((209, 0, 0), ''AccessCommand''),
    ((338, 0, 0), ''C1G2TagSpec''), ((339, 0, 0), ''C1G2TargetTag''),
    ((341, 0, 0), ''C1G2Read''), ((342, 0, 0), ''C1G2Write''), ((344, 0, 0), ''C1G2Lock''),
    ((345, 0, 0), ''C1G2LockPayload''), ((347, 0, 0), ''C1G2BlockWrite''),
    ((239, 0, 0), ''AccessReportSpec'')]"

definition keys_ROSpec :: "(type_key \<times> string) list" where
  "keys_ROSpec = [
    ((178, 0, 0), ''ROBoundarySpec''), ((179, 0, 0), ''ROSpecStartTrigger''),
    ((180, 0, 0), ''PeriodicTriggerValue''), ((181, 0, 0), ''GPITriggerValue''),
    ((182, 0, 0), ''ROSpecStopTrigger''), ((183, 0, 0), ''AISpec''),
    ((184, 0, 0), ''AISpecStopTrigger''), ((185, 0, 0), ''TagObservationTrigger''),
    ((186, 0, 0), ''InventoryParameterSpec'')]"

definition keys_Config :: "(type_key \<times> string) list" where
  "keys_Config = [
    ((217, 0, 0), ''LLRPConfigurationStateValue''), ((218, 0, 0), ''Identification''),
    ((219, 0, 0), ''GPOWriteData''), ((220, 0, 0), ''KeepaliveSpec''),
    ((221, 0, 0), ''AntennaProperties''), ((222, 0, 0), ''AntennaConfiguration''),
    ((223, 0, 0), ''RFReceiver''), ((224, 0, 0), ''RFTransmitter''),
    ((225, 0, 0), ''GPIPortCurrentState''), ((226, 0, 0), ''EventsAndReports''),
    ((330, 0, 0), ''C1G2InventoryCommand''), ((331, 0, 0), ''C1G2Filter''),
    ((332, 0, 0), ''C1G2TagInventoryMask''), ((335, 0, 0), ''C1G2RFControl''),
    ((336, 0, 0), ''C1G2SingulationControl''),
    ((337, 0, 0), ''C1G2TagInventoryStateAwareSingulationAction''),
    ((237, 0, 0), ''ROReportSpec''), ((244, 0, 0), ''ReaderEventNotificationSpec''),
    ((245, 0, 0), ''EventNotificationState''), ((238, 0, 0), ''TagReportContentSelector''),
    ((348, 0, 0), ''C1G2EPCMemorySelector'')]"

definition keys_Report :: "(type_key \<times> string) list" where
  "keys_Report = [
    ((240, 0, 0), ''TagReportData''), ((349, 0, 0), ''C1G2ReadOpSpecResult''),
    ((350, 0, 0), ''C1G2WriteOpSpecResult''), ((351, 0, 0), ''C1G2KillOpSpecResult''),
    ((360, 0, 0), ''C1G2RecommissionOpSpecResult''), ((352, 0, 0), ''C1G2LockOpSpecResult''),
    ((353, 0, 0), ''C1G2BlockEraseOpSpecResult''),
    ((354, 0, 0), ''C1G2BlockWriteOpSpecResult''),
    ((361, 0, 0), ''C1G2BlockPermalockOpSpecResult''),
    ((362, 0, 0), ''C1G2GetBlockPermalockStatusOpSpecResult''), ((241, 0, 0), ''EPC''),
    ((13, 0, 0), ''EPC-96''), ((18, 0, 0), ''C1G2SingulationDetails'')]"

definition keys_Events :: "(type_key \<times> string) list" where
  "keys_Events = [
    ((247, 0, 0), ''HoppingEvent''), ((248, 0, 0), ''GPIEvent''),
    ((249, 0, 0), ''ROSpecEvent''), ((250, 0, 0), ''ReportBufferLevelWarning''),
    ((251, 0, 0), ''ReportBufferOverflowErrorEvent''), ((252, 0, 0), ''ReaderExceptionEvent''),
    ((253, 0, 0), ''RFSurveyEvent''), ((254, 0, 0), ''AISpecEvent''),
    ((255, 0, 0), ''AntennaEvent''), ((256, 0, 0), ''ConnectionAttemptEvent''),
    ((257, 0, 0), ''ConnectionCloseEvent''), ((356, 0, 0), ''SpecLoopEvent''),
    ((246, 0, 0), ''ReaderEventNotificationData''), ((287, 0, 0), ''LLRPStatus''),
    ((288, 0, 0), ''FieldError''), ((289, 0, 0), ''ParameterError''),
    ((1023, 0, 0), ''CustomParameter'')]"

definition keys_Impinj :: "(type_key \<times> string) list" where
  "keys_Impinj = [
    ((1023, 25882, 21), ''ImpinjRequestedData''),
    ((1023, 25882, 22), ''ImpinjSubRegulatoryRegion''),
    ((1023, 25882, 23), ''ImpinjInventorySearchMode''),
    ((1023, 25882, 26), ''ImpinjFixedFrequencyList''),
    ((1023, 25882, 27), ''ImpinjReducedPowerFrequencyList''),
    ((1023, 25882, 28), ''ImpinjLowDutyCycle''),
    ((1023, 25882, 29), ''ImpinjDetailedVersion''),
    ((1023, 25882, 30), ''ImpinjFrequencyCapabilities''),
    ((1023, 25882, 36), ''ImpinjGPIDebounceConfiguration''),
    ((1023, 25882, 37), ''ImpinjReaderTemperature''),
    ((1023, 25882, 38), ''ImpinjLinkMonitorConfiguration''),
    ((1023, 25882, 39), ''ImpinjReportBufferConfiguration''),
    ((1023, 25882, 40), ''ImpinjAccessSpecConfiguration''),
    ((1023, 25882, 41), ''ImpinjBlockWriteWordCount''),
    ((1023, 25882, 50), ''ImpinjTagReportContentSelector''),
    ((1023, 25882, 51), ''ImpinjEnableSerializedTID''),
    ((1023, 25882, 52), ''ImpinjEnableRFPhaseAngle''),
    ((1023, 25882, 53), ''ImpinjEnablePeakRSSI''),
    ((1023, 25882, 54), ''ImpinjEnableGPSCoordinates''),
    ((1023, 25882, 55), ''ImpinjSerializedTID''), ((1023, 25882, 56), ''ImpinjRFPhaseAngle''),
    ((1023, 25882, 57), ''ImpinjPeakRSSI''), ((1023, 25882, 58), ''ImpinjGPSCoordinates''),
    ((1023, 25882, 60), ''ImpinjGPSNMEASentences''),
    ((1023, 25882, 61), ''ImpinjGGASentence''), ((1023, 25882, 62), ''ImpinjRMCSentence''),
    ((1023, 25882, 63), ''ImpinjOpSpecRetryCount''),
    ((1023, 25882, 64), ''ImpinjAdvancedGPOConfiguration''),
    ((1023, 25882, 65), ''ImpinjEnableOptimizedRead''),
    ((1023, 25882, 66), ''ImpinjAccessSpecOrdering''),
    ((1023, 25882, 67), ''ImpinjEnableRFDopplerFrequency''),
    ((1023, 25882, 68), ''ImpinjRFDopplerFrequency''),
    ((1023, 25882, 69), ''ImpinjInventoryConfiguration''),
    ((1023, 25882, 72), ''ImpinjEnableTxPower''), ((1023, 25882, 73), ''ImpinjTxPower''),
    ((1023, 25882, 1520), ''ImpinjArrayVersion''),
    ((1023, 25882, 1524), ''ImpinjAntennaConfiguration''),
    ((1023, 25882, 1526), ''ImpinjAntennaEventHysteresis''),
    ((1023, 25882, 1537), ''ImpinjHubVersions''),
    ((1023, 25882, 1538), ''ImpinjHubConfiguration''),
    ((1023, 25882, 1554), ''ImpinjIntelligentAntennaManagement''),
    ((1023, 25882, 1566), ''ImpinjTIDParity''),
    ((1023, 25882, 1576), ''ImpinjAntennaEventConfiguration''),
    ((1023, 25882, 1577), ''ImpinjAntennaAttemptEvent''),
    ((1023, 25882, 1580), ''ImpinjBLEVersion''), ((1023, 25882, 1582), ''ImpinjRFPowerSweep'')]"

definition keys_Moto :: "(type_key \<times> string) list" where
  "keys_Moto = [
    ((1023, 161, 1), ''MotoGeneralCapabilities''),
    ((1023, 161, 100), ''MotoAutonomousCapabilities''),
    ((1023, 161, 101), ''MotoAutonomousState''), ((1023, 161, 102), ''MotoDefaultSpec''),
    ((1023, 161, 120), ''MotoTagEventsGenerationCapabilities''),
    ((1023, 161, 121), ''MotoTagEventSelector''), ((1023, 161, 122), ''MotoTagReportMode''),
    ((1023, 161, 708), ''MotoTagReportContentSelector''), ((1023, 161, 709), ''MotoTagPhase''),
    ((1023, 161, 200), ''MotoFilterCapabilities''), ((1023, 161, 250), ''MotoUTCTimestamp''),
    ((1023, 161, 251), ''MotoFilterTimeOfDay''), ((1023, 161, 252), ''MotoFilterTimeRange''),
    ((1023, 161, 253), ''MotoFilterRSSIRange''), ((1023, 161, 254), ''MotoFilterRule''),
    ((1023, 161, 255), ''MotoFilterList''), ((1023, 161, 258), ''MotoFilterTagList''),
    ((1023, 161, 300), ''MotoPersistenceCapabilities''),
    ((1023, 161, 350), ''MotoPersistenceSaveParams''),
    ((1023, 161, 400), ''MotoC1G2LLRPCapabilities''),
    ((1023, 161, 466), ''MotoCustomCommandOptions'')]"

definition assigned_keys :: "(type_key \<times> string) list" where
  "assigned_keys = keys_TV @ keys_Capabilities @ keys_Access @ keys_ROSpec @ keys_Config @
     keys_Report @ keys_Events @ keys_Impinj @ keys_Moto"

lemmas assigned_keys_defs = assigned_keys_def keys_TV_def keys_Capabilities_def keys_Access_def keys_ROSpec_def keys_Config_def keys_Report_def keys_Events_def keys_Impinj_def keys_Moto_def

lemmas raw_defs = Param_assignments_def tve_entries_def TVE_PARAM_FORMATS_def tve_struct_def
  Params_Capabilities_entries Params_Access_entries Params_ROSpec_entries Params_Config_entries
  Params_Report_entries Params_Events_entries Params_Impinj_entries Params_Moto_entries
  tlv_info_def custom_info_def tv_info_def VENDOR_ID_IMPINJ_def VENDOR_ID_MOTOROLA_def
  TYPE_CUSTOM_def TagReportContentSelector_info_def MotoTagReportContentSelector_info_def

lemma assigned_local:
  "list_all (\<lambda>(n, e). (case ps_decode e of None \<Rightarrow> True | Some d \<Rightarrow> dec_local d) \<and>
     (case ps_encode e of None \<Rightarrow> True | Some c \<Rightarrow> enc_local c)) (Param_assignments tn)"
  by (simp add: raw_defs dec_local enc_local)

lemma assigned_framed:
  "list_all (\<lambda>(n, e). n = ''CustomParameter'' \<or> pi_tv (ps_info e) \<or> framed_info (ps_info e))
     (Param_assignments tn)"
  by (simp add: raw_defs framed_info_def in_range_unsigned)

lemma assigned_postprocessed:
  "list_all (\<lambda>(n, e). postprocessed n (ps_info e)) (Param_assignments tn)"
  by (simp add: raw_defs postprocessed_def)

lemma assigned_keys_eq:
  "map (\<lambda>(n, e). (info_key (ps_info e), n)) (Param_assignments tn) = assigned_keys"
  by (simp add: raw_defs info_key_def assigned_keys_defs)

lemma assigned_infos:
  "map (\<lambda>(n, e). (n, ps_info e)) (Param_assignments tn) =
     map (\<lambda>(n, e). (n, ps_info e)) (Param_assignments tn')"
  by (simp add: raw_defs)

text \<open>
  Two automatic TV entries are assigned again under their own name; apart from them no key is
  used twice, so a key belongs to one name only.
\<close>

definition reassigned_key :: "type_key \<Rightarrow> bool" where
  "reassigned_key k \<longleftrightarrow> k = (13, 0, 0) \<or> k = (18, 0, 0)"

lemma other_keys_distinct: "distinct (map fst (filter (\<lambda>(k, n). \<not> reassigned_key k) assigned_keys))"
  by (simp add: assigned_keys_defs reassigned_key_def)

lemma reassigned_keys:
  "list_all (\<lambda>(k, n). reassigned_key k \<longrightarrow> n = (if k = (13, 0, 0) then ''EPC-96'' else ''C1G2SingulationDetails''))
     assigned_keys"
  by (simp add: assigned_keys_defs reassigned_key_def)

lemma assigned_key_name:
  assumes "(k, n) \<in> set assigned_keys" "(k, n') \<in> set assigned_keys"
  shows "n = n'"
proof (cases "reassigned_key k")
  case True
  have "m = (if k = (13, 0, 0) then ''EPC-96'' else ''C1G2SingulationDetails'')"
    if "(k, m) \<in> set assigned_keys" for m
    using bspec [OF reassigned_keys [unfolded list_all_iff] that] True by simp
  with assms show ?thesis by blast
next
  case False
  with assms have "(k, n) \<in> set (filter (\<lambda>(k, n). \<not> reassigned_key k) assigned_keys)"
    "(k, n') \<in> set (filter (\<lambda>(k, n). \<not> reassigned_key k) assigned_keys)" by auto
  with other_keys_distinct show ?thesis by (meson eq_key_imp_eq_value)
qed

section \<open>Lookups in the registry\<close>

lemma distinct_assigned: "distinct (map fst (Param_struct_assigned tn))"
  by (simp add: Param_struct_assigned_def distinct_dict_update)

lemma assigned_subset: "set (Param_struct_assigned tn) \<subseteq> set (Param_assignments tn)"
  using set_dict_update_subset [of "[]" "Param_assignments tn"] by (simp add: Param_struct_assigned_def)

lemma assigned_names: "n \<in> fst ` set (Param_assignments tn) \<Longrightarrow> n \<in> fst ` set (Param_struct_assigned tn)"
  by (simp add: Param_struct_assigned_def dom_dict_update)

lemma type2name_table_sound:
  "map_of (fold (\<lambda>(name, p) acc. if postprocessed name p then dict_set acc (info_key p) name else acc)
      infos acc) k = Some n \<Longrightarrow>
     map_of acc k = Some n \<or> (\<exists>p. (n, p) \<in> set infos \<and> info_key p = k)"
proof (induction infos arbitrary: acc)
  case Nil
  then show ?case by simp
next
  case (Cons a infos)
  then show ?case
    by (cases a) (auto simp: dict_simps split: if_splits dest!: Cons.IH)
qed

lemma type2name_table_complete:
  "(n, p) \<in> set infos \<or> info_key p \<in> dom (map_of acc) \<Longrightarrow> \<forall>(n, p) \<in> set infos. postprocessed n p \<Longrightarrow>
     info_key p \<in> dom (map_of (fold (\<lambda>(name, p) acc.
        if postprocessed name p then dict_set acc (info_key p) name else acc) infos acc))"
proof (induction infos arbitrary: acc)
  case Nil
  then show ?case by simp
next
  case (Cons a infos)
  have "(n, p) \<in> set infos \<or> info_key p \<in> dom (map_of (dict_set acc (info_key (snd a)) (fst a)))"
    using Cons.prems(1) by (cases a) (auto simp: dict_simps)
  from Cons.IH [OF this] Cons.prems(2) show ?case by (cases a) simp
qed

abbreviation "infos_of \<equiv> map (\<lambda>(n, e). (n, ps_info e))"

lemma infos_assigned: "infos_of (Param_struct_assigned tn) = infos_of (Param_struct_assigned tn')"
  using assigned_infos [of tn tn'] by (simp add: Param_struct_assigned_def map_dict_update)

lemma type2name_sound:
  assumes "map_of (type2name_table (infos_of (Param_struct_assigned tn))) k = Some n"
  shows "\<exists>e. (n, e) \<in> set (Param_struct_assigned tn) \<and> info_key (ps_info e) = k"
  using type2name_table_sound [of "infos_of (Param_struct_assigned tn)" "[]" k n] assms
  by (auto simp: type2name_table_def)

lemma assigned_key_in:
  "(n, e) \<in> set (Param_struct_assigned tn) \<Longrightarrow> (info_key (ps_info e), n) \<in> set assigned_keys"
  using assigned_subset [of tn] by (force simp flip: assigned_keys_eq [of tn])

lemma type2name_complete:
  assumes "(n, e) \<in> set (Param_struct_assigned tn)"
  shows "map_of (type2name_table (infos_of (Param_struct_assigned tn))) (info_key (ps_info e)) = Some n"
proof -
  have "\<forall>(n, p) \<in> set (infos_of (Param_struct_assigned tn)). postprocessed n p"
    using assigned_postprocessed [of tn] assigned_subset [of tn] by (fastforce simp: list_all_iff)
  with assms obtain m where
    m: "map_of (type2name_table (infos_of (Param_struct_assigned tn))) (info_key (ps_info e)) = Some m"
    using type2name_table_complete [of n "ps_info e" "infos_of (Param_struct_assigned tn)" "[]"]
    by (force simp: type2name_table_def)
  then have "m = n"
    using type2name_sound [OF m] assigned_key_in [OF assms] assigned_key_in assigned_key_name by metis
  with m show ?thesis by simp
qed

text \<open>The two entries the corrections add to the reverse table are already there.\<close>

lemma trigger_keys:
  "((180, 0, 0), ''PeriodicTriggerValue'') \<in> set assigned_keys"
  "((181, 0, 0), ''GPITriggerValue'') \<in> set assigned_keys"
  "list_all (\<lambda>(k, n). (n = ''PeriodicTriggerValue'' \<longrightarrow> k = (180, 0, 0)) \<and>
     (n = ''GPITriggerValue'' \<longrightarrow> k = (181, 0, 0))) assigned_keys"
  by (simp_all add: assigned_keys_defs)

lemma trigger_key:
  "(k, ''PeriodicTriggerValue'') \<in> set assigned_keys \<Longrightarrow> k = (180, 0, 0)"
  "(k, ''GPITriggerValue'') \<in> set assigned_keys \<Longrightarrow> k = (181, 0, 0)"
  using trigger_keys(3) by (fastforce simp: list_all_iff)+

lemma assigned_name:
  assumes "(k, n) \<in> set assigned_keys"
  obtains e where "(n, e) \<in> set (Param_struct_assigned tn)"
proof -
  from assms obtain e where "(n, e) \<in> set (Param_assignments tn)"
    by (auto simp flip: assigned_keys_eq [of tn])
  then have "n \<in> fst ` set (Param_struct_assigned tn)"
    by (intro assigned_names) force
  then show thesis using that by auto
qed

lemma trigger_names:
  "map_of (type2name_table (infos_of (Param_struct_assigned tn))) (180, 0, 0) = Some ''PeriodicTriggerValue''"
  "map_of (type2name_table (infos_of (Param_struct_assigned tn))) (181, 0, 0) = Some ''GPITriggerValue''"
proof -
  obtain e where "(''PeriodicTriggerValue'', e) \<in> set (Param_struct_assigned tn)"
    using trigger_keys(1) by (rule assigned_name)
  then show "map_of (type2name_table (infos_of (Param_struct_assigned tn))) (180, 0, 0) = Some ''PeriodicTriggerValue''"
    by (metis type2name_complete assigned_key_in trigger_key(1))
  obtain e where "(''GPITriggerValue'', e) \<in> set (Param_struct_assigned tn)"
    using trigger_keys(2) by (rule assigned_name)
  then show "map_of (type2name_table (infos_of (Param_struct_assigned tn))) (181, 0, 0) = Some ''GPITriggerValue''"
    by (metis type2name_complete assigned_key_in trigger_key(2))
qed

lemma reverse_table_get:
  "map_of Param_Type2Name k = map_of (type2name_table (infos_of (Param_struct_assigned tn))) k"
  unfolding Param_Type2Name_def fixed_type2name_def infos_assigned [of "\<lambda>_. None" tn]
  by (simp add: dict_simps trigger_names)

lemma update_entry_get:
  "map_of (update_entry name f d) n = map_option (\<lambda>e. if n = name then f e else e) (map_of d n)"
  by (simp add: update_entry_def map_of_map_snd)

text \<open>The names of each group, to tell quickly where a name is not.\<close>

lemma keys_names:
  "snd ` set keys_TV =
    {''AntennaID'', ''FirstSeenTimestampUTC'', ''FirstSeenTimestampUptime'',
     ''LastSeenTimestampUTC'', ''LastSeenTimestampUptime'', ''PeakRSSI'', ''ChannelIndex'',
     ''TagSeenCount'', ''ROSpecID'', ''InventoryParameterSpecID'', ''C1G2CRC'', ''C1G2PC'',
     ''EPC-96'', ''SpecIndex'', ''ClientRequestOpSpecResult'', ''AccessSpecID'', ''OpSpecID'',
     ''C1G2SingulationDetails'', ''C1G2XPCW1'', ''C1G2XPCW2''}"
  "snd ` set keys_Capabilities =
    {''UTCTimestamp'', ''Uptime'', ''RegulatoryCapabilities'', ''UHFBandCapabilities'',
     ''TransmitPowerLevelTableEntry'', ''FrequencyInformation'', ''FrequencyHopTable'',
     ''FixedFrequencyTable'', ''C1G2LLRPCapabilities'', ''UHFC1G2RFModeTable'',
     ''UHFC1G2RFModeTableEntry'', ''RFSurveyFrequencyCapabilities'', ''LLRPCapabilities'',
     ''GeneralDeviceCapabilities'', ''MaximumReceiveSensitivity'',
     ''ReceiveSensitivityTableEntry'', ''PerAntennaReceiveSensitivityRange'',
     ''PerAntennaAirProtocol'', ''GPIOCapabilities''}"
  "snd ` set keys_Access =
    {''ROSpec'', ''AccessSpec'', ''AccessSpecStopTrigger'', ''AccessCommand'', ''C1G2TagSpec'',
     ''C1G2TargetTag'', ''C1G2Read'', ''C1G2Write'', ''C1G2Lock'', ''C1G2LockPayload'',
     ''C1G2BlockWrite'', ''AccessReportSpec''}"
  "snd ` set keys_ROSpec =
    {''ROBoundarySpec'', ''ROSpecStartTrigger'', ''PeriodicTriggerValue'', ''GPITriggerValue'',
     ''ROSpecStopTrigger'', ''AISpec'', ''AISpecStopTrigger'', ''TagObservationTrigger'',
     ''InventoryParameterSpec''}"
  "snd ` set keys_Config =
    {''LLRPConfigurationStateValue'', ''Identification'', ''GPOWriteData'', ''KeepaliveSpec'',
     ''AntennaProperties'', ''AntennaConfiguration'', ''RFReceiver'', ''RFTransmitter'',
     ''GPIPortCurrentState'', ''EventsAndReports'', ''C1G2InventoryCommand'', ''C1G2Filter'',
     ''C1G2TagInventoryMask'', ''C1G2RFControl'', ''C1G2SingulationControl'',
     ''C1G2TagInventoryStateAwareSingulationAction'', ''ROReportSpec'',
     ''ReaderEventNotificationSpec'', ''EventNotificationState'', ''TagReportContentSelector'',
     ''C1G2EPCMemorySelector''}"
  "snd ` set keys_Report =
    {''TagReportData'', ''C1G2ReadOpSpecResult'', ''C1G2WriteOpSpecResult'',
     ''C1G2KillOpSpecResult'', ''C1G2RecommissionOpSpecResult'', ''C1G2LockOpSpecResult'',
     ''C1G2BlockEraseOpSpecResult'', ''C1G2BlockWriteOpSpecResult'',
     ''C1G2BlockPermalockOpSpecResult'', ''C1G2GetBlockPermalockStatusOpSpecResult'', ''EPC'',
     ''EPC-96'', ''C1G2SingulationDetails''}"
  "snd ` set keys_Events =
    {''HoppingEvent'', ''GPIEvent'', ''ROSpecEvent'', ''ReportBufferLevelWarning'',
     ''ReportBufferOverflowErrorEvent'', ''ReaderExceptionEvent'', ''RFSurveyEvent'',
     ''AISpecEvent'', ''AntennaEvent'', ''ConnectionAttemptEvent'', ''ConnectionCloseEvent'',
     ''SpecLoopEvent'', ''ReaderEventNotificationData'', ''LLRPStatus'', ''FieldError'',
     ''ParameterError'', ''CustomParameter''}"
  "snd ` set keys_Impinj =
    {''ImpinjRequestedData'', ''ImpinjSubRegulatoryRegion'', ''ImpinjInventorySearchMode'',
     ''ImpinjFixedFrequencyList'', ''ImpinjReducedPowerFrequencyList'', ''ImpinjLowDutyCycle'',
     ''ImpinjDetailedVersion'', ''ImpinjFrequencyCapabilities'',
     ''ImpinjGPIDebounceConfiguration'', ''ImpinjReaderTemperature'',
     ''ImpinjLinkMonitorConfiguration'', ''ImpinjReportBufferConfiguration'',
     ''ImpinjAccessSpecConfiguration'', ''ImpinjBlockWriteWordCount'',
     ''ImpinjTagReportContentSelector'', ''ImpinjEnableSerializedTID'',
     ''ImpinjEnableRFPhaseAngle'', ''ImpinjEnablePeakRSSI'', ''ImpinjEnableGPSCoordinates'',
     ''ImpinjSerializedTID'', ''ImpinjRFPhaseAngle'', ''ImpinjPeakRSSI'',
     ''ImpinjGPSCoordinates'', ''ImpinjGPSNMEASentences'', ''ImpinjGGASentence'',
     ''ImpinjRMCSentence'', ''ImpinjOpSpecRetryCount'', ''ImpinjAdvancedGPOConfiguration'',
     ''ImpinjEnableOptimizedRead'', ''ImpinjAccessSpecOrdering'',
     ''ImpinjEnableRFDopplerFrequency'', ''ImpinjRFDopplerFrequency'',
     ''ImpinjInventoryConfiguration'', ''ImpinjEnableTxPower'', ''ImpinjTxPower'',
     ''ImpinjArrayVersion'', ''ImpinjAntennaConfiguration'', ''ImpinjAntennaEventHysteresis'',
     ''ImpinjHubVersions'', ''ImpinjHubConfiguration'', ''ImpinjIntelligentAntennaManagement'',
     ''ImpinjTIDParity'', ''ImpinjAntennaEventConfiguration'', ''ImpinjAntennaAttemptEvent'',
     ''ImpinjBLEVersion'', ''ImpinjRFPowerSweep''}"
  "snd ` set keys_Moto =
    {''MotoGeneralCapabilities'', ''MotoAutonomousCapabilities'', ''MotoAutonomousState'',
     ''MotoDefaultSpec'', ''MotoTagEventsGenerationCapabilities'', ''MotoTagEventSelector'',
     ''MotoTagReportMode'', ''MotoTagReportContentSelector'', ''MotoTagPhase'',
     ''MotoFilterCapabilities'', ''MotoUTCTimestamp'', ''MotoFilterTimeOfDay'',
     ''MotoFilterTimeRange'', ''MotoFilterRSSIRange'', ''MotoFilterRule'', ''MotoFilterList'',
     ''MotoFilterTagList'', ''MotoPersistenceCapabilities'', ''MotoPersistenceSaveParams'',
     ''MotoC1G2LLRPCapabilities'', ''MotoCustomCommandOptions''}"
  by (simp_all add: keys_TV_def keys_Capabilities_def keys_Access_def keys_ROSpec_def keys_Config_def keys_Report_def keys_Events_def keys_Impinj_def keys_Moto_def)

lemma no_name: "n \<notin> snd ` set ks \<Longrightarrow> filter (\<lambda>(k, m). m = n) ks = []"
  by (force simp: filter_empty_conv)

text \<open>The entry and the key of a name that is assigned once.\<close>

lemma Param_struct_eval:
  assumes "(n, e) \<in> set (Param_assignments (map_of Param_Type2Name))"
    and "filter (\<lambda>(k, m). m = n) assigned_keys = [(k, n)]"
  shows "map_of Param_struct n = map_of (apply_fixes (postprocess [(n, e)])) n"
    and "map_of Param_Type2Name k = Some n"
proof -
  let ?A = "Param_assignments (map_of Param_Type2Name)"
  have "map fst ?A = map snd assigned_keys"
    by (simp flip: assigned_keys_eq [of "map_of Param_Type2Name"] add: comp_def split_def)
  moreover have "filter (\<lambda>x. x = n) (map snd ks) = map snd (filter (\<lambda>(k, m). m = n) ks)" for ks :: "(type_key \<times> string) list"
    by (induction ks) auto
  ultimately have "filter (\<lambda>x. x = n) (map fst ?A) = [n]" using assms(2) by simp
  with assms(1) have e: "map_of (Param_struct_assigned (map_of Param_Type2Name)) n = Some e"
    unfolding Param_struct_assigned_def by (rule map_of_dict_update_once)
  then show "map_of Param_struct n = map_of (apply_fixes (postprocess [(n, e)])) n"
    unfolding Param_struct_def apply_fixes_def comp_apply update_entry_get
    by (simp add: postprocess_def map_of_map_snd)
  have mem: "(n, e) \<in> set (Param_struct_assigned (map_of Param_Type2Name))"
    using e by (rule map_of_SomeD)
  then have "(info_key (ps_info e), n) \<in> set (filter (\<lambda>(k, m). m = n) assigned_keys)"
    by (simp add: assigned_key_in)
  with assms(2) have "info_key (ps_info e) = k" by simp
  then show "map_of Param_Type2Name k = Some n"
    using trans [OF reverse_table_get type2name_complete [OF mem]] by simp
qed

lemma fixed_decoders_local [dec_local]:
  "dec_local fixed_decode_aispec_event" "dec_local decode_impinj_gga" "dec_local decode_impinj_rmc"
  by (rule dec_localI, auto simp: fixed_decode_aispec_event_def decode_impinj_gga_def
      decode_impinj_rmc_def decode_nmea_sentence_def Let_def intro!: bindE_cong)+

text \<open>What the post-processing and the corrections keep of an assigned entry.\<close>

definition same_entry :: "pstruct \<Rightarrow> pstruct \<Rightarrow> bool" where
  "same_entry e0 e \<longleftrightarrow> pi_tv (ps_info e) = pi_tv (ps_info e0) \<and>
     pi_type (ps_info e) = pi_type (ps_info e0) \<and> pi_vendor (ps_info e) = pi_vendor (ps_info e0) \<and>
     pi_subtype (ps_info e) = pi_subtype (ps_info e0) \<and>
     ps_decode e \<in> {ps_decode e0, Some fixed_decode_aispec_event, Some decode_impinj_gga,
       Some decode_impinj_rmc, Some decode_MotoFilterTagList} \<and>
     pi_n_fields (ps_info e) \<in> {pi_n_fields (ps_info e0), pi_n_fields (ps_info e0) @ [''CustomParameter'']} \<and>
     ps_encode e \<in> {ps_encode e0, Some
       (basic_auto_param_encode_generator [U16, U16] [''CountryCode'', ''CommunicationsStandard''])}"

lemma same_entry_postprocess:
  "same_entry e (if postprocessed n (ps_info e) then e\<lparr>ps_info := finish_info (ps_info e)\<rparr> else e)"
  by (simp add: same_entry_def finish_info_def Let_def)

definition keeps_entry :: "string \<Rightarrow> pstruct \<Rightarrow> (string \<times> pstruct) list \<Rightarrow> bool" where
  "keeps_entry n e0 d \<longleftrightarrow> (\<exists>e. map_of d n = Some e \<and> same_entry e0 e)"

lemma keeps_entry_update:
  "keeps_entry n e0 d \<Longrightarrow> (\<And>e. same_entry e0 e \<Longrightarrow> n = name \<Longrightarrow> same_entry e0 (f e)) \<Longrightarrow>
     keeps_entry n e0 (update_entry name f d)"
  by (cases "n = name") (auto simp: keeps_entry_def update_entry_get)

lemma Param_struct_get:
  assumes "map_of Param_struct n = Some e"
  obtains e0 where "(n, e0) \<in> set (Param_struct_assigned (map_of Param_Type2Name))" "same_entry e0 e"
proof -
  let ?D = "Param_struct_assigned (map_of Param_Type2Name)"
  obtain e0 where e0: "map_of ?D n = Some e0"
    using assms by (auto simp: Param_struct_def apply_fixes_def update_entry_get postprocess_def map_of_map_snd)
  have key: "pi_type (ps_info e0) = 181" if "n = ''GPITriggerValue''"
    using assigned_key_in [OF map_of_SomeD [OF e0]] trigger_key(2) that by (force simp: info_key_def)
  have "keeps_entry n e0 (postprocess ?D)"
    using e0 same_entry_postprocess by (simp add: keeps_entry_def postprocess_def map_of_map_snd)
  then have "keeps_entry n e0 Param_struct"
    unfolding Param_struct_def apply_fixes_def comp_apply
    by (intro keeps_entry_update) (simp_all add: same_entry_def key)
  with assms e0 show thesis by (intro that [OF map_of_SomeD]) (auto simp: keeps_entry_def)
qed

lemma Param_struct_in:
  assumes "(n, e0) \<in> set (Param_struct_assigned (map_of Param_Type2Name))"
  obtains e where "map_of Param_struct n = Some e" "same_entry e0 e"
proof -
  let ?D = "Param_struct_assigned (map_of Param_Type2Name)"
  have e0: "map_of ?D n = Some e0"
    using assms distinct_assigned by (rule map_of_is_SomeI [rotated])
  then obtain e where e: "map_of Param_struct n = Some e"
    by (auto simp: Param_struct_def apply_fixes_def update_entry_get postprocess_def map_of_map_snd)
  then obtain e1 where e1: "(n, e1) \<in> set ?D" "same_entry e1 e" by (rule Param_struct_get)
  then have "e1 = e0" using e0 distinct_assigned by (metis map_of_is_SomeI option.inject)
  with e e1 that show thesis by blast
qed

lemma same_entry_info:
  assumes "same_entry e0 e"
  shows "info_key (ps_info e) = info_key (ps_info e0)" "framed_info (ps_info e) = framed_info (ps_info e0)"
  using assms by (simp_all add: same_entry_def info_key_def framed_info_def)

section \<open>The registry fulfils what the codec relies on\<close>

lemma llrp_decoder_local: "map_of Param_struct n = Some e \<Longrightarrow> ps_decode e = Some d \<Longrightarrow> dec_local d"
proof (erule Param_struct_get)
  fix e0
  assume d: "ps_decode e = Some d" and e0: "(n, e0) \<in> set (Param_struct_assigned (map_of Param_Type2Name))"
    and same: "same_entry e0 e"
  have "dec_local d" if "ps_decode e0 = Some d" for d
    using assigned_local assigned_subset e0 that by (fastforce simp: list_all_iff)
  then show "dec_local d" using same d
    by (auto simp: same_entry_def dec_local)
qed

lemma llrp_encoder_local: "map_of Param_struct n = Some e \<Longrightarrow> ps_encode e = Some c \<Longrightarrow> enc_local c"
proof (erule Param_struct_get)
  fix e0
  assume c: "ps_encode e = Some c" and e0: "(n, e0) \<in> set (Param_struct_assigned (map_of Param_Type2Name))"
    and same: "same_entry e0 e"
  have "enc_local c" if "ps_encode e0 = Some c" for c
    using assigned_local assigned_subset e0 that by (fastforce simp: list_all_iff)
  then show "enc_local c" using same c
    by (auto simp: same_entry_def enc_local)
qed

lemma llrp_name_struct:
  assumes "map_of Param_Type2Name k = Some n"
  shows "\<exists>e. map_of Param_struct n = Some e \<and> info_key (ps_info e) = k"
proof -
  obtain e0 where e0: "(n, e0) \<in> set (Param_struct_assigned (map_of Param_Type2Name))"
    "info_key (ps_info e0) = k"
    using type2name_sound [OF trans [OF reverse_table_get [symmetric] assms]] by blast
  from e0(1) obtain e where "map_of Param_struct n = Some e" "same_entry e0 e" by (rule Param_struct_in)
  with e0(2) show ?thesis by (auto simp: same_entry_info)
qed

lemma llrp_framed_name:
  assumes "map_of Param_struct n = Some e" "n \<noteq> ''CustomParameter''" "\<not> pi_tv (ps_info e)"
  shows "framed_info (ps_info e) \<and> map_of Param_Type2Name (info_key (ps_info e)) = Some n"
proof -
  from assms(1) obtain e0 where e0: "(n, e0) \<in> set (Param_struct_assigned (map_of Param_Type2Name))"
    and same: "same_entry e0 e" by (rule Param_struct_get)
  have "framed_info (ps_info e0)"
    using assigned_framed assigned_subset e0 assms(2,3) same
    by (fastforce simp: list_all_iff same_entry_def)
  moreover have "map_of Param_Type2Name (info_key (ps_info e0)) = Some n"
    by (rule trans [OF reverse_table_get type2name_complete [OF e0]])
  ultimately show ?thesis by (simp add: same_entry_info [OF same])
qed

lemma assigned_safe:
  "list_all (\<lambda>(n, e). (case ps_decode e of None \<Rightarrow> True | Some d \<Rightarrow> dec_safe d)) (Param_assignments tn)"
  by (simp add: raw_defs dec_safe reserved_keys_def DECODE_ERROR_PARNAME_def)

lemma assigned_n_fields:
  "list_all (\<lambda>(n, e). set (pi_n_fields (ps_info e)) \<subseteq> reserved_keys) (Param_assignments tn)"
  by (simp add: raw_defs reserved_keys_def)

lemma error_name_unused: "DECODE_ERROR_PARNAME \<notin> snd ` set assigned_keys"
  by (simp add: assigned_keys_def image_Un keys_names DECODE_ERROR_PARNAME_def)

lemma fixed_decoders_safe [dec_safe]:
  "dec_safe fixed_decode_aispec_event" "dec_safe decode_impinj_gga" "dec_safe decode_impinj_rmc"
  by (rule dec_safeI, auto simp: fixed_decode_aispec_event_def decode_impinj_gga_def
      decode_impinj_rmc_def decode_nmea_sentence_def Let_def reserved_keys_def DECODE_ERROR_PARNAME_def
      intro!: tame_bindE)+

lemma llrp_decoder_safe: "map_of Param_struct n = Some e \<Longrightarrow> ps_decode e = Some d \<Longrightarrow> dec_safe d"
proof (erule Param_struct_get)
  fix e0
  assume d: "ps_decode e = Some d" and e0: "(n, e0) \<in> set (Param_struct_assigned (map_of Param_Type2Name))"
    and same: "same_entry e0 e"
  have "dec_safe d" if "ps_decode e0 = Some d" for d
    using assigned_safe assigned_subset e0 that by (fastforce simp: list_all_iff)
  then show "dec_safe d" using same d
    by (auto simp: same_entry_def dec_safe)
qed

lemma llrp_n_fields:
  "map_of Param_struct n = Some e \<Longrightarrow> set (pi_n_fields (ps_info e)) \<subseteq> reserved_keys"
proof (erule Param_struct_get)
  fix e0
  assume e0: "(n, e0) \<in> set (Param_struct_assigned (map_of Param_Type2Name))" and same: "same_entry e0 e"
  have "set (pi_n_fields (ps_info e0)) \<subseteq> reserved_keys"
    using assigned_n_fields assigned_subset e0 by (fastforce simp: list_all_iff)
  moreover have "''CustomParameter'' \<in> reserved_keys" by (simp add: reserved_keys_def)
  ultimately show "set (pi_n_fields (ps_info e)) \<subseteq> reserved_keys"
    using same by (auto simp: same_entry_def)
qed

lemma llrp_error_name: "map_of Param_Type2Name k \<noteq> Some DECODE_ERROR_PARNAME"
proof
  assume "map_of Param_Type2Name k = Some DECODE_ERROR_PARNAME"
  then obtain e where "(DECODE_ERROR_PARNAME, e) \<in> set (Param_struct_assigned (\<lambda>_. None))"
    using type2name_sound [OF trans [OF reverse_table_get [symmetric]]] by blast
  then show False using assigned_key_in error_name_unused by force
qed

interpretation llrp: safe_registry llrp_registry
  by unfold_locales
    (auto simp: llrp_registry_def llrp_error_name dest: llrp_decoder_local llrp_encoder_local
      llrp_name_struct llrp_framed_name llrp_decoder_safe llrp_n_fields)

end
