(* ===== verification/Proto_Messages.thy ===== *)
theory Proto_Messages
  imports Proto_Moto
begin

unbundle bit_operations_syntax

text \<open>
  The message registry \<open>Message_struct\<close> of \<^verbatim>\<open>sllurp/llrp_proto.py\<close>.  Each \<open>Msg_X\<close> is the entry
  \<open>Message_struct["X"]\<close>; a message decoder takes the parameter loop and the lookup of a
  message's repeatable fields as arguments.
\<close>

section \<open>Message decoders\<close>

type_synonym param_loop = "string list \<Rightarrow> bytes \<Rightarrow> pydict \<Rightarrow> pydict res"
type_synonym mdecoder = "param_loop \<Rightarrow> (string \<Rightarrow> string list res) \<Rightarrow> bytes \<Rightarrow> string \<Rightarrow> pydict res"

record mstruct =
  ms_info :: pinfo
  ms_encode :: "encoder option"
  ms_decode :: "mdecoder option"

definition decode_generic_message_into :: "pydict \<Rightarrow> mdecoder" where
  "decode_generic_message_into msg dap n_flds_of data msg_name =
    (if msg_name \<noteq> [] then bindE (n_flds_of msg_name) (\<lambda>n_fields. dap n_fields data msg)
     else dap [] data msg)"

definition decode_generic_message :: mdecoder where
  "decode_generic_message = decode_generic_message_into []"

definition decode_generic_message_with_status_check :: mdecoder where
  "decode_generic_message_with_status_check dap n_flds_of data msg_name =
    bindE (decode_generic_message dap n_flds_of data msg_name) (\<lambda>msg.
      if dict_get msg ''LLRPStatus'' = None then Inl LLRPError else Inr msg)"

section \<open>Entries\<close>

definition Msg_GET_READER_CAPABILITIES :: mstruct where
  "Msg_GET_READER_CAPABILITIES = \<lparr>
    ms_info = tlv_info 1
      [''ID'', ''RequestedData'']
      [''ImpinjRequestedData''] [],
    ms_encode = Some (basic_auto_param_encode_generator [U8] [''RequestedData'']),
    ms_decode = None\<rparr>"

definition Msg_GET_READER_CAPABILITIES_RESPONSE :: mstruct where
  "Msg_GET_READER_CAPABILITIES_RESPONSE = \<lparr>
    ms_info = tlv_info 11
      [''ID'']
      [''LLRPStatus'', ''GeneralDeviceCapabilities'', ''LLRPCapabilities'',
      ''RegulatoryCapabilities'', ''C1G2LLRPCapabilities'', ''ImpinjDetailedVersion'',
      ''ImpinjFrequencyCapabilities'', ''ImpinjAntennaCapabilities'',
      ''MotoGeneralCapabilities'', ''MotoAutonomousCapabilities'',
      ''MotoTagEventsGenerationCapabilities'', ''MotoFilterCapabilities'',
      ''MotoPersistenceCapabilities'', ''MotoC1G2LLRPCapabilities'',
      ''ImpinjxArrayCapabilities''] [],
    ms_encode = None,
    ms_decode = Some decode_generic_message_with_status_check\<rparr>"

definition encode_GetReaderConfig :: encoder where
  "encode_GetReaderConfig encode_param msg param_info =
    bindE (py_item msg ''RequestedData'') (\<lambda>req.
    bindE (py_get msg ''AntennaID'' (PInt 0)) (\<lambda>ant.
    bindE (py_get msg ''GPIPortNum'' (PInt 0)) (\<lambda>gpipn.
    bindE (py_get msg ''GPOPortNum'' (PInt 0)) (\<lambda>gpopn.
    bindE (pack_vals [U16, U8, U16, U16] [ant, req, gpipn, gpopn]) (\<lambda>packed.
    encode_all_parameters encode_param msg param_info packed)))))"

definition Msg_GET_READER_CONFIG :: mstruct where
  "Msg_GET_READER_CONFIG = \<lparr>
    ms_info = tlv_info 2
      [''ID'', ''AntennaID'', ''RequestedData'', ''GPIPortNum'', ''GPOPortNum'']
      [''ImpinjRequestedData''] [],
    ms_encode = Some encode_GetReaderConfig,
    ms_decode = None\<rparr>"

definition Msg_GET_READER_CONFIG_RESPONSE :: mstruct where
  "Msg_GET_READER_CONFIG_RESPONSE = \<lparr>
    ms_info = tlv_info 12
      [''ID'']
      [''LLRPStatus'', ''Identification'', ''ReaderEventNotificationSpec'', ''ROReportSpec'',
      ''AccessReportSpec'', ''LLRPConfigurationStateValue'', ''KeepaliveSpec'',
      ''EventsAndReports'', ''ImpinjSubRegulatoryRegion'', ''ImpinjReaderTemperature'',
      ''ImpinjLinkMonitorConfiguration'', ''ImpinjAccessSpecConfiguration'',
      ''ImpinjReportBufferConfiguration'', ''ImpinjGPSNMEASentences'',
      ''ImpinjAntennaConfiguration'', ''MotoAutonomousState'', ''MotoDefaultSpec'',
      ''MotoFilterList'', ''MotoPersistenceSaveParams'', ''MotoCustomCommandOptions'',
      ''ImpinjBeaconConfiguration'', ''ImpinjTiltConfiguration'',
      ''ImpinjPlacementConfiguration'', ''ImpinjLocationConfig'', ''ImpinjC1G2LocationConfig'',
      ''ImpinjLocationReporting'', ''ImpinjDirectionConfig'', ''ImpinjC1G2DirectionConfig'',
      ''ImpinjDirectionReporting'', ''ImpinjPolarizationControl''] [''AntennaProperties'', ''AntennaConfiguration'', ''GPIPortCurrentState'',
      ''GPOWriteData'', ''ImpinjHubConfiguration'', ''ImpinjAdvancedGPOConfiguration'',
      ''ImpinjGPIDebounceConfiguration''],
    ms_encode = None,
    ms_decode = Some decode_generic_message_with_status_check\<rparr>"

definition encode_SetReaderConfig :: encoder where
  "encode_SetReaderConfig encode_param msg param_info =
    bindE (py_get msg ''ResetToFactoryDefaults'' (PBool False)) (\<lambda>v_ResetToFactoryDefaults.
    bindE (py_int v_ResetToFactoryDefaults) (\<lambda>reset_flag.
    let reset = push_bit 7 reset_flag AND 255 in
    bindE (struct_pack [U8] [reset]) (\<lambda>packed.
    encode_all_parameters encode_param msg param_info packed)))"

definition Msg_SET_READER_CONFIG :: mstruct where
  "Msg_SET_READER_CONFIG = \<lparr>
    ms_info = tlv_info 3
      [''ID'', ''ResetToFactoryDefaults'', ''ReaderEventNotificationSpec'',
      ''AntennaProperties'', ''AntennaConfiguration'', ''AccessReportSpec'', ''KeepaliveSpec'',
      ''GPOWriteData'', ''GPIPortCurrentState'', ''EventsAndReports'',
      ''ImpinjAntennaConfiguration'']
      [''ReaderEventNotificationSpec'', ''ROReportSpec'', ''AccessReportSpec'',
      ''KeepaliveSpec'', ''EventsAndReports'', ''ImpinjAntennaConfiguration''] [''AntennaProperties'', ''AntennaConfiguration'', ''GPOWriteData'', ''GPIPortCurrentState''],
    ms_encode = Some encode_SetReaderConfig,
    ms_decode = None\<rparr>"

definition Msg_SET_READER_CONFIG_RESPONSE :: mstruct where
  "Msg_SET_READER_CONFIG_RESPONSE = \<lparr>
    ms_info = tlv_info 13
      [''ID'']
      [''LLRPStatus''] [],
    ms_encode = None,
    ms_decode = Some decode_generic_message_with_status_check\<rparr>"

definition Msg_ENABLE_EVENTS_AND_REPORTS :: mstruct where
  "Msg_ENABLE_EVENTS_AND_REPORTS = \<lparr>
    ms_info = tlv_info 64
      [''ID'']
      [] [],
    ms_encode = Some basic_param_encode_empty,
    ms_decode = None\<rparr>"

definition Msg_ADD_ROSPEC :: mstruct where
  "Msg_ADD_ROSPEC = \<lparr>
    ms_info = tlv_info 20
      [''ID'']
      [''ROSpec''] [],
    ms_encode = Some encode_all,
    ms_decode = None\<rparr>"

definition Msg_ADD_ROSPEC_RESPONSE :: mstruct where
  "Msg_ADD_ROSPEC_RESPONSE = \<lparr>
    ms_info = tlv_info 30
      [''ID'']
      [''LLRPStatus''] [],
    ms_encode = None,
    ms_decode = Some decode_generic_message_with_status_check\<rparr>"

definition Msg_DELETE_ROSPEC :: mstruct where
  "Msg_DELETE_ROSPEC = \<lparr>
    ms_info = tlv_info 21
      [''ID'', ''ROSpecID'']
      [] [],
    ms_encode = Some (basic_param_encode_generator [U32] [''ROSpecID'']),
    ms_decode = None\<rparr>"

definition Msg_DELETE_ROSPEC_RESPONSE :: mstruct where
  "Msg_DELETE_ROSPEC_RESPONSE = \<lparr>
    ms_info = tlv_info 31
      [''ID'']
      [''LLRPStatus''] [],
    ms_encode = None,
    ms_decode = Some decode_generic_message_with_status_check\<rparr>"

definition Msg_START_ROSPEC :: mstruct where
  "Msg_START_ROSPEC = \<lparr>
    ms_info = tlv_info 22
      [''ID'', ''ROSpecID'']
      [] [],
    ms_encode = Some (basic_param_encode_generator [U32] [''ROSpecID'']),
    ms_decode = None\<rparr>"

definition Msg_START_ROSPEC_RESPONSE :: mstruct where
  "Msg_START_ROSPEC_RESPONSE = \<lparr>
    ms_info = tlv_info 32
      [''ID'']
      [''LLRPStatus''] [],
    ms_encode = None,
    ms_decode = Some decode_generic_message_with_status_check\<rparr>"

definition Msg_STOP_ROSPEC :: mstruct where
  "Msg_STOP_ROSPEC = \<lparr>
    ms_info = tlv_info 23
      [''ID'', ''ROSpecID'']
      [] [],
    ms_encode = Some (basic_param_encode_generator [U32] [''ROSpecID'']),
    ms_decode = None\<rparr>"

definition Msg_STOP_ROSPEC_RESPONSE :: mstruct where
  "Msg_STOP_ROSPEC_RESPONSE = \<lparr>
    ms_info = tlv_info 33
      [''ID'']
      [''LLRPStatus''] [],
    ms_encode = None,
    ms_decode = Some decode_generic_message_with_status_check\<rparr>"

definition encode_EnableROSpec :: "pyval \<Rightarrow> bytes res" where
  "encode_EnableROSpec msg =
    bindE (py_item msg ''ROSpecID'') (\<lambda>msgid. pack_vals [U32] [msgid])"

definition Msg_ENABLE_ROSPEC :: mstruct where
  "Msg_ENABLE_ROSPEC = \<lparr>
    ms_info = tlv_info 24
      [''ID'', ''ROSpecID'']
      [] [],
    ms_encode = Some (basic_param_encode_generator [U32] [''ROSpecID'']),
    ms_decode = None\<rparr>"

definition Msg_ENABLE_ROSPEC_RESPONSE :: mstruct where
  "Msg_ENABLE_ROSPEC_RESPONSE = \<lparr>
    ms_info = tlv_info 34
      [''ID'']
      [''LLRPStatus''] [],
    ms_encode = None,
    ms_decode = Some decode_generic_message_with_status_check\<rparr>"

definition Msg_DISABLE_ROSPEC :: mstruct where
  "Msg_DISABLE_ROSPEC = \<lparr>
    ms_info = tlv_info 25
      [''ID'', ''ROSpecID'']
      [] [],
    ms_encode = Some (basic_param_encode_generator [U32] [''ROSpecID'']),
    ms_decode = None\<rparr>"

definition Msg_DISABLE_ROSPEC_RESPONSE :: mstruct where
  "Msg_DISABLE_ROSPEC_RESPONSE = \<lparr>
    ms_info = tlv_info 35
      [''ID'']
      [''LLRPStatus''] [],
    ms_encode = None,
    ms_decode = Some decode_generic_message_with_status_check\<rparr>"

definition decode_ROAccessReport :: mdecoder where
  "decode_ROAccessReport dap n_flds_of data name =
    (let msg = [(''TagReportData'', PList [])] in
     decode_generic_message_into msg dap n_flds_of data name)"

definition Msg_RO_ACCESS_REPORT :: mstruct where
  "Msg_RO_ACCESS_REPORT = \<lparr>
    ms_info = tlv_info 61
      [''ID'']
      [] [''TagReportData''],
    ms_encode = None,
    ms_decode = Some decode_ROAccessReport\<rparr>"

definition Msg_KEEPALIVE :: mstruct where
  "Msg_KEEPALIVE = \<lparr>
    ms_info = tlv_info 62
      [''ID'']
      [] [],
    ms_encode = None,
    ms_decode = Some decode_generic_message\<rparr>"

definition Msg_KEEPALIVE_ACK :: mstruct where
  "Msg_KEEPALIVE_ACK = \<lparr>
    ms_info = tlv_info 72
      [''ID'']
      [] [],
    ms_encode = Some basic_param_encode_empty,
    ms_decode = None\<rparr>"

definition Msg_READER_EVENT_NOTIFICATION :: mstruct where
  "Msg_READER_EVENT_NOTIFICATION = \<lparr>
    ms_info = tlv_info 63
      [''ID'']
      [''ReaderEventNotificationData''] [],
    ms_encode = Some encode_all,
    ms_decode = Some decode_generic_message\<rparr>"

definition Msg_CLOSE_CONNECTION :: mstruct where
  "Msg_CLOSE_CONNECTION = \<lparr>
    ms_info = tlv_info 14
      [''ID'']
      [] [],
    ms_encode = Some basic_param_encode_empty,
    ms_decode = None\<rparr>"

definition Msg_CLOSE_CONNECTION_RESPONSE :: mstruct where
  "Msg_CLOSE_CONNECTION_RESPONSE = \<lparr>
    ms_info = tlv_info 4
      [''ID'']
      [''LLRPStatus''] [],
    ms_encode = None,
    ms_decode = Some decode_generic_message_with_status_check\<rparr>"

definition Msg_ERROR_MESSAGE :: mstruct where
  "Msg_ERROR_MESSAGE = \<lparr>
    ms_info = tlv_info 100
      [''ID'']
      [''LLRPStatus''] [],
    ms_encode = None,
    ms_decode = Some decode_generic_message_with_status_check\<rparr>"

definition Msg_ADD_ACCESSSPEC :: mstruct where
  "Msg_ADD_ACCESSSPEC = \<lparr>
    ms_info = tlv_info 40
      []
      [''AccessSpec''] [],
    ms_encode = Some encode_all,
    ms_decode = None\<rparr>"

definition Msg_ADD_ACCESSSPEC_RESPONSE :: mstruct where
  "Msg_ADD_ACCESSSPEC_RESPONSE = \<lparr>
    ms_info = tlv_info 50
      [''ID'']
      [''LLRPStatus''] [],
    ms_encode = None,
    ms_decode = Some decode_generic_message_with_status_check\<rparr>"

definition Msg_DELETE_ACCESSSPEC :: mstruct where
  "Msg_DELETE_ACCESSSPEC = \<lparr>
    ms_info = tlv_info 41
      [''ID'', ''AccessSpecID'']
      [] [],
    ms_encode = Some (basic_param_encode_generator [U32] [''AccessSpecID'']),
    ms_decode = None\<rparr>"

definition Msg_DELETE_ACCESSSPEC_RESPONSE :: mstruct where
  "Msg_DELETE_ACCESSSPEC_RESPONSE = \<lparr>
    ms_info = tlv_info 51
      [''ID'']
      [''LLRPStatus''] [],
    ms_encode = None,
    ms_decode = Some decode_generic_message_with_status_check\<rparr>"

definition Msg_ENABLE_ACCESSSPEC :: mstruct where
  "Msg_ENABLE_ACCESSSPEC = \<lparr>
    ms_info = tlv_info 42
      [''ID'', ''AccessSpecID'']
      [] [],
    ms_encode = Some (basic_param_encode_generator [U32] [''AccessSpecID'']),
    ms_decode = None\<rparr>"

definition Msg_ENABLE_ACCESSSPEC_RESPONSE :: mstruct where
  "Msg_ENABLE_ACCESSSPEC_RESPONSE = \<lparr>
    ms_info = tlv_info 52
      [''ID'']
      [''LLRPStatus''] [],
    ms_encode = None,
    ms_decode = Some decode_generic_message_with_status_check\<rparr>"

definition Msg_DISABLE_ACCESSSPEC :: mstruct where
  "Msg_DISABLE_ACCESSSPEC = \<lparr>
    ms_info = tlv_info 43
      [''ID'', ''AccessSpecID'']
      [] [],
    ms_encode = Some (basic_param_encode_generator [U32] [''AccessSpecID'']),
    ms_decode = None\<rparr>"

definition Msg_DISABLE_ACCESSSPEC_RESPONSE :: mstruct where
  "Msg_DISABLE_ACCESSSPEC_RESPONSE = \<lparr>
    ms_info = tlv_info 53
      [''ID'']
      [''LLRPStatus''] [],
    ms_encode = None,
    ms_decode = Some decode_generic_message_with_status_check\<rparr>"

definition encode_CustomMessage :: encoder where
  "encode_CustomMessage encode_param msg param_info =
    bindE (py_get msg ''Payload'' (PBytes [])) py_bytes"

definition Msg_CUSTOM_MESSAGE :: mstruct where
  "Msg_CUSTOM_MESSAGE = \<lparr>
    ms_info = tlv_info TYPE_CUSTOM
      [''ID'', ''VendorID'', ''Subtype'', ''Payload'']
      [] [],
    ms_encode = Some encode_CustomMessage,
    ms_decode = Some decode_generic_message\<rparr>"

definition encode_ImpinjEnableExtensions :: encoder where
  "encode_ImpinjEnableExtensions encode_param msg param_info =
    struct_pack [U32] [0]"

definition Msg_IMPINJ_ENABLE_EXTENSIONS :: mstruct where
  "Msg_IMPINJ_ENABLE_EXTENSIONS = \<lparr>
    ms_info = custom_info VENDOR_ID_IMPINJ 21
      [''reserved'']
      [] [],
    ms_encode = Some encode_ImpinjEnableExtensions,
    ms_decode = None\<rparr>"

definition Msg_IMPINJ_ENABLE_EXTENSIONS_RESPONSE :: mstruct where
  "Msg_IMPINJ_ENABLE_EXTENSIONS_RESPONSE = \<lparr>
    ms_info = custom_info VENDOR_ID_IMPINJ 22
      [''ID'']
      [''LLRPStatus''] [],
    ms_encode = None,
    ms_decode = Some decode_generic_message_with_status_check\<rparr>"

definition Message_struct_assigned :: "(string \<times> mstruct) list" where
  "Message_struct_assigned = [
    (''GET_READER_CAPABILITIES'', Msg_GET_READER_CAPABILITIES),
    (''GET_READER_CAPABILITIES_RESPONSE'', Msg_GET_READER_CAPABILITIES_RESPONSE),
    (''GET_READER_CONFIG'', Msg_GET_READER_CONFIG),
    (''GET_READER_CONFIG_RESPONSE'', Msg_GET_READER_CONFIG_RESPONSE),
    (''SET_READER_CONFIG'', Msg_SET_READER_CONFIG),
    (''SET_READER_CONFIG_RESPONSE'', Msg_SET_READER_CONFIG_RESPONSE),
    (''ENABLE_EVENTS_AND_REPORTS'', Msg_ENABLE_EVENTS_AND_REPORTS),
    (''ADD_ROSPEC'', Msg_ADD_ROSPEC),
    (''ADD_ROSPEC_RESPONSE'', Msg_ADD_ROSPEC_RESPONSE),
    (''DELETE_ROSPEC'', Msg_DELETE_ROSPEC),
    (''DELETE_ROSPEC_RESPONSE'', Msg_DELETE_ROSPEC_RESPONSE),
    (''START_ROSPEC'', Msg_START_ROSPEC),
    (''START_ROSPEC_RESPONSE'', Msg_START_ROSPEC_RESPONSE),
    (''STOP_ROSPEC'', Msg_STOP_ROSPEC),
    (''STOP_ROSPEC_RESPONSE'', Msg_STOP_ROSPEC_RESPONSE),
    (''ENABLE_ROSPEC'', Msg_ENABLE_ROSPEC),
    (''ENABLE_ROSPEC_RESPONSE'', Msg_ENABLE_ROSPEC_RESPONSE),
    (''DISABLE_ROSPEC'', Msg_DISABLE_ROSPEC),
    (''DISABLE_ROSPEC_RESPONSE'', Msg_DISABLE_ROSPEC_RESPONSE),
    (''RO_ACCESS_REPORT'', Msg_RO_ACCESS_REPORT),
    (''KEEPALIVE'', Msg_KEEPALIVE),
    (''KEEPALIVE_ACK'', Msg_KEEPALIVE_ACK),
    (''READER_EVENT_NOTIFICATION'', Msg_READER_EVENT_NOTIFICATION),
    (''CLOSE_CONNECTION'', Msg_CLOSE_CONNECTION),
    (''CLOSE_CONNECTION_RESPONSE'', Msg_CLOSE_CONNECTION_RESPONSE),
    (''ERROR_MESSAGE'', Msg_ERROR_MESSAGE),
    (''ADD_ACCESSSPEC'', Msg_ADD_ACCESSSPEC),
    (''ADD_ACCESSSPEC_RESPONSE'', Msg_ADD_ACCESSSPEC_RESPONSE),
    (''DELETE_ACCESSSPEC'', Msg_DELETE_ACCESSSPEC),
    (''DELETE_ACCESSSPEC_RESPONSE'', Msg_DELETE_ACCESSSPEC_RESPONSE),
    (''ENABLE_ACCESSSPEC'', Msg_ENABLE_ACCESSSPEC),
    (''ENABLE_ACCESSSPEC_RESPONSE'', Msg_ENABLE_ACCESSSPEC_RESPONSE),
    (''DISABLE_ACCESSSPEC'', Msg_DISABLE_ACCESSSPEC),
    (''DISABLE_ACCESSSPEC_RESPONSE'', Msg_DISABLE_ACCESSSPEC_RESPONSE),
    (''CUSTOM_MESSAGE'', Msg_CUSTOM_MESSAGE),
    (''IMPINJ_ENABLE_EXTENSIONS'', Msg_IMPINJ_ENABLE_EXTENSIONS),
    (''IMPINJ_ENABLE_EXTENSIONS_RESPONSE'', Msg_IMPINJ_ENABLE_EXTENSIONS_RESPONSE)]"

lemmas Message_entries = Message_struct_assigned_def
  Msg_GET_READER_CAPABILITIES_def
  Msg_GET_READER_CAPABILITIES_RESPONSE_def
  Msg_GET_READER_CONFIG_def
  Msg_GET_READER_CONFIG_RESPONSE_def
  Msg_SET_READER_CONFIG_def
  Msg_SET_READER_CONFIG_RESPONSE_def
  Msg_ENABLE_EVENTS_AND_REPORTS_def
  Msg_ADD_ROSPEC_def
  Msg_ADD_ROSPEC_RESPONSE_def
  Msg_DELETE_ROSPEC_def
  Msg_DELETE_ROSPEC_RESPONSE_def
  Msg_START_ROSPEC_def
  Msg_START_ROSPEC_RESPONSE_def
  Msg_STOP_ROSPEC_def
  Msg_STOP_ROSPEC_RESPONSE_def
  Msg_ENABLE_ROSPEC_def
  Msg_ENABLE_ROSPEC_RESPONSE_def
  Msg_DISABLE_ROSPEC_def
  Msg_DISABLE_ROSPEC_RESPONSE_def
  Msg_RO_ACCESS_REPORT_def
  Msg_KEEPALIVE_def
  Msg_KEEPALIVE_ACK_def
  Msg_READER_EVENT_NOTIFICATION_def
  Msg_CLOSE_CONNECTION_def
  Msg_CLOSE_CONNECTION_RESPONSE_def
  Msg_ERROR_MESSAGE_def
  Msg_ADD_ACCESSSPEC_def
  Msg_ADD_ACCESSSPEC_RESPONSE_def
  Msg_DELETE_ACCESSSPEC_def
  Msg_DELETE_ACCESSSPEC_RESPONSE_def
  Msg_ENABLE_ACCESSSPEC_def
  Msg_ENABLE_ACCESSSPEC_RESPONSE_def
  Msg_DISABLE_ACCESSSPEC_def
  Msg_DISABLE_ACCESSSPEC_RESPONSE_def
  Msg_CUSTOM_MESSAGE_def
  Msg_IMPINJ_ENABLE_EXTENSIONS_def
  Msg_IMPINJ_ENABLE_EXTENSIONS_RESPONSE_def

end
