(* ===== verification/LLRP_Message.thy ===== *)
theory LLRP_Message
  imports Proto_Registry Proto_Messages
begin

unbundle bit_operations_syntax

text \<open>
  Class \<open>LLRPMessage\<close> of \<^verbatim>\<open>sllurp/llrp.py\<close>: the message registry in use, \<open>serialize\<close>,
  \<open>deserialize\<close> and \<open>isSuccess\<close>.  The lemmas show that a serialized message carries exactly its
  own length and identity in its header, and that deserializing arbitrary bytes can only raise
  \<open>LLRPError\<close>.
\<close>

section \<open>The message registry in use\<close>

text \<open>The wire order correction of \<^verbatim>\<open>_protocol_fixes.py\<close>.\<close>

definition fixed_encode_get_reader_config :: encoder where
  "fixed_encode_get_reader_config enc msg param_info =
    bindE (py_get msg ''AntennaID'' (PInt 0)) (\<lambda>antenna_id.
    bindE (py_item msg ''RequestedData'') (\<lambda>requested_data.
    bindE (py_get msg ''GPIPortNum'' (PInt 0)) (\<lambda>gpi_port.
    bindE (py_get msg ''GPOPortNum'' (PInt 0)) (\<lambda>gpo_port.
    bindE (pack_vals [U16, U8, U16, U16] [antenna_id, requested_data, gpi_port, gpo_port]) (\<lambda>packed.
    encode_all_parameters enc msg param_info packed)))))"

definition Message_struct :: "(string \<times> mstruct) list" where
  "Message_struct = map (\<lambda>(name, m). (name,
     let m = (if postprocessed name (ms_info m) then m\<lparr>ms_info := finish_info (ms_info m)\<rparr> else m)
     in if name = ''GET_READER_CONFIG''
        then m\<lparr>ms_encode := Some fixed_encode_get_reader_config\<rparr> else m)) Message_struct_assigned"

definition Message_Type2Name :: "(type_key \<times> string) list" where
  "Message_Type2Name = type2name_table (map (\<lambda>(n, m). (n, ms_info m)) Message_struct_assigned)"

text \<open>\<open>get_message_name_from_type\<close>.\<close>

definition get_message_name_from_type :: "int \<Rightarrow> int \<Rightarrow> int \<Rightarrow> string res" where
  "get_message_name_from_type msgtype vendorid subtype =
    (case map_of Message_Type2Name (msgtype, vendorid, subtype) of
       None \<Rightarrow> Inl KeyError | Some nm \<Rightarrow> Inr nm)"

definition message_n_fields :: "string \<Rightarrow> string list res" where
  "message_n_fields name = (case map_of Message_struct name of
     None \<Rightarrow> Inl KeyError | Some m \<Rightarrow> Inr (pi_n_fields (ms_info m)))"

text \<open>
  \<open>decode_all_parameters\<close> with the repeatable fields given by the caller; like every call of it,
  it needs room on the stack.
\<close>

definition message_params :: "nat \<Rightarrow> param_loop" where
  "message_params stack n_fields data par = (case stack of
     0 \<Rightarrow> Inl RecursionError
   | Suc stack \<Rightarrow> dap_loop (decode_param stack) n_fields data par)"

section \<open>\<open>LLRPMessage\<close>\<close>

definition encode_message :: "string \<Rightarrow> mstruct \<Rightarrow> encoder \<Rightarrow> pyval \<Rightarrow> bytes res" where
  "encode_message name msg_info encoder msgitem =
    bindE (py_get msgitem ''Ver'' (PInt 1)) (\<lambda>version.
    let msgtype = pi_type (ms_info msg_info) in
    bindE (if name = ''CUSTOM_MESSAGE'' then py_item msgitem ''VendorID''
           else Inr (PInt (case pi_vendor (ms_info msg_info) of None \<Rightarrow> 0 | Some v \<Rightarrow> v))) (\<lambda>vendorid.
    bindE (if name = ''CUSTOM_MESSAGE'' then py_item msgitem ''Subtype''
           else Inr (PInt (case pi_subtype (ms_info msg_info) of None \<Rightarrow> 0 | Some s \<Rightarrow> s))) (\<lambda>subtype.
    bindE (py_get msgitem ''ID'' (PInt 0)) (\<lambda>msgid.
    bindE (encoder encode_param msgitem (ms_info msg_info)) (\<lambda>data.
    bindE (py_operand version) (\<lambda>version.
    bindE (pack_arg msgid) (\<lambda>msgid.
    bindE (pack_arg vendorid) (\<lambda>vendorid.
    bindE (pack_arg subtype) (\<lambda>subtype.
    bindE (msg_header_encode msgtype version (length data) msgid vendorid subtype) (\<lambda>header.
    Inr (header @ data)))))))))))"

text \<open>\<open>serialize\<close> encodes the first entry of the message dictionary.\<close>

definition serialize :: "pydict \<Rightarrow> bytes res" where
  "serialize msgdict = (case msgdict of
     [] \<Rightarrow> Inl LLRPError
   | (name, msgitem) # _ \<Rightarrow> (case map_of Message_struct name of
       None \<Rightarrow> Inl LLRPError
     | Some msg_info \<Rightarrow> (case ms_encode msg_info of
         None \<Rightarrow> Inl LLRPError
       | Some encoder \<Rightarrow> encode_message name msg_info encoder msgitem)))"

text \<open>The name and decoder of a message type, with the generic custom message as fallback.\<close>

definition message_decoder :: "int \<Rightarrow> int \<Rightarrow> int \<Rightarrow> (string \<times> mdecoder) res" where
  "message_decoder msgtype vendorid subtype =
    bindE (catchE (get_message_name_from_type msgtype vendorid subtype)
      (\<lambda>e. if e = KeyError \<and> msgtype = TYPE_CUSTOM then Some (Inr ''CUSTOM_MESSAGE'') else None)) (\<lambda>name.
    case map_of Message_struct name of None \<Rightarrow> Inl KeyError
    | Some m \<Rightarrow> (case ms_decode m of None \<Rightarrow> Inl KeyError | Some d \<Rightarrow> Inr (name, d)))"

definition deserialize :: "nat \<Rightarrow> bytes \<Rightarrow> (string \<times> pydict) res" where
  "deserialize stack data = (case msg_header_decode data of
     Inl e \<Rightarrow> Inl (if e = ValueError then LLRPError else e)
   | Inr h \<Rightarrow>
     (if mh_length h < mh_hdr_len h then Inl LLRPError
      else if mh_length h > length data then Inl LLRPError
      else case message_decoder (mh_type h) (mh_vendor h) (mh_subtype h) of
        Inl e \<Rightarrow> Inl (if e = KeyError then LLRPError else e)
      | Inr (name, decoder) \<Rightarrow>
        (let body = take (mh_length h - mh_hdr_len h) (drop (mh_hdr_len h) data) in
         case decoder (message_params stack) message_n_fields body name of
           Inl e \<Rightarrow> Inl (if is_LLRPError e then e else if e = ValueError then LLRPError else e)
         | Inr msg \<Rightarrow>
             (let msg = dict_set msg ''Ver'' (PInt (mh_version h));
                  msg = dict_set msg ''Type'' (PInt (mh_type h));
                  msg = dict_set msg ''ID'' (PInt (mh_id h))
              in Inr (name, msg)))))"

text \<open>\<open>isSuccess\<close>; \<open>None\<close>, the answer for a message without status, is falsy like \<open>False\<close>.\<close>

definition isSuccess :: "string \<Rightarrow> pydict \<Rightarrow> bool res" where
  "isSuccess msgName md = catchE
    (if msgName = ''READER_EVENT_NOTIFICATION''
     then bindE (py_item (PDict md) ''ReaderEventNotificationData'') (\<lambda>ev.
       bindE (py_in ''ConnectionAttemptEvent'' ev) (\<lambda>conn.
       if conn then bindE (py_item ev ''ConnectionAttemptEvent'') (\<lambda>x.
            bindE (py_item x ''Status'') (\<lambda>status. Inr (status = PStr ''Success'')))
       else bindE (py_in ''AntennaEvent'' ev) (\<lambda>ant.
         if ant then bindE (py_item ev ''AntennaEvent'') (\<lambda>x.
              bindE (py_item x ''EventType'') (\<lambda>event. Inr (event = PStr ''Connected'')))
         else Inr False)))
     else (case dict_get md ''LLRPStatus'' of
         None \<Rightarrow> Inr False
       | Some st \<Rightarrow> bindE (py_item st ''StatusCode'') (\<lambda>code. Inr (code = PStr ''Success''))))
    (\<lambda>e. if e = KeyError then Some (Inr False) else None)"

section \<open>Failures of \<open>deserialize\<close>\<close>

lemma message_decoders:
  assumes "map_of Message_struct name = Some m" "ms_decode m = Some d"
  shows "d \<in> {decode_generic_message, decode_generic_message_with_status_check, decode_ROAccessReport}"
proof -
  have "list_all (\<lambda>(n, m). ms_decode m \<in> {None, Some decode_generic_message,
      Some decode_generic_message_with_status_check, Some decode_ROAccessReport}) Message_struct_assigned"
    by (simp add: Message_entries)
  moreover obtain m0 where "(name, m0) \<in> set Message_struct_assigned" "ms_decode m = ms_decode m0"
    using assms(1) by (auto simp: Message_struct_def map_of_map_snd Let_def dest: map_of_SomeD)
  ultimately show ?thesis using assms(2) by (fastforce simp: list_all_iff)
qed

lemma message_params_error:
  assumes "lists_ok ns msg" "message_params stack ns data msg = Inl e"
  shows "e = LLRPError \<or> stack \<le> length data \<and> e = RecursionError"
proof (cases stack)
  case (Suc k)
  with assms llrp.dap_loop_registry_error [of ns msg k data e] show ?thesis
    by (auto simp: message_params_def decode_param_def)
qed (use assms in \<open>simp add: message_params_def\<close>)

lemma decode_generic_message_error:
  assumes "decode_generic_message_into msg (message_params stack) message_n_fields data name = Inl e"
    and "map_of Message_struct name = Some m" "msg = [] \<or> msg = [(''TagReportData'', PList [])]"
  shows "e = LLRPError \<or> stack \<le> length data \<and> e = RecursionError"
proof -
  have "lists_ok ns msg" for ns
    using assms(3) by (auto simp: lists_ok_def DECODE_ERROR_PARNAME_def)
  then have "e = LLRPError \<or> stack \<le> length data \<and> e = RecursionError"
    if "message_params stack ns data msg = Inl e" for ns
    using that by (rule message_params_error)
  then show ?thesis
    using assms(1,2)
    by (auto simp: decode_generic_message_into_def message_n_fields_def split: if_splits)
qed

lemma message_decoder_error: "message_decoder t v s = Inl e \<Longrightarrow> e = KeyError"
  by (auto simp: message_decoder_def catchE_def get_message_name_from_type_def
      split: option.splits if_splits)

lemma message_decoder_Inr:
  "message_decoder t v s = Inr (name, d) \<Longrightarrow> \<exists>m. map_of Message_struct name = Some m \<and> ms_decode m = Some d"
  by (auto simp: message_decoder_def res_simps split: option.splits)

lemma message_body_error:
  assumes "map_of Message_struct name = Some m" "ms_decode m = Some d"
    and "d (message_params stack) message_n_fields body name = Inl e"
  shows "e = LLRPError \<or> stack \<le> length body \<and> e = RecursionError"
  using message_decoders [OF assms(1,2)] assms(3)
  by (auto simp: decode_generic_message_def decode_generic_message_with_status_check_def
      decode_ROAccessReport_def res_simps split: if_splits
      dest!: decode_generic_message_error [OF _ assms(1)])

lemma deserialize_error:
  assumes err: "deserialize stack data = Inl e"
  shows "e = LLRPError \<or> stack < length data \<and> e = RecursionError"
proof (cases "msg_header_decode data")
  case (Inl e')
  with err show ?thesis
    using msg_header_decode_error by (auto simp: deserialize_def)
next
  case h: (Inr h)
  show ?thesis
  proof (cases "message_decoder (mh_type h) (mh_vendor h) (mh_subtype h)")
    case (Inl e')
    with err h show ?thesis
      using message_decoder_error by (auto simp: deserialize_def split: if_splits)
  next
    case (Inr nd)
    obtain name d where nd: "nd = (name, d)" by (cases nd)
    with Inr obtain m where m: "map_of Message_struct name = Some m" "ms_decode m = Some d"
      using message_decoder_Inr by blast
    let ?body = "take (mh_length h - mh_hdr_len h) (drop (mh_hdr_len h) data)"
    have "0 < mh_hdr_len h" "mh_hdr_len h \<le> length data"
      using msg_header_decode_bounds [OF h] by (simp_all add: header_len_def)
    then have "length ?body < length data" by simp
    with message_body_error [OF m, of stack ?body] err h Inr nd show ?thesis
      by (auto simp: deserialize_def Let_def is_LLRPError_def split: if_splits sum.splits)
  qed
qed

text \<open>The reverse table, evaluated.\<close>

lemma Message_Type2Name_eq: "Message_Type2Name = [
  ((1, 0, 0), ''GET_READER_CAPABILITIES''),
  ((11, 0, 0), ''GET_READER_CAPABILITIES_RESPONSE''),
  ((2, 0, 0), ''GET_READER_CONFIG''),
  ((12, 0, 0), ''GET_READER_CONFIG_RESPONSE''),
  ((3, 0, 0), ''SET_READER_CONFIG''),
  ((13, 0, 0), ''SET_READER_CONFIG_RESPONSE''),
  ((64, 0, 0), ''ENABLE_EVENTS_AND_REPORTS''),
  ((20, 0, 0), ''ADD_ROSPEC''),
  ((30, 0, 0), ''ADD_ROSPEC_RESPONSE''),
  ((21, 0, 0), ''DELETE_ROSPEC''),
  ((31, 0, 0), ''DELETE_ROSPEC_RESPONSE''),
  ((22, 0, 0), ''START_ROSPEC''),
  ((32, 0, 0), ''START_ROSPEC_RESPONSE''),
  ((23, 0, 0), ''STOP_ROSPEC''),
  ((33, 0, 0), ''STOP_ROSPEC_RESPONSE''),
  ((24, 0, 0), ''ENABLE_ROSPEC''),
  ((34, 0, 0), ''ENABLE_ROSPEC_RESPONSE''),
  ((25, 0, 0), ''DISABLE_ROSPEC''),
  ((35, 0, 0), ''DISABLE_ROSPEC_RESPONSE''),
  ((61, 0, 0), ''RO_ACCESS_REPORT''),
  ((62, 0, 0), ''KEEPALIVE''),
  ((72, 0, 0), ''KEEPALIVE_ACK''),
  ((63, 0, 0), ''READER_EVENT_NOTIFICATION''),
  ((14, 0, 0), ''CLOSE_CONNECTION''),
  ((4, 0, 0), ''CLOSE_CONNECTION_RESPONSE''),
  ((100, 0, 0), ''ERROR_MESSAGE''),
  ((40, 0, 0), ''ADD_ACCESSSPEC''),
  ((50, 0, 0), ''ADD_ACCESSSPEC_RESPONSE''),
  ((41, 0, 0), ''DELETE_ACCESSSPEC''),
  ((51, 0, 0), ''DELETE_ACCESSSPEC_RESPONSE''),
  ((42, 0, 0), ''ENABLE_ACCESSSPEC''),
  ((52, 0, 0), ''ENABLE_ACCESSSPEC_RESPONSE''),
  ((43, 0, 0), ''DISABLE_ACCESSSPEC''),
  ((53, 0, 0), ''DISABLE_ACCESSSPEC_RESPONSE''),
  ((1023, 0, 0), ''CUSTOM_MESSAGE''),
  ((1023, 25882, 21), ''IMPINJ_ENABLE_EXTENSIONS''),
  ((1023, 25882, 22), ''IMPINJ_ENABLE_EXTENSIONS_RESPONSE'')]"
  by code_simp

section \<open>The header of a serialized message\<close>

lemma message_keys:
  "map (\<lambda>(n, m). (info_key (ms_info m), n)) Message_struct_assigned = Message_Type2Name"
  by (simp add: Message_Type2Name_eq info_key_def Message_entries tlv_info_def custom_info_def
      TYPE_CUSTOM_def VENDOR_ID_IMPINJ_def)

lemma message_keys_distinct: "distinct (map fst Message_Type2Name)"
  unfolding Message_Type2Name_eq by simp

text \<open>Every registered message identity fits its header fields and leads back to its name.\<close>

definition message_info_ok :: "pinfo \<Rightarrow> bool" where
  "message_info_ok p \<longleftrightarrow> 0 \<le> pi_type p \<and> pi_type p < 1024 \<and>
    (if pi_type p = TYPE_CUSTOM then pi_vendor p \<noteq> None \<and> pi_subtype p \<noteq> None
     else pi_vendor p = None \<and> pi_subtype p = None)"

lemma message_identities:
  assumes "map_of Message_struct name = Some m" "name \<noteq> ''CUSTOM_MESSAGE''"
  shows "message_info_ok (ms_info m)" "map_of Message_Type2Name (info_key (ms_info m)) = Some name"
proof -
  have ok: "list_all (\<lambda>(n, m). n = ''CUSTOM_MESSAGE'' \<or> message_info_ok (ms_info m)) Message_struct_assigned"
    by (simp add: message_info_ok_def Message_entries tlv_info_def custom_info_def TYPE_CUSTOM_def)
  obtain m0 where m0: "(name, m0) \<in> set Message_struct_assigned"
    "pi_type (ms_info m) = pi_type (ms_info m0)" "pi_vendor (ms_info m) = pi_vendor (ms_info m0)"
    "pi_subtype (ms_info m) = pi_subtype (ms_info m0)"
    using assms(1) by (auto simp: Message_struct_def map_of_map_snd Let_def finish_info_def
        dest!: map_of_SomeD split: if_splits)
  from bspec [OF ok [unfolded list_all_iff] m0(1)] show "message_info_ok (ms_info m)"
    using assms(2) m0 by (simp add: message_info_ok_def)
  have "(info_key (ms_info m), name) \<in> set Message_Type2Name"
    unfolding message_keys [symmetric] using m0 by (force simp: info_key_def)
  then show "map_of Message_Type2Name (info_key (ms_info m)) = Some name"
    using message_keys_distinct by (simp add: map_of_is_SomeI)
qed

lemma encode_message_frame:
  assumes m: "map_of Message_struct name = Some m" and n: "name \<noteq> ''CUSTOM_MESSAGE''"
    and enc: "encode_message name m encoder msgitem = Inr bs"
  shows "\<exists>h msgid. msg_header_decode (bs @ rest) = Inr h \<and> mh_length h = length bs \<and>
    mh_hdr_len h \<le> mh_length h \<and>
    get_message_name_from_type (mh_type h) (mh_vendor h) (mh_subtype h) = Inr name \<and>
    bindE (py_get msgitem ''ID'' (PInt 0)) pack_arg = Inr msgid \<and> mh_id h = msgid"
proof -
  let ?i = "ms_info m"
  define v s where vs: "v = fst (snd (info_key ?i))" "s = snd (snd (info_key ?i))"
  from enc n obtain ver idv msgid data h where
    id: "py_get msgitem ''ID'' (PInt 0) = Inr idv" "pack_arg idv = Inr msgid"
    and h: "msg_header_encode (pi_type ?i) ver (length data) msgid v s = Inr h" and bs: "bs = h @ data"
    by (auto simp: encode_message_def res_simps Let_def info_key_def pack_arg_def vs)
  have ok: "message_info_ok ?i" by (rule message_identities(1) [OF m n])
  then have "pi_type ?i \<noteq> TYPE_CUSTOM \<Longrightarrow> v = 0 \<and> s = 0"
    by (auto simp: message_info_ok_def vs info_key_def split: if_splits)
  with msg_header_encode_decode [OF _ _ _ h, of "data @ rest"] ok
  have dec: "length h = header_len (pi_type ?i)" "msg_header_decode (bs @ rest) = Inr \<lparr>mh_type = pi_type ?i,
      mh_vendor = v, mh_subtype = s, mh_version = take_bit 3 ver, mh_hdr_len = header_len (pi_type ?i),
      mh_length = header_len (pi_type ?i) + length data, mh_id = msgid\<rparr>"
    by (auto simp: message_info_ok_def bs)
  have "get_message_name_from_type (pi_type ?i) v s = Inr name"
    using message_identities(2) [OF m n] by (simp add: get_message_name_from_type_def vs info_key_def)
  with dec id bs show ?thesis by simp
qed

lemma serialize_Inr:
  assumes "serialize ((name, msgitem) # items) = Inr bs"
  obtains m encoder where "map_of Message_struct name = Some m" "ms_encode m = Some encoder"
    "encode_message name m encoder msgitem = Inr bs"
  using assms by (auto simp: serialize_def split: option.splits)

end
