(* ===== verification/Framing.thy ===== *)
theory Framing
  imports LLRP_Message
begin

text \<open>
  \<open>LLRPReaderClient.raw_data_received\<close> of \<^verbatim>\<open>sllurp/llrp.py\<close>: cutting the byte stream of the
  transport into messages.  The state is \<open>expected_bytes\<close> and \<open>partial_data\<close>; a handler stands
  for the two calls that deliver a decoded message and may raise.  \<open>rx_spec\<close> is the abstract
  stream parser; the lemmas show that the buffering implements it, so that the chunking of the
  stream is invisible.
\<close>

section \<open>The receive loop\<close>

record rx_state =
  expected_bytes :: nat
  partial_data :: bytes

type_synonym 's handler = "string \<times> pydict \<Rightarrow> 's \<Rightarrow> 's \<times> py_error option"

definition msg_header_len :: nat where
  "msg_header_len = 10"

text \<open>The total length in the header at the start of at least ten bytes.\<close>

definition declared_length :: "bytes \<Rightarrow> nat" where
  "declared_length data = nat (be_val (take 4 (drop 2 data)))"

definition exceeds :: "nat option \<Rightarrow> nat \<Rightarrow> bool" where
  "exceeds max_size n \<longleftrightarrow> (case max_size of None \<Rightarrow> False | Some m \<Rightarrow> n > m)"

text \<open>The end of \<open>raw_data_received\<close>.\<close>

definition rx_finish :: "rx_state \<Rightarrow> rx_state" where
  "rx_finish c = (if expected_bytes c \<le> 0 then c\<lparr>partial_data := []\<rparr> else c)"

text \<open>The loop; \<open>data\<close> is what is left from \<open>start_pos\<close> on.  An exception leaves the buffers as they are.\<close>

function rx_loop :: "nat \<Rightarrow> nat option \<Rightarrow> 's handler \<Rightarrow> bytes \<Rightarrow> rx_state \<Rightarrow> 's \<Rightarrow> rx_state \<times> 's \<times> py_error option" where
  "rx_loop stack max_size handle data c st =
    (if data = [] then (rx_finish c, st, None)
     else if length data < msg_header_len
     then (rx_finish (c\<lparr>partial_data := data, expected_bytes := msg_header_len\<rparr>), st, None)
     else let msg_len = declared_length data in
       if msg_len < msg_header_len then (c, st, Some LLRPError)
       else if exceeds max_size msg_len then (c, st, Some LLRPError)
       else if length data < msg_len
       then (rx_finish (c\<lparr>partial_data := data, expected_bytes := msg_len\<rparr>), st, None)
       else let c = c\<lparr>expected_bytes := 0\<rparr> in
         case deserialize stack (take msg_len data) of
           Inl e \<Rightarrow> (c, st, Some e)
         | Inr lmsg \<Rightarrow> (case handle lmsg st of
             (st, Some e) \<Rightarrow> (c, st, Some e)
           | (st, None) \<Rightarrow> rx_loop stack max_size handle (drop msg_len data) c st))"
  by pat_completeness auto
termination
  by (relation "measure (\<lambda>(_, _, _, data, _, _). length data)") (auto simp: msg_header_len_def)

declare rx_loop.simps [simp del]

definition raw_data_received ::
  "nat \<Rightarrow> nat option \<Rightarrow> 's handler \<Rightarrow> bytes \<Rightarrow> rx_state \<Rightarrow> 's \<Rightarrow> rx_state \<times> 's \<times> py_error option" where
  "raw_data_received stack max_size handle data c st =
    (if expected_bytes c \<noteq> 0
     then let c = c\<lparr>partial_data := partial_data c @ data\<rparr>; data = partial_data c in
       if length data < expected_bytes c then (c, st, None)
       else rx_loop stack max_size handle data c st
     else rx_loop stack max_size handle data c st)"

text \<open>Successive chunks, as the main loop delivers them; the first exception ends it.\<close>

fun receive_chunks ::
  "nat \<Rightarrow> nat option \<Rightarrow> 's handler \<Rightarrow> bytes list \<Rightarrow> rx_state \<Rightarrow> 's \<Rightarrow> rx_state \<times> 's \<times> py_error option" where
  "receive_chunks stack max_size handle [] c st = (c, st, None)"
| "receive_chunks stack max_size handle (d # ds) c st =
     (case raw_data_received stack max_size handle d c st of
        (c, st, Some e) \<Rightarrow> (c, st, Some e)
      | (c, st, None) \<Rightarrow> receive_chunks stack max_size handle ds c st)"

section \<open>The abstract stream parser\<close>

text \<open>Deliver every complete message; answer the unconsumed rest.\<close>

function rx_spec :: "nat \<Rightarrow> nat option \<Rightarrow> 's handler \<Rightarrow> bytes \<Rightarrow> 's \<Rightarrow> bytes \<times> 's \<times> py_error option" where
  "rx_spec stack max_size handle data st =
    (if length data < msg_header_len then (data, st, None)
     else let msg_len = declared_length data in
       if msg_len < msg_header_len \<or> exceeds max_size msg_len then (data, st, Some LLRPError)
       else if length data < msg_len then (data, st, None)
       else case deserialize stack (take msg_len data) of
           Inl e \<Rightarrow> (data, st, Some e)
         | Inr lmsg \<Rightarrow> (case handle lmsg st of
             (st, Some e) \<Rightarrow> (data, st, Some e)
           | (st, None) \<Rightarrow> rx_spec stack max_size handle (drop msg_len data) st))"
  by pat_completeness auto
termination
  by (relation "measure (\<lambda>(_, _, _, data, _). length data)") (auto simp: msg_header_len_def)

declare rx_spec.simps [simp del]

text \<open>How the buffers hold an unconsumed rest.\<close>

definition buffered :: "bytes \<Rightarrow> rx_state" where
  "buffered rest = (if rest = [] then \<lparr>expected_bytes = 0, partial_data = []\<rparr>
     else \<lparr>expected_bytes = (if length rest < msg_header_len then msg_header_len else declared_length rest),
           partial_data = rest\<rparr>)"

text \<open>A rest in which no complete message is left.\<close>

definition incomplete :: "nat option \<Rightarrow> bytes \<Rightarrow> bool" where
  "incomplete max_size rest \<longleftrightarrow> length rest < msg_header_len \<or>
     msg_header_len \<le> declared_length rest \<and> \<not> exceeds max_size (declared_length rest) \<and>
     length rest < declared_length rest"

lemma declared_length_append: "msg_header_len \<le> length d \<Longrightarrow> declared_length (d @ e) = declared_length d"
  by (simp add: declared_length_def msg_header_len_def)

lemma rx_spec_incomplete: "incomplete max_size rest \<Longrightarrow> rx_spec stack max_size handle rest st = (rest, st, None)"
  by (subst rx_spec.simps) (auto simp: incomplete_def Let_def)

lemma rx_spec_rest:
  "rx_spec stack max_size handle data st = (rest, st', None) \<Longrightarrow> incomplete max_size rest"
proof (induction stack max_size handle data st rule: rx_spec.induct)
  case (1 stack max_size handle data st)
  show ?case
    using "1.prems" "1.IH"
    by (subst (asm) rx_spec.simps [of stack max_size handle data st])
      (auto simp: Let_def incomplete_def split: if_splits sum.splits prod.splits option.splits)
qed

text \<open>The loop computes the abstract result and buffers the rest.\<close>

lemma rx_loop_refines:
  assumes "rx_spec stack max_size handle data st = (rest, st', err)"
    and "data = [] \<Longrightarrow> expected_bytes c = 0"
  shows "\<exists>c'. rx_loop stack max_size handle data c st = (c', st', err) \<and> (err = None \<longrightarrow> c' = buffered rest)"
  using assms
proof (induction stack max_size handle data st arbitrary: c rule: rx_spec.induct)
  case (1 stack max_size handle data st)
  show ?case
  proof (cases "length data < msg_header_len \<or> declared_length data < msg_header_len \<or>
      exceeds max_size (declared_length data) \<or> length data < declared_length data")
    case True
    with "1.prems" show ?thesis
      by (subst rx_loop.simps, subst (asm) rx_spec.simps)
        (auto simp: Let_def rx_finish_def buffered_def msg_header_len_def split: if_splits)
  next
    case False
    let ?n = "declared_length data"
    have ne: "data \<noteq> []" using False by (auto simp: msg_header_len_def)
    show ?thesis
    proof (cases "deserialize stack (take ?n data)")
      case (Inl e)
      with False ne "1.prems" show ?thesis
        by (subst rx_loop.simps, subst (asm) rx_spec.simps) (auto simp: Let_def)
    next
      case (Inr lmsg)
      obtain st1 err1 where h: "handle lmsg st = (st1, err1)" by (cases "handle lmsg st")
      show ?thesis
      proof (cases err1)
        case (Some e)
        with Inr h False ne "1.prems" show ?thesis
          by (subst rx_loop.simps, subst (asm) rx_spec.simps) (auto simp: Let_def)
      next
        case None
        have "rx_spec stack max_size handle (drop ?n data) st1 = (rest, st', err)"
          using "1.prems"(1) Inr h None False
          by (subst (asm) rx_spec.simps) (auto simp: Let_def)
        then obtain c' where "rx_loop stack max_size handle (drop ?n data) (c\<lparr>expected_bytes := 0\<rparr>) st1 = (c', st', err)"
          "err = None \<longrightarrow> c' = buffered rest"
          using "1.IH" [OF _ refl _ _ Inr h [symmetric] None, of "c\<lparr>expected_bytes := 0\<rparr>"] False by auto
        then show ?thesis
          using Inr h None False ne by (subst rx_loop.simps) (auto simp: Let_def)
      qed
    qed
  qed
qed

text \<open>One step of the specification: wait for more, refuse the frame, or take it.\<close>

definition whole_frame :: "nat option \<Rightarrow> bytes \<Rightarrow> bool" where
  "whole_frame max_size data \<longleftrightarrow> msg_header_len \<le> length data \<and> msg_header_len \<le> declared_length data \<and>
     \<not> exceeds max_size (declared_length data) \<and> declared_length data \<le> length data"

lemma rx_spec_wait: "incomplete max_size data \<Longrightarrow> rx_spec stack max_size handle data st = (data, st, None)"
  by (subst rx_spec.simps) (auto simp: incomplete_def Let_def)

lemma rx_spec_refuse:
  "\<not> incomplete max_size data \<Longrightarrow> \<not> whole_frame max_size data \<Longrightarrow>
     rx_spec stack max_size handle data st = (data, st, Some LLRPError)"
  by (subst rx_spec.simps) (auto simp: incomplete_def whole_frame_def Let_def)

lemma rx_spec_take:
  "whole_frame max_size data \<Longrightarrow> rx_spec stack max_size handle data st =
    (case deserialize stack (take (declared_length data) data) of
       Inl e \<Rightarrow> (data, st, Some e)
     | Inr lmsg \<Rightarrow> (case handle lmsg st of
         (st, Some e) \<Rightarrow> (data, st, Some e)
       | (st, None) \<Rightarrow> rx_spec stack max_size handle (drop (declared_length data) data) st))"
  by (subst rx_spec.simps) (auto simp: whole_frame_def Let_def)

lemma frame_append:
  assumes "\<not> incomplete max_size data"
  shows "declared_length (data @ b) = declared_length data" "\<not> incomplete max_size (data @ b)"
    "whole_frame max_size (data @ b) \<longleftrightarrow> whole_frame max_size data"
proof -
  have ge: "msg_header_len \<le> length data" using assms by (simp add: incomplete_def)
  then show dl: "declared_length (data @ b) = declared_length data" by (rule declared_length_append)
  then show "\<not> incomplete max_size (data @ b)" "whole_frame max_size (data @ b) \<longleftrightarrow> whole_frame max_size data"
    using assms ge by (auto simp: incomplete_def whole_frame_def)
qed

text \<open>Parsing a concatenation is parsing the first part and then its rest with the second.\<close>

lemma rx_spec_append:
  "rx_spec stack max_size handle a st = (rest, st', err) \<Longrightarrow>
     (err = None \<longrightarrow> rx_spec stack max_size handle (a @ b) st = rx_spec stack max_size handle (rest @ b) st') \<and>
     (\<forall>e. err = Some e \<longrightarrow> rx_spec stack max_size handle (a @ b) st = (rest @ b, st', Some e))"
proof (induction stack max_size handle a st rule: rx_spec.induct)
  case (1 stack max_size handle data st)
  let ?n = "declared_length data"
  consider (wait) "incomplete max_size data"
    | (refuse) "\<not> incomplete max_size data" "\<not> whole_frame max_size data"
    | (frame) "\<not> incomplete max_size data" "whole_frame max_size data" by blast
  then show ?case
  proof cases
    case wait
    then show ?thesis using "1.prems" by (simp add: rx_spec_wait)
  next
    case refuse
    then show ?thesis
      using "1.prems" frame_append [OF refuse(1), of b] by (auto simp: rx_spec_refuse)
  next
    case frame
    then have n: "\<not> length data < msg_header_len" "\<not> (?n < msg_header_len \<or> exceeds max_size ?n)" "\<not> length data < ?n"
      by (auto simp: whole_frame_def)
    have whole: "whole_frame max_size (data @ b)" using frame_append(3) [OF frame(1)] frame(2) by simp
    note eqs = rx_spec_take [OF whole, of stack handle st, unfolded frame_append(1) [OF frame(1)]] rx_spec_take [OF frame(2), of stack handle st]
    have next_frame: "(err = None \<longrightarrow> rx_spec stack max_size handle (drop ?n data @ b) st1 = rx_spec stack max_size handle (rest @ b) st') \<and>
        (\<forall>e. err = Some e \<longrightarrow> rx_spec stack max_size handle (drop ?n data @ b) st1 = (rest @ b, st', Some e))"
      if "deserialize stack (take ?n data) = Inr lmsg" "handle lmsg st = (st1, None)" for lmsg st1
      using "1.IH" [OF n(1) refl n(2,3) that(1) that(2) [symmetric] refl] "1.prems" that eqs(2) by simp
    show ?thesis
      using "1.prems" next_frame eqs n(3) by (auto split: sum.splits prod.splits option.splits)
  qed
qed

lemma raw_data_refines:
  assumes p: "incomplete max_size p" and spec: "rx_spec stack max_size handle (p @ d) st = (rest, st', err)"
  shows "\<exists>c'. raw_data_received stack max_size handle d (buffered p) st = (c', st', err) \<and>
    (err = None \<longrightarrow> c' = buffered rest)"
proof (cases "p = []")
  case True
  with spec show ?thesis
    using rx_loop_refines [of stack max_size handle d st rest st' err "buffered []"]
    by (simp add: raw_data_received_def buffered_def)
next
  case False
  let ?E = "expected_bytes (buffered p)"
  have E: "?E \<noteq> 0" "partial_data (buffered p) = p"
    using False p by (auto simp: buffered_def msg_header_len_def incomplete_def)
  show ?thesis
  proof (cases "length (p @ d) < ?E")
    case True
    have "incomplete max_size (p @ d)" and b: "buffered (p @ d) = buffered p\<lparr>partial_data := p @ d\<rparr>"
      using True False p
      by (auto simp: buffered_def incomplete_def declared_length_append split: if_splits)
    then have "rest = p @ d" "st' = st" "err = None"
      using spec by (simp_all add: rx_spec_incomplete)
    with True E b show ?thesis by (simp add: raw_data_received_def Let_def)
  next
    case enough: False
    have "\<exists>c'. rx_loop stack max_size handle (p @ d) (buffered p\<lparr>partial_data := p @ d\<rparr>) st = (c', st', err) \<and>
        (err = None \<longrightarrow> c' = buffered rest)"
      using False by (intro rx_loop_refines spec) simp
    with enough E show ?thesis by (simp add: raw_data_received_def Let_def)
  qed
qed

lemma receive_chunks_refines:
  "incomplete max_size p \<Longrightarrow> rx_spec stack max_size handle (p @ concat ds) st = (rest, st', err) \<Longrightarrow>
     \<exists>c'. receive_chunks stack max_size handle ds (buffered p) st = (c', st', err) \<and>
       (err = None \<longrightarrow> c' = buffered rest)"
proof (induction ds arbitrary: p st)
  case Nil
  then show ?case by (simp add: rx_spec_incomplete)
next
  case (Cons d ds)
  obtain r1 st1 e1 where one: "rx_spec stack max_size handle (p @ d) st = (r1, st1, e1)"
    by (metis prod_cases3)
  from raw_data_refines [OF Cons.prems(1) one] obtain c1 where
    c1: "raw_data_received stack max_size handle d (buffered p) st = (c1, st1, e1)" "e1 = None \<longrightarrow> c1 = buffered r1"
    by blast
  note app = rx_spec_append [OF one, of "concat ds"]
  show ?case
  proof (cases e1)
    case (Some e)
    with app Cons.prems(2) c1 show ?thesis by auto
  next
    case None
    then have "incomplete max_size r1" using one rx_spec_rest by metis
    moreover have "rx_spec stack max_size handle (r1 @ concat ds) st1 = (rest, st', err)"
      using app None Cons.prems(2) by simp
    ultimately show ?thesis using Cons.IH c1 None by auto
  qed
qed

section \<open>Delivery\<close>

definition idle :: rx_state where
  "idle = \<lparr>expected_bytes = 0, partial_data = []\<rparr>"

lemma idle_buffered: "idle = buffered []" "incomplete max_size []"
  by (simp_all add: idle_def buffered_def incomplete_def msg_header_len_def)

text \<open>A frame of message \<open>m\<close> within the size limit.\<close>

definition frame_of :: "nat \<Rightarrow> nat option \<Rightarrow> bytes \<Rightarrow> string \<times> pydict \<Rightarrow> bool" where
  "frame_of stack max_size f m \<longleftrightarrow> msg_header_len \<le> length f \<and> declared_length f = length f \<and>
     \<not> exceeds max_size (length f) \<and> deserialize stack f = Inr m"

text \<open>A handler that only records what is delivered.\<close>

definition collect :: "(string \<times> pydict) list handler" where
  "collect m ms = (ms @ [m], None)"

lemma rx_spec_frames:
  "list_all2 (frame_of stack max_size) fs ms \<Longrightarrow> incomplete max_size tail \<Longrightarrow>
     rx_spec stack max_size collect (concat fs @ tail) acc = (tail, acc @ ms, None)"
proof (induction fs ms arbitrary: acc rule: list_all2_induct)
  case Nil
  then show ?case by (simp add: rx_spec_incomplete)
next
  case (Cons f fs m ms)
  note f = Cons.hyps(1) [unfolded frame_of_def]
  have dl: "declared_length (f @ concat fs @ tail) = length f"
    using f by (simp add: declared_length_append)
  have "rx_spec stack max_size collect (concat (f # fs) @ tail) acc =
      rx_spec stack max_size collect (concat fs @ tail) (acc @ [m])"
    using f dl by (subst rx_spec.simps) (simp add: Let_def collect_def)
  with Cons.IH [OF Cons.prems, of "acc @ [m]"] show ?case by simp
qed

lemma declared_length_header: "msg_header_decode data = Inr h \<Longrightarrow> declared_length data = mh_length h"
proof -
  assume dec: "msg_header_decode data = Inr h"
  then have len: "10 \<le> length data"
    by (auto simp: msg_header_decode_def split: if_splits)
  then have u: "struct_unpack msg_header_struct (take 10 data) =
      Inr [unpack1 U16 (take 2 data), be_val (take 4 (drop 2 data)), unpack1 U32 (take 4 (drop 6 data))]"
    by (simp add: struct_unpack_def msg_header_struct_def min_def drop_take unpack1_def Let_def)
  show ?thesis
    using dec len u unfolding msg_header_decode_def declared_length_def
    by (auto simp: Let_def split: if_splits sum.splits list.splits)
qed

end
