(* ===== verification/Wire_Theorems.thy ===== *)
theory Wire_Theorems
  imports Framing
begin

text \<open>
  The properties of the wire layer: the recursion of the parameter decoder and the room it needs
  on the stack, framing, failure behaviour, headers, and the delivery of messages from a chunked
  byte stream.  Each property is followed by the theorem that applies it to a concrete parameter,
  message or stream where it has hypotheses.
\<close>

section \<open>The parameter codec\<close>

text \<open>One call of \<open>decode_all_parameters\<close>: the calls inside have one place less on the stack.\<close>

lemma decode_all_parameters_step:
  "decode_all_parameters 0 data name par = Inl RecursionError"
  "decode_all_parameters (Suc stack) data name par =
     bindE (n_fields_of llrp_registry name) (\<lambda>n_fields. dap_loop (decode_param stack) n_fields data par)"
proof -
  have "decode_param stack = decode_param_with llrp_registry (decode_all_of llrp_registry stack)"
    by (rule ext) (simp add: decode_param_def decode_param_of_def)
  then show "decode_all_parameters 0 data name par = Inl RecursionError"
    "decode_all_parameters (Suc stack) data name par =
       bindE (n_fields_of llrp_registry name) (\<lambda>n_fields. dap_loop (decode_param stack) n_fields data par)"
    by (simp_all add: decode_all_parameters_def decode_all_of.simps)
qed

text \<open>
  C1. \<open>decode_all_parameters\<close> terminates, and the data bounds its recursion: on a stack with room
  for more nested calls than the data has bytes it does not raise \<open>RecursionError\<close>, its result is
  the same on every such stack, and it satisfies the recursion of the source: it looks up the
  repeatable fields of its parameter and then decodes one parameter after the other with
  \<open>decode_param\<close>, whose decoders call it again on the parameter bodies.
\<close>

theorem decode_all_parameters_terminates:
  assumes "no_reserved par" and "length data < stack"
  shows "decode_all_parameters stack data name par \<noteq> Inl RecursionError \<and>
    decode_all_parameters stack data name par = decode_all_parameters (Suc (length data)) data name par \<and>
    decode_all_parameters stack data name par =
      bindE (n_fields_of llrp_registry name) (\<lambda>n_fields. dap_loop (decode_param stack) n_fields data par)"
proof (intro conjI)
  show "decode_all_parameters stack data name par \<noteq> Inl RecursionError"
    using llrp.decode_all_error [OF assms(1), of stack data name RecursionError] assms(2)
    by (auto simp: decode_all_parameters_def)
  show "decode_all_parameters stack data name par = decode_all_parameters (Suc (length data)) data name par"
    unfolding decode_all_parameters_def by (rule llrp.decode_stack_enough) (simp_all add: assms(2))
  obtain k where k: "stack = Suc k" using assms(2) by (cases stack) auto
  have "decode_param_of llrp_registry k d = decode_param_of llrp_registry stack d" if "length d \<le> length data" for d
    by (rule llrp.decode_param_stack_enough) (use that assms(2) k in simp_all)
  then show "decode_all_parameters stack data name par =
      bindE (n_fields_of llrp_registry name) (\<lambda>n_fields. dap_loop (decode_param stack) n_fields data par)"
    by (auto simp: k decode_all_parameters_step decode_param_def intro!: bindE_cong dap_loop_cong)
qed

text \<open>The property for two keepalive bytes, on a stack of three calls.\<close>

theorem decode_all_parameters_terminates_witness:
  "decode_all_parameters 3 [4, 62] '''' [] \<noteq> Inl RecursionError"
  by (rule decode_all_parameters_terminates [THEN conjunct1]) simp_all

lemmas codec_eval = finish_info_def tlv_info_def custom_info_def basic_param_encode_generator_def
  py_item_def py_get_def pack_vals_def pack_arg_def encode_header_def Let_def tlv_par_header_struct_def
  pack1_def in_range_unsigned TYPE_CUSTOM_def be_bytes_numeral

lemma message_entry:
  "map_of Message_struct_assigned n = Some m \<Longrightarrow> n \<noteq> ''GET_READER_CONFIG'' \<Longrightarrow>
     map_of Message_struct n =
       Some (if postprocessed n (ms_info m) then m\<lparr>ms_info := finish_info (ms_info m)\<rparr> else m)"
  by (simp add: Message_struct_def map_of_map_snd Let_def)

lemma keepalive_entries:
  "map_of Message_struct_assigned ''KEEPALIVE'' = Some Msg_KEEPALIVE"
  "map_of Message_struct_assigned ''KEEPALIVE_ACK'' = Some Msg_KEEPALIVE_ACK"
  "map_of Message_Type2Name (62, 0, 0) = Some ''KEEPALIVE''"
  by (simp_all add: Message_struct_assigned_def Message_Type2Name_eq)

lemma keepalive_decoder: "message_decoder 62 0 0 = Inr (''KEEPALIVE'', decode_generic_message)"
  by (simp add: message_decoder_def get_message_name_from_type_def keepalive_entries message_entry
      Msg_KEEPALIVE_def)

text \<open>Parameters of type 244, each the body of the one around it, and what they decode to.\<close>

primrec nested_specs :: "nat \<Rightarrow> bytes" where
  "nested_specs 0 = []"
| "nested_specs (Suc n) =
     projr (struct_pack tlv_par_header_struct [244, int (4 + length (nested_specs n))]) @ nested_specs n"

primrec nested_value :: "nat \<Rightarrow> pydict" where
  "nested_value 0 = []"
| "nested_value (Suc n) = [(''ReaderEventNotificationSpec'', PDict (nested_value n))]"

definition nested_keepalive :: "nat \<Rightarrow> bytes" where
  "nested_keepalive n =
     projr (msg_header_encode 62 1 (length (nested_specs n)) 0 0 0) @ nested_specs n"

lemma notification_spec_entry:
  "map_of Param_struct ''ReaderEventNotificationSpec'' =
     Some (Param_ReaderEventNotificationSpec
       \<lparr>ps_info := finish_info (ps_info Param_ReaderEventNotificationSpec)\<rparr>)"
  "map_of Param_Type2Name (244, 0, 0) = Some ''ReaderEventNotificationSpec''"
proof -
  let ?n = "''ReaderEventNotificationSpec''" and ?e = "Param_ReaderEventNotificationSpec"
  have m: "(?n, ?e) \<in> set (Param_assignments (map_of Param_Type2Name))"
    by (simp add: Param_assignments_def Params_Config_def)
  have f: "filter (\<lambda>(k, m). m = ?n) assigned_keys = [((244, 0, 0), ?n)]"
    by (simp add: assigned_keys_def no_name keys_names) (simp add: keys_Config_def)
  show "map_of Param_struct ?n = Some (?e\<lparr>ps_info := finish_info (ps_info ?e)\<rparr>)"
    unfolding Param_struct_eval(1) [OF m f]
    by (simp add: apply_fixes_def update_entry_def postprocess_def postprocessed_def
        Param_ReaderEventNotificationSpec_def tlv_info_def TYPE_CUSTOM_def)
  show "map_of Param_Type2Name (244, 0, 0) = Some ?n" by (rule Param_struct_eval(2) [OF m f])
qed

lemma nested_specs_Suc:
  assumes "length (nested_specs n) = 4 * n" "4 * Suc n < 65536"
  obtains h where "nested_specs (Suc n) = h @ nested_specs n" "length h = 4"
    "\<And>rest. param_header_decode (h @ rest) = Inr (Some 244, 0, 0, 4, 4 * Suc n)"
proof (rule tlv_header_roundtrip [of 244 "length (nested_specs n)"])
  fix h
  assume "struct_pack tlv_par_header_struct [244, int (4 + length (nested_specs n))] = Inr h" "length h = 4"
    "\<And>rest. param_header_decode (h @ rest) = Inr (Some 244, 0, 0, 4, 4 + length (nested_specs n))"
  then show thesis using assms(1) by (intro that [of h]) simp_all
qed (use assms in \<open>simp_all add: TYPE_CUSTOM_def\<close>)

declare nested_specs.simps [simp del] nested_value.simps [simp del]

lemma nested_specs_length: "4 * n < 65536 \<Longrightarrow> length (nested_specs n) = 4 * n"
proof (induction n)
  case (Suc n)
  then have len: "length (nested_specs n) = 4 * n" by simp
  from len Suc.prems obtain h where "nested_specs (Suc n) = h @ nested_specs n" "length h = 4"
    by (rule nested_specs_Suc)
  with len show ?case by simp
qed (simp add: nested_specs.simps)

lemma nested_specs_header:
  assumes "4 * Suc n < 65536"
  shows "param_header_decode (nested_specs (Suc n)) = Inr (Some 244, 0, 0, 4, 4 * Suc n)"
    "drop 4 (nested_specs (Suc n)) = nested_specs n"
  using assms by (auto intro: nested_specs_Suc [OF nested_specs_length, of n])

lemma decode_nested_param:
  assumes "4 * Suc n < 65536"
  shows "decode_param stack (nested_specs (Suc n)) =
    (case decode_all_parameters stack (nested_specs n) ''ReaderEventNotificationSpec'' [] of
       Inr par \<Rightarrow> Inr (Some (Some ''ReaderEventNotificationSpec'', PDict par, 4 * Suc n))
     | Inl e \<Rightarrow> decode_outcome 244 0 0 ''ReaderEventNotificationSpec'' (nested_specs n) (4 * Suc n) (Inl e))"
proof -
  note h = nested_specs_header [OF assms]
  have l: "length (nested_specs n) = 4 * n" "length (nested_specs (Suc n)) = 4 * Suc n"
    using nested_specs_length [of n] nested_specs_length [of "Suc n"] assms by simp_all
  have "take (4 * Suc n - 4) (drop 4 (nested_specs (Suc n))) = nested_specs n"
    using l(1) by (simp add: h(2))
  then show ?thesis
    unfolding decode_param_def decode_param_of_def decode_param_with_def
    by (simp add: h(1) l falsy_type_def Let_def llrp_registry_def notification_spec_entry
        call_decoder_def Param_ReaderEventNotificationSpec_def decode_all_entry_def
        decode_all_parameters_def decode_outcome_def split: sum.split)
qed

lemma nested_loop:
  assumes "4 * Suc n < 65536" "''ReaderEventNotificationSpec'' \<notin> set ns"
    and all: "decode_all_parameters stack (nested_specs n) ''ReaderEventNotificationSpec'' [] =
      (if stack \<le> n then Inl RecursionError else Inr (nested_value n))"
  shows "dap_loop (decode_param stack) ns (nested_specs (Suc n)) [] =
    (if stack \<le> n then Inl RecursionError else Inr (nested_value (Suc n)))"
proof -
  have len: "length (nested_specs (Suc n)) = 4 * Suc n" by (rule nested_specs_length) (rule assms(1))
  then have "nested_specs (Suc n) \<noteq> []" by auto
  then show ?thesis
    using assms(2) len
    by (subst dap_loop.simps)
      (simp add: decode_nested_param [OF assms(1)] all decode_outcome_def store_param_def
        dap_loop.simps [of _ _ "[]"] nested_value.simps)
qed

lemma decode_all_nested:
  "4 * n < 65536 \<Longrightarrow>
     decode_all_parameters stack (nested_specs n) ''ReaderEventNotificationSpec'' [] =
       (if stack \<le> n then Inl RecursionError else Inr (nested_value n))"
proof (induction n arbitrary: stack)
  case 0
  then show ?case
    by (cases stack) (simp_all add: nested_specs.simps nested_value.simps decode_all_parameters_step n_fields_of_def
        llrp_registry_def notification_spec_entry dap_loop.simps [of _ _ "[]"])
next
  case (Suc n)
  show ?case
  proof (cases stack)
    case 0
    then show ?thesis by (simp add: decode_all_parameters_step)
  next
    case k: (Suc k)
    have ns: "n_fields_of llrp_registry ''ReaderEventNotificationSpec'' =
        Inr [''EventNotificationState'', ''CustomParameter'']"
      by (simp add: n_fields_of_def llrp_registry_def notification_spec_entry finish_info_def Let_def
          Param_ReaderEventNotificationSpec_def tlv_info_def)
    have "dap_loop (decode_param k) [''EventNotificationState'', ''CustomParameter''] (nested_specs (Suc n)) [] =
        (if k \<le> n then Inl RecursionError else Inr (nested_value (Suc n)))"
      by (rule nested_loop) (use Suc in simp_all)
    with ns k show ?thesis
      by (simp add: decode_all_parameters_step)
  qed
qed

text \<open>
  C2. Nothing bounds the nesting of received parameters: a well-formed \<open>KEEPALIVE\<close> of
  \<open>10 + 4 * n\<close> bytes, whose body is \<open>n\<close> parameters each inside the one before, is decoded only
  where the stack has room for more than \<open>n\<close> nested calls of \<open>decode_all_parameters\<close>; on any other
  stack \<open>deserialize\<close> raises \<open>RecursionError\<close>, which is not an \<open>LLRPError\<close>.
\<close>

theorem nested_message_overflows:
  assumes "n < 16384"
  shows "length (nested_keepalive n) = 10 + 4 * n \<and>
    deserialize stack (nested_keepalive n) = (if stack \<le> n then Inl RecursionError
      else Inr (''KEEPALIVE'', nested_value n @ [(''Ver'', PInt 1), (''Type'', PInt 62), (''ID'', PInt 0)]))"
proof -
  have n: "4 * n < 65536" using assms by simp
  have len: "length (nested_specs n) = 4 * n" by (rule nested_specs_length) (rule n)
  obtain h where h: "msg_header_encode 62 1 (4 * n) 0 0 0 = Inr h" "length h = 10"
    "\<And>body. msg_header_decode (h @ body) = Inr \<lparr>mh_type = 62, mh_vendor = 0, mh_subtype = 0,
       mh_version = 1, mh_hdr_len = 10, mh_length = 10 + 4 * n, mh_id = 0\<rparr>"
    using msg_header_roundtrip [of 62 1 "4 * n" 0 0 0] n
    by (auto simp: header_args_ok_def TYPE_CUSTOM_def header_len_def in_range_unsigned)
  have "message_params stack [''CustomParameter''] (nested_specs n) [] =
      (if stack \<le> n then Inl RecursionError else Inr (nested_value n))"
  proof (cases "stack = 0 \<or> n = 0")
    case True
    then show ?thesis by (auto simp: message_params_def nested_specs.simps nested_value.simps dap_loop.simps [of _ _ "[]"] split: nat.split)
  next
    case False
    then obtain k m where "stack = Suc k" "n = Suc m" by (metis not0_implies_Suc)
    with n show ?thesis
      by (simp add: message_params_def nested_loop decode_all_nested)
  qed
  then have "decode_generic_message (message_params stack) message_n_fields (nested_specs n) ''KEEPALIVE'' =
      (if stack \<le> n then Inl RecursionError else Inr (nested_value n))"
    by (simp add: decode_generic_message_def decode_generic_message_into_def message_n_fields_def
        keepalive_entries message_entry Msg_KEEPALIVE_def codec_eval postprocessed_def)
  moreover have "dict_set (dict_set (dict_set (nested_value n) ''Ver'' a) ''Type'' b) ''ID'' c =
      nested_value n @ [(''Ver'', a), (''Type'', b), (''ID'', c)]" for a b c
    by (cases n) (simp_all add: nested_value.simps)
  ultimately show ?thesis
    using h len by (simp add: keepalive_decoder nested_keepalive_def deserialize_def is_LLRPError_def Let_def)
qed

text \<open>The property for a message of about two kilobytes, on a stack with room for 330 calls.\<close>

theorem nested_message_overflows_witness:
  "length (nested_keepalive 500) = 2010 \<and> deserialize 330 (nested_keepalive 500) = Inl RecursionError"
  using nested_message_overflows [of 500 330] by simp

text \<open>
  C3. Framing is inverted exactly: what \<open>encode_param\<close> produced for a registered TLV or vendor
  parameter, followed by any other bytes, is recognised by \<open>decode_param\<close> as that parameter;
  its decoder receives precisely the bytes the encoder wrote, and exactly the encoded length is
  consumed.
\<close>

theorem decode_param_inverts_framing:
  assumes "map_of Param_struct n = Some e" "n \<noteq> ''CustomParameter''"
    and "ps_encode e = Some c" "\<not> pi_tv (ps_info e)" "encode_param n v = Inr bs"
  shows "\<exists>sub. c encode_param v (ps_info e) = Inr sub \<and> length sub < length bs \<and>
     decode_param stack (bs @ rest) =
       decode_outcome (pi_type (ps_info e)) (fst (snd (info_key (ps_info e))))
         (snd (snd (info_key (ps_info e)))) n sub (length bs)
         (call_decoder llrp_registry (decode_all_parameters stack) n sub)"
  using llrp.decode_param_frame [of n e c v bs stack rest] assms
  by (simp add: encode_param_def decode_param_def decode_all_parameters_def llrp_registry_def)

lemma uptime_entry:
  "map_of Param_struct ''Uptime'' = Some (Param_Uptime\<lparr>ps_info := finish_info (ps_info Param_Uptime)\<rparr>)"
  "map_of Param_Type2Name (129, 0, 0) = Some ''Uptime''"
proof -
  have m: "(''Uptime'', Param_Uptime) \<in> set (Param_assignments (map_of Param_Type2Name))"
    by (simp add: Param_assignments_def Params_Capabilities_def)
  have f: "filter (\<lambda>(k, m). m = ''Uptime'') assigned_keys = [((129, 0, 0), ''Uptime'')]"
    by (simp add: assigned_keys_def no_name keys_names) (simp add: keys_Capabilities_def)
  show "map_of Param_struct ''Uptime'' = Some (Param_Uptime\<lparr>ps_info := finish_info (ps_info Param_Uptime)\<rparr>)"
    unfolding Param_struct_eval(1) [OF m f]
    by (simp add: apply_fixes_def update_entry_def postprocess_def postprocessed_def Param_Uptime_def
        tlv_info_def TYPE_CUSTOM_def)
  show "map_of Param_Type2Name (129, 0, 0) = Some ''Uptime''"
    by (rule Param_struct_eval(2) [OF m f])
qed

lemma uptime_encoded:
  "encode_param ''Uptime'' (PDict [(''Microseconds'', PInt 5)]) =
     Inr [0, 129, 0, 12, 0, 0, 0, 0, 0, 0, 0, 5]"
proof -
  let ?v = "PDict [(''Microseconds'', PInt 5)]"
  have "encode_param ''Uptime'' ?v = encode_param_with llrp_registry encode_param ''Uptime'' ?v"
    unfolding encode_param_def by (rule llrp.encode_param_equation)
  then show ?thesis
    by (simp add: encode_param_with_def uptime_entry llrp_registry_def Param_Uptime_def codec_eval)
qed

text \<open>The property at an \<open>Uptime\<close> parameter followed by two foreign bytes.\<close>

theorem decode_param_inverts_framing_witness:
  "\<exists>sub. length sub < length [0, 129, 0, 12, 0, 0, 0, 0, 0, 0, 0, 5 :: byte] \<and>
     decode_param 100 ([0, 129, 0, 12, 0, 0, 0, 0, 0, 0, 0, 5] @ [1, 2]) =
       decode_outcome 129 0 0 ''Uptime'' sub (length [0, 129, 0, 12, 0, 0, 0, 0, 0, 0, 0, 5 :: byte])
         (call_decoder llrp_registry (decode_all_parameters 100) ''Uptime'' sub)"
  using decode_param_inverts_framing [OF uptime_entry(1), of _ "PDict [(''Microseconds'', PInt 5)]"
      "[0, 129, 0, 12, 0, 0, 0, 0, 0, 0, 0, 5]" 100 "[1, 2]"] uptime_encoded
  by (auto simp: Param_Uptime_def finish_info_def tlv_info_def Let_def info_key_def)

text \<open>
  C4. Decoding arbitrary bytes as a parameter answers (no parameter header, or a parameter with
  its name, value and length) or raises \<open>LLRPError\<close> or \<open>RecursionError\<close>, the latter only where
  the stack has room for fewer nested calls than the data has bytes: no other exception of a
  decoder, lookup or conversion leaves \<open>decode_param\<close>.
\<close>

theorem decode_param_errors:
  "case decode_param stack data of
     Inr _ \<Rightarrow> True
   | Inl e \<Rightarrow> e = LLRPError \<or> e = RecursionError \<and> stack < length data"
  using llrp.decode_param_error [of stack data] by (auto simp: decode_param_def split: sum.split)

section \<open>Messages\<close>

text \<open>
  C5. Deserializing arbitrary bytes yields a named message or raises \<open>LLRPError\<close>, or
  \<open>RecursionError\<close> where the stack has room for fewer nested calls than the data has bytes; and a
  message that is returned is complete: its header is well formed, its declared length lies within
  the bytes given, and version, type and ID of the header are entries of the dictionary.
\<close>

theorem deserialize_result:
  "case deserialize stack data of
     Inl e \<Rightarrow> e = LLRPError \<or> e = RecursionError \<and> stack < length data
   | Inr (name, msg) \<Rightarrow> (case msg_header_decode data of
       Inl _ \<Rightarrow> False
     | Inr h \<Rightarrow> mh_hdr_len h \<le> mh_length h \<and> mh_length h \<le> length data \<and>
         map_of Message_struct name \<noteq> None \<and> dict_get msg ''Ver'' = Some (PInt (mh_version h)) \<and>
         dict_get msg ''Type'' = Some (PInt (mh_type h)) \<and> dict_get msg ''ID'' = Some (PInt (mh_id h)))"
proof (cases "deserialize stack data")
  case (Inl e)
  then show ?thesis using deserialize_error by auto
next
  case (Inr r)
  then show ?thesis
    by (cases r)
      (auto simp: deserialize_def Let_def dict_simps dest!: message_decoder_Inr
        split: sum.splits if_splits prod.splits)
qed

text \<open>
  The message header round trip: for every type, version, ID, vendor and subtype in their
  ranges and every body length that fits the length field, encoding succeeds, the header has
  the length of its kind (10, or 15 for vendor messages), and decoding it in front of any body
  gives all fields back, with the total length counted from the header.
\<close>

theorem msg_header_inverse:
  assumes "header_args_ok t ver len msgid vid sub"
  shows "\<exists>h. msg_header_encode t ver len msgid vid sub = Inr h \<and> length h = header_len t \<and>
    (\<forall>body. msg_header_decode (h @ body) = Inr \<lparr>mh_type = t, mh_vendor = vid, mh_subtype = sub,
       mh_version = ver, mh_hdr_len = header_len t, mh_length = header_len t + len, mh_id = msgid\<rparr>)"
  using msg_header_roundtrip [OF assms] by metis

theorem msg_header_inverse_witness:
  "\<exists>h. msg_header_encode TYPE_CUSTOM 2 7 0xFFFFFFFF 25882 21 = Inr h \<and> length h = 15 \<and>
    (\<forall>body. msg_header_decode (h @ body) = Inr \<lparr>mh_type = TYPE_CUSTOM, mh_vendor = 25882,
       mh_subtype = 21, mh_version = 2, mh_hdr_len = 15, mh_length = 22, mh_id = 0xFFFFFFFF\<rparr>)"
  using msg_header_inverse [of TYPE_CUSTOM 2 7 "0xFFFFFFFF" 25882 21]
  by (simp add: header_args_ok_def TYPE_CUSTOM_def header_len_def in_range_unsigned)

text \<open>
  C6. What \<open>serialize\<close> produces for any message but the generic custom one is a frame that the
  receiver cuts off exactly: whatever follows on the stream, the declared length is its own
  length, and its header names the message, carries its ID and spans the frame.
\<close>

theorem serialize_is_frame:
  assumes "serialize ((name, item) # items) = Inr bs" and "name \<noteq> ''CUSTOM_MESSAGE''"
  shows "declared_length (bs @ rest) = length bs \<and>
    (\<exists>h. msg_header_decode (bs @ rest) = Inr h \<and> mh_length h = length bs \<and>
       get_message_name_from_type (mh_type h) (mh_vendor h) (mh_subtype h) = Inr name \<and>
       bindE (py_get item ''ID'' (PInt 0)) pack_arg = Inr (mh_id h))"
  using assms(1)
proof (rule serialize_Inr)
  fix m encoder
  assume m: "map_of Message_struct name = Some m" and enc: "encode_message name m encoder item = Inr bs"
  obtain h where "msg_header_decode (bs @ rest) = Inr h" "mh_length h = length bs"
    "get_message_name_from_type (mh_type h) (mh_vendor h) (mh_subtype h) = Inr name"
    "bindE (py_get item ''ID'' (PInt 0)) pack_arg = Inr (mh_id h)"
    using encode_message_frame [OF m assms(2) enc, of rest] by auto
  then show ?thesis using declared_length_header by auto
qed

lemma keepalive_ack_bytes:
  "serialize [(''KEEPALIVE_ACK'', PDict [(''ID'', PInt 5)])] = Inr [4, 72, 0, 0, 0, 10, 0, 0, 0, 5]"
  by (simp add: serialize_def message_entry keepalive_entries Msg_KEEPALIVE_ACK_def encode_message_def
      basic_param_encode_empty_def msg_header_encode_def py_operand_def postprocessed_def
      msg_header_struct_def codec_eval)

theorem serialize_is_frame_witness:
  "declared_length ([4, 72, 0, 0, 0, 10, 0, 0, 0, 5] @ [4, 62]) = length [4, 72, 0, 0, 0, 10, 0, 0, 0, 5 :: byte]"
  using serialize_is_frame [OF keepalive_ack_bytes, of "[4, 62]"] by simp

section \<open>The byte stream\<close>

text \<open>
  C7. How the transport cuts the stream into chunks cannot be observed: two chunkings of the
  same bytes lead to the same calls of the handler in the same order, to the same handler
  state, to the same exception if there is one, and otherwise to the same buffers.
\<close>

theorem chunking_invisible:
  assumes "concat ds = concat es"
  shows "snd (receive_chunks stack max_size handle ds idle st) = snd (receive_chunks stack max_size handle es idle st) \<and>
    (snd (snd (receive_chunks stack max_size handle ds idle st)) = None \<longrightarrow>
       receive_chunks stack max_size handle ds idle st = receive_chunks stack max_size handle es idle st)"
proof -
  obtain rest st' err where spec: "rx_spec stack max_size handle (concat ds) st = (rest, st', err)"
    by (metis prod_cases3)
  note r = receive_chunks_refines [of max_size "[]" stack handle _ st rest st' err, OF idle_buffered(2)]
  obtain c c' where "receive_chunks stack max_size handle ds idle st = (c, st', err)" "err = None \<longrightarrow> c = buffered rest"
    "receive_chunks stack max_size handle es idle st = (c', st', err)" "err = None \<longrightarrow> c' = buffered rest"
    using r [of ds] r [of es] spec assms by (auto simp: idle_buffered(1))
  then show ?thesis by auto
qed

theorem chunking_invisible_witness:
  "snd (receive_chunks 100 (Some 100) collect [[4, 62, 0], [], [0, 0, 10, 0, 0, 0, 1, 4, 72]] idle []) =
   snd (receive_chunks 100 (Some 100) collect [[4, 62, 0, 0, 0, 10, 0, 0, 0, 1], [4, 72]] idle [])"
  using chunking_invisible [of "[[4, 62, 0], [], [0, 0, 10, 0, 0, 0, 1, 4, 72]]"
      "[[4, 62, 0, 0, 0, 10, 0, 0, 0, 1], [4, 72]]" 100 "Some 100" collect "[]"] by simp

text \<open>
  C8. Delivery is complete and in order: if the stream consists of frames of the messages
  \<open>ms\<close>, each within the size limit, followed by an incomplete rest, then exactly these
  messages are delivered, in order, each once, no exception is raised, and the buffers hold
  the rest, whatever the chunks.
\<close>

theorem delivery:
  assumes "list_all2 (frame_of stack max_size) fs ms" and "incomplete max_size tail"
    and "concat chunks = concat fs @ tail"
  shows "receive_chunks stack max_size collect chunks idle [] = (buffered tail, ms, None)"
proof -
  have "rx_spec stack max_size collect ([] @ concat chunks) [] = (tail, ms, None)"
    using rx_spec_frames [OF assms(1,2), of "[]"] assms(3) by simp
  from receive_chunks_refines [OF idle_buffered(2) this] show ?thesis
    by (simp add: idle_buffered(1))
qed

lemma keepalive_header:
  "msg_header_decode [4, 62, 0, 0, 0, 10, 0, 0, 0, 1] =
     Inr \<lparr>mh_type = 62, mh_vendor = 0, mh_subtype = 0, mh_version = 1, mh_hdr_len = 10, mh_length = 10, mh_id = 1\<rparr>"
proof -
  have "msg_header_encode 62 1 0 1 0 0 = Inr [4, 62, 0, 0, 0, 10, 0, 0, 0, 1]"
    by (simp add: msg_header_encode_def msg_header_struct_def codec_eval)
  from msg_header_encode_decode [OF _ _ _ this, of "[]"] show ?thesis
    by (simp add: TYPE_CUSTOM_def header_len_def)
qed

lemma keepalive_frame:
  "frame_of (Suc k) None [4, 62, 0, 0, 0, 10, 0, 0, 0, 1]
     (''KEEPALIVE'', [(''Ver'', PInt 1), (''Type'', PInt 62), (''ID'', PInt 1)])"
proof -
  have "decode_generic_message (message_params (Suc k)) message_n_fields [] ''KEEPALIVE'' = Inr []"
    by (simp add: decode_generic_message_def decode_generic_message_into_def message_params_def
        message_n_fields_def keepalive_entries message_entry dap_loop.simps [of _ _ "[]"])
  then have "deserialize (Suc k) [4, 62, 0, 0, 0, 10, 0, 0, 0, 1] =
      Inr (''KEEPALIVE'', [(''Ver'', PInt 1), (''Type'', PInt 62), (''ID'', PInt 1)])"
    by (simp add: deserialize_def keepalive_header keepalive_decoder)
  moreover have "declared_length [4, 62, 0, 0, 0, 10, 0, 0, 0, 1] = 10"
    using declared_length_header [OF keepalive_header] by simp
  ultimately show ?thesis by (simp add: frame_of_def msg_header_len_def exceeds_def)
qed

theorem delivery_witness:
  "receive_chunks 100 None collect
     [[4, 62, 0, 0, 0], [10, 0, 0, 0, 1, 4, 62, 0, 0, 0, 10, 0, 0, 0], [1, 4]] idle [] =
   (buffered [4],
    [(''KEEPALIVE'', [(''Ver'', PInt 1), (''Type'', PInt 62), (''ID'', PInt 1)]),
     (''KEEPALIVE'', [(''Ver'', PInt 1), (''Type'', PInt 62), (''ID'', PInt 1)])], None)"
proof (rule delivery)
  show "list_all2 (frame_of 100 None) [[4, 62, 0, 0, 0, 10, 0, 0, 0, 1], [4, 62, 0, 0, 0, 10, 0, 0, 0, 1]]
     [(''KEEPALIVE'', [(''Ver'', PInt 1), (''Type'', PInt 62), (''ID'', PInt 1)]),
      (''KEEPALIVE'', [(''Ver'', PInt 1), (''Type'', PInt 62), (''ID'', PInt 1)])]"
    using keepalive_frame [of 99] by simp
qed (simp_all add: incomplete_def msg_header_len_def)

end
