(* ===== verification/Pending_Registry.thy ===== *)
theory Pending_Registry
  imports Sllurp_Prelude
begin

text \<open>
  \<open>PendingRequestRegistry\<close> of \<^verbatim>\<open>sllurp/llrp_runtime.py\<close>: correlation of responses with
  requests by the exact key (response name, message ID), and the bounded memory of stale keys.

  Each method body runs under the registry's lock and is one step of the model.  A
  \<open>threading.Timer\<close> is armed by \<open>start\<close>, disarmed by \<open>cancel\<close>, and at any time an armed timer
  may fire: its thread then runs \<open>_expire\<close> later, when it gets the lock, and cannot be cancelled
  any more.  The three sets of operations, firings and expiries therefore interleave freely in
  the step relation \<open>registry_step\<close>.
\<close>

section \<open>State\<close>

type_synonym req_key = "string \<times> int"

text \<open>Timers are named by numbers; \<open>'c\<close> is the type of callbacks, \<open>'h\<close> of timeout handlers.\<close>

record 'c pending_request =
  response_name :: string
  message_id :: int
  callback :: "'c option"
  timer :: "nat option"

record ('c, 'h) pending_registry =
  pending :: "(req_key \<times> 'c pending_request) list"
  stale :: "req_key list"
  stale_set :: "req_key set"
  stale_limit :: nat
  armed :: "(nat \<times> req_key \<times> 'h option) list"
  firing :: "(nat \<times> req_key \<times> 'h option) list"
  next_timer :: nat

definition new_registry :: "int \<Rightarrow> ('c, 'h) pending_registry" where
  "new_registry limit = \<lparr>pending = [], stale = [], stale_set = {}, stale_limit = nat (max 1 limit),
     armed = [], firing = [], next_timer = 0\<rparr>"

section \<open>Operations\<close>

text \<open>\<open>while len(self._stale) > self._stale_limit\<close>: forget from the front.\<close>

fun trim_stale :: "nat \<Rightarrow> req_key list \<Rightarrow> req_key set \<Rightarrow> req_key list \<times> req_key set" where
  "trim_stale limit [] S = ([], S)"
| "trim_stale limit (k # ks) S =
     (if length (k # ks) > limit then trim_stale limit ks (S - {k}) else (k # ks, S))"

definition remember_stale :: "req_key \<Rightarrow> ('c, 'h) pending_registry \<Rightarrow> ('c, 'h) pending_registry" where
  "remember_stale key r =
    (if key \<in> stale_set r then r
     else let (ks, S) = trim_stale (stale_limit r) (stale r @ [key]) (insert key (stale_set r))
       in r\<lparr>stale := ks, stale_set := S\<rparr>)"

definition register :: "string \<Rightarrow> int \<Rightarrow> 'c option \<Rightarrow> rat option \<Rightarrow> 'h option \<Rightarrow> ('c, 'h) pending_registry \<Rightarrow>
    (('c, 'h) pending_registry \<times> 'c pending_request) res" where
  "register name mid cb timeout on_timeout r =
    (let key = (name, mid) in
     if dict_get (pending r) key \<noteq> None then Inl ValueError
     else let
       req = \<lparr>response_name = name, message_id = mid, callback = cb, timer = None\<rparr>;
       r = r\<lparr>pending := dict_set (pending r) key req\<rparr>;
       r = r\<lparr>stale_set := stale_set r - {key}\<rparr>;
       r = r\<lparr>stale := (if key \<in> set (stale r) then remove1 key (stale r) else stale r)\<rparr>
     in if timeout = None then Inr (r, req)
     else let t = next_timer r; req = req\<lparr>timer := Some t\<rparr> in
       Inr (r\<lparr>pending := dict_set (pending r) key req, armed := dict_set (armed r) t (key, on_timeout),
              next_timer := Suc t\<rparr>, req))"

text \<open>\<open>if pending.timer is not None: pending.timer.cancel(); pending.timer = None\<close>\<close>

definition cancel_timer :: "'c pending_request \<Rightarrow> ('c, 'h) pending_registry \<Rightarrow>
    ('c, 'h) pending_registry \<times> 'c pending_request" where
  "cancel_timer req r = (case timer req of None \<Rightarrow> (r, req)
     | Some t \<Rightarrow> (r\<lparr>armed := dict_pop (armed r) t\<rparr>, req\<lparr>timer := None\<rparr>))"

text \<open>The locked part of \<open>_expire\<close>; a result calls the timeout handler on the request.\<close>

definition expire :: "req_key \<Rightarrow> ('c, 'h) pending_registry \<Rightarrow>
    ('c, 'h) pending_registry \<times> 'c pending_request option" where
  "expire key r = (case dict_get (pending r) key of
     None \<Rightarrow> (r, None)
   | Some req \<Rightarrow> (remember_stale key (r\<lparr>pending := dict_pop (pending r) key\<rparr>), Some (req\<lparr>timer := None\<rparr>)))"

definition cancel :: "string \<Rightarrow> int \<Rightarrow> bool \<Rightarrow> ('c, 'h) pending_registry \<Rightarrow>
    ('c, 'h) pending_registry \<times> 'c pending_request option" where
  "cancel name mid remember r =
    (let key = (name, mid) in
     case dict_get (pending r) key of
       None \<Rightarrow> (r, None)
     | Some req \<Rightarrow> (let (r, req) = cancel_timer req (r\<lparr>pending := dict_pop (pending r) key\<rparr>)
         in (if remember then remember_stale key r else r, Some req)))"

text \<open>\<open>pop\<close>.\<close>

definition pop_request :: "string \<Rightarrow> int \<Rightarrow> ('c, 'h) pending_registry \<Rightarrow>
    ('c, 'h) pending_registry \<times> 'c pending_request option" where
  "pop_request name mid r =
    (let key = (name, mid) in
     case dict_get (pending r) key of
       None \<Rightarrow> (r, None)
     | Some req \<Rightarrow> (let (r, req) = cancel_timer req (r\<lparr>pending := dict_pop (pending r) key\<rparr>)
         in (remember_stale key r, Some req)))"

definition pop_response_type :: "string \<Rightarrow> ('c, 'h) pending_registry \<Rightarrow>
    ('c, 'h) pending_registry \<times> 'c pending_request option" where
  "pop_response_type name r =
    (case filter (\<lambda>(key, _). fst key = name) (pending r) of
       [(key, req)] \<Rightarrow> (let (r, req) = cancel_timer req (r\<lparr>pending := dict_pop (pending r) key\<rparr>)
         in (remember_stale key r, Some req))
     | _ \<Rightarrow> (r, None))"

text \<open>The loop of \<open>cancel_all\<close> over the values.\<close>

fun cancel_values :: "bool \<Rightarrow> 'c pending_request list \<Rightarrow> ('c, 'h) pending_registry \<Rightarrow>
    ('c, 'h) pending_registry \<times> 'c pending_request list" where
  "cancel_values remember [] r = (r, [])"
| "cancel_values remember (req # reqs) r =
    (let (r, req) = cancel_timer req r;
         r = (if remember then remember_stale (response_name req, message_id req) r else r);
         (r, reqs) = cancel_values remember reqs r
     in (r, req # reqs))"

definition cancel_all :: "bool \<Rightarrow> ('c, 'h) pending_registry \<Rightarrow>
    ('c, 'h) pending_registry \<times> 'c pending_request list" where
  "cancel_all remember r =
    (let (r, vals) = cancel_values remember (map snd (pending r)) (r\<lparr>pending := []\<rparr>)
     in (if remember then r else r\<lparr>stale := [], stale_set := {}\<rparr>, vals))"

definition contains :: "string \<Rightarrow> int \<Rightarrow> ('c, 'h) pending_registry \<Rightarrow> bool" where
  "contains name mid r \<longleftrightarrow> dict_get (pending r) (name, mid) \<noteq> None"

definition has_response_type :: "string \<Rightarrow> ('c, 'h) pending_registry \<Rightarrow> bool" where
  "has_response_type name r \<longleftrightarrow> list_ex (\<lambda>(key, _). fst key = name) (pending r)"

definition is_stale :: "string \<Rightarrow> int \<Rightarrow> ('c, 'h) pending_registry \<Rightarrow> bool" where
  "is_stale name mid r \<longleftrightarrow> (name, mid) \<in> stale_set r"

definition pending_count :: "('c, 'h) pending_registry \<Rightarrow> nat" where
  "pending_count r = length (pending r)"

section \<open>Interleaved executions\<close>

text \<open>An armed timer fires: its thread is now past \<open>cancel\<close>.\<close>

definition fire :: "nat \<Rightarrow> ('c, 'h) pending_registry \<Rightarrow> ('c, 'h) pending_registry" where
  "fire t r = (case dict_get (armed r) t of None \<Rightarrow> r
     | Some x \<Rightarrow> r\<lparr>armed := dict_pop (armed r) t, firing := firing r @ [(t, x)]\<rparr>)"

text \<open>The thread of the \<open>i\<close>-th fired timer gets the lock.\<close>

definition run_expiry :: "nat \<Rightarrow> ('c, 'h) pending_registry \<Rightarrow>
    ('c, 'h) pending_registry \<times> 'c pending_request option" where
  "run_expiry i r = (case firing r ! i of (t, key, _) \<Rightarrow>
     expire key (r\<lparr>firing := take i (firing r) @ drop (Suc i) (firing r)\<rparr>))"

inductive registry_step :: "('c, 'h) pending_registry \<Rightarrow> ('c, 'h) pending_registry \<Rightarrow> bool" where
  step_register: "register n m cb tmo h r = Inr (r', req) \<Longrightarrow> registry_step r r'"
| step_pop: "pop_request n m r = (r', res) \<Longrightarrow> registry_step r r'"
| step_pop_type: "pop_response_type n r = (r', res) \<Longrightarrow> registry_step r r'"
| step_cancel: "cancel n m b r = (r', res) \<Longrightarrow> registry_step r r'"
| step_cancel_all: "cancel_all b r = (r', vals) \<Longrightarrow> registry_step r r'"
| step_fire: "registry_step r (fire t r)"
| step_expire: "i < length (firing r) \<Longrightarrow> run_expiry i r = (r', res) \<Longrightarrow> registry_step r r'"

inductive registry_reachable :: "int \<Rightarrow> ('c, 'h) pending_registry \<Rightarrow> bool" for limit where
  reach_new: "registry_reachable limit (new_registry limit)"
| reach_step: "registry_reachable limit r \<Longrightarrow> registry_step r r' \<Longrightarrow> registry_reachable limit r'"

inductive_cases registry_stepE: "registry_step r r'"

section \<open>The stale memory\<close>

lemma trim_stale_eq:
  "trim_stale limit ks S = (drop (length ks - limit) ks, S - set (take (length ks - limit) ks))"
  by (induction ks arbitrary: S) (auto simp: Suc_diff_le)

definition stale_ok :: "('c, 'h) pending_registry \<Rightarrow> bool" where
  "stale_ok r \<longleftrightarrow> distinct (stale r) \<and> set (stale r) = stale_set r \<and>
     length (stale r) \<le> stale_limit r \<and> 1 \<le> stale_limit r"

text \<open>The last \<open>n\<close> elements of a list.\<close>

definition last_of :: "nat \<Rightarrow> 'a list \<Rightarrow> 'a list" where
  "last_of n xs = drop (length xs - n) xs"

text \<open>The memory is a first-in first-out queue of bounded length without duplicates.\<close>

lemma remember_stale_fifo:
  assumes "stale_ok r"
  shows "stale (remember_stale key r) =
    (if key \<in> set (stale r) then stale r else last_of (stale_limit r) (stale r @ [key]))"
  using assms by (simp add: remember_stale_def trim_stale_eq stale_ok_def last_of_def Let_def)

lemma set_drop_distinct: "distinct xs \<Longrightarrow> set (drop n xs) = set xs - set (take n xs)"
proof -
  assume "distinct xs"
  then have "distinct (take n xs @ drop n xs)" by simp
  moreover have "set xs = set (take n xs @ drop n xs)" by simp
  ultimately show ?thesis by (auto simp del: append_take_drop_id)
qed

lemma remember_stale_new:
  assumes "stale_ok r" "key \<notin> stale_set r"
  shows "stale (remember_stale key r) = last_of (stale_limit r) (stale r @ [key])"
    "stale_set (remember_stale key r) = set (last_of (stale_limit r) (stale r @ [key]))"
proof -
  have "distinct (stale r @ [key])" "insert key (stale_set r) = set (stale r @ [key])"
    using assms by (auto simp: stale_ok_def)
  then show "stale_set (remember_stale key r) = set (last_of (stale_limit r) (stale r @ [key]))"
    using assms(2) set_drop_distinct [of "stale r @ [key]"]
    by (simp add: remember_stale_def trim_stale_eq Let_def last_of_def del: take_append drop_append)
qed (use assms in \<open>simp add: remember_stale_def trim_stale_eq Let_def last_of_def\<close>)

lemma set_last_of: "set (last_of n xs) \<subseteq> set xs"
  by (simp add: last_of_def set_drop_subset)

lemma remember_stale_ok:
  assumes "stale_ok r"
  shows "stale_ok (remember_stale key r)" "key \<in> stale_set (remember_stale key r)"
    "stale_set (remember_stale key r) \<subseteq> insert key (stale_set r)"
proof -
  note inv = assms [unfolded stale_ok_def]
  have "stale_ok (remember_stale key r) \<and> key \<in> stale_set (remember_stale key r) \<and>
    stale_set (remember_stale key r) \<subseteq> insert key (stale_set r)"
  proof (cases "key \<in> stale_set r")
    case True
    with assms show ?thesis by (auto simp: remember_stale_def)
  next
    case False
    note new = remember_stale_new [OF assms this]
    have "stale_limit (remember_stale key r) = stale_limit r"
      by (simp add: remember_stale_def split: prod.splits)
    with new False inv show ?thesis
      using set_last_of [of "stale_limit r" "stale r @ [key]"]
      by (auto simp: stale_ok_def last_of_def distinct_drop dest: in_set_dropD)
  qed
  then show "stale_ok (remember_stale key r)" "key \<in> stale_set (remember_stale key r)"
    "stale_set (remember_stale key r) \<subseteq> insert key (stale_set r)" by simp_all
qed

lemma remember_stale_frame [simp]:
  "pending (remember_stale key r) = pending r" "armed (remember_stale key r) = armed r"
  "firing (remember_stale key r) = firing r" "next_timer (remember_stale key r) = next_timer r"
  "stale_limit (remember_stale key r) = stale_limit r"
  by (simp_all add: remember_stale_def split: prod.splits)

section \<open>The invariant\<close>

text \<open>Keys are unique and name their request; no pending key counts as stale.\<close>

definition pending_ok :: "('c, 'h) pending_registry \<Rightarrow> bool" where
  "pending_ok r \<longleftrightarrow> distinct (map fst (pending r)) \<and>
     (\<forall>(key, req) \<in> set (pending r). key = (response_name req, message_id req)) \<and>
     (\<forall>(key, req) \<in> set (pending r). key \<notin> stale_set r)"

text \<open>Every request with a timeout is watched by a timer for its own key.\<close>

definition timers_ok :: "('c, 'h) pending_registry \<Rightarrow> bool" where
  "timers_ok r \<longleftrightarrow>
     (\<forall>(key, req) \<in> set (pending r). \<forall>t. timer req = Some t \<longrightarrow>
        (\<exists>h. (t, key, h) \<in> set (armed r) \<union> set (firing r))) \<and>
     distinct (map fst (armed r @ firing r)) \<and>
     (\<forall>t \<in> fst ` set (armed r @ firing r). t < next_timer r)"

definition registry_ok :: "int \<Rightarrow> ('c, 'h) pending_registry \<Rightarrow> bool" where
  "registry_ok limit r \<longleftrightarrow>
     stale_limit r = nat (max 1 limit) \<and> stale_ok r \<and> pending_ok r \<and> timers_ok r"

lemma new_registry_ok: "registry_ok limit (new_registry limit)"
  by (simp add: registry_ok_def new_registry_def stale_ok_def pending_ok_def timers_ok_def)

lemma remember_stale_registry_ok:
  assumes "registry_ok limit r" "dict_get (pending r) key = None"
  shows "registry_ok limit (remember_stale key r)"
proof -
  have ok: "stale_ok r" "pending_ok r" "timers_ok r" using assms(1) by (simp_all add: registry_ok_def)
  have "k \<notin> stale_set (remember_stale key r)" if "(k, q) \<in> set (pending r)" for k q
  proof -
    have "k \<notin> stale_set r" using that ok(2) unfolding pending_ok_def by fast
    moreover have "k \<noteq> key" using that assms(2) by (metis map_of_eq_None_iff fst_conv image_eqI)
    ultimately show ?thesis using remember_stale_ok(3) [OF ok(1), of key] by blast
  qed
  then have "pending_ok (remember_stale key r)"
    using ok(2) by (auto simp: pending_ok_def)
  moreover have "timers_ok (remember_stale key r)" using ok(3) by (simp add: timers_ok_def)
  ultimately show ?thesis
    using assms(1) remember_stale_ok(1) [OF ok(1)] by (simp add: registry_ok_def)
qed

text \<open>Removing a request together with its timer.\<close>

lemma set_dict_pop: "set (dict_pop d k) = {x \<in> set d. fst x \<noteq> k}"
  by (induction d) auto

lemma distinct_map_fst_filter: "distinct (map fst xs) \<Longrightarrow> distinct (map fst (filter P xs))"
  by (simp add: distinct_map_filter)

lemma dict_pop_ok:
  assumes "registry_ok limit r"
  shows "registry_ok limit (r\<lparr>pending := dict_pop (pending r) key\<rparr>)"
proof -
  have "pending_ok (r\<lparr>pending := dict_pop (pending r) key\<rparr>)"
    using assms by (auto simp: registry_ok_def pending_ok_def set_dict_pop intro: distinct_delete)
  moreover have "timers_ok (r\<lparr>pending := dict_pop (pending r) key\<rparr>)"
    using assms by (simp add: registry_ok_def timers_ok_def set_dict_pop)
  ultimately show ?thesis using assms by (simp add: registry_ok_def stale_ok_def)
qed

lemma timers_ok_disarm:
  assumes "timers_ok r" and unused: "\<And>k q. (k, q) \<in> set (pending r) \<Longrightarrow> timer q \<noteq> Some t"
  shows "timers_ok (r\<lparr>armed := dict_pop (armed r) t\<rparr>)"
proof -
  have "\<exists>h. (u, k, h) \<in> set (dict_pop (armed r) t) \<union> set (firing r)"
    if "(k, q) \<in> set (pending r)" "timer q = Some u" for k q u
  proof -
    have "u \<noteq> t" using unused that by blast
    moreover have "\<exists>h. (u, k, h) \<in> set (armed r) \<union> set (firing r)"
      using assms(1) that unfolding timers_ok_def by fast
    ultimately show ?thesis by (auto simp: set_dict_pop)
  qed
  moreover have "distinct (map fst (dict_pop (armed r) t @ firing r))"
    using assms(1) by (auto simp: timers_ok_def set_dict_pop intro: distinct_delete)
  ultimately show ?thesis
    using assms(1) by (auto simp: timers_ok_def set_dict_pop)
qed

lemma cancel_timer_ok:
  assumes ok: "registry_ok limit r"
    and unused: "\<And>t k q. timer req = Some t \<Longrightarrow> (k, q) \<in> set (pending r) \<Longrightarrow> timer q \<noteq> Some t"
    and c: "cancel_timer req r = (r', req')"
  shows "registry_ok limit r' \<and> pending r' = pending r \<and> stale_set r' = stale_set r \<and>
    timer req' = None \<and> response_name req' = response_name req \<and> message_id req' = message_id req \<and>
    callback req' = callback req"
proof (cases "timer req")
  case None
  with ok c show ?thesis by (auto simp: cancel_timer_def)
next
  case (Some t)
  then have r': "r' = r\<lparr>armed := dict_pop (armed r) t\<rparr>" "req' = req\<lparr>timer := None\<rparr>"
    using c by (auto simp: cancel_timer_def)
  have "timers_ok r'"
    using ok unused [OF Some] unfolding r' registry_ok_def by (blast intro: timers_ok_disarm)
  with ok show ?thesis by (simp add: r' registry_ok_def stale_ok_def pending_ok_def)
qed

lemma pending_timer_unique:
  assumes ok: "registry_ok limit r" and "(k, q) \<in> set (pending r)" "(k', q') \<in> set (pending r)"
    and "timer q = Some t" "timer q' = Some t"
  shows "k = k'"
proof -
  have "\<exists>h. (t, k, h) \<in> set (armed r @ firing r)" "\<exists>h. (t, k', h) \<in> set (armed r @ firing r)"
    using assms unfolding registry_ok_def timers_ok_def set_append by fast+
  moreover have "distinct (map fst (armed r @ firing r))"
    using ok by (simp add: registry_ok_def timers_ok_def)
  ultimately show ?thesis by (meson eq_key_imp_eq_value prod.inject)
qed

text \<open>Common part of \<open>pop\<close>, \<open>pop_response_type\<close> and \<open>cancel\<close>.\<close>

lemma take_request:
  assumes ok: "registry_ok limit r" and get: "dict_get (pending r) key = Some req"
    and c: "cancel_timer req (r\<lparr>pending := dict_pop (pending r) key\<rparr>) = (r1, req1)"
  shows "registry_ok limit r1 \<and> registry_ok limit (remember_stale key r1) \<and>
    pending r1 = dict_pop (pending r) key \<and> timer req1 = None \<and>
    (response_name req1, message_id req1) = key \<and> callback req1 = callback req"
proof -
  have mem: "(key, req) \<in> set (pending r)" using get by (rule map_of_SomeD)
  then have key: "key = (response_name req, message_id req)"
    using ok by (auto simp: registry_ok_def pending_ok_def)
  have "timer q \<noteq> Some t" if "timer req = Some t" "(k, q) \<in> set (pending (r\<lparr>pending := dict_pop (pending r) key\<rparr>))" for t k q
    using that pending_timer_unique [OF ok mem _ that(1), of k q] by (auto simp: set_dict_pop)
  from cancel_timer_ok [OF dict_pop_ok [OF ok] this c] key show ?thesis
    by (auto simp: remember_stale_registry_ok delete_conv)
qed

section \<open>Every step keeps the invariant\<close>

lemma pop_request_cases:
  assumes ok: "registry_ok limit r"
  obtains (unmatched) "dict_get (pending r) (n, m) = None" "pop_request n m r = (r, None)" "cancel n m b r = (r, None)"
  | (matched) req r1 req1 where "dict_get (pending r) (n, m) = Some req"
      "pop_request n m r = (remember_stale (n, m) r1, Some req1)"
      "cancel n m b r = (if b then remember_stale (n, m) r1 else r1, Some req1)"
      "registry_ok limit r1" "registry_ok limit (remember_stale (n, m) r1)"
      "pending r1 = dict_pop (pending r) (n, m)" "stale_set r1 = stale_set r" "timer req1 = None"
      "response_name req1 = n" "message_id req1 = m" "callback req1 = callback req"
proof (cases "dict_get (pending r) (n, m)")
  case None
  then show ?thesis by (intro unmatched) (simp_all add: pop_request_def cancel_def)
next
  case (Some req)
  obtain r1 req1 where c: "cancel_timer req (r\<lparr>pending := dict_pop (pending r) (n, m)\<rparr>) = (r1, req1)"
    by fastforce
  have st: "stale_set r1 = stale_set r" using c by (auto simp: cancel_timer_def split: option.splits)
  from take_request [OF ok Some c] Some c st show ?thesis
    by (intro matched [of req r1 req1]) (simp_all add: pop_request_def cancel_def)
qed

lemma pop_request_ok: "registry_ok limit r \<Longrightarrow> pop_request n m r = (r', res) \<Longrightarrow> registry_ok limit r'"
  by (cases rule: pop_request_cases [of limit r n m]) simp_all

lemma cancel_ok: "registry_ok limit r \<Longrightarrow> cancel n m b r = (r', res) \<Longrightarrow> registry_ok limit r'"
  by (cases rule: pop_request_cases [of limit r n m b]) (auto split: if_splits)

text \<open>A sole match of its type is what an exact pop would return.\<close>

lemma pop_response_type_eq:
  assumes "registry_ok limit r"
  shows "pop_response_type n r = (case filter (\<lambda>(key, _). fst key = n) (pending r) of
    [(key, req)] \<Rightarrow> pop_request (fst key) (snd key) r | _ \<Rightarrow> (r, None))"
proof -
  have "dict_get (pending r) key = Some req" if "filter (\<lambda>(key, _). fst key = n) (pending r) = [(key, req)]" for key req
  proof -
    have "(key, req) \<in> set (filter (\<lambda>(key, _). fst key = n) (pending r))" using that by simp
    then show ?thesis using assms by (simp add: registry_ok_def pending_ok_def)
  qed
  then show ?thesis
    by (auto simp: pop_response_type_def pop_request_def Let_def split: list.split)
qed

lemma pop_response_type_ok:
  "registry_ok limit r \<Longrightarrow> pop_response_type n r = (r', res) \<Longrightarrow> registry_ok limit r'"
  by (auto simp: pop_response_type_eq dest: pop_request_ok split: list.splits)

lemma expire_ok: "registry_ok limit r \<Longrightarrow> expire key r = (r', res) \<Longrightarrow> registry_ok limit r'"
  by (auto simp: expire_def intro!: remember_stale_registry_ok dict_pop_ok simp: delete_conv
      split: option.splits)

text \<open>Registering.\<close>

lemma remove1_stale_ok:
  assumes "stale_ok r"
  shows "stale_ok (r\<lparr>stale := remove1 key (stale r), stale_set := stale_set r - {key}\<rparr>)"
  using assms by (auto simp: stale_ok_def length_remove1)

text \<open>The effect of \<open>register\<close> in one equation.\<close>

lemma register_eq:
  assumes "stale_ok r"
  shows "register n m cb tmo h r =
    (if dict_get (pending r) (n, m) \<noteq> None then Inl ValueError
     else let
       req = \<lparr>response_name = n, message_id = m, callback = cb,
         timer = (if tmo = None then None else Some (next_timer r))\<rparr>;
       r1 = r\<lparr>pending := pending r @ [((n, m), req)], stale := remove1 (n, m) (stale r),
         stale_set := stale_set r - {(n, m)}\<rparr>
     in Inr (if tmo = None then r1
       else r1\<lparr>armed := dict_set (armed r) (next_timer r) ((n, m), h), next_timer := Suc (next_timer r)\<rparr>, req))"
proof (cases "dict_get (pending r) (n, m)")
  case None
  then have new: "(n, m) \<notin> fst ` set (pending r)" by (simp add: map_of_eq_None_iff)
  have "dict_set (pending r) (n, m) q = pending r @ [((n, m), q)]"
    "dict_set (pending r @ [((n, m), p)]) (n, m) q = pending r @ [((n, m), q)]" for p q
    using new by (simp_all add: dict_set_new dict_set_append_new)
  moreover have "(if k \<in> set ks then remove1 k ks else ks) = remove1 k ks" for k :: req_key and ks
    by (simp add: remove1_idem)
  ultimately show ?thesis
    using None by (simp add: register_def Let_def)
qed (simp add: register_def)

lemma register_ok:
  assumes ok: "registry_ok limit r" and reg: "register n m cb tmo h r = Inr (r', req)"
  shows "registry_ok limit r'"
proof -
  let ?k = "(n, m)" and ?t = "next_timer r"
  note parts = ok [unfolded registry_ok_def]
  have new: "?k \<notin> fst ` set (pending r)" using reg parts
    by (auto simp: register_eq map_of_eq_None_iff split: if_splits)
  have lt: "\<forall>t \<in> fst ` set (armed r @ firing r). t < ?t" using parts by (auto simp only: timers_ok_def)
  have "?t \<notin> fst ` set (armed r @ firing r)" using lt by (meson less_irrefl)
  then have fresh: "?t \<notin> fst ` set (armed r)" "?t \<notin> fst ` set (firing r)" by (simp_all add: image_Un)
  have r': "pending r' = pending r @ [(?k, req)]" "response_name req = n" "message_id req = m"
    "stale r' = remove1 ?k (stale r)" "stale_set r' = stale_set r - {?k}" "firing r' = firing r"
    "stale_limit r' = stale_limit r"
    "tmo = None \<Longrightarrow> armed r' = armed r \<and> next_timer r' = ?t \<and> timer req = None"
    "tmo \<noteq> None \<Longrightarrow> armed r' = armed r @ [(?t, ?k, h)] \<and> next_timer r' = Suc ?t \<and> timer req = Some ?t"
    using reg parts fresh by (auto simp: register_eq dict_set_new Let_def split: if_splits)
  have "stale_ok r'"
    using remove1_stale_ok [of r ?k] parts by (simp add: stale_ok_def r')
  moreover have "pending_ok r'"
    using parts new by (auto simp: pending_ok_def r')
  moreover have "timers_ok r'"
  proof -
    have sub: "set (armed r) \<subseteq> set (armed r')" using r'(8,9) by (cases "tmo = None") auto
    have "\<exists>h. (t, k, h) \<in> set (armed r') \<union> set (firing r')"
      if mem: "(k, q) \<in> set (pending r')" and tq: "timer q = Some t" for k q t
    proof (cases "(k, q) \<in> set (pending r)")
      case True
      then have "\<exists>h. (t, k, h) \<in> set (armed r) \<union> set (firing r)"
        using tq parts unfolding timers_ok_def by fast
      then show ?thesis using sub r'(6) by auto
    next
      case False
      then have "k = ?k" "q = req" using mem r'(1) by auto
      then show ?thesis using tq r'(8,9) by (cases "tmo = None") auto
    qed
    moreover have "distinct (map fst (armed r' @ firing r'))"
      using parts fresh r'(6,8,9) unfolding timers_ok_def by (cases "tmo = None") simp_all
    moreover have "\<forall>t \<in> fst ` set (armed r' @ firing r'). t < next_timer r'"
      using lt r'(6,8,9) by (cases "tmo = None") (simp_all add: less_Suc_eq)
    ultimately show ?thesis unfolding timers_ok_def by fast
  qed
  ultimately show ?thesis using parts by (simp add: registry_ok_def r')
qed

lemma cancel_values_ok:
  "registry_ok limit r \<Longrightarrow> pending r = [] \<Longrightarrow> cancel_values b reqs r = (r', vals) \<Longrightarrow>
     registry_ok limit r' \<and> pending r' = [] \<and> length vals = length reqs"
proof (induction reqs arbitrary: r vals)
  case Nil
  then show ?case by simp
next
  case (Cons req reqs)
  obtain r1 req1 where c: "cancel_timer req r = (r1, req1)" by fastforce
  have "registry_ok limit r1 \<and> pending r1 = []"
    using cancel_timer_ok [OF Cons.prems(1) _ c] Cons.prems(2) by simp
  then have "registry_ok limit (if b then remember_stale (response_name req1, message_id req1) r1 else r1)"
    "pending (if b then remember_stale (response_name req1, message_id req1) r1 else r1) = []"
    by (simp_all add: remember_stale_registry_ok)
  from Cons.IH [OF this] Cons.prems(3) show ?case
    by (auto simp: c Let_def split: prod.splits)
qed

lemma cancel_all_ok:
  assumes ok: "registry_ok limit r" and c: "cancel_all b r = (r', vals)"
  shows "registry_ok limit r' \<and> pending r' = []"
proof -
  have "registry_ok limit (r\<lparr>pending := []\<rparr>)"
    using ok unfolding registry_ok_def stale_ok_def pending_ok_def timers_ok_def by simp
  moreover obtain r1 vs where v: "cancel_values b (map snd (pending r)) (r\<lparr>pending := []\<rparr>) = (r1, vs)"
    by fastforce
  ultimately have r1: "registry_ok limit r1" "pending r1 = []"
    using cancel_values_ok by fastforce+
  then have "registry_ok limit (r1\<lparr>stale := [], stale_set := {}\<rparr>)"
    unfolding registry_ok_def stale_ok_def pending_ok_def timers_ok_def by simp
  with r1 v c show ?thesis by (auto simp: cancel_all_def split: if_splits)
qed

lemma timers_ok_transfer:
  "timers_ok r \<Longrightarrow> set (armed r') \<union> set (firing r') = set (armed r) \<union> set (firing r) \<Longrightarrow>
     distinct (map fst (armed r' @ firing r')) \<Longrightarrow> pending r' = pending r \<Longrightarrow>
     next_timer r' = next_timer r \<Longrightarrow> timers_ok r'"
  unfolding timers_ok_def set_append by simp

lemma fire_ok: "registry_ok limit r \<Longrightarrow> registry_ok limit (fire t r)"
proof (cases "dict_get (armed r) t")
  case None
  then show "registry_ok limit r \<Longrightarrow> registry_ok limit (fire t r)" by (simp add: fire_def)
next
  case (Some x)
  assume ok: "registry_ok limit r"
  then have tm: "timers_ok r" by (simp add: registry_ok_def)
  have mem: "(t, x) \<in> set (armed r)" using Some by (rule map_of_SomeD)
  have dist: "distinct (map fst (armed r))" "distinct (map fst (firing r))"
    "fst ` set (armed r) \<inter> fst ` set (firing r) = {}"
    using tm by (simp_all add: timers_ok_def)
  have only: "y = x" if "(t, y) \<in> set (armed r)" for y
    by (rule eq_key_imp_eq_value [OF dist(1) that mem])
  have fire: "fire t r = r\<lparr>armed := dict_pop (armed r) t, firing := firing r @ [(t, x)]\<rparr>"
    using Some by (simp add: fire_def)
  have "set (armed (fire t r)) \<union> set (firing (fire t r)) = set (armed r) \<union> set (firing r)"
  proof -
    have "insert (t, x) (set (dict_pop (armed r) t)) = set (armed r)"
    proof (rule set_eqI)
      fix z :: "nat \<times> req_key \<times> 'b option"
      obtain s y where z: "z = (s, y)" by (cases z)
      show "z \<in> insert (t, x) (set (dict_pop (armed r) t)) \<longleftrightarrow> z \<in> set (armed r)"
      proof (cases "s = t")
        case True
        have "(t, y) \<in> set (armed r) \<longleftrightarrow> y = x" using mem only by blast
        then show ?thesis by (simp add: z True set_dict_pop)
      qed (simp add: z set_dict_pop)
    qed
    then show ?thesis by (auto simp: fire)
  qed
  moreover have "distinct (map fst (armed (fire t r) @ firing (fire t r)))"
  proof -
    have "t \<notin> fst ` set (firing r)" using dist(3) mem by force
    moreover have "fst ` set (dict_pop (armed r) t) = fst ` set (armed r) - {t}"
      by (force simp: set_dict_pop)
    ultimately show ?thesis using dist by (auto simp: fire intro: distinct_delete)
  qed
  ultimately have "timers_ok (fire t r)"
    using tm by (intro timers_ok_transfer [of r "fire t r"]) (simp_all add: fire)
  then show "registry_ok limit (fire t r)"
    using ok by (simp add: registry_ok_def stale_ok_def pending_ok_def fire)
qed

text \<open>An expiry that gets the lock removes a timer together with the request it watched.\<close>

lemma run_expiry_eq:
  assumes "i < length (firing r)" "firing r ! i = (t, key, h)"
  shows "run_expiry i r = expire key (r\<lparr>firing := take i (firing r) @ drop (Suc i) (firing r)\<rparr>)"
  using assms by (simp add: run_expiry_def)

lemma run_expiry_ok:
  assumes ok: "registry_ok limit r" and i: "i < length (firing r)" and run: "run_expiry i r = (r', res)"
  shows "registry_ok limit r'"
proof -
  obtain t key h where nth: "firing r ! i = (t, key, h)" by (metis prod_cases3)
  define rest where "rest = take i (firing r) @ drop (Suc i) (firing r)"
  have split: "firing r = take i (firing r) @ (t, key, h) # drop (Suc i) (firing r)"
    using id_take_nth_drop [OF i] nth by simp
  have tm: "timers_ok r" using ok by (simp add: registry_ok_def)
  have dist: "distinct (map fst (armed r @ firing r))" using tm by (simp only: timers_ok_def)
  have sets: "set (firing r) = insert (t, key, h) (set rest)"
    using split unfolding rest_def by (metis Un_insert_right list.set(2) set_append)
  have drest: "distinct (map fst (armed r @ rest))"
    using dist by (subst (asm) split) (auto simp: rest_def)
  let ?r1 = "r\<lparr>firing := rest, pending := dict_pop (pending r) key\<rparr>"
  have "timers_ok ?r1"
  proof -
    have "\<exists>h. (u, k, h) \<in> set (armed r) \<union> set rest"
      if q: "(k, q) \<in> set (dict_pop (pending r) key)" "timer q = Some u" for k q u
    proof -
      have "(k, q) \<in> set (pending r)" "k \<noteq> key" using q(1) by (simp_all add: set_dict_pop)
      moreover from this(1) obtain h' where "(u, k, h') \<in> set (armed r) \<union> set (firing r)"
        using tm q(2) unfolding timers_ok_def by fast
      ultimately show ?thesis using sets by auto
    qed
    then show ?thesis using tm drest sets unfolding timers_ok_def by auto
  qed
  then have "registry_ok limit ?r1"
    using dict_pop_ok [OF ok, of key] by (simp add: registry_ok_def stale_ok_def pending_ok_def)
  moreover have "registry_ok limit (r\<lparr>firing := rest\<rparr>)" if "dict_get (pending r) key = None"
  proof -
    have "dict_pop (pending r) key = pending r"
      using that by (simp add: map_of_eq_None_iff delete_id)
    then show ?thesis using calculation by simp
  qed
  ultimately show ?thesis
    using run run_expiry_eq [OF i nth]
    by (auto simp: expire_def rest_def delete_conv intro!: remember_stale_registry_ok split: option.splits)
qed

lemma registry_step_ok:
  "registry_step r r' \<Longrightarrow> registry_ok limit r \<Longrightarrow> registry_ok limit r'"
  by (induction rule: registry_step.induct)
    (blast intro: register_ok pop_request_ok pop_response_type_ok cancel_ok fire_ok run_expiry_ok
      dest: cancel_all_ok)+

lemma registry_reachable_ok: "registry_reachable limit r \<Longrightarrow> registry_ok limit r"
  by (induction rule: registry_reachable.induct) (blast intro: new_registry_ok registry_step_ok)+

section \<open>Properties\<close>

text \<open>
  C9. In every state the registry can reach, by any interleaving of requests, responses,
  cancellations, timer firings and expiries: pending keys are unique, name their request and
  are never marked stale; the stale list has no duplicates, agrees with the stale set and stays
  within its limit; and every request with a timeout still has a live timer for its own key.
\<close>

theorem registry_invariant: "registry_reachable limit r \<Longrightarrow> registry_ok limit r"
  by (rule registry_reachable_ok)

text \<open>A state after a registration with timeout, a firing, and an answer that overtakes the expiry.\<close>

theorem registry_invariant_witness:
  "\<exists>r :: (nat, nat) pending_registry. registry_reachable 0 r \<and> registry_ok 0 r \<and>
     stale r = [(''ADD_ROSPEC_RESPONSE'', 7)] \<and> length (firing r) = 1"
proof -
  let ?n = "''ADD_ROSPEC_RESPONSE''"
  let ?r0 = "new_registry 0 :: (nat, nat) pending_registry"
  obtain r1 q where reg: "register ?n 7 None (Some 5) None ?r0 = Inr (r1, q)"
    and r1: "pending r1 = [((?n, 7), q)]" "armed r1 = [(0, (?n, 7), None)]" "timer q = Some 0"
      "stale_limit r1 = 1" "stale r1 = []" "stale_set r1 = {}" "firing r1 = []"
    by (simp add: register_def new_registry_def Let_def)
  let ?r3 = "fst (pop_request ?n 7 (fire 0 r1))"
  have "registry_reachable 0 ?r3"
    by (rule reach_step [OF reach_step [OF reach_step [OF reach_new step_register [OF reg]] step_fire] step_pop])
      (rule prod.collapse [symmetric])
  moreover have "stale ?r3 = [(?n, 7)]" "length (firing ?r3) = 1"
    by (simp_all add: pop_request_def fire_def r1 cancel_timer_def remember_stale_def Let_def)
  ultimately show ?thesis using registry_invariant [of 0 ?r3] by blast
qed

text \<open>
  C10. Correlation is exact and completes a request once: popping \<open>(name, id)\<close> answers
  precisely when that key is pending, with the callback that was registered for it; it leaves
  every other request alone; afterwards the key is not pending, it is remembered as stale if it
  was, and popping it again answers nothing and changes nothing.
\<close>

theorem pop_request_exactly_once:
  assumes "registry_reachable limit r" and "pop_request n m r = (r', res)"
  shows "map_option callback res = map_option callback (dict_get (pending r) (n, m)) \<and>
    (\<forall>k. dict_get (pending r') k = (if k = (n, m) then None else dict_get (pending r) k)) \<and>
    is_stale n m r' = (contains n m r \<or> is_stale n m r) \<and> pop_request n m r' = (r', None)"
proof -
  have "registry_ok limit r" using assms(1) by (rule registry_reachable_ok)
  then show ?thesis
  proof (cases rule: pop_request_cases [of limit r n m True])
    case unmatched
    with assms(2) show ?thesis by (auto simp: contains_def)
  next
    case (matched req r1 req1)
    then have "stale_ok r1" by (simp add: registry_ok_def)
    from remember_stale_ok(2) [OF this, of "(n, m)"] matched assms(2) show ?thesis
      by (auto simp: contains_def is_stale_def delete_conv pop_request_def)
  qed
qed

text \<open>A reachable registry with one request, for the concrete instances.\<close>

definition one_request :: "(nat, nat) pending_registry" where
  "one_request = \<lparr>pending = [((''A'', 7), \<lparr>response_name = ''A'', message_id = 7, callback = Some 1, timer = None\<rparr>)],
     stale = [], stale_set = {}, stale_limit = 3, armed = [], firing = [], next_timer = 0\<rparr>"

lemma one_request_reachable: "registry_reachable 3 one_request"
  by (rule reach_step [OF reach_new step_register [of "''A''" 7 "Some 1" None None]])
    (simp add: register_def new_registry_def Let_def one_request_def)

theorem pop_request_exactly_once_witness:
  "\<exists>r' :: (nat, nat) pending_registry. contains ''A'' 7 one_request \<and> is_stale ''A'' 7 r' \<and> pop_request ''A'' 7 r' = (r', None)"
proof -
  obtain r' res where "pop_request ''A'' 7 one_request = (r', res)" by fastforce
  from pop_request_exactly_once [OF one_request_reachable this]
  show ?thesis by (intro exI [of _ r']) (simp add: contains_def one_request_def)
qed

text \<open>
  The compatibility pop by response type never guesses: with exactly one pending request
  of the type it is the exact pop of that request, otherwise it answers nothing and leaves the
  registry untouched.
\<close>

theorem pop_response_type_unambiguous:
  assumes "registry_reachable limit r"
  shows "pop_response_type n r = (case filter (\<lambda>k. fst k = n) (map fst (pending r)) of
    [key] \<Rightarrow> pop_request (fst key) (snd key) r | _ \<Rightarrow> (r, None))"
proof -
  have "filter (\<lambda>k. fst k = n) (map fst (pending r)) = map fst (filter (\<lambda>(k, _). fst k = n) (pending r))"
    by (simp add: filter_map comp_def case_prod_unfold)
  then show ?thesis
    unfolding pop_response_type_eq [OF registry_reachable_ok [OF assms]] by (auto split: list.split)
qed

theorem pop_response_type_unambiguous_witness:
  "pop_response_type ''A'' one_request = pop_request ''A'' 7 one_request \<and>
   pop_response_type ''B'' one_request = (one_request, None)"
  using pop_response_type_unambiguous [OF one_request_reachable, of "''A''"]
    pop_response_type_unambiguous [OF one_request_reachable, of "''B''"]
  by (simp add: one_request_def)

end
