(* ===== verification/Config_Plan.thy ===== *)
theory Config_Plan
  imports Sllurp_Prelude "HOL-Library.Char_ord" "HOL-Library.List_Lexorder"
begin

text \<open>
  Configuration transitions of \<^verbatim>\<open>sllurp/llrp_runtime.py\<close>: the classification of changed
  fields, the plan built from two configurations, and the observable outcome of applying it.

  A configuration object is the list of its attributes (\<open>vars(config)\<close>).  Attribute values are
  arbitrary Python objects: the model is generic in their type \<open>'v\<close> and in their equality
  \<open>eq\<close>, and \<open>None\<close> stands for Python's \<open>None\<close>, which \<open>dict.get\<close> answers for a missing field.
\<close>

section \<open>The policy\<close>

datatype config_action = ACTION_CLIENT | ACTION_ROSPEC | ACTION_READER_CONFIG | ACTION_RECONNECT

definition CONFIG_FIELD_POLICY :: "(string \<times> config_action) list" where
  "CONFIG_FIELD_POLICY = [
    (''disconnect_when_done'', ACTION_CLIENT),
    (''max_message_size'', ACTION_CLIENT),
    (''reconnect'', ACTION_CLIENT),
    (''reconnect_retries'', ACTION_CLIENT),
    (''reconnect_delay'', ACTION_CLIENT),
    (''start_inventory'', ACTION_CLIENT),
    (''reset_on_connect'', ACTION_CLIENT),
    (''request_timeout'', ACTION_CLIENT),
    (''duration'', ACTION_ROSPEC),
    (''tari'', ACTION_ROSPEC),
    (''session'', ACTION_ROSPEC),
    (''mode_identifier'', ACTION_ROSPEC),
    (''tag_population'', ACTION_ROSPEC),
    (''ro_report_every_n_tags'', ACTION_ROSPEC),
    (''report_every_n_tags'', ACTION_ROSPEC),
    (''report_timeout_ms'', ACTION_ROSPEC),
    (''dedup_seconds'', ACTION_ROSPEC),
    (''dedup_backend'', ACTION_ROSPEC),
    (''dedup_max_entries'', ACTION_ROSPEC),
    (''antennas'', ACTION_ROSPEC),
    (''tx_power'', ACTION_ROSPEC),
    (''tx_power_dbm'', ACTION_ROSPEC),
    (''tag_filter_mask'', ACTION_ROSPEC),
    (''tag_content_selector'', ACTION_ROSPEC),
    (''frequencies'', ACTION_ROSPEC),
    (''impinj_fixed_frequency'', ACTION_ROSPEC),
    (''impinj_search_mode'', ACTION_ROSPEC),
    (''impinj_reports'', ACTION_ROSPEC),
    (''impinj_tag_content_selector'', ACTION_ROSPEC),
    (''zebra_tag_content_selector'', ACTION_ROSPEC),
    (''rf_telemetry_mode'', ACTION_ROSPEC),
    (''event_selector'', ACTION_READER_CONFIG),
    (''gpi_ports_config'', ACTION_READER_CONFIG),
    (''keepalive_interval'', ACTION_READER_CONFIG),
    (''impinj_event_selector'', ACTION_READER_CONFIG),
    (''socket_receive_buffer_bytes'', ACTION_RECONNECT),
    (''tls_enabled'', ACTION_RECONNECT),
    (''tls_verify'', ACTION_RECONNECT),
    (''tls_ca_file'', ACTION_RECONNECT),
    (''tls_client_cert'', ACTION_RECONNECT),
    (''tls_client_key'', ACTION_RECONNECT),
    (''tls_server_hostname'', ACTION_RECONNECT),
    (''impinj_extended_configuration'', ACTION_RECONNECT)]"

definition field_action :: "string \<Rightarrow> config_action" where
  "field_action name = (case dict_get CONFIG_FIELD_POLICY name of None \<Rightarrow> ACTION_RECONNECT | Some a \<Rightarrow> a)"

section \<open>Plans\<close>

type_synonym 'v attributes = "(string \<times> 'v option) list"

definition snapshot_config :: "'v attributes \<Rightarrow> 'v attributes" where
  "snapshot_config config = filter (\<lambda>(name, _). take 1 name \<noteq> ''_'') config"

record 'v config_change =
  field :: string
  old_value :: "'v option"
  new_value :: "'v option"
  action :: config_action

text \<open>\<open>dict.get\<close> on a snapshot: a field holding \<open>None\<close> and a missing field answer the same.\<close>

definition get_value :: "'v attributes \<Rightarrow> string \<Rightarrow> 'v option" where
  "get_value snap name = (case dict_get snap name of None \<Rightarrow> None | Some v \<Rightarrow> v)"

fun same_value :: "('v \<Rightarrow> 'v \<Rightarrow> bool) \<Rightarrow> 'v option \<Rightarrow> 'v option \<Rightarrow> bool" where
  "same_value eq None None = True"
| "same_value eq (Some a) (Some b) = eq a b"
| "same_value eq _ _ = False"

definition build_config_transition_plan ::
  "('v \<Rightarrow> 'v \<Rightarrow> bool) \<Rightarrow> 'v attributes \<Rightarrow> 'v attributes \<Rightarrow> 'v config_change list" where
  "build_config_transition_plan eq old_config new_config =
    (let old = snapshot_config old_config; new = snapshot_config new_config in
     concat (map (\<lambda>name.
       let old_v = get_value old name; new_v = get_value new name in
       if same_value eq old_v new_v then []
       else [\<lparr>field = name, old_value = old_v, new_value = new_v, action = field_action name\<rparr>])
     (sorted_list_of_set (set (map fst old) \<union> set (map fst new)))))"

definition is_noop :: "'v config_change list \<Rightarrow> bool" where
  "is_noop changes \<longleftrightarrow> changes = []"

definition actions :: "'v config_change list \<Rightarrow> config_action set" where
  "actions changes = set (map action changes)"

definition requires_rospec_restart :: "'v config_change list \<Rightarrow> bool" where
  "requires_rospec_restart changes \<longleftrightarrow> ACTION_ROSPEC \<in> actions changes"

definition requires_reader_config_write :: "'v config_change list \<Rightarrow> bool" where
  "requires_reader_config_write changes \<longleftrightarrow> ACTION_READER_CONFIG \<in> actions changes"

definition requires_reconnect :: "'v config_change list \<Rightarrow> bool" where
  "requires_reconnect changes \<longleftrightarrow> ACTION_RECONNECT \<in> actions changes"

definition client_only :: "'v config_change list \<Rightarrow> bool" where
  "client_only changes \<longleftrightarrow> changes \<noteq> [] \<and> actions changes = {ACTION_CLIENT}"

section \<open>The outcome of a transition\<close>

datatype transition_status = Transition_Pending | Transition_Success | Transition_Failed

record ('v, 'c) config_transition =
  plan :: "'v config_change list"
  old_config :: 'c
  new_config :: 'c
  status :: transition_status
  error :: "string option"
  done_set :: bool

definition new_transition :: "'v config_change list \<Rightarrow> 'c \<Rightarrow> 'c \<Rightarrow> ('v, 'c) config_transition" where
  "new_transition p old new = \<lparr>plan = p, old_config = old, new_config = new,
     status = Transition_Pending, error = None, done_set = False\<rparr>"

definition succeed :: "('v, 'c) config_transition \<Rightarrow> ('v, 'c) config_transition" where
  "succeed t = t\<lparr>status := Transition_Success, error := None, done_set := True\<rparr>"

definition fail :: "string \<Rightarrow> ('v, 'c) config_transition \<Rightarrow> ('v, 'c) config_transition" where
  "fail e t = t\<lparr>status := Transition_Failed, error := Some e, done_set := True\<rparr>"

definition succeeded :: "('v, 'c) config_transition \<Rightarrow> bool" where
  "succeeded t \<longleftrightarrow> status t = Transition_Success"

section \<open>Properties of plans\<close>

lemma public_fields:
  "dict_get (snapshot_config c) name = (if take 1 name = ''_'' then None else dict_get c name)"
  unfolding snapshot_config_def by (induction c) auto

lemma field_action_policy:
  "field_action name \<noteq> ACTION_RECONNECT \<Longrightarrow> name \<in> set (map fst CONFIG_FIELD_POLICY)"
  unfolding field_action_def by (force split: option.splits dest: map_of_SomeD)

text \<open>The change a field contributes, if any: the abstract meaning of the plan.\<close>

definition change_of :: "('v \<Rightarrow> 'v \<Rightarrow> bool) \<Rightarrow> 'v attributes \<Rightarrow> 'v attributes \<Rightarrow> string \<Rightarrow> 'v config_change option" where
  "change_of eq old new name =
    (if take 1 name = ''_'' \<or> same_value eq (get_value old name) (get_value new name) then None
     else Some \<lparr>field = name, old_value = get_value old name, new_value = get_value new name,
       action = field_action name\<rparr>)"

lemma get_value_snapshot:
  "get_value (snapshot_config c) name = (if take 1 name = ''_'' then None else get_value c name)"
  by (simp add: get_value_def public_fields)

lemma get_value_missing: "n \<notin> fst ` set c \<Longrightarrow> get_value c n = None"
  by (simp add: get_value_def map_of_eq_None_iff [THEN iffD2])

lemma plan_members:
  "c \<in> set (build_config_transition_plan eq old new) \<longleftrightarrow> change_of eq old new (field c) = Some c"
proof -
  have dom: "n \<in> fst ` set (snapshot_config old) \<union> fst ` set (snapshot_config new)"
    if "\<not> same_value eq (get_value (snapshot_config old) n) (get_value (snapshot_config new) n)" for n
    using that get_value_missing [of n "snapshot_config old"] get_value_missing [of n "snapshot_config new"]
    by (metis Un_iff same_value.simps(1))
  let ?D = "fst ` set (snapshot_config old) \<union> fst ` set (snapshot_config new)"
  let ?same = "\<lambda>n. same_value eq (get_value (snapshot_config old) n) (get_value (snapshot_config new) n)"
  let ?f = "\<lambda>n. \<lparr>field = n, old_value = get_value (snapshot_config old) n,
      new_value = get_value (snapshot_config new) n, action = field_action n\<rparr>"
  have "c \<in> set (build_config_transition_plan eq old new) \<longleftrightarrow> (\<exists>n \<in> ?D. \<not> ?same n \<and> c = ?f n)"
    by (auto simp: build_config_transition_plan_def Let_def)
  also have "\<dots> \<longleftrightarrow> \<not> ?same (field c) \<and> c = ?f (field c)"
    using dom by (metis config_change.select_convs(1))
  also have "\<dots> \<longleftrightarrow> change_of eq old new (field c) = Some c"
    by (auto simp: change_of_def get_value_snapshot)
  finally show ?thesis .
qed

lemma plan_fields_sorted:
  "sorted_wrt (<) (map field (build_config_transition_plan eq old new))"
proof -
  have "sorted_wrt (<) xs \<Longrightarrow> sorted_wrt (<) (map field (concat (map (\<lambda>n. if P n then [] else [f n]) xs)))"
    if "\<And>n. field (f n) = n" for xs :: "string list" and P and f :: "string \<Rightarrow> 'a config_change"
    using that by (induction xs) (auto split: if_splits)
  then show ?thesis
    unfolding build_config_transition_plan_def Let_def
    using strict_sorted_list_of_set by fastforce
qed

text \<open>
  C11. A plan says exactly what changed: a change record is in the plan precisely when its
  field is public and its old and new values differ, it carries both values and the action of
  the policy, and the fields appear once each in increasing order.
\<close>

theorem plan_exact:
  "sorted_wrt (<) (map field (build_config_transition_plan eq old new)) \<and>
   (\<forall>c. c \<in> set (build_config_transition_plan eq old new) = (change_of eq old new (field c) = Some c))"
  by (simp add: plan_fields_sorted plan_members)

text \<open>
  C14. The policy is conservative: a changed public field that the policy does not list forces
  a reconnect, so it can never be applied to a live session or count as a client-only change.
\<close>

theorem unlisted_field_reconnects:
  assumes "take 1 name \<noteq> ''_''" and "name \<notin> fst ` set CONFIG_FIELD_POLICY"
    and "\<not> same_value eq (get_value old name) (get_value new name)"
  shows "requires_reconnect (build_config_transition_plan eq old new) \<and>
    \<not> client_only (build_config_transition_plan eq old new)"
proof -
  have "field_action name = ACTION_RECONNECT"
    using assms(2) by (simp add: field_action_def map_of_eq_None_iff [THEN iffD2])
  then obtain c where "c \<in> set (build_config_transition_plan eq old new)" "action c = ACTION_RECONNECT"
    using assms(1,3) plan_members [of "\<lparr>field = name, old_value = get_value old name,
      new_value = get_value new name, action = ACTION_RECONNECT\<rparr>" eq old new]
    by (auto simp: change_of_def)
  then have "ACTION_RECONNECT \<in> actions (build_config_transition_plan eq old new)"
    by (force simp: actions_def)
  then show ?thesis by (auto simp: requires_reconnect_def client_only_def)
qed

theorem unlisted_field_reconnects_witness:
  "requires_reconnect (build_config_transition_plan (=)
     [(''session'', Some (2::int)), (''new_feature'', None)] [(''session'', Some 2), (''new_feature'', Some 1)]) \<and>
   \<not> client_only (build_config_transition_plan (=)
     [(''session'', Some (2::int)), (''new_feature'', None)] [(''session'', Some 2), (''new_feature'', Some 1)])"
  by (rule unlisted_field_reconnects [of "''new_feature''"])
    (simp_all add: CONFIG_FIELD_POLICY_def get_value_def)

end
