(* ===== verification/Dedup.thy ===== *)
theory Dedup
  imports Py_Values "HOL-Library.Char_ord" "HOL-Library.List_Lexorder"
begin

text \<open>
  \<^verbatim>\<open>sllurp/dedup.py\<close>: stable tag identities and \<open>TagReportDeduplicator\<close>.  Clock readings are
  rationals; the rounding of a float sum is not modelled.  The lemmas show that, while the
  clock does not run backwards, the dictionary and the expiry queue together are one bounded
  first-in first-out list, and state what that means for the reports of a whole run.
\<close>

section \<open>Identities\<close>

definition hex_lower :: "nat \<Rightarrow> char" where
  "hex_lower d = (if d < 10 then char_of (48 + d) else char_of (87 + d))"

text \<open>One character inside \<open>repr\<close> of a string quoted by \<open>q\<close> (Latin-1).\<close>

definition repr_char :: "char \<Rightarrow> char \<Rightarrow> string" where
  "repr_char q c = (let n = of_char c :: nat; bs = char_of (92 :: nat) in
     if c = q \<or> c = bs then [bs, c]
     else if n = 9 then [bs, char_of (116 :: nat)]
     else if n = 10 then [bs, char_of (110 :: nat)]
     else if n = 13 then [bs, char_of (114 :: nat)]
     else if n < 32 \<or> 127 \<le> n \<and> n \<le> 160 \<or> n = 173
     then [bs, char_of (120 :: nat), hex_lower (n div 16), hex_lower (n mod 16)]
     else [c])"

definition repr_str :: "string \<Rightarrow> string" where
  "repr_str s = (let single = char_of (39 :: nat); dbl = char_of (34 :: nat);
       q = (if single \<in> set s \<and> dbl \<notin> set s then dbl else single)
     in q # concat (map (repr_char q) s) @ [q])"

text \<open>\<open>_freeze\<close>; tuples are lists of the model.  Dictionary keys are strings.\<close>

fun freeze :: "pyval \<Rightarrow> pyval" where
  "freeze (PDict d) = PList (map (\<lambda>(k, v). PList [PStr k, v])
     (sort_key (\<lambda>(k, _). repr_str k) (map (\<lambda>kv. (fst kv, freeze (snd kv))) d)))"
| "freeze (PList l) = PList (map freeze l)"
| "freeze v = v"

text \<open>Numbers that compare equal are the same dictionary key.\<close>

fun hash_key :: "pyval \<Rightarrow> pyval" where
  "hash_key (PBool b) = PFloat (of_bool b)"
| "hash_key (PInt i) = PFloat (of_int i)"
| "hash_key (PList l) = PList (map hash_key l)"
| "hash_key v = v"

definition default_tag_key :: "pydict \<Rightarrow> bool \<Rightarrow> pyval" where
  "default_tag_key tag include_ant =
    (let key = (case dict_get tag ''EPC-96'' of Some v \<Rightarrow> PList [PStr ''EPC-96'', freeze v]
       | None \<Rightarrow> (case dict_get tag ''EPC'' of Some v \<Rightarrow> PList [PStr ''EPC'', freeze v]
       | None \<Rightarrow> (case dict_get tag ''EPCData'' of Some v \<Rightarrow> PList [PStr ''EPCData'', freeze v]
       | None \<Rightarrow> PList [PStr ''TagReportData'', freeze (PDict tag)])))
     in if include_ant
        then PList [key, PStr ''AntennaID'',
          freeze (case dict_get tag ''AntennaID'' of None \<Rightarrow> PNone | Some v \<Rightarrow> v)]
        else key)"

section \<open>The deduplicator\<close>

record dedup =
  window_seconds :: rat
  include_antenna :: bool
  key_fun :: "(pydict \<Rightarrow> pyval) option"
  max_entries :: nat
  emit_empty :: bool
  seen :: "(pyval \<times> rat) list"
  expiry_queue :: "(rat \<times> pyval) list"
  evictions :: nat

text \<open>The constructor; \<open>None\<close> is a window that is not finite.\<close>

definition new_dedup :: "rat option \<Rightarrow> bool \<Rightarrow> (pydict \<Rightarrow> pyval) option \<Rightarrow> int \<Rightarrow> bool \<Rightarrow> dedup res" where
  "new_dedup window include_ant key mx emit = (case window of
     None \<Rightarrow> Inl ValueError
   | Some w \<Rightarrow> if w < 0 then Inl ValueError
     else if mx \<le> 0 then Inl ValueError
     else Inr \<lparr>window_seconds = w, include_antenna = include_ant, key_fun = key,
       max_entries = nat mx, emit_empty = emit, seen = [], expiry_queue = [], evictions = 0\<rparr>)"

definition entry_count :: "dedup \<Rightarrow> nat" where
  "entry_count s = length (seen s)"

definition reset :: "dedup \<Rightarrow> dedup" where
  "reset s = s\<lparr>seen := [], expiry_queue := [], evictions := 0\<rparr>"

definition tag_key :: "dedup \<Rightarrow> pydict \<Rightarrow> pyval" where
  "tag_key s tag = hash_key (case key_fun s of Some f \<Rightarrow> freeze (f tag)
     | None \<Rightarrow> default_tag_key tag (include_antenna s))"

fun purge_expired :: "rat \<Rightarrow> (rat \<times> pyval) list \<Rightarrow> (pyval \<times> rat) list \<Rightarrow>
    (rat \<times> pyval) list \<times> (pyval \<times> rat) list" where
  "purge_expired now [] sn = ([], sn)"
| "purge_expired now ((expiry, key) # q) sn =
     (if expiry \<le> now
      then purge_expired now q (if dict_get sn key = Some expiry then dict_pop sn key else sn)
      else ((expiry, key) # q, sn))"

fun trim_entries :: "nat \<Rightarrow> (rat \<times> pyval) list \<Rightarrow> (pyval \<times> rat) list \<Rightarrow> nat \<Rightarrow>
    (rat \<times> pyval) list \<times> (pyval \<times> rat) list \<times> nat" where
  "trim_entries mx [] sn ev = ([], sn, ev)"
| "trim_entries mx ((expiry, key) # q) sn ev =
     (if length sn > mx
      then (if dict_get sn key = Some expiry then trim_entries mx q (dict_pop sn key) (Suc ev)
            else trim_entries mx q sn ev)
      else ((expiry, key) # q, sn, ev))"

text \<open>The loop over the keyed reports.\<close>

fun emit_fresh :: "rat \<Rightarrow> (pydict \<times> pyval) list \<Rightarrow> dedup \<Rightarrow> dedup \<times> pydict list" where
  "emit_fresh now [] s = (s, [])"
| "emit_fresh now ((tag, key) # rest) s =
     (if (case dict_get (seen s) key of Some expiry \<Rightarrow> now < expiry | None \<Rightarrow> False)
      then emit_fresh now rest s
      else let expiry = now + window_seconds s;
               s = s\<lparr>seen := dict_set (seen s) key expiry, expiry_queue := expiry_queue s @ [(expiry, key)]\<rparr>;
               (s, unique) = emit_fresh now rest s
           in (s, tag # unique))"

definition filter_reports :: "dedup \<Rightarrow> rat \<Rightarrow> pydict list \<Rightarrow> dedup \<times> pydict list" where
  "filter_reports s now reports =
    (if window_seconds s = 0 then (s, reports)
     else let keyed = map (\<lambda>tag. (tag, tag_key s tag)) reports;
              (q, sn) = purge_expired now (expiry_queue s) (seen s);
              (s, unique) = emit_fresh now keyed (s\<lparr>expiry_queue := q, seen := sn\<rparr>);
              (q, sn, ev) = trim_entries (max_entries s) (expiry_queue s) (seen s) (evictions s)
          in (s\<lparr>expiry_queue := q, seen := sn, evictions := ev\<rparr>, unique))"

text \<open>\<open>__call__\<close>: what the wrapped callback receives, if it is called.\<close>

definition dedup_call :: "bool \<Rightarrow> dedup \<Rightarrow> rat \<Rightarrow> pydict list \<Rightarrow> dedup \<times> pydict list option" where
  "dedup_call has_callback s now reports =
    (let (s, unique) = filter_reports s now reports
     in (s, if has_callback \<and> (unique \<noteq> [] \<or> emit_empty s) then Some unique else None))"

section \<open>The bounded queue behind the two structures\<close>

text \<open>After a call at time \<open>t\<close> the queue lists the dictionary's entries by increasing expiry.\<close>

definition dedup_ok :: "rat \<Rightarrow> dedup \<Rightarrow> bool" where
  "dedup_ok t s \<longleftrightarrow> 0 < window_seconds s \<and> distinct (map fst (seen s)) \<and>
     expiry_queue s = map prod.swap (seen s) \<and> sorted (map snd (seen s)) \<and>
     (\<forall>e \<in> snd ` set (seen s). e \<le> t + window_seconds s) \<and> length (seen s) \<le> max_entries s"

lemma new_dedup_ok: "new_dedup (Some w) a k m e = Inr s \<Longrightarrow> 0 < w \<Longrightarrow> dedup_ok t s"
  by (auto simp: new_dedup_def dedup_ok_def split: if_splits)

lemma dict_pop_head: "k \<notin> fst ` set sn \<Longrightarrow> dict_pop ((k, e) # sn) k = sn"
  by (simp add: delete_id)

lemma purge_expired_eq:
  "distinct (map fst sn) \<Longrightarrow> sorted (map snd sn) \<Longrightarrow>
     purge_expired now (map prod.swap sn) sn =
       (map prod.swap (filter (\<lambda>(_, e). now < e) sn), filter (\<lambda>(_, e). now < e) sn)"
proof (induction sn)
  case Nil
  then show ?case by simp
next
  case (Cons a sn)
  obtain k e where a: "a = (k, e)" by (cases a)
  show ?case
  proof (cases "e \<le> now")
    case True
    with Cons a show ?thesis by (simp add: dict_pop_head)
  next
    case False
    then have "filter (\<lambda>(_, e). now < e) (a # sn) = a # sn"
      using Cons.prems(2) unfolding a by (force simp: filter_id_conv)
    with False a show ?thesis by (simp add: prod.swap_def)
  qed
qed

lemma trim_entries_eq:
  "distinct (map fst sn) \<Longrightarrow>
     trim_entries mx (map prod.swap sn) sn ev =
       (map prod.swap (drop (length sn - mx) sn), drop (length sn - mx) sn, ev + (length sn - mx))"
proof (induction sn arbitrary: ev)
  case Nil
  then show ?case by simp
next
  case (Cons a sn)
  obtain k e where a: "a = (k, e)" by (cases a)
  show ?case
  proof (cases "length sn < mx")
    case True
    with a show ?thesis by (simp add: prod.swap_def)
  next
    case False
    with Cons a show ?thesis by (simp add: dict_pop_head Suc_diff_le)
  qed
qed

text \<open>Reports whose key is not among \<open>ks\<close>, the first of each key.\<close>

fun fresh_reports :: "pyval set \<Rightarrow> (pydict \<times> pyval) list \<Rightarrow> (pydict \<times> pyval) list" where
  "fresh_reports ks [] = []"
| "fresh_reports ks ((tag, key) # rest) =
     (if key \<in> ks then fresh_reports ks rest else (tag, key) # fresh_reports (insert key ks) rest)"

lemma fresh_reports_keys:
  "snd ` set (fresh_reports ks l) = snd ` set l - ks \<and> distinct (map snd (fresh_reports ks l))"
  by (induction ks l rule: fresh_reports.induct) auto

lemma emit_fresh_eq:
  "\<forall>e \<in> snd ` set (seen s). now < e \<Longrightarrow> 0 < window_seconds s \<Longrightarrow>
     emit_fresh now keyed s =
       (let new = fresh_reports (fst ` set (seen s)) keyed; e = now + window_seconds s
        in (s\<lparr>seen := seen s @ map (\<lambda>(_, k). (k, e)) new,
              expiry_queue := expiry_queue s @ map (\<lambda>(_, k). (e, k)) new\<rparr>, map fst new))"
proof (induction now keyed s rule: emit_fresh.induct)
  case (1 now s)
  then show ?case by simp
next
  case (2 now tag key rest s)
  show ?case
  proof (cases "key \<in> fst ` set (seen s)")
    case True
    then obtain e where "dict_get (seen s) key = Some e" "(key, e) \<in> set (seen s)"
      by (metis map_of_eq_None_iff map_of_SomeD not_None_eq)
    with "2.prems"(1) have "(case dict_get (seen s) key of Some e \<Rightarrow> now < e | None \<Rightarrow> False)" by force
    with True "2.IH"(1) "2.prems" show ?thesis by simp
  next
    case False
    then have none: "dict_get (seen s) key = None" by (simp add: map_of_eq_None_iff)
    let ?e = "now + window_seconds s"
    let ?s = "s\<lparr>seen := dict_set (seen s) key ?e, expiry_queue := expiry_queue s @ [(?e, key)]\<rparr>"
    have "emit_fresh now rest ?s =
       (let new = fresh_reports (fst ` set (seen ?s)) rest; e = now + window_seconds ?s
        in (?s\<lparr>seen := seen ?s @ map (\<lambda>(_, k). (k, e)) new,
              expiry_queue := expiry_queue ?s @ map (\<lambda>(_, k). (e, k)) new\<rparr>, map fst new))"
      using "2.prems" none by (intro "2.IH"(2)) (auto simp: dict_set_new [OF False])
    with False none show ?thesis by (simp add: dict_set_new Let_def)
  qed
qed

lemma sorted_append_constant:
  "sorted xs \<Longrightarrow> (\<And>x. x \<in> set xs \<Longrightarrow> x \<le> c) \<Longrightarrow> sorted (xs @ map (\<lambda>_. c) ys)" for c :: rat
proof -
  have "sorted (map (\<lambda>_. c) ys)" by (induction ys) auto
  then show "sorted xs \<Longrightarrow> (\<And>x. x \<in> set xs \<Longrightarrow> x \<le> c) \<Longrightarrow> ?thesis" by (auto simp: sorted_append)
qed

lemma sorted_drop_map: "sorted (map f xs) \<Longrightarrow> sorted (map f (drop n xs))" for f :: "'a \<Rightarrow> rat"
  by (simp add: drop_map [symmetric] sorted_wrt_drop)

text \<open>One call refines one step of the bounded queue.\<close>

lemma filter_reports_refines:
  fixes reports :: "pydict list"
  assumes ok: "dedup_ok t s" and t: "t \<le> now"
  defines "live \<equiv> filter (\<lambda>(_, e). now < e) (seen s)"
  defines "new \<equiv> fresh_reports (fst ` set live) (map (\<lambda>tag. (tag, tag_key s tag)) reports)"
  defines "entries \<equiv> live @ map (\<lambda>(_, k). (k, now + window_seconds s)) new"
  defines "n \<equiv> length entries - max_entries s"
  shows "filter_reports s now reports =
    (s\<lparr>expiry_queue := map prod.swap (drop n entries), seen := drop n entries, evictions := evictions s + n\<rparr>,
     map fst new)"
    and "dedup_ok now (fst (filter_reports s now reports))"
proof -
  note inv = ok [unfolded dedup_ok_def]
  let ?w = "window_seconds s"
  have live: "distinct (map fst live)" "sorted (map snd live)" "\<forall>e \<in> snd ` set live. now < e \<and> e \<le> now + ?w"
    using inv t unfolding live_def
    by (auto simp: distinct_map_filter sorted_map sorted_wrt_filter)
  have purge: "purge_expired now (expiry_queue s) (seen s) = (map prod.swap live, live)"
    using inv by (simp add: purge_expired_eq live_def)
  have emit: "emit_fresh now (map (\<lambda>tag. (tag, tag_key s tag)) reports) (s\<lparr>expiry_queue := map prod.swap live, seen := live\<rparr>) =
      (s\<lparr>expiry_queue := map prod.swap entries, seen := entries\<rparr>, map fst new)"
    using live(3) inv
    by (subst emit_fresh_eq)
      (auto simp: new_def entries_def Let_def comp_def case_prod_beta intro!: dedup.equality)
  have fresh: "snd ` set new \<inter> fst ` set live = {}" "distinct (map snd new)"
    using fresh_reports_keys unfolding new_def by blast+
  have "map fst entries = map fst live @ map snd new" by (simp add: entries_def comp_def case_prod_beta)
  then have dist: "distinct (map fst entries)" using live(1) fresh by auto
  have "map snd entries = map snd live @ map (\<lambda>_. now + ?w) new" by (simp add: entries_def comp_def case_prod_beta)
  then have sorted: "sorted (map snd entries)"
    using sorted_append_constant [OF live(2), of "now + ?w" new] live(3) by auto
  show eq: "filter_reports s now reports =
    (s\<lparr>expiry_queue := map prod.swap (drop n entries), seen := drop n entries, evictions := evictions s + n\<rparr>,
     map fst new)"
    using inv purge emit trim_entries_eq [OF dist] by (simp add: filter_reports_def n_def)
  have "\<forall>e \<in> snd ` set entries. e \<le> now + ?w"
    using live(3) by (auto simp: entries_def)
  then have "\<forall>e \<in> snd ` set (drop n entries). e \<le> now + ?w" using set_drop_subset by fastforce
  then show "dedup_ok now (fst (filter_reports s now reports))"
    unfolding eq dedup_ok_def using inv dist sorted sorted_drop_map [OF sorted]
    by (simp add: n_def distinct_drop drop_map [symmetric])
qed

section \<open>Runs\<close>

text \<open>A run over batches of reports with the clock readings, and the emissions with their times.\<close>

fun dedup_run :: "dedup \<Rightarrow> (rat \<times> pydict list) list \<Rightarrow> dedup \<times> (rat \<times> pyval) list" where
  "dedup_run s [] = (s, [])"
| "dedup_run s ((now, reports) # batches) =
     (let (s1, out) = filter_reports s now reports; (s2, ems) = dedup_run s1 batches
      in (s2, map (\<lambda>tag. (now, tag_key s tag)) out @ ems))"

definition apart :: "rat \<Rightarrow> rat \<times> pyval \<Rightarrow> rat \<times> pyval \<Rightarrow> bool" where
  "apart w x y \<longleftrightarrow> snd x = snd y \<longrightarrow> fst x + w \<le> fst y"

lemma fresh_reports_sub: "set (fresh_reports ks l) \<subseteq> set l"
  by (induction ks l rule: fresh_reports.induct) auto

text \<open>Everything about one call that the run theorems need.\<close>

lemma filter_reports_step:
  fixes reports :: "pydict list"
  assumes ok: "dedup_ok t s" and t: "t \<le> now" and f: "filter_reports s now reports = (s1, out)"
  defines "w \<equiv> window_seconds s"
  shows "dedup_ok now s1" "window_seconds s1 = w" "tag_key s1 = tag_key s" "evictions s \<le> evictions s1"
    "distinct (map (tag_key s) out)"
    "\<And>tag. tag \<in> set out \<Longrightarrow> \<forall>e. (tag_key s tag, e) \<in> set (seen s) \<longrightarrow> e \<le> now"
    "\<And>k e. (k, e) \<in> set (seen s1) \<Longrightarrow> (k, e) \<in> set (seen s) \<or> e = now + w \<and> k \<in> tag_key s ` set out"
    "\<And>tag. tag \<in> set reports \<Longrightarrow> tag_key s tag \<in> tag_key s ` set out \<or> (\<exists>e. now < e \<and> (tag_key s tag, e) \<in> set (seen s))"
    "evictions s1 = evictions s \<Longrightarrow> (k, e) \<in> set (seen s) \<Longrightarrow> now < e \<Longrightarrow> (k, e) \<in> set (seen s1)"
    "evictions s1 = evictions s \<Longrightarrow> tag \<in> set out \<Longrightarrow> (tag_key s tag, now + w) \<in> set (seen s1)"
proof -
  let ?live = "filter (\<lambda>(_, e). now < e) (seen s)"
  let ?keyed = "map (\<lambda>tag. (tag, tag_key s tag)) reports"
  let ?new = "fresh_reports (fst ` set ?live) ?keyed"
  let ?entries = "?live @ map (\<lambda>(_, k). (k, now + w)) ?new"
  let ?n = "length ?entries - max_entries s"
  have s1: "s1 = s\<lparr>expiry_queue := map prod.swap (drop ?n ?entries), seen := drop ?n ?entries, evictions := evictions s + ?n\<rparr>"
    and out: "out = map fst ?new"
    using filter_reports_refines(1) [OF ok t, of reports] f by (simp_all add: w_def)
  have key: "k = tag_key s tag" if "(tag, k) \<in> set ?new" for tag k
    using that fresh_reports_sub by fastforce
  have keys: "map (tag_key s) out = map snd ?new" unfolding out using key by (auto simp: comp_def)
  then have keyset: "tag_key s ` set out = snd ` set ?new" by (metis image_set)
  show "dedup_ok now s1" using filter_reports_refines(2) [OF ok t, of reports] f by simp
  show "window_seconds s1 = w" "evictions s \<le> evictions s1" by (simp_all add: s1 w_def)
  show "tag_key s1 = tag_key s" by (rule ext) (simp add: tag_key_def s1 split: option.split)
  show "distinct (map (tag_key s) out)" unfolding keys using fresh_reports_keys by blast
  show "\<forall>e. (tag_key s tag, e) \<in> set (seen s) \<longrightarrow> e \<le> now" if "tag \<in> set out" for tag
  proof -
    have "tag_key s tag \<in> snd ` set ?new" using that keyset by blast
    then have "tag_key s tag \<notin> fst ` set ?live" using fresh_reports_keys by blast
    then show ?thesis by (force simp: not_less)
  qed
  show "(k, e) \<in> set (seen s) \<or> e = now + w \<and> k \<in> tag_key s ` set out" if "(k, e) \<in> set (seen s1)" for k e
  proof -
    have "(k, e) \<in> set ?entries" using that s1 by (auto dest: in_set_dropD)
    then show ?thesis unfolding keyset by (auto intro: rev_image_eqI)
  qed
  show "tag_key s tag \<in> tag_key s ` set out \<or> (\<exists>e. now < e \<and> (tag_key s tag, e) \<in> set (seen s))"
    if "tag \<in> set reports" for tag
  proof -
    have "tag_key s tag \<in> snd ` set ?keyed" using that by force
    then have "tag_key s tag \<in> snd ` set ?new \<or> tag_key s tag \<in> fst ` set ?live"
      using fresh_reports_keys by blast
    then show ?thesis unfolding keyset by auto
  qed
  have all: "seen s1 = ?entries" if "evictions s1 = evictions s" using that by (simp add: s1)
  show "evictions s1 = evictions s \<Longrightarrow> (k, e) \<in> set (seen s) \<Longrightarrow> now < e \<Longrightarrow> (k, e) \<in> set (seen s1)"
    using all by auto
  show "evictions s1 = evictions s \<Longrightarrow> tag \<in> set out \<Longrightarrow> (tag_key s tag, now + w) \<in> set (seen s1)"
    using all keyset by (force simp: image_iff)
qed

lemma dedup_run_evictions:
  "dedup_ok t s \<Longrightarrow> sorted (t # map fst batches) \<Longrightarrow> dedup_run s batches = (s2, ems) \<Longrightarrow> evictions s \<le> evictions s2"
proof (induction batches arbitrary: s t ems)
  case Nil
  then show ?case by simp
next
  case (Cons b batches)
  obtain now reports where b: "b = (now, reports)" by (cases b)
  obtain s1 out where f: "filter_reports s now reports = (s1, out)" by fastforce
  have "t \<le> now" using Cons.prems(2) b by simp
  note step = filter_reports_step(1,4) [OF Cons.prems(1) this f]
  obtain ems1 where "dedup_run s1 batches = (s2, ems1)"
    using Cons.prems(3) b f by (auto split: prod.splits)
  from Cons.IH [OF step(1) _ this] Cons.prems(2) b step(2) show ?case by simp
qed

text \<open>Without evictions, emissions of the same identity are a window apart.\<close>

lemma dedup_run_apart:
  assumes "dedup_ok t s" and "sorted (t # map fst batches)" and "dedup_run s batches = (s2, ems)"
    and "evictions s2 = evictions s"
    and "\<forall>(u, k) \<in> set past. u \<le> t \<and> (t < u + window_seconds s \<longrightarrow> (k, u + window_seconds s) \<in> set (seen s))"
    and "sorted_wrt (apart (window_seconds s)) past"
  shows "sorted_wrt (apart (window_seconds s)) (past @ ems)"
  using assms
proof (induction batches arbitrary: s t past ems)
  case Nil
  then show ?case by simp
next
  case (Cons b batches)
  let ?w = "window_seconds s"
  obtain now reports where b: "b = (now, reports)" by (cases b)
  obtain s1 out where f: "filter_reports s now reports = (s1, out)" by fastforce
  have t: "t \<le> now" using Cons.prems(2) b by simp
  note step = filter_reports_step [OF Cons.prems(1) t f]
  obtain ems1 where run1: "dedup_run s1 batches = (s2, ems1)"
    and ems: "ems = map (\<lambda>tag. (now, tag_key s tag)) out @ ems1"
    using Cons.prems(3) b f by (auto split: prod.splits)
  have sorted1: "sorted (now # map fst batches)" using Cons.prems(2) b by simp
  have ev: "evictions s1 = evictions s"
    using dedup_run_evictions [OF step(1) sorted1 run1] step(4) Cons.prems(4) by simp
  let ?past = "past @ map (\<lambda>tag. (now, tag_key s tag)) out"
  have "apart ?w x (now, tag_key s tag)" if "x \<in> set past" "tag \<in> set out" for x tag
  proof (rule ccontr)
    obtain u k where x: "x = (u, k)" by (cases x)
    assume "\<not> ?thesis"
    then have k: "k = tag_key s tag" "now < u + ?w" by (auto simp: apart_def x)
    then have "(k, u + ?w) \<in> set (seen s)" using Cons.prems(5) that(1) x t by fastforce
    with step(6) [OF that(2)] k show False by fastforce
  qed
  moreover have "sorted_wrt (apart ?w) (map (\<lambda>tag. (now, tag_key s tag)) out)"
    using step(5) by (induction out) (auto simp: apart_def)
  ultimately have "sorted_wrt (apart ?w) ?past"
    using Cons.prems(6) by (auto simp: sorted_wrt_append)
  moreover have "\<forall>(u, k) \<in> set ?past. u \<le> now \<and> (now < u + window_seconds s1 \<longrightarrow> (k, u + window_seconds s1) \<in> set (seen s1))"
    using Cons.prems(5) t step(2) step(9) [OF ev] step(10) [OF ev] by fastforce
  ultimately have "sorted_wrt (apart ?w) (?past @ ems1)"
    using Cons.IH [OF step(1) sorted1 run1, of ?past] Cons.prems(4) ev step(2) by simp
  then show ?case by (simp add: ems)
qed

text \<open>Every report has an emission of its identity within the window before it.\<close>

lemma dedup_run_covered:
  assumes "dedup_ok t s" and "sorted (t # map fst batches)" and "dedup_run s batches = (s2, ems)"
    and "\<forall>(k, e) \<in> set (seen s). (e - window_seconds s, k) \<in> set past \<and> e - window_seconds s \<le> t"
    and "(now, reports) \<in> set batches" "tag \<in> set reports"
  shows "\<exists>u. (u, tag_key s tag) \<in> set (past @ ems) \<and> u \<le> now \<and> now < u + window_seconds s"
  using assms
proof (induction batches arbitrary: s t past ems)
  case Nil
  then show ?case by simp
next
  case (Cons b batches)
  let ?w = "window_seconds s"
  obtain now1 reports1 where b: "b = (now1, reports1)" by (cases b)
  obtain s1 out where f: "filter_reports s now1 reports1 = (s1, out)" by fastforce
  have t: "t \<le> now1" using Cons.prems(2) b by simp
  note step = filter_reports_step [OF Cons.prems(1) t f]
  have w: "0 < ?w" using Cons.prems(1) by (simp add: dedup_ok_def)
  obtain ems1 where run1: "dedup_run s1 batches = (s2, ems1)"
    and ems: "ems = map (\<lambda>tag. (now1, tag_key s tag)) out @ ems1"
    using Cons.prems(3) b f by (auto split: prod.splits)
  let ?past = "past @ map (\<lambda>tag. (now1, tag_key s tag)) out"
  have past: "\<forall>(k, e) \<in> set (seen s1). (e - window_seconds s1, k) \<in> set ?past \<and> e - window_seconds s1 \<le> now1"
  proof (clarify)
    fix k e assume "(k, e) \<in> set (seen s1)"
    from step(7) [OF this] show "(e - window_seconds s1, k) \<in> set ?past \<and> e - window_seconds s1 \<le> now1"
      using Cons.prems(4) t step(2) by fastforce
  qed
  show ?case
  proof (cases "(now, reports) = b")
    case True
    then have eq: "now = now1" "reports = reports1" using b by simp_all
    from step(8) Cons.prems(6) eq consider "tag_key s tag \<in> tag_key s ` set out"
      | e where "now1 < e" "(tag_key s tag, e) \<in> set (seen s)" by blast
    then show ?thesis
    proof cases
      case 1
      then have "(now1, tag_key s tag) \<in> set ems" by (auto simp: ems)
      with w eq show ?thesis by (intro exI [of _ now1]) simp
    next
      case 2
      then have "(e - ?w, tag_key s tag) \<in> set past \<and> e - ?w \<le> t" using Cons.prems(4) by fast
      with 2 eq t show ?thesis by (intro exI [of _ "e - ?w"]) auto
    qed
  next
    case False
    then have "(now, reports) \<in> set batches" using Cons.prems(5) by simp
    moreover have "sorted (now1 # map fst batches)" using Cons.prems(2) b by simp
    ultimately show ?thesis
      using Cons.IH [OF step(1) _ run1 past] Cons.prems(6) step(2,3) by (simp add: ems)
  qed
qed

section \<open>Properties\<close>

text \<open>
  C12. Suppression: as long as nothing was evicted by the size limit, two emissions of the same
  identity are at least one window apart, over any run in which the clock does not run back,
  within a batch and across batches; suppressed sightings in between do not matter.
\<close>

theorem emissions_apart:
  assumes "new_dedup (Some w) ant key mx emp = Inr s" "0 < w" "sorted (map fst batches)"
    and "dedup_run s batches = (s2, ems)" "evictions s2 = 0"
  shows "sorted_wrt (\<lambda>(t, k) (t', k'). k = k' \<longrightarrow> t + w \<le> t') ems"
proof -
  have s: "window_seconds s = w" "evictions s = 0" "seen s = []"
    using assms(1) by (auto simp: new_dedup_def split: if_splits)
  have "\<exists>t. sorted (t # map fst batches)"
    using assms(3) by (cases batches) (auto intro: exI [of _ "fst (hd batches)"])
  then obtain t where "sorted (t # map fst batches)" ..
  from dedup_run_apart [OF new_dedup_ok [OF assms(1,2), of t] this assms(4), of "[]"] s assms(5)
  have "sorted_wrt (apart w) ems" by simp
  then show ?thesis by (rule sorted_wrt_mono_rel [rotated]) (auto simp: apart_def)
qed

text \<open>A deduplicator with a window of one second, and two tags seen at 0, 1/2 and 3/2.\<close>

definition example_dedup :: dedup where
  "example_dedup = \<lparr>window_seconds = 1, include_antenna = False, key_fun = None, max_entries = 2,
     emit_empty = False, seen = [], expiry_queue = [], evictions = 0\<rparr>"

definition example_batches :: "(rat \<times> pydict list) list" where
  "example_batches = (let a = [(''EPC'', PStr ''A'')]; b = [(''EPC-96'', PStr ''B'')] in
     [(0, [a, a]), (1/2, [b, a]), (3/2, [a])])"

lemma example_new: "new_dedup (Some 1) False None 2 False = Inr example_dedup"
  by (simp add: new_dedup_def example_dedup_def)

definition example_ems :: "(rat \<times> pyval) list" where
  "example_ems = (let k = (\<lambda>n v. PList [PStr n, PStr v]) in
     [(0, k ''EPC'' ''A''), (1/2, k ''EPC-96'' ''B''), (3/2, k ''EPC'' ''A'')])"

lemma example_run:
  "\<exists>s2. dedup_run example_dedup example_batches = (s2, example_ems) \<and> evictions s2 = 0"
  by (simp add: example_dedup_def example_batches_def example_ems_def filter_reports_def tag_key_def
      default_tag_key_def Let_def)

theorem emissions_apart_witness:
  "sorted_wrt (\<lambda>(t, k) (t', k'). k = k' \<longrightarrow> t + 1 \<le> t') example_ems"
proof -
  obtain s2 where run: "dedup_run example_dedup example_batches = (s2, example_ems)" "evictions s2 = 0"
    using example_run by blast
  show ?thesis
    by (rule emissions_apart [OF example_new _ _ run]) (simp_all add: example_batches_def Let_def)
qed

text \<open>
  C13. No tag is lost: whatever is suppressed or evicted, every report of the run has an
  emission of its own identity less than one window before it, or at its own time.
\<close>

theorem every_report_covered:
  assumes "new_dedup (Some w) ant key mx emp = Inr s" "0 < w" "sorted (map fst batches)"
    and "dedup_run s batches = (s2, ems)" "(now, reports) \<in> set batches" "tag \<in> set reports"
  shows "\<exists>u. (u, tag_key s tag) \<in> set ems \<and> u \<le> now \<and> now < u + w"
proof -
  have s: "window_seconds s = w" "seen s = []"
    using assms(1) by (auto simp: new_dedup_def split: if_splits)
  have "\<exists>t. sorted (t # map fst batches)"
    using assms(3) by (cases batches) (auto intro: exI [of _ "fst (hd batches)"])
  then obtain t where "sorted (t # map fst batches)" ..
  from dedup_run_covered [OF new_dedup_ok [OF assms(1,2), of t] this assms(4) _ assms(5,6), of "[]"] s
  show ?thesis by simp
qed

theorem every_report_covered_witness:
  "\<exists>u. (u, PList [PStr ''EPC'', PStr ''A'']) \<in> set example_ems \<and> u \<le> 1/2 \<and> 1/2 < u + 1"
proof -
  obtain s2 where "dedup_run example_dedup example_batches = (s2, example_ems)"
    using example_run by blast
  from every_report_covered [OF example_new _ _ this, of "1/2"
      "[[(''EPC-96'', PStr ''B'')], [(''EPC'', PStr ''A'')]]" "[(''EPC'', PStr ''A'')]"]
  show ?thesis
    by (simp add: example_batches_def Let_def tag_key_def default_tag_key_def example_dedup_def)
qed

lemma dedup_run_ok:
  "dedup_ok t s \<Longrightarrow> sorted (t # map fst batches) \<Longrightarrow> dedup_run s batches = (s2, ems) \<Longrightarrow>
     max_entries s2 = max_entries s \<and> (\<exists>u. dedup_ok u s2)"
proof (induction batches arbitrary: s t ems)
  case Nil
  then show ?case by auto
next
  case (Cons b batches)
  obtain now reports where b: "b = (now, reports)" by (cases b)
  obtain s1 out where f: "filter_reports s now reports = (s1, out)" by fastforce
  have t: "t \<le> now" using Cons.prems(2) b by simp
  obtain ems1 where "dedup_run s1 batches = (s2, ems1)"
    using Cons.prems(3) b f by (auto split: prod.splits)
  moreover have "max_entries s1 = max_entries s"
    using filter_reports_refines(1) [OF Cons.prems(1) t, of reports] f by auto
  ultimately show ?case
    using Cons.IH [OF filter_reports_step(1) [OF Cons.prems(1) t f]] Cons.prems(2) b by simp
qed

text \<open>
  C14. Memory is bounded: after any run with a clock that does not run back, both the
  dictionary and the expiry queue hold at most \<open>max_entries\<close> entries, and they hold the same
  ones.
\<close>

theorem dedup_memory_bounded:
  assumes "new_dedup (Some w) ant key mx emp = Inr s" "0 < w" "sorted (map fst batches)"
    and "dedup_run s batches = (s2, ems)"
  shows "int (entry_count s2) \<le> mx \<and> expiry_queue s2 = map prod.swap (seen s2)"
proof -
  have s: "int (max_entries s) = mx"
    using assms(1) by (auto simp: new_dedup_def split: if_splits)
  have "\<exists>t. sorted (t # map fst batches)"
    using assms(3) by (cases batches) (auto intro: exI [of _ "fst (hd batches)"])
  then obtain t where "sorted (t # map fst batches)" ..
  from dedup_run_ok [OF new_dedup_ok [OF assms(1,2), of t] this assms(4)] s
  show ?thesis by (auto simp: dedup_ok_def entry_count_def)
qed

theorem dedup_memory_bounded_witness:
  "int (entry_count (fst (dedup_run example_dedup example_batches))) \<le> 2"
  using dedup_memory_bounded [OF example_new _ _ prod.collapse [symmetric], of example_batches]
  by (simp add: example_batches_def Let_def)

end
