(* ===== verification/Epc_Codes.thy ===== *)
theory Epc_Codes
  imports Py_Values
begin

text \<open>
  \<^verbatim>\<open>sllurp/epc\<close>: GTIN check digits and SGTIN-96 identifiers.  The lemmas show that a computed
  check digit detects every single wrong digit, and that parsing the hexadecimal text of an
  EPC reads exactly the bit fields of the SGTIN-96 layout.
\<close>

section \<open>GTIN check digits (\<^verbatim>\<open>gtin.py\<close>)\<close>

text \<open>\<open>int(char)\<close> of a one-character string.\<close>

definition int_char :: "char \<Rightarrow> int res" where
  "int_char c = py_int_parse 10 [of_char c]"

text \<open>The loop over the reversed digits.\<close>

fun check_total :: "string \<Rightarrow> int \<Rightarrow> int \<Rightarrow> int res" where
  "check_total [] tot count = Inr tot"
| "check_total (c # cs) tot count = bindE (int_char c) (\<lambda>digit.
     check_total cs (tot + (if count mod 2 = 0 then digit * 3 else digit)) (count + 1))"

definition calculate_check_digit :: "string \<Rightarrow> int res" where
  "calculate_check_digit gtin = bindE (check_total (rev gtin) 0 0) (\<lambda>tot.
     Inr (\<lceil>rat_of_int tot / 10\<rceil> * 10 - tot))"

definition combine_gtin_with_check_digit :: "string \<Rightarrow> string res" where
  "combine_gtin_with_check_digit gtin = bindE (calculate_check_digit gtin) (\<lambda>d.
     Inr (gtin @ (if d < 0 then char_of (45 :: nat) # dec_str (nat (- d)) else dec_str (nat d))))"

section \<open>SGTIN-96 (\<^verbatim>\<open>sgtin_96.py\<close>)\<close>

definition SGTIN_96_PARTITION_MAP :: "(nat \<times> (nat \<times> nat \<times> nat \<times> nat)) list" where
  "SGTIN_96_PARTITION_MAP = [
    (0, (40, 12, 4, 1)),
    (1, (37, 11, 7, 2)),
    (2, (34, 10, 10, 3)),
    (3, (30, 9, 14, 4)),
    (4, (27, 8, 17, 5)),
    (5, (24, 7, 20, 6)),
    (6, (20, 6, 24, 7))]"

text \<open>Binary text, \<open>zfill\<close> on unsigned text, and \<open>int(s, 2)\<close> of binary text.\<close>

definition bin_digit :: "nat \<Rightarrow> char" where
  "bin_digit b = (if b = 0 then CHR ''0'' else CHR ''1'')"

fun bin_str :: "nat \<Rightarrow> string" where
  "bin_str n = (if n < 2 then [bin_digit n] else bin_str (n div 2) @ [bin_digit (n mod 2)])"

declare bin_str.simps [simp del]

definition zfill :: "nat \<Rightarrow> string \<Rightarrow> string" where
  "zfill w s = replicate (w - length s) (CHR ''0'') @ s"

definition bin_val :: "string \<Rightarrow> nat" where
  "bin_val s = foldl (\<lambda>a c. 2 * a + (if c = CHR ''1'' then 1 else 0)) 0 s"

definition slice :: "nat \<Rightarrow> nat \<Rightarrow> 'a list \<Rightarrow> 'a list" where
  "slice a b xs = take (b - a) (drop a xs)"

record sgtin =
  header :: nat
  tag_filter :: nat
  partition_bits :: string
  company_prefix :: string
  item_reference :: string
  serial :: nat

text \<open>The parser on a string; the test for a non-string argument has no counterpart.\<close>

definition parse_sgtin_96 :: "string \<Rightarrow> sgtin res" where
  "parse_sgtin_96 text = (
     if text = [] then Inl ValueError
     else if length text \<noteq> 24 then Inl ValueError
     else bindE (py_int_parse 16 (char_codes text)) (\<lambda>num.
     if take 2 text \<noteq> ''30'' then Inl ValueError
     else let binary = zfill 96 (zfill 20 (bin_str (nat num))) in
     let hdr = bin_val (slice 0 8 binary); flt = bin_val (slice 8 11 binary);
         part = slice 11 14 binary in
     case map_of SGTIN_96_PARTITION_MAP (bin_val part) of
       None \<Rightarrow> Inl KeyError
     | Some (m, l, n, k) \<Rightarrow>
       (let company_start = 8 + 3 + 3; company_end = company_start + m;
            company_data = bin_val (slice company_start company_end binary) in
        if company_data \<ge> 10 ^ l then Inl ValueError
        else let item_end = company_end + n; item_number = bin_val (slice company_end item_end binary) in
          if item_number \<ge> 10 ^ k then Inl ValueError
          else Inr \<lparr>header = hdr, tag_filter = flt, partition_bits = part,
            company_prefix = zfill l (dec_str company_data),
            item_reference = zfill k (dec_str item_number),
            serial = bin_val (drop (length binary - 38) binary)\<rparr>)))"

definition parse_sgtin_96_to_uri :: "string \<Rightarrow> string res" where
  "parse_sgtin_96_to_uri text = bindE (parse_sgtin_96 text) (\<lambda>d.
     Inr (''urn:epc:id:sgtin:'' @ company_prefix d @ ''.'' @ item_reference d @ ''.'' @ dec_str (serial d)))"

section \<open>Check digits detect single errors\<close>

definition digit_val :: "char \<Rightarrow> int" where
  "digit_val c = int (of_char c) - 48"

definition is_dec :: "char \<Rightarrow> bool" where
  "is_dec c \<longleftrightarrow> 48 \<le> (of_char c :: nat) \<and> (of_char c :: nat) \<le> 57"

lemma int_char_eq: "int_char c = (if is_dec c then Inr (digit_val c) else Inl ValueError)"
proof -
  have "hex_digit n = None \<or> hex_digit n = Some (n - 48) \<and> 48 \<le> n \<and> n \<le> 57 \<or> (\<exists>d \<ge> 10. hex_digit n = Some d)" for n
    by (auto simp: hex_digit_def)
  then show ?thesis
    by (auto simp: int_char_def py_int_parse_def strip_def is_space_def is_dec_def digit_val_def
        unsigned_int_def digit_of_def hex_digit_def)
qed

text \<open>The weighted sum from the right; \<open>b\<close> tells whether the current weight is three.\<close>

fun weighted :: "bool \<Rightarrow> int list \<Rightarrow> int" where
  "weighted b [] = 0"
| "weighted b (d # ds) = (if b then 3 * d else d) + weighted (\<not> b) ds"

lemma check_total_eq:
  "check_total cs tot count =
     (if list_all is_dec cs then Inr (tot + weighted (count mod 2 = 0) (map digit_val cs)) else Inl ValueError)"
proof (induction cs arbitrary: tot count)
  case Nil
  then show ?case by simp
next
  case (Cons c cs)
  have "((count + 1) mod 2 = 0) = (\<not> count mod 2 = 0)" by presburger
  with Cons show ?case by (simp add: int_char_eq)
qed

text \<open>A code with a check digit is valid if its weighted sum is a multiple of ten.\<close>

definition gtin_valid :: "string \<Rightarrow> bool" where
  "gtin_valid code \<longleftrightarrow> list_all is_dec code \<and> weighted False (map digit_val (rev code)) mod 10 = 0"

lemma ceiling_tenth: "\<lceil>rat_of_int t / 10\<rceil> * 10 - t = (- t) mod 10"
proof -
  have "\<lceil>rat_of_int t / 10\<rceil> = - ((- t) div 10)"
    using ceiling_divide_eq_div [of t 10] by simp
  then show ?thesis by (simp flip: minus_div_mult_eq_mod)
qed

lemma calculate_check_digit_eq:
  "calculate_check_digit gtin =
     (if list_all is_dec gtin then Inr ((- weighted True (map digit_val (rev gtin))) mod 10) else Inl ValueError)"
  by (simp add: calculate_check_digit_def check_total_eq ceiling_tenth)

lemma dec_str_digit: "n < 10 \<Longrightarrow> dec_str n = [char_of (48 + n)]"
  by (simp add: dec_str.simps)

lemma combined_valid:
  assumes "combine_gtin_with_check_digit gtin = Inr code"
  shows "gtin_valid code \<and> length code = Suc (length gtin) \<and> take (length gtin) code = gtin"
proof -
  let ?d = "(- weighted True (map digit_val (rev gtin))) mod 10"
  have g: "list_all is_dec gtin" and code: "code = gtin @ dec_str (nat ?d)"
    using assms by (auto simp: combine_gtin_with_check_digit_def calculate_check_digit_eq split: if_splits)
  have d: "nat ?d < 10" by (simp add: nat_less_iff)
  then have "of_char (char_of (48 + nat ?d) :: char) = (48 + nat ?d :: nat)" by simp
  then have "is_dec (char_of (48 + nat ?d))" "digit_val (char_of (48 + nat ?d)) = ?d"
    using d by (simp_all add: is_dec_def digit_val_def)
  moreover have "(?d + weighted True (map digit_val (rev gtin))) mod 10 = 0"
    by (simp add: mod_simps)
  ultimately show ?thesis using g d by (simp add: code dec_str_digit gtin_valid_def)
qed

lemma weighted_update:
  "i < length ds \<Longrightarrow> weighted b (ds[i := x]) = weighted b ds + (if b = even i then 3 else 1) * (x - ds ! i)"
proof (induction ds arbitrary: b i)
  case Nil
  then show ?case by simp
next
  case (Cons d ds)
  show ?case
  proof (cases i)
    case 0
    then show ?thesis by (simp add: algebra_simps)
  next
    case (Suc j)
    with Cons.prems Cons.IH [of j "\<not> b"] show ?thesis by auto
  qed
qed

lemma single_error_invalid:
  assumes v: "gtin_valid code" and i: "i < length code" and c: "is_dec c" "c \<noteq> code ! i"
  shows "\<not> gtin_valid (code[i := c])"
proof
  assume v': "gtin_valid (code[i := c])"
  let ?j = "length code - Suc i" and ?ds = "map digit_val (rev code)"
  have "rev (code[i := c]) = (rev code)[?j := c]" using i by (simp add: rev_update)
  then have upd: "map digit_val (rev (code[i := c])) = ?ds[?j := digit_val c]" by (simp add: map_update)
  have nth: "?ds ! ?j = digit_val (code ! i)" using i by (simp add: rev_nth)
  have old: "is_dec (code ! i)" using v i by (simp add: gtin_valid_def list_all_length)
  have ne: "digit_val c \<noteq> digit_val (code ! i)"
    using c(2) by (metis digit_val_def add_diff_cancel_left' diff_add_cancel of_nat_eq_iff char_of_char of_char_eq_iff)
  let ?m = "if False = even ?j then 3 else 1 :: int" and ?x = "digit_val c - digit_val (code ! i)"
  have "weighted False (?ds[?j := digit_val c]) - weighted False ?ds = ?m * ?x"
    using weighted_update [of ?j ?ds False "digit_val c"] i nth by simp
  moreover have "10 dvd weighted False (?ds[?j := digit_val c])" "10 dvd weighted False ?ds"
    using v v' unfolding gtin_valid_def upd by auto
  ultimately have "10 dvd ?m * ?x" by (metis dvd_diff)
  moreover have "-9 \<le> ?x" "?x \<le> 9" "?x \<noteq> 0"
    using c(1) old ne by (auto simp: is_dec_def digit_val_def)
  ultimately show False by (cases "odd ?j") (simp_all, presburger+)
qed

section \<open>Bit fields of binary text\<close>

lemma bin_val_foldl: "foldl (\<lambda>a c. 2 * a + (if c = CHR ''1'' then 1 else 0)) a s = a * 2 ^ length s + bin_val s"
  by (induction s rule: rev_induct) (auto simp: bin_val_def algebra_simps)

lemma bin_val_append: "bin_val (s @ t) = bin_val s * 2 ^ length t + bin_val t"
  using bin_val_foldl [of "bin_val s" t] by (simp add: bin_val_def)

lemma bin_val_bound: "bin_val s < 2 ^ length s"
  by (induction s rule: rev_induct) (auto simp: bin_val_append, auto simp: bin_val_def)

lemma bin_val_bin_str: "bin_val (bin_str n) = n"
proof (induction n rule: bin_str.induct)
  case (1 n)
  show ?case
  proof (cases "n < 2")
    case True
    then show ?thesis by (auto simp: bin_str.simps [of n] bin_digit_def bin_val_def)
  next
    case False
    have "bin_val [bin_digit (n mod 2)] = n mod 2" by (auto simp: bin_digit_def bin_val_def)
    with False 1 show ?thesis
      by (subst bin_str.simps) (simp add: bin_val_append)
  qed
qed

lemma bin_str_length: "n < 2 ^ Suc w \<Longrightarrow> length (bin_str n) \<le> Suc w"
proof (induction w arbitrary: n)
  case 0
  then show ?case by (subst bin_str.simps) simp
next
  case (Suc w)
  then have "n div 2 < 2 ^ Suc w" by auto
  from Suc.IH [OF this] show ?case by (subst bin_str.simps) simp
qed

lemma bin_val_zfill: "bin_val (zfill w s) = bin_val s"
proof -
  have "bin_val (replicate k (CHR ''0'')) = 0" for k
  proof (induction k)
    case (Suc k)
    then show ?case
      using bin_val_append [of "[CHR ''0'']" "replicate k (CHR ''0'')"] by (simp add: bin_val_def)
  qed (simp add: bin_val_def)
  then show ?thesis by (simp add: zfill_def bin_val_append)
qed

lemma zfill_length: "length (zfill w s) = max w (length s)"
  by (simp add: zfill_def)

lemma bin_val_slice:
  assumes "a \<le> b" "b \<le> length s"
  shows "bin_val (slice a b s) = bin_val s div 2 ^ (length s - b) mod 2 ^ (b - a)"
proof -
  have s: "s = take a s @ slice a b s @ drop b s"
    using assms(1) unfolding slice_def by (metis append_take_drop_id drop_drop le_add_diff_inverse add.commute)
  have len: "length (slice a b s) = b - a" using assms by (simp add: slice_def)
  have "bin_val s = (bin_val (take a s) * 2 ^ (b - a) + bin_val (slice a b s)) * 2 ^ (length s - b) + bin_val (drop b s)"
    by (subst s) (simp add: bin_val_append len algebra_simps power_add)
  moreover have "bin_val (drop b s) < 2 ^ (length s - b)" using bin_val_bound [of "drop b s"] by simp
  moreover have "bin_val (slice a b s) < 2 ^ (b - a)" using bin_val_bound [of "slice a b s"] len by simp
  ultimately show ?thesis by simp
qed

lemma bin_val_suffix: "w \<le> length s \<Longrightarrow> bin_val (drop (length s - w) s) = bin_val s mod 2 ^ w"
  using bin_val_slice [of "length s - w" "length s" s] by (simp add: slice_def)

section \<open>Hexadecimal text of bytes\<close>

lemma hexlify_Cons:
  "map unat (hexlify (b # bs)) = unat (nibble_char (unat b div 16)) # unat (nibble_char (unat b mod 16)) # map unat (hexlify bs)"
  by (simp add: hexlify_def)

lemma digit_of_nibble: "n < 16 \<Longrightarrow> digit_of 16 (unat (nibble_char n)) = Some (int n)"
  by (simp add: digit_of_def hex_digit_nibble)

lemma digit_seq_hexlify: "digit_seq 16 a (map unat (hexlify bs)) = Some (be_val_acc a bs)"
proof (induction bs arbitrary: a)
  case Nil
  then show ?case by (simp add: hexlify_def)
next
  case (Cons b bs)
  have "unat b < 256" using unsigned_less [of b] by simp
  then have lt: "unat b div 16 < 16" by auto
  have "int (unat b div 16) * 16 + int (unat b mod 16) = int (unat b)"
    using div_mult_mod_eq [of "unat b" 16] by (metis of_nat_add of_nat_mult of_nat_numeral)
  then have "(a * 16 + int (unat b div 16)) * 16 + int (unat b mod 16) = a * 256 + uint b"
    by (simp add: algebra_simps)
  with Cons [of "a * 256 + uint b"] lt show ?case
    by (simp add: hexlify_Cons digit_of_nibble add.assoc mult.commute [of 256])
qed

lemma nibble_graphic: "n < 16 \<Longrightarrow> 48 \<le> unat (nibble_char n) \<and> unat (nibble_char n) \<notin> {95, 120, 88}"
  by (auto simp: unat_nibble_char)

lemma hexlify_graphic: "c \<in> set (map unat (hexlify bs)) \<Longrightarrow> 48 \<le> c \<and> c \<notin> {95, 120, 88}"
proof (induction bs)
  case Nil
  then show ?case by (simp add: hexlify_def)
next
  case (Cons b bs)
  have "unat b < 256" using unsigned_less [of b] by simp
  then have "unat b div 16 < 16" "unat b mod 16 < 16" by auto
  from this [THEN nibble_graphic] Cons show ?case by (auto simp: hexlify_Cons)
qed

lemma parse_hexlify: "bs \<noteq> [] \<Longrightarrow> py_int_parse 16 (map unat (hexlify bs)) = Inr (be_val bs)"
proof -
  assume ne: "bs \<noteq> []"
  let ?cs = "map unat (hexlify bs)"
  have g: "\<forall>c \<in> set ?cs. 48 \<le> c \<and> c \<notin> {95, 120, 88}" using hexlify_graphic by blast
  then have strip: "strip ?cs = ?cs" by (intro strip_graphic) blast
  obtain c d cs where cs: "?cs = c # d # cs" using ne by (cases bs) (auto simp: hexlify_Cons)
  have "unsigned_int 16 ?cs = Some (be_val bs)"
    using g digit_seq_hexlify [of 0 bs] unfolding cs by (simp add: unsigned_int_def be_val_def)
  with g strip show ?thesis unfolding cs by (simp add: py_int_parse_def)
qed

lemma be_bytes_first: "be_bytes (Suc n) i = word_of_int (i div 256 ^ n) # be_bytes n i"
proof (induction n arbitrary: i)
  case 0
  then show ?case by simp
next
  case (Suc n)
  have "be_bytes (Suc (Suc n)) i = be_bytes (Suc n) (i div 256) @ [word_of_int i]"
    by (simp only: be_bytes.simps(2) [of "Suc n"])
  also have "\<dots> = word_of_int (i div 256 div 256 ^ n) # be_bytes n (i div 256) @ [word_of_int i]"
    by (simp only: Suc append_Cons)
  also have "i div 256 div 256 ^ n = i div 256 ^ Suc n"
    by (simp add: zdiv_zmult2_eq)
  finally show ?case by simp
qed

section \<open>Properties\<close>

text \<open>
  A GTIN completed with its computed check digit is valid, extends the given digits by one
  digit, and every replacement of a single digit of it by another digit makes it invalid.
\<close>

theorem check_digit_detects:
  assumes "combine_gtin_with_check_digit gtin = Inr code"
  shows "gtin_valid code \<and> length code = Suc (length gtin) \<and> take (length gtin) code = gtin \<and>
    (\<forall>i < length code. \<forall>c. is_dec c \<and> c \<noteq> code ! i \<longrightarrow> \<not> gtin_valid (code[i := c]))"
  using combined_valid [OF assms] single_error_invalid by blast

lemma gtin_example: "combine_gtin_with_check_digit ''629104150021'' = Inr ''6291041500213''"
  by (simp add: combine_gtin_with_check_digit_def calculate_check_digit_eq is_dec_def digit_val_def dec_str_digit
      char_of_def bit_0 bit_Suc)

theorem check_digit_detects_witness: "gtin_valid ''6291041500213'' \<and> \<not> gtin_valid ''6291041500273''"
proof -
  note d = check_digit_detects [OF gtin_example]
  have "is_dec (CHR ''7'') \<and> CHR ''7'' \<noteq> ''6291041500213'' ! 11" by (simp add: is_dec_def)
  moreover have "11 < length ''6291041500213''" by simp
  ultimately have "\<not> gtin_valid (''6291041500213''[11 := CHR ''7''])" using d by blast
  moreover have "''6291041500213''[11 := CHR ''7''] = ''6291041500273''" by simp
  ultimately show ?thesis using d by simp
qed

text \<open>The 96 bits of an SGTIN with company and item fields of \<open>m\<close> and \<open>n\<close> bits.\<close>

definition sgtin_bits :: "nat \<Rightarrow> nat \<Rightarrow> nat \<Rightarrow> nat \<Rightarrow> nat \<Rightarrow> nat \<Rightarrow> nat \<Rightarrow> nat" where
  "sgtin_bits m n flt part company item srl =
     ((((48 * 2 ^ 3 + flt) * 2 ^ 3 + part) * 2 ^ m + company) * 2 ^ n + item) * 2 ^ 38 + srl"

lemma pack_div: "y < b \<Longrightarrow> (x * b + y) div b = x" "y < b \<Longrightarrow> (x * b + y) mod b = y" for x y b :: nat
  by simp_all

lemma partition_row:
  assumes "map_of SGTIN_96_PARTITION_MAP p = Some (m, l, n, k)"
  shows "p < 8 \<and> m + n = 44 \<and> (10::nat) ^ l \<le> 2 ^ m \<and> (10::nat) ^ k \<le> 2 ^ n"
  using assms by (auto simp: SGTIN_96_PARTITION_MAP_def split: if_splits)

lemma sgtin_fields_of_bits:
  assumes "map_of SGTIN_96_PARTITION_MAP p = Some (m, l, n, k)"
    and "flt < 8" "company < 10 ^ l" "item < 10 ^ k" "srl < 2 ^ 38"
  defines "N \<equiv> sgtin_bits m n flt p company item srl"
  shows "N < 2 ^ 96" "N div 2 ^ 88 = 48" "N div 2 ^ 85 mod 2 ^ 3 = flt" "N div 2 ^ 82 mod 2 ^ 3 = p"
    "N div 2 ^ (82 - m) mod 2 ^ m = company" "N div 2 ^ 38 mod 2 ^ n = item" "N mod 2 ^ 38 = srl"
proof -
  note row = partition_row [OF assms(1)]
  then have c: "company < 2 ^ m" and i: "item < 2 ^ n" and mn: "82 - m = 38 + n"
    using assms(3,4) by linarith+
  have p: "p < 2 ^ 3" using row by simp
  have "N div 2 ^ (38 + n) = ((48 * 2 ^ 3 + flt) * 2 ^ 3 + p) * 2 ^ m + company"
    unfolding power_add div_mult2_eq N_def sgtin_bits_def pack_div(1) [OF assms(5)] by (rule pack_div(1) [OF i])
  moreover have d82: "N div 2 ^ (38 + n + m) = (48 * 2 ^ 3 + flt) * 2 ^ 3 + p"
    unfolding power_add [of _ "38 + n"] div_mult2_eq calculation using c by simp
  ultimately show "N div 2 ^ (82 - m) mod 2 ^ m = company" using c mn by simp
  have e: "38 + n + m = 82" using row by simp
  have d85: "N div 2 ^ 85 = 48 * 2 ^ 3 + flt"
  proof -
    have "N div 2 ^ (82 + 3) = N div 2 ^ 82 div 2 ^ 3" by (simp only: power_add div_mult2_eq)
    then show ?thesis using d82 p unfolding e by simp
  qed
  have d88: "N div 2 ^ (85 + 3) = N div 2 ^ 85 div 2 ^ 3" by (simp only: power_add div_mult2_eq)
  then show h: "N div 2 ^ 88 = 48" using d85 assms(2) by simp
  have "flt < 2 ^ 3" using assms(2) by simp
  then show "N div 2 ^ 85 mod 2 ^ 3 = flt" unfolding d85 by (rule pack_div(2))
  show "N div 2 ^ 82 mod 2 ^ 3 = p" unfolding d82 [unfolded e] by (rule pack_div(2) [OF p])
  show "N div 2 ^ 38 mod 2 ^ n = item" "N mod 2 ^ 38 = srl"
    unfolding N_def sgtin_bits_def pack_div [OF assms(5)] by (rule pack_div(2) [OF i], rule refl)
  have "N div 2 ^ 88 < 2 ^ 8" using h by simp
  then show "N < 2 ^ 96" by (simp add: div_less_iff_less_mult)
qed

text \<open>The hexadecimal text of 96 bits that start with the header 48.\<close>

lemma sgtin_text:
  fixes N :: nat
  assumes "N < 2 ^ 96" "N div 2 ^ 88 = 48" and hex: "char_codes text = map unat (hexlify (be_bytes 12 (int N)))"
  shows "length text = 24" "take 2 text = ''30''" "py_int_parse 16 (char_codes text) = Inr (int N)"
proof -
  let ?b = "be_bytes 12 (int N)"
  have "int N < 256 ^ 12" using assms(1) by simp
  then have val: "be_val ?b = int N" by (simp add: be_val_be_bytes)
  have ne: "?b \<noteq> []" by (metis length_be_bytes length_0_conv zero_neq_numeral)
  show "py_int_parse 16 (char_codes text) = Inr (int N)"
    using parse_hexlify [OF ne] val hex by simp
  have "length (char_codes text) = 24" unfolding hex by simp
  then show "length text = 24" by (simp add: char_codes_def)
  have "int (N div 2 ^ 88) = 48" using assms(2) by simp
  then have "int N div 256 ^ 11 = 48" by (simp add: zdiv_int)
  then have b: "?b = 48 # be_bytes 11 (int N)" using be_bytes_first [of 11 "int N"] by simp
  have "char_codes text = 51 # 48 # map unat (hexlify (be_bytes 11 (int N)))"
    unfolding hex by (subst b) (simp add: hexlify_Cons unat_nibble_char)
  then show "take 2 text = ''30''"
    by (cases "text"; cases "tl text") (auto simp: char_codes_def of_char_eq_iff [symmetric, where 'a = nat])
qed

text \<open>The padded binary text of a number below \<open>2 ^ 96\<close> and its slices.\<close>

lemma padded_length: "N < 2 ^ 96 \<Longrightarrow> length (zfill 96 (zfill 20 (bin_str N))) = 96"
  using bin_str_length [of N 95] by (simp add: zfill_length)

lemma padded_slice:
  "N < 2 ^ 96 \<Longrightarrow> x \<le> y \<Longrightarrow> y \<le> 96 \<Longrightarrow>
     bin_val (slice x y (zfill 96 (zfill 20 (bin_str N)))) = N div 2 ^ (96 - y) mod 2 ^ (y - x)"
  using bin_val_slice [of x y "zfill 96 (zfill 20 (bin_str N))"] padded_length [of N]
  by (simp add: bin_val_zfill bin_val_bin_str)

text \<open>
  C15. SGTIN round trip: for every partition, filter, company prefix, item reference and serial
  number in their ranges, parsing the hexadecimal text of the EPC with these fields returns
  exactly these fields, the two decimal ones padded to the digits of their partition.
\<close>

theorem sgtin_roundtrip:
  assumes "map_of SGTIN_96_PARTITION_MAP p = Some (m, l, n, k)"
    and "flt < 8" "company < 10 ^ l" "item < 10 ^ k" "srl < 2 ^ 38"
    and hex: "char_codes text = map unat (hexlify (be_bytes 12 (int (sgtin_bits m n flt p company item srl))))"
  shows "\<exists>r. parse_sgtin_96 text = Inr r \<and> header r = 48 \<and> tag_filter r = flt \<and> bin_val (partition_bits r) = p \<and>
    company_prefix r = zfill l (dec_str company) \<and> item_reference r = zfill k (dec_str item) \<and> serial r = srl"
proof -
  let ?N = "sgtin_bits m n flt p company item srl"
  note f = sgtin_fields_of_bits [OF assms(1-5)]
  note hex_text = sgtin_text [OF f(1,2) hex]
  define B where "B = zfill 96 (zfill 20 (bin_str ?N))"
  have bl: "length B = 96" unfolding B_def by (rule padded_length [OF f(1)])
  have bv: "bin_val B = ?N" by (simp add: B_def bin_val_zfill bin_val_bin_str)
  note row = partition_row [OF assms(1)]
  have sl: "bin_val (slice x y B) = ?N div 2 ^ (96 - y) mod 2 ^ (y - x)" if "x \<le> y" "y \<le> 96" for x y
    unfolding B_def by (rule padded_slice [OF f(1) that])
  have s1: "bin_val (slice 0 8 B) = 48" "bin_val (slice 8 11 B) = flt" "bin_val (slice 11 14 B) = p"
    using f(2,3,4) by (simp_all add: sl)
  have s2: "bin_val (slice 14 (14 + m) B) = company"
    using f(5) row sl [of 14 "14 + m"] by (simp add: diff_diff_left [symmetric])
  have s3: "bin_val (slice (14 + m) (14 + m + n) B) = item"
  proof -
    have e: "14 + m + n = 58" "58 - (14 + m) = n" "14 + m \<le> 58" using row by auto
    have "bin_val (slice (14 + m) 58 B) = ?N div 2 ^ (96 - 58) mod 2 ^ (58 - (14 + m))"
      by (rule sl) (use e in simp_all)
    also have "\<dots> = item" unfolding e(2) using f(6) by simp
    finally show ?thesis unfolding e(1) .
  qed
  have s4: "bin_val (drop (length B - 38) B) = srl"
    using bin_val_suffix [of 38 B] bl bv f(7) by simp
  have "parse_sgtin_96 text = Inr \<lparr>header = 48, tag_filter = flt, partition_bits = slice 11 14 B,
      company_prefix = zfill l (dec_str company), item_reference = zfill k (dec_str item), serial = srl\<rparr>"
    using hex_text assms(1,3,4) s1 s2 s3 s4
    by (auto simp: parse_sgtin_96_def Let_def B_def [symmetric])
  then show ?thesis using s1(3) by simp
qed

text \<open>The tag of the GS1 example \<open>urn:epc:id:sgtin:0614141.112345.400\<close>.\<close>

theorem sgtin_roundtrip_witness:
  "\<exists>r. parse_sgtin_96 ''3034257bf46db64000000190'' = Inr r \<and> tag_filter r = 1 \<and>
     company_prefix r = zfill 7 (dec_str 614141) \<and> item_reference r = zfill 6 (dec_str 112345) \<and> serial r = 400"
proof -
  have "int (sgtin_bits 24 20 1 5 614141 112345 400) = 0x3034257bf46db64000000190"
    by (simp add: sgtin_bits_def)
  then have "be_bytes 12 (int (sgtin_bits 24 20 1 5 614141 112345 400)) =
      [0x30, 0x34, 0x25, 0x7b, 0xf4, 0x6d, 0xb6, 0x40, 0, 0, 1, 0x90]"
    by (simp add: be_bytes_numeral)
  then have "char_codes ''3034257bf46db64000000190'' =
      map unat (hexlify (be_bytes 12 (int (sgtin_bits 24 20 1 5 614141 112345 400))))"
    by (simp add: char_codes_def hexlify_Cons unat_nibble_char) (simp add: hexlify_def)
  from sgtin_roundtrip [OF _ _ _ _ _ this] show ?thesis
    by (auto simp: SGTIN_96_PARTITION_MAP_def)
qed

text \<open>
  The header check is on the text, not on the number: \<open>int(text, 16)\<close> accepts an underscore
  between digits, so a text of 24 characters that is not 24 hexadecimal digits passes every
  check and is parsed as an SGTIN although its header value is not 48.
\<close>

theorem sgtin_underscore_accepted:
  "\<exists>r. parse_sgtin_96 ''30_000000000000000000000'' = Inr r \<and> header r = 3"
proof -
  have parse: "py_int_parse 16 (char_codes ''30_000000000000000000000'') = Inr 928455029464035206174343168"
    by (simp add: char_codes_def py_int_parse_def strip_def is_space_def unsigned_int_def digit_of_def hex_digit_def)
  let ?N = "928455029464035206174343168 :: nat"
  let ?B = "zfill 96 (zfill 20 (bin_str ?N))"
  have N: "?N < 2 ^ 96" by simp
  note sl = padded_slice [OF N]
  have "bin_val (slice 0 8 ?B) = 3" "bin_val (slice 11 14 ?B) = 0" "bin_val (slice 14 54 ?B) = 0"
    "bin_val (slice 54 58 ?B) = 0"
    using sl [of 0 8] sl [of 11 14] sl [of 14 54] sl [of 54 58] by simp_all
  moreover have "nat 928455029464035206174343168 = ?N" by simp
  ultimately show ?thesis
    unfolding parse_sgtin_96_def parse
    by (simp add: Let_def SGTIN_96_PARTITION_MAP_def)
qed

end
