(* ===== verification/Util_Functions.thy ===== *)
theory Util_Functions
  imports Py_Values
begin

text \<open>
  The helpers of \<^verbatim>\<open>sllurp/util.py\<close>: table lookup by bisection, reader addresses, natural
  sort keys.  The lemmas show the meaning of \<open>find_closest\<close> on a sorted table, and that
  splitting a formatted address gives the address back.
\<close>

section \<open>Bisection\<close>

text \<open>\<open>bisect.bisect_right(table, target)\<close> on \<open>table[lo:hi]\<close>.\<close>

function bisect_right :: "'a::linorder list \<Rightarrow> 'a \<Rightarrow> nat \<Rightarrow> nat \<Rightarrow> nat" where
  "bisect_right table x lo hi =
     (if lo < hi
      then let mid = (lo + hi) div 2 in
        if x < table ! mid then bisect_right table x lo mid else bisect_right table x (mid + 1) hi
      else lo)"
  by pat_completeness auto
termination
  by (relation "measure (\<lambda>(_, _, lo, hi). hi - lo)") auto

declare bisect_right.simps [simp del]

definition find_closest :: "'a::linorder list \<Rightarrow> 'a \<Rightarrow> (nat \<times> 'a) res" where
  "find_closest table target =
    (if table = [] then Inl ValueError
     else let i = int (bisect_right table target 0 (length table)) - 1;
              i = (if i < 0 then 0 else if i \<ge> int (length table) then int (length table) - 1 else i)
          in Inr (nat i, table ! nat i))"

text \<open>Bisection splits a sorted table at the target.\<close>

lemma bisect_right_split:
  "sorted table \<Longrightarrow> lo \<le> hi \<Longrightarrow> hi \<le> length table \<Longrightarrow>
     (\<forall>j < lo. table ! j \<le> x) \<Longrightarrow> (\<forall>j < length table. hi \<le> j \<longrightarrow> x < table ! j) \<Longrightarrow>
     (\<forall>j < bisect_right table x lo hi. table ! j \<le> x) \<and>
     (\<forall>j < length table. bisect_right table x lo hi \<le> j \<longrightarrow> x < table ! j) \<and>
     bisect_right table x lo hi \<le> length table"
proof (induction table x lo hi rule: bisect_right.induct)
  case (1 table x lo hi)
  show ?case
  proof (cases "lo < hi")
    case False
    with "1.prems" show ?thesis by (subst (1 2 3) bisect_right.simps) auto
  next
    case True
    let ?mid = "(lo + hi) div 2"
    have mid: "lo \<le> ?mid" "?mid < hi" "?mid < length table" using True "1.prems" by auto
    show ?thesis
    proof (cases "x < table ! ?mid")
      case less: True
      have "\<forall>j < length table. ?mid \<le> j \<longrightarrow> x < table ! j"
        using less sorted_nth_mono [OF "1.prems"(1)] by fastforce
      with "1.IH"(1) [OF True refl less] "1.prems" mid True less show ?thesis
        by (subst (1 2 3) bisect_right.simps) (simp add: Let_def)
    next
      case False
      have "\<forall>j < ?mid + 1. table ! j \<le> x"
        using False sorted_nth_mono [OF "1.prems"(1)] mid
        by (metis Suc_eq_plus1 less_Suc_eq_le not_le order_trans)
      with "1.IH"(2) [OF True refl False] "1.prems" mid True False show ?thesis
        by (subst (1 2 3) bisect_right.simps) (simp add: Let_def)
    qed
  qed
qed

lemma find_closest_meaning:
  assumes "sorted table" "table \<noteq> []"
  shows "\<exists>i. find_closest table x = Inr (i, table ! i) \<and> i < length table \<and>
    (\<forall>j < length table. i < j \<longrightarrow> x < table ! j) \<and> (hd table \<le> x \<longrightarrow> table ! i \<le> x) \<and> (x < hd table \<longrightarrow> i = 0)"
proof -
  let ?b = "bisect_right table x 0 (length table)"
  have b: "\<forall>j < ?b. table ! j \<le> x" "\<forall>j < length table. ?b \<le> j \<longrightarrow> x < table ! j" "?b \<le> length table"
    using bisect_right_split [OF assms(1), of 0 "length table" x] by auto
  have hd: "hd table = table ! 0" using assms(2) by (simp add: hd_conv_nth)
  show ?thesis
  proof (cases ?b)
    case 0
    with b(2) assms(2) hd show ?thesis by (intro exI [of _ 0]) (auto simp: find_closest_def)
  next
    case (Suc i)
    then have "find_closest table x = Inr (i, table ! i)" using assms(2) b(3) by (simp add: find_closest_def)
    moreover have "table ! 0 \<le> x" using b(1) Suc by simp
    ultimately show ?thesis using b Suc hd by (intro exI [of _ i]) auto
  qed
qed

section \<open>Reader addresses\<close>

text \<open>The part before the first (\<open>find\<close>) or the last (\<open>rsplit\<close>) occurrence of a character.\<close>

definition before :: "char \<Rightarrow> string \<Rightarrow> string" where
  "before c s = takeWhile (\<lambda>x. x \<noteq> c) s"

definition after :: "char \<Rightarrow> string \<Rightarrow> string" where
  "after c s = drop (Suc (length (before c s))) s"

definition split_host_port :: "string \<Rightarrow> int \<Rightarrow> (string \<times> int) res" where
  "split_host_port value default_port =
    (if take 1 value = ''['' then
       (if CHR '']'' \<notin> set value then Inl ValueError
        else let host = before (CHR '']'') (drop 1 value); remainder = after (CHR '']'') (drop 1 value) in
          if remainder = [] then Inr (host, default_port)
          else if take 1 remainder \<noteq> '':'' \<or> drop 1 remainder = [] then Inl ValueError
          else bindE (py_int_parse 10 (char_codes (drop 1 remainder))) (\<lambda>port. Inr (host, port)))
     else if count_list value (CHR '':'') = 1 then
       let host = before (CHR '':'') value; port = after (CHR '':'') value in
         if host \<noteq> [] \<and> port \<noteq> []
         then bindE (py_int_parse 10 (char_codes port)) (\<lambda>port. Inr (host, port))
         else Inr (value, default_port)
     else Inr (value, default_port))"

definition format_host_port :: "string \<Rightarrow> nat \<Rightarrow> string" where
  "format_host_port host port =
    (let host = (if CHR '':'' \<in> set host \<and> \<not> (take 1 host = ''['' \<and> host \<noteq> [] \<and> last host = CHR '']'')
                 then ''['' @ host @ '']'' else host)
     in host @ '':'' @ dec_str port)"

lemma before_after: "c \<notin> set a \<Longrightarrow> before c (a @ c # b) = a" "c \<notin> set a \<Longrightarrow> after c (a @ c # b) = b"
proof -
  assume c: "c \<notin> set a"
  then show "before c (a @ c # b) = a"
    by (induction a) (auto simp: before_def)
  then show "after c (a @ c # b) = b" by (simp add: after_def)
qed

lemma dec_str_no_colon: "CHR '':'' \<notin> set (dec_str n)"
proof
  assume "CHR '':'' \<in> set (dec_str n)"
  then have "of_char (CHR '':'') \<in> set (char_codes (dec_str n))"
    unfolding char_codes_def set_map by (rule imageI)
  from dec_str_graphic [OF this] show False by simp
qed

section \<open>Natural sort keys\<close>

datatype sort_key_part = Number nat | Text string

definition is_digit :: "char \<Rightarrow> bool" where
  "is_digit c \<longleftrightarrow> 48 \<le> (of_char c :: nat) \<and> (of_char c :: nat) \<le> 57"

definition digits_val :: "string \<Rightarrow> nat" where
  "digits_val s = foldl (\<lambda>a c. 10 * a + (of_char c - 48)) 0 s"

text \<open>ASCII text; \<open>''.isdigit()\<close> is false.\<close>

definition atoi :: "string \<Rightarrow> sort_key_part" where
  "atoi s = (if s \<noteq> [] \<and> list_all is_digit s then Number (digits_val s) else Text s)"

text \<open>\<open>re.split(r"([0-9]+)", text)\<close>: texts and digit runs in turn, a text at both ends.\<close>

function natural_split :: "string \<Rightarrow> string list" where
  "natural_split s =
    (let txt = takeWhile (\<lambda>c. \<not> is_digit c) s; rest = dropWhile (\<lambda>c. \<not> is_digit c) s in
     if rest = [] then [txt]
     else txt # takeWhile is_digit rest # natural_split (dropWhile is_digit rest))"
  by pat_completeness auto
termination
proof (relation "measure length")
  fix x xa s :: string
  assume xa_s: "xa = dropWhile (\<lambda>c. \<not> is_digit c) s" and "xa \<noteq> []"
  then obtain c cs where xa: "xa = c # cs" "is_digit c"
    by (metis hd_dropWhile list.exhaust_sel)
  have "length (dropWhile is_digit xa) \<le> length cs" using xa by (simp add: length_dropWhile_le)
  moreover have "length xa \<le> length s" using xa_s by (simp add: length_dropWhile_le)
  ultimately show "(dropWhile is_digit xa, s) \<in> measure length" using xa by simp
qed simp

declare natural_split.simps [simp del]

definition natural_keys :: "string \<Rightarrow> sort_key_part list" where
  "natural_keys s = map atoi (natural_split s)"

lemma natural_split_concat: "concat (natural_split s) = s"
proof (induction s rule: natural_split.induct)
  case (1 s)
  let ?rest = "dropWhile (\<lambda>c. \<not> is_digit c) s"
  show ?case
  proof (cases "?rest = []")
    case True
    then have "takeWhile (\<lambda>c. \<not> is_digit c) s = s"
      by (simp add: dropWhile_eq_Nil_conv takeWhile_eq_all_conv)
    with True show ?thesis by (subst natural_split.simps) (simp add: Let_def)
  next
    case False
    from 1 [OF refl refl False] show ?thesis
      by (subst natural_split.simps) (simp add: Let_def False)
  qed
qed

section \<open>Properties\<close>

text \<open>
  C20. \<open>find_closest\<close> on a non-empty ascending table: the answer is an entry of the table with
  its index, every later entry is above the target, the entry is not above the target unless
  the target lies below the whole table, and then the first entry is the answer.
\<close>

theorem find_closest_greatest_below:
  assumes "sorted table" "table \<noteq> []"
  shows "\<exists>i. find_closest table target = Inr (i, table ! i) \<and> i < length table \<and>
    (\<forall>j < length table. i < j \<longrightarrow> target < table ! j) \<and>
    (if target < hd table then i = 0 else table ! i \<le> target)"
  using find_closest_meaning [OF assms, of target] by (auto simp: not_less)

theorem find_closest_greatest_below_witness:
  "\<exists>i. find_closest [1000, 1025, 1050, 3000 :: int] 1040 = Inr (i, [1000, 1025, 1050, 3000] ! i) \<and> i < 4"
  using find_closest_greatest_below [of "[1000, 1025, 1050, 3000 :: int]" 1040] by auto

text \<open>
  C19. Addresses survive the round trip: for every non-empty host without brackets (a name, an
  IPv4 or an IPv6 literal) and every port, splitting the formatted address gives host and port
  back, whatever the default port.
\<close>

theorem address_roundtrip:
  assumes "host \<noteq> []" "CHR ''['' \<notin> set host" "CHR '']'' \<notin> set host"
  shows "split_host_port (format_host_port host port) default_port = Inr (host, int port)"
proof (cases "CHR '':'' \<in> set host")
  case True
  have "take 1 host \<noteq> ''[''" using assms(1,2) by (cases host) auto
  with True have f: "format_host_port host port = CHR ''['' # host @ CHR '']'' # CHR '':'' # dec_str port"
    by (simp add: format_host_port_def)
  show ?thesis
    unfolding f split_host_port_def using before_after [OF assms(3)]
    by (simp add: dec_str_nonempty py_int_parse_dec_str)
next
  case False
  then have f: "format_host_port host port = host @ CHR '':'' # dec_str port"
    by (simp add: format_host_port_def)
  have "take 1 (format_host_port host port) \<noteq> ''[''"
    using assms(1,2) unfolding f by (cases host) auto
  moreover have "count_list (format_host_port host port) (CHR '':'') = 1"
    using False dec_str_no_colon unfolding f by (simp add: count_notin)
  ultimately show ?thesis
    using before_after [OF False] assms(1) unfolding f split_host_port_def
    by (simp add: dec_str_nonempty py_int_parse_dec_str)
qed

theorem address_roundtrip_witness:
  "split_host_port (format_host_port ''2001:db8::1'' 5084) 5085 = Inr (''2001:db8::1'', 5084)"
  using address_roundtrip [of "''2001:db8::1''" 5084 5085] by simp

end
