(* ===== verification/Exception_State.thy ===== *)
theory Exception_State
  imports Sllurp_Prelude
begin

text \<open>
  Methods that change an object and may raise: an action maps a state to a result and the state
  it leaves behind, so that what was done before an exception stays done.  The second part holds
  the rules by which a relation between the state before and after is carried through the
  statements of a method; the locale is interpreted for each relation the theorems need.
\<close>

named_theorems act_simps \<open>evaluation of actions on a state\<close>

type_synonym ('s, 'a) act = "'s \<Rightarrow> 'a res \<times> 's"

definition retA :: "'a \<Rightarrow> ('s, 'a) act" where
  "retA x = (\<lambda>s. (Inr x, s))"

definition throwA :: "py_error \<Rightarrow> ('s, 'a) act" where
  "throwA e = (\<lambda>s. (Inl e, s))"

definition liftA :: "'a res \<Rightarrow> ('s, 'a) act" where
  "liftA r = (\<lambda>s. (r, s))"

definition bindA :: "('s, 'a) act \<Rightarrow> ('a \<Rightarrow> ('s, 'b) act) \<Rightarrow> ('s, 'b) act" where
  "bindA m f = (\<lambda>s. case m s of (Inl e, s') \<Rightarrow> (Inl e, s') | (Inr x, s') \<Rightarrow> f x s')"

text \<open>\<open>m; n\<close>.\<close>

definition thenA :: "('s, 'a) act \<Rightarrow> ('s, 'b) act \<Rightarrow> ('s, 'b) act" where
  "thenA m n = bindA m (\<lambda>_. n)"

text \<open>An action chosen by the current state, and an assignment to it.\<close>

definition readA :: "('s \<Rightarrow> ('s, 'a) act) \<Rightarrow> ('s, 'a) act" where
  "readA f = (\<lambda>s. f s s)"

definition modifyA :: "('s \<Rightarrow> 's) \<Rightarrow> ('s, unit) act" where
  "modifyA g = (\<lambda>s. (Inr (), g s))"

definition whenA :: "bool \<Rightarrow> ('s, unit) act \<Rightarrow> ('s, unit) act" where
  "whenA b m = (if b then m else retA ())"

text \<open>\<open>try: m  except Exception as e: h e\<close>.\<close>

definition handleA :: "('s, 'a) act \<Rightarrow> (py_error \<Rightarrow> ('s, 'a) act) \<Rightarrow> ('s, 'a) act" where
  "handleA m h = (\<lambda>s. case m s of (Inl e, s') \<Rightarrow> h e s' | (Inr x, s') \<Rightarrow> (Inr x, s'))"

text \<open>\<open>for x in xs: f x\<close>.\<close>

fun forA :: "('a \<Rightarrow> ('s, unit) act) \<Rightarrow> 'a list \<Rightarrow> ('s, unit) act" where
  "forA f [] = retA ()"
| "forA f (x # xs) = thenA (f x) (forA f xs)"

lemma act_eval [act_simps]:
  "retA x s = (Inr x, s)" "throwA e s = (Inl e, s)" "liftA r s = (r, s)"
  "readA act s = act s s" "modifyA g s = (Inr (), g s)" "whenA b u s = (if b then u s else (Inr (), s))"
  "bindA m1 f s = (case m1 s of (Inl e, s') \<Rightarrow> (Inl e, s') | (Inr x, s') \<Rightarrow> f x s')"
  "thenA m2 n s = (case m2 s of (Inl e, s') \<Rightarrow> (Inl e, s') | (Inr x, s') \<Rightarrow> n s')"
  "handleA m h s = (case m s of (Inl e, s') \<Rightarrow> h e s' | (Inr x, s') \<Rightarrow> (Inr x, s'))"
  by (simp_all add: retA_def throwA_def liftA_def readA_def modifyA_def whenA_def bindA_def
      thenA_def handleA_def)

lemma thenA_cong [fundef_cong]:
  "m = m' \<Longrightarrow> n = n' \<Longrightarrow> thenA m n = thenA m' n'"
  by simp

section \<open>Relations kept by actions\<close>

text \<open>The state an action leaves, with or without an exception, is related to the one it found.\<close>

definition keeps :: "('s \<Rightarrow> 's \<Rightarrow> bool) \<Rightarrow> ('s, 'a) act \<Rightarrow> bool" where
  "keeps R m \<longleftrightarrow> (\<forall>s. R s (snd (m s)))"

lemma keepsI: "(\<And>s r s'. m s = (r, s') \<Longrightarrow> R s s') \<Longrightarrow> keeps R m"
  unfolding keeps_def by (metis prod.collapse)

lemma keepsD: "keeps R m \<Longrightarrow> m s = (r, s') \<Longrightarrow> R s s'"
  unfolding keeps_def by (metis snd_conv)

locale state_relation =
  fixes R :: "'s \<Rightarrow> 's \<Rightarrow> bool"
  assumes refl: "R s s"
    and trans: "R s t \<Longrightarrow> R t u \<Longrightarrow> R s u"
begin

lemma pure [intro!, simp]: "keeps R (retA x)" "keeps R (throwA e)" "keeps R (liftA r)"
  by (simp_all add: keeps_def act_simps refl)

lemma bindA:
  assumes "keeps R m" "\<And>x. keeps R (f x)"
  shows "keeps R (bindA m f)"
proof (rule keepsI)
  fix s r s' assume run: "bindA m f s = (r, s')"
  obtain r1 s1 where m: "m s = (r1, s1)" by fastforce
  from keepsD [OF assms(1) m] keepsD [OF assms(2)] run m show "R s s'"
    by (cases r1) (auto simp: act_simps intro: trans)
qed

lemma thenA: "keeps R m \<Longrightarrow> keeps R n \<Longrightarrow> keeps R (thenA m n)"
  unfolding thenA_def by (rule bindA)

lemma handleA:
  assumes "keeps R m" "\<And>e. keeps R (h e)"
  shows "keeps R (handleA m h)"
proof (rule keepsI)
  fix s r s' assume run: "handleA m h s = (r, s')"
  obtain r1 s1 where m: "m s = (r1, s1)" by fastforce
  from keepsD [OF assms(1) m] keepsD [OF assms(2)] run m show "R s s'"
    by (cases r1) (auto simp: act_simps intro: trans)
qed

lemma readA: "(\<And>s. keeps R (f s)) \<Longrightarrow> keeps R (readA f)"
  by (simp add: keeps_def act_simps)

lemma whenA: "(b \<Longrightarrow> keeps R m) \<Longrightarrow> keeps R (whenA b m)"
  by (simp add: keeps_def act_simps refl)

lemma modifyA: "(\<And>s. R s (g s)) \<Longrightarrow> keeps R (modifyA g)"
  by (simp add: keeps_def act_simps)

lemma forA: "(\<And>x. x \<in> set xs \<Longrightarrow> keeps R (f x)) \<Longrightarrow> keeps R (forA f xs)"
  by (induction xs) (auto intro: thenA)

lemma conditional: "keeps R m \<Longrightarrow> keeps R n \<Longrightarrow> keeps R (if b then m else n)"
  by simp

lemma optional: "keeps R m \<Longrightarrow> (\<And>x. keeps R (f x)) \<Longrightarrow> keeps R (case opt of None \<Rightarrow> m | Some x \<Rightarrow> f x)"
  by (cases opt) auto

lemmas kept = pure bindA thenA handleA readA whenA forA conditional optional

end

end
