(* ===== verification/Reader_Config.thy ===== *)
theory Reader_Config
  imports Py_Values Exception_State
begin

text \<open>
  \<open>LLRPReaderConfig\<close> of \<^verbatim>\<open>sllurp/llrp.py\<close>: the fields with their defaults, \<open>update_config\<close> and
  \<open>validate_config\<close>.  Fields hold arbitrary Python values, since the validation is what gives
  them types; the fields that map antennas or ports to values are association lists with
  integer keys.  Validation normalizes the object in place, so it is an action on it: what was
  assigned before an exception stays assigned.  \<open>config_valid\<close> says what a configuration must
  satisfy without looking at the code; the lemmas show that exactly these pass unchanged and that
  what passes satisfies it afterwards.  Infinite and undefined floats are not modelled.
\<close>

section \<open>Fields\<close>

text \<open>A value without integer keys, or a dictionary keyed by antenna or port numbers.\<close>

datatype power_setting = Scalar pyval | Per_Antenna "(int \<times> pyval) list"

record reader_config =
  duration :: pyval
  tari :: pyval
  session :: pyval
  mode_identifier :: pyval
  tag_population :: pyval
  ro_report_every_n_tags :: pyval
  report_every_n_tags :: pyval
  report_timeout_ms :: pyval
  dedup_seconds :: pyval
  dedup_backend :: pyval
  dedup_max_entries :: pyval
  rf_telemetry_mode :: pyval
  socket_receive_buffer_bytes :: pyval
  max_message_size :: pyval
  request_timeout :: pyval
  antennas :: pyval
  tx_power :: power_setting
  tx_power_dbm :: power_setting
  disconnect_when_done :: pyval
  tag_filter_mask :: pyval
  tag_content_selector :: pyval
  event_selector :: pyval
  frequencies :: pyval
  gpi_ports_config :: power_setting
  reconnect :: pyval
  start_inventory :: pyval
  reset_on_connect :: pyval
  tls_enabled :: pyval
  tls_verify :: pyval
  tls_ca_file :: pyval
  tls_client_cert :: pyval
  tls_client_key :: pyval
  tls_server_hostname :: pyval
  impinj_extended_configuration :: pyval
  impinj_fixed_frequency :: pyval
  impinj_search_mode :: pyval
  impinj_reports :: pyval
  impinj_tag_content_selector :: pyval
  zebra_tag_content_selector :: pyval
  impinj_event_selector :: pyval
  keepalive_interval :: pyval
  reconnect_retries :: pyval
  reconnect_delay :: pyval

definition DEFAULT_CHANNEL_INDEX :: int where "DEFAULT_CHANNEL_INDEX = 1"
definition DEFAULT_HOPTABLE_INDEX :: int where "DEFAULT_HOPTABLE_INDEX = 1"
definition DEFAULT_MAX_MESSAGE_SIZE :: int where "DEFAULT_MAX_MESSAGE_SIZE = 16 * 1024 * 1024"
definition ZEBRA_TIMED_DEDUP_MAX_SECONDS :: int where "ZEBRA_TIMED_DEDUP_MAX_SECONDS = 600"

text \<open>The constructor's defaults, in its order.\<close>

definition default_config :: reader_config where
  "default_config = \<lparr>
    duration = PNone,
    tari = PInt 0,
    session = PInt 2,
    mode_identifier = PNone,
    tag_population = PInt 4,
    ro_report_every_n_tags = PNone,
    report_every_n_tags = PNone,
    report_timeout_ms = PInt 0,
    dedup_seconds = PNone,
    dedup_backend = PStr ''auto'',
    dedup_max_entries = PInt 1000000,
    rf_telemetry_mode = PStr ''off'',
    socket_receive_buffer_bytes = PInt (push_bit 20 1),
    max_message_size = PInt DEFAULT_MAX_MESSAGE_SIZE,
    request_timeout = PNone,
    antennas = PList [PInt 1],
    tx_power = Scalar (PInt 0),
    tx_power_dbm = Scalar PNone,
    disconnect_when_done = PBool False,
    tag_filter_mask = PNone,
    tag_content_selector = PDict [
      (''EnableROSpecID'', PBool False),
      (''EnableSpecIndex'', PBool False),
      (''EnableInventoryParameterSpecID'', PBool False),
      (''EnableAntennaID'', PBool False),
      (''EnableChannelIndex'', PBool True),
      (''EnablePeakRSSI'', PBool False),
      (''EnableFirstSeenTimestamp'', PBool False),
      (''EnableLastSeenTimestamp'', PBool True),
      (''EnableTagSeenCount'', PBool True),
      (''EnableAccessSpecID'', PBool False)],
    event_selector = PDict [
      (''HoppingEvent'', PBool False),
      (''GPIEvent'', PBool False),
      (''ROSpecEvent'', PBool False),
      (''ReportBufferFillWarning'', PBool False),
      (''ReaderExceptionEvent'', PBool False),
      (''RFSurveyEvent'', PBool False),
      (''AISpecEvent'', PBool False),
      (''AISpecEventWithSingulation'', PBool False),
      (''AntennaEvent'', PBool False)],
    frequencies = PDict [
      (''HopTableId'', PInt DEFAULT_HOPTABLE_INDEX),
      (''ChannelList'', PList [PInt DEFAULT_CHANNEL_INDEX]),
      (''Automatic'', PBool False)],
    gpi_ports_config = Per_Antenna [],
    reconnect = PBool False,
    start_inventory = PBool True,
    reset_on_connect = PBool True,
    tls_enabled = PBool False,
    tls_verify = PBool True,
    tls_ca_file = PNone,
    tls_client_cert = PNone,
    tls_client_key = PNone,
    tls_server_hostname = PNone,
    impinj_extended_configuration = PBool False,
    impinj_fixed_frequency = PBool False,
    impinj_search_mode = PNone,
    impinj_reports = PBool False,
    impinj_tag_content_selector = PNone,
    zebra_tag_content_selector = PNone,
    impinj_event_selector = PNone,
    keepalive_interval = PInt (60 * 1000),
    reconnect_retries = PInt 5,
    reconnect_delay = PFloat 60\<rparr>"

section \<open>Type and range tests\<close>

text \<open>\<open>isinstance(v, int) and not isinstance(v, bool)\<close> with a lower bound.\<close>

definition int_from :: "int \<Rightarrow> pyval \<Rightarrow> bool" where
  "int_from lo v \<longleftrightarrow> (case v of PInt i \<Rightarrow> lo \<le> i | _ \<Rightarrow> False)"

definition int_between :: "int \<Rightarrow> int \<Rightarrow> pyval \<Rightarrow> bool" where
  "int_between lo hi v \<longleftrightarrow> (case v of PInt i \<Rightarrow> lo \<le> i \<and> i \<le> hi | _ \<Rightarrow> False)"

text \<open>An \<open>int\<close> or \<open>float\<close> that is not a \<open>bool\<close>.\<close>

definition number_of :: "pyval \<Rightarrow> rat option" where
  "number_of v = (case v of PInt i \<Rightarrow> Some (of_int i) | PFloat r \<Rightarrow> Some r | _ \<Rightarrow> None)"

definition none_or :: "(pyval \<Rightarrow> bool) \<Rightarrow> pyval \<Rightarrow> bool" where
  "none_or P v \<longleftrightarrow> v = PNone \<or> P v"

definition require :: "bool \<Rightarrow> unit res" where
  "require b = raise_if (\<not> b) LLRPError"

lemma require_Inr [res_simps]: "require b = Inr u \<longleftrightarrow> b"
  by (auto simp: require_def raise_if_def)

lemma require_True [simp]: "require True = Inr ()"
  by (simp add: require_def)

section \<open>\<open>validate_config\<close>, paragraph by paragraph\<close>

definition antennas_ok :: "pyval \<Rightarrow> bool" where
  "antennas_ok v \<longleftrightarrow> (case v of PList l \<Rightarrow> l \<noteq> [] \<and> list_all (int_from 0) l \<and>
     (PInt 0 \<in> set l \<longrightarrow> length l = 1) | _ \<Rightarrow> False)"

definition check_scalars :: "reader_config \<Rightarrow> unit res" where
  "check_scalars c =
    bindE (require (none_or (int_between 1 65535) (ro_report_every_n_tags c))) (\<lambda>_.
    bindE (require (antennas_ok (antennas c))) (\<lambda>_.
    bindE (require (int_from (-1) (reconnect_retries c))) (\<lambda>_.
    bindE (require (case number_of (reconnect_delay c) of None \<Rightarrow> False | Some r \<Rightarrow> 0 \<le> r)) (\<lambda>_.
    bindE (require (none_or (\<lambda>v. case number_of v of None \<Rightarrow> False | Some r \<Rightarrow> 0 < r) (request_timeout c))) (\<lambda>_.
    require (none_or (int_from 10) (max_message_size c)))))))"

text \<open>
  An action on the configuration, the paragraphs that test before they assign, and what an action
  answers when only the outcome counts: the exception, or the object it leaves.
\<close>

type_synonym config_step = "(reader_config, unit) act"

definition assign_config :: "(reader_config \<Rightarrow> reader_config res) \<Rightarrow> config_step" where
  "assign_config f = readA (\<lambda>c. bindA (liftA (f c)) (\<lambda>c'. modifyA (\<lambda>_. c')))"

definition the_dict :: "pyval \<Rightarrow> pydict" where
  "the_dict v = (case v of PDict d \<Rightarrow> d | _ \<Rightarrow> [])"

definition outcome_of :: "config_step \<Rightarrow> reader_config \<Rightarrow> reader_config res" where
  "outcome_of m c = (case m c of (Inl e, _) \<Rightarrow> Inl e | (Inr _, c') \<Rightarrow> Inr c')"

text \<open>The compatibility spelling \<open>Channelist\<close>; what happens when \<open>frequencies\<close> is not a dictionary.\<close>

definition normalize_frequencies :: "pyval \<Rightarrow> pydict res" where
  "normalize_frequencies v = (case v of
     PDict d \<Rightarrow> Inr (case dict_get d ''Channelist'' of
         None \<Rightarrow> d
       | Some ch \<Rightarrow> dict_pop (if dict_get d ''ChannelList'' = None then dict_set d ''ChannelList'' ch else d) ''Channelist'')
   | PStr s \<Rightarrow> if substring ''Channelist'' s \<and> \<not> substring ''ChannelList'' s then Inl TypeError else Inl AttributeError
   | PList l \<Rightarrow> if PStr ''Channelist'' \<in> set l then Inl TypeError else Inl AttributeError
   | _ \<Rightarrow> Inl TypeError)"

definition check_frequencies :: "pydict \<Rightarrow> pyval \<Rightarrow> unit res" where
  "check_frequencies freqs fixed =
    (case (case dict_get freqs ''ChannelList'' of None \<Rightarrow> PList [] | Some v \<Rightarrow> v) of
       PList channels \<Rightarrow>
         bindE (require (channels \<noteq> [])) (\<lambda>_.
         bindE (require (list_all (int_from 1) channels)) (\<lambda>_.
         require (\<not> ((py_true (case dict_get freqs ''Automatic'' of None \<Rightarrow> PBool False | Some v \<Rightarrow> v) \<or>
                      length channels > 1) \<and> \<not> py_true fixed))))
     | _ \<Rightarrow> Inl LLRPError)"

definition str_space :: "char \<Rightarrow> bool" where
  "str_space c \<longleftrightarrow> is_space (of_char c) \<or> 28 \<le> (of_char c :: nat) \<and> (of_char c :: nat) \<le> 31"

definition lower_char :: "char \<Rightarrow> char" where
  "lower_char c = (let n = of_char c :: nat in if 65 \<le> n \<and> n \<le> 90 then char_of (n + 32) else c)"

definition strip_lower :: "string \<Rightarrow> string" where
  "strip_lower s = map lower_char (rev (dropWhile str_space (rev (dropWhile str_space s))))"

definition telemetry_fields :: pydict where
  "telemetry_fields = map (\<lambda>n. (n, PBool True))
    [''EnableROSpecID'', ''EnableAntennaID'', ''EnableChannelIndex'', ''EnablePeakRSSI'',
     ''EnableFirstSeenTimestamp'', ''EnableLastSeenTimestamp'', ''EnableTagSeenCount'']"

text \<open>The mode is assigned before it is tested, the selector updated after both tests.\<close>

definition telemetry_in_place :: config_step where
  "telemetry_in_place = readA (\<lambda>c. case rf_telemetry_mode c of
     PStr s \<Rightarrow> let mode = strip_lower s in
       thenA (modifyA (\<lambda>c. c\<lparr>rf_telemetry_mode := PStr mode\<rparr>))
       (thenA (liftA (require (mode \<in> {''off'', ''standard'', ''zebra''})))
       (if mode = ''off'' then retA ()
        else (case tag_content_selector c of
            PDict d \<Rightarrow> modifyA (\<lambda>c. c\<lparr>tag_content_selector := PDict (dict_update d telemetry_fields)\<rparr>)
          | _ \<Rightarrow> throwA LLRPError)))
   | _ \<Rightarrow> throwA LLRPError)"

text \<open>\<open>dict(v or {})\<close>; keys that are not strings end in a \<open>TypeError\<close> like any other wrong type.\<close>

definition dict_pair :: "pyval \<Rightarrow> (string \<times> pyval) res" where
  "dict_pair v = (case v of
     PList [PStr k, x] \<Rightarrow> Inr (k, x)
   | PList [_, _] \<Rightarrow> Inl TypeError
   | PList _ \<Rightarrow> Inl ValueError
   | PStr [a, b] \<Rightarrow> Inr ([a], PStr [b])
   | PStr _ \<Rightarrow> Inl ValueError
   | _ \<Rightarrow> Inl TypeError)"

definition py_dict_or_empty :: "pyval \<Rightarrow> pydict res" where
  "py_dict_or_empty v =
    (if \<not> py_true v then Inr []
     else case v of
       PDict d \<Rightarrow> Inr d
     | PList l \<Rightarrow> bindE (mapE dict_pair l) (\<lambda>kvs. Inr (dict_update [] kvs))
     | PStr s \<Rightarrow> Inl ValueError
     | _ \<Rightarrow> Inl TypeError)"

definition setdefault :: "pydict \<Rightarrow> string \<Rightarrow> pyval \<Rightarrow> pydict" where
  "setdefault d k v = (if dict_get d k = None then dict_set d k v else d)"

definition zebra_selector :: "pydict \<Rightarrow> pydict" where
  "zebra_selector d =
    (let d = setdefault d ''EnableZoneID'' (PBool False);
         d = setdefault d ''EnableZoneName'' (PBool False);
         d = dict_set d ''EnableAntennaPhysicalPortConfig'' (PBool True);
         d = dict_set d ''EnablePhase'' (PBool True);
         d = setdefault d ''EnableGPS'' (PBool False)
     in setdefault d ''EnableMLTReport'' (PBool False))"

definition allowed_zebra_report_fields :: "string list" where
  "allowed_zebra_report_fields = [''EnableZoneID'', ''EnableZoneName'',
     ''EnableAntennaPhysicalPortConfig'', ''EnablePhase'', ''EnableGPS'', ''EnableMLTReport'']"

definition is_bool :: "pyval \<Rightarrow> bool" where
  "is_bool v \<longleftrightarrow> (case v of PBool _ \<Rightarrow> True | _ \<Rightarrow> False)"

definition zebra_ok :: "pyval \<Rightarrow> bool" where
  "zebra_ok v \<longleftrightarrow> (case v of PNone \<Rightarrow> True
     | PDict d \<Rightarrow> list_all (\<lambda>(k, x). k \<in> set allowed_zebra_report_fields \<and> is_bool x) d
     | _ \<Rightarrow> False)"

text \<open>The completed selector is assigned before it is tested.\<close>

definition zebra_in_place :: config_step where
  "zebra_in_place =
    thenA (readA (\<lambda>c. whenA (rf_telemetry_mode c = PStr ''zebra'')
      (bindA (liftA (py_dict_or_empty (zebra_tag_content_selector c))) (\<lambda>d.
        modifyA (\<lambda>c. c\<lparr>zebra_tag_content_selector := PDict (zebra_selector d)\<rparr>)))))
    (readA (\<lambda>c. liftA (require (zebra_ok (zebra_tag_content_selector c)))))"

definition hashable :: "pyval \<Rightarrow> bool" where
  "hashable v \<longleftrightarrow> (case v of PList _ \<Rightarrow> False | PDict _ \<Rightarrow> False | _ \<Rightarrow> True)"

definition check_dedup :: "reader_config \<Rightarrow> unit res" where
  "check_dedup c =
    bindE (require (none_or (int_from 1) (dedup_seconds c))) (\<lambda>_.
    bindE (raise_if (\<not> hashable (dedup_backend c)) TypeError) (\<lambda>_.
    bindE (require (dedup_backend c \<in> {PStr ''auto'', PStr ''hardware'', PStr ''memory''})) (\<lambda>_.
    bindE (require (\<not> (dedup_backend c = PStr ''hardware'' \<and>
             (case dedup_seconds c of PInt s \<Rightarrow> s > ZEBRA_TIMED_DEDUP_MAX_SECONDS | _ \<Rightarrow> False)))) (\<lambda>_.
    bindE (require (int_from 1 (dedup_max_entries c))) (\<lambda>_.
    bindE (require (none_or (int_from 1) (socket_receive_buffer_bytes c))) (\<lambda>_.
    require (\<not> (py_true (tls_client_key c) \<and> \<not> py_true (tls_client_cert c)))))))))"

text \<open>The antennas of a checked configuration.\<close>

definition antenna_list :: "pyval \<Rightarrow> int list" where
  "antenna_list v = (case v of PList l \<Rightarrow> map (\<lambda>x. case x of PInt i \<Rightarrow> i | _ \<Rightarrow> 0) l | _ \<Rightarrow> [])"

definition normalize_tx_power :: "reader_config \<Rightarrow> reader_config res" where
  "normalize_tx_power c = (let ants = antenna_list (antennas c) in
    case tx_power c of
      Scalar v \<Rightarrow> (case v of
          PInt _ \<Rightarrow> Inr (c\<lparr>tx_power := Per_Antenna (dict_update [] (map (\<lambda>a. (a, v)) ants))\<rparr>)
        | PBool _ \<Rightarrow> Inr (c\<lparr>tx_power := Per_Antenna (dict_update [] (map (\<lambda>a. (a, v)) ants))\<rparr>)
        | _ \<Rightarrow> Inl LLRPError)
    | Per_Antenna d \<Rightarrow> if set ants \<noteq> set (map fst d) then Inl LLRPError else Inr c)"

definition normalize_tx_power_dbm :: "reader_config \<Rightarrow> reader_config res" where
  "normalize_tx_power_dbm c = (let ants = antenna_list (antennas c) in
    case tx_power_dbm c of
      Scalar v \<Rightarrow> if v = PNone then Inr c
        else (case number_of v of
            Some r \<Rightarrow> Inr (c\<lparr>tx_power_dbm := Per_Antenna (dict_update [] (map (\<lambda>a. (a, PFloat r)) ants))\<rparr>)
          | None \<Rightarrow> Inl LLRPError)
    | Per_Antenna d \<Rightarrow>
        if set ants \<noteq> set (map fst d) then Inl LLRPError
        else if list_ex (\<lambda>(_, v). number_of v = None) d then Inl LLRPError
        else Inr (c\<lparr>tx_power_dbm := Per_Antenna (map (\<lambda>(a, v). (a, PFloat (the (number_of v)))) d)\<rparr>))"

text \<open>\<open>validate_config\<close> on the object itself, and its outcome for a new one.\<close>

definition validate_in_place :: config_step where
  "validate_in_place =
    thenA (readA (\<lambda>c. liftA (check_scalars c)))
    (thenA (assign_config (\<lambda>c. bindE (normalize_frequencies (frequencies c)) (\<lambda>freqs.
       Inr (c\<lparr>frequencies := PDict freqs\<rparr>))))
    (thenA (readA (\<lambda>c. liftA (check_frequencies (the_dict (frequencies c)) (impinj_fixed_frequency c))))
    (thenA telemetry_in_place
    (thenA zebra_in_place
    (thenA (readA (\<lambda>c. liftA (check_dedup c)))
    (thenA (assign_config normalize_tx_power)
    (assign_config normalize_tx_power_dbm)))))))"

definition validate_config :: "reader_config \<Rightarrow> reader_config res" where
  "validate_config c = outcome_of validate_in_place c"

text \<open>The outcomes of the paragraphs, and of their sequence.\<close>

abbreviation "normalize_telemetry \<equiv> outcome_of telemetry_in_place"
abbreviation "normalize_zebra \<equiv> outcome_of zebra_in_place"

lemma outcome_simps:
  "outcome_of (thenA m n) c = bindE (outcome_of m c) (outcome_of n)"
  "outcome_of (readA (\<lambda>c. liftA (f c))) c = bindE (f c) (\<lambda>_. Inr c)"
  "outcome_of (assign_config g) c = g c"
  by (auto simp: outcome_of_def assign_config_def act_simps split: sum.split prod.split)

lemma normalize_telemetry_def:
  "normalize_telemetry c = (case rf_telemetry_mode c of
     PStr s \<Rightarrow> let mode = strip_lower s; c = c\<lparr>rf_telemetry_mode := PStr mode\<rparr> in
       bindE (require (mode \<in> {''off'', ''standard'', ''zebra''})) (\<lambda>_.
       if mode = ''off'' then Inr c
       else (case tag_content_selector c of
           PDict d \<Rightarrow> Inr (c\<lparr>tag_content_selector := PDict (dict_update d telemetry_fields)\<rparr>)
         | _ \<Rightarrow> Inl LLRPError))
   | _ \<Rightarrow> Inl LLRPError)"
  by (auto simp: telemetry_in_place_def outcome_of_def act_simps Let_def split: pyval.split sum.split)

lemma normalize_zebra_def:
  "normalize_zebra c =
    bindE (if rf_telemetry_mode c = PStr ''zebra''
           then bindE (py_dict_or_empty (zebra_tag_content_selector c)) (\<lambda>d.
             Inr (c\<lparr>zebra_tag_content_selector := PDict (zebra_selector d)\<rparr>))
           else Inr c) (\<lambda>c.
    bindE (require (zebra_ok (zebra_tag_content_selector c))) (\<lambda>_. Inr c))"
  by (auto simp: zebra_in_place_def outcome_of_def act_simps split: sum.split)

lemma validate_config_eq:
  "validate_config c =
    bindE (check_scalars c) (\<lambda>_.
    bindE (normalize_frequencies (frequencies c)) (\<lambda>freqs. let c = c\<lparr>frequencies := PDict freqs\<rparr> in
    bindE (check_frequencies freqs (impinj_fixed_frequency c)) (\<lambda>_.
    bindE (normalize_telemetry c) (\<lambda>c.
    bindE (normalize_zebra c) (\<lambda>c.
    bindE (check_dedup c) (\<lambda>_.
    bindE (normalize_tx_power c) (\<lambda>c.
    normalize_tx_power_dbm c)))))))"
  unfolding validate_config_def validate_in_place_def outcome_simps
  by (simp add: Let_def the_dict_def bindE_assoc)

section \<open>Attributes and construction\<close>

definition scalar :: "power_setting \<Rightarrow> pyval option" where
  "scalar v = (case v of Scalar x \<Rightarrow> Some x | Per_Antenna _ \<Rightarrow> None)"

text \<open>\<open>vars(config)\<close>.\<close>

definition config_attributes :: "reader_config \<Rightarrow> (string \<times> power_setting) list" where
  "config_attributes c = [
    (''duration'', Scalar (duration c)),
    (''tari'', Scalar (tari c)),
    (''session'', Scalar (session c)),
    (''mode_identifier'', Scalar (mode_identifier c)),
    (''tag_population'', Scalar (tag_population c)),
    (''ro_report_every_n_tags'', Scalar (ro_report_every_n_tags c)),
    (''report_every_n_tags'', Scalar (report_every_n_tags c)),
    (''report_timeout_ms'', Scalar (report_timeout_ms c)),
    (''dedup_seconds'', Scalar (dedup_seconds c)),
    (''dedup_backend'', Scalar (dedup_backend c)),
    (''dedup_max_entries'', Scalar (dedup_max_entries c)),
    (''rf_telemetry_mode'', Scalar (rf_telemetry_mode c)),
    (''socket_receive_buffer_bytes'', Scalar (socket_receive_buffer_bytes c)),
    (''max_message_size'', Scalar (max_message_size c)),
    (''request_timeout'', Scalar (request_timeout c)),
    (''antennas'', Scalar (antennas c)),
    (''tx_power'', tx_power c),
    (''tx_power_dbm'', tx_power_dbm c),
    (''disconnect_when_done'', Scalar (disconnect_when_done c)),
    (''tag_filter_mask'', Scalar (tag_filter_mask c)),
    (''tag_content_selector'', Scalar (tag_content_selector c)),
    (''event_selector'', Scalar (event_selector c)),
    (''frequencies'', Scalar (frequencies c)),
    (''gpi_ports_config'', gpi_ports_config c),
    (''reconnect'', Scalar (reconnect c)),
    (''start_inventory'', Scalar (start_inventory c)),
    (''reset_on_connect'', Scalar (reset_on_connect c)),
    (''tls_enabled'', Scalar (tls_enabled c)),
    (''tls_verify'', Scalar (tls_verify c)),
    (''tls_ca_file'', Scalar (tls_ca_file c)),
    (''tls_client_cert'', Scalar (tls_client_cert c)),
    (''tls_client_key'', Scalar (tls_client_key c)),
    (''tls_server_hostname'', Scalar (tls_server_hostname c)),
    (''impinj_extended_configuration'', Scalar (impinj_extended_configuration c)),
    (''impinj_fixed_frequency'', Scalar (impinj_fixed_frequency c)),
    (''impinj_search_mode'', Scalar (impinj_search_mode c)),
    (''impinj_reports'', Scalar (impinj_reports c)),
    (''impinj_tag_content_selector'', Scalar (impinj_tag_content_selector c)),
    (''zebra_tag_content_selector'', Scalar (zebra_tag_content_selector c)),
    (''impinj_event_selector'', Scalar (impinj_event_selector c)),
    (''keepalive_interval'', Scalar (keepalive_interval c)),
    (''reconnect_retries'', Scalar (reconnect_retries c)),
    (''reconnect_delay'', Scalar (reconnect_delay c))]"

text \<open>
  \<open>setattr\<close> on a known field; unknown names are ignored.  \<open>None\<close> answers that the value, a
  dictionary with integer keys in a field that is not keyed by numbers, is outside the model.
\<close>

definition set_field :: "string \<Rightarrow> power_setting \<Rightarrow> reader_config \<Rightarrow> reader_config option" where
  "set_field name v c =
  (if name = ''duration'' then map_option (\<lambda>x. c\<lparr>duration := x\<rparr>) (scalar v)
   else if name = ''tari'' then map_option (\<lambda>x. c\<lparr>tari := x\<rparr>) (scalar v)
   else if name = ''session'' then map_option (\<lambda>x. c\<lparr>session := x\<rparr>) (scalar v)
   else if name = ''mode_identifier'' then map_option (\<lambda>x. c\<lparr>mode_identifier := x\<rparr>) (scalar v)
   else if name = ''tag_population'' then map_option (\<lambda>x. c\<lparr>tag_population := x\<rparr>) (scalar v)
   else if name = ''ro_report_every_n_tags'' then map_option (\<lambda>x. c\<lparr>ro_report_every_n_tags := x\<rparr>) (scalar v)
   else if name = ''report_every_n_tags'' then map_option (\<lambda>x. c\<lparr>report_every_n_tags := x\<rparr>) (scalar v)
   else if name = ''report_timeout_ms'' then map_option (\<lambda>x. c\<lparr>report_timeout_ms := x\<rparr>) (scalar v)
   else if name = ''dedup_seconds'' then map_option (\<lambda>x. c\<lparr>dedup_seconds := x\<rparr>) (scalar v)
   else if name = ''dedup_backend'' then map_option (\<lambda>x. c\<lparr>dedup_backend := x\<rparr>) (scalar v)
   else if name = ''dedup_max_entries'' then map_option (\<lambda>x. c\<lparr>dedup_max_entries := x\<rparr>) (scalar v)
   else if name = ''rf_telemetry_mode'' then map_option (\<lambda>x. c\<lparr>rf_telemetry_mode := x\<rparr>) (scalar v)
   else if name = ''socket_receive_buffer_bytes'' then map_option (\<lambda>x. c\<lparr>socket_receive_buffer_bytes := x\<rparr>) (scalar v)
   else if name = ''max_message_size'' then map_option (\<lambda>x. c\<lparr>max_message_size := x\<rparr>) (scalar v)
   else if name = ''request_timeout'' then map_option (\<lambda>x. c\<lparr>request_timeout := x\<rparr>) (scalar v)
   else if name = ''antennas'' then map_option (\<lambda>x. c\<lparr>antennas := x\<rparr>) (scalar v)
   else if name = ''tx_power'' then Some (c\<lparr>tx_power := v\<rparr>)
   else if name = ''tx_power_dbm'' then Some (c\<lparr>tx_power_dbm := v\<rparr>)
   else if name = ''disconnect_when_done'' then map_option (\<lambda>x. c\<lparr>disconnect_when_done := x\<rparr>) (scalar v)
   else if name = ''tag_filter_mask'' then map_option (\<lambda>x. c\<lparr>tag_filter_mask := x\<rparr>) (scalar v)
   else if name = ''tag_content_selector'' then map_option (\<lambda>x. c\<lparr>tag_content_selector := x\<rparr>) (scalar v)
   else if name = ''event_selector'' then map_option (\<lambda>x. c\<lparr>event_selector := x\<rparr>) (scalar v)
   else if name = ''frequencies'' then map_option (\<lambda>x. c\<lparr>frequencies := x\<rparr>) (scalar v)
   else if name = ''gpi_ports_config'' then Some (c\<lparr>gpi_ports_config := v\<rparr>)
   else if name = ''reconnect'' then map_option (\<lambda>x. c\<lparr>reconnect := x\<rparr>) (scalar v)
   else if name = ''start_inventory'' then map_option (\<lambda>x. c\<lparr>start_inventory := x\<rparr>) (scalar v)
   else if name = ''reset_on_connect'' then map_option (\<lambda>x. c\<lparr>reset_on_connect := x\<rparr>) (scalar v)
   else if name = ''tls_enabled'' then map_option (\<lambda>x. c\<lparr>tls_enabled := x\<rparr>) (scalar v)
   else if name = ''tls_verify'' then map_option (\<lambda>x. c\<lparr>tls_verify := x\<rparr>) (scalar v)
   else if name = ''tls_ca_file'' then map_option (\<lambda>x. c\<lparr>tls_ca_file := x\<rparr>) (scalar v)
   else if name = ''tls_client_cert'' then map_option (\<lambda>x. c\<lparr>tls_client_cert := x\<rparr>) (scalar v)
   else if name = ''tls_client_key'' then map_option (\<lambda>x. c\<lparr>tls_client_key := x\<rparr>) (scalar v)
   else if name = ''tls_server_hostname'' then map_option (\<lambda>x. c\<lparr>tls_server_hostname := x\<rparr>) (scalar v)
   else if name = ''impinj_extended_configuration'' then map_option (\<lambda>x. c\<lparr>impinj_extended_configuration := x\<rparr>) (scalar v)
   else if name = ''impinj_fixed_frequency'' then map_option (\<lambda>x. c\<lparr>impinj_fixed_frequency := x\<rparr>) (scalar v)
   else if name = ''impinj_search_mode'' then map_option (\<lambda>x. c\<lparr>impinj_search_mode := x\<rparr>) (scalar v)
   else if name = ''impinj_reports'' then map_option (\<lambda>x. c\<lparr>impinj_reports := x\<rparr>) (scalar v)
   else if name = ''impinj_tag_content_selector'' then map_option (\<lambda>x. c\<lparr>impinj_tag_content_selector := x\<rparr>) (scalar v)
   else if name = ''zebra_tag_content_selector'' then map_option (\<lambda>x. c\<lparr>zebra_tag_content_selector := x\<rparr>) (scalar v)
   else if name = ''impinj_event_selector'' then map_option (\<lambda>x. c\<lparr>impinj_event_selector := x\<rparr>) (scalar v)
   else if name = ''keepalive_interval'' then map_option (\<lambda>x. c\<lparr>keepalive_interval := x\<rparr>) (scalar v)
   else if name = ''reconnect_retries'' then map_option (\<lambda>x. c\<lparr>reconnect_retries := x\<rparr>) (scalar v)
   else if name = ''reconnect_delay'' then map_option (\<lambda>x. c\<lparr>reconnect_delay := x\<rparr>) (scalar v)
   else Some c)"

fun update_fields :: "(string \<times> power_setting) list \<Rightarrow> reader_config \<Rightarrow> reader_config option" where
  "update_fields [] c = Some c"
| "update_fields ((k, v) # kvs) c = (case set_field k v c of None \<Rightarrow> None | Some c \<Rightarrow> update_fields kvs c)"

text \<open>\<open>v > 0\<close> in a condition: only numbers compare with zero.\<close>

definition positive :: "pyval \<Rightarrow> bool res" where
  "positive v = (case v of PBool b \<Rightarrow> Inr b | _ \<Rightarrow> (case number_of v of Some r \<Rightarrow> Inr (r > 0) | None \<Rightarrow> Inl TypeError))"

definition new_reader_config :: "(string \<times> power_setting) list \<Rightarrow> reader_config res option" where
  "new_reader_config config_dict =
    (if config_dict = [] then Some (validate_config default_config)
     else map_option (\<lambda>c.
       bindE (if dict_get config_dict ''disconnect_when_done'' = None
              then bindE (if py_true (duration c) then positive (duration c) else Inr False) (\<lambda>b.
                Inr (c\<lparr>disconnect_when_done := PBool b\<rparr>))
              else Inr c) validate_config)
     (update_fields config_dict default_config))"

section \<open>What a validated configuration satisfies\<close>

text \<open>
  The documented constraints, field by field, stated without the tests of the code.
\<close>

definition integer_at_least :: "int \<Rightarrow> pyval \<Rightarrow> bool" where
  "integer_at_least lo v \<longleftrightarrow> (\<exists>n. v = PInt n \<and> lo \<le> n)"

definition scalars_valid :: "reader_config \<Rightarrow> bool" where
  "scalars_valid c \<longleftrightarrow>
     (ro_report_every_n_tags c = PNone \<or>
       (\<exists>n. ro_report_every_n_tags c = PInt n \<and> 1 \<le> n \<and> n \<le> 65535)) \<and>
     (\<exists>ants. antennas c = PList (map PInt ants) \<and> ants \<noteq> [] \<and> (\<forall>a \<in> set ants. 0 \<le> a) \<and>
       (0 \<in> set ants \<longrightarrow> ants = [0])) \<and>
     integer_at_least (-1) (reconnect_retries c) \<and>
     (integer_at_least 0 (reconnect_delay c) \<or> (\<exists>r. reconnect_delay c = PFloat r \<and> 0 \<le> r)) \<and>
     (request_timeout c = PNone \<or> integer_at_least 1 (request_timeout c) \<or>
       (\<exists>r. request_timeout c = PFloat r \<and> 0 < r)) \<and>
     (max_message_size c = PNone \<or> integer_at_least 10 (max_message_size c))"

definition frequencies_valid :: "reader_config \<Rightarrow> bool" where
  "frequencies_valid c \<longleftrightarrow> (\<exists>freqs channels. frequencies c = PDict freqs \<and>
     dict_get freqs ''Channelist'' = None \<and>
     dict_get freqs ''ChannelList'' = Some (PList (map PInt channels)) \<and>
     channels \<noteq> [] \<and> (\<forall>ch \<in> set channels. 0 < ch) \<and>
     (\<not> py_true (impinj_fixed_frequency c) \<longrightarrow> length channels = 1 \<and>
       (\<forall>v. dict_get freqs ''Automatic'' = Some v \<longrightarrow> \<not> py_true v)))"

definition telemetry_valid :: "reader_config \<Rightarrow> bool" where
  "telemetry_valid c \<longleftrightarrow> rf_telemetry_mode c \<in> {PStr ''off'', PStr ''standard'', PStr ''zebra''} \<and>
     (rf_telemetry_mode c \<noteq> PStr ''off'' \<longrightarrow> (\<exists>d. tag_content_selector c = PDict d \<and>
        (\<forall>k \<in> {''EnableROSpecID'', ''EnableAntennaID'', ''EnableChannelIndex'', ''EnablePeakRSSI'',
           ''EnableFirstSeenTimestamp'', ''EnableLastSeenTimestamp'', ''EnableTagSeenCount''}.
           dict_get d k = Some (PBool True))))"

definition zebra_report_fields :: "string set" where
  "zebra_report_fields = {''EnableZoneID'', ''EnableZoneName'', ''EnableAntennaPhysicalPortConfig'',
     ''EnablePhase'', ''EnableGPS'', ''EnableMLTReport''}"

definition zebra_valid :: "reader_config \<Rightarrow> bool" where
  "zebra_valid c \<longleftrightarrow>
     (zebra_tag_content_selector c = PNone \<or>
       (\<exists>d. zebra_tag_content_selector c = PDict d \<and>
          (\<forall>(k, x) \<in> set d. k \<in> zebra_report_fields \<and> (\<exists>b. x = PBool b)))) \<and>
     (rf_telemetry_mode c = PStr ''zebra'' \<longrightarrow>
        (\<exists>d. zebra_tag_content_selector c = PDict d \<and> set (map fst d) = zebra_report_fields \<and>
           dict_get d ''EnableAntennaPhysicalPortConfig'' = Some (PBool True) \<and>
           dict_get d ''EnablePhase'' = Some (PBool True)))"

definition dedup_valid :: "reader_config \<Rightarrow> bool" where
  "dedup_valid c \<longleftrightarrow>
     (dedup_seconds c = PNone \<or> integer_at_least 1 (dedup_seconds c)) \<and>
     dedup_backend c \<in> {PStr ''auto'', PStr ''hardware'', PStr ''memory''} \<and>
     (\<forall>n. dedup_backend c = PStr ''hardware'' \<and> dedup_seconds c = PInt n \<longrightarrow> n \<le> 600) \<and>
     integer_at_least 1 (dedup_max_entries c) \<and>
     (socket_receive_buffer_bytes c = PNone \<or> integer_at_least 1 (socket_receive_buffer_bytes c)) \<and>
     (py_true (tls_client_key c) \<longrightarrow> py_true (tls_client_cert c))"

definition powers_valid :: "reader_config \<Rightarrow> bool" where
  "powers_valid c \<longleftrightarrow> (\<forall>ants. antennas c = PList (map PInt ants) \<longrightarrow>
     (\<exists>d. tx_power c = Per_Antenna d \<and> set (map fst d) = set ants) \<and>
     (tx_power_dbm c = Scalar PNone \<or> (\<exists>d. tx_power_dbm c = Per_Antenna d \<and> set (map fst d) = set ants \<and>
        (\<forall>v \<in> set (map snd d). \<exists>r. v = PFloat r))))"

definition config_valid :: "reader_config \<Rightarrow> bool" where
  "config_valid c \<longleftrightarrow> scalars_valid c \<and> frequencies_valid c \<and> telemetry_valid c \<and> zebra_valid c \<and>
     dedup_valid c \<and> powers_valid c"

text \<open>The tests of the code decide these constraints.\<close>

lemma int_from_iff: "int_from lo v \<longleftrightarrow> integer_at_least lo v"
  by (cases v) (auto simp: int_from_def integer_at_least_def)

lemma list_all_int_from:
  "list_all (int_from lo) l \<longleftrightarrow> (\<exists>xs. l = map PInt xs \<and> (\<forall>x \<in> set xs. lo \<le> x))"
proof
  assume l: "list_all (int_from lo) l"
  then have "\<forall>v \<in> set l. \<exists>n. v = PInt n"
    by (auto simp: list_all_iff int_from_iff integer_at_least_def)
  then obtain xs where "l = map PInt xs" unfolding ex_map_conv [symmetric] by blast
  with l show "\<exists>xs. l = map PInt xs \<and> (\<forall>x \<in> set xs. lo \<le> x)"
    by (auto simp: list_all_iff int_from_iff integer_at_least_def)
qed (auto simp: list_all_iff int_from_iff integer_at_least_def)

lemma map_PInt_inject [simp]: "map PInt xs = map PInt ys \<longleftrightarrow> xs = ys"
  by (rule inj_map_eq_map) (simp add: inj_on_def)

lemma antennas_ok_iff:
  "antennas_ok v \<longleftrightarrow> (\<exists>ants. v = PList (map PInt ants) \<and> ants \<noteq> [] \<and> (\<forall>a \<in> set ants. 0 \<le> a) \<and>
     (0 \<in> set ants \<longrightarrow> ants = [0]))"
proof -
  have "(0 \<in> set xs \<longrightarrow> length xs = Suc 0) \<longleftrightarrow> (0 \<in> set xs \<longrightarrow> xs = [0])" for xs :: "int list"
    by (auto simp: length_Suc_conv)
  then show ?thesis
    by (cases v) (auto simp: antennas_ok_def list_all_int_from length_Suc_conv)
qed

lemma check_scalars_iff: "check_scalars c = Inr () \<longleftrightarrow> scalars_valid c"
proof -
  have "none_or (int_between 1 65535) v \<longleftrightarrow> v = PNone \<or> (\<exists>n. v = PInt n \<and> 1 \<le> n \<and> n \<le> 65535)" for v
    by (cases v) (simp_all add: none_or_def int_between_def)
  moreover have "(case number_of v of None \<Rightarrow> False | Some r \<Rightarrow> 0 \<le> r) \<longleftrightarrow>
      integer_at_least 0 v \<or> (\<exists>r. v = PFloat r \<and> 0 \<le> r)" for v
    by (cases v) (simp_all add: number_of_def integer_at_least_def)
  moreover have "none_or (\<lambda>v. case number_of v of None \<Rightarrow> False | Some r \<Rightarrow> 0 < r) v \<longleftrightarrow>
      v = PNone \<or> integer_at_least 1 v \<or> (\<exists>r. v = PFloat r \<and> 0 < r)" for v
    by (cases v) (auto simp: none_or_def number_of_def integer_at_least_def)
  moreover have "none_or (int_from 10) v \<longleftrightarrow> v = PNone \<or> integer_at_least 10 v" for v
    by (simp add: none_or_def int_from_iff)
  ultimately show ?thesis
    by (simp add: check_scalars_def scalars_valid_def res_simps antennas_ok_iff int_from_iff)
qed

lemma check_dedup_iff: "check_dedup c = Inr () \<longleftrightarrow> dedup_valid c"
proof -
  have "none_or (int_from 1) v \<longleftrightarrow> v = PNone \<or> integer_at_least 1 v" for v
    by (simp add: none_or_def int_from_iff)
  moreover have "raise_if (\<not> hashable v) TypeError = Inr u \<longleftrightarrow> hashable v" for v u
    by (simp add: raise_if_def)
  moreover have "hashable v" if "v \<in> {PStr ''auto'', PStr ''hardware'', PStr ''memory''}" for v
    using that by (auto simp: hashable_def)
  moreover have "(case v of PInt s \<Rightarrow> s > ZEBRA_TIMED_DEDUP_MAX_SECONDS | _ \<Rightarrow> False) \<longleftrightarrow>
      (\<exists>n. v = PInt n \<and> \<not> n \<le> 600)" for v
    by (cases v) (auto simp: ZEBRA_TIMED_DEDUP_MAX_SECONDS_def)
  ultimately show ?thesis
    unfolding check_dedup_def dedup_valid_def int_from_iff by (simp add: res_simps) blast
qed

lemma check_frequencies_iff:
  "(\<exists>freqs. frequencies c = PDict freqs \<and> dict_get freqs ''Channelist'' = None \<and>
      check_frequencies freqs (impinj_fixed_frequency c) = Inr ()) \<longleftrightarrow> frequencies_valid c"
proof -
  have "check_frequencies freqs fixed = Inr () \<longleftrightarrow>
      (\<exists>channels. dict_get freqs ''ChannelList'' = Some (PList (map PInt channels)) \<and>
         channels \<noteq> [] \<and> (\<forall>ch \<in> set channels. 0 < ch) \<and>
         (\<not> py_true fixed \<longrightarrow> length channels = 1 \<and>
           (\<forall>v. dict_get freqs ''Automatic'' = Some v \<longrightarrow> \<not> py_true v)))" for freqs fixed
  proof (cases "\<exists>l. dict_get freqs ''ChannelList'' = Some (PList l)")
    case True
    then obtain l where l: "dict_get freqs ''ChannelList'' = Some (PList l)" by blast
    have one: "1 \<le> x \<longleftrightarrow> 0 < x" for x :: int by linarith
    have len: "\<not> Suc 0 < length xs \<longleftrightarrow> xs = [] \<or> length xs = Suc 0" for xs :: "int list"
      by (cases xs) auto
    show ?thesis
      by (auto simp: check_frequencies_def l res_simps list_all_int_from one len split: option.splits)
  next
    case False
    then show ?thesis
      by (auto simp: check_frequencies_def require_def raise_if_def split: option.split pyval.split)
  qed
  then show ?thesis unfolding frequencies_valid_def by blast
qed

lemma zebra_valid_iff:
  "zebra_valid c \<longleftrightarrow> zebra_ok (zebra_tag_content_selector c) \<and>
     (rf_telemetry_mode c = PStr ''zebra'' \<longrightarrow>
        (\<exists>d. zebra_tag_content_selector c = PDict d \<and> set (map fst d) = set allowed_zebra_report_fields \<and>
           dict_get d ''EnableAntennaPhysicalPortConfig'' = Some (PBool True) \<and>
           dict_get d ''EnablePhase'' = Some (PBool True)))"
proof -
  have "zebra_report_fields = set allowed_zebra_report_fields"
    by (simp add: zebra_report_fields_def allowed_zebra_report_fields_def)
  moreover have "is_bool v \<longleftrightarrow> (\<exists>b. v = PBool b)" for v
    by (cases v) (simp_all add: is_bool_def)
  moreover have "zebra_ok v \<longleftrightarrow> v = PNone \<or> (\<exists>d. v = PDict d \<and>
      (\<forall>(k, x) \<in> set d. k \<in> set allowed_zebra_report_fields \<and> is_bool x))" for v
    by (cases v) (simp_all add: zebra_ok_def list_all_iff)
  ultimately show ?thesis by (simp add: zebra_valid_def)
qed

lemma telemetry_valid_iff:
  "telemetry_valid c \<longleftrightarrow> rf_telemetry_mode c \<in> {PStr ''off'', PStr ''standard'', PStr ''zebra''} \<and>
     (rf_telemetry_mode c \<noteq> PStr ''off'' \<longrightarrow> (\<exists>d. tag_content_selector c = PDict d \<and>
        (\<forall>(k, v) \<in> set telemetry_fields. dict_get d k = Some v)))"
  by (simp add: telemetry_valid_def telemetry_fields_def)

definition tx_power_valid :: "reader_config \<Rightarrow> bool" where
  "tx_power_valid c \<longleftrightarrow>
     (\<exists>d. tx_power c = Per_Antenna d \<and> set (map fst d) = set (antenna_list (antennas c)))"

definition tx_power_dbm_valid :: "reader_config \<Rightarrow> bool" where
  "tx_power_dbm_valid c \<longleftrightarrow> tx_power_dbm c = Scalar PNone \<or>
     (\<exists>d. tx_power_dbm c = Per_Antenna d \<and> set (map fst d) = set (antenna_list (antennas c)) \<and>
        (\<forall>v \<in> snd ` set d. \<exists>r. v = PFloat r))"

lemma antenna_list_PInt: "antenna_list (PList (map PInt ants)) = ants"
  by (simp add: antenna_list_def comp_def)

lemma powers_valid_iff:
  assumes "scalars_valid c"
  shows "powers_valid c \<longleftrightarrow> tx_power_valid c \<and> tx_power_dbm_valid c"
proof -
  obtain ants where "antennas c = PList (map PInt ants)"
    using assms by (auto simp: scalars_valid_def)
  then show ?thesis
    by (simp add: powers_valid_def tx_power_valid_def tx_power_dbm_valid_def antenna_list_PInt)
qed

text \<open>What each normalization changes.\<close>

lemma check_scalars_cong:
  "ro_report_every_n_tags c' = ro_report_every_n_tags c \<Longrightarrow> antennas c' = antennas c \<Longrightarrow>
   reconnect_retries c' = reconnect_retries c \<Longrightarrow> reconnect_delay c' = reconnect_delay c \<Longrightarrow>
   request_timeout c' = request_timeout c \<Longrightarrow> max_message_size c' = max_message_size c \<Longrightarrow>
   check_scalars c' = check_scalars c"
  by (simp add: check_scalars_def)

lemma check_dedup_cong:
  "dedup_seconds c' = dedup_seconds c \<Longrightarrow> dedup_backend c' = dedup_backend c \<Longrightarrow>
   dedup_max_entries c' = dedup_max_entries c \<Longrightarrow>
   socket_receive_buffer_bytes c' = socket_receive_buffer_bytes c \<Longrightarrow>
   tls_client_key c' = tls_client_key c \<Longrightarrow> tls_client_cert c' = tls_client_cert c \<Longrightarrow>
   check_dedup c' = check_dedup c"
  by (simp add: check_dedup_def)

lemma normalize_frequencies_valid:
  "normalize_frequencies v = Inr d \<Longrightarrow> dict_get d ''Channelist'' = None"
  by (auto simp: normalize_frequencies_def dict_simps split: pyval.splits option.splits if_splits)

lemma dict_update_get:
  "(k, v) \<in> set e \<Longrightarrow> distinct (map fst e) \<Longrightarrow> dict_get (dict_update d e) k = Some v"
proof -
  assume "(k, v) \<in> set e" "distinct (map fst e)"
  then have "dict_get (rev e) k = Some v" by (intro map_of_is_SomeI) (simp_all flip: rev_map)
  then show ?thesis by (simp add: map_of_dict_update)
qed

lemma dict_update_known:
  "\<forall>(k, v) \<in> set e. dict_get d k = Some v \<Longrightarrow> dict_update d e = d"
  by (induction e) (auto simp: update_triv)

lemma strip_lower_modes:
  "strip_lower ''off'' = ''off''" "strip_lower ''standard'' = ''standard''" "strip_lower ''zebra'' = ''zebra''"
  by (simp_all add: strip_lower_def lower_char_def str_space_def is_space_def)

lemma telemetry_fields_distinct: "distinct (map fst telemetry_fields)"
  by (simp add: telemetry_fields_def)

lemma normalize_telemetry_result:
  assumes "normalize_telemetry c = Inr c'"
  shows "\<exists>mode sel. c' = c\<lparr>rf_telemetry_mode := PStr mode, tag_content_selector := sel\<rparr> \<and> telemetry_valid c'"
proof -
  obtain s where s: "rf_telemetry_mode c = PStr s"
    using assms by (auto simp: normalize_telemetry_def split: pyval.splits)
  let ?mode = "strip_lower s"
  have mode: "?mode \<in> {''off'', ''standard'', ''zebra''}"
    using assms by (auto simp: normalize_telemetry_def s res_simps Let_def)
  show ?thesis
  proof (cases "?mode = ''off''")
    case True
    then have c': "c' = c\<lparr>rf_telemetry_mode := PStr ''off''\<rparr>"
      using assms by (simp add: normalize_telemetry_def s Let_def)
    then have "c' = c\<lparr>rf_telemetry_mode := PStr ''off'', tag_content_selector := tag_content_selector c\<rparr>"
      by (auto intro: reader_config.equality)
    moreover have "telemetry_valid c'" by (simp add: c' telemetry_valid_iff)
    ultimately show ?thesis by blast
  next
    case False
    then obtain d where d: "tag_content_selector c = PDict d"
      and c': "c' = c\<lparr>rf_telemetry_mode := PStr ?mode, tag_content_selector := PDict (dict_update d telemetry_fields)\<rparr>"
      using assms mode by (auto simp: normalize_telemetry_def s Let_def split: pyval.splits)
    have "\<forall>(k, v) \<in> set telemetry_fields. dict_get (dict_update d telemetry_fields) k = Some v"
      using dict_update_get [OF _ telemetry_fields_distinct] by fast
    then have "telemetry_valid c'" using mode unfolding c' telemetry_valid_iff by auto
    with c' show ?thesis by blast
  qed
qed

lemma normalize_telemetry_fixed:
  assumes "telemetry_valid c"
  shows "normalize_telemetry c = Inr c"
proof (cases "rf_telemetry_mode c = PStr ''off''")
  case True
  then show ?thesis by (simp add: normalize_telemetry_def strip_lower_modes)
next
  case False
  then obtain d where d: "tag_content_selector c = PDict d" "dict_update d telemetry_fields = d"
    using assms dict_update_known unfolding telemetry_valid_iff by blast
  have "rf_telemetry_mode c = PStr ''standard'' \<or> rf_telemetry_mode c = PStr ''zebra''"
    using False assms by (simp add: telemetry_valid_iff)
  then show ?thesis using d by (auto simp: normalize_telemetry_def strip_lower_modes)
qed

lemma setdefault_dom: "fst ` set (setdefault d k v) = insert k (fst ` set d)"
proof (cases "dict_get d k")
  case None
  then show ?thesis by (simp add: setdefault_def dom_update)
next
  case (Some w)
  then have "k \<in> fst ` set d" by (force dest: map_of_SomeD)
  with Some show ?thesis by (auto simp: setdefault_def)
qed

lemma setdefault_get: "dict_get (setdefault d k v) k' = (if k' = k \<and> dict_get d k = None then Some v else dict_get d k')"
  by (auto simp: setdefault_def dict_simps)

lemma zebra_selector_dom:
  "fst ` set (zebra_selector d) = set allowed_zebra_report_fields \<union> fst ` set d"
  unfolding zebra_selector_def Let_def
  by (simp add: setdefault_dom dom_update allowed_zebra_report_fields_def insert_commute)

lemma zebra_selector_get:
  "dict_get (zebra_selector d) ''EnableAntennaPhysicalPortConfig'' = Some (PBool True)"
  "dict_get (zebra_selector d) ''EnablePhase'' = Some (PBool True)"
  by (simp_all add: zebra_selector_def Let_def setdefault_get dict_simps)

lemma zebra_ok_dom: "zebra_ok (PDict d) \<Longrightarrow> fst ` set d \<subseteq> set allowed_zebra_report_fields"
  by (auto simp: zebra_ok_def list_all_iff)

lemma zebra_selector_known:
  assumes "fst ` set d = set allowed_zebra_report_fields"
    and "dict_get d ''EnableAntennaPhysicalPortConfig'' = Some (PBool True)" "dict_get d ''EnablePhase'' = Some (PBool True)"
  shows "zebra_selector d = d"
proof -
  have known: "dict_get d k \<noteq> None" if "k \<in> set allowed_zebra_report_fields" for k
    using that assms(1) by (metis map_of_eq_None_iff)
  have "setdefault d k v = d" if "k \<in> set allowed_zebra_report_fields" for k v
    using known [OF that] by (auto simp: setdefault_def)
  then show ?thesis
    using assms(2,3) by (simp add: zebra_selector_def allowed_zebra_report_fields_def update_triv)
qed

lemma normalize_zebra_result:
  assumes "normalize_zebra c = Inr c'"
  shows "\<exists>sel. c' = c\<lparr>zebra_tag_content_selector := sel\<rparr> \<and> zebra_valid c'"
proof (cases "rf_telemetry_mode c = PStr ''zebra''")
  case True
  then obtain d where c': "c' = c\<lparr>zebra_tag_content_selector := PDict (zebra_selector d)\<rparr>"
    and ok: "zebra_ok (PDict (zebra_selector d))"
    using assms by (auto simp: normalize_zebra_def res_simps)
  from zebra_ok_dom [OF ok] have "set (map fst (zebra_selector d)) = set allowed_zebra_report_fields"
    using zebra_selector_dom [of d] by auto
  then have "zebra_valid c'" using ok zebra_selector_get [of d] by (simp add: zebra_valid_iff c')
  with c' show ?thesis by blast
next
  case False
  then have "c' = c" "zebra_ok (zebra_tag_content_selector c)"
    using assms by (auto simp: normalize_zebra_def res_simps)
  moreover have "c = c\<lparr>zebra_tag_content_selector := zebra_tag_content_selector c\<rparr>" by simp
  ultimately show ?thesis using False unfolding zebra_valid_iff by blast
qed

lemma normalize_zebra_fixed:
  assumes "zebra_valid c"
  shows "normalize_zebra c = Inr c"
proof (cases "rf_telemetry_mode c = PStr ''zebra''")
  case True
  then obtain d where d: "zebra_tag_content_selector c = PDict d" "zebra_selector d = d"
    using assms zebra_selector_known unfolding zebra_valid_iff by fastforce
  have "py_dict_or_empty (PDict d) = Inr d" by (simp add: py_dict_or_empty_def)
  moreover have "c\<lparr>zebra_tag_content_selector := PDict d\<rparr> = c" using d(1) by simp
  ultimately show ?thesis
    using True d assms by (simp add: normalize_zebra_def zebra_valid_iff)
next
  case False
  with assms show ?thesis by (simp add: normalize_zebra_def zebra_valid_iff)
qed

text \<open>Powers cover exactly the antennas.\<close>

lemma power_all: "fst ` set (dict_update [] (map (\<lambda>a. (a, v)) ants)) = set ants"
  using dom_dict_update [of "[]" "map (\<lambda>a. (a, v)) ants"] by (force simp: image_image)

lemma power_all_values: "w \<in> snd ` set (dict_update [] (map (\<lambda>a. (a, v)) ants)) \<Longrightarrow> w = v"
  using set_dict_update_subset [of "[]" "map (\<lambda>a. (a, v)) ants"] by auto

lemma normalize_tx_power_result:
  assumes "normalize_tx_power c = Inr c'"
  shows "\<exists>p. c' = c\<lparr>tx_power := p\<rparr> \<and> tx_power_valid c'"
proof (cases "tx_power c")
  case (Scalar v)
  then have "c' = c\<lparr>tx_power := Per_Antenna (dict_update [] (map (\<lambda>a. (a, v)) (antenna_list (antennas c))))\<rparr>"
    using assms by (auto simp: normalize_tx_power_def Let_def split: pyval.splits)
  then show ?thesis by (auto simp: tx_power_valid_def power_all)
next
  case (Per_Antenna d)
  then have "c' = c\<lparr>tx_power := Per_Antenna d\<rparr>" "set (antenna_list (antennas c)) = set (map fst d)"
    using assms by (auto simp: normalize_tx_power_def Let_def split: if_splits)
  then show ?thesis by (auto simp: tx_power_valid_def)
qed

lemma normalize_tx_power_fixed: "tx_power_valid c \<Longrightarrow> normalize_tx_power c = Inr c"
  by (auto simp: normalize_tx_power_def tx_power_valid_def)

lemma normalize_tx_power_dbm_result:
  assumes "normalize_tx_power_dbm c = Inr c'"
  shows "\<exists>p. c' = c\<lparr>tx_power_dbm := p\<rparr> \<and> tx_power_dbm_valid c'"
proof (cases "tx_power_dbm c")
  case (Scalar v)
  show ?thesis
  proof (cases "v = PNone")
    case True
    with Scalar assms show ?thesis
      by (intro exI [of _ "Scalar PNone"]) (auto simp: normalize_tx_power_dbm_def tx_power_dbm_valid_def)
  next
    case False
    then obtain r where "c' = c\<lparr>tx_power_dbm := Per_Antenna (dict_update [] (map (\<lambda>a. (a, PFloat r)) (antenna_list (antennas c))))\<rparr>"
      using Scalar assms by (auto simp: normalize_tx_power_dbm_def Let_def split: option.splits)
    moreover have "\<forall>v \<in> snd ` set (dict_update [] (map (\<lambda>a. (a, PFloat r)) (antenna_list (antennas c)))). \<exists>r. v = PFloat r"
    proof
      fix v assume "v \<in> snd ` set (dict_update [] (map (\<lambda>a. (a, PFloat r)) (antenna_list (antennas c))))"
      then have "v = PFloat r" by (rule power_all_values)
      then show "\<exists>r. v = PFloat r" by blast
    qed
    ultimately have "tx_power_dbm_valid c'" by (simp add: tx_power_dbm_valid_def power_all)
    with \<open>c' = _\<close> show ?thesis by blast
  qed
next
  case (Per_Antenna d)
  let ?d = "map (\<lambda>(a, v). (a, PFloat (the (number_of v)))) d"
  have "map fst ?d = map fst d" by (simp add: comp_def case_prod_beta)
  moreover have "c' = c\<lparr>tx_power_dbm := Per_Antenna ?d\<rparr>" "set (antenna_list (antennas c)) = set (map fst d)"
    using assms Per_Antenna by (auto simp: normalize_tx_power_dbm_def Let_def split: if_splits)
  ultimately have "tx_power_dbm_valid c'"
    unfolding tx_power_dbm_valid_def by (intro disjI2 exI [of _ ?d]) auto
  with \<open>c' = _\<close> show ?thesis by blast
qed

lemma normalize_tx_power_dbm_fixed:
  assumes "tx_power_dbm_valid c"
  shows "normalize_tx_power_dbm c = Inr c"
proof (cases "tx_power_dbm c = Scalar PNone")
  case True
  then show ?thesis by (simp add: normalize_tx_power_dbm_def)
next
  case False
  then obtain d where d: "tx_power_dbm c = Per_Antenna d" "set (map fst d) = set (antenna_list (antennas c))"
    "\<forall>v \<in> snd ` set d. \<exists>r. v = PFloat r"
    using assms by (auto simp: tx_power_dbm_valid_def)
  have "map (\<lambda>(a, v). (a, PFloat (the (number_of v)))) d = d"
    using d(3) by (intro map_idI) (fastforce simp: number_of_def)
  moreover have "\<not> list_ex (\<lambda>(_, v). number_of v = None) d"
    using d(3) by (fastforce simp: list_ex_iff number_of_def)
  ultimately show ?thesis using d by (simp add: normalize_tx_power_dbm_def)
qed

lemma dict_pop_known: "dict_get d k = None \<Longrightarrow> dict_pop d k = d"
  by (simp add: map_of_eq_None_iff delete_id)

lemma validate_config_valid:
  assumes "validate_config c = Inr c'"
  shows "config_valid c'"
proof -
  obtain freqs c2 c3 c4 where scal: "check_scalars c = Inr ()"
    and fr: "normalize_frequencies (frequencies c) = Inr freqs" "check_frequencies freqs (impinj_fixed_frequency c) = Inr ()"
    and tele: "normalize_telemetry (c\<lparr>frequencies := PDict freqs\<rparr>) = Inr c2"
    and zeb: "normalize_zebra c2 = Inr c3" and ded: "check_dedup c3 = Inr ()"
    and tx: "normalize_tx_power c3 = Inr c4" and dbm: "normalize_tx_power_dbm c4 = Inr c'"
    using assms by (auto simp: validate_config_eq res_simps Let_def)
  obtain mode sel where c2: "c2 = c\<lparr>frequencies := PDict freqs, rf_telemetry_mode := PStr mode, tag_content_selector := sel\<rparr>"
    and tv: "telemetry_valid c2" using normalize_telemetry_result [OF tele] by auto
  obtain zsel where c3: "c3 = c2\<lparr>zebra_tag_content_selector := zsel\<rparr>" and zv: "zebra_valid c3"
    using normalize_zebra_result [OF zeb] by blast
  obtain p where c4: "c4 = c3\<lparr>tx_power := p\<rparr>" and pv: "tx_power_valid c4"
    using normalize_tx_power_result [OF tx] by blast
  obtain q where c': "c' = c4\<lparr>tx_power_dbm := q\<rparr>" and qv: "tx_power_dbm_valid c'"
    using normalize_tx_power_dbm_result [OF dbm] by blast
  have sv: "scalars_valid c'"
    using scal by (simp add: check_scalars_iff [symmetric] check_scalars_def c' c4 c3 c2)
  moreover have "frequencies_valid c'"
    using fr normalize_frequencies_valid check_frequencies_iff [of c'] by (simp add: c' c4 c3 c2)
  moreover have "telemetry_valid c'" using tv by (simp add: telemetry_valid_def c' c4 c3)
  moreover have "zebra_valid c'" using zv by (simp add: zebra_valid_def c' c4)
  moreover have "dedup_valid c'" using ded by (simp add: check_dedup_iff [symmetric] check_dedup_def c' c4)
  moreover have "tx_power_valid c'" using pv by (simp add: tx_power_valid_def c')
  ultimately show ?thesis using qv powers_valid_iff [OF sv] by (simp add: config_valid_def)
qed

lemma validate_config_fixed:
  assumes "config_valid c"
  shows "validate_config c = Inr c"
proof -
  obtain freqs where f: "frequencies c = PDict freqs" "dict_get freqs ''Channelist'' = None"
    "check_frequencies freqs (impinj_fixed_frequency c) = Inr ()"
    using assms check_frequencies_iff [of c] by (auto simp: config_valid_def)
  have "c\<lparr>frequencies := PDict freqs\<rparr> = c" using f(1) by (simp flip: f(1))
  then have "normalize_telemetry (c\<lparr>frequencies := PDict freqs\<rparr>) = Inr c"
    using assms normalize_telemetry_fixed [of c] by (simp only: config_valid_def)
  moreover have "tx_power_valid c" "tx_power_dbm_valid c" "check_scalars c = Inr ()" "check_dedup c = Inr ()"
    using assms powers_valid_iff [of c] by (simp_all add: config_valid_def check_scalars_iff check_dedup_iff)
  ultimately show ?thesis
    using assms f normalize_zebra_fixed [of c] normalize_tx_power_fixed [of c] normalize_tx_power_dbm_fixed [of c]
    by (simp add: validate_config_eq config_valid_def normalize_frequencies_def)
qed

text \<open>What validation may assign, whether it ends well or not.\<close>

definition same_but_normalized :: "reader_config \<Rightarrow> reader_config \<Rightarrow> bool" where
  "same_but_normalized c c' \<longleftrightarrow>
     c\<lparr>frequencies := PNone, rf_telemetry_mode := PNone, tag_content_selector := PNone,
        zebra_tag_content_selector := PNone, tx_power := Scalar PNone, tx_power_dbm := Scalar PNone\<rparr> =
     c'\<lparr>frequencies := PNone, rf_telemetry_mode := PNone, tag_content_selector := PNone,
        zebra_tag_content_selector := PNone, tx_power := Scalar PNone, tx_power_dbm := Scalar PNone\<rparr>"

interpretation same: state_relation same_but_normalized
  by unfold_locales (simp_all add: same_but_normalized_def)

lemma same_assign: "(\<And>c c'. f c = Inr c' \<Longrightarrow> same_but_normalized c c') \<Longrightarrow> keeps same_but_normalized (assign_config f)"
  by (rule keepsI) (auto simp: assign_config_def act_simps same_but_normalized_def split: sum.splits)

lemma same_frequencies: "same_but_normalized c (c\<lparr>frequencies := freqs\<rparr>)"
  by (simp add: same_but_normalized_def)

lemma same_powers:
  "normalize_tx_power c = Inr c' \<Longrightarrow> same_but_normalized c c'"
  "normalize_tx_power_dbm c = Inr c' \<Longrightarrow> same_but_normalized c c'"
  using normalize_tx_power_result [of c c'] normalize_tx_power_dbm_result [of c c']
  by (auto simp: same_but_normalized_def)

lemma validate_in_place_same: "keeps same_but_normalized validate_in_place"
proof -
  have "keeps same_but_normalized telemetry_in_place" "keeps same_but_normalized zebra_in_place"
    unfolding telemetry_in_place_def zebra_in_place_def
    by (auto intro!: same.kept same.modifyA simp: same_but_normalized_def Let_def split: pyval.split)
  then show ?thesis
    unfolding validate_in_place_def
    by (intro same.kept same_assign) (auto simp: same_frequencies res_simps intro: same_powers)
qed

lemma validate_config_powers:
  assumes "validate_config c = Inr c'" "tx_power c = Scalar v"
  shows "\<exists>d. tx_power c' = Per_Antenna d \<and> (\<forall>p \<in> set (map snd d). p = v)"
proof -
  obtain c2 c3 c4 where "normalize_telemetry c2 = Inr c3" "tx_power c2 = Scalar v"
    and zeb: "normalize_zebra c3 = Inr c4"
    and rest: "bindE (normalize_tx_power c4) normalize_tx_power_dbm = Inr c'"
    using assms by (auto simp: validate_config_eq res_simps Let_def)
  then have v: "tx_power c4 = Scalar v"
    using normalize_telemetry_result [of c2 c3] normalize_zebra_result [OF zeb] by auto
  then have "normalize_tx_power c4 = Inr (c4\<lparr>tx_power :=
      Per_Antenna (dict_update [] (map (\<lambda>a. (a, v)) (antenna_list (antennas c4))))\<rparr>)"
    using rest by (auto simp: normalize_tx_power_def Let_def split: pyval.splits)
  then have "tx_power c' = Per_Antenna (dict_update [] (map (\<lambda>a. (a, v)) (antenna_list (antennas c4))))"
    using rest normalize_tx_power_dbm_result by fastforce
  then show ?thesis using power_all_values by fastforce
qed

section \<open>Properties\<close>



end
