(* ===== verification/ROSpec_Build.thy ===== *)
theory ROSpec_Build
  imports Reader_Config Proto_Enums
begin

text \<open>
  The constructor of \<open>LLRPROSpec\<close> (\<^verbatim>\<open>sllurp/llrp_proto.py\<close>): the nested dictionary of one
  inventory ROSpec.  Antennas are integers, as validation leaves them.  The order in which a
  Python set is iterated is an argument, \<open>set_order\<close>.  The lemmas relate the antenna
  configurations of the result to the requested antennas and powers.
\<close>

section \<open>Operations on values\<close>

definition py_number :: "pyval \<Rightarrow> rat option" where
  "py_number v = (case v of PBool b \<Rightarrow> Some (of_bool b) | _ \<Rightarrow> number_of v)"

text \<open>\<open>a <= b\<close> on numbers; mixed or other types raise \<open>TypeError\<close>.\<close>

definition py_le :: "pyval \<Rightarrow> pyval \<Rightarrow> bool res" where
  "py_le a b = (case (py_number a, py_number b) of (Some x, Some y) \<Rightarrow> Inr (x \<le> y) | _ \<Rightarrow> Inl TypeError)"

definition py_first :: "pyval \<Rightarrow> pyval res" where
  "py_first v = (case v of
     PList (x # _) \<Rightarrow> Inr x
   | PList [] \<Rightarrow> Inl IndexError
   | PStr (c # _) \<Rightarrow> Inr (PStr [c])
   | PStr [] \<Rightarrow> Inl IndexError
   | PBytes (b # _) \<Rightarrow> Inr (PInt (uint b))
   | PBytes [] \<Rightarrow> Inl IndexError
   | PDict _ \<Rightarrow> Inl KeyError
   | _ \<Rightarrow> Inl TypeError)"

text \<open>\<open>int(v * 1000)\<close>; multiplying a text repeats it.\<close>

definition int_of_milli :: "pyval \<Rightarrow> int res" where
  "int_of_milli v = (case v of
     PFloat r \<Rightarrow> py_int (PFloat (r * 1000))
   | PInt i \<Rightarrow> Inr (i * 1000)
   | PBool b \<Rightarrow> Inr (of_bool b * 1000)
   | PStr s \<Rightarrow> py_int (PStr (concat (replicate 1000 s)))
   | PBytes s \<Rightarrow> py_int (PBytes (concat (replicate 1000 s)))
   | _ \<Rightarrow> Inl TypeError)"

section \<open>The arguments\<close>

record rospec_args =
  ra_priority :: int
  ra_state :: pyval
  ra_antennas :: "int list"
  ra_tx_power :: power_setting
  ra_duration_sec :: pyval
  ra_report_every_n_tags :: pyval
  ra_report_timeout_ms :: pyval
  ra_ro_report_every_n_tags :: pyval
  ra_tag_content_selector :: pyval
  ra_tari :: pyval
  ra_session :: pyval
  ra_tag_population :: pyval
  ra_tag_filter_mask :: pyval
  ra_impinj_search_mode :: pyval
  ra_impinj_tag_content_selector :: pyval
  ra_zebra_tag_content_selector :: pyval
  ra_frequencies :: pyval
  ra_impinj_fixed_frequency :: pyval

definition default_rospec_args :: rospec_args where
  "default_rospec_args = \<lparr>ra_priority = 0, ra_state = PStr ''Disabled'', ra_antennas = [1],
     ra_tx_power = Scalar (PInt 0), ra_duration_sec = PNone, ra_report_every_n_tags = PNone,
     ra_report_timeout_ms = PInt 0, ra_ro_report_every_n_tags = PNone, ra_tag_content_selector = PNone,
     ra_tari = PNone, ra_session = PInt 2, ra_tag_population = PInt 4, ra_tag_filter_mask = PNone,
     ra_impinj_search_mode = PNone, ra_impinj_tag_content_selector = PNone,
     ra_zebra_tag_content_selector = PNone, ra_frequencies = PNone, ra_impinj_fixed_frequency = PNone\<rparr>"

section \<open>The parts of the ROSpec\<close>

text \<open>A power for every antenna.\<close>

definition antenna_powers :: "int list \<Rightarrow> power_setting \<Rightarrow> (int \<times> pyval) list res" where
  "antenna_powers ants pw = (case pw of
     Scalar v \<Rightarrow> (case v of
         PInt _ \<Rightarrow> Inr (dict_update [] (map (\<lambda>a. (a, v)) ants))
       | PBool _ \<Rightarrow> Inr (dict_update [] (map (\<lambda>a. (a, v)) ants))
       | _ \<Rightarrow> Inl LLRPError)
   | Per_Antenna d \<Rightarrow> if set ants \<noteq> set (map fst d) then Inl LLRPError else Inr d)"

text \<open>The mode index, if a mode is given, and the Tari to use.\<close>

definition mode_settings :: "pyval \<Rightarrow> pyval \<Rightarrow> (pyval \<times> pyval) res" where
  "mode_settings reader_mode tari_v =
    (if reader_mode = PNone then Inr (PNone, PNone)
     else bindE (if tari_v = PNone then Inr False
            else bindE (py_item reader_mode ''MinTari'') (\<lambda>lo. bindE (py_le lo tari_v) (\<lambda>b.
              if b then bindE (py_item reader_mode ''MaxTari'') (\<lambda>hi. py_le tari_v hi) else Inr False))) (\<lambda>fits.
          bindE (py_item reader_mode ''ModeIdentifier'') (\<lambda>mode_index.
          Inr (mode_index, if fits then tari_v else PNone))))"

definition default_tag_selector :: pydict where
  "default_tag_selector = [
    (''EnableROSpecID'', PBool True),
    (''EnableSpecIndex'', PBool False),
    (''EnableInventoryParameterSpecID'', PBool False),
    (''EnableAntennaID'', PBool True),
    (''EnableChannelIndex'', PBool False),
    (''EnablePeakRSSI'', PBool True),
    (''EnableFirstSeenTimestamp'', PBool False),
    (''EnableLastSeenTimestamp'', PBool True),
    (''EnableTagSeenCount'', PBool True),
    (''EnableAccessSpecID'', PBool False),
    (''C1G2EPCMemorySelector'', PDict [(''EnableCRC'', PBool False), (''EnablePCBits'', PBool False)])]"

definition impinj_selector :: "pyval \<Rightarrow> pyval res" where
  "impinj_selector sel =
    bindE (py_item sel ''EnableRFPhaseAngle'') (\<lambda>phase.
    bindE (py_item sel ''EnablePeakRSSI'') (\<lambda>rssi.
    bindE (py_item sel ''EnableRFDopplerFrequency'') (\<lambda>doppler.
    Inr (PDict [
      (''ImpinjEnableRFPhaseAngle'', PDict [(''RFPhaseAngleMode'', phase)]),
      (''ImpinjEnablePeakRSSI'', PDict [(''PeakRSSIMode'', rssi)]),
      (''ImpinjEnableRFDopplerFrequency'', PDict [(''RFDopplerFrequencyMode'', doppler)])]))))"

definition report_spec :: "rospec_args \<Rightarrow> pydict \<Rightarrow> pydict res" where
  "report_spec ra selector =
    (let spec = [(''ROReportTrigger'', PStr ''Upon_N_Tags_Or_End_Of_AISpec''),
                 (''TagReportContentSelector'', PDict selector),
                 (''N'', if ra_ro_report_every_n_tags ra = PNone then PInt 0 else ra_ro_report_every_n_tags ra)]
     in bindE (if py_true (ra_impinj_tag_content_selector ra)
               then bindE (impinj_selector (ra_impinj_tag_content_selector ra)) (\<lambda>sel.
                 Inr (spec @ [(''ImpinjTagReportContentSelector'', sel)]))
               else Inr spec) (\<lambda>spec.
        if py_true (ra_zebra_tag_content_selector ra)
        then bindE (py_dict_or_empty (ra_zebra_tag_content_selector ra)) (\<lambda>z.
          Inr (spec @ [(''MotoTagReportContentSelector'', PDict z)]))
        else Inr spec))"

text \<open>The tag filters: \<open>set_order l\<close> are the distinct elements of \<open>l\<close> in the order the set iterates them.\<close>

definition tag_filters :: "(pyval list \<Rightarrow> pyval list) \<Rightarrow> pyval \<Rightarrow> pyval list res" where
  "tag_filters set_order masks =
    bindE (py_iter (if masks = PNone then PList [] else masks)) (\<lambda>l.
    if list_all hashable l
    then Inr (map (\<lambda>tfm. PDict [(''C1G2TagInventoryMask'',
           PDict [(''MB'', PInt 1), (''Pointer'', PInt 0x20), (''TagMask'', tfm)])]) (set_order l))
    else Inl TypeError)"

text \<open>The Impinj frequency list of one antenna, if any.\<close>

definition fixed_frequency :: "pyval \<Rightarrow> pyval \<Rightarrow> pyval \<Rightarrow> pyval option res" where
  "fixed_frequency freqs channels fixed =
    bindE (py_get freqs ''Automatic'' (PBool False)) (\<lambda>automatic.
    bindE (if fixed \<noteq> PNone then Inr (py_true fixed)
           else if py_true automatic then Inr True
           else bindE (py_len channels) (\<lambda>n. Inr (n > 1))) (\<lambda>use.
    if use \<and> py_true automatic
    then Inr (Some (PDict [(''FixedFrequencyMode'', PInt 1), (''ChannelList'', PList [])]))
    else if use then bindE (py_len channels) (\<lambda>n.
      Inr (if n > 1 then Some (PDict [(''FixedFrequencyMode'', PInt 2), (''ChannelList'', channels)]) else None))
    else Inr None))"

definition antenna_configuration :: "(pyval list \<Rightarrow> pyval list) \<Rightarrow> pyval \<Rightarrow> rospec_args \<Rightarrow>
    pyval \<Rightarrow> pyval \<Rightarrow> pyval \<Rightarrow> pyval \<Rightarrow> (int \<times> pyval) list \<Rightarrow> int \<Rightarrow> pyval res" where
  "antenna_configuration set_order reader_mode ra mode_index override_tari freqs channels powers antid =
    bindE (case map_of powers antid of None \<Rightarrow> Inl KeyError | Some p \<Rightarrow> Inr p) (\<lambda>pw.
    bindE (py_get freqs ''HopTableId'' (PInt DEFAULT_HOPTABLE_INDEX)) (\<lambda>hop.
    bindE (py_first channels) (\<lambda>channel.
    bindE (tag_filters set_order (ra_tag_filter_mask ra)) (\<lambda>filters.
    bindE (if ra_impinj_search_mode ra \<noteq> PNone
           then bindE (py_int (ra_impinj_search_mode ra)) (\<lambda>i.
             Inr [(''ImpinjInventorySearchMode'', PDict [(''InventorySearchMode'', PInt i)])])
           else Inr []) (\<lambda>search.
    bindE (fixed_frequency freqs channels (ra_impinj_fixed_frequency ra)) (\<lambda>fixed.
    Inr (PDict [
      (''AntennaID'', PInt antid),
      (''RFTransmitter'', PDict [(''HopTableId'', hop), (''ChannelIndex'', channel), (''TransmitPower'', pw)]),
      (''C1G2InventoryCommand'', PList [PDict (
        [(''TagInventoryStateAware'', PBool False),
         (''C1G2SingulationControl'', PDict [(''Session'', ra_session ra),
            (''TagPopulation'', ra_tag_population ra), (''TagTransitTime'', PInt 0)])]
        @ (if filters \<noteq> [] then [(''C1G2Filter'', PList filters)] else [])
        @ (if py_true reader_mode then [(''C1G2RFControl'', PDict [(''ModeIndex'', mode_index),
             (''Tari'', if py_true override_tari then override_tari else PInt 0)])] else [])
        @ search
        @ (case fixed of None \<Rightarrow> [] | Some f \<Rightarrow> [(''ImpinjFixedFrequencyList'', f)]))])])))))))"

text \<open>The stop triggers of the ROSpec and of the AISpec.\<close>

definition stop_triggers :: "rospec_args \<Rightarrow> (pydict \<times> pydict) res" where
  "stop_triggers ra =
    bindE (if ra_duration_sec ra \<noteq> PNone
           then bindE (int_of_milli (ra_duration_sec ra)) (\<lambda>ms.
             Inr ([(''ROSpecStopTriggerType'', PStr ''Duration''), (''DurationTriggerValue'', PInt ms)],
                  [(''AISpecStopTriggerType'', PStr ''Duration''), (''DurationTriggerValue'', PInt ms)]))
           else Inr ([(''ROSpecStopTriggerType'', PStr ''Null''), (''DurationTriggerValue'', PInt 0)],
                     [(''AISpecStopTriggerType'', PStr ''Null''), (''DurationTriggerValue'', PInt 0)])) (\<lambda>(ro, ai).
    Inr (ro,
      if ra_report_every_n_tags ra \<noteq> PNone
      then dict_update ai [(''AISpecStopTriggerType'', PStr ''Tag observation''),
        (''TagObservationTrigger'', PDict [(''TriggerType'', PStr ''UponNTags''),
          (''NumberOfTags'', ra_report_every_n_tags ra), (''NumberOfAttempts'', PInt 0), (''T'', PInt 0),
          (''Timeout'', ra_report_timeout_ms ra)])]
      else ai))"

definition rospec_checks :: "int \<Rightarrow> rospec_args \<Rightarrow> unit res" where
  "rospec_checks rospecid ra =
    bindE (require (\<not> rospecid \<le> 0)) (\<lambda>_.
    bindE (require (\<not> (ra_priority ra < 0 \<or> ra_priority ra > 7))) (\<lambda>_.
    bindE (py_lookup_opt ROSpecState_Name2Type (ra_state ra)) (\<lambda>st.
    bindE (require (st \<noteq> None)) (\<lambda>_.
    require (none_or (int_between 1 65535) (ra_ro_report_every_n_tags ra))))))"

definition LLRPROSpec :: "(pyval list \<Rightarrow> pyval list) \<Rightarrow> pyval \<Rightarrow> int \<Rightarrow> rospec_args \<Rightarrow> pydict res" where
  "LLRPROSpec set_order reader_mode rospecid ra =
    bindE (rospec_checks rospecid ra) (\<lambda>_.
    bindE (antenna_powers (ra_antennas ra) (ra_tx_power ra)) (\<lambda>powers.
    let freqs = (if ra_frequencies ra = PNone then PDict [] else ra_frequencies ra) in
    bindE (mode_settings reader_mode (ra_tari ra)) (\<lambda>(mode_index, override_tari).
    bindE (if py_true (ra_tag_content_selector ra)
           then bindE (py_dict_or_empty (ra_tag_content_selector ra)) (\<lambda>d. Inr (dict_update default_tag_selector d))
           else Inr default_tag_selector) (\<lambda>selector.
    bindE (report_spec ra selector) (\<lambda>report.
    bindE (py_get freqs ''ChannelList'' (PList [PInt DEFAULT_CHANNEL_INDEX])) (\<lambda>channels.
    bindE (require (py_true channels)) (\<lambda>_.
    bindE (mapE (antenna_configuration set_order reader_mode ra mode_index override_tari freqs channels powers)
      (ra_antennas ra)) (\<lambda>configurations.
    bindE (stop_triggers ra) (\<lambda>(ro_stop, ai_stop).
    Inr [
      (''ROSpecID'', PInt rospecid),
      (''Priority'', PInt (ra_priority ra)),
      (''CurrentState'', ra_state ra),
      (''ROBoundarySpec'', PDict [
        (''ROSpecStartTrigger'', PDict [(''ROSpecStartTriggerType'', PStr ''Immediate'')]),
        (''ROSpecStopTrigger'', PDict ro_stop)]),
      (''AISpec'', PList [PDict [
        (''AntennaID'', PList (map PInt (ra_antennas ra))),
        (''AISpecStopTrigger'', PDict ai_stop),
        (''InventoryParameterSpec'', PList [PDict [
          (''InventoryParameterSpecID'', PInt 1),
          (''ProtocolID'', PInt (the (map_of AirProtocol ''EPCGlobalClass1Gen2''))),
          (''AntennaConfiguration'', PList configurations)]])]]),
      (''ROReportSpec'', PDict report)])))))))))"

section \<open>What the ROSpec asks of the antennas\<close>

text \<open>Antenna and transmit power of every antenna configuration of a ROSpec.\<close>

definition rospec_powers :: "pydict \<Rightarrow> (pyval \<times> pyval) list res" where
  "rospec_powers spec =
    bindE (py_item (PDict spec) ''AISpec'') (\<lambda>ai. bindE (py_first ai) (\<lambda>ai.
    bindE (py_item ai ''InventoryParameterSpec'') (\<lambda>ips. bindE (py_first ips) (\<lambda>ips.
    bindE (py_item ips ''AntennaConfiguration'') (\<lambda>confs. bindE (py_iter confs) (\<lambda>confs.
    mapE (\<lambda>conf. bindE (py_item conf ''AntennaID'') (\<lambda>a. bindE (py_item conf ''RFTransmitter'') (\<lambda>t.
      bindE (py_item t ''TransmitPower'') (\<lambda>p. Inr (a, p))))) confs))))))"

lemma antenna_configuration_power:
  assumes "antenna_configuration so rm ra mi ot freqs ch powers a = Inr conf"
  shows "\<exists>p. map_of powers a = Some p \<and>
    bindE (py_item conf ''AntennaID'') (\<lambda>a. bindE (py_item conf ''RFTransmitter'') (\<lambda>t.
      bindE (py_item t ''TransmitPower'') (\<lambda>p. Inr (a, p)))) = Inr (PInt a, p)"
  using assms by (auto simp: antenna_configuration_def res_simps py_item_def split: option.splits)

lemma antenna_configurations_powers:
  "mapE (antenna_configuration so rm ra mi ot freqs ch powers) ants = Inr confs \<Longrightarrow>
     \<exists>ps. map (map_of powers) ants = map Some ps \<and>
       mapE (\<lambda>conf. bindE (py_item conf ''AntennaID'') (\<lambda>a. bindE (py_item conf ''RFTransmitter'') (\<lambda>t.
         bindE (py_item t ''TransmitPower'') (\<lambda>p. Inr (a, p))))) confs = Inr (zip (map PInt ants) ps)"
proof (induction ants arbitrary: confs)
  case Nil
  then show ?case by simp
next
  case (Cons a ants)
  then obtain conf confs' where c: "antenna_configuration so rm ra mi ot freqs ch powers a = Inr conf"
    and cs: "mapE (antenna_configuration so rm ra mi ot freqs ch powers) ants = Inr confs'" "confs = conf # confs'"
    by (auto simp: res_simps)
  obtain p where "map_of powers a = Some p" and
    "bindE (py_item conf ''AntennaID'') (\<lambda>a. bindE (py_item conf ''RFTransmitter'') (\<lambda>t.
      bindE (py_item t ''TransmitPower'') (\<lambda>p. Inr (a, p)))) = Inr (PInt a, p)"
    using antenna_configuration_power [OF c] by blast
  moreover from Cons.IH [OF cs(1)] obtain ps where "map (map_of powers) ants = map Some ps"
    "mapE (\<lambda>conf. bindE (py_item conf ''AntennaID'') (\<lambda>a. bindE (py_item conf ''RFTransmitter'') (\<lambda>t.
         bindE (py_item t ''TransmitPower'') (\<lambda>p. Inr (a, p))))) confs' = Inr (zip (map PInt ants) ps)"
    by blast
  ultimately show ?case by (intro exI [of _ "p # ps"]) (simp add: cs(2))
qed

lemma antenna_powers_scalar:
  assumes "antenna_powers ants (Scalar v) = Inr powers" "a \<in> set ants"
  shows "map_of powers a = Some v"
proof -
  have "powers = dict_update [] (map (\<lambda>a. (a, v)) ants)"
    using assms(1) by (auto simp: antenna_powers_def split: pyval.splits)
  moreover have "map_of (rev (map (\<lambda>a. (a, v)) ants)) a = Some v"
    using assms(2) by (simp add: rev_map map_of_map_restrict)
  ultimately show ?thesis by (simp add: map_of_dict_update)
qed

lemma antenna_powers_table:
  "antenna_powers ants (Per_Antenna d) = Inr powers \<Longrightarrow> powers = d \<and> set (map fst d) = set ants"
  by (auto simp: antenna_powers_def split: if_splits)

text \<open>
  C17. A ROSpec that is built configures every requested antenna, once per request and in
  order, with exactly the power requested for it: the given value for all antennas, or the
  entry of the antenna in the power table, which must name exactly these antennas.
\<close>

theorem rospec_antenna_powers:
  assumes "LLRPROSpec set_order mode rospecid ra = Inr spec"
  shows "\<exists>ps. rospec_powers spec = Inr (zip (map PInt (ra_antennas ra)) ps) \<and>
    length ps = length (ra_antennas ra) \<and>
    (case ra_tx_power ra of
       Scalar v \<Rightarrow> ps = replicate (length (ra_antennas ra)) v
     | Per_Antenna d \<Rightarrow> set (map fst d) = set (ra_antennas ra) \<and>
         map (map_of d) (ra_antennas ra) = map Some ps)"
proof -
  obtain powers mi ot freqs ch confs where p: "antenna_powers (ra_antennas ra) (ra_tx_power ra) = Inr powers"
    and c: "mapE (antenna_configuration set_order mode ra mi ot freqs ch powers) (ra_antennas ra) = Inr confs"
    and spec: "rospec_powers spec = mapE (\<lambda>conf. bindE (py_item conf ''AntennaID'') (\<lambda>a.
      bindE (py_item conf ''RFTransmitter'') (\<lambda>t. bindE (py_item t ''TransmitPower'') (\<lambda>p. Inr (a, p))))) confs"
    using assms
    by (auto simp: LLRPROSpec_def res_simps Let_def rospec_powers_def py_item_def py_first_def py_iter_def)
  from antenna_configurations_powers [OF c] obtain ps where ps: "map (map_of powers) (ra_antennas ra) = map Some ps"
    and run: "rospec_powers spec = Inr (zip (map PInt (ra_antennas ra)) ps)"
    using spec by auto
  from ps have len: "length ps = length (ra_antennas ra)" by (metis length_map)
  have "ps = replicate (length (ra_antennas ra)) v" if "ra_tx_power ra = Scalar v" for v
  proof -
    have "map (map_of powers) (ra_antennas ra) = map (\<lambda>_. Some v) (ra_antennas ra)"
      using antenna_powers_scalar p that by simp
    with ps have "map Some ps = map Some (replicate (length (ra_antennas ra)) v)"
      by (simp add: map_replicate_const)
    then show ?thesis by (simp only: inj_map_eq_map [OF inj_Some])
  qed
  moreover have "set (map fst d) = set (ra_antennas ra) \<and> map (map_of d) (ra_antennas ra) = map Some ps"
    if "ra_tx_power ra = Per_Antenna d" for d
    using antenna_powers_table [of "ra_antennas ra" d powers] p ps that by simp
  ultimately show ?thesis
    using run len by (intro exI [of _ ps] conjI) (simp_all split: power_setting.split)
qed

theorem rospec_antenna_powers_witness:
  "\<exists>spec. LLRPROSpec id PNone 7 (default_rospec_args\<lparr>ra_antennas := [1, 2],
       ra_tx_power := Per_Antenna [(2, PInt 30), (1, PInt 25)]\<rparr>) = Inr spec \<and>
     rospec_powers spec = Inr [(PInt 1, PInt 25), (PInt 2, PInt 30)]"
proof -
  let ?ra = "default_rospec_args\<lparr>ra_antennas := [1, 2], ra_tx_power := Per_Antenna [(2, PInt 30), (1, PInt 25)]\<rparr>"
  have "\<not> isl (LLRPROSpec id PNone 7 ?ra)" by code_simp
  then obtain spec where spec: "LLRPROSpec id PNone 7 ?ra = Inr spec" by (auto simp: isl_def) (metis sum.exhaust)
  with rospec_antenna_powers [OF spec] show ?thesis
    by (auto simp: default_rospec_args_def)
qed

end
