(* ===== verification/Access_Spec.thy ===== *)
theory Access_Spec
  imports Proto_Enums
begin

text \<open>
  The C1G2 operation classes of \<^verbatim>\<open>sllurp/llrp.py\<close> and the access specification that
  \<open>LLRPClient.startAccess\<close> builds from one.
\<close>

record target_tag =
  tt_MB :: pyval
  tt_Match :: pyval
  tt_Pointer :: pyval
  tt_TagMask :: pyval
  tt_TagData :: pyval

definition C1G2TargetTag :: "pyval \<Rightarrow> pyval \<Rightarrow> pyval \<Rightarrow> pyval \<Rightarrow> target_tag" where
  "C1G2TargetTag mb ptr tag_mask tagdata = \<lparr>tt_MB = mb, tt_Match = PInt 1, tt_Pointer = ptr,
     tt_TagMask = tag_mask, tt_TagData = tagdata\<rparr>"

definition default_target :: target_tag where
  "default_target = C1G2TargetTag (PInt 0) (PInt 0) (PStr '''') (PStr '''')"

text \<open>Arguments in the order of the constructors.  A lock payload is a privilege and a data field.\<close>

datatype op_spec =
    C1G2Read pyval pyval pyval pyval pyval
  | C1G2Write pyval pyval pyval pyval pyval pyval
  | C1G2Kill pyval pyval
  | C1G2Recommission pyval pyval pyval pyval pyval
  | C1G2Lock pyval pyval "(int \<times> int) list"
  | C1G2BlockErase pyval pyval pyval pyval pyval
  | C1G2BlockWrite pyval pyval pyval pyval pyval pyval
  | C1G2BlockPermalock pyval pyval pyval pyval pyval pyval
  | C1G2GetBlockPermalockStatus pyval pyval pyval pyval pyval

definition C1G2LockPayload :: "int \<Rightarrow> int \<Rightarrow> (int \<times> int) res" where
  "C1G2LockPayload privilege data_field =
    (if privilege < 0 \<or> privilege > 3 then Inl ValueError
     else if data_field < 0 \<or> data_field > 4 then Inl ValueError
     else Inr (privilege, data_field))"

definition new_C1G2Lock :: "pyval \<Rightarrow> pyval \<Rightarrow> (int \<times> int) list \<Rightarrow> op_spec res" where
  "new_C1G2Lock opid password payloads =
    (if payloads = [] then Inl ValueError else Inr (C1G2Lock opid password payloads))"

text \<open>The operation as a parameter; the other classes are not supported.\<close>

definition op_spec_param :: "op_spec \<Rightarrow> (string \<times> pyval) res" where
  "op_spec_param op = (case op of
     C1G2Read opid password mb ptr words \<Rightarrow> Inr (''C1G2Read'', PDict [(''OpSpecID'', opid),
       (''AccessPassword'', password), (''MB'', mb), (''WordPtr'', ptr), (''WordCount'', words)])
   | C1G2Write opid password mb ptr words content \<Rightarrow> Inr (''C1G2Write'', PDict [(''OpSpecID'', opid),
       (''AccessPassword'', password), (''MB'', mb), (''WordPtr'', ptr), (''WriteDataWordCount'', words),
       (''WriteData'', content)])
   | C1G2BlockWrite opid password mb ptr words content \<Rightarrow> Inr (''C1G2BlockWrite'', PDict [(''OpSpecID'', opid),
       (''AccessPassword'', password), (''MB'', mb), (''WordPtr'', ptr), (''WriteDataWordCount'', words),
       (''WriteData'', content)])
   | C1G2Lock opid password payloads \<Rightarrow> Inr (''C1G2Lock'', PDict [(''OpSpecID'', opid),
       (''AccessPassword'', password), (''C1G2LockPayload'',
          PList (map (\<lambda>(p, d). PDict [(''Privilege'', PInt p), (''DataField'', PInt d)]) payloads))])
   | _ \<Rightarrow> Inl LLRPError)"

text \<open>A missing or empty target list stands for the default target; more than two are refused.\<close>

definition access_spec :: "op_spec \<Rightarrow> target_tag list \<Rightarrow> int \<Rightarrow> int \<Rightarrow> pydict res" where
  "access_spec op targets stop_after_count access_spec_id =
    (let targets = (if targets = [] then [default_target] else targets) in
     bindE (raise_if (length targets > 2) ValueError) (\<lambda>_.
     bindE (op_spec_param op) (\<lambda>param.
     Inr [
       (''AccessSpecID'', PInt access_spec_id),
       (''AntennaID'', PInt 0),
       (''ProtocolID'', PInt (the (map_of AirProtocol ''EPCGlobalClass1Gen2''))),
       (''CurrentState'', PBool False),
       (''ROSpecID'', PInt 0),
       (''AccessSpecStopTrigger'', PDict [
          (''AccessSpecStopTriggerType'', PInt (if stop_after_count > 0 then 1 else 0)),
          (''OperationCountValue'', PInt stop_after_count)]),
       (''AccessCommand'', PDict [
          (''TagSpecParameter'', PDict [(''C1G2TagSpec'', PDict [(''C1G2TargetTag'',
             PList (map (\<lambda>t. PDict [(''MB'', tt_MB t), (''M'', tt_Match t), (''Pointer'', tt_Pointer t),
               (''TagMask'', tt_TagMask t), (''TagData'', tt_TagData t)]) targets))])]),
          (''OpSpecParameter'', PList [PDict [param]])]),
       (''AccessReportSpec'', PDict [(''AccessReportTrigger'', PInt 1)])])))"

end
