(* ===== verification/Client_State.thy ===== *)
theory Client_State
  imports Exception_State Access_Spec LLRP_Message Pending_Registry Config_Plan ROSpec_Build
begin

text \<open>
  The state of \<open>LLRPClient\<close> (\<^verbatim>\<open>sllurp/llrp.py\<close>) and its sending half: state changes,
  message identifiers, \<open>sendMessage\<close> and \<open>_send_request\<close>.

  Closures passed as completion callbacks are the constructors of \<open>cont\<close>, with the variables
  they capture as arguments.  Configuration objects are shared and changed in place, so they live
  in a store, \<open>objects\<close>, and \<open>config\<close> is an address; \<open>desired_config\<close> always names the
  same object as \<open>config\<close> and has no field of its own.  The transport accepts a message or
  raises, as the script \<open>tx_results\<close> says.  Calls of user callbacks are recorded in \<open>events\<close>.
\<close>

section \<open>States and callbacks\<close>

datatype reader_state =
    STATE_DISCONNECTED | STATE_CONNECTING | STATE_CONNECTED | STATE_SENT_GET_CONFIG
  | STATE_SENT_SET_CONFIG | STATE_SENT_ADD_ROSPEC | STATE_SENT_ENABLE_ROSPEC
  | STATE_SENT_START_ROSPEC | STATE_INVENTORYING | STATE_SENT_DELETE_ROSPEC
  | STATE_SENT_DELETE_ACCESSSPEC | STATE_SENT_GET_CAPABILITIES | STATE_PAUSING | STATE_PAUSED
  | STATE_SENT_ENABLE_IMPINJ_EXTENSIONS

fun state_number :: "reader_state \<Rightarrow> nat" where
  "state_number STATE_DISCONNECTED = 1"
| "state_number STATE_CONNECTING = 2"
| "state_number STATE_CONNECTED = 3"
| "state_number STATE_SENT_GET_CONFIG = 4"
| "state_number STATE_SENT_SET_CONFIG = 5"
| "state_number STATE_SENT_ADD_ROSPEC = 15"
| "state_number STATE_SENT_ENABLE_ROSPEC = 16"
| "state_number STATE_SENT_START_ROSPEC = 17"
| "state_number STATE_INVENTORYING = 18"
| "state_number STATE_SENT_DELETE_ROSPEC = 19"
| "state_number STATE_SENT_DELETE_ACCESSSPEC = 20"
| "state_number STATE_SENT_GET_CAPABILITIES = 21"
| "state_number STATE_PAUSING = 22"
| "state_number STATE_PAUSED = 23"
| "state_number STATE_SENT_ENABLE_IMPINJ_EXTENSIONS = 24"

text \<open>
  Who is told about the end of a transition: a callback of the application, or the closure of
  \<open>LLRPReaderClient.apply_config\<close> with its old and new configuration and the application's
  callback.
\<close>

datatype transition_user = Notify_User nat | Notify_Reader nat nat "nat option"

text \<open>The variables shared by the closures of one \<open>apply_config\<close> call.\<close>

record apply_env =
  ae_transition :: nat
  ae_old :: nat
  ae_new :: nat
  ae_original :: reader_state
  ae_write :: bool
  ae_user :: "transition_user option"

datatype cont =
    User_Cb nat
  | Disconnect_Cb
  | Capabilities_Cb
  | Enable_Impinj_Cb
  | Reader_Config_Cb
  | Set_Config_Cb
  | Reset_Stopped_Cb
  | Added_Rospec_Cb pydict "cont option"
  | Enabled_Rospec_Cb "cont option"
  | Deleted_Accessspec_Cb "cont option"
  | Stopped_All_Cb "cont option"
  | Power_Stopped_Cb
  | Paused_Cb rat bool
  | Replaced_Paused_Cb
  | Resumed_Cb
  | Added_Accessspec_Cb int
  | Disabled_Accessspec_Cb op_spec "target_tag list" int int
  | Next_Access_Cb op_spec "target_tag list" int int
  | Apply_Stopped_Cb apply_env
  | Apply_Written_Cb apply_env
  | Apply_Restarted_Cb apply_env bool
  | Rollback_Written_Cb apply_env string
  | Rollback_Cleaned_Cb apply_env string
  | Rollback_Restarted_Cb apply_env string

datatype client_event =
    State_Changed reader_state
  | User_Called nat reader_state bool
  | Transition_Notified nat nat
  | Reader_Applied nat nat bool reader_state
  | Session_Closed
  | Disconnect_Finished

record reader_summary =
  antenna_properties :: "(pyval \<times> pyval) list"
  antenna_configurations :: "(pyval \<times> pyval) list"
  reported_fields :: pydict

type_synonym transition = "(power_setting, nat) config_transition"

text \<open>A timed resume: the generation it was scheduled in and whether it rebuilds the ROSpec.\<close>

type_synonym pause_timer = "nat \<times> bool"

record client =
  state :: reader_state
  objects :: "nat \<Rightarrow> reader_config"
  config :: nat
  capabilities :: pydict
  reported_config :: pydict
  reader_config_summary :: reader_summary
  reader_mode :: pyval
  max_ant :: pyval
  tx_power_table :: "rat list"
  tx_power_indices :: "int list"
  deferreds :: "(string \<times> cont list) list"
  pending_requests :: "(cont, unit) pending_registry"
  response_message_id :: "int option"
  reserved_message_id :: "int option"
  sending_registered_request :: bool
  rospec :: "pydict option"
  inventory_rospec_added :: bool
  last_msg_id :: int
  disconnecting :: bool
  dedup_backend_active :: string
  pause_resume_timer :: "pause_timer option"
  pause_resume_generation :: nat
  pause_timers_armed :: "pause_timer list"
  pause_timers_fired :: "pause_timer list"
  suppress_set_config_post_actions :: bool
  generated_config_snapshot :: "power_setting attributes option"
  applied_config_snapshot :: "power_setting attributes option"
  transitions :: "transition list"
  transport_up :: bool
  mask_order :: "pyval list \<Rightarrow> pyval list"
  index_order :: "int list \<Rightarrow> int list"
  tx_results :: "py_error option list"
  outbox :: "bytes list"
  events :: "client_event list"

type_synonym 'a command = "(client, 'a) act"

definition no_summary :: reader_summary where
  "no_summary = \<lparr>antenna_properties = [], antenna_configurations = [], reported_fields = []\<rparr>"

text \<open>
  A new client of the configuration object 0.  The store, the iteration orders of Python sets and
  the script of the transport belong to the environment.
\<close>

definition new_client :: "(nat \<Rightarrow> reader_config) \<Rightarrow> (pyval list \<Rightarrow> pyval list) \<Rightarrow> (int list \<Rightarrow> int list) \<Rightarrow>
    py_error option list \<Rightarrow> client" where
  "new_client store masks indices script = \<lparr>state = STATE_DISCONNECTED, objects = store, config = 0,
     capabilities = [], reported_config = [], reader_config_summary = no_summary, reader_mode = PNone,
     max_ant = PInt 0, tx_power_table = [], tx_power_indices = [], deferreds = [],
     pending_requests = new_registry 512, response_message_id = None, reserved_message_id = None,
     sending_registered_request = False, rospec = None, inventory_rospec_added = False,
     last_msg_id = 0, disconnecting = False, dedup_backend_active = ''disabled'',
     pause_resume_timer = None, pause_resume_generation = 0, pause_timers_armed = [],
     pause_timers_fired = [], suppress_set_config_post_actions = False,
     generated_config_snapshot = None, applied_config_snapshot = None, transitions = [],
     transport_up = True, mask_order = masks, index_order = indices, tx_results = script, outbox = [], events = []\<rparr>"

definition current_config :: "client \<Rightarrow> reader_config" where
  "current_config c = objects c (config c)"

text \<open>\<open>vars\<close> of a configuration object, as the plan and the snapshots see it.\<close>

definition config_vars :: "reader_config \<Rightarrow> power_setting attributes" where
  "config_vars cfg = map (\<lambda>(name, v). (name, Some v)) (config_attributes cfg)"

definition uses_impinj_extensions :: "reader_config \<Rightarrow> bool" where
  "uses_impinj_extensions cfg \<longleftrightarrow>
     py_true (impinj_search_mode cfg) \<or> py_true (impinj_tag_content_selector cfg) \<or>
     py_true (impinj_extended_configuration cfg) \<or> py_true (impinj_event_selector cfg) \<or>
     py_true (impinj_fixed_frequency cfg)"

section \<open>Pause timers and state changes\<close>

definition record_event :: "client_event \<Rightarrow> unit command" where
  "record_event ev = modifyA (\<lambda>c. c\<lparr>events := events c @ [ev]\<rparr>)"

text \<open>\<open>timer.cancel()\<close> stops a timer that has not fired; one that has fired still runs.\<close>

definition cancel_pause_resume_timer :: "unit command" where
  "cancel_pause_resume_timer = modifyA (\<lambda>c. c\<lparr>
     pause_resume_generation := Suc (pause_resume_generation c),
     pause_resume_timer := None,
     pause_timers_armed := (case pause_resume_timer c of None \<Rightarrow> pause_timers_armed c
       | Some t \<Rightarrow> filter (\<lambda>u. u \<noteq> t) (pause_timers_armed c))\<rparr>)"

definition schedule_pause_resume :: "bool \<Rightarrow> unit command" where
  "schedule_pause_resume force_regen =
    thenA cancel_pause_resume_timer
    (modifyA (\<lambda>c. let t = (pause_resume_generation c, force_regen) in
      c\<lparr>pause_resume_timer := Some t, pause_timers_armed := pause_timers_armed c @ [t]\<rparr>))"

definition setState :: "reader_state \<Rightarrow> unit command" where
  "setState newstate =
    thenA (if newstate = STATE_DISCONNECTED
           then thenA cancel_pause_resume_timer (modifyA (\<lambda>c. c\<lparr>applied_config_snapshot := None\<rparr>))
           else whenA (newstate = STATE_INVENTORYING)
             (modifyA (\<lambda>c. c\<lparr>applied_config_snapshot := Some (snapshot_config (config_vars (current_config c)))\<rparr>)))
    (thenA (modifyA (\<lambda>c. c\<lparr>state := newstate\<rparr>))
    (record_event (State_Changed newstate)))"

section \<open>Sending messages\<close>

definition LLRP_MSG_ID_MAX :: int where
  "LLRP_MSG_ID_MAX = 4294967295"

definition next_message_id :: "int command" where
  "next_message_id = readA (\<lambda>c.
     let i = (if last_msg_id c < LLRP_MSG_ID_MAX then last_msg_id c + 1 else 1) in
     thenA (modifyA (\<lambda>c. c\<lparr>last_msg_id := i\<rparr>)) (retA i))"

text \<open>One message of the dictionary: its \<open>ID\<close> is kept or assigned.\<close>

definition assign_message_id :: "string \<times> pyval \<Rightarrow> ((string \<times> pyval) \<times> int) command" where
  "assign_message_id nm = (case nm of (name, body) \<Rightarrow>
    bindA (liftA (py_get body ''ID'' PNone)) (\<lambda>existing_id.
    if existing_id = PNone
    then readA (\<lambda>c. bindA (case reserved_message_id c of None \<Rightarrow> next_message_id | Some i \<Rightarrow> retA i) (\<lambda>mid.
      bindA (liftA (py_items body)) (\<lambda>d. retA ((name, PDict (dict_set d ''ID'' (PInt mid))), mid))))
    else bindA (liftA (py_int existing_id)) (\<lambda>mid.
      thenA (modifyA (\<lambda>c. c\<lparr>last_msg_id := mid\<rparr>)) (retA ((name, body), mid)))))"

fun assign_message_ids :: "pydict \<Rightarrow> (pydict \<times> (string \<times> int) list) command" where
  "assign_message_ids [] = retA ([], [])"
| "assign_message_ids (nm # nms) =
    bindA (assign_message_id nm) (\<lambda>(nm, mid).
    bindA (assign_message_ids nms) (\<lambda>(nms, sent). retA (nm # nms, (fst nm, mid) # sent)))"

definition prepare_message :: "pydict \<Rightarrow> (bytes \<times> (string \<times> int) list) command" where
  "prepare_message msg_dict =
    bindA (assign_message_ids msg_dict) (\<lambda>(msg_dict, sent_ids).
    bindA (liftA (serialize msg_dict)) (\<lambda>msgbytes.
    if msgbytes = [] then throwA LLRPError else retA (msgbytes, sent_ids)))"

text \<open>\<open>LLRPReaderClient.send_data\<close>; \<open>transport_up\<close> is whether it has a socket.\<close>

definition transport_tx_write :: "bytes \<Rightarrow> unit command" where
  "transport_tx_write msgbytes = readA (\<lambda>c. if \<not> transport_up c then throwA ReaderConfigurationError
     else case tx_results c of
     [] \<Rightarrow> modifyA (\<lambda>c. c\<lparr>outbox := outbox c @ [msgbytes]\<rparr>)
   | None # rs \<Rightarrow> modifyA (\<lambda>c. c\<lparr>tx_results := rs, outbox := outbox c @ [msgbytes]\<rparr>)
   | Some e # rs \<Rightarrow> thenA (modifyA (\<lambda>c. c\<lparr>tx_results := rs\<rparr>)) (throwA e))"

text \<open>\<open>self._deferreds.get(name)\<close>; an absent entry is as false as an empty list.\<close>

definition deferred_list :: "string \<Rightarrow> client \<Rightarrow> cont list" where
  "deferred_list name c = (case dict_get (deferreds c) name of None \<Rightarrow> [] | Some ks \<Rightarrow> ks)"

definition response_pending :: "string \<Rightarrow> client \<Rightarrow> bool" where
  "response_pending name c \<longleftrightarrow> deferred_list name c \<noteq> [] \<or> has_response_type name (pending_requests c)"

definition response_name_of :: "string \<Rightarrow> string" where
  "response_name_of name = (if name = ''IMPINJ_ENABLE_EXTENSIONS''
     then ''IMPINJ_ENABLE_EXTENSIONS_RESPONSE'' else name @ ''_RESPONSE'')"

definition sendMessage :: "pydict \<Rightarrow> (string \<times> int) list command" where
  "sendMessage msg_dict = readA (\<lambda>c.
    thenA (whenA (\<not> sending_registered_request c \<and>
             list_ex (\<lambda>(name, _). response_pending (response_name_of name) c) msg_dict)
           (throwA ReaderConfigurationError))
    (bindA (prepare_message msg_dict) (\<lambda>(msgbytes, sent_ids).
    thenA (transport_tx_write msgbytes) (retA sent_ids))))"

definition add_deferred :: "string \<Rightarrow> cont \<Rightarrow> client \<Rightarrow> client" where
  "add_deferred name k c = c\<lparr>deferreds := dict_set (deferreds c) name (deferred_list name c @ [k])\<rparr>"

definition remove_deferred :: "string \<Rightarrow> cont option \<Rightarrow> client \<Rightarrow> client" where
  "remove_deferred name k c = (case k of None \<Rightarrow> c
     | Some k \<Rightarrow> if k \<in> set (deferred_list name c)
         then c\<lparr>deferreds := dict_set (deferreds c) name (remove1 k (deferred_list name c))\<rparr> else c)"

text \<open>\<open>if not self._deferreds.get(name): self._deferreds.pop(name, None)\<close>\<close>

definition drop_empty_deferreds :: "string \<Rightarrow> client \<Rightarrow> client" where
  "drop_empty_deferreds name c =
    (if deferred_list name c = [] then c\<lparr>deferreds := dict_pop (deferreds c) name\<rparr> else c)"

text \<open>\<open>config.request_timeout\<close>; validation leaves \<open>None\<close> or a positive number.\<close>

definition request_timeout_of :: "client \<Rightarrow> rat option" where
  "request_timeout_of c = (let t = request_timeout (current_config c) in
     if t = PNone then None else Some (case number_of t of Some r \<Rightarrow> r | None \<Rightarrow> 0))"

definition register_request :: "string \<Rightarrow> int \<Rightarrow> cont option \<Rightarrow> unit command" where
  "register_request name mid k = readA (\<lambda>c.
     bindA (liftA (register name mid k (request_timeout_of c) (Some ()) (pending_requests c))) (\<lambda>(r, _).
     modifyA (\<lambda>c. c\<lparr>pending_requests := r\<rparr>)))"

definition end_registered_send :: "client \<Rightarrow> client" where
  "end_registered_send c = c\<lparr>reserved_message_id := None, sending_registered_request := False\<rparr>"

text \<open>What \<open>_send_request\<close> undoes when the message could not be sent.\<close>

definition undo_request :: "string \<Rightarrow> int \<Rightarrow> cont option \<Rightarrow> reader_state option \<Rightarrow> reader_state \<Rightarrow> unit command" where
  "undo_request name mid k new_state previous_state =
    thenA (modifyA (\<lambda>c. c\<lparr>pending_requests := fst (cancel name mid False (pending_requests c))\<rparr>))
    (thenA (modifyA (remove_deferred name k))
    (thenA (modifyA (drop_empty_deferreds name))
    (readA (\<lambda>c. case new_state of None \<Rightarrow> retA ()
       | Some s \<Rightarrow> whenA (state c = s) (setState previous_state)))))"

definition send_request :: "pydict \<Rightarrow> string \<Rightarrow> cont option \<Rightarrow> reader_state option \<Rightarrow> int command" where
  "send_request msg_dict name k new_state = readA (\<lambda>c.
    if has_response_type name (pending_requests c) \<or> deferred_list name c \<noteq> []
    then throwA ReaderConfigurationError
    else bindA next_message_id (\<lambda>mid.
      thenA (case k of None \<Rightarrow> retA () | Some k \<Rightarrow> modifyA (add_deferred name k))
      (thenA (register_request name mid k)
      (thenA (case new_state of None \<Rightarrow> retA () | Some s \<Rightarrow> setState s)
      (thenA (modifyA (\<lambda>c. c\<lparr>sending_registered_request := True, reserved_message_id := Some mid\<rparr>))
      (thenA (handleA (thenA (sendMessage msg_dict) (modifyA end_registered_send))
        (\<lambda>e. thenA (undo_request name mid k new_state (state c))
          (thenA (modifyA end_registered_send) (throwA e))))
      (retA mid)))))))"

section \<open>The end of a session\<close>

text \<open>\<open>LLRPReaderClient._reset_protocol_session\<close>, the part about the protocol client.\<close>

definition reset_protocol_session :: "unit command" where
  "reset_protocol_session = thenA cancel_pause_resume_timer
    (modifyA (\<lambda>c. c\<lparr>pending_requests := fst (cancel_all False (pending_requests c)), deferreds := [],
       rospec := None, inventory_rospec_added := False, suppress_set_config_post_actions := False,
       generated_config_snapshot := None, applied_config_snapshot := None, disconnecting := False,
       state := STATE_DISCONNECTED\<rparr>))"

text \<open>\<open>LLRPReaderClient.hard_disconnect\<close>, the part about the protocol client.\<close>

definition close_session :: "unit command" where
  "close_session = thenA cancel_pause_resume_timer
    (thenA (modifyA (\<lambda>c. c\<lparr>transport_up := False\<rparr>))
    (thenA (record_event Session_Closed)
    reset_protocol_session))"

end
