(* ===== verification/Client_Capabilities.thy ===== *)
theory Client_Capabilities
  imports Client_State
begin

text \<open>
  What \<open>LLRPClient\<close> does with the reader's capabilities and configuration: the transmit power
  table, the choice of powers, the radio mode and the deduplication backend, and the summary of
  the reported reader configuration.  Changing the power of a running inventory stops it, so
  the requests that stop an inventory are here as well.
\<close>

section \<open>Comparing values\<close>

lemma size_list_member: "x \<in> set xs \<Longrightarrow> f x < Suc (size_list f xs)"
  by (induction xs) auto

text \<open>\<open>==\<close> on values: numbers compare by value and dictionaries without regard to order.\<close>

function py_eq :: "pyval \<Rightarrow> pyval \<Rightarrow> bool" where
  "py_eq a b = (case (a, b) of
     (PList xs, PList ys) \<Rightarrow> length xs = length ys \<and> (\<forall>(x, y) \<in> set (zip xs ys). py_eq x y)
   | (PDict d, PDict d') \<Rightarrow> length d = length d' \<and>
       (\<forall>(k, x) \<in> set d. case dict_get d' k of None \<Rightarrow> False | Some y \<Rightarrow> py_eq x y)
   | _ \<Rightarrow> (case (py_number a, py_number b) of (Some r, Some r') \<Rightarrow> r = r' | _ \<Rightarrow> a = b))"
  by pat_completeness auto

termination
  by (relation "measure (\<lambda>(a, b). size a)")
    (auto dest!: set_zip_leftD size_list_member [where f = "size :: pyval \<Rightarrow> nat"]
      size_list_member [where f = "size_prod (\<lambda>x :: string. 0) size"])

declare py_eq.simps [simp del]

definition power_eq :: "power_setting \<Rightarrow> power_setting \<Rightarrow> bool" where
  "power_eq a b = (case (a, b) of
     (Scalar x, Scalar y) \<Rightarrow> py_eq x y
   | (Per_Antenna d, Per_Antenna d') \<Rightarrow> length d = length d' \<and>
       (\<forall>(k, x) \<in> set d. case dict_get d' k of None \<Rightarrow> False | Some y \<Rightarrow> py_eq x y)
   | (Scalar (PDict []), Per_Antenna []) \<Rightarrow> True
   | (Per_Antenna [], Scalar (PDict [])) \<Rightarrow> True
   | _ \<Rightarrow> False)"

section \<open>Stopping an inventory\<close>

definition stopAllROSpecs :: "cont option \<Rightarrow> unit command" where
  "stopAllROSpecs k = thenA (send_request [(''DELETE_ROSPEC'', PDict [(''ROSpecID'', PInt 0)])]
     ''DELETE_ROSPEC_RESPONSE'' (Some (Stopped_All_Cb k)) (Some STATE_SENT_DELETE_ROSPEC)) (retA ())"

definition stopPolitely :: "cont option \<Rightarrow> bool \<Rightarrow> unit command" where
  "stopPolitely k disconnect =
    thenA (whenA disconnect (modifyA (\<lambda>c. c\<lparr>disconnecting := True\<rparr>)))
    (thenA (send_request [(''DELETE_ACCESSSPEC'', PDict [(''AccessSpecID'', PInt 0)])]
       ''DELETE_ACCESSSPEC_RESPONSE'' (Some (Deleted_Accessspec_Cb k)) (Some STATE_SENT_DELETE_ACCESSSPEC))
     (retA ()))"

section \<open>Transmit power\<close>

text \<open>A single entry may arrive without its list.\<close>

definition entry_list :: "pyval \<Rightarrow> pyval list res" where
  "entry_list v = (case v of PDict _ \<Rightarrow> Inr [v] | _ \<Rightarrow> py_iter v)"

definition entry_index :: "pyval \<Rightarrow> int res" where
  "entry_index entry = bindE (py_item entry ''Index'') py_int"

definition entry_power :: "pyval \<Rightarrow> rat res" where
  "entry_power entry = bindE (py_item entry ''TransmitPowerValue'') (\<lambda>v.
     bindE (py_int v) (\<lambda>i. Inr (of_int i / 100)))"

definition parsePowerTable :: "pyval \<Rightarrow> rat list res" where
  "parsePowerTable uhfbandcap =
    bindE (py_get uhfbandcap ''TransmitPowerLevelTableEntry'' (PList [])) (\<lambda>bandtbl.
    bindE (entry_list bandtbl) (\<lambda>bandtbl.
    if bandtbl = [] then Inr [0]
    else bindE (mapE entry_index bandtbl) (\<lambda>indexes.
      if Min (set indexes) < 0 then Inl LLRPError
      else bindE (mapE entry_power bandtbl) (\<lambda>powers.
        Inr (fold (\<lambda>(i, p) table. table[nat i := p]) (zip indexes powers)
          (replicate (nat (Max (set indexes) + 1)) 0))))))"

text \<open>\<open>tx_power_table[idx]\<close>; a negative index counts from the end.\<close>

definition table_entry :: "rat list \<Rightarrow> int \<Rightarrow> rat res" where
  "table_entry table i =
    (if 0 \<le> i \<and> i < int (length table) then Inr (table ! nat i)
     else if - int (length table) \<le> i \<and> i < 0 then Inr (table ! nat (int (length table) + i))
     else Inl IndexError)"

text \<open>\<open>max(indices, key=...)\<close> and \<open>min(indices, key=...)\<close>: the first best index in the order given.\<close>

fun best_index :: "(rat \<Rightarrow> rat \<Rightarrow> bool) \<Rightarrow> (int \<Rightarrow> rat res) \<Rightarrow> int \<Rightarrow> int list \<Rightarrow> int res" where
  "best_index better key i [] = bindE (key i) (\<lambda>_. Inr i)"
| "best_index better key i (j # js) =
    bindE (key i) (\<lambda>a. bindE (key j) (\<lambda>b. best_index better key (if better b a then j else i) js))"

definition max_power_index :: "(int \<Rightarrow> rat res) \<Rightarrow> int list \<Rightarrow> int res" where
  "max_power_index key is = (case is of [] \<Rightarrow> Inl ValueError | i # js \<Rightarrow> best_index (\<lambda>b a. b > a) key i js)"

definition min_power_index :: "(int \<Rightarrow> rat res) \<Rightarrow> int list \<Rightarrow> int res" where
  "min_power_index key is = (case is of [] \<Rightarrow> Inl ValueError | i # js \<Rightarrow> best_index (\<lambda>b a. b < a) key i js)"

text \<open>\<open>set(self.tx_power_indices)\<close>, or all indices of the table, in the order the set iterates.\<close>

definition valid_indices :: "client \<Rightarrow> int list" where
  "valid_indices c = (let is = index_order c (tx_power_indices c) in
     if is = [] then index_order c (map int [0..<length (tx_power_table c)]) else is)"

fun select_powers :: "client \<Rightarrow> int \<Rightarrow> bool \<Rightarrow> (int \<times> pyval) list \<Rightarrow> (int \<times> int) list res" where
  "select_powers c max_idx zero_is_max [] = Inr []"
| "select_powers c max_idx zero_is_max ((ant, v) # rest) = (case v of
     PInt requested \<Rightarrow>
       (let selected = (if requested = 0 \<and> zero_is_max then max_idx else requested) in
        if selected \<notin> set (valid_indices c) then Inl LLRPError
        else bindE (table_entry (tx_power_table c) selected) (\<lambda>_.
          bindE (select_powers c max_idx zero_is_max rest) (\<lambda>ps. Inr ((ant, selected) # ps))))
   | _ \<Rightarrow> Inl LLRPError)"

text \<open>The selected index of every antenna; the power value it also returns is only logged.\<close>

definition get_tx_power :: "client \<Rightarrow> (int \<times> pyval) list \<Rightarrow> bool \<Rightarrow> (int \<times> int) list res" where
  "get_tx_power c powers zero_is_max =
    (if tx_power_table c = [] \<or> valid_indices c = [] then Inr []
     else bindE (max_power_index (table_entry (tx_power_table c)) (valid_indices c)) (\<lambda>max_idx.
       select_powers c max_idx zero_is_max powers))"

definition update_current :: "(reader_config \<Rightarrow> reader_config) \<Rightarrow> unit command" where
  "update_current g = modifyA (\<lambda>c. c\<lparr>objects := (objects c)(config c := g (current_config c))\<rparr>)"

text \<open>\<open>if self.config.tx_power[ant] != idx: self.config.tx_power[ant] = idx\<close>, and whether it did.\<close>

definition install_power :: "int \<Rightarrow> int \<Rightarrow> bool command" where
  "install_power ant idx = readA (\<lambda>c. case tx_power (current_config c) of
     Scalar (PDict _) \<Rightarrow> throwA KeyError
   | Scalar _ \<Rightarrow> throwA TypeError
   | Per_Antenna d \<Rightarrow> (case dict_get d ant of
       None \<Rightarrow> throwA KeyError
     | Some v \<Rightarrow> if py_eq v (PInt idx) then retA False
         else thenA (update_current (\<lambda>cfg. cfg\<lparr>tx_power := Per_Antenna (dict_set d ant (PInt idx))\<rparr>)) (retA True)))"

fun install_powers :: "(int \<times> int) list \<Rightarrow> bool command" where
  "install_powers [] = retA False"
| "install_powers ((ant, idx) # rest) =
    bindA (install_power ant idx) (\<lambda>b. bindA (install_powers rest) (\<lambda>b'. retA (b \<or> b')))"

definition setTxPower :: "(int \<times> pyval) list \<Rightarrow> bool \<Rightarrow> unit command" where
  "setTxPower powers zero_is_max = readA (\<lambda>c.
    bindA (liftA (get_tx_power c powers zero_is_max)) (\<lambda>validated.
    bindA (install_powers validated) (\<lambda>needs_update.
    whenA (needs_update \<and> state c = STATE_INVENTORYING) (stopPolitely (Some Power_Stopped_Cb) False))))"

text \<open>\<open>abs(table[idx] - dbm)\<close>.\<close>

definition power_distance :: "rat list \<Rightarrow> pyval \<Rightarrow> int \<Rightarrow> rat res" where
  "power_distance table dbm i = bindE (table_entry table i) (\<lambda>p.
     case py_number dbm of None \<Rightarrow> Inl TypeError | Some r \<Rightarrow> Inr \<bar>p - r\<bar>)"

definition setTxPowerDbm :: "(int \<times> pyval) list option \<Rightarrow> unit command" where
  "setTxPowerDbm tx_pow_dbm = readA (\<lambda>c.
    if valid_indices c = [] then throwA LLRPError
    else case tx_pow_dbm of
      None \<Rightarrow> bindA (liftA (max_power_index (table_entry (tx_power_table c)) (valid_indices c))) (\<lambda>i.
        setTxPower (dict_update [] (map (\<lambda>ant. (ant, PInt i)) (antenna_list (antennas (current_config c))))) False)
    | Some dbms \<Rightarrow> bindA (liftA (mapE (\<lambda>(ant, dbm).
          bindE (min_power_index (power_distance (tx_power_table c) dbm) (valid_indices c)) (\<lambda>i. Inr (ant, PInt i))) dbms)) (\<lambda>powers.
        thenA (update_current (\<lambda>cfg. cfg\<lparr>tx_power_dbm := Per_Antenna (dict_update [] dbms)\<rparr>))
        (setTxPower (dict_update [] powers) False)))"

section \<open>Capabilities\<close>

definition ZEBRA_PERIODIC_SUBTYPE :: int where "ZEBRA_PERIODIC_SUBTYPE = 110"

text \<open>Bit 4 of the byte after the version, in the capability parameter an older decoder kept raw.\<close>

definition raw_periodic_reports :: "pyval \<Rightarrow> bool res" where
  "raw_periodic_reports content = bindE (py_len content) (\<lambda>n.
     if n < 5 then Inr False
     else case content of PBytes b \<Rightarrow> Inr (flag_at (uint (b ! 4)) 4) | _ \<Rightarrow> Inl TypeError)"

fun search_periodic_reports :: "pyval list \<Rightarrow> bool res" where
  "search_periodic_reports [] = Inr False"
| "search_periodic_reports (raw # raws) =
    bindE (py_get raw ''VendorID'' PNone) (\<lambda>vendor.
    bindE (py_get raw ''Subtype'' PNone) (\<lambda>subtype.
    if py_eq vendor (PInt VENDOR_ID_MOTOROLA) \<and> py_eq subtype (PInt ZEBRA_PERIODIC_SUBTYPE)
    then bindE (py_get raw ''Data'' (PBytes [])) raw_periodic_reports
    else search_periodic_reports raws))"

definition supports_zebra_periodic_tag_reports :: "pydict \<Rightarrow> bool res" where
  "supports_zebra_periodic_tag_reports capdict =
    bindE (py_get (PDict capdict) ''MotoAdvancedCapabilities'' PNone) (\<lambda>advanced.
    if advanced \<noteq> PNone
    then bindE (py_get advanced ''CanSupportPeriodicTagReports'' (PBool False)) (\<lambda>v. Inr (py_true v))
    else bindE (py_get (PDict capdict) ''SllurpDecodeError'' (PList [])) (\<lambda>raws.
      bindE (py_iter raws) search_periodic_reports))"

text \<open>The backend for a configuration and the capabilities of the reader.\<close>

definition hardware_supported :: "reader_config \<Rightarrow> pydict \<Rightarrow> bool res" where
  "hardware_supported cfg capdict =
    bindE (py_le (dedup_seconds cfg) (PInt ZEBRA_TIMED_DEDUP_MAX_SECONDS)) (\<lambda>short.
    if \<not> short then Inr False
    else bindE (supports_zebra_periodic_tag_reports capdict) (\<lambda>periodic.
      Inr (periodic \<and> report_every_n_tags cfg = PNone \<and> ro_report_every_n_tags cfg = PNone)))"

definition choose_dedup_backend :: "reader_config \<Rightarrow> pydict \<Rightarrow> string res" where
  "choose_dedup_backend cfg capdict =
    (if dedup_seconds cfg = PNone then Inr ''disabled''
     else if rf_telemetry_mode cfg \<noteq> PStr ''off''
     then if dedup_backend cfg = PStr ''hardware'' then Inl ReaderConfigurationError else Inr ''memory''
     else if dedup_backend cfg = PStr ''memory'' then Inr ''memory''
     else bindE (hardware_supported cfg capdict) (\<lambda>supported.
       if dedup_backend cfg = PStr ''hardware'' \<and> \<not> supported then Inl ReaderConfigurationError
       else Inr (if supported then ''hardware'' else ''memory'')))"

definition select_dedup_backend :: "pydict \<Rightarrow> unit command" where
  "select_dedup_backend capdict = readA (\<lambda>c.
     bindA (liftA (choose_dedup_backend (current_config c) capdict)) (\<lambda>backend.
     modifyA (\<lambda>c. c\<lparr>dedup_backend_active := backend\<rparr>)))"

text \<open>The first mode with the wanted identifier.\<close>

fun find_mode :: "pyval \<Rightarrow> pyval list \<Rightarrow> pyval option res" where
  "find_mode wanted [] = Inr None"
| "find_mode wanted (mo # mos) = bindE (py_item mo ''ModeIdentifier'') (\<lambda>v.
     bindE (find_mode wanted mos) (\<lambda>found. Inr (if py_eq v wanted then Some mo else found)))"

definition tari_fits :: "pyval \<Rightarrow> pyval \<Rightarrow> bool res" where
  "tari_fits mode t = bindE (py_item mode ''MinTari'') (\<lambda>lo. bindE (py_le lo t) (\<lambda>b.
     if b then bindE (py_item mode ''MaxTari'') (\<lambda>hi. py_le t hi) else Inr False))"

definition select_mode :: "pyval \<Rightarrow> unit command" where
  "select_mode mode_list = readA (\<lambda>c. let cfg = current_config c in
    thenA (modifyA (\<lambda>c. c\<lparr>reader_mode := PNone\<rparr>))
    (thenA (if mode_identifier cfg = PNone then retA ()
       else bindA (liftA (bindE (py_iter mode_list) (find_mode (mode_identifier cfg)))) (\<lambda>found. case found of
           None \<Rightarrow> throwA ReaderConfigurationError
         | Some mo \<Rightarrow> modifyA (\<lambda>c. c\<lparr>reader_mode := mo\<rparr>)))
    (readA (\<lambda>c. if py_true (reader_mode c) \<and> py_true (tari cfg)
       then bindA (liftA (tari_fits (reader_mode c) (tari cfg))) (\<lambda>fits.
         whenA (\<not> fits) (throwA ReaderConfigurationError))
       else retA ()))))"

definition check_antennas :: "pyval \<Rightarrow> unit command" where
  "check_antennas limit = readA (\<lambda>c.
     case py_number limit of None \<Rightarrow> throwA TypeError
     | Some r \<Rightarrow> whenA (of_int (Max (set (antenna_list (antennas (current_config c))))) > r)
         (throwA ReaderConfigurationError))"

definition parse_powers :: "pyval \<Rightarrow> unit command" where
  "parse_powers bandcap =
    bindA (liftA (py_get bandcap ''TransmitPowerLevelTableEntry'' (PList []))) (\<lambda>entries.
    bindA (liftA (entry_list entries)) (\<lambda>entries.
    bindA (liftA (mapE entry_index entries)) (\<lambda>indexes.
    thenA (modifyA (\<lambda>c. c\<lparr>tx_power_indices := remdups indexes\<rparr>))
    (bindA (liftA (parsePowerTable bandcap)) (\<lambda>table.
    thenA (modifyA (\<lambda>c. c\<lparr>tx_power_table := table\<rparr>))
    (readA (\<lambda>c. case tx_power_dbm (current_config c) of
       Per_Antenna dbms \<Rightarrow> setTxPowerDbm (Some dbms)
     | Scalar v \<Rightarrow> if v \<noteq> PNone then throwA AttributeError
         else case tx_power (current_config c) of
             Per_Antenna powers \<Rightarrow> setTxPower powers True
           | Scalar _ \<Rightarrow> throwA AttributeError)))))))"

definition parseCapabilities :: "pydict \<Rightarrow> unit command" where
  "parseCapabilities capdict =
    bindA (liftA (py_item (PDict capdict) ''GeneralDeviceCapabilities'')) (\<lambda>gdc.
    bindA (liftA (py_item gdc ''MaxNumberOfAntennaSupported'')) (\<lambda>limit.
    thenA (modifyA (\<lambda>c. c\<lparr>max_ant := limit\<rparr>))
    (thenA (check_antennas limit)
    (bindA (liftA (py_item (PDict capdict) ''RegulatoryCapabilities'')) (\<lambda>regcap.
    bindA (liftA (py_item regcap ''UHFBandCapabilities'')) (\<lambda>bandcap.
    thenA (parse_powers bandcap)
    (bindA (liftA (py_item bandcap ''UHFC1G2RFModeTable'')) (\<lambda>mode_table.
    bindA (liftA (py_item mode_table ''UHFC1G2RFModeTableEntry'')) (\<lambda>mode_list.
    thenA (select_mode mode_list)
    (select_dedup_backend capdict))))))))))"

section \<open>The reported configuration\<close>

definition as_list :: "pyval \<Rightarrow> pyval list" where
  "as_list v = (case v of PNone \<Rightarrow> [] | PList l \<Rightarrow> l | _ \<Rightarrow> [v])"

definition reported :: "pydict \<Rightarrow> string \<Rightarrow> pyval" where
  "reported d name = (case dict_get d name of None \<Rightarrow> PNone | Some v \<Rightarrow> v)"

text \<open>Entries by antenna; entries without an antenna are skipped.\<close>

fun by_antenna :: "(pydict \<Rightarrow> pyval) \<Rightarrow> pyval list \<Rightarrow> (pyval \<times> pyval) list \<Rightarrow> (pyval \<times> pyval) list res" where
  "by_antenna f [] acc = Inr acc"
| "by_antenna f (item # items) acc = (case item of
     PDict d \<Rightarrow> (case dict_get d ''AntennaID'' of
         None \<Rightarrow> by_antenna f items acc
       | Some a \<Rightarrow> if hashable a then by_antenna f items (dict_set acc a (f d)) else Inl TypeError)
   | _ \<Rightarrow> by_antenna f items acc)"

definition antenna_property :: "pydict \<Rightarrow> pyval" where
  "antenna_property d = PDict [(''connected'', reported d ''AntennaConnected''), (''gain'', reported d ''AntennaGain'')]"

definition singular_fields :: "(string \<times> string) list" where
  "singular_fields = [
    (''KeepaliveSpec'', ''keepalive''),
    (''ReaderEventNotificationSpec'', ''event_notifications''),
    (''AccessReportSpec'', ''access_report''),
    (''EventsAndReports'', ''events_and_reports'')]"

definition repeated_fields :: "(string \<times> string) list" where
  "repeated_fields = [
    (''GPIPortCurrentState'', ''gpi_ports''),
    (''GPOWriteData'', ''gpo_ports'')]"

definition parseReaderConfig :: "pydict \<Rightarrow> unit command" where
  "parseReaderConfig confdict =
    bindA (liftA (by_antenna antenna_property (as_list (reported confdict ''AntennaProperties'')) [])) (\<lambda>props.
    bindA (liftA (by_antenna PDict (as_list (reported confdict ''AntennaConfiguration'')) [])) (\<lambda>confs.
    modifyA (\<lambda>c. c\<lparr>reader_config_summary := \<lparr>
      antenna_properties = props,
      antenna_configurations = confs,
      reported_fields =
        [(target, the (dict_get confdict source)). (source, target) \<leftarrow> singular_fields, dict_get confdict source \<noteq> None]
        @ [(target, PList (as_list (the (dict_get confdict source)))). (source, target) \<leftarrow> repeated_fields,
             dict_get confdict source \<noteq> None]\<rparr>\<rparr>)))"

end
