(* ===== verification/Client_Operations.thy ===== *)
theory Client_Operations
  imports Client_Capabilities
begin

text \<open>
  The operations of \<open>LLRPClient\<close>: the requests of the handshake, inventory, pause and resume,
  access specifications and configuration transitions, and what each completion callback does.
  An operation that may call a callback at once takes the function that runs callbacks as its
  first argument; \<open>run_cont\<close> closes the loop.
\<close>

section \<open>Requests\<close>

definition send_KEEPALIVE_ACK :: "int option \<Rightarrow> unit command" where
  "send_KEEPALIVE_ACK mid = (case mid of
     None \<Rightarrow> thenA (sendMessage [(''KEEPALIVE_ACK'', PDict [])]) (retA ())
   | Some i \<Rightarrow> if \<not> (0 \<le> i \<and> i \<le> LLRP_MSG_ID_MAX) then throwA LLRPError
       else bindA (liftA (serialize [(''KEEPALIVE_ACK'', PDict [(''ID'', PInt i)])])) transport_tx_write)"

definition all_capabilities :: pyval where
  "all_capabilities = PInt (the (map_of Capability_Name2Type ''All''))"

definition send_ENABLE_IMPINJ_EXTENSIONS :: "cont \<Rightarrow> int command" where
  "send_ENABLE_IMPINJ_EXTENSIONS k = send_request [(''IMPINJ_ENABLE_EXTENSIONS'', PDict [])]
     ''IMPINJ_ENABLE_EXTENSIONS_RESPONSE'' (Some k) (Some STATE_SENT_ENABLE_IMPINJ_EXTENSIONS)"

definition send_GET_READER_CAPABILITIES :: "cont \<Rightarrow> int command" where
  "send_GET_READER_CAPABILITIES k =
     send_request [(''GET_READER_CAPABILITIES'', PDict [(''RequestedData'', all_capabilities)])]
       ''GET_READER_CAPABILITIES_RESPONSE'' (Some k) (Some STATE_SENT_GET_CAPABILITIES)"

definition send_GET_READER_CONFIG :: "cont \<Rightarrow> int command" where
  "send_GET_READER_CONFIG k = readA (\<lambda>c.
     send_request [(''GET_READER_CONFIG'', PDict ([(''RequestedData'', all_capabilities)] @
         (if py_true (impinj_extended_configuration (current_config c))
          then [(''ImpinjRequestedData'', PDict [(''RequestedData'', PInt 2000)])] else [])))]
       ''GET_READER_CONFIG_RESPONSE'' (Some k) (Some STATE_SENT_GET_CONFIG))"

definition send_ENABLE_EVENTS_AND_REPORTS :: "unit command" where
  "send_ENABLE_EVENTS_AND_REPORTS = thenA (sendMessage [(''ENABLE_EVENTS_AND_REPORTS'', PDict [])]) (retA ())"

definition default_event_states :: pydict where
  "default_event_states = map (\<lambda>e. (e, PBool False)) [''HoppingEvent'', ''GPIEvent'', ''ROSpecEvent'',
     ''ReportBufferFillWarning'', ''ReaderExceptionEvent'', ''RFSurveyEvent'', ''AISpecEvent'',
     ''AISpecEventWithSingulation'', ''AntennaEvent'']"

definition gpi_settings :: "power_setting \<Rightarrow> pyval list res" where
  "gpi_settings v = (case v of
     Per_Antenna d \<Rightarrow> Inr (map (\<lambda>(port, enabled). PDict [(''GPIPortNum'', PInt port), (''GPIConfig'', enabled)]) d)
   | Scalar x \<Rightarrow> bindE (py_items x) (\<lambda>d.
       Inr (map (\<lambda>(port, enabled). PDict [(''GPIPortNum'', PStr port), (''GPIConfig'', enabled)]) d)))"

definition set_reader_config_message :: "reader_config \<Rightarrow> pydict res" where
  "set_reader_config_message cfg =
    bindE (positive (keepalive_interval cfg)) (\<lambda>keepalive.
    bindE (py_items (event_selector cfg)) (\<lambda>selected.
    bindE (if py_true (impinj_event_selector cfg)
           then py_get (impinj_event_selector cfg) ''AntennaAttemptEvent'' PNone else Inr PNone) (\<lambda>attempt.
    bindE (gpi_settings (gpi_ports_config cfg)) (\<lambda>ports.
    Inr ([(''ResetToFactoryDefaults'', PBool False),
          (''ReaderEventNotificationSpec'', PDict [
             (''EventNotificationState'', PDict (dict_update default_event_states selected))])]
      @ (if keepalive then [(''KeepaliveSpec'', PDict [(''KeepaliveTriggerType'', PInt 1),
            (''TimeInterval'', keepalive_interval cfg)])] else [])
      @ (if attempt \<noteq> PNone then [(''ImpinjAntennaConfiguration'',
            PDict [(''ImpinjAntennaEventConfiguration'', attempt)])] else [])
      @ (if ports \<noteq> [] then [(''GPIPortCurrentState'', PList ports)] else []))))))"

definition send_SET_READER_CONFIG :: "cont \<Rightarrow> int command" where
  "send_SET_READER_CONFIG k = readA (\<lambda>c.
     bindA (liftA (set_reader_config_message (current_config c))) (\<lambda>msg.
     send_request [(''SET_READER_CONFIG'', PDict msg)]
       ''SET_READER_CONFIG_RESPONSE'' (Some k) (Some STATE_SENT_SET_CONFIG)))"

definition send_ADD_ROSPEC :: "pydict \<Rightarrow> cont \<Rightarrow> int command" where
  "send_ADD_ROSPEC spec k = bindA (liftA (py_item (PDict spec) ''ROSpecID'')) (\<lambda>i.
     send_request [(''ADD_ROSPEC'', PDict [(''ROSpecID'', i), (''ROSpec'', PDict spec)])]
       ''ADD_ROSPEC_RESPONSE'' (Some k) (Some STATE_SENT_ADD_ROSPEC))"

definition send_ENABLE_ROSPEC :: "pydict \<Rightarrow> cont \<Rightarrow> int command" where
  "send_ENABLE_ROSPEC spec k = bindA (liftA (py_item (PDict spec) ''ROSpecID'')) (\<lambda>i.
     send_request [(''ENABLE_ROSPEC'', PDict [(''ROSpecID'', i)])]
       ''ENABLE_ROSPEC_RESPONSE'' (Some k) (Some STATE_SENT_ENABLE_ROSPEC))"

definition send_START_ROSPEC :: "pydict \<Rightarrow> cont \<Rightarrow> int command" where
  "send_START_ROSPEC spec k = bindA (liftA (py_item (PDict spec) ''ROSpecID'')) (\<lambda>i.
     send_request [(''START_ROSPEC'', PDict [(''ROSpecID'', i)])]
       ''START_ROSPEC_RESPONSE'' (Some k) (Some STATE_SENT_START_ROSPEC))"

definition send_ADD_ACCESSSPEC :: "pydict \<Rightarrow> cont \<Rightarrow> int command" where
  "send_ADD_ACCESSSPEC spec k =
     send_request [(''ADD_ACCESSSPEC'', PDict [(''AccessSpec'', PDict spec)])] ''ADD_ACCESSSPEC_RESPONSE'' (Some k) None"

text \<open>With a callback the message is a tracked request, without one it is only sent.\<close>

definition send_access_message :: "string \<Rightarrow> int \<Rightarrow> cont option \<Rightarrow> unit command" where
  "send_access_message name access_spec_id k =
    (let msg = [(name, PDict [(''AccessSpecID'', PInt access_spec_id)])] in
     case k of
       Some k \<Rightarrow> thenA (send_request msg (name @ ''_RESPONSE'') (Some k) None) (retA ())
     | None \<Rightarrow> thenA (sendMessage msg) (retA ()))"

definition send_DISABLE_ACCESSSPEC :: "int \<Rightarrow> cont option \<Rightarrow> unit command" where
  "send_DISABLE_ACCESSSPEC = send_access_message ''DISABLE_ACCESSSPEC''"

definition send_ENABLE_ACCESSSPEC :: "int \<Rightarrow> cont option \<Rightarrow> unit command" where
  "send_ENABLE_ACCESSSPEC = send_access_message ''ENABLE_ACCESSSPEC''"

definition send_DELETE_ACCESSSPEC :: "int \<Rightarrow> cont option \<Rightarrow> unit command" where
  "send_DELETE_ACCESSSPEC = send_access_message ''DELETE_ACCESSSPEC''"

section \<open>Access specifications\<close>

definition startAccess :: "op_spec \<Rightarrow> target_tag list \<Rightarrow> int \<Rightarrow> int \<Rightarrow> unit command" where
  "startAccess op targets stop_after_count access_spec_id =
    bindA (liftA (access_spec op targets stop_after_count access_spec_id)) (\<lambda>spec.
    thenA (send_ADD_ACCESSSPEC spec (Added_Accessspec_Cb access_spec_id)) (retA ()))"

definition nextAccess :: "op_spec \<Rightarrow> target_tag list \<Rightarrow> int \<Rightarrow> int \<Rightarrow> unit command" where
  "nextAccess op targets stop_after_count access_spec_id =
    send_DISABLE_ACCESSSPEC access_spec_id
      (Some (Disabled_Accessspec_Cb op targets stop_after_count access_spec_id))"

section \<open>The ROSpec and the inventory\<close>

definition rospec_args_of :: "reader_config \<Rightarrow> rospec_args" where
  "rospec_args_of cfg = default_rospec_args\<lparr>
     ra_duration_sec := duration cfg,
     ra_report_every_n_tags := report_every_n_tags cfg,
     ra_report_timeout_ms := report_timeout_ms cfg,
     ra_ro_report_every_n_tags := ro_report_every_n_tags cfg,
     ra_tx_power := tx_power cfg,
     ra_antennas := antenna_list (antennas cfg),
     ra_tag_content_selector := tag_content_selector cfg,
     ra_session := session cfg,
     ra_tari := tari cfg,
     ra_tag_population := tag_population cfg,
     ra_frequencies := frequencies cfg,
     ra_impinj_fixed_frequency := impinj_fixed_frequency cfg,
     ra_zebra_tag_content_selector := zebra_tag_content_selector cfg,
     ra_tag_filter_mask := tag_filter_mask cfg,
     ra_impinj_search_mode := impinj_search_mode cfg,
     ra_impinj_tag_content_selector := impinj_tag_content_selector cfg\<rparr>"

text \<open>The periodic report trigger of a Zebra reader that deduplicates itself.\<close>

definition periodic_report_spec :: "reader_config \<Rightarrow> pydict \<Rightarrow> pydict res" where
  "periodic_report_spec cfg spec =
    bindE (py_item (PDict spec) ''ROReportSpec'') (\<lambda>report.
    bindE (py_items report) (\<lambda>report.
    bindE (py_int (dedup_seconds cfg)) (\<lambda>n.
    let report = dict_set (dict_set report ''ROReportTrigger'' (PStr ''None'')) ''N'' (PInt n);
        trigger = PDict [(''VendorID'', PInt VENDOR_ID_MOTOROLA), (''Subtype'', PInt 125), (''Payload'', PBytes [1])]
    in bindE (case dict_get report ''CustomParameter'' of
           None \<Rightarrow> Inr [trigger] | Some (PList l) \<Rightarrow> Inr (l @ [trigger]) | Some _ \<Rightarrow> Inl AttributeError) (\<lambda>custom.
         Inr (dict_set spec ''ROReportSpec'' (PDict (dict_set report ''CustomParameter'' (PList custom))))))))"

definition build_rospec :: "pydict command" where
  "build_rospec = readA (\<lambda>c. let cfg = current_config c in
    bindA (liftA (LLRPROSpec (mask_order c) (reader_mode c) 1 (rospec_args_of cfg))) (\<lambda>spec.
    thenA (modifyA (\<lambda>c. c\<lparr>rospec := Some spec, generated_config_snapshot := Some (snapshot_config (config_vars cfg))\<rparr>))
    (if dedup_backend_active c = ''hardware''
     then bindA (liftA (periodic_report_spec cfg spec)) (\<lambda>spec.
       thenA (modifyA (\<lambda>c. c\<lparr>rospec := Some spec\<rparr>)) (retA spec))
     else retA spec)))"

definition getROSpec :: "bool \<Rightarrow> pydict command" where
  "getROSpec force_new = readA (\<lambda>c. case rospec c of
     None \<Rightarrow> build_rospec
   | Some spec \<Rightarrow> if spec \<noteq> [] \<and> \<not> force_new then retA spec else build_rospec)"

type_synonym runner = "cont \<Rightarrow> reader_state \<Rightarrow> bool \<Rightarrow> unit command"

text \<open>\<open>if onCompletion: onCompletion(self.state, ok)\<close>\<close>

definition run_callback :: "runner \<Rightarrow> cont option \<Rightarrow> bool \<Rightarrow> unit command" where
  "run_callback run k ok = (case k of None \<Rightarrow> retA () | Some k \<Rightarrow> readA (\<lambda>c. run k (state c) ok))"

definition startInventory_with :: "runner \<Rightarrow> bool \<Rightarrow> cont option \<Rightarrow> unit command" where
  "startInventory_with run force_regen k = readA (\<lambda>c.
    if state c = STATE_INVENTORYING then run_callback run k True
    else bindA (getROSpec force_regen) (\<lambda>spec.
      thenA (modifyA (\<lambda>c. c\<lparr>inventory_rospec_added := False\<rparr>))
      (thenA (send_ADD_ROSPEC spec (Added_Rospec_Cb spec k)) (retA ()))))"

lemma run_callback_cong [fundef_cong]:
  assumes "k = k'" "ok = ok'" "\<And>x s. k' = Some x \<Longrightarrow> run x s ok' = run' x s ok'"
  shows "run_callback run k ok = run_callback run' k' ok'"
  using assms by (auto simp: run_callback_def split: option.split)

lemma startInventory_with_cong [fundef_cong]:
  assumes "force = force'" "k = k'" "\<And>x s. k' = Some x \<Longrightarrow> run x s True = run' x s True"
  shows "startInventory_with run force k = startInventory_with run' force' k'"
  using assms by (cases k') (auto simp: startInventory_with_def run_callback_def readA_def fun_eq_iff)

section \<open>Configuration transitions\<close>

definition install_runtime_config :: "nat \<Rightarrow> unit command" where
  "install_runtime_config new =
    thenA (modifyA (\<lambda>c. c\<lparr>config := new, rospec := None, generated_config_snapshot := None\<rparr>))
    (readA (\<lambda>c. whenA (capabilities c \<noteq> []) (parseCapabilities (capabilities c))))"

text \<open>
  \<open>onCompletion(transition)\<close>.  The closure of the reader client takes over the configuration, and
  closes the session when the transaction ended without a known configuration.
\<close>

definition notify_user :: "nat option \<Rightarrow> nat \<Rightarrow> unit command" where
  "notify_user user t = (case user of None \<Rightarrow> retA () | Some u \<Rightarrow> record_event (Transition_Notified u t))"

definition notify_transition :: "transition_user option \<Rightarrow> nat \<Rightarrow> unit command" where
  "notify_transition user t = (case user of
     None \<Rightarrow> retA ()
   | Some (Notify_User u) \<Rightarrow> notify_user (Some u) t
   | Some (Notify_Reader old new u) \<Rightarrow> readA (\<lambda>c. let ok = succeeded (transitions c ! t) in
       thenA (record_event (Reader_Applied old new ok (state c)))
       (thenA (whenA (\<not> ok \<and> state c = STATE_DISCONNECTED) close_session)
       (notify_user u t))))"

definition settle_transition :: "(transition \<Rightarrow> transition) \<Rightarrow> nat \<Rightarrow> transition_user option \<Rightarrow> unit command" where
  "settle_transition g t user =
    thenA (modifyA (\<lambda>c. c\<lparr>transitions := (transitions c)[t := g (transitions c ! t)]\<rparr>))
    (notify_transition user t)"

definition succeed_transition :: "nat \<Rightarrow> transition_user option \<Rightarrow> unit command" where
  "succeed_transition = settle_transition succeed"

definition fail_transition :: "string \<Rightarrow> nat \<Rightarrow> transition_user option \<Rightarrow> unit command" where
  "fail_transition e = settle_transition (fail e)"

definition env_succeed :: "apply_env \<Rightarrow> unit command" where
  "env_succeed env = succeed_transition (ae_transition env) (ae_user env)"

definition env_fail :: "apply_env \<Rightarrow> string \<Rightarrow> unit command" where
  "env_fail env e = fail_transition e (ae_transition env) (ae_user env)"

text \<open>\<open>setState(DISCONNECTED); fail(error)\<close>: the reader's configuration is unknown.\<close>

definition abandon :: "apply_env \<Rightarrow> string \<Rightarrow> unit command" where
  "abandon env e = thenA (setState STATE_DISCONNECTED) (env_fail env e)"

definition finish_restore_with :: "runner \<Rightarrow> apply_env \<Rightarrow> string \<Rightarrow> unit command" where
  "finish_restore_with run env e =
    (if ae_original env = STATE_INVENTORYING
     then thenA (setState STATE_CONNECTED)
       (startInventory_with run True (Some (Rollback_Restarted_Cb env e)))
     else if ae_original env = STATE_PAUSED
     then thenA (setState STATE_PAUSED) (env_fail env e)
     else thenA (setState STATE_CONNECTED) (env_fail env e))"

definition cleanup_replacement_rospec_with :: "runner \<Rightarrow> apply_env \<Rightarrow> string \<Rightarrow> unit command" where
  "cleanup_replacement_rospec_with run env e = readA (\<lambda>c.
     if ae_original env \<noteq> STATE_INVENTORYING \<or> \<not> inventory_rospec_added c
     then finish_restore_with run env e
     else thenA (setState STATE_CONNECTED) (stopAllROSpecs (Some (Rollback_Cleaned_Cb env e))))"

text \<open>\<open>applied\<close> is the variable \<open>new_reader_config_applied\<close>.\<close>

definition restore_old_with :: "runner \<Rightarrow> apply_env \<Rightarrow> bool \<Rightarrow> string \<Rightarrow> unit command" where
  "restore_old_with run env applied e =
    bindA (handleA (thenA (install_runtime_config (ae_old env)) (retA True))
      (\<lambda>_. thenA (abandon env (e @ ''; rollback configuration failed'')) (retA False))) (\<lambda>restored.
    if \<not> restored then retA ()
    else if applied
    then thenA (setState STATE_CONNECTED)
      (thenA (modifyA (\<lambda>c. c\<lparr>suppress_set_config_post_actions := True\<rparr>))
      (thenA (send_SET_READER_CONFIG (Rollback_Written_Cb env e)) (retA ())))
    else cleanup_replacement_rospec_with run env e)"

definition finish_new_state_with :: "runner \<Rightarrow> apply_env \<Rightarrow> bool \<Rightarrow> unit command" where
  "finish_new_state_with run env applied =
    (if ae_original env = STATE_INVENTORYING
     then thenA (setState STATE_CONNECTED)
       (startInventory_with run True (Some (Apply_Restarted_Cb env applied)))
     else if ae_original env = STATE_PAUSED
     then thenA (setState STATE_PAUSED) (env_succeed env)
     else thenA (setState STATE_CONNECTED) (env_succeed env))"

text \<open>\<open>after_stopped\<close>.\<close>

definition after_stopped_with :: "runner \<Rightarrow> apply_env \<Rightarrow> bool \<Rightarrow> unit command" where
  "after_stopped_with run env ok =
    (if \<not> ok
     then thenA (setState (ae_original env))
       (env_fail env ''could not stop current reader state before apply_config'')
     else thenA (setState STATE_CONNECTED)
       (bindA (handleA (thenA (install_runtime_config (ae_new env)) (retA True))
          (\<lambda>_. thenA (restore_old_with run env False
             ''new configuration validation against capabilities failed'') (retA False))) (\<lambda>installed.
        if \<not> installed then retA ()
        else if ae_write env
        then thenA (modifyA (\<lambda>c. c\<lparr>suppress_set_config_post_actions := True\<rparr>))
          (thenA (send_SET_READER_CONFIG (Apply_Written_Cb env)) (retA ()))
        else finish_new_state_with run env False)))"

lemmas runner_defs = after_stopped_with_def finish_new_state_with_def restore_old_with_def
  cleanup_replacement_rospec_with_def finish_restore_with_def startInventory_with_def run_callback_def

lemma finish_restore_with_cong [fundef_cong]:
  assumes "env = env'" "e = e'" "\<And>s. run (Rollback_Restarted_Cb env' e') s True = run' (Rollback_Restarted_Cb env' e') s True"
  shows "finish_restore_with run env e = finish_restore_with run' env' e'"
  using assms by (simp add: runner_defs cong: if_cong)

lemma cleanup_replacement_rospec_with_cong [fundef_cong]:
  assumes "env = env'" "e = e'" "\<And>s. run (Rollback_Restarted_Cb env' e') s True = run' (Rollback_Restarted_Cb env' e') s True"
  shows "cleanup_replacement_rospec_with run env e = cleanup_replacement_rospec_with run' env' e'"
  using assms by (simp add: runner_defs cong: if_cong)

lemma restore_old_with_cong [fundef_cong]:
  assumes "env = env'" "applied = applied'" "e = e'"
    "\<And>s. run (Rollback_Restarted_Cb env' e') s True = run' (Rollback_Restarted_Cb env' e') s True"
  shows "restore_old_with run env applied e = restore_old_with run' env' applied' e'"
  using assms by (simp add: runner_defs cong: if_cong)

lemma finish_new_state_with_cong [fundef_cong]:
  assumes "env = env'" "applied = applied'"
    "\<And>s. run (Apply_Restarted_Cb env' applied') s True = run' (Apply_Restarted_Cb env' applied') s True"
  shows "finish_new_state_with run env applied = finish_new_state_with run' env' applied'"
  using assms by (simp add: runner_defs cong: if_cong)

lemma after_stopped_with_cong [fundef_cong]:
  assumes "env = env'" "ok = ok'"
    "\<And>s e. run (Rollback_Restarted_Cb env' e) s True = run' (Rollback_Restarted_Cb env' e) s True"
    "\<And>s. run (Apply_Restarted_Cb env' False) s True = run' (Apply_Restarted_Cb env' False) s True"
  shows "after_stopped_with run env ok = after_stopped_with run' env' ok'"
  using assms by (simp add: runner_defs cong: if_cong)

section \<open>Callbacks\<close>

text \<open>How many callbacks a callback can run in turn before it returns.\<close>

fun cont_rank :: "cont \<Rightarrow> nat" where
  "cont_rank (Added_Rospec_Cb spec (Some k)) = Suc (cont_rank k)"
| "cont_rank (Enabled_Rospec_Cb (Some k)) = Suc (cont_rank k)"
| "cont_rank (Deleted_Accessspec_Cb (Some k)) = Suc (cont_rank k)"
| "cont_rank (Stopped_All_Cb (Some k)) = Suc (cont_rank k)"
| "cont_rank (Apply_Stopped_Cb env) = 3"
| "cont_rank (Apply_Written_Cb env) = 2"
| "cont_rank (Apply_Restarted_Cb env applied) = 1"
| "cont_rank (Rollback_Written_Cb env e) = 1"
| "cont_rank (Rollback_Cleaned_Cb env e) = 1"
| "cont_rank _ = 0"

text \<open>\<open>run_cont k st ok\<close> is the call \<open>k(st, ok)\<close>.\<close>

function run_cont :: runner where
  "run_cont (User_Cb u) st ok = record_event (User_Called u st ok)"
| "run_cont Disconnect_Cb st ok =
    thenA (whenA ok (setState STATE_DISCONNECTED)) (thenA close_session (record_event Disconnect_Finished))"
| "run_cont Capabilities_Cb st ok = whenA ok (setState STATE_CONNECTED)"
| "run_cont Enable_Impinj_Cb st ok =
    (if ok then thenA (send_GET_READER_CAPABILITIES Capabilities_Cb) (retA ())
     else throwA ReaderConfigurationError)"
| "run_cont Reader_Config_Cb st ok = whenA ok (setState STATE_SENT_GET_CONFIG)"
| "run_cont Set_Config_Cb st ok = whenA ok (setState STATE_SENT_SET_CONFIG)"
| "run_cont Reset_Stopped_Cb st ok = whenA ok (thenA (setState STATE_CONNECTED)
    (readA (\<lambda>c. whenA (py_true (start_inventory (current_config c))) (startInventory_with run_cont False None))))"
| "run_cont (Added_Rospec_Cb spec k) st ok =
    (if ok then thenA (modifyA (\<lambda>c. c\<lparr>inventory_rospec_added := True\<rparr>))
         (thenA (send_ENABLE_ROSPEC spec (Enabled_Rospec_Cb k)) (retA ()))
     else run_callback run_cont k False)"
| "run_cont (Enabled_Rospec_Cb k) st ok =
    thenA (whenA ok (setState STATE_INVENTORYING)) (run_callback run_cont k ok)"
| "run_cont (Deleted_Accessspec_Cb k) st ok =
    (if ok then stopAllROSpecs k else case k of None \<Rightarrow> retA () | Some k' \<Rightarrow> run_cont k' st ok)"
| "run_cont (Stopped_All_Cb k) st ok =
    thenA (whenA ok (modifyA (\<lambda>c. c\<lparr>inventory_rospec_added := False\<rparr>)))
    (thenA (modifyA (\<lambda>c. c\<lparr>rospec := None, generated_config_snapshot := None\<rparr>))
    (case k of None \<Rightarrow> retA () | Some k' \<Rightarrow> run_cont k' st ok))"
| "run_cont Power_Stopped_Cb st ok = whenA ok (thenA (setState STATE_CONNECTED)
    (startInventory_with run_cont True None))"
| "run_cont (Paused_Cb seconds force_regen) st ok = whenA ok (thenA (setState STATE_PAUSED)
    (whenA (seconds > 0) (schedule_pause_resume force_regen)))"
| "run_cont Replaced_Paused_Cb st ok = whenA ok (thenA (setState STATE_CONNECTED)
    (startInventory_with run_cont True None))"
| "run_cont Resumed_Cb st ok = whenA ok (setState STATE_INVENTORYING)"
| "run_cont (Added_Accessspec_Cb i) st ok = whenA ok (send_ENABLE_ACCESSSPEC i None)"
| "run_cont (Disabled_Accessspec_Cb op targets n i) st ok =
    send_DELETE_ACCESSSPEC i (Some (Next_Access_Cb op targets n i))"
| "run_cont (Next_Access_Cb op targets n i) st ok = startAccess op targets n i"
| "run_cont (Apply_Stopped_Cb env) st ok = after_stopped_with run_cont env ok"
| "run_cont (Apply_Written_Cb env) st ok =
    (if ok then finish_new_state_with run_cont env True
     else restore_old_with run_cont env False ''SET_READER_CONFIG failed during apply_config'')"
| "run_cont (Apply_Restarted_Cb env applied) st ok =
    (if ok then env_succeed env
     else restore_old_with run_cont env applied ''new configuration inventory restart failed'')"
| "run_cont (Rollback_Written_Cb env e) st ok =
    (if \<not> ok then abandon env (e @ ''; rollback reader configuration failed'')
     else cleanup_replacement_rospec_with run_cont env e)"
| "run_cont (Rollback_Cleaned_Cb env e) st ok =
    (if \<not> ok then abandon env (e @ ''; rollback ROSpec cleanup failed'')
     else finish_restore_with run_cont env e)"
| "run_cont (Rollback_Restarted_Cb env e) st ok =
    (if \<not> ok then abandon env (e @ ''; rollback inventory restart failed'')
     else env_fail env e)"
  by pat_completeness auto

termination by (relation "measure (\<lambda>(k, st, ok). cont_rank k)") auto

definition startInventory :: "bool \<Rightarrow> cont option \<Rightarrow> unit command" where
  "startInventory = startInventory_with run_cont"

end
