(* ===== verification/Client_Machine.thy ===== *)
theory Client_Machine
  imports Client_Operations
begin

text \<open>
  The state machine of \<open>LLRPClient\<close> (\<^verbatim>\<open>sllurp/llrp.py\<close>, with the corrections of
  \<^verbatim>\<open>sllurp/_runtime_fixes.py\<close>): pause and resume, \<open>apply_config\<close>, matching of responses
  to requests, \<open>handleMessage\<close>, timeouts, and the inputs a running client can see.  A handler
  runs without interleaving; between two handlers any input may happen, in any order.
\<close>

section \<open>Pause and resume\<close>

definition pause :: "pyval \<Rightarrow> bool \<Rightarrow> bool \<Rightarrow> unit command" where
  "pause seconds forced force_regen = (case number_of seconds of
     None \<Rightarrow> throwA ReaderConfigurationError
   | Some d \<Rightarrow> if d < 0 then throwA ReaderConfigurationError
       else readA (\<lambda>c. if state c \<noteq> STATE_INVENTORYING \<and> \<not> forced then retA ()
         else thenA cancel_pause_resume_timer
           (bindA (getROSpec force_regen) (\<lambda>spec.
            bindA (liftA (py_item (PDict spec) ''ROSpecID'')) (\<lambda>i.
            thenA (send_request [(''DISABLE_ROSPEC'', PDict [(''ROSpecID'', i)])]
              ''DISABLE_ROSPEC_RESPONSE'' (Some (Paused_Cb d force_regen)) (Some STATE_PAUSING))
            (retA ()))))))"

definition resume_inventory :: "bool \<Rightarrow> unit command" where
  "resume_inventory force_regen = readA (\<lambda>c.
    if state c \<in> {STATE_CONNECTED, STATE_DISCONNECTED} then startInventory force_regen None
    else if state c \<noteq> STATE_PAUSED then retA ()
    else case rospec c of
      None \<Rightarrow> thenA (setState STATE_CONNECTED) (startInventory True None)
    | Some spec \<Rightarrow> if force_regen then stopAllROSpecs (Some Replaced_Paused_Cb)
        else thenA (send_ENABLE_ROSPEC spec Resumed_Cb) (retA ()))"

definition resume :: "bool \<Rightarrow> unit command" where
  "resume force_regen = thenA cancel_pause_resume_timer (resume_inventory force_regen)"

text \<open>The thread of a timed resume that was not cancelled before it fired.\<close>

definition timed_resume :: "pause_timer \<Rightarrow> unit command" where
  "timed_resume t = readA (\<lambda>c.
    if fst t \<noteq> pause_resume_generation c then retA ()
    else thenA (modifyA (\<lambda>c. c\<lparr>pause_resume_timer := None\<rparr>))
      (if state c \<noteq> STATE_PAUSED then retA () else resume_inventory (snd t)))"

section \<open>Configuration\<close>

text \<open>\<open>new_config.validate_config()\<close>: what it assigned to the object stays, even when it raises.\<close>

definition validate_object :: "nat \<Rightarrow> unit command" where
  "validate_object new = (\<lambda>c. case validate_in_place (objects c new) of
     (result, cfg) \<Rightarrow> (result, c\<lparr>objects := (objects c)(new := cfg)\<rparr>))"

lemma validate_object_outcome:
  "validate_config (objects c new) = Inr cfg \<Longrightarrow>
     validate_object new c = (Inr (), c\<lparr>objects := (objects c)(new := cfg)\<rparr>)"
  "validate_config (objects c new) = Inl e \<Longrightarrow>
     \<exists>cfg. validate_object new c = (Inl e, c\<lparr>objects := (objects c)(new := cfg)\<rparr>)"
  by (auto simp: validate_object_def validate_config_def outcome_of_def split: prod.splits sum.splits)

definition update_config :: "nat \<Rightarrow> unit command" where
  "update_config new =
    thenA (validate_object new)
    (thenA (readA (\<lambda>c. whenA (state c \<noteq> STATE_DISCONNECTED) (throwA ReaderConfigurationError)))
    (modifyA (\<lambda>c. c\<lparr>config := new, rospec := None, reported_config := [],
       reader_config_summary := no_summary, generated_config_snapshot := None,
       applied_config_snapshot := None, dedup_backend_active := ''disabled''\<rparr>)))"

definition plan_for :: "client \<Rightarrow> nat \<Rightarrow> power_setting config_change list" where
  "plan_for c new = build_config_transition_plan power_eq
     (config_vars (current_config c)) (config_vars (objects c new))"

text \<open>The transition object; one that is never returned is not recorded.\<close>

definition begin_transition :: "nat \<Rightarrow> nat command" where
  "begin_transition new = readA (\<lambda>c.
     thenA (modifyA (\<lambda>c. c\<lparr>transitions := transitions c @ [new_transition (plan_for c new) (config c) new]\<rparr>))
     (retA (length (transitions c))))"

text \<open>A transition that succeeds without the reader, after the changes of \<open>m\<close>.\<close>

definition immediate_transition :: "nat \<Rightarrow> transition_user option \<Rightarrow> unit command \<Rightarrow> nat command" where
  "immediate_transition new user m = bindA (begin_transition new) (\<lambda>t.
     thenA m (thenA (succeed_transition t user) (retA t)))"

text \<open>The stop/apply/resume transaction.\<close>

definition start_transaction :: "nat \<Rightarrow> transition_user option \<Rightarrow> nat command" where
  "start_transaction new user = readA (\<lambda>c.
    bindA (begin_transition new) (\<lambda>t.
    let env = \<lparr>ae_transition = t, ae_old = config c, ae_new = new, ae_original = state c,
               ae_write = requires_reader_config_write (plan_for c new), ae_user = user\<rparr> in
    thenA (if state c = STATE_INVENTORYING then stopPolitely (Some (Apply_Stopped_Cb env)) False
       else if state c = STATE_PAUSED
       then thenA cancel_pause_resume_timer (stopAllROSpecs (Some (Apply_Stopped_Cb env)))
       else run_cont (Apply_Stopped_Cb env) (state c) True)
    (retA t)))"

definition apply_config :: "nat \<Rightarrow> transition_user option \<Rightarrow> nat command" where
  "apply_config new user =
    thenA (validate_object new)
    (readA (\<lambda>c. let changes = plan_for c new in
      if is_noop changes then immediate_transition new user (retA ())
      else if requires_reconnect changes \<and> state c \<noteq> STATE_DISCONNECTED then throwA ReaderConfigurationError
      else if state c = STATE_DISCONNECTED then immediate_transition new user (update_config new)
      else if client_only changes then immediate_transition new user (modifyA (\<lambda>c. c\<lparr>config := new\<rparr>))
      else if state c \<notin> {STATE_CONNECTED, STATE_INVENTORYING, STATE_PAUSED} then throwA ReaderConfigurationError
      else start_transaction new user))"

section \<open>Completing requests\<close>

definition ends_with :: "string \<Rightarrow> string \<Rightarrow> bool" where
  "ends_with s suffix \<longleftrightarrow> length suffix \<le> length s \<and> drop (length s - length suffix) s = suffix"

definition clear_deferreds :: "string \<Rightarrow> client \<Rightarrow> client" where
  "clear_deferreds name c = (case dict_get (deferreds c) name of None \<Rightarrow> c
     | Some _ \<Rightarrow> c\<lparr>deferreds := dict_set (deferreds c) name []\<rparr>)"

text \<open>
  The callbacks to run: that of the matched request, or, if no request matched, all that are
  registered under the name.
\<close>

definition take_callbacks :: "string \<Rightarrow> cont pending_request option \<Rightarrow> cont list command" where
  "take_callbacks name matched = (case matched of
     Some req \<Rightarrow> (case callback req of None \<Rightarrow> retA []
       | Some k \<Rightarrow> thenA (modifyA (remove_deferred name (Some k))) (retA [k]))
   | None \<Rightarrow> readA (\<lambda>c. thenA (modifyA (clear_deferreds name)) (retA (deferred_list name c))))"

definition run_deferreds :: "string \<Rightarrow> bool \<Rightarrow> cont pending_request option \<Rightarrow> bool command" where
  "run_deferreds name ok matched = readA (\<lambda>c0.
    bindA (take_callbacks name matched) (\<lambda>callbacks.
    if callbacks = [] \<and> matched = None then thenA (modifyA (drop_empty_deferreds name)) (retA False)
    else thenA (forA (\<lambda>k. readA (\<lambda>c. run_cont k (state c) ok)) callbacks)
      (thenA (if dict_get (deferreds c0) name = None
              then modifyA (\<lambda>c. c\<lparr>deferreds := dict_pop (deferreds c) name\<rparr>)
              else modifyA (drop_empty_deferreds name))
       (retA True))))"

definition processDeferreds :: "string \<Rightarrow> bool \<Rightarrow> bool command" where
  "processDeferreds name ok = readA (\<lambda>c. case response_message_id c of
     Some i \<Rightarrow> (case pop_request name i (pending_requests c) of (r, matched) \<Rightarrow>
       thenA (modifyA (\<lambda>c. c\<lparr>pending_requests := r\<rparr>))
       (if matched = None \<and> is_stale name i r
        then thenA (modifyA (drop_empty_deferreds name)) (retA False)
        else run_deferreds name ok matched))
   | None \<Rightarrow> (case pop_response_type name (pending_requests c) of (r, matched) \<Rightarrow>
       thenA (modifyA (\<lambda>c. c\<lparr>pending_requests := r\<rparr>)) (run_deferreds name ok matched)))"

text \<open>\<open>_on_request_timeout\<close>.\<close>

definition on_request_timeout :: "cont pending_request \<Rightarrow> unit command" where
  "on_request_timeout req =
    thenA (modifyA (remove_deferred (response_name req) (callback req)))
    (thenA (modifyA (drop_empty_deferreds (response_name req)))
    (run_callback run_cont (callback req) False))"

section \<open>Messages from the reader\<close>

text \<open>\<open>_message_id\<close>.\<close>

definition message_id_of :: "pydict \<Rightarrow> int option res" where
  "message_id_of md = (case dict_get md ''ID'' of
     None \<Rightarrow> Inr None
   | Some v \<Rightarrow> if v = PNone then Inr None else bindE (py_int v) (\<lambda>i. Inr (Some i)))"

text \<open>The status and the error text that a handler reads to log a failure.\<close>

definition read_status :: "pydict \<Rightarrow> unit res" where
  "read_status md = bindE (py_item (PDict md) ''LLRPStatus'') (\<lambda>st.
     bindE (py_item st ''StatusCode'') (\<lambda>_. bindE (py_item st ''ErrorDescription'') (\<lambda>_. Inr ())))"

definition read_connection_status :: "pydict \<Rightarrow> unit res" where
  "read_connection_status md = bindE (py_item (PDict md) ''ReaderEventNotificationData'') (\<lambda>rend.
     catchE (bindE (py_item rend ''ConnectionAttemptEvent'') (\<lambda>ev. bindE (py_item ev ''Status'') (\<lambda>_. Inr ())))
       (\<lambda>e. if e = KeyError then Some (Inr ()) else None))"

text \<open>
  One handler for each group of states.  \<open>True\<close> is the way to the end of \<open>handleMessage\<close>,
  \<open>False\<close> an early \<open>return\<close>.
\<close>

definition on_connecting :: "string \<Rightarrow> pydict \<Rightarrow> bool command" where
  "on_connecting name md =
    (if name \<noteq> ''READER_EVENT_NOTIFICATION'' then retA False
     else bindA (liftA (isSuccess name md)) (\<lambda>ok.
       if \<not> ok then thenA (liftA (read_connection_status md)) (retA False)
       else thenA (modifyA (\<lambda>c. c\<lparr>disconnecting := False\<rparr>))
         (thenA (processDeferreds name ok)
         (thenA (readA (\<lambda>c. if uses_impinj_extensions (current_config c)
            then send_ENABLE_IMPINJ_EXTENSIONS Enable_Impinj_Cb
            else send_GET_READER_CAPABILITIES Capabilities_Cb))
         (retA True)))))"

definition on_enable_impinj :: "string \<Rightarrow> pydict \<Rightarrow> bool command" where
  "on_enable_impinj name md =
    (if name \<noteq> ''IMPINJ_ENABLE_EXTENSIONS_RESPONSE'' then throwA ReaderConfigurationError
     else bindA (liftA (isSuccess name md)) (\<lambda>ok.
       if \<not> ok then thenA (liftA (read_status md))
         (thenA (processDeferreds name False) (throwA ReaderConfigurationError))
       else thenA (processDeferreds name ok) (retA True)))"

definition on_capabilities :: "string \<Rightarrow> pydict \<Rightarrow> bool command" where
  "on_capabilities name md =
    (if name \<noteq> ''GET_READER_CAPABILITIES_RESPONSE'' then throwA ReaderConfigurationError
     else bindA (liftA (isSuccess name md)) (\<lambda>ok.
       if \<not> ok then thenA (liftA (read_status md))
         (thenA (processDeferreds name False) (throwA ReaderConfigurationError))
       else thenA (modifyA (\<lambda>c. c\<lparr>capabilities := md\<rparr>))
         (thenA (parseCapabilities md)
         (thenA (processDeferreds name ok)
         (readA (\<lambda>c. if disconnecting c then retA False
            else thenA (send_GET_READER_CONFIG Reader_Config_Cb) (retA True)))))))"

definition on_get_config :: "string \<Rightarrow> pydict \<Rightarrow> bool command" where
  "on_get_config name md =
    (if name \<notin> {''GET_READER_CONFIG_RESPONSE'', ''DELETE_ACCESSSPEC_RESPONSE'', ''DELETE_ROSPEC_RESPONSE''}
     then throwA ReaderConfigurationError
     else bindA (liftA (isSuccess name md)) (\<lambda>ok.
       if \<not> ok then thenA (liftA (read_status md))
         (thenA (processDeferreds name False) (throwA ReaderConfigurationError))
       else thenA (whenA (name = ''GET_READER_CONFIG_RESPONSE'')
           (thenA (modifyA (\<lambda>c. c\<lparr>reported_config := md\<rparr>)) (parseReaderConfig md)))
         (thenA (processDeferreds name ok)
         (readA (\<lambda>c. if disconnecting c then retA False
            else thenA send_ENABLE_EVENTS_AND_REPORTS
              (thenA (send_SET_READER_CONFIG Set_Config_Cb) (retA True)))))))"

definition on_set_config :: "string \<Rightarrow> pydict \<Rightarrow> bool command" where
  "on_set_config name md =
    (if name \<notin> {''SET_READER_CONFIG_RESPONSE'', ''GET_READER_CONFIG_RESPONSE'', ''DELETE_ACCESSSPEC_RESPONSE''}
     then throwA ReaderConfigurationError
     else bindA (liftA (isSuccess name md)) (\<lambda>ok.
       if \<not> ok then thenA (liftA (read_status md)) (readA (\<lambda>c.
         let quiet = suppress_set_config_post_actions c in
         thenA (whenA quiet (modifyA (\<lambda>c. c\<lparr>suppress_set_config_post_actions := False\<rparr>)))
         (thenA (processDeferreds name False)
         (if quiet then retA False else throwA ReaderConfigurationError))))
       else readA (\<lambda>c. let quiet = suppress_set_config_post_actions c in
         thenA (whenA quiet (thenA (modifyA (\<lambda>c. c\<lparr>suppress_set_config_post_actions := False\<rparr>))
           (setState STATE_CONNECTED)))
         (thenA (processDeferreds name ok)
         (readA (\<lambda>c. if quiet \<or> disconnecting c then retA False
           else if py_true (reset_on_connect (current_config c))
           then thenA (stopPolitely (Some Reset_Stopped_Cb) False) (retA True)
           else thenA (whenA (py_true (start_inventory (current_config c))) (startInventory False None)) (retA True)))))))"

definition on_add_rospec :: "string \<Rightarrow> pydict \<Rightarrow> bool command" where
  "on_add_rospec name md =
    (if name \<noteq> ''ADD_ROSPEC_RESPONSE'' then throwA ReaderConfigurationError
     else bindA (liftA (isSuccess name md)) (\<lambda>ok.
       if \<not> ok then thenA (liftA (read_status md)) (readA (\<lambda>c0.
         thenA (processDeferreds name False)
         (readA (\<lambda>c. if state c = STATE_SENT_ADD_ROSPEC \<and> last_msg_id c = last_msg_id c0
            then throwA ReaderConfigurationError else retA False))))
       else thenA (processDeferreds name ok) (retA True)))"

definition on_enable_rospec :: "string \<Rightarrow> pydict \<Rightarrow> bool command" where
  "on_enable_rospec name md =
    (if name \<noteq> ''ENABLE_ROSPEC_RESPONSE'' then retA False
     else bindA (liftA (isSuccess name md)) (\<lambda>ok.
       if \<not> ok then thenA (liftA (read_status md)) (thenA (processDeferreds name False) (retA False))
       else thenA (processDeferreds name ok) (retA True)))"

text \<open>The handlers of \<open>PAUSING\<close> and \<open>SENT_DELETE_ROSPEC\<close> are alike.\<close>

definition on_logged_response :: "string \<Rightarrow> pydict \<Rightarrow> bool command" where
  "on_logged_response name md =
    bindA (liftA (isSuccess name md)) (\<lambda>ok.
    thenA (if ok then retA () else liftA (read_status md))
    (thenA (processDeferreds name ok) (retA True)))"

definition on_start_rospec :: "string \<Rightarrow> pydict \<Rightarrow> bool command" where
  "on_start_rospec name md =
    (if name \<in> {''RO_ACCESS_REPORT'', ''READER_EVENT_NOTIFICATION''} then retA False
     else bindA (liftA (isSuccess name md)) (\<lambda>ok.
       if \<not> ok then thenA (liftA (read_status md)) (thenA (processDeferreds name False) (retA False))
       else thenA (processDeferreds name ok) (retA True)))"

definition on_inventorying :: "string \<Rightarrow> pydict \<Rightarrow> bool command" where
  "on_inventorying name md =
    (if name \<notin> {''RO_ACCESS_REPORT'', ''READER_EVENT_NOTIFICATION'', ''ADD_ACCESSSPEC_RESPONSE'',
       ''ENABLE_ACCESSSPEC_RESPONSE'', ''DISABLE_ACCESSSPEC_RESPONSE'', ''DELETE_ACCESSSPEC_RESPONSE''}
     then retA False
     else bindA (liftA (isSuccess name md)) (\<lambda>ok. thenA (processDeferreds name ok) (retA True)))"

definition on_delete_accessspec :: "string \<Rightarrow> pydict \<Rightarrow> bool command" where
  "on_delete_accessspec name md =
    bindA (liftA (isSuccess name md)) (\<lambda>ok. thenA (processDeferreds name ok) (retA True))"

definition dispatch :: "reader_state \<Rightarrow> string \<Rightarrow> pydict \<Rightarrow> bool command" where
  "dispatch s = (case s of
     STATE_DISCONNECTED \<Rightarrow> on_connecting
   | STATE_CONNECTING \<Rightarrow> on_connecting
   | STATE_CONNECTED \<Rightarrow> on_connecting
   | STATE_SENT_ENABLE_IMPINJ_EXTENSIONS \<Rightarrow> on_enable_impinj
   | STATE_SENT_GET_CAPABILITIES \<Rightarrow> on_capabilities
   | STATE_SENT_GET_CONFIG \<Rightarrow> on_get_config
   | STATE_SENT_SET_CONFIG \<Rightarrow> on_set_config
   | STATE_SENT_ADD_ROSPEC \<Rightarrow> on_add_rospec
   | STATE_SENT_ENABLE_ROSPEC \<Rightarrow> on_enable_rospec
   | STATE_PAUSING \<Rightarrow> on_logged_response
   | STATE_SENT_START_ROSPEC \<Rightarrow> on_start_rospec
   | STATE_INVENTORYING \<Rightarrow> on_inventorying
   | STATE_SENT_DELETE_ACCESSSPEC \<Rightarrow> on_delete_accessspec
   | STATE_SENT_DELETE_ROSPEC \<Rightarrow> on_logged_response
   | STATE_PAUSED \<Rightarrow> (\<lambda>name md. retA True))"

text \<open>Responses that answer no request of ours: stale ones, and strangers to a pending request.\<close>

definition unmatched_response :: "string \<Rightarrow> int option \<Rightarrow> client \<Rightarrow> bool" where
  "unmatched_response name mid c = (case mid of None \<Rightarrow> False
     | Some i \<Rightarrow> ends_with name ''_RESPONSE'' \<and>
         (is_stale name i (pending_requests c) \<or>
          has_response_type name (pending_requests c) \<and> \<not> contains name i (pending_requests c)))"

definition ignored_message :: "string \<Rightarrow> client \<Rightarrow> bool" where
  "ignored_message name c \<longleftrightarrow>
     name = ''RO_ACCESS_REPORT'' \<and> state c \<noteq> STATE_INVENTORYING \<or>
     name = ''READER_EVENT_NOTIFICATION'' \<and> state_number (state c) \<ge> state_number STATE_CONNECTED"

text \<open>\<open>self._deferreds[name]\<close> at the end creates a missing entry of the \<open>defaultdict\<close>.\<close>

definition touch_deferreds :: "string \<Rightarrow> client \<Rightarrow> client" where
  "touch_deferreds name c = c\<lparr>deferreds := dict_set (deferreds c) name (deferred_list name c)\<rparr>"

definition handleMessage :: "string \<Rightarrow> pydict \<Rightarrow> unit command" where
  "handleMessage name md =
    (if name = ''KEEPALIVE'' then bindA (liftA (message_id_of md)) send_KEEPALIVE_ACK
     else bindA (liftA (message_id_of md)) (\<lambda>mid.
       thenA (modifyA (\<lambda>c. c\<lparr>response_message_id := mid\<rparr>))
       (readA (\<lambda>c. if unmatched_response name mid c \<or> ignored_message name c then retA ()
          else bindA (dispatch (state c) name md) (\<lambda>finished.
            whenA finished (modifyA (touch_deferreds name)))))))"

end
