(* ===== verification/Request_Table.thy ===== *)
theory Request_Table
  imports Pending_Registry
begin

text \<open>
  The contract the protocol client relies on: a registry of requests is a partial map from
  exact keys (response name and message identifier) to callbacks, with operations that add one
  key and take one key.  The lemmas of the client's request handling are proved from this
  contract alone; the registry of \<^verbatim>\<open>sllurp/llrp_runtime.py\<close> is shown to satisfy it.
\<close>

text \<open>At most one request for a response name.\<close>

definition sole :: "(req_key \<Rightarrow> 'c option) \<Rightarrow> bool" where
  "sole e \<longleftrightarrow> (\<forall>n m m'. e (n, m) \<noteq> None \<longrightarrow> e (n, m') \<noteq> None \<longrightarrow> m = m')"

definition awaits :: "string \<Rightarrow> (req_key \<Rightarrow> 'c option) \<Rightarrow> bool" where
  "awaits n e \<longleftrightarrow> (\<exists>m. e (n, m) \<noteq> None)"

lemma sole_empty [simp]: "sole (\<lambda>x. None)"
  by (simp add: sole_def)

lemma sole_remove: "sole e \<Longrightarrow> sole (e(key := None))"
  by (auto simp: sole_def)

lemma sole_add: "sole e \<Longrightarrow> \<not> awaits n e \<Longrightarrow> sole (e((n, m) := Some k))"
  by (auto simp: sole_def awaits_def)

lemma awaits_update:
  "awaits n (e((n', m) := Some k)) \<longleftrightarrow> n = n' \<or> awaits n e"
  by (auto simp: awaits_def)

lemma awaits_remove: "sole e \<Longrightarrow> e (n, m) \<noteq> None \<Longrightarrow> awaits n' (e((n, m) := None)) \<longleftrightarrow> n' \<noteq> n \<and> awaits n' e"
  by (auto simp: awaits_def sole_def)

locale request_registry =
  fixes ok :: "'r \<Rightarrow> bool"
    and entries :: "'r \<Rightarrow> req_key \<Rightarrow> 'k option"
    and add :: "string \<Rightarrow> int \<Rightarrow> 'k \<Rightarrow> 'r \<Rightarrow> 'r option"
    and takes :: "string \<Rightarrow> int \<Rightarrow> 'r \<Rightarrow> 'r"
    and drops :: "string \<Rightarrow> int \<Rightarrow> 'r \<Rightarrow> 'r"
  assumes add_law: "ok r \<Longrightarrow> entries r (n, m) = None \<Longrightarrow>
      \<exists>r'. add n m k r = Some r' \<and> ok r' \<and> entries r' = (entries r)((n, m) := Some k)"
    and takes_law: "ok r \<Longrightarrow> ok (takes n m r) \<and> entries (takes n m r) = (entries r)((n, m) := None)"
    and drops_law: "ok r \<Longrightarrow> ok (drops n m r) \<and> entries (drops n m r) = (entries r)((n, m) := None)"
begin

lemma add_new:
  assumes "ok r" "sole (entries r)" "\<not> awaits n (entries r)"
  obtains r' where "add n m k r = Some r'" "ok r'" "entries r' = (entries r)((n, m) := Some k)"
    "sole (entries r')"
  using add_law [OF assms(1), of n m k] sole_add [OF assms(2,3), of m k] assms(3)
  by (auto simp: awaits_def)

text \<open>Giving up a request that was just added leaves no trace of it.\<close>

lemma drop_added:
  assumes "ok r" "\<not> awaits n (entries r)" "add n m k r = Some r'"
  shows "ok (drops n m r') \<and> entries (drops n m r') = entries r"
  using add_law [OF assms(1), of n m k] drops_law [of r' n m] assms(2,3)
  by (auto simp: awaits_def fun_eq_iff)

lemma take_sole:
  assumes "ok r" "sole (entries r)"
  shows "ok (takes n m r)" "sole (entries (takes n m r))"
    "entries r (n, m) \<noteq> None \<Longrightarrow> \<not> awaits n (entries (takes n m r))"
  using takes_law [OF assms(1), of n m] assms(2)
  by (auto simp: sole_remove awaits_remove)

end

section \<open>The registry satisfies the contract\<close>

definition entries :: "('c, 'h) pending_registry \<Rightarrow> req_key \<Rightarrow> 'c option option" where
  "entries r key = map_option callback (dict_get (pending r) key)"

definition add_request :: "rat option \<Rightarrow> 'h option \<Rightarrow> string \<Rightarrow> int \<Rightarrow> 'c option \<Rightarrow>
    ('c, 'h) pending_registry \<Rightarrow> ('c, 'h) pending_registry option" where
  "add_request timeout handler n m k r = (case register n m k timeout handler r of
     Inl e \<Rightarrow> None | Inr (r', req) \<Rightarrow> Some r')"

lemma register_entries:
  assumes "register n m k timeout handler r = Inr (r', req)"
  shows "entries r' = (entries r)((n, m) := Some k)"
  using assms by (auto simp: register_def entries_def Let_def fun_eq_iff dict_simps split: if_splits)

lemma register_succeeds:
  "entries r (n, m) = None \<Longrightarrow> \<exists>r' req. register n m k timeout handler r = Inr (r', req)"
  by (simp add: register_def entries_def Let_def)

lemma register_refused: "register n m k timeout handler r = Inl e \<Longrightarrow> entries r (n, m) \<noteq> None"
  by (auto simp: register_def entries_def Let_def split: if_splits)

interpretation pr: request_registry "registry_ok limit" entries "add_request timeout handler"
    "\<lambda>n m r. fst (pop_request n m r)" "\<lambda>n m r. fst (cancel n m False r)"
  for limit timeout handler
proof unfold_locales
  fix r :: "('a, 'b) pending_registry" and n m k
  assume ok: "registry_ok limit r"
  show "entries r (n, m) = None \<Longrightarrow> \<exists>r'. add_request timeout handler n m k r = Some r' \<and>
      registry_ok limit r' \<and> entries r' = (entries r)((n, m) := Some k)"
    using register_succeeds [of r n m k timeout handler] register_ok [OF ok] register_entries
    by (fastforce simp: add_request_def)
  show "registry_ok limit (fst (pop_request n m r)) \<and>
      entries (fst (pop_request n m r)) = (entries r)((n, m) := None)"
    using ok by (cases rule: pop_request_cases [of limit r n m False])
      (auto simp: ok entries_def fun_eq_iff dict_simps)
  show "registry_ok limit (fst (cancel n m False r)) \<and>
      entries (fst (cancel n m False r)) = (entries r)((n, m) := None)"
    using ok by (cases rule: pop_request_cases [of limit r n m False])
      (auto simp: ok entries_def fun_eq_iff dict_simps)
qed

lemma has_response_type_awaits: "has_response_type n r \<longleftrightarrow> awaits n (entries r)"
  by (force simp: has_response_type_def awaits_def entries_def list_ex_iff map_of_eq_None_iff image_iff)

lemma contains_entries: "contains n m r \<longleftrightarrow> entries r (n, m) \<noteq> None"
  by (simp add: contains_def entries_def)

end
