(* ===== verification/Client_Runs.thy ===== *)
theory Client_Runs
  imports Client_Machine Request_Table
begin

text \<open>
  Everything that can happen to a client: messages from the reader, timers, losses of the
  connection and calls of the application, in any order.  A request timer and a pause timer
  first fires and then runs, and anything may happen in between.
\<close>

datatype client_input =
    Receive string pydict
  | Request_Timer_Fires nat
  | Request_Timer_Runs nat
  | Pause_Timer_Fires pause_timer
  | Pause_Timer_Runs nat
  | Connection_Lost
  | Session_Reset
  | Session_Closes
  | Transport_Opened
  | Call_Disconnect
  | Call_Send pydict
  | Call_Start_Inventory bool "nat option"
  | Call_Stop_Politely "nat option" bool
  | Call_Stop_All "nat option"
  | Call_Pause pyval bool bool
  | Call_Resume bool
  | Call_Set_Power "(int \<times> pyval) list" bool
  | Call_Set_Power_Dbm "(int \<times> pyval) list option"
  | Call_Start_Access op_spec "target_tag list" int int
  | Call_Next_Access op_spec "target_tag list" int int
  | Call_Apply_Config nat "transition_user option"
  | Call_Update_Config nat
  | Edit_Config nat reader_config

definition request_timer_runs :: "nat \<Rightarrow> unit command" where
  "request_timer_runs i = readA (\<lambda>c.
    if i < length (firing (pending_requests c))
    then (case run_expiry i (pending_requests c) of (r, expired) \<Rightarrow>
      thenA (modifyA (\<lambda>c. c\<lparr>pending_requests := r\<rparr>))
      (case expired of None \<Rightarrow> retA () | Some req \<Rightarrow> on_request_timeout req))
    else retA ())"

definition pause_timer_fires :: "pause_timer \<Rightarrow> unit command" where
  "pause_timer_fires t = modifyA (\<lambda>c. if t \<in> set (pause_timers_armed c)
     then c\<lparr>pause_timers_armed := remove1 t (pause_timers_armed c), pause_timers_fired := pause_timers_fired c @ [t]\<rparr>
     else c)"

definition pause_timer_runs :: "nat \<Rightarrow> unit command" where
  "pause_timer_runs i = readA (\<lambda>c.
    if i < length (pause_timers_fired c)
    then thenA (modifyA (\<lambda>c. c\<lparr>pause_timers_fired := take i (pause_timers_fired c) @ drop (Suc i) (pause_timers_fired c)\<rparr>))
      (timed_resume (pause_timers_fired c ! i))
    else retA ())"

definition discard :: "'a command \<Rightarrow> unit command" where
  "discard m = thenA m (retA ())"

fun perform :: "client_input \<Rightarrow> unit command" where
  "perform (Receive name md) = handleMessage name md"
| "perform (Request_Timer_Fires t) = modifyA (\<lambda>c. c\<lparr>pending_requests := fire t (pending_requests c)\<rparr>)"
| "perform (Request_Timer_Runs i) = request_timer_runs i"
| "perform (Pause_Timer_Fires t) = pause_timer_fires t"
| "perform (Pause_Timer_Runs i) = pause_timer_runs i"
| "perform Connection_Lost = setState STATE_DISCONNECTED"
| "perform Session_Reset = reset_protocol_session"
| "perform Session_Closes = close_session"
| "perform Transport_Opened = modifyA (\<lambda>c. c\<lparr>transport_up := True\<rparr>)"
| "perform Call_Disconnect = stopPolitely (Some Disconnect_Cb) True"
| "perform (Call_Send msg) = discard (sendMessage msg)"
| "perform (Call_Start_Inventory force u) = startInventory force (map_option User_Cb u)"
| "perform (Call_Stop_Politely u disconnect) = stopPolitely (map_option User_Cb u) disconnect"
| "perform (Call_Stop_All u) = stopAllROSpecs (map_option User_Cb u)"
| "perform (Call_Pause seconds forced force_regen) = pause seconds forced force_regen"
| "perform (Call_Resume force_regen) = resume force_regen"
| "perform (Call_Set_Power powers zero_is_max) = setTxPower powers zero_is_max"
| "perform (Call_Set_Power_Dbm dbms) = setTxPowerDbm dbms"
| "perform (Call_Start_Access op targets n i) = startAccess op targets n i"
| "perform (Call_Next_Access op targets n i) = nextAccess op targets n i"
| "perform (Call_Apply_Config new u) = discard (apply_config new u)"
| "perform (Call_Update_Config new) = update_config new"
| "perform (Edit_Config a cfg) = modifyA (\<lambda>c. c\<lparr>objects := (objects c)(a := cfg)\<rparr>)"

text \<open>Exceptions end their handler; the client carries on with the next input.\<close>

definition client_run :: "client_input list \<Rightarrow> client \<Rightarrow> client" where
  "client_run inputs c = fold (\<lambda>i c. snd (perform i c)) inputs c"

lemma client_run_simps [simp]:
  "client_run [] c = c" "client_run (i # is) c = client_run is (snd (perform i c))"
  "client_run (is @ js) c = client_run js (client_run is c)"
  by (simp_all add: client_run_def)

end
