(* ===== verification/Reader_Client.thy ===== *)
theory Reader_Client
  imports Client_Runs Framing Dedup
begin

text \<open>
  \<open>LLRPReaderClient\<close> of \<^verbatim>\<open>sllurp/llrp.py\<close>: the owner of the socket, with its callback lists,
  reconnection, the duration timer and the receive loop.  The protocol client is its part
  \<open>llrp\<close>; whether there is a socket is \<open>transport_up\<close> of that client, since the client writes to
  it.  What the protocol client tells the reader client (state changes, the closing of the
  session, the end of a transition) are events, taken over in order when the call returns.
  Callbacks of the application are named by numbers and their calls recorded in \<open>calls\<close>.
  The outcomes of connecting, the interruptions of the waits between two attempts and the clock
  readings are scripts of the environment, and so is the room on the interpreter's stack that
  decoding a message finds (\<open>stack_room\<close>).
\<close>

section \<open>State\<close>

datatype message_callback = Tag_Report_Handler | Event_Handler | User_Message nat

datatype callback_call =
    State_Called nat reader_state
  | Message_Called nat string
  | Tags_Called nat pyval
  | Event_Called nat pyval
  | Disconnected_Called nat
  | Transition_Called nat bool
  | Connection_Opened

record reader =
  llrp :: client
  port_explicit :: bool
  port :: int
  reader_cfg :: nat
  deduplicator :: "dedup option"
  thread_running :: bool
  in_main_loop :: bool
  disconnect_requested :: bool
  stop_main_loop :: bool
  disconnected_notified :: bool
  duration_timer :: "nat option"
  duration_timers_armed :: "nat list"
  duration_timers_fired :: "nat list"
  next_duration_timer :: nat
  frame :: rx_state
  state_callbacks :: "reader_state \<Rightarrow> nat list"
  message_callbacks :: "string \<Rightarrow> message_callback list"
  tag_report_callbacks :: "nat list"
  event_callbacks :: "nat list"
  disconnected_callbacks :: "nat list"
  connect_results :: "py_error option list"
  wait_results :: "bool list"
  clock :: "nat \<Rightarrow> rat"
  clock_reads :: nat
  stack_room :: nat
  calls :: "callback_call list"

type_synonym 'a reader_command = "(reader, 'a) act"

definition reader_settings :: "reader \<Rightarrow> reader_config" where
  "reader_settings r = objects (llrp r) (reader_cfg r)"

definition LLRP_DEFAULT_PORT :: int where "LLRP_DEFAULT_PORT = 5084"
definition LLRP_SECURE_PORT :: int where "LLRP_SECURE_PORT = 5085"

definition default_port :: "reader_config \<Rightarrow> int" where
  "default_port cfg = (if py_true (tls_enabled cfg) then LLRP_SECURE_PORT else LLRP_DEFAULT_PORT)"

definition build_tag_deduplicator :: "reader_config \<Rightarrow> dedup option res" where
  "build_tag_deduplicator cfg =
    (if dedup_seconds cfg = PNone then Inr None
     else bindE (py_int (dedup_max_entries cfg)) (\<lambda>limit.
       bindE (new_dedup (py_number (dedup_seconds cfg)) (rf_telemetry_mode cfg \<noteq> PStr ''off'') None limit False)
         (\<lambda>d. Inr (Some d))))"

text \<open>A new client; the configuration object has the address 0.\<close>

definition new_reader :: "client \<Rightarrow> int option \<Rightarrow> py_error option list \<Rightarrow> bool list \<Rightarrow> (nat \<Rightarrow> rat) \<Rightarrow> nat \<Rightarrow> reader res" where
  "new_reader c explicit connects waits time stack =
    (let cfg = current_config c in
     bindE (build_tag_deduplicator cfg) (\<lambda>d. Inr \<lparr>llrp = c\<lparr>transport_up := False\<rparr>,
       port_explicit = (explicit \<noteq> None),
       port = (case explicit of None \<Rightarrow> default_port cfg | Some p \<Rightarrow> p),
       reader_cfg = config c, deduplicator = d, thread_running = False, in_main_loop = False, disconnect_requested = False,
       stop_main_loop = False, disconnected_notified = False, duration_timer = None,
       duration_timers_armed = [], duration_timers_fired = [], next_duration_timer = 0, frame = idle,
       state_callbacks = (\<lambda>_. []), message_callbacks = (\<lambda>_. []), tag_report_callbacks = [],
       event_callbacks = [], disconnected_callbacks = [], connect_results = connects, wait_results = waits,
       clock = time, clock_reads = 0, stack_room = stack, calls = []\<rparr>))"

section \<open>Callback lists\<close>

definition add_callback :: "'a \<Rightarrow> 'a list \<Rightarrow> 'a list" where
  "add_callback cb cbs = (if cb \<in> set cbs then cbs else cbs @ [cb])"

definition remove_callback :: "'a \<Rightarrow> 'a list \<Rightarrow> 'a list" where
  "remove_callback cb cbs = (if cb \<in> set cbs then remove1 cb cbs else cbs)"

definition add_state_callback :: "reader_state \<Rightarrow> nat \<Rightarrow> reader \<Rightarrow> reader" where
  "add_state_callback s cb r = r\<lparr>state_callbacks := (state_callbacks r)(s := add_callback cb (state_callbacks r s))\<rparr>"

definition remove_state_callback :: "reader_state \<Rightarrow> nat \<Rightarrow> reader \<Rightarrow> reader" where
  "remove_state_callback s cb r = r\<lparr>state_callbacks := (state_callbacks r)(s := remove_callback cb (state_callbacks r s))\<rparr>"

definition clear_state_callback :: "reader_state \<Rightarrow> reader \<Rightarrow> reader" where
  "clear_state_callback s r = r\<lparr>state_callbacks := (state_callbacks r)(s := [])\<rparr>"

definition add_message_callback :: "string \<Rightarrow> message_callback \<Rightarrow> reader \<Rightarrow> reader" where
  "add_message_callback name cb r =
    r\<lparr>message_callbacks := (message_callbacks r)(name := add_callback cb (message_callbacks r name))\<rparr>"

definition remove_message_callback :: "string \<Rightarrow> message_callback \<Rightarrow> reader \<Rightarrow> reader" where
  "remove_message_callback name cb r =
    r\<lparr>message_callbacks := (message_callbacks r)(name := remove_callback cb (message_callbacks r name))\<rparr>"

definition clear_message_callback :: "string option \<Rightarrow> reader \<Rightarrow> reader" where
  "clear_message_callback name r = (case name of
     Some n \<Rightarrow> if n \<noteq> '''' then r\<lparr>message_callbacks := (message_callbacks r)(n := [])\<rparr>
       else r\<lparr>message_callbacks := (\<lambda>_. [])\<rparr>
   | None \<Rightarrow> r\<lparr>message_callbacks := (\<lambda>_. [])\<rparr>)"

definition add_tag_report_callback :: "nat \<Rightarrow> reader \<Rightarrow> reader" where
  "add_tag_report_callback cb r = (let r = add_message_callback ''RO_ACCESS_REPORT'' Tag_Report_Handler r in
     r\<lparr>tag_report_callbacks := add_callback cb (tag_report_callbacks r)\<rparr>)"

definition remove_tag_report_callback :: "nat \<Rightarrow> reader \<Rightarrow> reader" where
  "remove_tag_report_callback cb r = r\<lparr>tag_report_callbacks := remove_callback cb (tag_report_callbacks r)\<rparr>"

definition clear_tag_report_callback :: "reader \<Rightarrow> reader" where
  "clear_tag_report_callback r = r\<lparr>tag_report_callbacks := []\<rparr>"

definition add_event_callback :: "nat \<Rightarrow> reader \<Rightarrow> reader" where
  "add_event_callback cb r = (let r = add_message_callback ''READER_EVENT_NOTIFICATION'' Event_Handler r in
     r\<lparr>event_callbacks := add_callback cb (event_callbacks r)\<rparr>)"

definition remove_event_callback :: "nat \<Rightarrow> reader \<Rightarrow> reader" where
  "remove_event_callback cb r = r\<lparr>event_callbacks := remove_callback cb (event_callbacks r)\<rparr>"

definition clear_event_callback :: "reader \<Rightarrow> reader" where
  "clear_event_callback r = r\<lparr>event_callbacks := []\<rparr>"

definition add_disconnected_callback :: "nat \<Rightarrow> reader \<Rightarrow> reader" where
  "add_disconnected_callback cb r = r\<lparr>disconnected_callbacks := add_callback cb (disconnected_callbacks r)\<rparr>"

definition remove_disconnected_callback :: "nat \<Rightarrow> reader \<Rightarrow> reader" where
  "remove_disconnected_callback cb r = r\<lparr>disconnected_callbacks := remove_callback cb (disconnected_callbacks r)\<rparr>"

definition clear_disconnected_callback :: "reader \<Rightarrow> reader" where
  "clear_disconnected_callback r = r\<lparr>disconnected_callbacks := []\<rparr>"

definition record_calls :: "callback_call list \<Rightarrow> unit reader_command" where
  "record_calls cs = modifyA (\<lambda>r. r\<lparr>calls := calls r @ cs\<rparr>)"

section \<open>The duration timer\<close>

definition cancel_duration_timer :: "unit reader_command" where
  "cancel_duration_timer = modifyA (\<lambda>r. r\<lparr>duration_timer := None,
     duration_timers_armed := (case duration_timer r of None \<Rightarrow> duration_timers_armed r
       | Some t \<Rightarrow> filter (\<lambda>u. u \<noteq> t) (duration_timers_armed r))\<rparr>)"

definition schedule_duration_disconnect :: "unit reader_command" where
  "schedule_duration_disconnect = thenA cancel_duration_timer (readA (\<lambda>r.
     let cfg = reader_settings r in
     if \<not> py_true (disconnect_when_done cfg) \<or> duration cfg = PNone then retA ()
     else bindA (liftA (py_le (duration cfg) (PInt 0))) (\<lambda>none. if none then retA ()
       else modifyA (\<lambda>r. r\<lparr>duration_timer := Some (next_duration_timer r),
         duration_timers_armed := duration_timers_armed r @ [next_duration_timer r],
         next_duration_timer := Suc (next_duration_timer r)\<rparr>))))"

section \<open>What the protocol client tells\<close>

definition on_disconnected :: "unit reader_command" where
  "on_disconnected = thenA cancel_duration_timer (readA (\<lambda>r.
     if disconnected_notified r then retA ()
     else thenA (modifyA (\<lambda>r. r\<lparr>disconnected_notified := True\<rparr>))
       (record_calls (map Disconnected_Called (disconnected_callbacks r)))))"

definition on_llrp_state_changed :: "reader_state \<Rightarrow> unit reader_command" where
  "on_llrp_state_changed s =
    thenA (if s = STATE_INVENTORYING then schedule_duration_disconnect
           else if s = STATE_DISCONNECTED then cancel_duration_timer else retA ())
    (readA (\<lambda>r. record_calls (map (\<lambda>cb. State_Called cb s) (state_callbacks r s))))"

text \<open>The part of \<open>hard_disconnect\<close> about the reader client itself.\<close>

definition session_closed :: "unit reader_command" where
  "session_closed = thenA cancel_duration_timer
     (modifyA (\<lambda>r. r\<lparr>frame := idle, stop_main_loop := True\<rparr>))"

text \<open>The closure \<open>completed\<close> of \<open>apply_config\<close>.\<close>

definition config_applied :: "nat \<Rightarrow> nat \<Rightarrow> bool \<Rightarrow> reader_state \<Rightarrow> unit reader_command" where
  "config_applied old new ok s =
    (if ok
     then thenA (modifyA (\<lambda>r. r\<lparr>reader_cfg := new\<rparr>)) (readA (\<lambda>r.
       bindA (liftA (build_tag_deduplicator (reader_settings r))) (\<lambda>d.
       thenA (modifyA (\<lambda>r. r\<lparr>deduplicator := d\<rparr>))
       (whenA (s = STATE_INVENTORYING) schedule_duration_disconnect))))
     else modifyA (\<lambda>r. r\<lparr>reader_cfg := old\<rparr>))"

definition on_client_event :: "client_event \<Rightarrow> unit reader_command" where
  "on_client_event ev = (case ev of
     State_Changed s \<Rightarrow> on_llrp_state_changed s
   | Reader_Applied old new ok s \<Rightarrow> config_applied old new ok s
   | Session_Closed \<Rightarrow> session_closed
   | Disconnect_Finished \<Rightarrow> on_disconnected
   | User_Called u s ok \<Rightarrow> retA ()
   | Transition_Notified u t \<Rightarrow> retA ())"

definition new_events :: "client \<Rightarrow> client \<Rightarrow> client_event list" where
  "new_events c c' = drop (length (events c)) (events c')"

text \<open>A call of the protocol client.\<close>

definition on_client :: "'a command \<Rightarrow> 'a reader_command" where
  "on_client m = (\<lambda>r. case m (llrp r) of (result, c) \<Rightarrow>
     (case forA on_client_event (new_events (llrp r) c) (r\<lparr>llrp := c\<rparr>) of
        (Inl e, r') \<Rightarrow> (case result of Inl e0 \<Rightarrow> (Inl e0, r') | Inr _ \<Rightarrow> (Inl e, r'))
      | (Inr _, r') \<Rightarrow> (result, r')))"

section \<open>Connecting\<close>

definition reset_session :: "unit reader_command" where
  "reset_session = thenA (modifyA (\<lambda>r. r\<lparr>frame := idle\<rparr>)) (on_client reset_protocol_session)"

definition hard_disconnect :: "unit reader_command" where
  "hard_disconnect = on_client close_session"

definition socket_opened :: "unit reader_command" where
  "socket_opened = thenA (on_client (modifyA (\<lambda>c. c\<lparr>transport_up := True\<rparr>)))
    (thenA (modifyA (\<lambda>r. r\<lparr>disconnected_notified := False\<rparr>)) (record_calls [Connection_Opened]))"

definition connect_socket :: "unit reader_command" where
  "connect_socket = readA (\<lambda>r. if transport_up (llrp r) then throwA ReaderConfigurationError
     else case connect_results r of
       [] \<Rightarrow> socket_opened
     | None # rs \<Rightarrow> thenA (modifyA (\<lambda>r. r\<lparr>connect_results := rs\<rparr>)) socket_opened
     | Some e # rs \<Rightarrow> thenA (modifyA (\<lambda>r. r\<lparr>connect_results := rs\<rparr>)) (throwA e))"

text \<open>\<open>disconnect_requested.wait(reconnect_delay)\<close>; it answers whether it was interrupted.\<close>

definition wait_delay :: "reader \<Rightarrow> bool \<times> reader" where
  "wait_delay r = (case wait_results r of
     [] \<Rightarrow> (False, r)
   | b # bs \<Rightarrow> (b, r\<lparr>wait_results := bs, disconnect_requested := b \<or> disconnect_requested r\<rparr>))"

text \<open>The loop of \<open>_retry_connect\<close>; \<open>None\<close> is a loop that never ends.\<close>

partial_function (option) retry_loop :: "rat option \<Rightarrow> py_error option \<Rightarrow> reader \<Rightarrow> (bool res \<times> reader) option" where
  "retry_loop remaining last_error r =
    (if remaining = Some 0 \<or> disconnect_requested r
     then Some (case last_error of None \<Rightarrow> Inr False | Some e \<Rightarrow> Inl e, r)
     else case connect_socket r of
       (Inr _, r) \<Rightarrow> Some (Inr True, r)
     | (Inl e, r) \<Rightarrow> (case remaining of
         None \<Rightarrow> Some (Inl TypeError, r)
       | Some n \<Rightarrow> let n = (if n > 0 then n - 1 else n) in
           if n = 0 then Some (Inl e, r)
           else (case wait_delay r of (interrupted, r) \<Rightarrow>
             if interrupted then Some (Inl e, r) else retry_loop (Some n) (Some e) r)))"

definition retry_connect :: "reader \<Rightarrow> (unit res \<times> reader) option" where
  "retry_connect r = (case retry_loop (py_number (reconnect_retries (reader_settings r))) None r of
     None \<Rightarrow> None
   | Some (Inl e, r) \<Rightarrow> Some (Inl e, r)
   | Some (Inr recovered, r) \<Rightarrow> Some (if recovered then Inr () else Inl OSError, r))"

definition connect :: "bool \<Rightarrow> reader \<Rightarrow> (unit res \<times> reader) option" where
  "connect start_main_loop r =
    (if thread_running r then Some (Inl ReaderConfigurationError, r)
     else let start = (if start_main_loop then modifyA (\<lambda>r. r\<lparr>stop_main_loop := False, thread_running := True\<rparr>) else retA ())
       in case thenA (modifyA (\<lambda>r. r\<lparr>disconnect_requested := False\<rparr>)) (thenA reset_session connect_socket) r of
         (Inr _, r) \<Rightarrow> Some (start r)
       | (Inl e, r) \<Rightarrow> if \<not> py_true (reconnect (reader_settings r)) then Some (Inl e, r)
           else (case retry_connect r of
               None \<Rightarrow> None
             | Some (Inr _, r) \<Rightarrow> Some (start r)
             | Some (Inl e, r) \<Rightarrow> Some (thenA on_disconnected (throwA e) r)))"

definition disconnect :: "unit reader_command" where
  "disconnect = thenA (modifyA (\<lambda>r. r\<lparr>disconnect_requested := True\<rparr>)) (readA (\<lambda>r.
     if \<not> thread_running r then thenA hard_disconnect on_disconnected
     else on_client (stopPolitely (Some Disconnect_Cb) True)))"

definition duration_timer_fires :: "nat \<Rightarrow> unit reader_command" where
  "duration_timer_fires t = modifyA (\<lambda>r. if t \<in> set (duration_timers_armed r)
     then r\<lparr>duration_timers_armed := remove1 t (duration_timers_armed r),
            duration_timers_fired := duration_timers_fired r @ [t]\<rparr>
     else r)"

definition duration_expired :: "unit reader_command" where
  "duration_expired = thenA (modifyA (\<lambda>r. r\<lparr>duration_timer := None\<rparr>)) (readA (\<lambda>r.
     whenA (transport_up (llrp r) \<and> \<not> disconnect_requested r) disconnect))"

definition duration_timer_runs :: "nat \<Rightarrow> unit reader_command" where
  "duration_timer_runs i = readA (\<lambda>r. if i < length (duration_timers_fired r)
     then thenA (modifyA (\<lambda>r. r\<lparr>duration_timers_fired :=
         take i (duration_timers_fired r) @ drop (Suc i) (duration_timers_fired r)\<rparr>)) duration_expired
     else retA ())"

text \<open>Whether the connection is definitively lost.\<close>

definition on_lost_connection :: "reader \<Rightarrow> (bool \<times> reader) option" where
  "on_lost_connection r =
    (let give_up = (\<lambda>r. Some (True, snd (on_disconnected r)));
         r = snd (on_client (setState STATE_DISCONNECTED) r)
     in if disconnect_requested r then give_up (snd (hard_disconnect r))
     else let r = snd (thenA (handleA hard_disconnect (\<lambda>_. retA ())) reset_session r)
       in if \<not> py_true (reconnect (reader_settings r)) then give_up r
       else case retry_connect r of
           None \<Rightarrow> None
         | Some (Inr _, r) \<Rightarrow> Some (False, r)
         | Some (Inl _, r) \<Rightarrow> give_up r)"

section \<open>Receiving\<close>

text \<open>What a deduplicator iterates over.\<close>

definition report_dict :: "pyval \<Rightarrow> pydict res" where
  "report_dict v = (case v of PDict d \<Rightarrow> Inr d | _ \<Rightarrow> Inl TypeError)"

definition read_clock :: "rat reader_command" where
  "read_clock = readA (\<lambda>r. thenA (modifyA (\<lambda>r. r\<lparr>clock_reads := Suc (clock_reads r)\<rparr>)) (retA (clock r (clock_reads r))))"

definition deduplicate :: "dedup \<Rightarrow> pyval \<Rightarrow> pyval reader_command" where
  "deduplicate d reports =
    bindA (liftA (py_iter reports)) (\<lambda>reports.
    if window_seconds d = 0 then retA (PList reports)
    else bindA (liftA (mapE report_dict reports)) (\<lambda>tags.
       bindA read_clock (\<lambda>now. case filter_reports d now tags of (d, unique) \<Rightarrow>
         thenA (modifyA (\<lambda>r. r\<lparr>deduplicator := Some d\<rparr>)) (retA (PList (map PDict unique))))))"

definition on_llrp_tag_report :: "pydict \<Rightarrow> unit reader_command" where
  "on_llrp_tag_report md =
    bindA (liftA (py_item (PDict md) ''TagReportData'')) (\<lambda>reports. readA (\<lambda>r.
      let deliver = (\<lambda>v. readA (\<lambda>r. record_calls (map (\<lambda>cb. Tags_Called cb v) (tag_report_callbacks r)))) in
      case (dedup_backend_active (llrp r) = ''memory'', deduplicator r) of
        (True, Some d) \<Rightarrow> bindA (deduplicate d reports) (\<lambda>v. whenA (py_true v) (deliver v))
      | _ \<Rightarrow> deliver reports))"

definition on_llrp_event_notification :: "pydict \<Rightarrow> unit reader_command" where
  "on_llrp_event_notification md =
    bindA (liftA (py_item (PDict md) ''ReaderEventNotificationData'')) (\<lambda>v. readA (\<lambda>r.
      record_calls (map (\<lambda>cb. Event_Called cb v) (event_callbacks r))))"

definition run_message_callback :: "string \<Rightarrow> pydict \<Rightarrow> message_callback \<Rightarrow> unit reader_command" where
  "run_message_callback name md cb = (case cb of
     Tag_Report_Handler \<Rightarrow> on_llrp_tag_report md
   | Event_Handler \<Rightarrow> on_llrp_event_notification md
   | User_Message u \<Rightarrow> record_calls [Message_Called u name])"

text \<open>The list is copied first; exceptions of callbacks are logged and ignored.\<close>

definition on_llrp_message_received :: "string \<Rightarrow> pydict \<Rightarrow> unit reader_command" where
  "on_llrp_message_received name md = readA (\<lambda>r.
     forA (\<lambda>cb. handleA (run_message_callback name md cb) (\<lambda>_. retA ())) (message_callbacks r name))"

definition deliver_message :: "reader handler" where
  "deliver_message m r = (case m of (name, md) \<Rightarrow>
     (case thenA (on_llrp_message_received name md) (on_client (handleMessage name md)) r of
        (Inl e, r) \<Rightarrow> (r, Some e) | (Inr _, r) \<Rightarrow> (r, None)))"

definition message_limit :: "reader_config \<Rightarrow> nat option" where
  "message_limit cfg = (case max_message_size cfg of PInt i \<Rightarrow> Some (nat i) | _ \<Rightarrow> None)"

definition receive_data :: "bytes \<Rightarrow> unit reader_command" where
  "receive_data data = (\<lambda>r. case raw_data_received (stack_room r) (message_limit (reader_settings r)) deliver_message
       data (frame r) r of
     (f, r, err) \<Rightarrow> (case err of None \<Rightarrow> Inr () | Some e \<Rightarrow> Inl e, r\<lparr>frame := f\<rparr>))"

text \<open>
  The receive thread; a round is one pass of the loop in \<open>main_loop\<close>.  If another thread closed the
  socket, the first round ends the thread at once, and a later one fails in \<open>select\<close>.
\<close>

text \<open>What one round of \<open>select\<close> and \<open>recv\<close> brings: data, nothing, or a socket error.\<close>

datatype received = Data bytes | Socket_Error

definition end_thread :: "reader \<Rightarrow> reader option" where
  "end_thread r = Some (r\<lparr>thread_running := False, in_main_loop := False\<rparr>)"

text \<open>The end of a round of \<open>main_loop\<close>.\<close>

definition end_round :: "bool \<Rightarrow> reader \<Rightarrow> reader option" where
  "end_round lost r =
    (if stop_main_loop r then end_thread r
     else if lost then (case on_lost_connection r of
         None \<Rightarrow> None
       | Some (definitive, r) \<Rightarrow> if definitive then end_thread r else Some (r\<lparr>stop_main_loop := False\<rparr>))
     else Some r)"

definition drop_connection :: "unit reader_command" where
  "drop_connection = thenA (handleA hard_disconnect (\<lambda>_. retA ())) on_disconnected"

definition main_loop_round :: "received \<Rightarrow> reader \<Rightarrow> reader option" where
  "main_loop_round input r =
    (if \<not> thread_running r then Some r
     else if \<not> transport_up (llrp r)
     then end_thread (if in_main_loop r then snd (drop_connection r) else r)
     else let r = r\<lparr>in_main_loop := True\<rparr> in case input of
       Socket_Error \<Rightarrow> end_round True r
     | Data data \<Rightarrow> if data = [] then end_round True r
         else (case receive_data data r of
             (Inr _, r) \<Rightarrow> end_round False r
           | (Inl e, r) \<Rightarrow>
               if e = OSError then end_round True r
               else if e = ReaderConfigurationError then end_round False (snd (thenA hard_disconnect on_disconnected r))
               else end_thread (snd (drop_connection r))))"

section \<open>Configuration and access operations\<close>

definition reader_update_config :: "nat \<Rightarrow> unit reader_command" where
  "reader_update_config new =
    thenA (on_client (validate_object new))
    (readA (\<lambda>r. let cfg = objects (llrp r) new in
     if transport_up (llrp r) \<or> thread_running r \<or> state (llrp r) \<noteq> STATE_DISCONNECTED
     then throwA ReaderConfigurationError
     else bindA (liftA (build_tag_deduplicator cfg)) (\<lambda>d.
       thenA (on_client (update_config new))
       (modifyA (\<lambda>r. r\<lparr>reader_cfg := new, deduplicator := d,
          port := (if port_explicit r then port r else default_port (objects (llrp r) new))\<rparr>)))))"

text \<open>The transition that ends at once, while there is no session.\<close>

definition finished_transition :: "reader \<Rightarrow> nat \<Rightarrow> transition" where
  "finished_transition r new = succeed (new_transition (build_config_transition_plan power_eq
     (config_vars (reader_settings r)) (config_vars (objects (llrp r) new))) (reader_cfg r) new)"

definition reader_apply_config :: "nat \<Rightarrow> nat option \<Rightarrow> transition reader_command" where
  "reader_apply_config new user =
    thenA (on_client (validate_object new)) (readA (\<lambda>r.
    if \<not> transport_up (llrp r) \<and> \<not> thread_running r \<and> state (llrp r) = STATE_DISCONNECTED
    then thenA (reader_update_config new)
      (thenA (record_calls (case user of None \<Rightarrow> [] | Some u \<Rightarrow> [Transition_Called u True]))
      (retA (finished_transition r new)))
    else bindA (on_client (apply_config new (Some (Notify_Reader (reader_cfg r) new user)))) (\<lambda>t.
      readA (\<lambda>r. retA (transitions (llrp r) ! t)))))"

definition start_access_spec :: "op_spec \<Rightarrow> target_tag list \<Rightarrow> int \<Rightarrow> int \<Rightarrow> unit reader_command" where
  "start_access_spec op targets stop_after_count access_spec_id =
    thenA (liftA (raise_if (length targets > 2) ValueError))
      (on_client (startAccess op targets (max 0 stop_after_count) access_spec_id))"

section \<open>Several readers\<close>

definition disconnect_unless_requested :: "reader \<Rightarrow> reader" where
  "disconnect_unless_requested r = snd (whenA (\<not> disconnect_requested r) disconnect r)"

definition disconnect_all_readers :: "bool \<Rightarrow> reader list \<Rightarrow> reader list" where
  "disconnect_all_readers force rs =
    (let rs = map disconnect_unless_requested rs
     in if force then map (\<lambda>r. snd (hard_disconnect r)) rs else rs)"

section \<open>Runs\<close>

datatype callback_change =
    Add_State reader_state nat | Remove_State reader_state nat | Clear_State reader_state
  | Add_Message string nat | Remove_Message string nat | Clear_Message "string option"
  | Add_Tags nat | Remove_Tags nat | Clear_Tags
  | Add_Event nat | Remove_Event nat | Clear_Event
  | Add_Disconnected nat | Remove_Disconnected nat | Clear_Disconnected

fun change_callbacks :: "callback_change \<Rightarrow> reader \<Rightarrow> reader" where
  "change_callbacks (Add_State s cb) = add_state_callback s cb"
| "change_callbacks (Remove_State s cb) = remove_state_callback s cb"
| "change_callbacks (Clear_State s) = clear_state_callback s"
| "change_callbacks (Add_Message n cb) = add_message_callback n (User_Message cb)"
| "change_callbacks (Remove_Message n cb) = remove_message_callback n (User_Message cb)"
| "change_callbacks (Clear_Message n) = clear_message_callback n"
| "change_callbacks (Add_Tags cb) = add_tag_report_callback cb"
| "change_callbacks (Remove_Tags cb) = remove_tag_report_callback cb"
| "change_callbacks Clear_Tags = clear_tag_report_callback"
| "change_callbacks (Add_Event cb) = add_event_callback cb"
| "change_callbacks (Remove_Event cb) = remove_event_callback cb"
| "change_callbacks Clear_Event = clear_event_callback"
| "change_callbacks (Add_Disconnected cb) = add_disconnected_callback cb"
| "change_callbacks (Remove_Disconnected cb) = remove_disconnected_callback cb"
| "change_callbacks Clear_Disconnected = clear_disconnected_callback"

text \<open>\<open>On_Client\<close>: timers of the protocol client, and the application's direct use of it.\<close>

datatype reader_input =
    Call_Connect bool
  | Round received
  | Reader_Disconnect
  | Reader_Hard_Disconnect
  | Duration_Fires nat
  | Duration_Runs nat
  | Change callback_change
  | Reader_Update nat
  | Reader_Apply nat "nat option"
  | Reader_Access op_spec "target_tag list" int int
  | On_Client client_input

fun reader_step :: "reader_input \<Rightarrow> reader \<Rightarrow> reader option" where
  "reader_step (Call_Connect b) r = map_option snd (connect b r)"
| "reader_step (Round x) r = main_loop_round x r"
| "reader_step Reader_Disconnect r = Some (snd (disconnect r))"
| "reader_step Reader_Hard_Disconnect r = Some (snd (hard_disconnect r))"
| "reader_step (Duration_Fires t) r = Some (snd (duration_timer_fires t r))"
| "reader_step (Duration_Runs i) r = Some (snd (duration_timer_runs i r))"
| "reader_step (Change x) r = Some (change_callbacks x r)"
| "reader_step (Reader_Update new) r = Some (snd (reader_update_config new r))"
| "reader_step (Reader_Apply new u) r = Some (snd (reader_apply_config new u r))"
| "reader_step (Reader_Access op ts n i) r = Some (snd (start_access_spec op ts n i r))"
| "reader_step (On_Client x) r = Some (snd (on_client (perform x) r))"

fun reader_run :: "reader_input list \<Rightarrow> reader \<Rightarrow> reader option" where
  "reader_run [] r = Some r"
| "reader_run (i # is) r = (case reader_step i r of None \<Rightarrow> None | Some r \<Rightarrow> reader_run is r)"

end
