(* ===== verification/Client_Relations.thy ===== *)
theory Client_Relations
  imports Client_Runs
begin

text \<open>
  The interface between the protocol client and its sending half.  The client touches its
  request table, its outgoing messages and its pause timers only through a few primitives; the locale states what
  a relation between two client states must satisfy for these primitives, and carries it once
  through every operation, callback and handler, up to all runs.  The theories of the request
  table, of the outgoing messages and of the pause timers interpret it.
\<close>

text \<open>The fields of the request table, of the outgoing messages and of the pause timers.\<close>

definition request_view where
  "request_view c = (deferreds c, pending_requests c, sending_registered_request c, reserved_message_id c)"

definition message_view where
  "message_view c = (last_msg_id c, tx_results c, outbox c)"

definition pause_view where
  "pause_view c = (pause_resume_timer c, pause_resume_generation c, pause_timers_armed c, pause_timers_fired c)"

definition client_view where
  "client_view c = (request_view c, message_view c, pause_view c)"

lemmas views = client_view_def request_view_def message_view_def pause_view_def

lemma then_modify: "thenA (modifyA g) m c = m (g c)"
  by (simp add: act_simps)

text \<open>Messages of the protocol proper whose identifier is left to the client.\<close>

definition plain_message :: "pydict \<Rightarrow> bool" where
  "plain_message msg \<longleftrightarrow> list_all (\<lambda>(name, body). name \<noteq> ''CUSTOM_MESSAGE'' \<and> py_get body ''ID'' PNone = Inr PNone) msg"

section \<open>Sending\<close>

text \<open>What \<open>sendMessage\<close> can change.\<close>

definition sends_only :: "client \<Rightarrow> client \<Rightarrow> bool" where
  "sends_only c c' \<longleftrightarrow> (\<exists>i rs sent. c' = c\<lparr>last_msg_id := i, tx_results := rs, outbox := sent\<rparr>)"

interpretation sk: state_relation sends_only
proof
  show "sends_only c c" for c
    unfolding sends_only_def
    by (intro exI [of _ "last_msg_id c"] exI [of _ "tx_results c"] exI [of _ "outbox c"]) simp
qed (force simp: sends_only_def)

lemma sends_only_update: "sends_only c (c\<lparr>last_msg_id := i\<rparr>)" "sends_only c (c\<lparr>tx_results := rs\<rparr>)"
    "sends_only c (c\<lparr>outbox := sent\<rparr>)" "sends_only c (c\<lparr>tx_results := rs, outbox := sent\<rparr>)"
proof -
  have "sends_only c (c\<lparr>last_msg_id := j, tx_results := qs, outbox := ms\<rparr>)" for j qs ms
    unfolding sends_only_def by blast
  from this [where j = i and qs = "tx_results c" and ms = "outbox c"]
    this [where j = "last_msg_id c" and qs = rs and ms = "outbox c"]
    this [where j = "last_msg_id c" and qs = "tx_results c" and ms = sent]
    this [where j = "last_msg_id c" and qs = rs and ms = sent]
  show "sends_only c (c\<lparr>last_msg_id := i\<rparr>)" "sends_only c (c\<lparr>tx_results := rs\<rparr>)"
    "sends_only c (c\<lparr>outbox := sent\<rparr>)" "sends_only c (c\<lparr>tx_results := rs, outbox := sent\<rparr>)"
    by simp_all
qed

lemma next_message_id_sends: "keeps sends_only next_message_id"
  unfolding next_message_id_def Let_def
  by (intro sk.kept sk.modifyA sends_only_update)

lemma transport_sends: "keeps sends_only (transport_tx_write b)"
  unfolding transport_tx_write_def
  by (rule sk.readA) (auto intro!: sk.kept sk.modifyA sends_only_update split: if_split list.split option.split)

lemma assign_id_sends: "keeps sends_only (assign_message_id nm)"
  unfolding assign_message_id_def
  by (cases nm) (auto intro!: sk.kept sk.modifyA sends_only_update next_message_id_sends)

lemma assign_ids_sends: "keeps sends_only (assign_message_ids msg)"
  by (induction msg) (auto intro!: sk.kept assign_id_sends)

lemma sendMessage_sends: "keeps sends_only (sendMessage msg)"
  unfolding sendMessage_def prepare_message_def
  by (auto intro!: sk.kept assign_ids_sends transport_sends)

text \<open>Not a message that \<open>handleMessage\<close> discards as stale or as a stranger to a pending request.\<close>

definition answered :: "string \<Rightarrow> client \<Rightarrow> bool" where
  "answered name c \<longleftrightarrow> \<not> unmatched_response name (response_message_id c) c"

lemma answered_cong:
  "pending_requests c' = pending_requests c \<Longrightarrow> response_message_id c' = response_message_id c \<Longrightarrow>
     answered name c' = answered name c"
  by (simp add: answered_def unmatched_response_def split: option.split)

section \<open>Actions that run before a response is matched\<close>

text \<open>Parsing the capabilities sends nothing unless an inventory runs.\<close>

definition quiet :: "client \<Rightarrow> client \<Rightarrow> bool" where
  "quiet c c' \<longleftrightarrow> (state c \<noteq> STATE_INVENTORYING \<longrightarrow> state c' = state c \<and>
     pending_requests c' = pending_requests c \<and> response_message_id c' = response_message_id c)"

interpretation qk: state_relation quiet
  by unfold_locales (auto simp: quiet_def)

lemma quiet_modify: "(\<And>c. quiet c (g c)) \<Longrightarrow> keeps quiet (modifyA g)"
  by (rule qk.modifyA)

lemma install_powers_quiet: "keeps quiet (install_powers ps)"
proof (induction ps)
  case (Cons p ps)
  have "keeps quiet (install_power ant i)" for ant i
    unfolding install_power_def update_current_def
    by (rule qk.readA) (auto intro!: qk.kept quiet_modify simp: quiet_def split: power_setting.split pyval.split)
  with Cons show ?case by (cases p) (auto intro!: qk.kept)
qed (auto intro!: qk.kept)

lemma setTxPower_quiet: "keeps quiet (setTxPower ps z)"
  unfolding keeps_def
proof
  fix c
  let ?m = "bindA (liftA (get_tx_power c ps z)) (\<lambda>v. bindA (install_powers v) (\<lambda>u.
    whenA (u \<and> state c = STATE_INVENTORYING) (stopPolitely (Some Power_Stopped_Cb) False)))"
  show "quiet c (snd (setTxPower ps z c))"
  proof (cases "state c = STATE_INVENTORYING")
    case False
    then have "keeps quiet ?m" by (auto intro!: qk.kept install_powers_quiet)
    then show ?thesis by (simp add: keeps_def setTxPower_def readA_def)
  qed (simp add: quiet_def)
qed

lemma parseCapabilities_quiet: "keeps quiet (parseCapabilities d)"
  unfolding parseCapabilities_def check_antennas_def parse_powers_def select_mode_def
    select_dedup_backend_def setTxPowerDbm_def update_current_def Let_def
  by (auto intro!: qk.kept quiet_modify setTxPower_quiet simp: quiet_def split: power_setting.split)

text \<open>What holds before a response is matched, and which actions leave it so.\<close>

definition keeps_when :: "(client \<Rightarrow> bool) \<Rightarrow> (client \<Rightarrow> client \<Rightarrow> bool) \<Rightarrow> 'a command \<Rightarrow> bool" where
  "keeps_when P Q m \<longleftrightarrow> (\<forall>c. P c \<longrightarrow> Q c (snd (m c)))"

definition prepares :: "(client \<Rightarrow> bool) \<Rightarrow> 'a command \<Rightarrow> bool" where
  "prepares P m \<longleftrightarrow> (\<forall>c. P c \<longrightarrow> P (snd (m c)))"

definition ready :: "string \<Rightarrow> client \<Rightarrow> bool" where
  "ready name c \<longleftrightarrow> answered name c \<and> state c \<noteq> STATE_INVENTORYING"

lemma prepares_modify:
  assumes "\<And>c. pending_requests (g c) = pending_requests c \<and> response_message_id (g c) = response_message_id c"
  shows "prepares (answered name) (modifyA g)"
  using assms answered_cong [of "g c" c for c] by (simp add: prepares_def act_simps)

lemma prepares_whenA: "prepares P u \<Longrightarrow> prepares P (whenA b u)"
  by (simp add: prepares_def act_simps)

lemma prepares_thenA: "prepares P u \<Longrightarrow> prepares P v \<Longrightarrow> prepares P (thenA u v)"
  by (auto simp: prepares_def act_simps split: sum.split prod.split)

lemma prepares_setState: "prepares (answered name) (setState s)"
  unfolding setState_def record_event_def cancel_pause_resume_timer_def
  by (intro prepares_thenA prepares_modify) (auto intro!: prepares_thenA prepares_whenA prepares_modify)

lemma prepares_parseReaderConfig: "prepares (answered name) (parseReaderConfig md)"
  by (auto simp: prepares_def parseReaderConfig_def act_simps answered_def unmatched_response_def
      split: sum.split prod.split option.split)

lemma ready_modify:
  assumes "\<And>c. pending_requests (g c) = pending_requests c \<and> response_message_id (g c) = response_message_id c \<and>
    state (g c) = state c"
  shows "prepares (ready name) (modifyA g)"
  using assms answered_cong [of "g c" c for c] by (simp add: prepares_def ready_def act_simps)

lemma ready_parse: "prepares (ready name) (parseCapabilities md)"
  using parseCapabilities_quiet [of md] answered_cong [of "snd (parseCapabilities md c)" c for c]
  by (auto simp: prepares_def keeps_def ready_def quiet_def)

section \<open>The interface\<close>

locale client_relation = state_relation R for R :: "client \<Rightarrow> client \<Rightarrow> bool" +
  fixes allowed :: "pydict \<Rightarrow> bool"
  assumes same_view: "client_view c' = client_view c \<Longrightarrow> R c c'"
    and allowed: "plain_message msg \<Longrightarrow> allowed msg"
    and request: "plain_message msg \<Longrightarrow> ends_with name ''_RESPONSE'' \<Longrightarrow> keeps R (send_request msg name k new_state)"
    and message: "allowed msg \<Longrightarrow> keeps R (sendMessage msg)"
    and acknowledge: "keeps R (send_KEEPALIVE_ACK mid)"
    and completion: "(\<And>k s b. keeps R (run_cont k s b)) \<Longrightarrow> answered name c \<Longrightarrow>
      R c (snd (processDeferreds name ok c))"
    and request_timer: "(\<And>k s b. keeps R (run_cont k s b)) \<Longrightarrow> keeps R (request_timer_runs i)"
    and timer_fires: "R c (c\<lparr>pending_requests := fire t (pending_requests c)\<rparr>)"
    and touched: "R c (touch_deferreds name c)"
    and reset_session: "keeps R cancel_pause_resume_timer \<Longrightarrow> keeps R reset_protocol_session"
    and cancel_pause: "keeps R cancel_pause_resume_timer"
    and schedule_pause: "keeps R (schedule_pause_resume b)"
    and pause_fires: "keeps R (pause_timer_fires pt)"
    and pause_runs: "(\<And>b. keeps R (resume_inventory b)) \<Longrightarrow> keeps R (pause_timer_runs i)"
begin

lemma frame: "(\<And>c. client_view (g c) = client_view c) \<Longrightarrow> keeps R (modifyA g)"
  by (simp add: keeps_def act_simps same_view)

lemmas rules = kept frame request message acknowledge allowed

lemma record_event: "keeps R (record_event ev)"
  unfolding record_event_def by (intro rules) (simp add: views)

lemmas pauses = cancel_pause schedule_pause record_event

lemma setState: "keeps R (setState s)"
  unfolding setState_def by (intro rules pauses; simp add: views)

lemma stops: "keeps R (stopAllROSpecs k)" "keeps R (stopPolitely k d)"
  unfolding stopAllROSpecs_def stopPolitely_def
  by (intro rules; simp add: views plain_message_def py_get_def ends_with_def)+

lemma update_current: "keeps R (update_current g)"
  unfolding update_current_def by (intro rules) (simp add: views)

lemma install_power: "keeps R (install_power ant i)"
  unfolding install_power_def
  by (rule readA) (auto intro!: rules update_current split: power_setting.split pyval.split)

lemma install_powers: "keeps R (install_powers ps)"
  by (induction ps) (auto intro!: rules install_power)

lemma powers: "keeps R (setTxPower ps z)" "keeps R (setTxPowerDbm dbms)"
  unfolding setTxPowerDbm_def setTxPower_def by (intro rules install_powers update_current stops)+

lemma parseCapabilities: "keeps R (parseCapabilities d)"
  unfolding parseCapabilities_def check_antennas_def parse_powers_def select_mode_def
    select_dedup_backend_def Let_def
  by (auto intro!: rules powers simp: views split: power_setting.split)

lemma parseReaderConfig: "keeps R (parseReaderConfig d)"
  unfolding parseReaderConfig_def by (intro rules) (simp add: views)

lemma set_config_plain_message:
  "set_reader_config_message cfg = Inr msg \<Longrightarrow> plain_message [(''SET_READER_CONFIG'', PDict msg)]"
  by (auto simp: set_reader_config_message_def res_simps plain_message_def py_get_def)

lemma lift_then: "(\<And>x. r = Inr x \<Longrightarrow> keeps R (f x)) \<Longrightarrow> keeps R (bindA (liftA r) f)"
  by (cases r) (simp_all add: keeps_def act_simps refl)

lemma handshake:
  "keeps R (send_ENABLE_IMPINJ_EXTENSIONS k)" "keeps R (send_GET_READER_CAPABILITIES k)"
  "keeps R (send_GET_READER_CONFIG k)" "keeps R send_ENABLE_EVENTS_AND_REPORTS"
  "keeps R (send_SET_READER_CONFIG k)"
  unfolding send_ENABLE_IMPINJ_EXTENSIONS_def send_GET_READER_CAPABILITIES_def
    send_GET_READER_CONFIG_def send_ENABLE_EVENTS_AND_REPORTS_def send_SET_READER_CONFIG_def
  by (intro rules lift_then set_config_plain_message; simp add: plain_message_def py_get_def ends_with_def)+

lemma rospec_requests:
  "keeps R (send_ADD_ROSPEC spec k)" "keeps R (send_ENABLE_ROSPEC spec k)" "keeps R (send_START_ROSPEC spec k)"
  unfolding send_ADD_ROSPEC_def send_ENABLE_ROSPEC_def send_START_ROSPEC_def
  by (intro rules; simp add: plain_message_def py_get_def ends_with_def)+

lemma access_messages:
  "keeps R (send_ADD_ACCESSSPEC spec k')" "keeps R (send_DISABLE_ACCESSSPEC i k)"
  "keeps R (send_ENABLE_ACCESSSPEC i k)" "keeps R (send_DELETE_ACCESSSPEC i k)"
  unfolding send_ADD_ACCESSSPEC_def send_DISABLE_ACCESSSPEC_def send_ENABLE_ACCESSSPEC_def
    send_DELETE_ACCESSSPEC_def send_access_message_def Let_def
  by (intro rules; simp add: plain_message_def py_get_def ends_with_def)+

lemma access: "keeps R (startAccess op ts n i)" "keeps R (nextAccess op ts n i)"
  unfolding startAccess_def nextAccess_def by (intro rules access_messages)+

lemma getROSpec: "keeps R (getROSpec b)"
  unfolding getROSpec_def build_rospec_def Let_def by (intro rules; simp add: views)

lemma install_runtime_config: "keeps R (install_runtime_config a)"
  unfolding install_runtime_config_def by (intro rules parseCapabilities; simp add: views)

lemma close_session: "keeps R close_session"
  unfolding close_session_def by (intro rules pauses reset_session; simp add: views)

lemma notify: "keeps R (notify_user u t)" "keeps R (notify_transition v t)"
  unfolding notify_transition_def notify_user_def Let_def
  by (auto intro!: rules pauses close_session split: option.split transition_user.split)

lemma settle: "keeps R (settle_transition g t u)"
  unfolding settle_transition_def by (intro rules notify; simp add: views)

lemma outcomes: "keeps R (env_succeed env)" "keeps R (env_fail env e)" "keeps R (abandon env e)"
  unfolding abandon_def env_succeed_def env_fail_def succeed_transition_def fail_transition_def
  by (intro rules settle setState)+

lemmas operations = pauses setState stops powers parseCapabilities parseReaderConfig handshake
  rospec_requests access_messages access getROSpec install_runtime_config close_session settle outcomes

text \<open>Operations that may call a callback at once, given that this callback keeps the relation.\<close>

lemma run_callback:
  "(\<And>x s. k = Some x \<Longrightarrow> keeps R (run x s ok)) \<Longrightarrow> keeps R (run_callback run k ok)"
  unfolding run_callback_def by (cases k) (auto intro!: rules)

lemma startInventory_with:
  "(\<And>x s. k = Some x \<Longrightarrow> keeps R (run x s True)) \<Longrightarrow> keeps R (startInventory_with run b k)"
  unfolding startInventory_with_def
  by (intro rules run_callback getROSpec rospec_requests) (simp_all add: views)

lemma rollback:
  assumes "\<And>s. keeps R (run (Rollback_Restarted_Cb env e) s True)"
  shows "keeps R (finish_restore_with run env e)"
    "keeps R (cleanup_replacement_rospec_with run env e)"
    "keeps R (restore_old_with run env applied e)"
proof -
  show f: "keeps R (finish_restore_with run env e)"
    unfolding finish_restore_with_def by (intro rules operations startInventory_with) (use assms in auto)
  show c: "keeps R (cleanup_replacement_rospec_with run env e)"
    unfolding cleanup_replacement_rospec_with_def by (intro rules operations f)
  show "keeps R (restore_old_with run env applied e)"
    unfolding restore_old_with_def by (intro rules operations c; simp add: views)
qed

lemma finish_new_state_with:
  "(\<And>s. keeps R (run (Apply_Restarted_Cb env applied) s True)) \<Longrightarrow>
     keeps R (finish_new_state_with run env applied)"
  unfolding finish_new_state_with_def by (intro rules operations startInventory_with) auto

lemma after_stopped_with:
  assumes "\<And>s e. keeps R (run (Rollback_Restarted_Cb env e) s True)"
    "\<And>s. keeps R (run (Apply_Restarted_Cb env False) s True)"
  shows "keeps R (after_stopped_with run env ok)"
  unfolding after_stopped_with_def
  by (intro rules operations rollback finish_new_state_with assms; simp add: views)

lemma run_cont: "keeps R (run_cont k s ok)"
proof (induction k s ok rule: run_cont.induct)
qed (auto intro!: rules operations run_callback startInventory_with rollback finish_new_state_with
  after_stopped_with simp: views split: option.split)

lemma startInventory: "keeps R (startInventory b k)"
  unfolding startInventory_def by (intro startInventory_with run_cont)

lemmas callbacks = run_cont startInventory request_timer [OF run_cont]

section \<open>Handlers\<close>

lemma pause_resume:
  "keeps R (pause seconds forced b)" "keeps R (resume_inventory b)" "keeps R (resume b)"
  unfolding pause_def resume_def resume_inventory_def
  by (intro rules operations callbacks; simp add: views plain_message_def py_get_def ends_with_def)+

lemma validate_object: "keeps R (validate_object a)"
  by (rule keepsI) (auto simp: validate_object_def views intro!: same_view split: prod.splits)

lemma update_config: "keeps R (update_config a)"
  unfolding update_config_def by (intro rules operations validate_object; simp add: views)

lemma apply_config: "keeps R (apply_config a u)"
  unfolding apply_config_def start_transaction_def immediate_transition_def begin_transition_def
    succeed_transition_def Let_def
  by (intro rules operations callbacks validate_object update_config; simp add: views)

text \<open>A handler keeps the relation when the message it gets has passed the guard.\<close>

lemma when_keeps: "keeps R m \<Longrightarrow> keeps_when P R m"
  by (simp add: keeps_when_def keeps_def)

lemma when_lift: "(\<And>x. keeps_when P R (f x)) \<Longrightarrow> keeps_when P R (bindA (liftA r) f)"
  by (cases r) (simp_all add: keeps_when_def act_simps refl)

lemma when_lift_then: "keeps_when P R m \<Longrightarrow> keeps_when P R (thenA (liftA r) m)"
  by (cases r) (simp_all add: keeps_when_def act_simps refl)

lemma when_pure_then: "keeps_when P R m \<Longrightarrow> keeps_when P R (thenA (retA x) m)"
  by (simp add: keeps_when_def act_simps)

lemma when_if: "keeps_when P R m \<Longrightarrow> keeps_when P R n \<Longrightarrow> keeps_when P R (if b then m else n)"
  by simp

lemma when_read: "(\<And>c. keeps_when P R (f c)) \<Longrightarrow> keeps_when P R (readA f)"
  by (simp add: keeps_when_def act_simps)

lemma when_then:
  assumes "keeps R m" "prepares P m" "keeps_when P R n"
  shows "keeps_when P R (thenA m n)"
  unfolding keeps_when_def
proof (intro allI impI)
  fix c assume P: "P c"
  obtain r c1 where m: "m c = (r, c1)" by fastforce
  then have "R c c1" "P c1" using assms(1,2) P by (auto simp: keeps_def prepares_def dest: spec [of _ c])
  then show "R c (snd (thenA m n c))"
    using assms(3) m by (cases r) (auto simp: act_simps keeps_when_def intro: trans)
qed

lemma when_process:
  assumes "keeps R m" "\<And>c. P c \<Longrightarrow> answered name c"
  shows "keeps_when P R (thenA (processDeferreds name ok) m)"
  unfolding keeps_when_def
proof (intro allI impI)
  fix c assume P: "P c"
  obtain r c1 where run: "processDeferreds name ok c = (r, c1)" by fastforce
  then have c1: "R c c1" using completion [OF run_cont assms(2) [OF P], of ok] by simp
  moreover have "R c1 (snd (m c1))" using assms(1) by (simp add: keeps_def)
  ultimately have "R c (snd (m c1))" by (rule trans)
  with c1 run show "R c (snd (thenA (processDeferreds name ok) m c))"
    by (cases r) (simp_all add: act_simps)
qed

lemmas when_rules = when_lift when_lift_then when_pure_then when_if when_read when_process

lemma handlers_answered:
  "keeps_when (answered name) R (on_connecting name md)"
  "keeps_when (answered name) R (on_enable_impinj name md)"
  "keeps_when (answered name) R (on_get_config name md)"
  "keeps_when (answered name) R (on_set_config name md)"
  "keeps_when (answered name) R (on_add_rospec name md)"
  "keeps_when (answered name) R (on_enable_rospec name md)"
  "keeps_when (answered name) R (on_logged_response name md)"
  "keeps_when (answered name) R (on_start_rospec name md)"
  "keeps_when (answered name) R (on_inventorying name md)"
  "keeps_when (answered name) R (on_delete_accessspec name md)"
  unfolding on_connecting_def on_enable_impinj_def on_get_config_def on_set_config_def
    on_add_rospec_def on_enable_rospec_def on_logged_response_def on_start_rospec_def
    on_inventorying_def on_delete_accessspec_def Let_def
  by (auto intro!: when_rules when_then [OF _ prepares_modify] when_then [OF _ prepares_whenA]
    prepares_thenA prepares_modify prepares_setState prepares_parseReaderConfig
    rules operations callbacks intro: when_keeps simp: views)

lemma on_capabilities_ready: "keeps_when (ready name) R (on_capabilities name md)"
  unfolding on_capabilities_def
  by (auto intro!: when_rules when_then [OF _ ready_modify] when_then [OF _ ready_parse]
    rules operations intro: when_keeps simp: views ready_def)

lemma dispatch: "answered name c \<Longrightarrow> R c (snd (dispatch (state c) name md c))"
  using handlers_answered [of name md] on_capabilities_ready [of name md]
  by (cases "state c") (auto simp: dispatch_def keeps_when_def ready_def act_simps refl)

lemma handleMessage: "keeps R (handleMessage name md)"
proof -
  let ?rest = "\<lambda>mid. readA (\<lambda>c. if unmatched_response name mid c \<or> ignored_message name c then retA ()
      else bindA (dispatch (state c) name md) (\<lambda>finished. whenA finished (modifyA (touch_deferreds name))))"
  have "R c (snd (bindA (dispatch (state c) name md) (\<lambda>finished. whenA finished (modifyA (touch_deferreds name))) c))"
    if "answered name c" for c
    using dispatch [OF that, of md] touched
    by (cases "dispatch (state c) name md c") (auto simp: act_simps intro: trans split: sum.split)
  then have rest: "R c (snd (?rest (response_message_id c) c))" for c
    by (cases "answered name c") (auto simp: readA_def retA_def answered_def refl)
  have tail: "keeps R (thenA (modifyA (\<lambda>c. c\<lparr>response_message_id := mid\<rparr>)) (?rest mid))" for mid
    unfolding keeps_def then_modify
  proof
    fix c :: client
    let ?c = "c\<lparr>response_message_id := mid\<rparr>"
    have "R c ?c" by (rule same_view) (simp add: views)
    moreover have "R ?c (snd (?rest mid ?c))" using rest [of ?c] by simp
    ultimately show "R c (snd (?rest mid ?c))" by (rule trans)
  qed
  show ?thesis
    unfolding handleMessage_def by (intro kept acknowledge tail)
qed

end

section \<open>Runs\<close>

text \<open>Every message the application sends itself is allowed.\<close>

fun input_allowed :: "(pydict \<Rightarrow> bool) \<Rightarrow> client_input \<Rightarrow> bool" where
  "input_allowed P (Call_Send msg) = P msg"
| "input_allowed P _ = True"

context client_relation begin

lemma perform: "input_allowed allowed i \<Longrightarrow> keeps R (perform i)"
  by (cases i) (auto intro!: rules operations callbacks handleMessage pause_resume update_config
    apply_config reset_session modifyA timer_fires same_view pause_fires pause_runs
    simp: views discard_def)

lemma run: "list_all (input_allowed allowed) is \<Longrightarrow> R c (client_run is c)"
proof (induction "is" arbitrary: c)
  case (Cons i "is")
  then show ?case using perform [of i] by (auto simp: keeps_def intro: trans)
qed (simp add: refl)

end

end
