(* ===== verification/Reader_Relations.thy ===== *)
theory Reader_Relations
  imports Reader_Client Client_Relations
begin

text \<open>
  Relations between two states of the reader client.  The locale states what a relation must
  satisfy for the few primitives through which the reader client acts, and carries it through
  every operation and all runs.  It is interpreted for the refinement of the protocol client and
  for the notification of disconnects.
\<close>

section \<open>The receive loop\<close>

lemma rx_loop_keeps:
  assumes refl: "\<And>s. R s s" and trans: "\<And>s t u. R s t \<Longrightarrow> R t u \<Longrightarrow> R s u"
  shows "(\<And>m s. R s (fst (h m s))) \<Longrightarrow> R st (fst (snd (rx_loop stack limit h data c st)))"
proof (induction stack limit h data c st rule: rx_loop.induct)
  case (1 stack limit h data c st)
  let ?n = "declared_length data"
  show ?case
  proof (cases "data = [] \<or> length data < msg_header_len \<or> ?n < msg_header_len \<or> exceeds limit ?n \<or> length data < ?n")
    case True
    then show ?thesis by (subst rx_loop.simps) (auto simp: refl Let_def)
  next
    case False
    show ?thesis
    proof (cases "deserialize stack (take ?n data)")
      case (Inl e)
      then show ?thesis using False by (subst rx_loop.simps) (auto simp: refl Let_def)
    next
      case (Inr m)
      obtain st1 err where h: "h m st = (st1, err)" by fastforce
      have r1: "R st st1" using "1.prems" [of st m] h by simp
      show ?thesis
      proof (cases err)
        case None
        then have "R st1 (fst (snd (rx_loop stack limit h (drop ?n data) (c\<lparr>expected_bytes := 0\<rparr>) st1)))"
          using False Inr h by (intro "1.IH" "1.prems") auto
        with r1 show ?thesis using False Inr h None
          by (subst rx_loop.simps) (auto simp: Let_def intro: trans)
      qed (use False Inr h r1 in \<open>subst rx_loop.simps, auto simp: Let_def\<close>)
    qed
  qed
qed

lemma raw_data_keeps:
  assumes "\<And>s. R s s" "\<And>s t u. R s t \<Longrightarrow> R t u \<Longrightarrow> R s u" "\<And>m s. R s (fst (h m s))"
  shows "R st (fst (snd (raw_data_received stack limit h data c st)))"
  using assms by (auto simp: raw_data_received_def Let_def intro: rx_loop_keeps)

section \<open>The interface\<close>

text \<open>What disconnect notifications are about.\<close>

definition notice_view where
  "notice_view r = (disconnected_notified r, calls r, disconnected_callbacks r)"

definition quiet_call :: "callback_call \<Rightarrow> bool" where
  "quiet_call x \<longleftrightarrow> x \<noteq> Connection_Opened \<and> (\<forall>cb. x \<noteq> Disconnected_Called cb)"

text \<open>Inputs of the protocol client other than messages of the application's own making.\<close>

definition internal :: "client_input \<Rightarrow> bool" where
  "internal i \<longleftrightarrow> input_allowed (\<lambda>_. False) i"

lemma internal_simps [simp]:
  "internal Session_Reset" "internal Session_Closes" "internal Transport_Opened" "internal Connection_Lost"
  "internal Call_Disconnect" "internal (Receive n md)" "internal (Call_Update_Config a)"
  "internal (Call_Apply_Config a v)" "internal (Edit_Config a cfg)" "internal (Call_Start_Access op ts k i)"
  by (simp_all add: internal_def)

fun reader_input_ok :: "(client_input \<Rightarrow> bool) \<Rightarrow> reader_input \<Rightarrow> bool" where
  "reader_input_ok P (On_Client x) = P x"
| "reader_input_ok P _ = True"

locale reader_relation = state_relation R for R :: "reader \<Rightarrow> reader \<Rightarrow> bool" +
  fixes allowed :: "client_input \<Rightarrow> bool"
  assumes same: "llrp r' = llrp r \<Longrightarrow> notice_view r' = notice_view r \<Longrightarrow> R r r'"
    and client: "allowed i \<Longrightarrow> R r (r\<lparr>llrp := snd (perform i (llrp r))\<rparr>)"
    and internal: "internal i \<Longrightarrow> allowed i"
    and called: "list_all quiet_call cs \<Longrightarrow> R r (r\<lparr>calls := calls r @ cs\<rparr>)"
    and disconnected: "keeps R on_disconnected"
    and opened: "keeps R (thenA (modifyA (\<lambda>r. r\<lparr>disconnected_notified := False\<rparr>)) (record_calls [Connection_Opened]))"
    and listed: "R r (r\<lparr>disconnected_callbacks := add_callback cb (disconnected_callbacks r)\<rparr>)"
      "R r (r\<lparr>disconnected_callbacks := remove_callback cb (disconnected_callbacks r)\<rparr>)"
      "R r (r\<lparr>disconnected_callbacks := []\<rparr>)"
begin

lemma frame: "(\<And>r. llrp (g r) = llrp r \<and> notice_view (g r) = notice_view r) \<Longrightarrow> keeps R (modifyA g)"
  by (simp add: keeps_def act_simps same)

lemmas rules = kept frame disconnected

lemma record_quiet: "list_all quiet_call cs \<Longrightarrow> keeps R (record_calls cs)"
  unfolding record_calls_def by (rule modifyA) (rule called)

lemma duration_timer: "keeps R cancel_duration_timer" "keeps R schedule_duration_disconnect"
  unfolding schedule_duration_disconnect_def cancel_duration_timer_def Let_def
  by (intro rules; simp add: notice_view_def)+

lemma on_client_event: "keeps R (on_client_event ev)"
  unfolding on_client_event_def on_llrp_state_changed_def config_applied_def session_closed_def
  by (cases ev) (auto intro!: rules duration_timer record_quiet simp: notice_view_def list_all_iff quiet_call_def)

lemma on_client_some:
  assumes "\<And>c. \<exists>i. allowed i \<and> snd (m c) = snd (perform i c)"
  shows "keeps R (on_client m)"
proof (rule keepsI)
  fix r x r' assume run: "on_client m r = (x, r')"
  obtain i where i: "allowed i" "snd (m (llrp r)) = snd (perform i (llrp r))" using assms by blast
  let ?r = "r\<lparr>llrp := snd (perform i (llrp r))\<rparr>"
  have "keeps R (forA on_client_event (new_events (llrp r) (llrp ?r)))"
    by (intro forA on_client_event)
  then have "R ?r (snd (forA on_client_event (new_events (llrp r) (llrp ?r)) ?r))" by (simp add: keeps_def)
  moreover have "r' = snd (forA on_client_event (new_events (llrp r) (llrp ?r)) ?r)"
    using run i(2) by (auto simp: on_client_def split: prod.splits sum.splits)
  ultimately show "R r r'" using client [OF i(1), of r] by (auto intro: trans)
qed

lemma on_client: "allowed i \<Longrightarrow> (\<And>c. snd (m c) = snd (perform i c)) \<Longrightarrow> keeps R (on_client m)"
  by (rule on_client_some) blast

lemmas by_input = on_client [OF internal]

lemma client_calls:
  "keeps R (on_client reset_protocol_session)" "keeps R hard_disconnect"
  "keeps R (on_client (modifyA (\<lambda>c. c\<lparr>transport_up := True\<rparr>)))" "keeps R (on_client (setState STATE_DISCONNECTED))"
  "keeps R (on_client (stopPolitely (Some Disconnect_Cb) True))" "keeps R (on_client (handleMessage n md))"
  "keeps R (on_client (update_config a))" "keeps R (on_client (startAccess op ts k j))"
  unfolding hard_disconnect_def
  by (rule by_input [of Session_Reset] by_input [of Session_Closes] by_input [of Transport_Opened]
      by_input [of Connection_Lost] by_input [of Call_Disconnect] by_input [of "Receive n md"]
      by_input [of "Call_Update_Config a"] by_input [of "Call_Start_Access op ts k j"]; simp)+

lemma validate_call: "keeps R (on_client (validate_object a))"
proof (rule on_client_some)
  fix c :: client
  let ?i = "Edit_Config a (snd (validate_in_place (objects c a)))"
  have "snd (validate_object a c) = snd (perform ?i c)"
    by (simp add: validate_object_def act_simps split: prod.split)
  then show "\<exists>i. allowed i \<and> snd (validate_object a c) = snd (perform i c)"
    by (intro exI [of _ ?i] conjI internal) simp_all
qed

lemma discarded: "snd (discard m c) = snd (m c)"
  by (simp add: discard_def act_simps split: prod.split sum.split)

lemma apply_call: "keeps R (on_client (apply_config a v))"
  by (rule by_input [of "Call_Apply_Config a v"]) (simp_all add: discarded)

section \<open>Connecting\<close>

lemma reset_session: "keeps R reset_session"
  unfolding reset_session_def by (intro rules client_calls) (simp add: notice_view_def)

lemma connect_socket: "keeps R connect_socket"
  unfolding connect_socket_def socket_opened_def
  by (rule readA) (auto intro!: rules client_calls opened simp: notice_view_def split: list.split option.split)

lemma wait_delay: "R r (snd (wait_delay r))"
  by (rule same) (simp_all add: wait_delay_def notice_view_def split: list.split)

lemma retry_loop: "retry_loop remaining last_error r = Some (x, r') \<Longrightarrow> R r r'"
proof -
  assume "retry_loop remaining last_error r = Some (x, r')"
  then have "R r (snd (x, r'))"
  proof (rule retry_loop.raw_induct [of "\<lambda>m e r y. R r (snd y)", rotated], goal_cases)
    case (1 loop remaining last_error r y)
    obtain x r1 where c: "connect_socket r = (x, r1)" by fastforce
    then have r1: "R r r1" using keepsD [OF connect_socket] by blast
    obtain b r2 where w: "wait_delay r1 = (b, r2)" by fastforce
    then have r2: "R r r2" using wait_delay [of r1] r1 by (auto intro: trans)
    from 1(2) c w r1 r2 local.refl [of r] show ?case
      by (auto simp: Let_def split: if_splits sum.splits option.splits dest!: 1(1) intro: trans [OF r2])
  qed
  then show "R r r'" by simp
qed

lemma retry_connect: "retry_connect r = Some (x, r') \<Longrightarrow> R r r'"
  by (auto simp: retry_connect_def split: option.splits sum.splits prod.splits dest: retry_loop)

lemma started: "keeps R (if b then modifyA (\<lambda>r. r\<lparr>stop_main_loop := False, thread_running := True\<rparr>) else retA ())"
  by (intro rules) (simp add: notice_view_def)

lemma connect: "connect b r = Some (x, r') \<Longrightarrow> R r r'"
proof -
  assume run: "connect b r = Some (x, r')"
  show "R r r'"
  proof (cases "thread_running r")
    case False
    obtain y r1 where s: "thenA (modifyA (\<lambda>r. r\<lparr>disconnect_requested := False\<rparr>)) (thenA reset_session connect_socket) r = (y, r1)"
      by fastforce
    have "keeps R (thenA (modifyA (\<lambda>r. r\<lparr>disconnect_requested := False\<rparr>)) (thenA reset_session connect_socket))"
      by (intro rules reset_session connect_socket) (simp add: notice_view_def)
    then have r1: "R r r1" using s by (rule keepsD)
    let ?start = "if b then modifyA (\<lambda>r. r\<lparr>stop_main_loop := False, thread_running := True\<rparr>) else retA ()"
    have ends: "R q r'" if "R q q1" "?start q1 = (x, r')" for q q1
      using trans [OF that(1) keepsD [OF started that(2)]] .
    have fails: "R q r'" if "R q q1" "thenA on_disconnected (throwA e) q1 = (x, r')" for q q1 e
    proof -
      have "keeps R (thenA on_disconnected (throwA e) :: unit reader_command)" by (intro rules)
      from trans [OF that(1) keepsD [OF this that(2)]] show ?thesis .
    qed
    show ?thesis
    proof (cases y)
      case (Inr u)
      then show ?thesis using run False s r1 ends by (simp add: connect_def Let_def)
    next
      case (Inl e)
      show ?thesis
      proof (cases "py_true (reconnect (reader_settings r1))")
        case True
        then obtain z r2 where z: "retry_connect r1 = Some (z, r2)"
          using run False s Inl by (auto simp: connect_def Let_def split: option.splits)
        have "R r r2" using trans [OF r1 retry_connect [OF z]] .
        then show ?thesis using run False s Inl True z ends fails
          by (cases z) (auto simp: connect_def Let_def)
      qed (use run False s r1 Inl in \<open>simp add: connect_def Let_def\<close>)
    qed
  qed (use run refl in \<open>simp add: connect_def\<close>)
qed

lemma disconnect: "keeps R disconnect"
  unfolding disconnect_def by (intro rules client_calls) (simp add: notice_view_def)

lemma duration_timers: "keeps R (duration_timer_fires t)" "keeps R (duration_timer_runs i)"
  unfolding duration_timer_fires_def duration_timer_runs_def duration_expired_def
  by (intro rules disconnect; simp add: notice_view_def)+

lemma give_up: "R r (snd (on_disconnected r))"
  using disconnected by (simp add: keeps_def)

lemma on_lost_connection: "on_lost_connection r = Some (b, r') \<Longrightarrow> R r r'"
proof -
  assume run: "on_lost_connection r = Some (b, r')"
  let ?r1 = "snd (on_client (setState STATE_DISCONNECTED) r)"
  let ?r2 = "snd (hard_disconnect ?r1)"
  let ?r3 = "snd (thenA (handleA hard_disconnect (\<lambda>_. retA ())) reset_session ?r1)"
  have r1: "R r ?r1" using client_calls(4) by (simp add: keeps_def)
  have r2: "R r ?r2" using trans [OF r1] client_calls(2) by (simp add: keeps_def)
  have "keeps R (thenA (handleA hard_disconnect (\<lambda>_. retA ())) reset_session)"
    by (intro rules client_calls reset_session)
  then have r3: "R r ?r3" using trans [OF r1] by (simp add: keeps_def)
  show "R r r'"
  proof (cases "disconnect_requested ?r1 \<or> \<not> py_true (reconnect (reader_settings ?r3))")
    case True
    then show ?thesis using run trans [OF r2 give_up] trans [OF r3 give_up]
      by (auto simp: on_lost_connection_def Let_def split: if_splits)
  next
    case False
    then obtain y r4 where y: "retry_connect ?r3 = Some (y, r4)"
      using run by (auto simp: on_lost_connection_def Let_def split: option.splits)
    have "R r r4" using trans [OF r3 retry_connect [OF y]] .
    with trans [OF this give_up] False run y show ?thesis
      by (cases y) (auto simp: on_lost_connection_def Let_def)
  qed
qed

section \<open>Receiving\<close>

lemma deduplicate: "keeps R (deduplicate d v)"
  unfolding deduplicate_def read_clock_def
  by (auto intro!: rules simp: notice_view_def split: prod.split)

lemma on_llrp_tag_report: "keeps R (on_llrp_tag_report md)"
  unfolding on_llrp_tag_report_def Let_def
  by (auto intro!: rules deduplicate record_quiet simp: list_all_iff quiet_call_def split: option.split bool.split)

lemma on_llrp_message_received: "keeps R (on_llrp_message_received n md)"
  unfolding on_llrp_message_received_def run_message_callback_def on_llrp_event_notification_def
  by (auto intro!: rules on_llrp_tag_report record_quiet simp: list_all_iff quiet_call_def
      split: message_callback.split)

lemma deliver_message: "R r (fst (deliver_message m r))"
proof -
  obtain n md where m: "m = (n, md)" by fastforce
  have "keeps R (thenA (on_llrp_message_received n md) (on_client (handleMessage n md)))"
    by (intro rules on_llrp_message_received client_calls)
  from keepsD [OF this] show ?thesis by (auto simp: m deliver_message_def split: prod.split sum.split)
qed

lemma receive_data: "receive_data data r = (x, r') \<Longrightarrow> R r r'"
proof -
  assume run: "receive_data data r = (x, r')"
  let ?q = "raw_data_received (stack_room r) (message_limit (reader_settings r)) deliver_message data (frame r) r"
  have "R r (fst (snd ?q))" by (rule raw_data_keeps) (auto intro: refl trans deliver_message)
  moreover obtain f r1 err where q: "?q = (f, r1, err)" by (cases ?q)
  moreover have "R r1 (r1\<lparr>frame := f\<rparr>)" by (rule same) (simp_all add: notice_view_def)
  ultimately show "R r r'" using run by (auto simp: receive_data_def intro: trans)
qed

lemma end_thread: "end_thread r = Some r' \<Longrightarrow> R r r'"
  by (auto simp: end_thread_def notice_view_def intro: same)

lemma end_round: "end_round b r = Some r' \<Longrightarrow> R r r'"
proof -
  assume run: "end_round b r = Some r'"
  show "R r r'"
  proof (cases "stop_main_loop r \<or> \<not> b")
    case True
    then show ?thesis using run refl end_thread by (auto simp: end_round_def split: if_splits)
  next
    case False
    then obtain d r1 where l: "on_lost_connection r = Some (d, r1)"
      using run by (auto simp: end_round_def split: option.splits)
    have "R r1 r'"
      using run False l end_thread by (auto simp: end_round_def notice_view_def intro: same split: if_splits)
    then show ?thesis by (rule trans [OF on_lost_connection [OF l]])
  qed
qed

lemma drop_connection: "R r (snd (drop_connection r))"
proof -
  have "keeps R drop_connection" unfolding drop_connection_def by (intro rules client_calls)
  then show ?thesis by (simp add: keeps_def)
qed

lemma main_loop_round: "main_loop_round i r = Some r' \<Longrightarrow> R r r'"
proof -
  assume run: "main_loop_round i r = Some r'"
  have fatal: "R q (snd (thenA hard_disconnect on_disconnected q))" for q
  proof -
    have "keeps R (thenA hard_disconnect on_disconnected)" by (intro rules client_calls)
    then show ?thesis by (simp add: keeps_def)
  qed
  let ?r = "r\<lparr>in_main_loop := True\<rparr>"
  have entered: "R r ?r" by (rule same) (simp_all add: notice_view_def)
  note ended = trans [OF entered end_round]
  show "R r r'"
  proof (cases "thread_running r \<and> transport_up (llrp r)")
    case False
    then show ?thesis using run refl end_thread trans [OF drop_connection end_thread]
      by (auto simp: main_loop_round_def split: if_splits)
  next
    case up: True
    show ?thesis
    proof (cases "\<exists>data. i = Data data \<and> data \<noteq> []")
      case False
      then show ?thesis using run up ended by (cases i) (auto simp: main_loop_round_def Let_def)
    next
      case True
      then obtain data x r1 where d: "i = Data data" "data \<noteq> []" "receive_data data ?r = (x, r1)" by fastforce
      note r1 = trans [OF entered receive_data [OF d(3)]]
      show ?thesis using run up d trans [OF r1 end_round] trans [OF trans [OF r1 fatal] end_round]
          trans [OF trans [OF r1 drop_connection] end_thread]
        by (cases x) (auto simp: main_loop_round_def Let_def split: if_splits)
    qed
  qed
qed

section \<open>Runs\<close>

lemma configuration: "keeps R (reader_update_config a)" "keeps R (reader_apply_config a u)"
  "keeps R (start_access_spec op ts k j)"
proof -
  show u: "keeps R (reader_update_config a)" for a
    unfolding reader_update_config_def Let_def
    by (intro rules client_calls validate_call) (simp_all add: notice_view_def)
  show "keeps R (reader_apply_config a u)"
    unfolding reader_apply_config_def
    by (intro rules client_calls validate_call u apply_call record_quiet) (auto simp: list_all_iff quiet_call_def split: option.split)
  show "keeps R (start_access_spec op ts k j)"
    unfolding start_access_spec_def by (intro rules client_calls)
qed

lemma change_callbacks: "R r (change_callbacks x r)"
  by (cases x) (auto intro!: same listed simp: notice_view_def Let_def
      add_state_callback_def remove_state_callback_def clear_state_callback_def add_message_callback_def
      remove_message_callback_def clear_message_callback_def add_tag_report_callback_def
      remove_tag_report_callback_def clear_tag_report_callback_def add_event_callback_def
      remove_event_callback_def clear_event_callback_def add_disconnected_callback_def
      remove_disconnected_callback_def clear_disconnected_callback_def split: option.split)

lemma reader_step: "reader_input_ok allowed i \<Longrightarrow> reader_step i r = Some r' \<Longrightarrow> R r r'"
proof -
  assume ok: "reader_input_ok allowed i" and run: "reader_step i r = Some r'"
  have k: "keeps R m \<Longrightarrow> R r (snd (m r))" for m :: "'a reader_command" by (simp add: keeps_def)
  show "R r r'"
    using run ok by (cases i) (auto intro: connect main_loop_round change_callbacks k [OF disconnect] k [OF client_calls(2)]
      k [OF duration_timers(1)] k [OF duration_timers(2)] k [OF configuration(1)] k [OF configuration(2)]
      k [OF configuration(3)] k [OF on_client])
qed

lemma reader_run: "list_all (reader_input_ok allowed) is \<Longrightarrow> reader_run is r = Some r' \<Longrightarrow> R r r'"
proof (induction "is" arbitrary: r)
  case (Cons i "is")
  then obtain r1 where "reader_step i r = Some r1" "reader_run is r1 = Some r'"
    by (auto split: option.splits)
  with Cons reader_step [of i r r1] show ?case by (auto intro: trans)
qed (simp add: refl)

end

end
