(* ===== verification/Client_Invariant.thy ===== *)
theory Client_Invariant
  imports Client_Relations
begin

text \<open>
  The request table of the client.  In every state a client can reach, at most one request waits
  for a response type, and the callbacks registered under a response type are exactly the
  callback of that request.
\<close>

definition request_of :: "client \<Rightarrow> req_key \<Rightarrow> cont option option" where
  "request_of c = entries (pending_requests c)"

definition table_ok :: "client \<Rightarrow> bool" where
  "table_ok c \<longleftrightarrow> registry_ok 512 (pending_requests c) \<and> sole (request_of c) \<and>
     (\<forall>n m k. request_of c (n, m) = Some k \<longrightarrow> deferred_list n c = (case k of None \<Rightarrow> [] | Some k \<Rightarrow> [k])) \<and>
     (\<forall>n. \<not> awaits n (request_of c) \<longrightarrow> deferred_list n c = []) \<and>
     (\<forall>n. awaits n (request_of c) \<longrightarrow> ends_with n ''_RESPONSE'')"

definition requests_ok :: "client \<Rightarrow> bool" where
  "requests_ok c \<longleftrightarrow> table_ok c \<and> \<not> sending_registered_request c \<and> reserved_message_id c = None"

lemma request_view_cong: "request_view c' = request_view c \<Longrightarrow> requests_ok c' = requests_ok c"
  "request_view c' = request_view c \<Longrightarrow> table_ok c' = table_ok c"
  "request_view c' = request_view c \<Longrightarrow> request_of c' = request_of c"
  by (simp_all add: request_view_def requests_ok_def table_ok_def request_of_def deferred_list_def)

definition requests_kept :: "client \<Rightarrow> client \<Rightarrow> bool" where
  "requests_kept c c' \<longleftrightarrow> (requests_ok c \<longrightarrow> requests_ok c')"

definition request_view_kept :: "client \<Rightarrow> client \<Rightarrow> bool" where
  "request_view_kept c c' \<longleftrightarrow> request_view c' = request_view c"

interpretation rk: state_relation requests_kept
  by unfold_locales (auto simp: requests_kept_def)

interpretation vk: state_relation request_view_kept
  by unfold_locales (auto simp: request_view_kept_def)

named_theorems view_keeps \<open>actions that leave the request table alone\<close>

lemma view_requests: "keeps request_view_kept m \<Longrightarrow> keeps requests_kept m"
  by (auto simp: keeps_def request_view_kept_def requests_kept_def dest: request_view_cong)

lemma view_modify: "(\<And>c. request_view (g c) = request_view c) \<Longrightarrow> keeps request_view_kept (modifyA g)"
  by (rule vk.modifyA) (simp add: request_view_kept_def)

section \<open>Actions that leave the table alone\<close>

lemma next_message_id_view [view_keeps]: "keeps request_view_kept next_message_id"
  unfolding next_message_id_def Let_def
  by (intro vk.kept view_modify) (simp add: request_view_def)

lemma transport_view [view_keeps]: "keeps request_view_kept (transport_tx_write b)"
  by (rule keepsI)
    (auto simp: transport_tx_write_def act_simps request_view_kept_def request_view_def split: if_splits list.splits option.splits)

lemma assign_id_view [view_keeps]: "keeps request_view_kept (assign_message_id nm)"
  unfolding assign_message_id_def
  by (cases nm) (auto intro!: vk.kept view_modify view_keeps simp: request_view_def)

lemma assign_ids_view [view_keeps]: "keeps request_view_kept (assign_message_ids msg)"
  by (induction msg) (auto intro!: vk.kept view_keeps)

lemma sendMessage_view [view_keeps]: "keeps request_view_kept (sendMessage msg)"
  unfolding sendMessage_def prepare_message_def
  by (intro vk.kept view_keeps) (auto intro!: vk.kept view_keeps)

text \<open>A state change always succeeds, and leaves the new state.\<close>

lemma setState_eq: "\<exists>c'. setState s c = (Inr (), c') \<and> state c' = s \<and> request_view c' = request_view c \<and>
    last_msg_id c' = last_msg_id c \<and> config c' = config c \<and> objects c' = objects c \<and> transitions c' = transitions c"
  by (simp add: setState_def record_event_def cancel_pause_resume_timer_def act_simps request_view_def)

section \<open>Entries of the table\<close>

lemma deferred_list_simps [simp]:
  "deferred_list n (add_deferred name k c) = (if n = name then deferred_list name c @ [k] else deferred_list n c)"
  "deferred_list n (remove_deferred name (Some k) c) =
     (if n = name then remove1 k (deferred_list name c) else deferred_list n c)"
  "deferred_list n (remove_deferred name None c) = deferred_list n c"
  "deferred_list n (drop_empty_deferreds name c) = deferred_list n c"
  "deferred_list n (touch_deferreds name c) = deferred_list n c"
  by (auto simp: deferred_list_def add_deferred_def remove_deferred_def drop_empty_deferreds_def
      touch_deferreds_def dict_simps remove1_idem split: option.splits)

lemma table_frame [simp]:
  "pending_requests (add_deferred name k c) = pending_requests c"
  "pending_requests (remove_deferred name ko c) = pending_requests c"
  "pending_requests (drop_empty_deferreds name c) = pending_requests c"
  "pending_requests (touch_deferreds name c) = pending_requests c"
  "pending_requests (clear_deferreds name c) = pending_requests c"
  "sending_registered_request (drop_empty_deferreds name c) = sending_registered_request c"
  "reserved_message_id (drop_empty_deferreds name c) = reserved_message_id c"
  "sending_registered_request (clear_deferreds name c) = sending_registered_request c"
  "reserved_message_id (clear_deferreds name c) = reserved_message_id c"
  "sending_registered_request (touch_deferreds name c) = sending_registered_request c"
  "reserved_message_id (touch_deferreds name c) = reserved_message_id c"
  "state (remove_deferred name ko c) = state c" "state (drop_empty_deferreds name c) = state c"
  by (simp_all add: clear_deferreds_def add_deferred_def remove_deferred_def drop_empty_deferreds_def touch_deferreds_def
      split: option.split)

lemma deferred_list_update [simp]:
  "deferred_list n (pending_requests_update g1 c) = deferred_list n c"
  "deferred_list n (sending_registered_request_update g2 c) = deferred_list n c"
  "deferred_list n (reserved_message_id_update g3 c) = deferred_list n c"
  "deferred_list n (last_msg_id_update g4 c) = deferred_list n c"
  by (simp_all add: deferred_list_def)

lemma table_none: "table_ok c \<Longrightarrow> \<not> awaits n (request_of c) \<Longrightarrow> deferred_list n c = []"
  by (simp add: table_ok_def)

lemma table_deferred: "table_ok c \<Longrightarrow> request_of c (n, m) = Some k \<Longrightarrow>
    deferred_list n c = (case k of None \<Rightarrow> [] | Some k \<Rightarrow> [k])"
  by (simp add: table_ok_def)

text \<open>Adding a request to the table, and removing it again, by the laws of the registry.\<close>

lemma table_add:
  assumes ok: "table_ok c" and new: "\<not> awaits n (request_of c)" and nm: "ends_with n ''_RESPONSE''"
    and reg: "register n m k tmo h (pending_requests c) = Inr (pending_requests c', req)"
    and dl: "\<And>n'. deferred_list n' c' = (if n' = n then (case k of None \<Rightarrow> [] | Some k \<Rightarrow> [k]) else deferred_list n' c)"
  shows "table_ok c' \<and> request_of c' = (request_of c)((n, m) := Some k)"
proof -
  have "add_request tmo h n m k (pending_requests c) = Some (pending_requests c')"
    using reg by (simp add: add_request_def)
  moreover obtain r' where "add_request tmo h n m k (pending_requests c) = Some r'"
    "registry_ok 512 r'" "entries r' = (request_of c)((n, m) := Some k)" "sole (entries r')"
    using pr.add_new [of 512 "pending_requests c" n tmo h m k] ok new
    by (auto simp: table_ok_def request_of_def)
  ultimately have "registry_ok 512 (pending_requests c')" "sole (request_of c')"
    and e: "request_of c' = (request_of c)((n, m) := Some k)"
    by (simp_all add: request_of_def)
  then show ?thesis
    using ok new nm by (auto simp: table_ok_def dl e awaits_update) (auto simp: awaits_def)
qed

lemma table_remove:
  assumes ok: "table_ok c" and key: "request_of c (n, m) = Some k"
    and reg: "registry_ok 512 (pending_requests c')" "request_of c' = (request_of c)((n, m) := None)"
    and dl: "\<And>n'. deferred_list n' c' = (if n' = n then [] else deferred_list n' c)"
  shows "table_ok c' \<and> \<not> awaits n (request_of c')"
proof -
  have s: "sole (request_of c)" using ok by (simp add: table_ok_def)
  have aw: "awaits n' (request_of c') \<longleftrightarrow> n' \<noteq> n \<and> awaits n' (request_of c)" for n'
    using awaits_remove [OF s, of n m n'] key by (simp add: reg(2))
  have "deferred_list n' c' = (case k' of None \<Rightarrow> [] | Some x \<Rightarrow> [x])" if "request_of c' (n', m') = Some k'" for n' m' k'
  proof -
    from that have "n' \<noteq> n" "request_of c (n', m') = Some k'"
      using s key by (force simp: reg(2) sole_def split: if_splits)+
    then show ?thesis using table_deferred [OF ok] by (simp add: dl)
  qed
  moreover have "deferred_list n' c' = []" if "\<not> awaits n' (request_of c')" for n'
    using that table_none [OF ok] by (auto simp: aw dl)
  moreover have "sole (request_of c')" using s by (simp add: reg(2) sole_remove)
  ultimately show ?thesis using reg(1) aw ok by (simp add: table_ok_def)
qed

section \<open>Requests\<close>

text \<open>The part of \<open>_send_request\<close> before the message is sent.\<close>

lemma register_request_eq:
  assumes "entries (pending_requests c) (n, m) = None"
  shows "\<exists>r req. register_request n m k c = (Inr (), c\<lparr>pending_requests := r\<rparr>) \<and>
    register n m k (request_timeout_of c) (Some ()) (pending_requests c) = Inr (r, req)"
  using register_succeeds [OF assms, of k "request_timeout_of c" "Some ()"]
  by (auto simp: register_request_def act_simps)

lemma undo_request_ok:
  assumes ok: "table_ok c" and key: "request_of c (n, m) = Some k"
  shows "\<exists>c'. undo_request n m k ns s c = (Inr (), c') \<and> table_ok c' \<and>
    request_of c' = (request_of c)((n, m) := None) \<and>
    state c' = (if ns = Some (state c) then s else state c)"
proof -
  define c1 where "c1 = drop_empty_deferreds n (remove_deferred n k
    (c\<lparr>pending_requests := fst (cancel n m False (pending_requests c))\<rparr>))"
  have r: "registry_ok 512 (fst (cancel n m False (pending_requests c)))"
    "entries (fst (cancel n m False (pending_requests c))) = (request_of c)((n, m) := None)"
    using pr.drops_law [of 512 "pending_requests c" n m] ok by (auto simp: table_ok_def request_of_def)
  have dl: "deferred_list n' c1 = (if n' = n then [] else deferred_list n' c)" for n'
    using table_deferred [OF ok key] by (cases k) (auto simp: c1_def)
  have c1: "table_ok c1" "request_of c1 = (request_of c)((n, m) := None)" "state c1 = state c"
    using table_remove [OF ok key _ _ dl] r by (simp_all add: c1_def request_of_def)
  obtain c2 where "setState s c1 = (Inr (), c2)" "state c2 = s" "request_view c2 = request_view c1"
    using setState_eq [of s c1] by blast
  moreover from this(3) c1 have "table_ok c2" "request_of c2 = (request_of c)((n, m) := None)"
    by (simp_all add: request_view_cong(2,3) [of c2 c1])
  ultimately show ?thesis using c1
    by (auto simp: undo_request_def act_simps c1_def [symmetric] split: option.split)
qed

text \<open>A request that is not pending yet is entered with its callback, and then sent.\<close>

lemma send_request_entered:
  assumes t: "table_ok c" and nm: "ends_with n ''_RESPONSE''" and new: "\<not> awaits n (request_of c)"
  shows "\<exists>m c5. table_ok c5 \<and> request_of c5 = (request_of c)((n, m) := Some k) \<and>
    state c5 = (case ns of None \<Rightarrow> state c | Some s \<Rightarrow> s) \<and>
    send_request msg n k ns c = (case sendMessage msg c5 of
      (Inl e, c6) \<Rightarrow> (case undo_request n m k ns (state c) c6 of
          (Inl e', c7) \<Rightarrow> (Inl e', c7) | (Inr _, c7) \<Rightarrow> (Inl e, end_registered_send c7))
    | (Inr _, c6) \<Rightarrow> (Inr m, end_registered_send c6))"
proof -
  define m where "m = (if last_msg_id c < LLRP_MSG_ID_MAX then last_msg_id c + 1 else 1)"
  define c1 where "c1 = c\<lparr>last_msg_id := m\<rparr>"
  define c2 where "c2 = (case k of None \<Rightarrow> c1 | Some k \<Rightarrow> add_deferred n k c1)"
  have p2: "pending_requests c2 = pending_requests c" by (auto simp: c2_def c1_def split: option.split)
  have "entries (pending_requests c2) (n, m) = None"
    using new by (simp add: p2 awaits_def request_of_def)
  then obtain rg req where reg: "register_request n m k c2 = (Inr (), c2\<lparr>pending_requests := rg\<rparr>)"
    and rr: "register n m k (request_timeout_of c2) (Some ()) (pending_requests c2) = Inr (rg, req)"
    using register_request_eq by blast
  define c3 where "c3 = c2\<lparr>pending_requests := rg\<rparr>"
  have dl: "deferred_list n' c3 = (if n' = n then (case k of None \<Rightarrow> [] | Some k \<Rightarrow> [k]) else deferred_list n' c)" for n'
    using table_none [OF t new] by (auto simp: c3_def c2_def c1_def split: option.split)
  have t3: "table_ok c3" "request_of c3 = (request_of c)((n, m) := Some k)"
    using table_add [OF t new nm _ dl, of m "request_timeout_of c2" "Some ()" req] rr
    by (simp_all add: p2 c3_def)
  have s3: "state c3 = state c" by (auto simp: c3_def c2_def c1_def add_deferred_def split: option.split)
  obtain c4 where c4: "(case ns of None \<Rightarrow> retA () | Some s \<Rightarrow> setState s) c3 = (Inr (), c4)"
    "request_view c4 = request_view c3" "state c4 = (case ns of None \<Rightarrow> state c | Some s \<Rightarrow> s)"
    using setState_eq [of _ c3] s3 by (cases ns) (auto simp: act_simps)
  define c5 where "c5 = c4\<lparr>sending_registered_request := True, reserved_message_id := Some m\<rparr>"
  have t5: "table_ok c5" "request_of c5 = (request_of c)((n, m) := Some k)" "state c5 = state c4"
    using t3 c4(2) by (simp_all add: c5_def table_ok_def request_of_def deferred_list_def request_view_def)
  have e1: "next_message_id c = (Inr m, c1)"
    by (simp add: next_message_id_def act_simps m_def c1_def Let_def)
  have e2: "(case k of None \<Rightarrow> retA () | Some k \<Rightarrow> modifyA (add_deferred n k)) c1 = (Inr (), c2)"
    by (auto simp: act_simps c2_def split: option.split)
  have guard: "\<not> (has_response_type n (pending_requests c) \<or> deferred_list n c \<noteq> [])"
    using new table_none [OF t new] by (simp add: has_response_type_awaits request_of_def)
  then have "send_request msg n k ns c = (case sendMessage msg c5 of
      (Inl e, c6) \<Rightarrow> (case undo_request n m k ns (state c) c6 of
          (Inl e', c7) \<Rightarrow> (Inl e', c7) | (Inr _, c7) \<Rightarrow> (Inl e, end_registered_send c7))
    | (Inr _, c6) \<Rightarrow> (Inr m, end_registered_send c6))"
    by (simp add: send_request_def act_simps e1 e2 reg c3_def [symmetric] c4(1)
        c5_def [symmetric] split: prod.split sum.split)
  with t5 c4(3) show ?thesis by auto
qed

text \<open>The whole of \<open>_send_request\<close>: refused, sent, or undone.\<close>

lemma send_request_outcome:
  assumes ok: "requests_ok c" and nm: "ends_with n ''_RESPONSE''" and run: "send_request msg n k ns c = (r, c')"
  shows "r = Inl ReaderConfigurationError \<and> c' = c \<and> awaits n (request_of c) \<or>
    \<not> awaits n (request_of c) \<and> requests_ok c' \<and>
      (\<exists>m. r = Inr m \<and> request_of c' = (request_of c)((n, m) := Some k) \<and>
             state c' = (case ns of None \<Rightarrow> state c | Some s \<Rightarrow> s) \<or>
           (\<exists>e. r = Inl e) \<and> request_of c' = request_of c \<and> state c' = state c)"
proof (cases "awaits n (request_of c)")
  case True
  with run show ?thesis
    by (auto simp: send_request_def act_simps has_response_type_awaits request_of_def)
next
  case new: False
  have t: "table_ok c" using ok by (simp add: requests_ok_def)
  obtain m c5 where c5: "table_ok c5" "request_of c5 = (request_of c)((n, m) := Some k)"
      "state c5 = (case ns of None \<Rightarrow> state c | Some s \<Rightarrow> s)"
    and eq: "send_request msg n k ns c = (case sendMessage msg c5 of
      (Inl e, c6) \<Rightarrow> (case undo_request n m k ns (state c) c6 of
          (Inl e', c7) \<Rightarrow> (Inl e', c7) | (Inr _, c7) \<Rightarrow> (Inl e, end_registered_send c7))
    | (Inr _, c6) \<Rightarrow> (Inr m, end_registered_send c6))"
    using send_request_entered [OF t nm new] by blast
  obtain x c6 where send: "sendMessage msg c5 = (x, c6)" by fastforce
  then have "sends_only c5 c6" by (rule keepsD [OF sendMessage_sends])
  then have c6: "deferreds c6 = deferreds c5" "pending_requests c6 = pending_requests c5" and s6: "state c6 = state c5"
    by (auto simp: sends_only_def)
  then have t6: "table_ok c6" "request_of c6 = (request_of c)((n, m) := Some k)"
    using c5 by (simp_all add: table_ok_def request_of_def deferred_list_def)
  have ended: "requests_ok (end_registered_send c7) \<and> request_of (end_registered_send c7) = request_of c7 \<and>
      state (end_registered_send c7) = state c7" if "table_ok c7" for c7
    using that by (simp add: end_registered_send_def requests_ok_def table_ok_def request_of_def)
  show ?thesis
  proof (cases x)
    case (Inr sent)
    with run eq send have "c' = end_registered_send c6" "r = Inr m" by simp_all
    with ended [OF t6(1)] t6(2) s6 c5(3) new show ?thesis by auto
  next
    case (Inl e)
    obtain c7 where u: "undo_request n m k ns (state c) c6 = (Inr (), c7)" "table_ok c7"
      "request_of c7 = (request_of c6)((n, m) := None)"
      "state c7 = (if ns = Some (state c6) then state c else state c6)"
      using undo_request_ok [OF t6(1), of n m k ns "state c"] t6(2) by auto
    with run eq Inl send have "c' = end_registered_send c7" "r = Inl e" by simp_all
    moreover have "state c7 = state c" using u(4) s6 c5(3) by (auto split: option.splits if_splits)
    moreover have "request_of c7 = request_of c"
      using new by (auto simp: u(3) t6(2) awaits_def)
    ultimately show ?thesis using ended [OF u(2)] new by auto
  qed
qed

lemma send_request_keeps: "ends_with n ''_RESPONSE'' \<Longrightarrow> keeps requests_kept (send_request msg n k ns)"
  using send_request_outcome by (fastforce intro!: keepsI simp: requests_kept_def)

section \<open>Completing requests\<close>

text \<open>A request leaves the table: the registry has dropped it, then its callback is unregistered.\<close>

lemma take_request_ok:
  assumes ok: "requests_ok c" and key: "request_of c (n, m) = Some k"
    and r: "registry_ok 512 r" "entries r = (request_of c)((n, m) := None)"
  shows "requests_ok (remove_deferred n k (c\<lparr>pending_requests := r\<rparr>))"
    "\<not> awaits n (request_of (remove_deferred n k (c\<lparr>pending_requests := r\<rparr>)))"
    "request_of (remove_deferred n k (c\<lparr>pending_requests := r\<rparr>)) = (request_of c)((n, m) := None)"
proof -
  let ?c = "remove_deferred n k (c\<lparr>pending_requests := r\<rparr>)"
  have t: "table_ok c" using ok by (simp add: requests_ok_def)
  have dl: "deferred_list n' ?c = (if n' = n then [] else deferred_list n' c)" for n'
    using table_deferred [OF t key] by (cases k) auto
  show e: "request_of ?c = (request_of c)((n, m) := None)" using r(2) by (simp add: request_of_def)
  have "table_ok ?c \<and> \<not> awaits n (request_of ?c)"
    by (rule table_remove [OF t key _ e dl]) (simp add: r(1))
  then show "requests_ok ?c" "\<not> awaits n (request_of ?c)"
    using ok by (auto simp: requests_ok_def remove_deferred_def split: option.split)
qed

lemma requests_ok_cong:
  "pending_requests c' = pending_requests c \<Longrightarrow> (\<And>n. deferred_list n c' = deferred_list n c) \<Longrightarrow>
     sending_registered_request c' = sending_registered_request c \<Longrightarrow>
     reserved_message_id c' = reserved_message_id c \<Longrightarrow> requests_ok c' = requests_ok c"
  by (simp add: requests_ok_def table_ok_def request_of_def)

lemma deferred_list_pop: "deferred_list n' (c\<lparr>deferreds := dict_pop (deferreds c) n\<rparr>) = (if n' = n then [] else deferred_list n' c)"
  "deferred_list n' (clear_deferreds n c) = (if n' = n then [] else deferred_list n' c)"
  by (auto simp: clear_deferreds_def deferred_list_def dict_simps split: option.split)

lemma drop_empty_ok: "requests_ok (drop_empty_deferreds n c) = requests_ok c"
  by (rule requests_ok_cong) simp_all

lemma pop_empty_ok:
  assumes "deferred_list n c = []"
  shows "requests_ok (c\<lparr>deferreds := dict_pop (deferreds c) n\<rparr>) = requests_ok c"
    "requests_ok (clear_deferreds n c) = requests_ok c"
  using assms by (intro requests_ok_cong; simp add: deferred_list_pop)+

text \<open>The callback of a matched request runs on a consistent table.\<close>

lemma run_matched:
  assumes run: "\<And>k s b. keeps requests_kept (run_cont k s b)"
    and ok: "requests_ok c" and key: "request_of c (n, m) = Some k"
    and r: "registry_ok 512 r" "entries r = (request_of c)((n, m) := None)"
    and req: "callback req = k"
  shows "requests_ok (snd (run_deferreds n b (Some req) (c\<lparr>pending_requests := r\<rparr>)))"
proof -
  let ?c = "remove_deferred n k (c\<lparr>pending_requests := r\<rparr>)"
  have t: "table_ok c" using ok by (simp add: requests_ok_def)
  have c: "requests_ok ?c" using take_request_ok [OF ok key r] by simp
  show ?thesis
  proof (cases k)
    case None
    then have "requests_ok (c\<lparr>pending_requests := r\<rparr>)" "deferred_list n (c\<lparr>pending_requests := r\<rparr>) = []"
      using c table_deferred [OF t key] by (simp_all add: remove_deferred_def)
    then show ?thesis using None req
      by (simp add: run_deferreds_def take_callbacks_def act_simps drop_empty_ok)
        (simp add: pop_empty_ok(1) [of n "c\<lparr>pending_requests := r\<rparr>", simplified])
  next
    case (Some x)
    obtain ks where present: "dict_get (deferreds c) n = Some ks"
      using table_deferred [OF t key] Some by (cases "dict_get (deferreds c) n") (simp_all add: deferred_list_def)
    let ?rest = "thenA (forA (\<lambda>k. readA (\<lambda>c. run_cont k (state c) b)) [x])
      (thenA (modifyA (drop_empty_deferreds n)) (retA True))"
    have "keeps requests_kept ?rest"
      by (intro rk.kept run rk.modifyA) (simp add: requests_kept_def drop_empty_ok)
    then have "requests_ok (snd (?rest ?c))"
      using c by (simp add: keeps_def requests_kept_def)
    moreover have "run_deferreds n b (Some req) (c\<lparr>pending_requests := r\<rparr>) = ?rest ?c"
      using Some req present by (simp add: run_deferreds_def take_callbacks_def act_simps)
    ultimately show ?thesis by simp
  qed
qed

text \<open>Without a matched request there is nothing to run.\<close>

lemma run_unmatched:
  assumes ok: "requests_ok c" and none: "\<not> awaits n (request_of c)"
  shows "\<exists>c'. run_deferreds n b None c = (Inr False, c') \<and> requests_ok c' \<and> request_of c' = request_of c"
proof -
  have "deferred_list n c = []" using ok none table_none by (auto simp: requests_ok_def)
  then have "requests_ok (clear_deferreds n c)" "request_of (clear_deferreds n c) = request_of c"
    using ok by (simp_all add: pop_empty_ok request_of_def)
  then show ?thesis using \<open>deferred_list n c = []\<close>
    by (simp add: run_deferreds_def take_callbacks_def act_simps drop_empty_ok request_of_def)
qed

text \<open>A key that is not pending is not popped.\<close>

lemma pop_unmatched: "entries r (n, m) = None \<Longrightarrow> pop_request n m r = (r, None)"
  by (simp add: pop_request_def entries_def)

lemma pop_matched:
  assumes "registry_ok 512 r" "entries r (n, m) = Some k"
  shows "\<exists>r' req. pop_request n m r = (r', Some req) \<and> registry_ok 512 r' \<and>
    entries r' = (entries r)((n, m) := None) \<and> callback req = k \<and> response_name req = n"
proof -
  have "registry_ok 512 (fst (pop_request n m r)) \<and> entries (fst (pop_request n m r)) = (entries r)((n, m) := None)"
    using assms(1) by (rule pr.takes_law)
  then show ?thesis using assms
    by (cases rule: pop_request_cases [OF assms(1), of n m False]) (auto simp: entries_def)
qed

text \<open>A sole request of a type is found by its type alone.\<close>

lemma pop_type:
  assumes ok: "registry_ok 512 r" and s: "sole (entries r)"
  shows "(\<not> awaits n (entries r) \<and> pop_response_type n r = (r, None)) \<or>
    (\<exists>m k. entries r (n, m) = Some k \<and> pop_response_type n r = pop_request n m r)"
proof -
  have d: "distinct (map fst (pending r))" using ok by (simp add: registry_ok_def pending_ok_def)
  have mem: "(key, req) \<in> set (pending r) \<longleftrightarrow> dict_get (pending r) key = Some req" for key req
    using d by simp
  show ?thesis
  proof (cases "filter (\<lambda>(key, _). fst key = n) (pending r)")
    case Nil
    then have "(key, req) \<in> set (pending r) \<Longrightarrow> fst key \<noteq> n" for key req
      by (auto simp: filter_empty_conv)
    then have "dict_get (pending r) (n, m) = None" for m
      unfolding mem by (cases "dict_get (pending r) (n, m)") fastforce+
    then have "\<not> awaits n (entries r)" by (simp add: awaits_def entries_def)
    then show ?thesis using Nil by (simp add: pop_response_type_def)
  next
    case (Cons kr rest)
    obtain key req where kr: "kr = (key, req)" by fastforce
    have "(key, req) \<in> set (pending r)" "fst key = n"
      using Cons kr by (auto simp: filter_eq_Cons_iff)
    then obtain m where key: "key = (n, m)" and e: "entries r (n, m) = Some (callback req)"
      unfolding mem by (cases key) (auto simp: entries_def)
    have "rest = []"
    proof (rule ccontr)
      assume "rest \<noteq> []"
      then obtain key' req' where "(key', req') \<in> set rest" by (cases rest) auto
      then have "(key', req') \<in> set (filter (\<lambda>(key, _). fst key = n) (pending r))" "key' \<in> fst ` set rest"
        using Cons by force+
      moreover have "key \<notin> fst ` set rest"
        using distinct_map_fst_filter [OF d, of "\<lambda>(key, _). fst key = n"] by (simp add: Cons kr)
      ultimately have "(key', req') \<in> set (pending r)" "fst key' = n" "key' \<noteq> key" by auto
      then show False using s e unfolding mem by (cases key') (auto simp: sole_def entries_def key)
    qed
    then have "pop_response_type n r = pop_request n m r"
      using Cons kr key by (simp add: pop_response_type_eq [OF ok])
    with e show ?thesis by blast
  qed
qed

text \<open>What \<open>processDeferreds\<close> does with a message that passed the guard.\<close>

lemma process_cases:
  assumes ok: "requests_ok c" and answered: "answered n c"
  obtains (matched) m k r req where "request_of c (n, m) = Some k" "registry_ok 512 r"
      "entries r = (request_of c)((n, m) := None)" "callback req = k"
      "response_message_id c \<in> {None, Some m}"
      "processDeferreds n b c = run_deferreds n b (Some req) (c\<lparr>pending_requests := r\<rparr>)"
  | (unmatched) "\<not> awaits n (request_of c)"
      "processDeferreds n b c = run_deferreds n b None c \<or>
       processDeferreds n b c = (Inr False, drop_empty_deferreds n c)"
proof -
  note parts = ok [unfolded requests_ok_def table_ok_def request_of_def]
  show ?thesis
  proof (cases "response_message_id c")
    case None
    from parts have "registry_ok 512 (pending_requests c)" "sole (entries (pending_requests c))" by auto
    from pop_type [OF this, of n] show ?thesis
    proof (elim disjE conjE exE)
      assume "\<not> awaits n (entries (pending_requests c))" "pop_response_type n (pending_requests c) = (pending_requests c, None)"
      then show ?thesis using None
        by (intro unmatched) (simp_all add: processDeferreds_def act_simps request_of_def)
    next
      fix m k
      assume e: "entries (pending_requests c) (n, m) = Some k"
        and p: "pop_response_type n (pending_requests c) = pop_request n m (pending_requests c)"
      obtain r' req where "pop_request n m (pending_requests c) = (r', Some req)" "registry_ok 512 r'"
        "entries r' = (entries (pending_requests c))((n, m) := None)" "callback req = k"
        using pop_matched [OF _ e] parts by auto
      then show ?thesis using e p None
        by (intro matched [of m k r' req]) (simp_all add: processDeferreds_def act_simps request_of_def)
    qed
  next
    case (Some m)
    show ?thesis
    proof (cases "entries (pending_requests c) (n, m)")
      case None
      have "\<not> awaits n (request_of c)"
        using answered parts Some None
        by (auto simp: answered_def unmatched_response_def request_of_def has_response_type_awaits contains_entries)
      then show ?thesis using Some pop_unmatched [OF None]
        by (intro unmatched) (simp_all add: processDeferreds_def act_simps)
    next
      case e: (Some k)
      obtain r' req where "pop_request n m (pending_requests c) = (r', Some req)" "registry_ok 512 r'"
        "entries r' = (entries (pending_requests c))((n, m) := None)" "callback req = k"
        using pop_matched [OF _ e] parts by auto
      then show ?thesis using e Some
        by (intro matched [of m k r' req]) (simp_all add: processDeferreds_def act_simps request_of_def)
    qed
  qed
qed

section \<open>Timeouts and resets\<close>

lemma expire_outcome:
  assumes ok: "registry_ok 512 r" and i: "i < length (firing r)"
  obtains (late) r' where "run_expiry i r = (r', None)" "registry_ok 512 r'" "entries r' = entries r"
  | (expired) n m k r' req where "run_expiry i r = (r', Some req)" "registry_ok 512 r'" "entries r (n, m) = Some k"
      "entries r' = (entries r)((n, m) := None)" "callback req = k" "response_name req = n"
proof -
  obtain t key h where f: "firing r ! i = (t, key, h)" using prod_cases3 by blast
  obtain r' x where run: "run_expiry i r = (r', x)" by fastforce
  have ok': "registry_ok 512 r'" using run_expiry_ok [OF ok i run] .
  show ?thesis
  proof (cases "dict_get (pending r) key")
    case None
    with run f have "x = None" "entries r' = entries r"
      by (auto simp: run_expiry_def expire_def entries_def fun_eq_iff)
    with run ok' show ?thesis by (intro late [of r']) simp_all
  next
    case (Some req)
    obtain n m where key: "key = (n, m)" by fastforce
    have "(key, req) \<in> set (pending r)" using Some by (rule map_of_SomeD)
    then have "response_name req = n" using ok key by (auto simp: registry_ok_def pending_ok_def)
    with run f Some have "x = Some (req\<lparr>timer := None\<rparr>)" "entries r' = (entries r)((n, m) := None)"
      by (auto simp: run_expiry_def expire_def entries_def fun_eq_iff dict_simps key)
    with run ok' Some key \<open>response_name req = n\<close> show ?thesis
      by (intro expired [of r' "req\<lparr>timer := None\<rparr>" n m "callback req"]) (auto simp: entries_def)
  qed
qed

lemma same_entries_ok:
  assumes "requests_ok c" "registry_ok 512 r" "entries r = request_of c"
  shows "requests_ok (c\<lparr>pending_requests := r\<rparr>)"
  using assms by (simp add: requests_ok_def table_ok_def request_of_def)

lemma request_timer_ok:
  assumes run: "\<And>k s b. keeps requests_kept (run_cont k s b)"
  shows "keeps requests_kept (request_timer_runs i)"
  unfolding keeps_def requests_kept_def
proof (intro allI impI)
  fix c assume ok: "requests_ok c"
  then have reg: "registry_ok 512 (pending_requests c)" by (simp add: requests_ok_def table_ok_def)
  show "requests_ok (snd (request_timer_runs i c))"
  proof (cases "i < length (firing (pending_requests c))")
    case True
    show ?thesis
    proof (cases rule: expire_outcome [OF reg True])
      case (1 r')
      then show ?thesis using True same_entries_ok [OF ok]
        by (simp add: request_timer_runs_def act_simps request_of_def)
    next
      case (2 n m k r' req)
      have key: "request_of c (n, m) = Some k" using 2 by (simp add: request_of_def)
      have c1: "requests_ok (remove_deferred n k (c\<lparr>pending_requests := r'\<rparr>))"
        using take_request_ok [OF ok key 2(2)] 2(4) by (simp add: request_of_def)
      let ?rest = "thenA (modifyA (drop_empty_deferreds n)) (run_callback run_cont k False)"
      have "keeps requests_kept ?rest"
        unfolding run_callback_def by (intro rk.kept run rk.modifyA) (simp add: requests_kept_def drop_empty_ok)
      then have "requests_ok (snd (?rest (remove_deferred n k (c\<lparr>pending_requests := r'\<rparr>))))"
        using c1 by (simp add: keeps_def requests_kept_def)
      then show ?thesis using 2 True
        by (simp add: request_timer_runs_def on_request_timeout_def act_simps)
    qed
  qed (use ok in \<open>simp add: request_timer_runs_def act_simps\<close>)
qed

lemma fire_entries: "entries (fire t r) = entries r"
  by (simp add: fire_def entries_def fun_eq_iff split: option.split)

lemma cancel_all_entries: "entries (fst (cancel_all False r)) = (\<lambda>x. None)"
proof -
  have "pending (fst (cancel_values b reqs q)) = pending q" for b reqs and q :: "('a, 'b) pending_registry"
    by (induction b reqs q rule: cancel_values.induct)
      (auto simp: cancel_timer_def Let_def split: prod.split option.split)
  from this [of False "map snd (pending r)" "r\<lparr>pending := []\<rparr>"] show ?thesis
    by (auto simp: cancel_all_def entries_def fun_eq_iff Let_def split: prod.split)
qed

lemma pause_modify: "(\<And>c. request_view (g c) = request_view c) \<Longrightarrow> keeps requests_kept (modifyA g)"
  by (intro view_requests view_modify)

lemma pauses_ok:
  "keeps requests_kept cancel_pause_resume_timer" "keeps requests_kept (schedule_pause_resume b)"
  "keeps requests_kept (pause_timer_fires t)"
  "(\<And>b. keeps requests_kept (resume_inventory b)) \<Longrightarrow> keeps requests_kept (pause_timer_runs i)"
  unfolding cancel_pause_resume_timer_def schedule_pause_resume_def pause_timer_fires_def
    pause_timer_runs_def timed_resume_def Let_def
  by (intro rk.kept pause_modify; simp add: request_view_def)+

lemma reset_ok: "keeps requests_kept reset_protocol_session"
  unfolding reset_protocol_session_def
  by (intro rk.thenA) (auto intro!: rk.modifyA simp: cancel_pause_resume_timer_def requests_kept_def
      requests_ok_def table_ok_def request_of_def cancel_all_entries deferred_list_def awaits_def
      dest: cancel_all_ok [OF _ prod.collapse [symmetric]])

interpretation rc: client_relation requests_kept "\<lambda>_. True"
proof unfold_locales
  show "client_view c' = client_view c \<Longrightarrow> requests_kept c c'" for c c'
    using request_view_cong(1) [of c' c] by (simp add: requests_kept_def client_view_def)
  show "keeps requests_kept (sendMessage msg)" for msg
    using sendMessage_view by (rule view_requests)
  show "keeps requests_kept (send_KEEPALIVE_ACK mid)" for mid
    unfolding send_KEEPALIVE_ACK_def
    by (intro rk.kept view_requests [OF sendMessage_view] view_requests [OF transport_view])
  show "requests_kept c (snd (processDeferreds name ok c))"
    if run: "\<And>k s b. keeps requests_kept (run_cont k s b)" and ans: "answered name c" for name ok c
    unfolding requests_kept_def
  proof
    assume c: "requests_ok c"
    show "requests_ok (snd (processDeferreds name ok c))"
    proof (cases rule: process_cases [OF c ans, of ok])
      case (1 m k r req)
      then show ?thesis using run_matched [OF run c 1(1-4), of ok] by simp
    next
      case 2
      then show ?thesis using run_unmatched [OF c 2(1), of ok] drop_empty_ok c by auto
    qed
  qed
  show "requests_kept c (touch_deferreds name c)" for name c
    using requests_ok_cong [of "touch_deferreds name c" c] by (simp add: requests_kept_def)
  show "requests_kept c (c\<lparr>pending_requests := fire t (pending_requests c)\<rparr>)" for c t
    unfolding requests_kept_def
  proof
    assume c: "requests_ok c"
    then have "registry_ok 512 (fire t (pending_requests c))"
      by (simp add: requests_ok_def table_ok_def fire_ok)
    then show "requests_ok (c\<lparr>pending_requests := fire t (pending_requests c)\<rparr>)"
      using same_entries_ok [OF c] by (simp add: fire_entries request_of_def)
  qed
qed (rule TrueI send_request_keeps request_timer_ok reset_ok pauses_ok | assumption)+

end
