(* ===== verification/Client_Messages.thy ===== *)
theory Client_Messages
  imports Client_Relations Framing
begin

text \<open>
  What the client writes to the transport: in every run, whole frames, with identifiers in the
  32-bit range that skip zero.
\<close>

text \<open>The bytes are one frame, and its identifier is in range; only an acknowledgement may carry 0.\<close>

definition sent_frame :: "bytes \<Rightarrow> bool" where
  "sent_frame b \<longleftrightarrow> declared_length b = length b \<and> (\<exists>h name. msg_header_decode b = Inr h \<and>
     mh_length h = length b \<and> get_message_name_from_type (mh_type h) (mh_vendor h) (mh_subtype h) = Inr name \<and>
     (if name = ''KEEPALIVE_ACK'' then 0 else 1) \<le> mh_id h \<and> mh_id h \<le> LLRP_MSG_ID_MAX)"

definition ids_ok :: "client \<Rightarrow> bool" where
  "ids_ok c \<longleftrightarrow> 0 \<le> last_msg_id c \<and> last_msg_id c \<le> LLRP_MSG_ID_MAX \<and>
     (\<forall>i. reserved_message_id c = Some i \<longrightarrow> 1 \<le> i \<and> i \<le> LLRP_MSG_ID_MAX)"

definition messages_kept :: "client \<Rightarrow> client \<Rightarrow> bool" where
  "messages_kept c c' \<longleftrightarrow> (ids_ok c \<longrightarrow> ids_ok c' \<and>
     (\<exists>new. outbox c' = outbox c @ new \<and> list_all sent_frame new))"

interpretation mk: state_relation messages_kept
proof
  show "messages_kept c c" for c by (auto simp: messages_kept_def intro: exI [of _ "[]"])
  show "messages_kept s t \<Longrightarrow> messages_kept t u \<Longrightarrow> messages_kept s u" for s t u
    by (fastforce simp: messages_kept_def)
qed

lemma same_messages:
  "last_msg_id c' = last_msg_id c \<Longrightarrow> outbox c' = outbox c \<Longrightarrow>
     reserved_message_id c' = reserved_message_id c \<or> reserved_message_id c' = None \<Longrightarrow> messages_kept c c'"
  by (auto simp: messages_kept_def ids_ok_def)

lemma same_modify:
  assumes "\<And>c. last_msg_id (g c) = last_msg_id c \<and> outbox (g c) = outbox c \<and>
    (reserved_message_id (g c) = reserved_message_id c \<or> reserved_message_id (g c) = None)"
  shows "keeps messages_kept (modifyA g)"
  using assms by (intro mk.modifyA same_messages) auto

section \<open>One frame\<close>

lemma serialized_frame:
  assumes "serialize ((name, PDict d) # rest) = Inr b" "name \<noteq> ''CUSTOM_MESSAGE''"
    and "dict_get d ''ID'' = Some (PInt i)" "(if name = ''KEEPALIVE_ACK'' then 0 else 1) \<le> i" "i \<le> LLRP_MSG_ID_MAX"
  shows "sent_frame b"
proof -
  obtain m encoder where m: "map_of Message_struct name = Some m" "encode_message name m encoder (PDict d) = Inr b"
    using assms(1) by (rule serialize_Inr) auto
  from encode_message_frame [OF m(1) assms(2) m(2), of "[]"] obtain h where
    h: "msg_header_decode b = Inr h" "mh_length h = length b"
      "get_message_name_from_type (mh_type h) (mh_vendor h) (mh_subtype h) = Inr name"
      "bindE (py_get (PDict d) ''ID'' (PInt 0)) pack_arg = Inr (mh_id h)"
    by auto
  have "mh_id h = i" using h(4) assms(3) by (simp add: py_get_def pack_arg_def)
  then show ?thesis
    using h assms(4,5) declared_length_header [of b h] by (auto simp: sent_frame_def)
qed

lemma transport_frame: "sent_frame b \<Longrightarrow> keeps messages_kept (transport_tx_write b)"
  by (rule keepsI)
    (auto simp: transport_tx_write_def act_simps messages_kept_def ids_ok_def split: if_splits list.splits option.splits)

text \<open>Identifiers are assigned within the range.\<close>

lemma next_id_range:
  "ids_ok c \<Longrightarrow> \<exists>i. next_message_id c = (Inr i, c\<lparr>last_msg_id := i\<rparr>) \<and> 1 \<le> i \<and> i \<le> LLRP_MSG_ID_MAX"
  by (simp add: next_message_id_def act_simps ids_ok_def Let_def LLRP_MSG_ID_MAX_def)

lemma assign_id_range:
  assumes "ids_ok c" "plain_message [nm]" "assign_message_id nm c = (r, c')"
  shows "ids_ok c' \<and> outbox c' = outbox c \<and>
    (\<forall>nm' i. r = Inr (nm', i) \<longrightarrow> (\<exists>d. nm' = (fst nm, PDict d) \<and> dict_get d ''ID'' = Some (PInt i)) \<and>
       1 \<le> i \<and> i \<le> LLRP_MSG_ID_MAX)"
proof -
  obtain name body where nm: "nm = (name, body)" by fastforce
  obtain c1 i where id: "(case reserved_message_id c of None \<Rightarrow> next_message_id | Some i \<Rightarrow> retA i) c = (Inr i, c1)"
    "ids_ok c1" "outbox c1 = outbox c" "1 \<le> i" "i \<le> LLRP_MSG_ID_MAX"
    using next_id_range [OF assms(1)] assms(1)
    by (cases "reserved_message_id c") (auto simp: act_simps ids_ok_def)
  show ?thesis
    using assms(2,3) id
    by (cases "py_items body") (auto simp: nm assign_message_id_def act_simps plain_message_def dict_simps)
qed

lemma assign_ids_range:
  "ids_ok c \<Longrightarrow> plain_message msg \<Longrightarrow> assign_message_ids msg c = (r, c') \<Longrightarrow>
   ids_ok c' \<and> outbox c' = outbox c \<and>
     (\<forall>nms sent. r = Inr (nms, sent) \<longrightarrow> map fst nms = map fst msg \<and>
       list_all (\<lambda>(name, b). \<exists>d i. b = PDict d \<and> dict_get d ''ID'' = Some (PInt i) \<and> 1 \<le> i \<and> i \<le> LLRP_MSG_ID_MAX) nms)"
proof (induction msg arbitrary: c r c')
  case Nil
  then show ?case by (auto simp: act_simps)
next
  case (Cons nm msg)
  obtain r1 c1 where a: "assign_message_id nm c = (r1, c1)" by fastforce
  have "plain_message [nm]" "plain_message msg" using Cons.prems(2) by (auto simp: plain_message_def)
  note step = assign_id_range [OF Cons.prems(1) this(1) a]
  obtain r2 c2 where b: "assign_message_ids msg c1 = (r2, c2)" by fastforce
  have ih: "ids_ok c2" "outbox c2 = outbox c1" and ih2: "\<And>nms sent. r2 = Inr (nms, sent) \<Longrightarrow> map fst nms = map fst msg \<and>
      list_all (\<lambda>(name, b). \<exists>d i. b = PDict d \<and> dict_get d ''ID'' = Some (PInt i) \<and> 1 \<le> i \<and> i \<le> LLRP_MSG_ID_MAX) nms"
    using Cons.IH [OF _ \<open>plain_message msg\<close> b] step by blast+
  show ?case
  proof (cases r1)
    case (Inl e)
    with step Cons.prems(3) a show ?thesis by (auto simp: act_simps)
  next
    case (Inr p)
    obtain nm' i where p: "p = (nm', i)" by fastforce
    with step Inr obtain d where nm': "nm' = (fst nm, PDict d)" "dict_get d ''ID'' = Some (PInt i)"
      "1 \<le> i" "i \<le> LLRP_MSG_ID_MAX" by blast
    have out: "outbox c2 = outbox c" using step ih(2) by simp
    show ?thesis
    proof (cases r2)
      case (Inl e)
      with Cons.prems(3) a b Inr p ih(1) out show ?thesis by (auto simp: act_simps)
    next
      case r2: (Inr q)
      obtain nms sent where q: "q = (nms, sent)" by fastforce
      with Cons.prems(3) a b Inr p r2 have "r = Inr (nm' # nms, (fst nm', i) # sent)" "c' = c2"
        by (simp_all add: act_simps)
      then show ?thesis using ih(1) out ih2 [of nms sent] r2 q nm' by simp
    qed
  qed
qed

lemma sendMessage_frames:
  assumes "plain_message msg"
  shows "keeps messages_kept (sendMessage msg)"
proof (rule keepsI)
  fix c r c' assume run: "sendMessage msg c = (r, c')"
  obtain r1 c1 where a: "assign_message_ids msg c = (r1, c1)" by fastforce
  show "messages_kept c c'"
  proof (cases "ids_ok c")
    case True
    note ids = assign_ids_range [OF True assms a]
    have c1: "messages_kept c c1" using ids by (auto simp: messages_kept_def)
    have "messages_kept c1 c2" if s: "r1 = Inr (nms, sent)" "serialize nms = Inr b" "transport_tx_write b c1 = (r2, c2)"
      for nms sent b r2 c2
    proof -
      obtain name d i rest where "nms = (name, PDict d) # rest" "dict_get d ''ID'' = Some (PInt i)"
        "1 \<le> i" "i \<le> LLRP_MSG_ID_MAX" "name \<noteq> ''CUSTOM_MESSAGE''"
        using s(1,2) ids assms by (cases nms) (auto simp: serialize_def plain_message_def)
      then have "sent_frame b" using s(2) by (intro serialized_frame [of name d rest b i]) auto
      then show ?thesis using transport_frame s(3) by (blast dest: keepsD)
    qed
    with c1 a run show ?thesis
      by (auto simp: sendMessage_def prepare_message_def act_simps intro: mk.trans mk.refl
          split: sum.splits prod.splits if_splits)
  qed (simp add: messages_kept_def)
qed

section \<open>Every operation\<close>

lemma table_updates [simp]:
  "last_msg_id (drop_empty_deferreds n c) = last_msg_id c" "outbox (drop_empty_deferreds n c) = outbox c"
  "reserved_message_id (drop_empty_deferreds n c) = reserved_message_id c"
  "last_msg_id (remove_deferred n k c) = last_msg_id c" "outbox (remove_deferred n k c) = outbox c"
  "reserved_message_id (remove_deferred n k c) = reserved_message_id c"
  by (simp_all add: drop_empty_deferreds_def remove_deferred_def split: option.split)

lemma setState_messages: "keeps messages_kept (setState s)"
  unfolding setState_def record_event_def cancel_pause_resume_timer_def
  by (intro mk.kept same_modify; simp)

lemma undo_messages: "keeps messages_kept (undo_request n m k ns s)"
  unfolding undo_request_def
  by (intro mk.kept same_modify setState_messages)
    (simp_all add: remove_deferred_def drop_empty_deferreds_def split: option.split)

lemma send_request_frames:
  assumes "plain_message msg"
  shows "keeps messages_kept (send_request msg n k ns)"
proof (rule keepsI)
  fix c r c' assume run: "send_request msg n k ns c = (r, c')"
  show "messages_kept c c'"
  proof (cases "has_response_type n (pending_requests c) \<or> deferred_list n c \<noteq> [] \<or> \<not> ids_ok c")
    case True
    with run show ?thesis by (auto simp: send_request_def act_simps messages_kept_def)
  next
    case False
    then have ids: "ids_ok c" by simp
    obtain m where m: "next_message_id c = (Inr m, c\<lparr>last_msg_id := m\<rparr>)" "1 \<le> m" "m \<le> LLRP_MSG_ID_MAX"
      using next_id_range [OF ids] by auto
    let ?rest = "thenA (case k of None \<Rightarrow> retA () | Some k \<Rightarrow> modifyA (add_deferred n k))
      (thenA (register_request n m k)
      (thenA (case ns of None \<Rightarrow> retA () | Some s \<Rightarrow> setState s)
      (thenA (modifyA (\<lambda>c. c\<lparr>sending_registered_request := True, reserved_message_id := Some m\<rparr>))
      (thenA (handleA (thenA (sendMessage msg) (modifyA end_registered_send))
        (\<lambda>e. thenA (undo_request n m k ns (state c))
          (thenA (modifyA end_registered_send) (throwA e))))
      (retA m)))))"
    have reserve: "keeps messages_kept (modifyA (\<lambda>c. c\<lparr>sending_registered_request := True, reserved_message_id := Some m\<rparr>))"
      using m by (intro mk.modifyA) (auto simp: messages_kept_def ids_ok_def)
    have reg: "keeps messages_kept (register_request n m k)"
      unfolding register_request_def by (intro mk.kept) (auto intro!: same_modify split: prod.split)
    have "keeps messages_kept ?rest"
      by (intro mk.kept reserve reg same_modify setState_messages sendMessage_frames [OF assms] undo_messages)
        (simp_all add: add_deferred_def end_registered_send_def)
    moreover have "send_request msg n k ns c = ?rest (c\<lparr>last_msg_id := m\<rparr>)"
      using False m(1) by (simp add: send_request_def readA_def bindA_def)
    ultimately have "messages_kept (c\<lparr>last_msg_id := m\<rparr>) c'" using run by (metis keepsD)
    moreover have "messages_kept c (c\<lparr>last_msg_id := m\<rparr>)"
      using m by (auto simp: messages_kept_def ids_ok_def)
    ultimately show ?thesis by (rule mk.trans [rotated])
  qed
qed

lemma acknowledge_frames: "keeps messages_kept (send_KEEPALIVE_ACK mid)"
proof (cases mid)
  case None
  then show ?thesis
    by (auto simp: send_KEEPALIVE_ACK_def plain_message_def py_get_def intro!: mk.kept sendMessage_frames)
next
  case (Some i)
  have "keeps messages_kept (bindA (liftA (serialize [(''KEEPALIVE_ACK'', PDict [(''ID'', PInt i)])])) transport_tx_write)"
    if "0 \<le> i" "i \<le> LLRP_MSG_ID_MAX"
  proof (cases "serialize [(''KEEPALIVE_ACK'', PDict [(''ID'', PInt i)])]")
    case (Inr b)
    then have "sent_frame b" using that by (intro serialized_frame) auto
    then have "keeps messages_kept (transport_tx_write b)" by (rule transport_frame)
    then show ?thesis using Inr by (simp add: keeps_def act_simps)
  qed (simp add: keeps_def act_simps mk.refl)
  then show ?thesis using Some by (auto simp: send_KEEPALIVE_ACK_def intro!: mk.kept)
qed

interpretation mc: client_relation messages_kept plain_message
proof unfold_locales
  show "client_view c' = client_view c \<Longrightarrow> messages_kept c c'" for c c'
    by (rule same_messages) (simp_all add: views)
  show "messages_kept c (snd (processDeferreds name ok c))"
    if run: "\<And>k s b. keeps messages_kept (run_cont k s b)" for name ok c
  proof -
    have "keeps messages_kept (take_callbacks name x)" for x
      unfolding take_callbacks_def
      by (intro mk.kept same_modify)
        (simp_all add: remove_deferred_def clear_deferreds_def split: option.split)
    then have "keeps messages_kept (run_deferreds name ok x)" for x
      unfolding run_deferreds_def
      by (intro mk.kept same_modify run) (simp_all add: drop_empty_deferreds_def)
    then have "keeps messages_kept (processDeferreds name ok)"
      unfolding processDeferreds_def
      by (auto intro!: mk.kept same_modify split: option.split prod.split)
    then show ?thesis by (simp add: keeps_def)
  qed
  show "keeps messages_kept (request_timer_runs i)"
    if run: "\<And>k s b. keeps messages_kept (run_cont k s b)" for i
    unfolding request_timer_runs_def on_request_timeout_def run_callback_def
    by (auto intro!: mk.kept same_modify run split: option.split prod.split)
  show "keeps messages_kept reset_protocol_session"
    unfolding reset_protocol_session_def cancel_pause_resume_timer_def by (intro mk.kept same_modify; simp)
  show "keeps messages_kept cancel_pause_resume_timer" "keeps messages_kept (schedule_pause_resume b)"
    "keeps messages_kept (pause_timer_fires t)" for b t
    unfolding cancel_pause_resume_timer_def schedule_pause_resume_def pause_timer_fires_def Let_def
    by (intro mk.kept same_modify; simp)+
  show "keeps messages_kept (pause_timer_runs i)" if "\<And>b. keeps messages_kept (resume_inventory b)" for i
    unfolding pause_timer_runs_def timed_resume_def by (intro mk.kept same_modify that; simp)
qed (auto intro!: send_request_frames sendMessage_frames acknowledge_frames same_messages
  simp: touch_deferreds_def)

end
