(* ===== verification/Client_Pauses.thy ===== *)
theory Client_Pauses
  imports Client_Relations
begin

text \<open>
  The timers of timed pauses.  At most one is armed, it is the one the client remembers, and a
  timer that has fired belongs to the current generation only if nothing cancelled it.
\<close>

definition pause_ok :: "client \<Rightarrow> bool" where
  "pause_ok c \<longleftrightarrow> length (pause_timers_armed c) \<le> 1 \<and>
     list_all (\<lambda>t. pause_resume_timer c = Some t) (pause_timers_armed c) \<and>
     (\<forall>t. pause_resume_timer c = Some t \<longrightarrow> fst t = pause_resume_generation c) \<and>
     list_all (\<lambda>t. fst t \<le> pause_resume_generation c) (pause_timers_fired c) \<and>
     distinct (map fst (pause_timers_armed c @ pause_timers_fired c))"

definition pauses_kept :: "client \<Rightarrow> client \<Rightarrow> bool" where
  "pauses_kept c c' \<longleftrightarrow> (pause_ok c \<longrightarrow> pause_ok c')"

lemma same_pauses: "pause_view c' = pause_view c \<Longrightarrow> pauses_kept c c'"
  by (simp add: pauses_kept_def pause_ok_def pause_view_def)

lemma table_pause_view [simp]:
  "pause_view (add_deferred n k c) = pause_view c" "pause_view (remove_deferred n ko c) = pause_view c"
  "pause_view (drop_empty_deferreds n c) = pause_view c" "pause_view (clear_deferreds n c) = pause_view c"
  "pause_view (touch_deferreds n c) = pause_view c" "pause_view (end_registered_send c) = pause_view c"
  by (simp_all add: pause_view_def add_deferred_def remove_deferred_def drop_empty_deferreds_def
      clear_deferreds_def touch_deferreds_def end_registered_send_def split: option.split)

interpretation pk: state_relation pauses_kept
  by unfold_locales (auto simp: pauses_kept_def)

lemma unpaused_modify: "(\<And>c. pause_view (g c) = pause_view c) \<Longrightarrow> keeps pauses_kept (modifyA g)"
  by (intro pk.modifyA same_pauses)

text \<open>With no timer remembered none is armed; cancelling leaves none of the current generation.\<close>

lemma armed_none: "pause_ok c \<Longrightarrow> pause_resume_timer c = None \<Longrightarrow> pause_timers_armed c = []"
  by (cases "pause_timers_armed c") (auto simp: pause_ok_def)

lemma cancelled:
  assumes "pause_ok c" "cancel_pause_resume_timer c = (r, c')"
  shows "pause_timers_armed c' = []" "pause_resume_timer c' = None" "pause_ok c'"
    "list_all (\<lambda>t. fst t < pause_resume_generation c') (pause_timers_fired c')"
proof -
  have c': "c' = snd (cancel_pause_resume_timer c)" using assms(2) by simp
  show armed: "pause_timers_armed c' = []"
  proof (cases "pause_resume_timer c")
    case None
    with armed_none [OF assms(1)] show ?thesis
      by (simp add: c' cancel_pause_resume_timer_def act_simps)
  next
    case (Some t)
    then show ?thesis using assms(1)
      by (auto simp: c' cancel_pause_resume_timer_def act_simps pause_ok_def list_all_iff filter_empty_conv)
  qed
  show t: "pause_resume_timer c' = None"
    by (simp add: c' cancel_pause_resume_timer_def act_simps)
  show old: "list_all (\<lambda>t. fst t < pause_resume_generation c') (pause_timers_fired c')"
    using assms(1) by (auto simp: c' cancel_pause_resume_timer_def act_simps pause_ok_def list_all_iff less_Suc_eq_le)
  have "pause_timers_fired c' = pause_timers_fired c"
    by (simp add: c' cancel_pause_resume_timer_def act_simps)
  then show "pause_ok c'" using assms(1) armed t old
    by (auto simp: pause_ok_def list_all_iff less_imp_le)
qed

lemma cancel_pauses: "keeps pauses_kept cancel_pause_resume_timer"
  using cancelled(3) by (auto intro!: keepsI simp: pauses_kept_def)

lemma schedule_pauses: "keeps pauses_kept (schedule_pause_resume b)"
proof (rule keepsI)
  fix c r c' assume run: "schedule_pause_resume b c = (r, c')"
  obtain c1 where c1: "cancel_pause_resume_timer c = (Inr (), c1)"
    by (simp add: cancel_pause_resume_timer_def act_simps)
  show "pauses_kept c c'"
    unfolding pauses_kept_def
  proof
    assume "pause_ok c"
    note cs = cancelled [OF this c1]
    have "(pause_resume_generation c1, b') \<notin> set (pause_timers_fired c1)" for b'
      using cs(4) by (auto simp: list_all_iff)
    then show "pause_ok c'"
      using run cs by (auto simp: schedule_pause_resume_def act_simps c1 Let_def pause_ok_def)
  qed
qed

lemma fire_pauses: "keeps pauses_kept (pause_timer_fires t)"
proof -
  have "pause_ok (c\<lparr>pause_timers_armed := remove1 t (pause_timers_armed c), pause_timers_fired := pause_timers_fired c @ [t]\<rparr>)"
    if "pause_ok c" "t \<in> set (pause_timers_armed c)" for c
    using that by (cases "pause_timers_armed c") (auto simp: pause_ok_def)
  then show ?thesis
    by (auto simp: pause_timer_fires_def keeps_def act_simps pauses_kept_def)
qed

text \<open>A timer of the current generation that has fired is the only one of its generation.\<close>

lemma take_fired:
  assumes ok: "pause_ok c" and f: "pause_timers_fired c = A @ t # B"
  shows "pause_ok (c\<lparr>pause_timers_fired := A @ B\<rparr>)"
    "fst t = pause_resume_generation c \<Longrightarrow> pause_ok (c\<lparr>pause_timers_fired := A @ B, pause_resume_timer := None\<rparr>)"
proof -
  show ok': "pause_ok (c\<lparr>pause_timers_fired := A @ B\<rparr>)" using ok f by (auto simp: pause_ok_def)
  assume cur: "fst t = pause_resume_generation c"
  have "pause_timers_armed c = []"
  proof (cases "pause_timers_armed c")
    case (Cons u us)
    then show ?thesis using ok f cur by (cases u) (auto simp: pause_ok_def)
  qed simp
  with ok' show "pause_ok (c\<lparr>pause_timers_fired := A @ B, pause_resume_timer := None\<rparr>)"
    by (simp add: pause_ok_def)
qed

lemma run_pauses:
  assumes res: "\<And>b. keeps pauses_kept (resume_inventory b)"
  shows "keeps pauses_kept (pause_timer_runs i)"
  unfolding keeps_def
proof
  fix c :: client
  show "pauses_kept c (snd (pause_timer_runs i c))"
  proof (cases "i < length (pause_timers_fired c) \<and> pause_ok c")
    case False
    then show ?thesis by (auto simp: pause_timer_runs_def act_simps pauses_kept_def)
  next
    case True
    then have "pause_timers_fired c = take i (pause_timers_fired c) @ (pause_timers_fired c ! i) # drop (Suc i) (pause_timers_fired c)"
      by (simp add: id_take_nth_drop)
    then show ?thesis using True res take_fired [of c]
      by (auto simp: pause_timer_runs_def timed_resume_def act_simps pauses_kept_def keeps_def)
  qed
qed

interpretation pc: client_relation pauses_kept "\<lambda>_. True"
proof unfold_locales
  show same: "pauses_kept c c'" if "client_view c' = client_view c" for c c'
    using that by (intro same_pauses) (simp add: client_view_def)
  have sends: "keeps pauses_kept m" if "keeps sends_only m" for m :: "'x command"
    unfolding keeps_def
  proof
    fix c :: client
    from that obtain i rs sent where "snd (m c) = c\<lparr>last_msg_id := i, tx_results := rs, outbox := sent\<rparr>"
      unfolding keeps_def sends_only_def by blast
    then show "pauses_kept c (snd (m c))" by (intro same_pauses) (simp add: pause_view_def)
  qed
  have setState: "keeps pauses_kept (setState s)" for s
    unfolding setState_def record_event_def
    by (intro pk.kept cancel_pauses unpaused_modify; simp add: pause_view_def)
  show "keeps pauses_kept (sendMessage msg)" for msg
    by (intro sends sendMessage_sends)
  show "keeps pauses_kept (send_KEEPALIVE_ACK mid)" for mid
    unfolding send_KEEPALIVE_ACK_def
    by (intro pk.kept sends sendMessage_sends transport_sends)
  have frames: "keeps pauses_kept (modifyA (\<lambda>c. c\<lparr>pending_requests := f c\<rparr>))"
    "keeps pauses_kept (modifyA (\<lambda>c. c\<lparr>deferreds := g c\<rparr>))"
    "keeps pauses_kept (modifyA (\<lambda>c. c\<lparr>sending_registered_request := True, reserved_message_id := i\<rparr>))" for f g i
    by (intro unpaused_modify; simp add: pause_view_def)+
  have reg: "keeps pauses_kept (register_request n m k)" for n m k
    unfolding register_request_def by (auto intro!: pk.kept frames split: prod.split)
  have undo: "keeps pauses_kept (undo_request n m k ns s)" for n m k ns s
    unfolding undo_request_def by (intro pk.kept frames setState unpaused_modify table_pause_view)
  show "keeps pauses_kept (send_request msg name k ns)" for msg name k ns
    unfolding send_request_def
    by (intro pk.kept sends sendMessage_sends next_message_id_sends setState undo reg frames
        unpaused_modify table_pause_view)
  show "pauses_kept c (snd (processDeferreds name ok c))"
    if run: "\<And>k s b. keeps pauses_kept (run_cont k s b)" for name ok c
  proof -
    have "keeps pauses_kept (run_deferreds name ok x)" for x
      unfolding run_deferreds_def take_callbacks_def
      by (intro pk.kept frames run unpaused_modify table_pause_view)
    then have "keeps pauses_kept (processDeferreds name ok)"
      unfolding processDeferreds_def
      by (auto intro!: pk.kept frames intro!: unpaused_modify [OF table_pause_view(2)] unpaused_modify [OF table_pause_view(3)]
        split: option.split prod.split)
    then show ?thesis by (simp add: keeps_def)
  qed
  show "keeps pauses_kept (request_timer_runs i)"
    if run: "\<And>k s b. keeps pauses_kept (run_cont k s b)" for i
    unfolding request_timer_runs_def on_request_timeout_def run_callback_def
    by (auto intro!: pk.kept frames run intro!: unpaused_modify [OF table_pause_view(2)] unpaused_modify [OF table_pause_view(3)]
        split: option.split prod.split)
  show "pauses_kept c (touch_deferreds name c)" for name c
    by (rule same_pauses) simp
  show "pauses_kept c (c\<lparr>pending_requests := fire t (pending_requests c)\<rparr>)" for c t
    by (rule same_pauses) (simp add: pause_view_def)
  show "keeps pauses_kept reset_protocol_session"
    unfolding reset_protocol_session_def
    by (intro pk.kept cancel_pauses unpaused_modify) (simp add: pause_view_def)
qed (auto intro!: cancel_pauses schedule_pauses fire_pauses run_pauses)

end
