(* ===== verification/Client_Theorems.thy ===== *)
theory Client_Theorems
  imports Client_Invariant Client_Messages Client_Pauses Wire_Theorems
begin

text \<open>The properties of the protocol client that hold in every run.\<close>

abbreviation new_run :: "client_input list \<Rightarrow> (nat \<Rightarrow> reader_config) \<Rightarrow> py_error option list \<Rightarrow> client" where
  "new_run inputs store script \<equiv> client_run inputs (new_client store id id script)"

lemma new_client_ok:
  "requests_ok (new_client store masks indices script)" "ids_ok (new_client store masks indices script)"
  "pause_ok (new_client store masks indices script)" "outbox (new_client store masks indices script) = []"
  by (simp_all add: new_client_def requests_ok_def table_ok_def request_of_def entries_def awaits_def
      deferred_list_def ids_ok_def pause_ok_def LLRP_MSG_ID_MAX_def new_registry_def sole_def
      registry_ok_def stale_ok_def pending_ok_def timers_ok_def)

section \<open>The request table\<close>

text \<open>
  C18. Whatever the reader, the timers, the transport and the application do, and in whatever
  order: for each response type at most one request is pending, the callbacks registered under
  the type are exactly the callback of that request, and the registry is consistent.
\<close>

theorem client_requests_consistent:
  "requests_ok (client_run inputs (new_client store masks indices script))"
proof -
  have "list_all (input_allowed (\<lambda>_. True)) inputs"
    by (simp add: list_all_iff) (metis input_allowed.elims(3))
  then show ?thesis
    using rc.run [of inputs] new_client_ok(1) by (auto simp: requests_kept_def)
qed

text \<open>
  C19. In every run in which the application leaves the message identifiers to the client, each
  message written to the transport is one whole frame that declares its own length and names its
  message, with an identifier from 1 to 4294967295 (from 0 for acknowledgements, which echo the
  reader's identifier); the counter stays in that range, so it wraps without reaching zero.
\<close>

theorem client_sends_frames:
  assumes "list_all (input_allowed plain_message) inputs"
  shows "list_all sent_frame (outbox (client_run inputs (new_client store masks indices script))) \<and>
    0 \<le> last_msg_id (client_run inputs (new_client store masks indices script)) \<and>
    last_msg_id (client_run inputs (new_client store masks indices script)) \<le> LLRP_MSG_ID_MAX"
proof -
  have "ids_ok (client_run inputs (new_client store masks indices script)) \<and>
      (\<exists>new. outbox (client_run inputs (new_client store masks indices script)) = [] @ new \<and> list_all sent_frame new)"
    using mc.run [OF assms, of "new_client store masks indices script"]
    unfolding messages_kept_def new_client_ok(4) by (rule mp) (rule new_client_ok(2))
  then show ?thesis unfolding ids_ok_def by auto
qed

theorem client_sends_frames_witness:
  "list_all sent_frame [[4, 72, 0, 0, 0, 10, 0, 0, 0, 5]]"
proof -
  have "outbox (new_run [Receive ''KEEPALIVE'' [(''ID'', PInt 5)]] (\<lambda>_. default_config) []) =
      [[4, 72, 0, 0, 0, 10, 0, 0, 0, 5]]"
    by (simp add: handleMessage_def message_id_of_def act_simps send_KEEPALIVE_ACK_def LLRP_MSG_ID_MAX_def
        keepalive_ack_bytes transport_tx_write_def new_client_def py_int_def)
  then show ?thesis
    using client_sends_frames [of "[Receive ''KEEPALIVE'' [(''ID'', PInt 5)]]" "\<lambda>_. default_config" id id "[]"]
    by simp
qed

text \<open>
  C20. A request that cannot be sent leaves no trace in the client: whether serializing or the
  transport fails, no request stays pending, no callback stays registered, and the protocol
  state is the one before.
\<close>

theorem send_failure_restores:
  assumes "requests_ok c" "ends_with name ''_RESPONSE''" "send_request msg name k new_state c = (Inl e, c')"
  shows "request_of c' = request_of c \<and> state c' = state c \<and> requests_ok c' \<and>
    (\<forall>n. deferred_list n c' = deferred_list n c)"
proof -
  have r: "request_of c' = request_of c \<and> state c' = state c \<and> requests_ok c'"
    using send_request_outcome [OF assms] assms(1) by auto
  have "deferred_list n c' = deferred_list n c" for n
  proof (cases "awaits n (request_of c)")
    case True
    then obtain m x where "request_of c (n, m) = Some x" by (auto simp: awaits_def)
    then show ?thesis using r assms(1) table_deferred [of c n m x] table_deferred [of c' n m x]
      by (simp add: requests_ok_def)
  next
    case False
    then show ?thesis using r assms(1) table_none [of c n] table_none [of c' n] by (simp add: requests_ok_def)
  qed
  with r show ?thesis by simp
qed

lemma keepalive_ack_one: "serialize [(''KEEPALIVE_ACK'', PDict [(''ID'', PInt 1)])] = Inr [4, 72, 0, 0, 0, 10, 0, 0, 0, 1]"
  by (simp add: serialize_def message_entry keepalive_entries Msg_KEEPALIVE_ACK_def encode_message_def
      basic_param_encode_empty_def msg_header_encode_def py_operand_def postprocessed_def
      msg_header_struct_def codec_eval)

text \<open>A transport that refuses the first message.\<close>

lemma refused_send:
  "fst (send_request [(''KEEPALIVE_ACK'', PDict [])] ''PROBE_RESPONSE'' None (Some STATE_SENT_GET_CONFIG)
     (new_client (\<lambda>_. default_config) id id [Some OSError])) = Inl OSError"
  by (simp add: send_request_def undo_request_def sendMessage_def prepare_message_def assign_message_id_def
      next_message_id_def register_request_def setState_def cancel_pause_resume_timer_def record_event_def
      act_simps new_client_def new_registry_def has_response_type_def deferred_list_def register_def
      request_timeout_of_def current_config_def default_config_def keepalive_ack_one transport_tx_write_def
      py_get_def py_items_def end_registered_send_def remove_deferred_def drop_empty_deferreds_def
      LLRP_MSG_ID_MAX_def Let_def)

theorem send_failure_restores_witness:
  "state (snd (send_request [(''KEEPALIVE_ACK'', PDict [])] ''PROBE_RESPONSE'' None (Some STATE_SENT_GET_CONFIG)
     (new_client (\<lambda>_. default_config) id id [Some OSError]))) = STATE_DISCONNECTED"
proof -
  let ?c = "new_client (\<lambda>_. default_config) id id [Some OSError]"
  obtain c' where "send_request [(''KEEPALIVE_ACK'', PDict [])] ''PROBE_RESPONSE'' None (Some STATE_SENT_GET_CONFIG) ?c
      = (Inl OSError, c')"
    using refused_send by (metis prod.collapse)
  moreover have "ends_with ''PROBE_RESPONSE'' ''_RESPONSE''" by (simp add: ends_with_def)
  moreover have "state ?c = STATE_DISCONNECTED" by (simp add: new_client_def)
  ultimately show ?thesis using send_failure_restores [OF new_client_ok(1)] by auto
qed

text \<open>A key that is popped is remembered as stale.\<close>

lemma pop_remembers:
  assumes "registry_ok limit r" "pop_request n m r = (r', Some req)"
  shows "is_stale n m r'"
proof (cases rule: pop_request_cases [OF assms(1), of n m True])
  case (2 q r1 q1)
  then have "stale_ok r1" by (simp add: registry_ok_def)
  then show ?thesis using 2 assms(2) remember_stale_ok(2) [of r1 "(n, m)"] by (simp add: is_stale_def)
qed (use assms(2) in simp)

lemma drop_empty_view: "\<exists>d. drop_empty_deferreds name c = c\<lparr>deferreds := d\<rparr>"
proof (cases "deferred_list name c = []")
  case False
  then have "drop_empty_deferreds name c = c\<lparr>deferreds := deferreds c\<rparr>" by (simp add: drop_empty_deferreds_def)
  then show ?thesis by blast
qed (auto simp: drop_empty_deferreds_def)

text \<open>
  A response that answers no pending request completes nothing: when the exact key (name and
  identifier) is not pending, \<open>processDeferreds\<close> runs no callback and changes nothing but
  possibly an empty entry of the callback table; the fallback that would run every callback
  registered under the name never finds one.
\<close>

theorem unsolicited_response_runs_nothing:
  assumes ok: "requests_ok c" and mid: "response_message_id c = Some i" and none: "request_of c (name, i) = None"
    and seen: "answered name c \<or> is_stale name i (pending_requests c)"
  shows "\<exists>d. processDeferreds name b c = (Inr False, c\<lparr>deferreds := d\<rparr>) \<and>
    (\<forall>n. deferred_list n (c\<lparr>deferreds := d\<rparr>) = deferred_list n c)"
proof -
  let ?r = "pending_requests c"
  have pop: "pop_request name i ?r = (?r, None)"
    using none by (intro pop_unmatched) (simp add: request_of_def)
  have drop: "\<exists>d. drop_empty_deferreds name c1 = c1\<lparr>deferreds := d\<rparr> \<and>
      (\<forall>n. deferred_list n (c1\<lparr>deferreds := d\<rparr>) = deferred_list n c1)" for c1
    using drop_empty_view [of name c1] deferred_list_simps(4) [of _ name c1] by metis
  show ?thesis
  proof (cases "is_stale name i ?r")
    case True
    then show ?thesis using drop [of c] by (auto simp: processDeferreds_def act_simps mid pop)
  next
    case False
    have "\<not> awaits name (request_of c)"
      using seen False ok none mid
      by (auto simp: answered_def unmatched_response_def request_of_def has_response_type_awaits
          contains_entries requests_ok_def table_ok_def)
    then have dl: "deferred_list name c = []" using ok table_none by (auto simp: requests_ok_def)
    have "\<exists>d. clear_deferreds name c = c\<lparr>deferreds := d\<rparr>"
      by (auto simp: clear_deferreds_def split: option.split intro: exI [of _ "deferreds c"])
    then obtain d where d: "clear_deferreds name c = c\<lparr>deferreds := d\<rparr>" by blast
    then have same: "deferred_list n (c\<lparr>deferreds := d\<rparr>) = deferred_list n c" for n
      using deferred_list_pop(2) [of n name c] dl by simp
    from drop [of "c\<lparr>deferreds := d\<rparr>"] obtain d' where
      "drop_empty_deferreds name (c\<lparr>deferreds := d\<rparr>) = c\<lparr>deferreds := d'\<rparr>"
      "\<forall>n. deferred_list n (c\<lparr>deferreds := d'\<rparr>) = deferred_list n (c\<lparr>deferreds := d\<rparr>)" by auto
    then show ?thesis using False same
      by (intro exI [of _ d']) (simp add: processDeferreds_def run_deferreds_def take_callbacks_def act_simps mid pop dl d)
  qed
qed

theorem unsolicited_response_runs_nothing_witness:
  "\<exists>d. processDeferreds ''GET_READER_CONFIG_RESPONSE'' True
       ((new_client (\<lambda>_. default_config) id id [])\<lparr>response_message_id := Some 7\<rparr>) =
     (Inr False, (new_client (\<lambda>_. default_config) id id [])\<lparr>response_message_id := Some 7, deferreds := d\<rparr>)"
proof -
  let ?c = "(new_client (\<lambda>_. default_config) id id [])\<lparr>response_message_id := Some 7\<rparr>"
  have "requests_ok ?c"
    using new_client_ok(1) request_view_cong(1) [of ?c "new_client (\<lambda>_. default_config) id id []"]
    by (simp add: request_view_def)
  moreover have "request_of ?c (''GET_READER_CONFIG_RESPONSE'', 7) = None" "answered ''GET_READER_CONFIG_RESPONSE'' ?c"
    by (simp_all add: new_client_def new_registry_def request_of_def entries_def answered_def
        unmatched_response_def is_stale_def has_response_type_def)
  ultimately show ?thesis
    using unsolicited_response_runs_nothing [of ?c 7 "''GET_READER_CONFIG_RESPONSE''" True] by auto
qed

lemma matched_response:
  assumes ok: "requests_ok c" and mid: "response_message_id c = Some i" and key: "request_of c (name, i) = Some (Some k)"
  shows "\<exists>r d. let c1 = c\<lparr>pending_requests := r, deferreds := d\<rparr> in
     processDeferreds name b c = (case run_cont k (state c) b c1 of
        (Inl e, c2) \<Rightarrow> (Inl e, c2) | (Inr _, c2) \<Rightarrow> (Inr True, drop_empty_deferreds name c2)) \<and>
     requests_ok c1 \<and> request_of c1 = (request_of c)((name, i) := None) \<and> is_stale name i (pending_requests c1)"
proof -
  let ?r = "pending_requests c"
  have reg: "registry_ok 512 ?r" and t: "table_ok c" using ok by (simp_all add: requests_ok_def table_ok_def)
  have e: "entries ?r (name, i) = Some (Some k)" using key by (simp add: request_of_def)
  obtain r' req where p: "pop_request name i ?r = (r', Some req)" "registry_ok 512 r'"
    "entries r' = (request_of c)((name, i) := None)" "callback req = Some k"
    using pop_matched [OF reg e] by (auto simp: request_of_def)
  let ?c1 = "remove_deferred name (Some k) (c\<lparr>pending_requests := r'\<rparr>)"
  have st: "is_stale name i r'"
    using pop_remembers [OF reg p(1)] .
  obtain ks where ks: "dict_get (deferreds c) name = Some ks"
    using table_deferred [OF t key] by (cases "dict_get (deferreds c) name") (simp_all add: deferred_list_def)
  have c1: "?c1 = c\<lparr>pending_requests := r', deferreds := dict_set (deferreds c) name (remove1 k (deferred_list name c))\<rparr>"
    using table_deferred [OF t key] by (simp add: remove_deferred_def)
  have "processDeferreds name b c = (case run_cont k (state c) b ?c1 of
        (Inl e, c2) \<Rightarrow> (Inl e, c2) | (Inr _, c2) \<Rightarrow> (Inr True, drop_empty_deferreds name c2))"
    using p ks by (simp add: processDeferreds_def run_deferreds_def take_callbacks_def act_simps mid
        split: prod.split sum.split)
  then show ?thesis
    using take_request_ok [OF ok key p(2,3)] st unfolding Let_def c1 by (intro exI) simp
qed

text \<open>
  C21. A response with the exact key of a pending request completes that request and no other,
  once: its callback runs with the response's status on a table from which just this key is gone
  and in which it counts as stale, so that a duplicate of the response is discarded.
\<close>

theorem matched_response_completes_request:
  assumes ok: "requests_ok c" and mid: "response_message_id c = Some i" and key: "request_of c (name, i) = Some (Some k)"
  shows "\<exists>c1. processDeferreds name b c = (case run_cont k (state c) b c1 of
        (Inl e, c2) \<Rightarrow> (Inl e, c2) | (Inr _, c2) \<Rightarrow> (Inr True, drop_empty_deferreds name c2)) \<and>
     requests_ok c1 \<and> request_of c1 = (request_of c)((name, i) := None) \<and>
     is_stale name i (pending_requests c1) \<and> state c1 = state c \<and> message_view c1 = message_view c"
proof -
  obtain r d where
    "processDeferreds name b c = (case run_cont k (state c) b (c\<lparr>pending_requests := r, deferreds := d\<rparr>) of
        (Inl e, c2) \<Rightarrow> (Inl e, c2) | (Inr _, c2) \<Rightarrow> (Inr True, drop_empty_deferreds name c2))"
    "requests_ok (c\<lparr>pending_requests := r, deferreds := d\<rparr>)"
    "request_of (c\<lparr>pending_requests := r, deferreds := d\<rparr>) = (request_of c)((name, i) := None)"
    "is_stale name i r"
    using matched_response [OF assms, of b] by (simp add: Let_def) blast
  then show ?thesis
    by (intro exI [of _ "c\<lparr>pending_requests := r, deferreds := d\<rparr>"]) (simp add: message_view_def)
qed

definition waiting_client :: client where
  "waiting_client = (new_client (\<lambda>_. default_config) id id [])\<lparr>
     deferreds := [(''GET_READER_CONFIG_RESPONSE'', [User_Cb 0])],
     pending_requests := (new_registry 512)\<lparr>pending := [((''GET_READER_CONFIG_RESPONSE'', 1),
       \<lparr>response_name = ''GET_READER_CONFIG_RESPONSE'', message_id = 1, callback = Some (User_Cb 0), timer = None\<rparr>)]\<rparr>,
     response_message_id := Some 1\<rparr>"

lemma waiting_client_ok: "requests_ok waiting_client" "response_message_id waiting_client = Some 1"
  "request_of waiting_client (''GET_READER_CONFIG_RESPONSE'', 1) = Some (Some (User_Cb 0))"
proof -
  have r: "request_of waiting_client = (\<lambda>x. None)((''GET_READER_CONFIG_RESPONSE'', 1) := Some (Some (User_Cb 0)))"
    by (auto simp: request_of_def entries_def waiting_client_def new_registry_def fun_eq_iff)
  have "registry_ok 512 (pending_requests waiting_client)"
    by (simp add: waiting_client_def new_registry_def registry_ok_def stale_ok_def pending_ok_def timers_ok_def)
  moreover have "deferred_list n waiting_client = (if n = ''GET_READER_CONFIG_RESPONSE'' then [User_Cb 0] else [])" for n
    by (simp add: deferred_list_def waiting_client_def)
  ultimately show "requests_ok waiting_client"
    unfolding requests_ok_def table_ok_def r
    by (auto simp: sole_def awaits_def ends_with_def waiting_client_def new_client_def split: if_splits)
  show "request_of waiting_client (''GET_READER_CONFIG_RESPONSE'', 1) = Some (Some (User_Cb 0))" by (simp add: r)
qed (simp add: waiting_client_def)

theorem matched_response_completes_request_witness:
  "\<exists>c1. processDeferreds ''GET_READER_CONFIG_RESPONSE'' True waiting_client =
       (Inr True, drop_empty_deferreds ''GET_READER_CONFIG_RESPONSE''
          (c1\<lparr>events := events c1 @ [User_Called 0 STATE_DISCONNECTED True]\<rparr>)) \<and>
     is_stale ''GET_READER_CONFIG_RESPONSE'' 1 (pending_requests c1)"
proof -
  have "state waiting_client = STATE_DISCONNECTED" by (simp add: waiting_client_def new_client_def)
  then show ?thesis
    using matched_response_completes_request [OF waiting_client_ok, of True]
    by (auto simp: record_event_def act_simps)
qed

section \<open>Timed pauses\<close>

text \<open>
  C23. In every run at most one resume timer is armed, and once the timed pause is cancelled (by
  \<open>resume\<close>, a new pause, or any way to the disconnected state) no timer that is armed or has
  already fired does anything when it runs.
\<close>

theorem cancelled_pause_never_resumes:
  "length (pause_timers_armed (client_run inputs (new_client store masks indices script))) \<le> 1 \<and>
   (\<exists>c. cancel_pause_resume_timer (client_run inputs (new_client store masks indices script)) = (Inr (), c) \<and>
     list_all (\<lambda>t. timed_resume t c = (Inr (), c)) (pause_timers_armed c @ pause_timers_fired c))"
proof -
  let ?c = "client_run inputs (new_client store masks indices script)"
  have "list_all (input_allowed (\<lambda>_. True)) inputs"
    by (simp add: list_all_iff) (metis input_allowed.elims(3))
  then have ok: "pause_ok ?c"
    using pc.run [of inputs "new_client store masks indices script"] new_client_ok(3) by (simp add: pauses_kept_def)
  obtain c where c: "cancel_pause_resume_timer ?c = (Inr (), c)"
    by (simp add: cancel_pause_resume_timer_def act_simps)
  note old = cancelled [OF ok c]
  have "timed_resume t c = (Inr (), c)" if "t \<in> set (pause_timers_armed c @ pause_timers_fired c)" for t
    using that old(1,4) by (auto simp: list_all_iff timed_resume_def act_simps)
  with c ok show ?thesis by (auto simp: list_all_iff pause_ok_def)
qed

end
