(* ===== verification/Reader_Theorems.thy ===== *)
theory Reader_Theorems
  imports Reader_Relations Client_Theorems
begin

text \<open>The properties of the reader client that hold in every run.\<close>

section \<open>A concrete reader\<close>

text \<open>A client of the default configuration whose every connection succeeds.\<close>

definition example_reader :: reader where
  "example_reader = projr (new_reader (new_client (\<lambda>_. default_config) id id []) None [] [] (\<lambda>_. 0) 100)"

lemma example_reader_eq: "example_reader = \<lparr>llrp = (new_client (\<lambda>_. default_config) id id [])\<lparr>transport_up := False\<rparr>,
       port_explicit = False, port = 5084, reader_cfg = 0, deduplicator = None, thread_running = False, in_main_loop = False, disconnect_requested = False,
       stop_main_loop = False, disconnected_notified = False, duration_timer = None,
       duration_timers_armed = [], duration_timers_fired = [], next_duration_timer = 0, frame = idle,
       state_callbacks = (\<lambda>_. []), message_callbacks = (\<lambda>_. []), tag_report_callbacks = [],
       event_callbacks = [], disconnected_callbacks = [], connect_results = [], wait_results = [],
       clock = (\<lambda>_. 0), clock_reads = 0, stack_room = 100, calls = []\<rparr>"
  by (simp add: example_reader_def new_reader_def build_tag_deduplicator_def current_config_def new_client_def
      default_config_def default_port_def LLRP_DEFAULT_PORT_def Let_def)

lemma example_reader_new: "new_reader (new_client (\<lambda>_. default_config) id id []) None [] [] (\<lambda>_. 0) 100 = Inr example_reader"
  by (simp add: example_reader_eq new_reader_def build_tag_deduplicator_def current_config_def new_client_def
      default_config_def default_port_def LLRP_DEFAULT_PORT_def Let_def)

lemmas reader_eval = connect_def disconnect_def reset_session_def hard_disconnect_def close_session_def reset_protocol_session_def
  cancel_pause_resume_timer_def record_event_def on_client_def new_events_def on_client_event_def session_closed_def
  cancel_duration_timer_def on_disconnected_def record_calls_def connect_socket_def socket_opened_def cancel_all_def
  new_registry_def add_disconnected_callback_def add_callback_def

lemma example_reader_run:
  "map_option calls (reader_run [Change (Add_Disconnected 7), Call_Connect False, Reader_Disconnect, Call_Connect False, Reader_Disconnect] example_reader)
     = Some [Connection_Opened, Disconnected_Called 7, Connection_Opened, Disconnected_Called 7]"
  by (simp add: example_reader_eq new_client_def reader_eval act_simps Let_def)

section \<open>The protocol client inside the reader client\<close>

text \<open>The protocol client took some steps of its own.\<close>

definition follows :: "reader \<Rightarrow> reader \<Rightarrow> bool" where
  "follows r r' \<longleftrightarrow> (\<exists>is. list_all (input_allowed plain_message) is \<and> llrp r' = client_run is (llrp r))"

lemma follows_same: "llrp r' = llrp r \<Longrightarrow> follows r r'"
  unfolding follows_def by (rule exI [of _ "[]"]) simp

lemma follows_step: "input_allowed plain_message i \<Longrightarrow> llrp r' = snd (perform i (llrp r)) \<Longrightarrow> follows r r'"
  unfolding follows_def by (rule exI [of _ "[i]"]) simp

lemma follows_trans: "follows r s \<Longrightarrow> follows s t \<Longrightarrow> follows r t"
proof -
  assume "follows r s" "follows s t"
  then obtain xs ys where "list_all (input_allowed plain_message) (xs @ ys)" "llrp t = client_run (xs @ ys) (llrp r)"
    by (auto simp: follows_def)
  then show "follows r t" unfolding follows_def by blast
qed

interpretation fr: state_relation follows
  by unfold_locales (auto intro: follows_same follows_trans)

lemma keeps_follows: "(\<And>r. llrp (snd (m r)) = llrp r) \<Longrightarrow> keeps follows m"
  by (simp add: keeps_def follows_same)

interpretation fc: reader_relation follows "input_allowed plain_message"
proof unfold_locales
  show "internal i \<Longrightarrow> input_allowed plain_message i" for i
    by (cases i) (simp_all add: internal_def)
  show "keeps follows on_disconnected"
    by (rule keeps_follows)
      (simp add: on_disconnected_def cancel_duration_timer_def record_calls_def act_simps)
  show "keeps follows (thenA (modifyA (\<lambda>r. r\<lparr>disconnected_notified := False\<rparr>)) (record_calls [Connection_Opened]))"
    by (rule keeps_follows) (simp add: record_calls_def act_simps)
qed (auto intro: follows_same follows_step)

lemma new_reader_client: "new_reader c explicit connects waits time stack = Inr r \<Longrightarrow> llrp r = c\<lparr>transport_up := False\<rparr>"
  by (auto simp: new_reader_def Let_def bindE_eq_Inr)

text \<open>
  C24. The reader client drives the protocol client only through its operations: whatever the
  network, the timers and the application do, the protocol client inside has gone through a run of
  its own, so that all its properties hold; in particular its request table is consistent and
  everything written to the socket is a sequence of whole frames.
\<close>

theorem reader_refines_client:
  assumes "list_all (reader_input_ok (input_allowed plain_message)) is"
    and "new_reader (new_client store masks indices script) explicit connects waits time stack = Inr r"
    and "reader_run is r = Some r'"
  shows "\<exists>inputs. llrp r' = client_run inputs ((new_client store masks indices script)\<lparr>transport_up := False\<rparr>) \<and>
    requests_ok (llrp r') \<and> list_all sent_frame (outbox (llrp r'))"
proof -
  let ?c = "new_client store masks indices script" and ?d = "(new_client store masks indices script)\<lparr>transport_up := False\<rparr>"
  have d: "llrp r = ?d" using new_reader_client [OF assms(2)] .
  from fc.reader_run [OF assms(1,3)] obtain inputs where
    "list_all (input_allowed plain_message) inputs" "llrp r' = client_run inputs ?d"
    by (auto simp: follows_def d)
  moreover have "requests_ok ?d" using new_client_ok(1) [of store masks indices script] request_view_cong(1) [of ?d ?c]
    by (simp add: request_view_def)
  moreover have "ids_ok ?d" "outbox ?d = []" using new_client_ok(2,4) [of store masks indices script]
    by (simp_all add: ids_ok_def)
  moreover have "list_all (input_allowed (\<lambda>_. True)) inputs"
    by (simp add: list_all_iff) (metis input_allowed.elims(3))
  ultimately show ?thesis
    using rc.run [of inputs ?d] mc.run [of inputs ?d] by (auto simp: requests_kept_def messages_kept_def)
qed

theorem reader_refines_client_witness:
  "\<exists>r'. reader_run [Call_Connect False, Reader_Disconnect] example_reader = Some r' \<and> requests_ok (llrp r')"
proof -
  have "reader_run [Call_Connect False, Reader_Disconnect] example_reader \<noteq> None"
    by (simp add: example_reader_eq new_client_def reader_eval act_simps Let_def)
  then obtain r' where "reader_run [Call_Connect False, Reader_Disconnect] example_reader = Some r'" by blast
  with reader_refines_client [OF _ example_reader_new this] show ?thesis by simp
qed

section \<open>Disconnect callbacks\<close>

text \<open>The log is read backwards: the calls since the connection was last opened.\<close>

definition told :: "nat \<Rightarrow> callback_call list \<Rightarrow> bool" where
  "told cb l \<longleftrightarrow> Disconnected_Called cb \<in> set (takeWhile (\<lambda>x. x \<noteq> Connection_Opened) l)"

fun once :: "nat \<Rightarrow> callback_call list \<Rightarrow> bool" where
  "once cb [] \<longleftrightarrow> True"
| "once cb (x # l) \<longleftrightarrow> once cb l \<and> (x = Disconnected_Called cb \<longrightarrow> \<not> told cb l)"

lemma told_simps [simp]:
  "\<not> told cb []" "\<not> told cb (Connection_Opened # l)"
  "told cb (Disconnected_Called cb' # l) \<longleftrightarrow> cb = cb' \<or> told cb l"
  "quiet_call x \<Longrightarrow> told cb (x # l) \<longleftrightarrow> told cb l"
  by (auto simp: told_def quiet_call_def)

lemma quiet_log: "list_all quiet_call cs \<Longrightarrow> once cb (rev cs @ l) = once cb l \<and> told cb (rev cs @ l) = told cb l"
  by (induction cs arbitrary: l) (auto simp: quiet_call_def)

lemma disconnected_log:
  "distinct cbs \<Longrightarrow> once cb l \<Longrightarrow> \<not> told cb l \<Longrightarrow>
     once cb (rev (map Disconnected_Called cbs) @ l) \<and>
     (told cb (rev (map Disconnected_Called cbs) @ l) \<longleftrightarrow> cb \<in> set cbs)"
proof (induction cbs rule: rev_induct)
  case (snoc x xs)
  then show ?case by auto
qed simp

lemma once_append: "once cb (xs @ ys) \<Longrightarrow> once cb ys"
  by (induction xs) auto

lemma once_apart:
  assumes "once cb (rev (xs @ Disconnected_Called cb # ys @ Disconnected_Called cb # zs))"
  shows "Connection_Opened \<in> set ys"
proof (rule ccontr)
  assume no: "Connection_Opened \<notin> set ys"
  have "\<not> told cb (rev ys @ Disconnected_Called cb # rev xs)"
    using once_append [of cb "rev zs" "Disconnected_Called cb # rev ys @ Disconnected_Called cb # rev xs"] assms by simp
  moreover have "takeWhile (\<lambda>x. x \<noteq> Connection_Opened) (rev ys @ q) = rev ys @ takeWhile (\<lambda>x. x \<noteq> Connection_Opened) q" for q
    using no by (intro takeWhile_append2) auto
  ultimately show False by (simp add: told_def)
qed

definition notices_ok :: "reader \<Rightarrow> bool" where
  "notices_ok r \<longleftrightarrow> distinct (disconnected_callbacks r) \<and>
     (\<forall>cb. once cb (rev (calls r)) \<and> (told cb (rev (calls r)) \<longrightarrow> disconnected_notified r))"

definition notices_kept :: "reader \<Rightarrow> reader \<Rightarrow> bool" where
  "notices_kept r r' \<longleftrightarrow> (notices_ok r \<longrightarrow> notices_ok r')"

interpretation nk: state_relation notices_kept
  by unfold_locales (auto simp: notices_kept_def)

lemma cancel_duration_notices: "cancel_duration_timer r = (Inr (), r') \<Longrightarrow> notice_view r' = notice_view r"
  by (auto simp: cancel_duration_timer_def act_simps notice_view_def)

lemma disconnected_notices: "keeps notices_kept on_disconnected"
proof (rule keepsI)
  fix r x r' assume run: "on_disconnected r = (x, r')"
  obtain r1 where c: "cancel_duration_timer r = (Inr (), r1)" by (simp add: cancel_duration_timer_def act_simps)
  note v = cancel_duration_notices [OF c, unfolded notice_view_def]
  show "notices_kept r r'"
  proof (cases "disconnected_notified r")
    case True
    then have "r' = r1" using run c v by (simp add: on_disconnected_def act_simps)
    then show ?thesis using v by (simp add: notices_kept_def notices_ok_def)
  next
    case False
    then have r': "calls r' = calls r @ map Disconnected_Called (disconnected_callbacks r)"
        "disconnected_callbacks r' = disconnected_callbacks r" "disconnected_notified r'"
      using run c v by (auto simp: on_disconnected_def record_calls_def act_simps)
    show ?thesis
      unfolding notices_kept_def notices_ok_def r' rev_append
      using disconnected_log [of "disconnected_callbacks r" _ "rev (calls r)"] False r'(3) by blast
  qed
qed

interpretation nc: reader_relation notices_kept "\<lambda>_. True"
proof unfold_locales
  show "llrp r' = llrp r \<Longrightarrow> notice_view r' = notice_view r \<Longrightarrow> notices_kept r r'" for r r'
    by (simp add: notices_kept_def notices_ok_def notice_view_def)
  show "notices_kept r (r\<lparr>calls := calls r @ cs\<rparr>)" if "list_all quiet_call cs" for cs r
    using quiet_log [OF that] by (simp add: notices_kept_def notices_ok_def)
  show "keeps notices_kept on_disconnected" by (rule disconnected_notices)
  show "keeps notices_kept (thenA (modifyA (\<lambda>r. r\<lparr>disconnected_notified := False\<rparr>)) (record_calls [Connection_Opened]))"
    by (rule keepsI) (auto simp: record_calls_def act_simps notices_kept_def notices_ok_def)
qed (auto simp: notices_kept_def notices_ok_def add_callback_def remove_callback_def)

text \<open>
  C25. A disconnect callback is called at most once for every connection: between two of its calls
  the connection was opened again, whichever of the application, the receive thread, the duration
  timer and lost connections end the sessions.
\<close>

theorem disconnected_once_per_session:
  assumes "new_reader c explicit connects waits time stack = Inr r" "reader_run is r = Some r'"
    and "calls r' = xs @ Disconnected_Called cb # ys @ Disconnected_Called cb # zs"
  shows "Connection_Opened \<in> set ys"
proof -
  have "notices_ok r" using assms(1) by (auto simp: new_reader_def Let_def bindE_eq_Inr notices_ok_def)
  moreover have "list_all (reader_input_ok (\<lambda>_. True)) is"
    by (simp add: list_all_iff) (metis reader_input_ok.elims(3))
  ultimately have "notices_ok r'" using nc.reader_run [OF _ assms(2)] by (simp add: notices_kept_def)
  then have "once cb (rev (calls r'))" by (simp add: notices_ok_def)
  then show ?thesis unfolding assms(3) by (rule once_apart)
qed

theorem disconnected_once_per_session_witness:
  "\<exists>r' ys. reader_run [Change (Add_Disconnected 7), Call_Connect False, Reader_Disconnect, Call_Connect False,
       Reader_Disconnect] example_reader = Some r' \<and>
     calls r' = [Connection_Opened, Disconnected_Called 7] @ ys @ [Disconnected_Called 7] \<and> Connection_Opened \<in> set ys"
proof -
  obtain r' where r': "reader_run [Change (Add_Disconnected 7), Call_Connect False, Reader_Disconnect, Call_Connect False,
       Reader_Disconnect] example_reader = Some r'"
    and c: "calls r' = [Connection_Opened, Disconnected_Called 7, Connection_Opened, Disconnected_Called 7]"
    using example_reader_run by auto
  have "Connection_Opened \<in> set [Connection_Opened]"
    by (rule disconnected_once_per_session [OF example_reader_new r', of "[Connection_Opened]" 7 _ "[]"]) (simp add: c)
  with r' c show ?thesis by (intro exI [of _ r'] exI [of _ "[Connection_Opened]"]) simp
qed

section \<open>Connecting and reconnecting\<close>

lemma on_client_silent: "m (llrp r) = (x, c) \<Longrightarrow> events c = events (llrp r) \<Longrightarrow> on_client m r = (x, r\<lparr>llrp := c\<rparr>)"
  by (simp add: on_client_def new_events_def act_simps)

definition opened :: "reader \<Rightarrow> reader" where
  "opened r = r\<lparr>llrp := (llrp r)\<lparr>transport_up := True\<rparr>, disconnected_notified := False, calls := calls r @ [Connection_Opened]\<rparr>"

lemma socket_opened_eq: "socket_opened r = (Inr (), opened r)"
proof -
  have "on_client (modifyA (\<lambda>c. c\<lparr>transport_up := True\<rparr>)) r = (Inr (), r\<lparr>llrp := (llrp r)\<lparr>transport_up := True\<rparr>\<rparr>)"
    by (rule on_client_silent) (simp_all add: act_simps)
  then show ?thesis by (simp add: socket_opened_def opened_def record_calls_def act_simps)
qed

lemma connect_socket_eq: "connect_socket r = (if transport_up (llrp r) then (Inl ReaderConfigurationError, r)
     else case connect_results r of [] \<Rightarrow> (Inr (), opened r)
     | None # rs \<Rightarrow> (Inr (), opened (r\<lparr>connect_results := rs\<rparr>))
     | Some e # rs \<Rightarrow> (Inl e, r\<lparr>connect_results := rs\<rparr>))"
  by (simp add: connect_socket_def act_simps socket_opened_eq split: list.split option.split)

lemma opened_simps [simp]:
  "transport_up (llrp (opened r))" "connect_results (opened r) = connect_results r"
  by (simp_all add: opened_def)

lemma wait_delay_simps [simp]:
  "transport_up (llrp (snd (wait_delay r))) = transport_up (llrp r)"
  "connect_results (snd (wait_delay r)) = connect_results r"
  by (simp_all add: wait_delay_def split: list.split)

text \<open>The loop ends within its number of attempts.\<close>

lemma retry_loop_bounded:
  assumes "\<not> transport_up (llrp r)"
  shows "\<exists>x r'. retry_loop (Some (of_nat n)) err r = Some (x, r') \<and>
    length (connect_results r) \<le> length (connect_results r') + n \<and> (transport_up (llrp r') \<longleftrightarrow> x = Inr True)"
  using assms
proof (induction n arbitrary: r err)
  case 0
  then show ?case by (subst retry_loop.simps) (auto split: option.split)
next
  case (Suc n)
  show ?case
  proof (cases "disconnect_requested r")
    case True
    then show ?thesis using Suc.prems by (subst retry_loop.simps) (auto split: option.split)
  next
    case False
    show ?thesis
    proof (cases "\<exists>e rs. connect_results r = Some e # rs")
      case True
      then obtain e rs where rs: "connect_results r = Some e # rs" by blast
      let ?r1 = "r\<lparr>connect_results := rs\<rparr>"
      obtain b r2 where w: "wait_delay ?r1 = (b, r2)" by fastforce
      have r2: "\<not> transport_up (llrp r2)" "connect_results r2 = rs"
        using wait_delay_simps [of ?r1] w Suc.prems(1) by simp_all
      obtain x r' where IH: "retry_loop (Some (of_nat n)) (Some e) r2 = Some (x, r')"
        "length (connect_results r2) \<le> length (connect_results r') + n" "transport_up (llrp r') \<longleftrightarrow> x = Inr True"
        using Suc.IH [of r2 "Some e"] r2(1) by auto
      show ?thesis
        using Suc.prems(1) False rs w r2 IH
        by (subst retry_loop.simps) (auto simp: connect_socket_eq Let_def)
    next
      case no: False
      then show ?thesis using Suc.prems(1) False
        by (subst retry_loop.simps) (auto simp: connect_socket_eq split: list.split option.split)
    qed
  qed
qed

text \<open>
  C26. Reconnecting comes to an end: with a number of retries that is not negative and no
  connection left, \<open>_retry_connect\<close> returns after at most that many attempts, and it returns
  normally exactly if there is a connection then.
\<close>

theorem retry_connect_bounded:
  assumes "\<not> transport_up (llrp r)" "reconnect_retries (reader_settings r) = PInt n" "0 \<le> n"
  shows "\<exists>x r'. retry_connect r = Some (x, r') \<and>
    int (length (connect_results r) - length (connect_results r')) \<le> n \<and>
    (transport_up (llrp r') \<longleftrightarrow> x = Inr ())"
proof -
  obtain k where k: "n = int k" using assms(3) nonneg_int_cases by blast
  have num: "py_number (reconnect_retries (reader_settings r)) = Some (of_nat k)"
    by (simp add: assms(2) k py_number_def number_of_def)
  obtain x r' where "retry_loop (Some (of_nat k)) None r = Some (x, r')"
    "length (connect_results r) \<le> length (connect_results r') + k" "transport_up (llrp r') \<longleftrightarrow> x = Inr True"
    using retry_loop_bounded [OF assms(1), of k None] by auto
  then show ?thesis unfolding retry_connect_def num k by (cases x) auto
qed

theorem retry_connect_bounded_witness:
  "\<exists>x r'. retry_connect example_reader = Some (x, r') \<and>
     int (length (connect_results example_reader) - length (connect_results r')) \<le> 5 \<and>
     (transport_up (llrp r') \<longleftrightarrow> x = Inr ())"
  by (rule retry_connect_bounded)
    (simp_all add: example_reader_eq reader_settings_def new_client_def default_config_def)

lemma reset_session_eq:
  "\<exists>c. reset_session r = (Inr (), r\<lparr>frame := idle, llrp := c\<rparr>) \<and> state c = STATE_DISCONNECTED \<and> deferreds c = [] \<and>
    pending_count (pending_requests c) = 0 \<and> transport_up c = transport_up (llrp r) \<and> objects c = objects (llrp r)"
proof -
  let ?c = "snd (reset_protocol_session (llrp r))"
  have run: "reset_protocol_session (llrp r) = (Inr (), ?c)" and ev: "events ?c = events (llrp r)"
    by (simp_all add: reset_protocol_session_def cancel_pause_resume_timer_def act_simps)
  have "pending_count (fst (cancel_all False q)) = 0" for q :: "(cont, unit) pending_registry"
  proof -
    have "dict_get (pending (fst (cancel_all False q))) k = None" for k
      using fun_cong [OF cancel_all_entries [of q], of k] by (simp add: entries_def)
    then have "pending (fst (cancel_all False q)) = []"
      by (cases "pending (fst (cancel_all False q))") (auto split: if_splits, metis map_of_Cons_code(2) option.distinct(1))
    then show ?thesis by (simp add: pending_count_def)
  qed
  then have "state ?c = STATE_DISCONNECTED \<and> deferreds ?c = [] \<and> pending_count (pending_requests ?c) = 0 \<and>
      transport_up ?c = transport_up (llrp r) \<and> objects ?c = objects (llrp r)"
    by (simp add: reset_protocol_session_def cancel_pause_resume_timer_def act_simps)
  moreover have "reset_session r = (Inr (), r\<lparr>frame := idle, llrp := ?c\<rparr>)"
    using on_client_silent [of reset_protocol_session "r\<lparr>frame := idle\<rparr>" "Inr ()" ?c] run ev
    by (simp add: reset_session_def act_simps)
  ultimately show ?thesis by blast
qed

text \<open>
  With a socket in place every attempt fails at once: a positive number of attempts is used up,
  and unlimited ones end only when a wait is interrupted.
\<close>

lemma retry_loop_live:
  assumes "transport_up (llrp r)" "\<not> disconnect_requested r" "remaining = of_int m" "m \<noteq> 0"
  shows "retry_loop (Some remaining) err r = (let n = (if m > 0 then m - 1 else m) in
    if n = 0 then Some (Inl ReaderConfigurationError, r)
    else (case wait_delay r of (interrupted, r) \<Rightarrow>
      if interrupted then Some (Inl ReaderConfigurationError, r)
      else retry_loop (Some (of_int n)) (Some ReaderConfigurationError) r))"
proof -
  have "(of_int m :: rat) > 0 \<longleftrightarrow> m > 0" "(of_int m :: rat) - 1 = of_int (m - 1)"
    "(of_int (m - 1) :: rat) = 0 \<longleftrightarrow> m - 1 = 0"
    by (simp_all flip: of_int_eq_0_iff)
  with assms show ?thesis
    by (subst retry_loop.simps) (simp add: connect_socket_eq Let_def split: prod.split)
qed

lemma wait_delay_live:
  assumes "\<not> disconnect_requested r"
  obtains r' where "True \<in> set (wait_results r)" "wait_delay r = (True, r')" "llrp r' = llrp r"
  | r' where "wait_delay r = (False, r')" "llrp r' = llrp r" "\<not> disconnect_requested r'"
      "True \<in> set (wait_results r') \<longleftrightarrow> True \<in> set (wait_results r)"
      "length (wait_results r') = length (wait_results r) - 1"
  using assms by (cases "wait_results r") (auto simp: wait_delay_def)

lemma retry_loop_used_up:
  "transport_up (llrp r) \<Longrightarrow> \<not> disconnect_requested r \<Longrightarrow>
     \<exists>r'. retry_loop (Some (of_int (int (Suc k)))) err r = Some (Inl ReaderConfigurationError, r') \<and> llrp r' = llrp r"
proof (induction k arbitrary: err r)
  case 0
  then show ?case by (subst retry_loop_live [where m = 1]) simp_all
next
  case (Suc k)
  note step = retry_loop_live [OF Suc.prems refl, of "int (Suc (Suc k))" err]
  from Suc.prems(2) show ?case
  proof (cases rule: wait_delay_live)
    case (1 r1)
    with step show ?thesis by (simp add: Let_def)
  next
    case (2 r1)
    with step Suc.IH [of r1 "Some ReaderConfigurationError"] Suc.prems show ?thesis by (simp add: Let_def)
  qed
qed

lemma retry_loop_interrupted:
  "transport_up (llrp r) \<Longrightarrow> \<not> disconnect_requested r \<Longrightarrow> True \<in> set (wait_results r) \<Longrightarrow> m < 0 \<Longrightarrow>
     \<exists>r'. retry_loop (Some (of_int m)) err r = Some (Inl ReaderConfigurationError, r') \<and> llrp r' = llrp r"
proof (induction "length (wait_results r)" arbitrary: err r rule: less_induct)
  case less
  note step = retry_loop_live [OF less.prems(1,2) refl, of m err]
  from less.prems(2) show ?case
  proof (cases rule: wait_delay_live)
    case (1 r1)
    with step less.prems(4) show ?thesis by (simp add: Let_def)
  next
    case (2 r1)
    moreover have "length (wait_results r1) < length (wait_results r)"
      using 2(5) less.prems(3) by (cases "wait_results r") auto
    ultimately show ?thesis
      using step less.hyps [of r1 "Some ReaderConfigurationError"] less.prems by (simp add: Let_def)
  qed
qed

lemma retry_loop_never:
  assumes "m < 0" "transport_up (llrp r)" "True \<notin> set (wait_results r)" "\<not> disconnect_requested r"
  shows "retry_loop (Some (of_int m)) err r = None"
proof (rule ccontr)
  let ?P = "\<lambda>k r. k = Some (of_int m :: rat) \<and> transport_up (llrp r) \<and> True \<notin> set (wait_results r) \<and>
    \<not> disconnect_requested r"
  assume "retry_loop (Some (of_int m)) err r \<noteq> None"
  then obtain y where "retry_loop (Some (of_int m)) err r = Some y" by blast
  then have "\<not> ?P (Some (of_int m)) r"
  proof (rule retry_loop.raw_induct [of "\<lambda>k e r y. \<not> ?P k r", rotated], goal_cases)
    case (1 loop k e r y)
    show ?case
    proof
      assume P: "?P k r"
      then have "\<not> disconnect_requested r" by simp
      then show False
      proof (cases rule: wait_delay_live)
        case (1 r1)
        with P show False by simp
      next
        case (2 r1)
        have "loop (Some (of_int m)) (Some ReaderConfigurationError) r1 = Some y"
          using "1"(2) P 2 assms(1) by (simp add: connect_socket_eq Let_def)
        from "1"(1) [OF this] P 2 show False by simp
      qed
    qed
  qed
  with assms show False by blast
qed

lemma retry_connect_live:
  assumes "transport_up (llrp r)" "\<not> disconnect_requested r" "reconnect_retries (reader_settings r) = PInt n"
  shows "if n < 0 \<and> True \<notin> set (wait_results r) then retry_connect r = None
    else \<exists>r'. retry_connect r = Some (Inl (if n = 0 then OSError else ReaderConfigurationError), r') \<and> llrp r' = llrp r"
proof -
  have num: "py_number (reconnect_retries (reader_settings r)) = Some (of_int n)"
    by (simp add: assms(3) py_number_def number_of_def)
  have "n = int (Suc (nat (n - 1)))" if "n > 0" using that by simp
  then consider (pos) k where "n = int (Suc k)" | (zero) "n = 0" | (neg) "n < 0"
    by (cases n "0 :: int" rule: linorder_cases) blast+
  then show ?thesis
  proof cases
    case pos
    then show ?thesis
      using retry_loop_used_up [OF assms(1,2), of k None] by (auto simp: retry_connect_def num)
  next
    case zero
    then show ?thesis by (simp add: retry_connect_def num) (subst retry_loop.simps, simp)
  next
    case neg
    then show ?thesis
      using retry_loop_interrupted [OF assms(1,2) _ neg, of None] retry_loop_never [OF neg assms(1) _ assms(2), of None]
      by (auto simp: retry_connect_def num)
  qed
qed

lemma on_disconnected_llrp: "\<exists>r'. on_disconnected r = (Inr (), r') \<and> llrp r' = llrp r"
  by (auto simp: on_disconnected_def cancel_duration_timer_def record_calls_def act_simps split: option.split)

text \<open>
  C27. \<open>connect\<close> on a client whose connection is open but not served by a thread never succeeds: it
  raises \<open>Already connected\<close> (or, with a reconnect policy of no attempts at all, \<open>ConnectionError\<close>),
  whatever the reconnect policy, and with unlimited attempts none of whose waits is interrupted it
  does not return.  When it raises it has reset the live session first: the state is \<open>DISCONNECTED\<close>
  and every pending request is forgotten although the socket is still open.
\<close>

theorem connect_breaks_live_session:
  assumes "transport_up (llrp r)" "\<not> thread_running r" "reconnect_retries (reader_settings r) = PInt n"
  shows "if py_true (reconnect (reader_settings r)) \<and> n < 0 \<and> True \<notin> set (wait_results r)
    then connect b r = None
    else \<exists>r'. connect b r = Some (Inl (if py_true (reconnect (reader_settings r)) \<and> n = 0
          then OSError else ReaderConfigurationError), r') \<and>
      transport_up (llrp r') \<and> state (llrp r') = STATE_DISCONNECTED \<and> deferreds (llrp r') = [] \<and>
      pending_count (pending_requests (llrp r')) = 0"
proof -
  let ?q = "r\<lparr>disconnect_requested := False\<rparr>"
  obtain c where c: "reset_session ?q = (Inr (), ?q\<lparr>frame := idle, llrp := c\<rparr>)" "state c = STATE_DISCONNECTED"
    "deferreds c = []" "pending_count (pending_requests c) = 0" "transport_up c = transport_up (llrp r)"
    "objects c = objects (llrp r)"
    using reset_session_eq [of ?q] by auto
  let ?r1 = "?q\<lparr>frame := idle, llrp := c\<rparr>"
  have set: "reader_settings ?r1 = reader_settings r" using c by (simp add: reader_settings_def)
  have run: "thenA (modifyA (\<lambda>r. r\<lparr>disconnect_requested := False\<rparr>)) (thenA reset_session connect_socket) r =
      (Inl ReaderConfigurationError, ?r1)"
    using c assms(1) by (simp add: act_simps connect_socket_eq)
  note live = retry_connect_live [of ?r1 n, unfolded set, OF _ _ assms(3)]
  show ?thesis
  proof (cases "py_true (reconnect (reader_settings r))")
    case False
    then show ?thesis using assms(1,2) run set c by (simp add: connect_def Let_def)
  next
    case rec: True
    show ?thesis
    proof (cases "n < 0 \<and> True \<notin> set (wait_results r)")
      case True
      with live c assms(1) have "retry_connect ?r1 = None" by simp
      with True rec show ?thesis using assms(2) run set by (simp add: connect_def Let_def)
    next
      case False
      with live c assms(1) obtain r2 where r2: "llrp r2 = c"
        "retry_connect ?r1 = Some (Inl (if n = 0 then OSError else ReaderConfigurationError), r2)" by auto
      obtain r3 where r3: "on_disconnected r2 = (Inr (), r3)" "llrp r3 = c"
        using on_disconnected_llrp [of r2] r2(1) by auto
      have "connect b r = Some (Inl (if n = 0 then OSError else ReaderConfigurationError), r3)"
        using assms(2) run set rec r2(2) r3(1) by (simp add: connect_def Let_def act_simps)
      then show ?thesis using False rec r3(2) c assms(1) by auto
    qed
  qed
qed

theorem connect_breaks_live_session_witness:
  "\<exists>r'. connect True (opened example_reader) = Some (Inl ReaderConfigurationError, r') \<and>
     transport_up (llrp r') \<and> state (llrp r') = STATE_DISCONNECTED"
proof -
  have "transport_up (llrp (opened example_reader))" "\<not> thread_running (opened example_reader)"
    "reconnect_retries (reader_settings (opened example_reader)) = PInt 5"
    by (simp_all add: opened_def example_reader_eq reader_settings_def new_client_def default_config_def)
  then show ?thesis using connect_breaks_live_session [of "opened example_reader" 5 True] by auto
qed

section \<open>The duration timer\<close>

definition same_request :: "reader \<Rightarrow> reader \<Rightarrow> bool" where
  "same_request r r' \<longleftrightarrow> disconnect_requested r' = disconnect_requested r"

interpretation sr: state_relation same_request
  by unfold_locales (auto simp: same_request_def)

lemma request_modify: "(\<And>r. disconnect_requested (g r) = disconnect_requested r) \<Longrightarrow> keeps same_request (modifyA g)"
  by (rule sr.modifyA) (simp add: same_request_def)

lemmas request_rules = sr.kept request_modify

lemma timer_request: "keeps same_request cancel_duration_timer" "keeps same_request schedule_duration_disconnect"
  "keeps same_request (record_calls cs)"
  unfolding schedule_duration_disconnect_def cancel_duration_timer_def record_calls_def Let_def
  by (intro request_rules; simp)+

lemma on_client_request: "keeps same_request (on_client m)"
proof (rule keepsI)
  fix r x r' assume run: "on_client m r = (x, r')"
  obtain y c where m: "m (llrp r) = (y, c)" by fastforce
  have "keeps same_request (on_client_event ev)" for ev
    unfolding on_client_event_def on_llrp_state_changed_def config_applied_def session_closed_def on_disconnected_def
    by (cases ev) (auto intro!: request_rules timer_request)
  then have "keeps same_request (forA on_client_event evs)" for evs by (intro sr.forA)
  then have "same_request (r\<lparr>llrp := c\<rparr>) (snd (forA on_client_event (new_events (llrp r) c) (r\<lparr>llrp := c\<rparr>)))"
    by (simp add: keeps_def)
  with run m show "same_request r r'"
    by (auto simp: on_client_def same_request_def split: prod.splits sum.splits)
qed

text \<open>
  C28. The duration timer has no generation: once its thread has started, cancelling it and
  scheduling a new duration does not stop it, and it disconnects the running session.
\<close>

theorem stale_duration_timer_disconnects:
  assumes "transport_up (llrp r)" "\<not> disconnect_requested r" "i < length (duration_timers_fired r)"
  shows "disconnect_requested (snd (duration_timer_runs i (snd (schedule_duration_disconnect r))))"
proof -
  have sched: "transport_up (llrp (snd (schedule_duration_disconnect q))) = transport_up (llrp q) \<and>
      duration_timers_fired (snd (schedule_duration_disconnect q)) = duration_timers_fired q" for q
    by (simp add: schedule_duration_disconnect_def cancel_duration_timer_def act_simps Let_def split: sum.split)
  let ?rest = "readA (\<lambda>r. if \<not> thread_running r then thenA hard_disconnect on_disconnected
     else on_client (stopPolitely (Some Disconnect_Cb) True))"
  have "keeps same_request ?rest"
    unfolding hard_disconnect_def on_disconnected_def
    by (intro request_rules on_client_request timer_request) simp
  then have "disconnect_requested (snd (?rest (q\<lparr>disconnect_requested := True\<rparr>)))" for q
    by (simp only: keeps_def same_request_def) simp
  then have after: "disconnect_requested (snd (disconnect q))" for q
    unfolding disconnect_def then_modify .
  have "\<not> disconnect_requested (snd (schedule_duration_disconnect r))"
    using timer_request(2) assms(2) by (simp add: keeps_def same_request_def)
  then show ?thesis
    using assms(1,3) sched [of r] after
    by (simp add: duration_timer_runs_def duration_expired_def act_simps)
qed

theorem stale_duration_timer_disconnects_witness:
  "disconnect_requested (snd (duration_timer_runs 0 (snd (schedule_duration_disconnect
     ((opened example_reader)\<lparr>duration_timers_fired := [0]\<rparr>)))))"
  by (rule stale_duration_timer_disconnects) (simp_all add: opened_def example_reader_eq)

section \<open>Tag reports\<close>

lemma report_dicts: "mapE report_dict (map PDict tags) = Inr tags"
  by (induction tags) (simp_all add: report_dict_def)

text \<open>
  What the tag report callbacks get: with the memory backend the deduplicated reports, and no
  call if none is left; otherwise all reports.  Each callback is called once, in the order of
  registration, and the deduplicator remembers what it let through.
\<close>

theorem tag_reports_delivered:
  assumes "dict_get md ''TagReportData'' = Some (PList (map PDict tags))"
  shows "on_llrp_tag_report md r = (Inr (),
    case (if dedup_backend_active (llrp r) = ''memory'' then deduplicator r else None) of
      None \<Rightarrow> r\<lparr>calls := calls r @ map (\<lambda>cb. Tags_Called cb (PList (map PDict tags))) (tag_report_callbacks r)\<rparr>
    | Some d \<Rightarrow> (case filter_reports d (clock r (clock_reads r)) tags of (d', unique) \<Rightarrow>
        r\<lparr>deduplicator := Some d',
          clock_reads := (if window_seconds d = 0 then clock_reads r else Suc (clock_reads r)),
          calls := calls r @ (if unique = [] then []
            else map (\<lambda>cb. Tags_Called cb (PList (map PDict unique))) (tag_report_callbacks r))\<rparr>))"
  using assms report_dicts [of tags]
  by (auto simp: on_llrp_tag_report_def py_item_def act_simps record_calls_def deduplicate_def read_clock_def
      py_iter_def filter_reports_def Let_def split: option.split prod.split)

theorem tag_reports_delivered_witness:
  "calls (snd (on_llrp_tag_report [(''TagReportData'', PList [PDict [(''EPC'', PInt 1)]])]
     (example_reader\<lparr>tag_report_callbacks := [3]\<rparr>))) = [Tags_Called 3 (PList [PDict [(''EPC'', PInt 1)]])]"
  by (subst tag_reports_delivered [of _ "[[(''EPC'', PInt 1)]]"]) (simp_all add: example_reader_eq new_client_def)

end
