(* ===== verification/Client_Transactions.thy ===== *)
theory Client_Transactions
  imports Client_Invariant
begin

text \<open>
  The stop/apply/resume transaction of \<^verbatim>\<open>LLRPClient.apply_config\<close>: what each of its
  completion callbacks achieves.  A callback either settles the transition, leaves a request
  behind whose completion continues the transaction, or raises.  The rules below describe an action
  by a precondition, a condition for its result, and one for the state an exception leaves behind.
\<close>

section \<open>Pre- and postconditions\<close>

definition achieves :: "('s \<Rightarrow> bool) \<Rightarrow> ('s, 'a) act \<Rightarrow> ('a \<Rightarrow> 's \<Rightarrow> bool) \<Rightarrow> ('s \<Rightarrow> bool) \<Rightarrow> bool" where
  "achieves P m Q E \<longleftrightarrow> (\<forall>s. P s \<longrightarrow> (case m s of (Inr x, s') \<Rightarrow> Q x s' | (Inl _, s') \<Rightarrow> E s'))"

lemma achievesI:
  "(\<And>s x s'. P s \<Longrightarrow> m s = (Inr x, s') \<Longrightarrow> Q x s') \<Longrightarrow> (\<And>s e s'. P s \<Longrightarrow> m s = (Inl e, s') \<Longrightarrow> E s') \<Longrightarrow>
     achieves P m Q E"
  by (auto simp: achieves_def split: prod.split sum.split)

lemma achievesE: "achieves P m Q E \<Longrightarrow> P s \<Longrightarrow> m s = (Inl e, s') \<Longrightarrow> E s'"
  by (auto simp: achieves_def)

lemma achievesD: "achieves P m Q E \<Longrightarrow> P s \<Longrightarrow> m s = (Inr x, s') \<Longrightarrow> Q x s'"
  by (auto simp: achieves_def)

lemma achieves_then:
  "achieves P m (\<lambda>_. Q) E \<Longrightarrow> achieves Q n S E \<Longrightarrow> achieves P (thenA m n) S E"
  unfolding achieves_def by (fastforce simp: act_simps split: prod.splits sum.splits)

lemma achieves_bind:
  "achieves P m Q E \<Longrightarrow> (\<And>x. achieves (Q x) (f x) S E) \<Longrightarrow> achieves P (bindA m f) S E"
  unfolding achieves_def by (fastforce simp: act_simps split: prod.splits sum.splits)

lemma achieves_handle:
  "achieves P m Q E' \<Longrightarrow> (\<And>e. achieves E' (h e) Q E) \<Longrightarrow> achieves P (handleA m h) Q E"
  unfolding achieves_def by (fastforce simp: act_simps split: prod.splits sum.splits)

lemma achieves_read: "(\<And>s. P s \<Longrightarrow> achieves ((=) s) (f s) Q E) \<Longrightarrow> achieves P (readA f) Q E"
  by (simp add: achieves_def act_simps)

lemma achieves_reads: "(\<And>s. achieves P (f s) Q E) \<Longrightarrow> achieves P (readA f) Q E"
  by (simp add: achieves_def act_simps)

lemma achieves_lift: "(\<And>s. P s \<Longrightarrow> E s) \<Longrightarrow> achieves P (liftA r) (\<lambda>_. P) E"
  by (auto simp: achieves_def act_simps split: sum.split)

lemma achieves_if: "(b \<Longrightarrow> achieves P m Q E) \<Longrightarrow> (\<not> b \<Longrightarrow> achieves P n Q E) \<Longrightarrow> achieves P (if b then m else n) Q E"
  by simp

lemma achieves_pre: "achieves P m Q E \<Longrightarrow> (\<And>s. P' s \<Longrightarrow> P s) \<Longrightarrow> achieves P' m Q E"
  by (simp add: achieves_def)

lemma achieves_post: "achieves P m Q E \<Longrightarrow> (\<And>x s. Q x s \<Longrightarrow> Q' x s) \<Longrightarrow> achieves P m Q' E"
  unfolding achieves_def by (fastforce split: prod.splits sum.splits)

lemma achieves_post2:
  "achieves P m Q E \<Longrightarrow> (\<And>x s. Q x s \<Longrightarrow> Q' x s) \<Longrightarrow> (\<And>s. E s \<Longrightarrow> E' s) \<Longrightarrow> achieves P m Q' E'"
  unfolding achieves_def by (fastforce split: prod.splits sum.splits)

lemma achieves_ret: "(\<And>s. P s \<Longrightarrow> Q x s) \<Longrightarrow> achieves P (retA x) Q E"
  by (simp add: achieves_def act_simps)

lemma achieves_nothing: "achieves P n Q E \<Longrightarrow> achieves P (thenA (retA ()) n) Q E"
  by (simp add: achieves_def act_simps)

lemma achieves_modify: "(\<And>s. P s \<Longrightarrow> Q () (g s)) \<Longrightarrow> achieves P (modifyA g) Q E"
  by (simp add: achieves_def act_simps)

lemma achieves_keeps:
  "keeps R m \<Longrightarrow> (\<And>s s'. P s \<Longrightarrow> R s s' \<Longrightarrow> Q s') \<Longrightarrow> achieves P m (\<lambda>_. Q) Q"
  by (auto simp: achieves_def keeps_def split: prod.split sum.split dest: spec) (metis snd_conv)+

section \<open>What a transaction leaves alone\<close>

definition same_transaction :: "client \<Rightarrow> client \<Rightarrow> bool" where
  "same_transaction c c' \<longleftrightarrow> config c' = config c \<and> transitions c' = transitions c"

interpretation st: state_relation same_transaction
  by unfold_locales (auto simp: same_transaction_def)

lemma transaction_modify:
  "(\<And>c. config (g c) = config c \<and> transitions (g c) = transitions c) \<Longrightarrow> keeps same_transaction (modifyA g)"
  by (rule st.modifyA) (simp add: same_transaction_def)

named_theorems tx_keeps \<open>operations that change neither the configuration in use nor a transition\<close>

lemmas tx_rules = st.kept transaction_modify

lemma record_event_tx [tx_keeps]: "keeps same_transaction (record_event ev)"
  unfolding record_event_def by (intro tx_rules) simp

lemma cancel_pause_tx [tx_keeps]: "keeps same_transaction cancel_pause_resume_timer"
  unfolding cancel_pause_resume_timer_def by (intro tx_rules) simp

lemma setState_tx [tx_keeps]: "keeps same_transaction (setState s)"
  unfolding setState_def by (intro tx_rules tx_keeps; simp)

lemma sendMessage_tx [tx_keeps]: "keeps same_transaction (sendMessage msg)"
proof (rule keepsI)
  fix c r c' assume "sendMessage msg c = (r, c')"
  from keepsD [OF sendMessage_sends this] show "same_transaction c c'"
    by (auto simp: sends_only_def same_transaction_def)
qed

lemma send_request_tx [tx_keeps]: "keeps same_transaction (send_request msg name k ns)"
  unfolding send_request_def undo_request_def register_request_def next_message_id_def Let_def
    add_deferred_def remove_deferred_def drop_empty_deferreds_def end_registered_send_def
  by (auto intro!: tx_rules tx_keeps split: option.split)

lemma powers_tx [tx_keeps]: "keeps same_transaction (install_powers ps)" "keeps same_transaction (setTxPower qs z)"
proof -
  show i: "keeps same_transaction (install_powers ps)" for ps
    by (induction ps) (auto intro!: tx_rules simp: install_power_def update_current_def
        split: power_setting.split pyval.split)
  show "keeps same_transaction (setTxPower qs z)"
    unfolding setTxPower_def stopPolitely_def update_current_def by (intro tx_rules tx_keeps i; simp)
qed

lemma parseCapabilities_tx [tx_keeps]: "keeps same_transaction (parseCapabilities d)"
  unfolding parseCapabilities_def check_antennas_def parse_powers_def select_mode_def setTxPowerDbm_def
    select_dedup_backend_def update_current_def Let_def
  by (auto intro!: tx_rules tx_keeps split: power_setting.split)

lemma getROSpec_tx [tx_keeps]: "keeps same_transaction (getROSpec b)"
  unfolding getROSpec_def build_rospec_def Let_def by (intro tx_rules; simp)

lemma reset_tx [tx_keeps]: "keeps same_transaction reset_protocol_session"
  unfolding reset_protocol_session_def by (intro tx_rules tx_keeps; simp)

lemma close_session_tx [tx_keeps]: "keeps same_transaction close_session"
  unfolding close_session_def by (intro tx_rules tx_keeps; simp)

lemma notify_tx [tx_keeps]: "keeps same_transaction (notify_user u t)" "keeps same_transaction (notify_transition v t)"
proof -
  show u: "keeps same_transaction (notify_user u t)" for u
    unfolding notify_user_def by (intro tx_rules tx_keeps)
  show "keeps same_transaction (notify_transition v t)"
    unfolding notify_transition_def Let_def
    by (auto intro!: tx_rules tx_keeps u split: option.split transition_user.split)
qed


section \<open>The stages of a transaction\<close>

text \<open>The callbacks that belong to a transaction, also inside the callbacks of requests it makes.\<close>

fun carries :: "apply_env \<Rightarrow> cont \<Rightarrow> bool" where
  "carries env (Apply_Stopped_Cb env') \<longleftrightarrow> env' = env"
| "carries env (Apply_Written_Cb env') \<longleftrightarrow> env' = env"
| "carries env (Apply_Restarted_Cb env' _) \<longleftrightarrow> env' = env"
| "carries env (Rollback_Written_Cb env' _) \<longleftrightarrow> env' = env"
| "carries env (Rollback_Cleaned_Cb env' _) \<longleftrightarrow> env' = env"
| "carries env (Rollback_Restarted_Cb env' _) \<longleftrightarrow> env' = env"
| "carries env (Added_Rospec_Cb _ (Some k)) \<longleftrightarrow> carries env k"
| "carries env (Enabled_Rospec_Cb (Some k)) \<longleftrightarrow> carries env k"
| "carries env (Deleted_Accessspec_Cb (Some k)) \<longleftrightarrow> carries env k"
| "carries env (Stopped_All_Cb (Some k)) \<longleftrightarrow> carries env k"
| "carries env _ \<longleftrightarrow> False"

text \<open>The configuration in use while a callback of the transaction waits.\<close>

fun expected :: "apply_env \<Rightarrow> cont \<Rightarrow> nat" where
  "expected env (Apply_Written_Cb _) = ae_new env"
| "expected env (Apply_Restarted_Cb _ _) = ae_new env"
| "expected env (Added_Rospec_Cb _ (Some k)) = expected env k"
| "expected env (Enabled_Rospec_Cb (Some k)) = expected env k"
| "expected env (Deleted_Accessspec_Cb (Some k)) = expected env k"
| "expected env (Stopped_All_Cb (Some k)) = expected env k"
| "expected env _ = ae_old env"

definition pending_at :: "apply_env \<Rightarrow> transition \<Rightarrow> client \<Rightarrow> bool" where
  "pending_at env tr c \<longleftrightarrow> requests_ok c \<and> ae_transition env < length (transitions c) \<and>
     transitions c ! ae_transition env = tr"

definition settled :: "apply_env \<Rightarrow> transition \<Rightarrow> client \<Rightarrow> bool" where
  "settled env tr c \<longleftrightarrow>
     transitions c ! ae_transition env = succeed tr \<and> config c = ae_new env \<or>
     (\<exists>e. transitions c ! ae_transition env = fail e tr) \<and> (config c = ae_old env \<or> state c = STATE_DISCONNECTED)"

definition waiting :: "apply_env \<Rightarrow> transition \<Rightarrow> client \<Rightarrow> bool" where
  "waiting env tr c \<longleftrightarrow> pending_at env tr c \<and>
     (\<exists>key k. request_of c key = Some (Some k) \<and> carries env k \<and> config c = expected env k)"

text \<open>Nothing has happened to the transition, and this configuration is in use.\<close>

definition using_config :: "apply_env \<Rightarrow> transition \<Rightarrow> nat \<Rightarrow> client \<Rightarrow> bool" where
  "using_config env tr cfg c \<longleftrightarrow> pending_at env tr c \<and> config c = cfg"

definition stuck :: "apply_env \<Rightarrow> transition \<Rightarrow> client \<Rightarrow> bool" where
  "stuck env tr c \<longleftrightarrow> pending_at env tr c \<and> config c \<in> {ae_old env, ae_new env}"

abbreviation continues :: "apply_env \<Rightarrow> transition \<Rightarrow> nat \<Rightarrow> (client, unit) act \<Rightarrow> bool" where
  "continues env tr cfg m \<equiv>
     achieves (using_config env tr cfg) m (\<lambda>_ c. settled env tr c \<or> waiting env tr c) (stuck env tr)"

lemma using_stuck: "cfg \<in> {ae_old env, ae_new env} \<Longrightarrow> using_config env tr cfg c \<Longrightarrow> stuck env tr c"
  by (auto simp: using_config_def stuck_def)

lemma step_holds:
  assumes "keeps same_transaction m" "keeps requests_kept m"
  shows "achieves (using_config env tr cfg) m (\<lambda>_. using_config env tr cfg) (using_config env tr cfg)"
proof -
  have "using_config env tr cfg c \<Longrightarrow> using_config env tr cfg (snd (m c))" for c
    using assms by (simp add: keeps_def using_config_def pending_at_def same_transaction_def requests_kept_def)
  then show ?thesis by (intro achievesI) (metis snd_conv)+
qed

lemma step_keeps:
  assumes "keeps same_transaction m" "keeps requests_kept m" "cfg \<in> {ae_old env, ae_new env}"
  shows "achieves (using_config env tr cfg) m (\<lambda>_. using_config env tr cfg) (stuck env tr)"
  by (rule achieves_post2 [OF step_holds [OF assms(1,2)]]) (use using_stuck [OF assms(3)] in auto)

text \<open>A request whose completion continues the transaction.\<close>

lemma step_request:
  assumes "cfg \<in> {ae_old env, ae_new env}" "carries env k" "expected env k = cfg" "ends_with name ''_RESPONSE''"
  shows "achieves (using_config env tr cfg) (send_request msg name (Some k) ns)
    (\<lambda>_. waiting env tr) (stuck env tr)"
proof (rule achievesI)
  fix c m c' assume c: "using_config env tr cfg c" and run: "send_request msg name (Some k) ns c = (Inr m, c')"
  have "request_of c' = (request_of c)((name, m) := Some (Some k))" "requests_ok c'"
    using send_request_outcome [OF _ assms(4) run] c by (auto simp: using_config_def pending_at_def)
  moreover from this(1) have "request_of c' (name, m) = Some (Some k)" by simp
  moreover have "same_transaction c c'" using keepsD [OF send_request_tx run] .
  ultimately show "waiting env tr c'"
    using c assms(2,3) unfolding waiting_def using_config_def pending_at_def same_transaction_def by metis
next
  fix c e c' assume "using_config env tr cfg c" "send_request msg name (Some k) ns c = (Inl e, c')"
  then show "stuck env tr c'"
    by (rule achievesE [OF step_keeps [OF send_request_tx send_request_keeps [OF assms(4)] assms(1)]])
qed

lemma step_modify:
  assumes "\<And>c. request_view (g c) = request_view c \<and> config (g c) = config c \<and> transitions (g c) = transitions c"
  shows "achieves (using_config env tr cfg) (modifyA g) (\<lambda>_. using_config env tr cfg) E"
  using assms request_view_cong(1) [of "g _" "_"]
  by (intro achieves_modify) (simp add: using_config_def pending_at_def)

lemma step_state:
  assumes "cfg \<in> {ae_old env, ae_new env}"
  shows "achieves (using_config env tr cfg) (setState s)
    (\<lambda>_ c. using_config env tr cfg c \<and> state c = s) (stuck env tr)"
proof (rule achievesI)
  fix c x c' assume c: "using_config env tr cfg c" "setState s c = (Inr x, c')"
  then have "state c' = s" using setState_eq [of s c] by auto
  moreover have "using_config env tr cfg c'"
    by (rule achievesD [OF step_keeps [OF setState_tx rc.setState assms] c])
  ultimately show "using_config env tr cfg c' \<and> state c' = s" by simp
qed (rule achievesE [OF step_keeps [OF setState_tx rc.setState assms]])

lemma step_then_state:
  assumes "cfg \<in> {ae_old env, ae_new env}" "continues env tr cfg m"
  shows "continues env tr cfg (thenA (setState s) m)"
  by (rule achieves_then [OF step_keeps [OF setState_tx rc.setState assms(1)] assms(2)])

section \<open>Settling\<close>

text \<open>Notifying the caller raises nothing and leaves a disconnected client disconnected.\<close>

lemma record_event_run: "record_event ev c = (Inr (), c\<lparr>events := events c @ [ev]\<rparr>)"
  by (simp add: record_event_def act_simps)

lemma close_session_run: "\<exists>c'. close_session c = (Inr (), c') \<and> state c' = STATE_DISCONNECTED"
  by (simp add: close_session_def reset_protocol_session_def cancel_pause_resume_timer_def record_event_run act_simps)

lemma notify_run:
  "\<exists>c'. notify_transition u t c = (Inr (), c') \<and> (state c = STATE_DISCONNECTED \<longrightarrow> state c' = STATE_DISCONNECTED)"
proof -
  have user: "\<exists>c'. notify_user v t d = (Inr (), c') \<and> state c' = state d" for v d
    by (simp add: notify_user_def record_event_run act_simps split: option.split)
  show ?thesis
  proof (cases u)
    case None
    then show ?thesis by (simp add: notify_transition_def act_simps)
  next
    case (Some n)
    show ?thesis
    proof (cases n)
      case (Notify_User v)
      with Some user [of "Some v" c] show ?thesis by (auto simp: notify_transition_def)
    next
      case (Notify_Reader old new v)
      let ?ok = "succeeded (transitions c ! t)"
      define d where "d = c\<lparr>events := events c @ [Reader_Applied old new ?ok (state c)]\<rparr>"
      obtain d' where d': "whenA (\<not> ?ok \<and> state c = STATE_DISCONNECTED) close_session d = (Inr (), d')"
        "state c = STATE_DISCONNECTED \<longrightarrow> state d' = STATE_DISCONNECTED"
        using close_session_run [of d] by (cases "\<not> ?ok \<and> state c = STATE_DISCONNECTED") (auto simp: act_simps d_def)
      obtain c' where "notify_user v t d' = (Inr (), c')" "state c' = state d'" using user by blast
      with Some Notify_Reader d' show ?thesis
        by (simp add: notify_transition_def readA_def thenA_def bindA_def record_event_run Let_def d_def [symmetric])
    qed
  qed
qed

lemma settle_run:
  assumes "pending_at env tr c"
  shows "\<exists>c'. settle_transition g (ae_transition env) u c = (Inr (), c') \<and> config c' = config c \<and>
    transitions c' ! ae_transition env = g tr \<and> (state c = STATE_DISCONNECTED \<longrightarrow> state c' = STATE_DISCONNECTED)"
proof -
  let ?t = "ae_transition env"
  let ?c = "c\<lparr>transitions := (transitions c)[?t := g (transitions c ! ?t)]\<rparr>"
  obtain c' where run: "notify_transition u ?t ?c = (Inr (), c')"
    "state c = STATE_DISCONNECTED \<longrightarrow> state c' = STATE_DISCONNECTED"
    using notify_run [of u ?t ?c] by auto
  from keepsD [OF notify_tx(2) run(1)] assms run show ?thesis
    by (simp add: settle_transition_def act_simps same_transaction_def pending_at_def)
qed

lemma settle_achieves:
  assumes "\<And>c. P c \<Longrightarrow> pending_at env tr c"
    and "\<And>c c'. P c \<Longrightarrow> config c' = config c \<Longrightarrow> transitions c' ! ae_transition env = g tr \<Longrightarrow>
      (state c = STATE_DISCONNECTED \<longrightarrow> state c' = STATE_DISCONNECTED) \<Longrightarrow> settled env tr c'"
  shows "achieves P (settle_transition g (ae_transition env) u) (\<lambda>_ c. settled env tr c \<or> waiting env tr c) E"
proof (rule achievesI)
  fix c x c' assume c: "P c" and run: "settle_transition g (ae_transition env) u c = (Inr x, c')"
  from settle_run [OF assms(1) [OF c], of g u] run assms(2) [OF c, of c']
  show "settled env tr c' \<or> waiting env tr c'" by auto
next
  fix c e c' assume c: "P c" and run: "settle_transition g (ae_transition env) u c = (Inl e, c')"
  from settle_run [OF assms(1) [OF c], of g u] run show "E c'" by auto
qed

lemma step_succeed: "continues env tr (ae_new env) (env_succeed env)"
  unfolding env_succeed_def succeed_transition_def
  by (rule settle_achieves) (auto simp: using_config_def settled_def)

lemma step_fail:
  "achieves (\<lambda>c. pending_at env tr c \<and> (config c = ae_old env \<or> state c = STATE_DISCONNECTED)) (env_fail env e)
     (\<lambda>_ c. settled env tr c \<or> waiting env tr c) E"
  unfolding env_fail_def fail_transition_def
  by (rule settle_achieves) (auto simp: settled_def)

lemma step_abandon:
  assumes "cfg \<in> {ae_old env, ae_new env}"
  shows "continues env tr cfg (abandon env e)"
  unfolding abandon_def
  by (rule achieves_then [OF step_state [OF assms]])
    (rule achieves_pre [OF step_fail], auto simp: using_config_def)

lemma step_restored: "continues env tr (ae_old env) (thenA (setState s) (env_fail env e))"
  by (rule achieves_then [OF step_state])
    (simp, rule achieves_pre [OF step_fail], auto simp: using_config_def)

section \<open>The callbacks of the transaction\<close>

lemma step_ret: "(\<And>c. P c \<Longrightarrow> waiting env tr c) \<Longrightarrow>
    achieves P (retA ()) (\<lambda>_ c. settled env tr c \<or> waiting env tr c) E"
  by (rule achieves_ret) simp

lemma step_requests:
  assumes "cfg \<in> {ae_old env, ae_new env}" "carries env k" "expected env k = cfg"
  shows "achieves (using_config env tr cfg) (send_ADD_ROSPEC spec k) (\<lambda>_. waiting env tr) (stuck env tr)"
    "achieves (using_config env tr cfg) (send_ENABLE_ROSPEC spec k) (\<lambda>_. waiting env tr) (stuck env tr)"
    "achieves (using_config env tr cfg) (send_SET_READER_CONFIG k) (\<lambda>_. waiting env tr) (stuck env tr)"
    "achieves (using_config env tr cfg) (stopAllROSpecs (Some k)) (\<lambda>_ c. settled env tr c \<or> waiting env tr c) (stuck env tr)"
    "achieves (using_config env tr cfg) (stopPolitely (Some k) False) (\<lambda>_ c. settled env tr c \<or> waiting env tr c) (stuck env tr)"
proof -
  have lifted: "achieves (using_config env tr cfg) (bindA (liftA r) (\<lambda>i. send_request (f i) name (Some k) ns))
      (\<lambda>_. waiting env tr) (stuck env tr)" if "ends_with name ''_RESPONSE''" for r :: "'a res" and f name ns
    by (rule achieves_bind [OF achieves_lift step_request]) (use assms that using_stuck in auto)
  have sent: "achieves (using_config env tr cfg) (thenA (send_request msg name (Some k') ns) (retA ()))
      (\<lambda>_ c. settled env tr c \<or> waiting env tr c) (stuck env tr)"
    if "carries env k'" "expected env k' = cfg" "ends_with name ''_RESPONSE''" for msg name k' ns
    by (rule achieves_then [OF step_request [OF assms(1) that] step_ret])
  show "achieves (using_config env tr cfg) (send_ADD_ROSPEC spec k) (\<lambda>_. waiting env tr) (stuck env tr)"
    "achieves (using_config env tr cfg) (send_ENABLE_ROSPEC spec k) (\<lambda>_. waiting env tr) (stuck env tr)"
    unfolding send_ADD_ROSPEC_def send_ENABLE_ROSPEC_def by (rule lifted, simp add: ends_with_def)+
  show "achieves (using_config env tr cfg) (send_SET_READER_CONFIG k) (\<lambda>_. waiting env tr) (stuck env tr)"
    unfolding send_SET_READER_CONFIG_def by (rule achieves_reads, rule lifted) (simp add: ends_with_def)
  show "continues env tr cfg (stopAllROSpecs (Some k))"
    unfolding stopAllROSpecs_def by (rule sent) (simp_all add: assms ends_with_def)
  show "continues env tr cfg (stopPolitely (Some k) False)"
    unfolding stopPolitely_def whenA_def if_False
    by (rule achieves_then [OF achieves_ret sent]) (simp_all add: assms ends_with_def)
qed

text \<open>\<open>startInventory\<close> with a callback of the transaction.\<close>

lemma step_start:
  assumes cfg: "cfg \<in> {ae_old env, ae_new env}" and k: "carries env k" "expected env k = cfg"
    and now: "\<And>s. continues env tr cfg (run k s True)"
  shows "continues env tr cfg (startInventory_with run b (Some k))"
  unfolding startInventory_with_def run_callback_def option.case
  by (rule achieves_reads, rule achieves_if, rule achieves_reads, rule now, rule achieves_bind,
      rule step_keeps [OF getROSpec_tx rc.getROSpec cfg], rule achieves_then, rule step_modify,
      simp add: request_view_def, rule achieves_then, rule step_requests(1) [OF cfg], simp add: k, simp add: k,
      rule step_ret)


lemma step_install:
  "achieves (using_config env tr cfg) (install_runtime_config n) (\<lambda>_. using_config env tr n) (using_config env tr n)"
  unfolding install_runtime_config_def
proof (rule achieves_then)
  have frame: "requests_ok (c\<lparr>config := n, rospec := None, generated_config_snapshot := None\<rparr>) = requests_ok c" for c
    by (rule request_view_cong(1)) (simp add: request_view_def)
  show "achieves (using_config env tr cfg) (modifyA (\<lambda>c. c\<lparr>config := n, rospec := None, generated_config_snapshot := None\<rparr>))
      (\<lambda>_. using_config env tr n) (using_config env tr n)"
    using frame by (intro achieves_modify) (simp add: using_config_def pending_at_def)
  show "achieves (using_config env tr n) (readA (\<lambda>c. whenA (capabilities c \<noteq> []) (parseCapabilities (capabilities c))))
      (\<lambda>_. using_config env tr n) (using_config env tr n)"
    by (rule step_holds) (intro tx_rules tx_keeps, intro rk.kept rc.parseCapabilities)
qed

text \<open>Each stage, from the last to the first.\<close>

lemma stage_rollback_restarted: "continues env tr (ae_old env) (run_cont (Rollback_Restarted_Cb env e) st ok)"
  by (cases ok) (auto intro!: step_abandon achieves_pre [OF step_fail] simp: using_config_def)

lemma stage_finish_restore: "continues env tr (ae_old env) (finish_restore_with run_cont env e)"
  unfolding finish_restore_with_def
  by (intro achieves_if step_restored step_then_state step_start
      stage_rollback_restarted) auto

lemma stage_rollback_cleaned: "continues env tr (ae_old env) (run_cont (Rollback_Cleaned_Cb env e) st ok)"
  by (cases ok) (auto intro: step_abandon stage_finish_restore)

lemma stage_cleanup: "continues env tr (ae_old env) (cleanup_replacement_rospec_with run_cont env e)"
  unfolding cleanup_replacement_rospec_with_def
  by (intro achieves_reads achieves_if stage_finish_restore step_then_state
      step_requests(4)) auto

lemma stage_rollback_written: "continues env tr (ae_old env) (run_cont (Rollback_Written_Cb env e) st ok)"
  by (cases ok) (auto intro: step_abandon stage_cleanup)

lemma stage_restore_old:
  assumes "cfg \<in> {ae_old env, ae_new env}"
  shows "continues env tr cfg (restore_old_with run_cont env applied e)"
  unfolding restore_old_with_def
proof (rule achieves_bind)
  let ?Q = "\<lambda>r c. if r then using_config env tr (ae_old env) c else settled env tr c \<or> waiting env tr c"
  show "achieves (using_config env tr cfg) (handleA (thenA (install_runtime_config (ae_old env)) (retA True))
      (\<lambda>_. thenA (abandon env (e @ ''; rollback configuration failed'')) (retA False))) ?Q (stuck env tr)"
    by (rule achieves_handle, rule achieves_then [OF step_install], rule achieves_ret, simp,
        rule achieves_then [OF step_abandon], simp, rule achieves_ret, simp)
  show "achieves (?Q r) (if \<not> r then retA () else if applied
      then thenA (setState STATE_CONNECTED)
        (thenA (modifyA (\<lambda>c. c\<lparr>suppress_set_config_post_actions := True\<rparr>))
        (thenA (send_SET_READER_CONFIG (Rollback_Written_Cb env e)) (retA ())))
      else cleanup_replacement_rospec_with run_cont env e)
    (\<lambda>_ c. settled env tr c \<or> waiting env tr c) (stuck env tr)" for r
  proof (cases r)
    case True
    then show ?thesis
      by (cases applied) (auto intro!: stage_cleanup step_then_state achieves_then [OF step_modify [where E = "stuck env tr"]]
          achieves_then [OF step_requests(3)] step_ret simp: request_view_def)
  next
    case False
    then show ?thesis by (simp add: achieves_ret)
  qed
qed

lemma stage_restarted: "continues env tr (ae_new env) (run_cont (Apply_Restarted_Cb env applied) st ok)"
  by (cases ok) (auto intro: step_succeed stage_restore_old)

lemma stage_finish_new: "continues env tr (ae_new env) (finish_new_state_with run_cont env applied)"
  unfolding finish_new_state_with_def
  by (intro achieves_if step_succeed step_then_state step_start stage_restarted) auto

lemma stage_written: "continues env tr (ae_new env) (run_cont (Apply_Written_Cb env) st ok)"
  by (cases ok) (auto intro: stage_finish_new stage_restore_old)


lemma stage_stopped: "continues env tr (ae_old env) (run_cont (Apply_Stopped_Cb env) st ok)"
proof -
  let ?Q = "\<lambda>r c. if r then using_config env tr (ae_new env) c else settled env tr c \<or> waiting env tr c"
  have installs: "achieves (using_config env tr (ae_old env)) (handleA (thenA (install_runtime_config (ae_new env)) (retA True))
      (\<lambda>_. thenA (restore_old_with run_cont env False e) (retA False))) ?Q (stuck env tr)" for e
    by (rule achieves_handle, rule achieves_then [OF step_install], rule achieves_ret, simp,
        rule achieves_then [OF stage_restore_old], simp, rule achieves_ret, simp)
  have goes_on: "achieves (?Q r) (if \<not> r then retA () else if ae_write env
      then thenA (modifyA (\<lambda>c. c\<lparr>suppress_set_config_post_actions := True\<rparr>))
        (thenA (send_SET_READER_CONFIG (Apply_Written_Cb env)) (retA ()))
      else finish_new_state_with run_cont env False)
    (\<lambda>_ c. settled env tr c \<or> waiting env tr c) (stuck env tr)" for r
  proof (cases r)
    case True
    then show ?thesis
      by (cases "ae_write env") (auto intro!: stage_finish_new achieves_then [OF step_modify [where E = "stuck env tr"]]
          achieves_then [OF step_requests(3)] step_ret simp: request_view_def)
  next
    case False
    then show ?thesis by (simp add: achieves_ret)
  qed
  show ?thesis
    unfolding run_cont.simps after_stopped_with_def
    by (rule achieves_if, rule step_restored, rule step_then_state, simp, rule achieves_bind [OF installs goes_on])
qed

text \<open>All of them, inside the callbacks of the requests they wait for.\<close>

lemma expected_config: "carries env k \<Longrightarrow> expected env k \<in> {ae_old env, ae_new env}"
  by (induction env k rule: carries.induct) auto

lemma stage: "carries env k \<Longrightarrow> continues env tr (expected env k) (run_cont k st ok)"
proof (induction env k arbitrary: st ok rule: carries.induct)
  case (7 env spec k)
  then have k: "carries env k" "expected env k \<in> {ae_old env, ae_new env}" using expected_config by auto
  show ?case using 7(1) [OF k(1)] k
    by (cases ok) (auto intro!: achieves_then [OF step_modify [where E = "stuck env tr"]]
        achieves_then [OF step_requests(2)] step_ret achieves_reads simp: request_view_def run_callback_def)
next
  case (8 env k)
  then have k: "carries env k" "expected env k \<in> {ae_old env, ae_new env}" using expected_config by auto
  show ?case using 8(1) [OF k(1)] k
    by (cases ok) (auto intro!: step_then_state achieves_nothing achieves_reads
        simp: run_callback_def whenA_def)
next
  case (9 env k)
  then have k: "carries env k" "expected env k \<in> {ae_old env, ae_new env}" using expected_config by auto
  show ?case using 9(1) [OF k(1)] k by (cases ok) (auto intro!: step_requests(4))
next
  case (10 env k)
  then have k: "carries env k" "expected env k \<in> {ae_old env, ae_new env}" using expected_config by auto
  show ?case using 10(1) [OF k(1)] k
    by (cases ok) (auto intro!: achieves_then [OF step_modify [where E = "stuck env tr"]] achieves_nothing
        simp: request_view_def whenA_def)
qed (auto simp del: run_cont.simps intro: stage_stopped stage_written stage_restarted stage_rollback_written stage_rollback_cleaned
    stage_rollback_restarted)


text \<open>The first step: the state is left by stopping the inventory, or at once.\<close>

lemma start_stage:
  assumes "requests_ok c" and env: "env = \<lparr>ae_transition = length (transitions c), ae_old = config c, ae_new = new,
      ae_original = state c, ae_write = requires_reader_config_write (plan_for c new), ae_user = user\<rparr>"
    and tr: "tr = new_transition (plan_for c new) (config c) new"
    and run: "start_transaction new user c = (x, c')"
  shows "case x of Inr t \<Rightarrow> t = ae_transition env \<and> (settled env tr c' \<or> waiting env tr c') | Inl _ \<Rightarrow> stuck env tr c'"
proof -
  let ?c = "c\<lparr>transitions := transitions c @ [tr]\<rparr>"
  let ?m = "if state c = STATE_INVENTORYING then stopPolitely (Some (Apply_Stopped_Cb env)) False
       else if state c = STATE_PAUSED
       then thenA cancel_pause_resume_timer (stopAllROSpecs (Some (Apply_Stopped_Cb env)))
       else run_cont (Apply_Stopped_Cb env) (state c) True"
  have cfg: "carries env (Apply_Stopped_Cb env)" "expected env (Apply_Stopped_Cb env) = ae_old env" by simp_all
  have "requests_ok ?c = requests_ok c" by (rule request_view_cong(1)) (simp add: request_view_def)
  then have start: "using_config env tr (ae_old env) ?c" using assms(1) by (simp add: using_config_def pending_at_def env)
  have "continues env tr (ae_old env) ?m"
    by (intro achieves_if step_requests(4,5) cfg stage_stopped
        achieves_then [OF step_keeps [OF cancel_pause_tx rc.cancel_pause]]) simp_all
  note achieved = this
  obtain y c1 where m: "?m ?c = (y, c1)" by fastforce
  have "start_transaction new user c = (case ?m ?c of (Inl e, c1) \<Rightarrow> (Inl e, c1) | (Inr _, c1) \<Rightarrow> (Inr (length (transitions c)), c1))"
    unfolding start_transaction_def begin_transition_def Let_def env [symmetric] tr [symmetric]
    by (simp only: act_simps prod.case sum.case env [symmetric] tr [symmetric])
  with run m have "c' = c1" "x = (case y of Inl e \<Rightarrow> Inl e | Inr _ \<Rightarrow> Inr (length (transitions c)))"
    by (auto split: sum.splits)
  then show ?thesis
    using achievesD [OF achieved start, of "()" c1] achievesE [OF achieved start, of _ c1] m
    by (cases y) (simp_all add: env)
qed


section \<open>Transitions that need no transaction\<close>

lemma immediate_outcome:
  assumes run: "immediate_transition new user m c = (x, c')" and ok: "requests_ok c"
    and m: "keeps requests_kept m" "\<And>q y q'. m q = (y, q') \<Longrightarrow> transitions q' = transitions q \<and>
      config q' = (case y of Inl _ \<Rightarrow> config q | Inr _ \<Rightarrow> g (config q))"
  shows "case x of Inr t \<Rightarrow> t = length (transitions c) \<and> config c' = g (config c) \<and>
      transitions c' ! t = succeed (new_transition (plan_for c new) (config c) new)
    | Inl _ \<Rightarrow> config c' = config c"
proof -
  let ?t = "length (transitions c)" and ?tr = "new_transition (plan_for c new) (config c) new"
  let ?c = "c\<lparr>transitions := transitions c @ [?tr]\<rparr>"
  obtain y q where q: "m ?c = (y, q)" by fastforce
  have "requests_ok ?c" using ok request_view_cong(1) [of ?c c] by (simp add: request_view_def)
  then have kept: "requests_ok q" using keepsD [OF m(1) q] by (simp add: requests_kept_def)
  have "immediate_transition new user m c = (case m ?c of (Inl e, q) \<Rightarrow> (Inl e, q)
      | (Inr _, q) \<Rightarrow> (case succeed_transition ?t user q of (Inl e, q') \<Rightarrow> (Inl e, q') | (Inr _, q') \<Rightarrow> (Inr ?t, q')))"
    unfolding immediate_transition_def begin_transition_def by (simp only: act_simps prod.case sum.case)
  note eq = this [unfolded q run prod.case]
  show ?thesis
  proof (cases y)
    case (Inl e)
    with eq m(2) [OF q] show ?thesis by simp
  next
    case (Inr u)
    have "pending_at (undefined\<lparr>ae_transition := ?t\<rparr>) ?tr q"
      using m(2) [OF q] kept by (simp add: pending_at_def)
    from settle_run [OF this, of succeed user] m(2) [OF q] eq Inr show ?thesis
      by (auto simp: succeed_transition_def)
  qed
qed

text \<open>The outcome of a call of \<open>apply_config\<close> that changes from \<open>old\<close> to \<open>new\<close>, and its record.\<close>

definition apply_outcome :: "nat \<Rightarrow> nat \<Rightarrow> nat res \<Rightarrow> client \<Rightarrow> bool" where
  "apply_outcome old new x c \<longleftrightarrow> (case x of
     Inl _ \<Rightarrow> config c \<in> {old, new}
   | Inr t \<Rightarrow> \<exists>env p. ae_transition env = t \<and> ae_old env = old \<and> ae_new env = new \<and>
       (let tr = new_transition p old new in
        settled env tr c \<or> waiting env tr c \<or> is_noop p \<and> transitions c ! t = succeed tr \<and> config c = old))"

lemma start_outcome:
  assumes "requests_ok c" and run: "start_transaction new user c = (x, c')"
  shows "apply_outcome (config c) new x c'"
proof (cases x)
  case (Inl e)
  with start_stage [OF assms(1) refl refl run] show ?thesis by (simp add: apply_outcome_def stuck_def)
next
  case (Inr t)
  let ?p = "plan_for c new"
  let ?env = "\<lparr>ae_transition = t, ae_old = config c, ae_new = new, ae_original = state c,
    ae_write = requires_reader_config_write ?p, ae_user = user\<rparr>"
  have "settled ?env (new_transition ?p (config c) new) c' \<or> waiting ?env (new_transition ?p (config c) new) c'"
    using start_stage [OF assms(1) refl refl run] Inr by auto
  then show ?thesis
    unfolding apply_outcome_def Inr sum.case Let_def by (intro exI [of _ ?env] exI [of _ ?p]) auto
qed

lemma immediate_apply:
  assumes "immediate_transition new user m c = (x, c')" "requests_ok c" "keeps requests_kept m"
    and "\<And>q y q'. m q = (y, q') \<Longrightarrow> transitions q' = transitions q \<and>
      config q' = (case y of Inl _ \<Rightarrow> config q | Inr _ \<Rightarrow> g (config q))"
    and "g (config c) = new \<or> is_noop (plan_for c new) \<and> g (config c) = config c"
  shows "apply_outcome (config c) new x c'"
proof (cases x)
  case (Inl e)
  with immediate_outcome [OF assms(1-4)] show ?thesis by (simp add: apply_outcome_def)
next
  case (Inr t)
  let ?env = "\<lparr>ae_transition = t, ae_old = config c, ae_new = new, ae_original = STATE_DISCONNECTED, ae_write = False,
    ae_user = None\<rparr>"
  let ?p = "plan_for c new"
  have "transitions c' ! t = succeed (new_transition ?p (config c) new)" "config c' = g (config c)"
    using immediate_outcome [OF assms(1-4)] Inr by auto
  then show ?thesis
    unfolding apply_outcome_def Inr sum.case
    by (intro exI [of _ ?env] exI [of _ ?p]) (use assms(5) in \<open>auto simp: settled_def Let_def\<close>)
qed

text \<open>
  C30. What \<open>apply_config\<close> leaves behind: either the transition is settled (it succeeded and the new
  configuration is in use, or it failed and the old one is in use again or the client gave up and is
  disconnected; when nothing changed the old object stays in use), or a pending request continues
  it with exactly the configuration in use that its stage needs.  If it raises, the configuration
  in use is the old or the new one.
\<close>

theorem apply_config_settles_or_waits:
  assumes ok: "requests_ok c" and run: "apply_config new user c = (x, c')"
  shows "apply_outcome (config c) new x c'"
proof (cases "validate_config (objects c new)")
  case (Inl e)
  with run validate_object_outcome(2) [OF this] show ?thesis
    by (auto simp: apply_config_def act_simps apply_outcome_def)
next
  case (Inr cfg)
  let ?c = "c\<lparr>objects := (objects c)(new := cfg)\<rparr>" and ?p = "plan_for (c\<lparr>objects := (objects c)(new := cfg)\<rparr>) new"
  have c: "requests_ok ?c" "config ?c = config c"
    using ok request_view_cong(1) [of ?c c] by (simp_all add: request_view_def)
  have "keeps requests_kept (modifyA (\<lambda>c. c\<lparr>config := new\<rparr>))"
    by (rule view_requests, rule view_modify) (simp add: request_view_def)
  note simple = immediate_apply [OF _ c(1), unfolded c(2)]
  consider (none) "is_noop ?p" "immediate_transition new user (retA ()) ?c = (x, c')"
    | (refused) "x = Inl ReaderConfigurationError" "c' = ?c"
    | (offline) "immediate_transition new user (update_config new) ?c = (x, c')"
    | (local) "immediate_transition new user (modifyA (\<lambda>c. c\<lparr>config := new\<rparr>)) ?c = (x, c')"
    | (transaction) "start_transaction new user ?c = (x, c')"
    using run validate_object_outcome(1) [OF Inr]
    by (simp add: apply_config_def act_simps Let_def split: if_splits)
  then show ?thesis
  proof cases
    case none
    show ?thesis by (rule simple [OF none(2), of "\<lambda>x. x"]) (auto simp: none act_simps)
  next
    case refused
    then show ?thesis by (simp add: apply_outcome_def)
  next
    case offline
    show ?thesis
      by (rule simple [OF offline rc.update_config, of "\<lambda>_. new"])
        (auto simp: update_config_def validate_object_def act_simps split: sum.splits prod.splits if_splits)
  next
    case local
    show ?thesis
      by (rule simple [OF local, of "\<lambda>_. new"]) (auto simp: act_simps intro!: view_requests view_modify simp: request_view_def)
  next
    case transaction
    show ?thesis using start_outcome [OF c(1) transaction] by simp
  qed
qed

definition example_transaction :: apply_env where
  "example_transaction = \<lparr>ae_transition = 0, ae_old = 0, ae_new = 1, ae_original = STATE_CONNECTED, ae_write = True,
     ae_user = Some (Notify_User 5)\<rparr>"

definition example_client :: client where
  "example_client = (new_client (\<lambda>_. default_config) id id [])\<lparr>config := 1,
     transitions := [new_transition [] 0 1]\<rparr>"

lemma example_client_ok: "requests_ok example_client"
  by (simp add: example_client_def new_client_def requests_ok_def table_ok_def request_of_def entries_def awaits_def
      deferred_list_def new_registry_def sole_def registry_ok_def stale_ok_def pending_ok_def timers_ok_def)

theorem apply_config_settles_or_waits_witness:
  "\<exists>c'. apply_config 2 None example_client = (Inr 1, c') \<and> apply_outcome 1 2 (Inr 1) c'"
proof -
  have c: "config example_client = 1" by (simp add: example_client_def)
  obtain x c' where run: "apply_config 2 None example_client = (x, c')" by fastforce
  have "strip_lower ''off'' = ''off''"
    by (simp add: strip_lower_def lower_char_def str_space_def is_space_def char_of_def bit_0 bit_Suc)
  then have "\<exists>cfg. validate_config default_config = Inr cfg"
    by (simp add: validate_config_eq default_config_def check_scalars_def antennas_ok_def int_from_def
        number_of_def none_or_def normalize_frequencies_def check_frequencies_def normalize_telemetry_def
        normalize_zebra_def py_dict_or_empty_def zebra_selector_def setdefault_def zebra_ok_def
        allowed_zebra_report_fields_def is_bool_def check_dedup_def hashable_def normalize_tx_power_def
        normalize_tx_power_dbm_def antenna_list_def DEFAULT_MAX_MESSAGE_SIZE_def Let_def
        DEFAULT_CHANNEL_INDEX_def telemetry_fields_def)
  then obtain cfg where cfg: "validate_config default_config = Inr cfg" by blast
  then have "validate_config cfg = Inr cfg" by (rule validate_config_fixed [OF validate_config_valid])
  with cfg run validate_object_outcome(1) [of _ 2 cfg] have "x = Inr 1"
    by (auto simp: apply_config_def immediate_transition_def begin_transition_def update_config_def
        succeed_transition_def settle_transition_def notify_transition_def act_simps example_client_def
        new_client_def Let_def split: if_splits)
  with apply_config_settles_or_waits [OF example_client_ok run] run c show ?thesis by simp
qed

text \<open>
  C31. Every completion callback of a configuration transaction, whatever the reader answered, settles
  the transition or leaves a pending request that continues it; if it raises, the transition
  is still pending, with the old or the new configuration in use.
\<close>

theorem transaction_step:
  assumes "pending_at env tr c" "carries env k" "config c = expected env k" "run_cont k st ok c = (x, c')"
  shows "case x of Inr _ \<Rightarrow> settled env tr c' \<or> waiting env tr c' | Inl _ \<Rightarrow> stuck env tr c'"
proof -
  have "using_config env tr (expected env k) c" using assms(1,3) by (simp add: using_config_def)
  from achievesD [OF stage [OF assms(2)] this] achievesE [OF stage [OF assms(2)] this] assms(4)
  show ?thesis by (cases x) auto
qed

theorem transaction_step_witness:
  "case run_cont (Apply_Restarted_Cb example_transaction True) STATE_CONNECTED True example_client of
     (Inr _, c') \<Rightarrow> settled example_transaction (new_transition [] 0 1) c' | (Inl _, _) \<Rightarrow> False"
proof -
  obtain x c' where run: "run_cont (Apply_Restarted_Cb example_transaction True) STATE_CONNECTED True example_client = (x, c')"
    by fastforce
  have "x = Inr ()" "transitions c' ! 0 = succeed (new_transition [] 0 1)"
    using run by (auto simp: env_succeed_def succeed_transition_def settle_transition_def notify_transition_def
        notify_user_def record_event_run act_simps example_transaction_def example_client_def)
  moreover have "case x of Inr _ \<Rightarrow> settled example_transaction (new_transition [] 0 1) c' \<or>
      waiting example_transaction (new_transition [] 0 1) c' | Inl _ \<Rightarrow> stuck example_transaction (new_transition [] 0 1) c'"
    by (rule transaction_step [OF _ _ _ run])
      (use example_client_ok in \<open>simp_all add: pending_at_def example_client_def example_transaction_def\<close>)
  ultimately show ?thesis using run
    by (auto simp: waiting_def pending_at_def example_transaction_def succeed_def new_transition_def)
qed

end
