(* ===== verification/Client_Startup.thy ===== *)
theory Client_Startup
  imports Client_Theorems
begin

text \<open>
  Starting an inventory: the requests that add and enable the ROSpec, and the way from the call of
  \<open>startInventory\<close> through the answers of the reader to the inventory.
\<close>

section \<open>A request that is sent\<close>

text \<open>What the transport and the identifiers need for the next message.\<close>

definition can_send :: "client \<Rightarrow> bool" where
  "can_send c \<longleftrightarrow> transport_up c \<and> tx_results c = [] \<and> 0 \<le> last_msg_id c \<and> last_msg_id c \<le> LLRP_MSG_ID_MAX"

definition next_id :: "client \<Rightarrow> int" where
  "next_id c = (if last_msg_id c < LLRP_MSG_ID_MAX then last_msg_id c + 1 else 1)"

lemma next_id_valid: "can_send c \<Longrightarrow> 1 \<le> next_id c \<and> next_id c \<le> LLRP_MSG_ID_MAX"
  by (auto simp: can_send_def next_id_def LLRP_MSG_ID_MAX_def)

lemma setState_fields:
  "\<exists>c'. setState s c = (Inr (), c') \<and> state c' = s \<and> request_view c' = request_view c \<and> outbox c' = outbox c \<and>
     transport_up c' = transport_up c \<and> tx_results c' = tx_results c \<and> last_msg_id c' = last_msg_id c \<and>
     inventory_rospec_added c' = inventory_rospec_added c"
  by (simp add: setState_def record_event_def cancel_pause_resume_timer_def act_simps request_view_def)

text \<open>Up to the message itself, a request never fails; then all depends on its encoding.\<close>

lemma send_request_reaches:
  assumes ok: "requests_ok c" and can: "can_send c" and new: "\<not> awaits n (request_of c)" and no_id: "dict_get d ''ID'' = None"
  shows "\<exists>c4. state c4 = s \<and> outbox c4 = outbox c \<and> can_send c4 \<and> inventory_rospec_added c4 = inventory_rospec_added c \<and>
     send_request [(name, PDict d)] n (Some k) (Some s) c =
     (case serialize [(name, PDict (dict_set d ''ID'' (PInt (next_id c))))] of
        Inl e \<Rightarrow> bindA (undo_request n (next_id c) (Some k) (Some s) (state c)) (\<lambda>_. thenA (modifyA end_registered_send) (throwA e)) c4
      | Inr [] \<Rightarrow> bindA (undo_request n (next_id c) (Some k) (Some s) (state c)) (\<lambda>_. thenA (modifyA end_registered_send) (throwA LLRPError)) c4
      | Inr b \<Rightarrow> (Inr (next_id c), end_registered_send (c4\<lparr>outbox := outbox c @ [b]\<rparr>)))"
proof -
  have guard: "\<not> (has_response_type n (pending_requests c) \<or> deferred_list n c \<noteq> [])"
    using new ok table_none [of c n] by (simp add: has_response_type_awaits request_of_def requests_ok_def)
  let ?c2 = "add_deferred n k (c\<lparr>last_msg_id := next_id c\<rparr>)"
  have "entries (pending_requests ?c2) (n, next_id c) = None" using new by (simp add: awaits_def request_of_def)
  then obtain r where reg: "register_request n (next_id c) (Some k) ?c2 = (Inr (), ?c2\<lparr>pending_requests := r\<rparr>)"
    using register_request_eq by blast
  obtain c3 where c3: "setState s (?c2\<lparr>pending_requests := r\<rparr>) = (Inr (), c3)" "state c3 = s" "outbox c3 = outbox c"
    "transport_up c3" "tx_results c3 = []" "last_msg_id c3 = next_id c" "inventory_rospec_added c3 = inventory_rospec_added c"
    using setState_fields [of s "?c2\<lparr>pending_requests := r\<rparr>"] can by (auto simp: add_deferred_def can_send_def)
  let ?c4 = "c3\<lparr>sending_registered_request := True, reserved_message_id := Some (next_id c)\<rparr>"
  have send: "sendMessage [(name, PDict d)] ?c4 = (case serialize [(name, PDict (dict_set d ''ID'' (PInt (next_id c))))] of
      Inl e \<Rightarrow> (Inl e, ?c4) | Inr [] \<Rightarrow> (Inl LLRPError, ?c4) | Inr b \<Rightarrow> (Inr [(name, next_id c)], ?c4\<lparr>outbox := outbox c @ [b]\<rparr>))"
    using c3 no_id
    by (simp add: sendMessage_def prepare_message_def assign_message_id_def transport_tx_write_def py_get_def py_items_def act_simps
        split: sum.split list.split)
  have "can_send ?c4" using c3 next_id_valid [OF can] by (simp add: can_send_def)
  moreover have "send_request [(name, PDict d)] n (Some k) (Some s) c =
     (case serialize [(name, PDict (dict_set d ''ID'' (PInt (next_id c))))] of
        Inl e \<Rightarrow> bindA (undo_request n (next_id c) (Some k) (Some s) (state c)) (\<lambda>_. thenA (modifyA end_registered_send) (throwA e)) ?c4
      | Inr [] \<Rightarrow> bindA (undo_request n (next_id c) (Some k) (Some s) (state c)) (\<lambda>_. thenA (modifyA end_registered_send) (throwA LLRPError)) ?c4
      | Inr b \<Rightarrow> (Inr (next_id c), end_registered_send (?c4\<lparr>outbox := outbox c @ [b]\<rparr>)))"
    using guard c3(1) reg send
    by (simp add: send_request_def next_message_id_def next_id_def act_simps Let_def split: sum.split list.split prod.split)
  ultimately show ?thesis using c3 by (intro exI [of _ ?c4]) simp
qed

lemma send_request_succeeds:
  assumes ok: "requests_ok c" and can: "can_send c" and nm: "ends_with n ''_RESPONSE''" and new: "\<not> awaits n (request_of c)"
    and no_id: "dict_get d ''ID'' = None"
    and enc: "serialize [(name, PDict (dict_set d ''ID'' (PInt (next_id c))))] = Inr b" "b \<noteq> []"
  shows "\<exists>c'. send_request [(name, PDict d)] n (Some k) (Some s) c = (Inr (next_id c), c') \<and> requests_ok c' \<and> can_send c' \<and>
    request_of c' = (request_of c)((n, next_id c) := Some (Some k)) \<and> state c' = s \<and> outbox c' = outbox c @ [b] \<and>
    inventory_rospec_added c' = inventory_rospec_added c"
proof -
  obtain c4 where c4: "state c4 = s" "can_send c4" "inventory_rospec_added c4 = inventory_rospec_added c"
    and run: "send_request [(name, PDict d)] n (Some k) (Some s) c =
      (Inr (next_id c), end_registered_send (c4\<lparr>outbox := outbox c @ [b]\<rparr>))"
    using send_request_reaches [OF ok can new no_id, of s name k] enc by (cases b) auto
  let ?c = "end_registered_send (c4\<lparr>outbox := outbox c @ [b]\<rparr>)"
  from send_request_outcome [OF ok nm run]
  have "requests_ok ?c" "\<exists>m. next_id c = m \<and> request_of ?c = (request_of c)((n, m) := Some (Some k))" using new by auto
  moreover have "can_send ?c" using c4 by (simp add: can_send_def end_registered_send_def)
  ultimately show ?thesis using run c4 by (intro exI [of _ ?c]) (simp add: end_registered_send_def)
qed

text \<open>A request that was sent had an encoding.\<close>

lemma sent_request_encodes:
  assumes ok: "requests_ok c" and can: "can_send c" and new: "\<not> awaits n (request_of c)" and no_id: "dict_get d ''ID'' = None"
    and run: "send_request [(name, PDict d)] n (Some k) (Some s) c = (Inr m, c')"
  shows "\<exists>b. serialize [(name, PDict (dict_set d ''ID'' (PInt (next_id c))))] = Inr b \<and> b \<noteq> []"
proof -
  have fails: "bindA u (\<lambda>_. thenA (modifyA end_registered_send) (throwA e)) c4 \<noteq> (Inr m, c')" for u :: "unit command" and e c4
    by (cases "u c4"; cases "fst (u c4)") (auto simp: act_simps)
  let ?enc = "serialize [(name, PDict (dict_set d ''ID'' (PInt (next_id c))))]"
  obtain c4 where "(case ?enc of
        Inl e \<Rightarrow> bindA (undo_request n (next_id c) (Some k) (Some s) (state c)) (\<lambda>_. thenA (modifyA end_registered_send) (throwA e)) c4
      | Inr [] \<Rightarrow> bindA (undo_request n (next_id c) (Some k) (Some s) (state c)) (\<lambda>_. thenA (modifyA end_registered_send) (throwA LLRPError)) c4
      | Inr b \<Rightarrow> (Inr (next_id c), end_registered_send (c4\<lparr>outbox := outbox c @ [b]\<rparr>))) = (Inr m, c')"
    using send_request_reaches [OF ok can new no_id, of s name k] run by auto
  then have "\<exists>b bs. ?enc = Inr (b # bs)" using fails by (simp split: sum.splits list.splits)
  then show ?thesis by auto
qed

section \<open>An answer that matches\<close>

definition answers :: "string \<Rightarrow> int \<Rightarrow> pydict \<Rightarrow> bool" where
  "answers name i md \<longleftrightarrow> dict_get md ''ID'' = Some (PInt i) \<and> isSuccess name md = Inr True"

lemma pending_not_stale:
  assumes "requests_ok c" "request_of c (n, i) \<noteq> None"
  shows "\<not> is_stale n i (pending_requests c)" "contains n i (pending_requests c)"
proof -
  have "pending_ok (pending_requests c)" using assms(1) by (simp add: requests_ok_def table_ok_def registry_ok_def)
  then show "\<not> is_stale n i (pending_requests c)"
    using assms(2) by (auto simp: pending_ok_def is_stale_def request_of_def entries_def map_of_eq_None_iff)
  show "contains n i (pending_requests c)" using assms(2) by (simp add: contains_entries request_of_def)
qed

text \<open>The handler of the state sees the answer to its request, with the identifier noted.\<close>

lemma answer_dispatched:
  assumes ok: "requests_ok c" and key: "request_of c (name, i) \<noteq> None" and md: "dict_get md ''ID'' = Some (PInt i)"
    and name: "ends_with name ''_RESPONSE''"
  shows "handleMessage name md c = bindA (dispatch (state c) name md)
     (\<lambda>finished. whenA finished (modifyA (touch_deferreds name))) (c\<lparr>response_message_id := Some i\<rparr>)"
proof -
  have "name \<noteq> ''KEEPALIVE''" "name \<noteq> ''RO_ACCESS_REPORT''" "name \<noteq> ''READER_EVENT_NOTIFICATION''"
    using name by (auto simp: ends_with_def)
  moreover have "message_id_of md = Inr (Some i)" using md by (simp add: message_id_of_def py_int_def)
  ultimately show ?thesis
    using pending_not_stale [OF ok key]
    by (simp add: handleMessage_def act_simps unmatched_response_def ignored_message_def)
qed

section \<open>From the ROSpec to the inventory\<close>

lemma enable_rospec_entry: "map_of Message_struct_assigned ''ENABLE_ROSPEC'' = Some Msg_ENABLE_ROSPEC"
  by (simp add: Message_struct_assigned_def)

lemma enable_rospec_encodes:
  assumes "1 \<le> i" "i \<le> LLRP_MSG_ID_MAX"
  shows "\<exists>b. serialize [(''ENABLE_ROSPEC'', PDict [(''ROSpecID'', PInt 1), (''ID'', PInt i)])] = Inr b \<and> b \<noteq> []"
proof -
  have "in_range U32 i" using assms by (simp add: in_range_unsigned LLRP_MSG_ID_MAX_def)
  then show ?thesis
    by (simp add: serialize_def message_entry enable_rospec_entry Msg_ENABLE_ROSPEC_def encode_message_def
      msg_header_encode_def py_operand_def postprocessed_def msg_header_struct_def codec_eval)
qed

lemma answered_requests: "requests_ok (touch_deferreds n (drop_empty_deferreds m c)) = requests_ok c"
  using requests_ok_cong [of "touch_deferreds n (drop_empty_deferreds m c)" "drop_empty_deferreds m c"] drop_empty_ok
  by simp

lemma answered_state:
  "request_of (touch_deferreds n c) = request_of c" "request_of (drop_empty_deferreds n c) = request_of c"
  "state (touch_deferreds n c) = state c"
  "outbox (touch_deferreds n c) = outbox c" "outbox (drop_empty_deferreds n c) = outbox c"
  "inventory_rospec_added (touch_deferreds n c) = inventory_rospec_added c"
  "inventory_rospec_added (drop_empty_deferreds n c) = inventory_rospec_added c"
  by (simp_all add: request_of_def) (simp_all add: touch_deferreds_def drop_empty_deferreds_def)

text \<open>The answer to the request that adds the ROSpec sends the one that enables it.\<close>

lemma rospec_added:
  assumes ok: "requests_ok c" and can: "can_send c" and st: "state c = STATE_SENT_ADD_ROSPEC"
    and key: "request_of c (''ADD_ROSPEC_RESPONSE'', i) = Some (Some (Added_Rospec_Cb spec None))"
    and spec: "dict_get spec ''ROSpecID'' = Some (PInt 1)" and new: "\<not> awaits ''ENABLE_ROSPEC_RESPONSE'' (request_of c)"
    and md: "answers ''ADD_ROSPEC_RESPONSE'' i md"
  shows "\<exists>c' b. handleMessage ''ADD_ROSPEC_RESPONSE'' md c = (Inr (), c') \<and> requests_ok c' \<and> state c' = STATE_SENT_ENABLE_ROSPEC \<and>
     request_of c' = (request_of c)((''ADD_ROSPEC_RESPONSE'', i) := None,
       (''ENABLE_ROSPEC_RESPONSE'', next_id c) := Some (Some (Enabled_Rospec_Cb None))) \<and>
     outbox c' = outbox c @ [b] \<and> inventory_rospec_added c' \<and>
     serialize [(''ENABLE_ROSPEC'', PDict [(''ROSpecID'', PInt 1), (''ID'', PInt (next_id c))])] = Inr b"
proof -
  let ?n = "''ADD_ROSPEC_RESPONSE''" let ?c = "c\<lparr>response_message_id := Some i\<rparr>"
  have ok': "requests_ok ?c" "request_of ?c = request_of c"
    using ok by (simp_all add: requests_ok_def table_ok_def request_of_def deferred_list_def)
  obtain r d where p: "processDeferreds ?n True ?c =
      (case run_cont (Added_Rospec_Cb spec None) (state ?c) True (?c\<lparr>pending_requests := r, deferreds := d\<rparr>) of
        (Inl e, c2) \<Rightarrow> (Inl e, c2) | (Inr _, c2) \<Rightarrow> (Inr True, drop_empty_deferreds ?n c2))"
    and t: "requests_ok (?c\<lparr>pending_requests := r, deferreds := d\<rparr>)"
      "request_of (?c\<lparr>pending_requests := r, deferreds := d\<rparr>) = (request_of c)((?n, i) := None)"
    using matched_response [OF ok'(1), of i ?n "Added_Rospec_Cb spec None" True] key ok'(2) by (simp add: Let_def) blast
  let ?c1 = "?c\<lparr>pending_requests := r, deferreds := d, inventory_rospec_added := True\<rparr>"
  have "requests_ok ?c1" "request_of ?c1 = (request_of c)((?n, i) := None)"
    using t by (simp_all add: requests_ok_def table_ok_def request_of_def deferred_list_def)
  moreover have "can_send ?c1" "next_id ?c1 = next_id c" using can by (simp_all add: can_send_def next_id_def)
  moreover obtain b where b: "serialize [(''ENABLE_ROSPEC'', PDict [(''ROSpecID'', PInt 1), (''ID'', PInt (next_id c))])] = Inr b" "b \<noteq> []"
    using enable_rospec_encodes next_id_valid [OF can] by blast
  ultimately obtain c2 where c2: "send_request [(''ENABLE_ROSPEC'', PDict [(''ROSpecID'', PInt 1)])] ''ENABLE_ROSPEC_RESPONSE''
        (Some (Enabled_Rospec_Cb None)) (Some STATE_SENT_ENABLE_ROSPEC) ?c1 = (Inr (next_id c), c2)"
      "requests_ok c2" "can_send c2" "state c2 = STATE_SENT_ENABLE_ROSPEC" "outbox c2 = outbox c @ [b]" "inventory_rospec_added c2"
      "request_of c2 = (request_of c)((?n, i) := None, (''ENABLE_ROSPEC_RESPONSE'', next_id c) := Some (Some (Enabled_Rospec_Cb None)))"
    using send_request_succeeds [where c = ?c1 and n = "''ENABLE_ROSPEC_RESPONSE''" and d = "[(''ROSpecID'', PInt 1)]" and name = "''ENABLE_ROSPEC''"
      and b = b and k = "Enabled_Rospec_Cb None" and s = STATE_SENT_ENABLE_ROSPEC] new
    by (auto simp: ends_with_def awaits_def)
  have run: "processDeferreds ?n True ?c = (Inr True, drop_empty_deferreds ?n c2)"
    using p c2(1) spec by (simp add: act_simps send_ENABLE_ROSPEC_def py_item_def)
  have "handleMessage ?n md c = (Inr (), touch_deferreds ?n (drop_empty_deferreds ?n c2))"
    using answer_dispatched [OF ok, of ?n i md] key md run st
    by (simp add: answers_def ends_with_def dispatch_def on_add_rospec_def act_simps)
  then show ?thesis using c2 b by (intro exI [of _ "touch_deferreds ?n (drop_empty_deferreds ?n c2)"] exI [of _ b]) (simp add: answered_state answered_requests)
qed

text \<open>The answer to that request starts the inventory.\<close>

lemma rospec_enabled:
  assumes ok: "requests_ok c" and st: "state c = STATE_SENT_ENABLE_ROSPEC"
    and key: "request_of c (''ENABLE_ROSPEC_RESPONSE'', i) = Some (Some (Enabled_Rospec_Cb None))"
    and md: "answers ''ENABLE_ROSPEC_RESPONSE'' i md"
  shows "\<exists>c'. handleMessage ''ENABLE_ROSPEC_RESPONSE'' md c = (Inr (), c') \<and> state c' = STATE_INVENTORYING \<and>
     requests_ok c' \<and> request_of c' = (request_of c)((''ENABLE_ROSPEC_RESPONSE'', i) := None) \<and> outbox c' = outbox c \<and>
     inventory_rospec_added c' = inventory_rospec_added c"
proof -
  let ?n = "''ENABLE_ROSPEC_RESPONSE''" let ?c = "c\<lparr>response_message_id := Some i\<rparr>"
  have ok': "requests_ok ?c" "request_of ?c = request_of c"
    using ok by (simp_all add: requests_ok_def table_ok_def request_of_def deferred_list_def)
  obtain r d where p: "processDeferreds ?n True ?c =
      (case run_cont (Enabled_Rospec_Cb None) (state ?c) True (?c\<lparr>pending_requests := r, deferreds := d\<rparr>) of
        (Inl e, c2) \<Rightarrow> (Inl e, c2) | (Inr _, c2) \<Rightarrow> (Inr True, drop_empty_deferreds ?n c2))"
    and t: "requests_ok (?c\<lparr>pending_requests := r, deferreds := d\<rparr>)"
      "request_of (?c\<lparr>pending_requests := r, deferreds := d\<rparr>) = (request_of c)((?n, i) := None)"
    using matched_response [OF ok'(1), of i ?n "Enabled_Rospec_Cb None" True] key ok'(2) by (simp add: Let_def) blast
  obtain c2 where c2: "setState STATE_INVENTORYING (?c\<lparr>pending_requests := r, deferreds := d\<rparr>) = (Inr (), c2)"
      "state c2 = STATE_INVENTORYING" "outbox c2 = outbox c" "inventory_rospec_added c2 = inventory_rospec_added c"
      "request_view c2 = request_view (?c\<lparr>pending_requests := r, deferreds := d\<rparr>)"
    using setState_fields [of STATE_INVENTORYING "?c\<lparr>pending_requests := r, deferreds := d\<rparr>"] by auto
  have c2': "requests_ok c2" "request_of c2 = (request_of c)((?n, i) := None)"
    using request_view_cong [OF c2(5)] t by simp_all
  have "processDeferreds ?n True ?c = (Inr True, drop_empty_deferreds ?n c2)"
    using p c2(1) by (simp add: act_simps run_callback_def)
  then have "handleMessage ?n md c = (Inr (), touch_deferreds ?n (drop_empty_deferreds ?n c2))"
    using answer_dispatched [OF ok, of ?n i md] key md st
    by (simp add: answers_def ends_with_def dispatch_def on_enable_rospec_def act_simps)
  then show ?thesis using c2 c2'
    by (intro exI [of _ "touch_deferreds ?n (drop_empty_deferreds ?n c2)"]) (simp add: answered_state answered_requests)
qed

section \<open>The call\<close>

text \<open>The ROSpec of the client, if it has one, is one it built.\<close>

definition rospec_known :: "client \<Rightarrow> bool" where
  "rospec_known c \<longleftrightarrow> (case rospec c of None \<Rightarrow> True | Some spec \<Rightarrow> spec = [] \<or> dict_get spec ''ROSpecID'' = Some (PInt 1))"

lemma built_rospec_id: "LLRPROSpec order mode 1 ra = Inr spec \<Longrightarrow> dict_get spec ''ROSpecID'' = Some (PInt 1)"
  by (auto simp: LLRPROSpec_def Let_def bindE_eq_Inr)

lemma periodic_rospec_id: "periodic_report_spec cfg spec = Inr spec' \<Longrightarrow> dict_get spec' ''ROSpecID'' = dict_get spec ''ROSpecID''"
  by (auto simp: periodic_report_spec_def Let_def bindE_eq_Inr dict_simps)

lemma getROSpec_result:
  assumes "getROSpec force c = (Inr spec, c0)" "rospec_known c"
  shows "dict_get spec ''ROSpecID'' = Some (PInt 1) \<and> c0 = c\<lparr>rospec := rospec c0, generated_config_snapshot := generated_config_snapshot c0\<rparr>"
proof -
  have built: "dict_get spec ''ROSpecID'' = Some (PInt 1) \<and> c0 = c\<lparr>rospec := rospec c0, generated_config_snapshot := generated_config_snapshot c0\<rparr>"
    if "build_rospec c = (Inr spec, c0)"
    using that by (auto simp: build_rospec_def act_simps Let_def periodic_rospec_id dest: built_rospec_id
        split: sum.splits if_splits)
  have "c = c\<lparr>rospec := rospec c, generated_config_snapshot := generated_config_snapshot c\<rparr>" by simp
  then show ?thesis using assms built
    by (auto simp: getROSpec_def act_simps rospec_known_def split: option.splits if_splits)
qed

text \<open>A client with a small ROSpec, for the application of the property below.\<close>

definition small_rospec :: pydict where
  "small_rospec = [(''ROSpecID'', PInt 1), (''Priority'', PInt 0), (''CurrentState'', PStr ''Disabled'')]"

lemma rospec_entry: "map_of Param_struct ''ROSpec'' = Some (Param_ROSpec\<lparr>ps_info := finish_info (ps_info Param_ROSpec)\<rparr>)"
proof -
  have m: "(''ROSpec'', Param_ROSpec) \<in> set (Param_assignments (map_of Param_Type2Name))"
    by (simp add: Param_assignments_def Params_Access_def)
  have f: "filter (\<lambda>(k, m). m = ''ROSpec'') assigned_keys = [((177, 0, 0), ''ROSpec'')]"
    by (simp add: assigned_keys_def no_name keys_names) (simp add: keys_Access_def)
  show ?thesis
    unfolding Param_struct_eval(1) [OF m f]
    by (simp add: apply_fixes_def update_entry_def postprocess_def postprocessed_def Param_ROSpec_def tlv_info_def TYPE_CUSTOM_def)
qed

lemma small_rospec_encoded: "encode_param ''ROSpec'' (PDict small_rospec) = Inr [0, 177, 0, 10, 0, 0, 0, 1, 0, 0]"
proof -
  have "encode_param ''ROSpec'' (PDict small_rospec) = encode_param_with llrp_registry encode_param ''ROSpec'' (PDict small_rospec)"
    unfolding encode_param_def by (rule llrp.encode_param_equation)
  then show ?thesis
    by (simp add: encode_param_with_def rospec_entry llrp_registry_def Param_ROSpec_def encode_ROSpec_def small_rospec_def
        py_lookup_def py_lookup_opt_def ROSpecState_Name2Type_def encode_all_parameters_def encode_auto_field_def py_in_def codec_eval)
qed

lemma add_rospec_entry: "map_of Message_struct_assigned ''ADD_ROSPEC'' = Some Msg_ADD_ROSPEC"
  by (simp add: Message_struct_assigned_def)

lemma small_add_rospec:
  "serialize [(''ADD_ROSPEC'', PDict [(''ROSpecID'', PInt 1), (''ROSpec'', PDict small_rospec), (''ID'', PInt 1)])] =
     Inr [4, 20, 0, 0, 0, 20, 0, 0, 0, 1, 0, 177, 0, 10, 0, 0, 0, 1, 0, 0]"
  by (simp add: serialize_def message_entry add_rospec_entry Msg_ADD_ROSPEC_def encode_message_def encode_all_def
      encode_all_parameters_def encode_auto_field_def small_rospec_encoded py_in_def
      msg_header_encode_def py_operand_def postprocessed_def msg_header_struct_def codec_eval)

definition ready_client :: client where
  "ready_client = (new_client (\<lambda>_. default_config) id id [])\<lparr>state := STATE_CONNECTED, rospec := Some small_rospec\<rparr>"

lemma ready_client_ok: "requests_ok ready_client" "can_send ready_client" "next_id ready_client = 1"
    "request_of ready_client = (\<lambda>x. None)"
proof -
  have "request_view ready_client = request_view (new_client (\<lambda>_. default_config) id id [])"
    by (simp add: ready_client_def request_view_def)
  then show "requests_ok ready_client" using request_view_cong(1) new_client_ok(1) by blast
  show "request_of ready_client = (\<lambda>x. None)"
    by (simp add: ready_client_def new_client_def request_of_def entries_def new_registry_def fun_eq_iff)
qed (simp_all add: ready_client_def new_client_def can_send_def next_id_def LLRP_MSG_ID_MAX_def)

lemma ready_client_starts: "\<exists>c1. startInventory False None ready_client = (Inr (), c1)"
proof -
  let ?c = "ready_client\<lparr>inventory_rospec_added := False\<rparr>"
  have c: "requests_ok ?c" "can_send ?c" "next_id ?c = 1" "request_of ?c = (\<lambda>x. None)"
  proof -
    show "requests_ok ?c" using ready_client_ok(1) by (simp add: requests_ok_def table_ok_def request_of_def deferred_list_def)
    show "can_send ?c" using ready_client_ok(2) by (simp add: can_send_def)
    show "next_id ?c = 1" by (simp add: next_id_def ready_client_def new_client_def LLRP_MSG_ID_MAX_def)
    show "request_of ?c = (\<lambda>x. None)" using ready_client_ok(4) by (simp add: request_of_def)
  qed
  have "serialize [(''ADD_ROSPEC'', PDict (dict_set [(''ROSpecID'', PInt 1), (''ROSpec'', PDict small_rospec)] ''ID'' (PInt (next_id ?c))))] =
      Inr [4, 20, 0, 0, 0, 20, 0, 0, 0, 1, 0, 177, 0, 10, 0, 0, 0, 1, 0, 0]"
    using small_add_rospec c(3) by simp
  from send_request_succeeds [OF c(1,2) _ _ _ this, of "''ADD_ROSPEC_RESPONSE''" "Added_Rospec_Cb small_rospec None" STATE_SENT_ADD_ROSPEC]
  obtain c1 where "send_request [(''ADD_ROSPEC'', PDict [(''ROSpecID'', PInt 1), (''ROSpec'', PDict small_rospec)])] ''ADD_ROSPEC_RESPONSE''
      (Some (Added_Rospec_Cb small_rospec None)) (Some STATE_SENT_ADD_ROSPEC) ?c = (Inr 1, c1)"
    by (auto simp: ends_with_def c awaits_def)
  moreover have "dict_get small_rospec ''ROSpecID'' = Some (PInt 1)" "small_rospec \<noteq> []" by (simp_all add: small_rospec_def)
  moreover have "state ready_client = STATE_CONNECTED" "rospec ready_client = Some small_rospec" by (simp_all add: ready_client_def)
  ultimately show ?thesis
    by (simp add: startInventory_def startInventory_with_def getROSpec_def act_simps send_ADD_ROSPEC_def py_item_def)
qed

definition success_answer :: "int \<Rightarrow> pydict" where
  "success_answer i = [(''ID'', PInt i), (''LLRPStatus'', PDict [(''StatusCode'', PStr ''Success'')])]"

lemma success_answers: "answers ''ADD_ROSPEC_RESPONSE'' i (success_answer i)" "answers ''ENABLE_ROSPEC_RESPONSE'' i (success_answer i)"
  by (simp_all add: answers_def success_answer_def isSuccess_def py_item_def)

text \<open>
  C22. An inventory that was requested starts as soon as the reader agrees: after
  \<open>startInventory\<close> has sent the ROSpec, the successful answer to exactly this request makes the client
  send the message that enables the ROSpec, and the successful answer to that one puts it into the
  inventory state; no exception intervenes, exactly these messages are written, and every other
  pending request stays as it was.
\<close>

theorem inventory_starts:
  assumes ok: "requests_ok c" "can_send c" and st: "state c \<noteq> STATE_INVENTORYING" and spec: "rospec_known c"
    and new: "\<not> awaits ''ENABLE_ROSPEC_RESPONSE'' (request_of c)"
    and call: "startInventory force None c = (Inr (), c1)"
    and add: "answers ''ADD_ROSPEC_RESPONSE'' (next_id c) md1"
  shows "state c1 = STATE_SENT_ADD_ROSPEC \<and>
    (\<exists>c2 b1 b2. handleMessage ''ADD_ROSPEC_RESPONSE'' md1 c1 = (Inr (), c2) \<and> state c2 = STATE_SENT_ENABLE_ROSPEC \<and>
       outbox c2 = outbox c @ [b1, b2] \<and>
       serialize [(''ENABLE_ROSPEC'', PDict [(''ROSpecID'', PInt 1), (''ID'', PInt (next_id c1))])] = Inr b2 \<and>
       (\<forall>md2. answers ''ENABLE_ROSPEC_RESPONSE'' (next_id c1) md2 \<longrightarrow>
          (\<exists>c3. handleMessage ''ENABLE_ROSPEC_RESPONSE'' md2 c2 = (Inr (), c3) \<and> state c3 = STATE_INVENTORYING \<and>
             inventory_rospec_added c3 \<and> outbox c3 = outbox c2 \<and> request_of c3 = request_of c)))"
proof -
  let ?n = "''ADD_ROSPEC_RESPONSE''" let ?e = "''ENABLE_ROSPEC_RESPONSE''"
  obtain sp c0 m where g: "getROSpec force c = (Inr sp, c0)"
    and s: "send_ADD_ROSPEC sp (Added_Rospec_Cb sp None) (c0\<lparr>inventory_rospec_added := False\<rparr>) = (Inr m, c1)"
    using call st by (auto simp: startInventory_def startInventory_with_def act_simps split: sum.splits prod.splits)
  define r gs where "r = rospec c0" and "gs = generated_config_snapshot c0"
  then have c0: "c0 = c\<lparr>rospec := r, generated_config_snapshot := gs\<rparr>" and id: "dict_get sp ''ROSpecID'' = Some (PInt 1)"
    using getROSpec_result [OF g spec] by auto
  let ?c = "c0\<lparr>inventory_rospec_added := False\<rparr>"
  let ?d = "[(''ROSpecID'', PInt 1), (''ROSpec'', PDict sp)]" let ?k = "Added_Rospec_Cb sp None"
  have c: "requests_ok ?c" "can_send ?c" "next_id ?c = next_id c" "request_of ?c = request_of c" "outbox ?c = outbox c"
    using ok by (simp_all add: c0 requests_ok_def table_ok_def request_of_def deferred_list_def can_send_def next_id_def)
  have run: "send_request [(''ADD_ROSPEC'', PDict ?d)] ?n (Some ?k) (Some STATE_SENT_ADD_ROSPEC) ?c = (Inr m, c1)"
    using s id by (simp add: send_ADD_ROSPEC_def act_simps py_item_def)
  have newa: "\<not> awaits ?n (request_of c)"
    using send_request_outcome [OF c(1) _ run] c(4) by (auto simp: ends_with_def)
  then obtain b1 where b1: "serialize [(''ADD_ROSPEC'', PDict (dict_set ?d ''ID'' (PInt (next_id ?c))))] = Inr b1" "b1 \<noteq> []"
    using sent_request_encodes [OF c(1,2) _ _ run] c(4) by auto
  have c1: "requests_ok c1" "can_send c1" "request_of c1 = (request_of c)((?n, next_id c) := Some (Some ?k))"
      "state c1 = STATE_SENT_ADD_ROSPEC" "outbox c1 = outbox c @ [b1]"
    using send_request_succeeds [OF c(1,2) _ _ _ b1, of ?n ?k STATE_SENT_ADD_ROSPEC] newa run c(3,4,5)
    by (auto simp: ends_with_def)
  have newe: "\<not> awaits ?e (request_of c1)" using new by (simp add: c1(3) awaits_def)
  obtain c2 b2 where c2: "handleMessage ?n md1 c1 = (Inr (), c2)" "requests_ok c2" "state c2 = STATE_SENT_ENABLE_ROSPEC"
      "request_of c2 = (request_of c1)((?n, next_id c) := None, (?e, next_id c1) := Some (Some (Enabled_Rospec_Cb None)))"
      "outbox c2 = outbox c1 @ [b2]" "inventory_rospec_added c2"
      "serialize [(''ENABLE_ROSPEC'', PDict [(''ROSpecID'', PInt 1), (''ID'', PInt (next_id c1))])] = Inr b2"
    using rospec_added [OF c1(1,2,4) _ id newe add] by (auto simp: c1(3))
  have rest: "(request_of c2)((?e, next_id c1) := None) = request_of c"
    using new newa by (auto simp: c2(4) c1(3) fun_eq_iff awaits_def)
  have "\<exists>c3. handleMessage ?e md2 c2 = (Inr (), c3) \<and> state c3 = STATE_INVENTORYING \<and> inventory_rospec_added c3 \<and>
      outbox c3 = outbox c2 \<and> request_of c3 = request_of c" if "answers ?e (next_id c1) md2" for md2
    using rospec_enabled [OF c2(2,3) _ that] rest c2(6) by (auto simp: c2(4))
  then show ?thesis using c2 c1(4,5) by (intro conjI exI [of _ c2] exI [of _ b1] exI [of _ b2]) simp_all
qed

theorem inventory_starts_witness:
  "\<exists>c1 c2 c3. startInventory False None ready_client = (Inr (), c1) \<and>
     handleMessage ''ADD_ROSPEC_RESPONSE'' (success_answer 1) c1 = (Inr (), c2) \<and>
     handleMessage ''ENABLE_ROSPEC_RESPONSE'' (success_answer (next_id c1)) c2 = (Inr (), c3) \<and> state c3 = STATE_INVENTORYING"
proof -
  obtain c1 where c1: "startInventory False None ready_client = (Inr (), c1)" using ready_client_starts by blast
  have "state ready_client \<noteq> STATE_INVENTORYING" "rospec_known ready_client"
    "\<not> awaits ''ENABLE_ROSPEC_RESPONSE'' (request_of ready_client)"
    using ready_client_ok(4) by (simp_all add: ready_client_def rospec_known_def small_rospec_def awaits_def)
  from inventory_starts [OF ready_client_ok(1,2) this c1, of "success_answer 1"] ready_client_ok(3) success_answers c1
  show ?thesis by auto blast
qed

end
