(* ===== verification/Secure_Client.thy ===== *)
theory Secure_Client
  imports Reader_Client
begin

text \<open>
  The TLS client of \<^verbatim>\<open>sllurp/secure.py\<close>: the checks of its options, connecting in two stages,
  and the receive loop with bytes that OpenSSL has already decrypted.  Handshakes and certificate
  files are the library's: a connection attempt has an outcome, and a context records what it
  was told to verify.  The reader client inside is \<open>plain\<close>.
\<close>

section \<open>Contexts\<close>

record tls_options =
  opt_cafile :: "string option"
  opt_capath :: "string option"
  opt_cadata :: "string option"
  opt_certfile :: "string option"
  opt_keyfile :: "string option"
  opt_password :: "string option"
  opt_verify :: bool
  opt_check_hostname :: "bool option"

definition default_tls :: tls_options where
  "default_tls = \<lparr>opt_cafile = None, opt_capath = None, opt_cadata = None, opt_certfile = None, opt_keyfile = None,
     opt_password = None, opt_verify = True, opt_check_hostname = None\<rparr>"

record tls_context =
  verifies :: bool
  checks_hostname :: bool
  trust :: "string option \<times> string option \<times> string option"
  cert_chain :: "(string \<times> string option \<times> string option) option"

definition supplied :: "string option \<Rightarrow> bool" where
  "supplied s \<longleftrightarrow> s \<noteq> None \<and> s \<noteq> Some []"

definition create_ssl_context :: "tls_options \<Rightarrow> tls_context res" where
  "create_ssl_context opt =
    (let check = (case opt_check_hostname opt of None \<Rightarrow> opt_verify opt | Some b \<Rightarrow> b) in
     if check \<and> \<not> opt_verify opt then Inl ValueError
     else let ctx = (if opt_verify opt
            then \<lparr>verifies = True, checks_hostname = check, trust = (opt_cafile opt, opt_capath opt, opt_cadata opt), cert_chain = None\<rparr>
            else \<lparr>verifies = False, checks_hostname = False, trust = (None, None, None), cert_chain = None\<rparr>)
       in if supplied (opt_certfile opt)
          then Inr (ctx\<lparr>cert_chain := Some (the (opt_certfile opt), opt_keyfile opt, opt_password opt)\<rparr>)
          else if supplied (opt_keyfile opt) then Inl ValueError else Inr ctx)"

text \<open>
  \<open>_create_tls_context\<close> of the plain client (\<^verbatim>\<open>llrp.py\<close>), from its configuration; a value that is
  not text stands for none.  For a configuration that passed its validation it is the same context.
\<close>

definition opt_text :: "pyval \<Rightarrow> string option" where
  "opt_text v = (case v of PStr s \<Rightarrow> Some s | _ \<Rightarrow> None)"

definition create_tls_context :: "reader_config \<Rightarrow> tls_context" where
  "create_tls_context c =
    (let ctx = (if py_true (tls_verify c)
       then \<lparr>verifies = True, checks_hostname = True, trust = (opt_text (tls_ca_file c), None, None), cert_chain = None\<rparr>
       else \<lparr>verifies = False, checks_hostname = False, trust = (None, None, None), cert_chain = None\<rparr>)
     in case opt_text (tls_client_cert c) of
       Some cert \<Rightarrow> if cert = [] then ctx else ctx\<lparr>cert_chain := Some (cert, opt_text (tls_client_key c), None)\<rparr>
     | None \<Rightarrow> ctx)"

definition config_options :: "reader_config \<Rightarrow> tls_options" where
  "config_options c = default_tls\<lparr>opt_cafile := opt_text (tls_ca_file c), opt_certfile := opt_text (tls_client_cert c),
     opt_keyfile := opt_text (tls_client_key c), opt_verify := py_true (tls_verify c)\<rparr>"

lemma same_tls_context:
  assumes "check_dedup c = Inr ()" "tls_client_cert c = PNone \<or> (\<exists>s. tls_client_cert c = PStr s)"
  shows "create_ssl_context (config_options c) = Inr (create_tls_context c)"
proof -
  have "\<not> (py_true (tls_client_key c) \<and> \<not> py_true (tls_client_cert c))"
    using assms(1) by (auto simp: check_dedup_def res_simps require_def)
  then show ?thesis using assms(2)
    by (auto simp: create_ssl_context_def create_tls_context_def config_options_def default_tls_def supplied_def
        opt_text_def Let_def split: pyval.splits)
qed

section \<open>The client\<close>

datatype tls_attempt = Tcp_Fails py_error | Handshake_Fails py_error | Tls_Connects

record tls_reader =
  plain :: reader
  ssl_context :: tls_context
  server_hostname :: string
  tls_pending :: bytes
  tls_attempts :: "tls_attempt list"
  raw_opened :: nat
  raw_closed :: nat

fun tls_outcome :: "tls_attempt \<Rightarrow> py_error option" where
  "tls_outcome (Tcp_Fails e) = Some e"
| "tls_outcome (Handshake_Fails e) = Some e"
| "tls_outcome Tls_Connects = None"

definition options_supplied :: "tls_options \<Rightarrow> bool" where
  "options_supplied opt \<longleftrightarrow> opt_cafile opt \<noteq> None \<or> opt_capath opt \<noteq> None \<or> opt_cadata opt \<noteq> None \<or>
     opt_certfile opt \<noteq> None \<or> opt_keyfile opt \<noteq> None \<or> opt_password opt \<noteq> None \<or>
     opt_check_hostname opt \<noteq> None \<or> \<not> opt_verify opt"

definition new_tls_reader :: "client \<Rightarrow> string \<Rightarrow> int option \<Rightarrow> tls_context option \<Rightarrow> string option \<Rightarrow> tls_options \<Rightarrow>
    tls_attempt list \<Rightarrow> bool list \<Rightarrow> (nat \<Rightarrow> rat) \<Rightarrow> nat \<Rightarrow> tls_reader res" where
  "new_tls_reader c host portnum context server opt attempts waits time stack =
    bindE (raise_if (context \<noteq> None \<and> options_supplied opt) ValueError) (\<lambda>_.
    bindE (case context of Some ctx \<Rightarrow> Inr ctx | None \<Rightarrow> create_ssl_context opt) (\<lambda>ctx.
    bindE (new_reader c (Some (case portnum of None \<Rightarrow> LLRP_SECURE_PORT | Some p \<Rightarrow> p)) (map tls_outcome attempts) waits time stack) (\<lambda>r.
    Inr \<lparr>plain = r, ssl_context = ctx, server_hostname = (case server of None \<Rightarrow> host | Some n \<Rightarrow> n),
         tls_pending = [], tls_attempts = attempts, raw_opened = 0, raw_closed = 0\<rparr>)))"

text \<open>\<open>_connect_socket\<close>: a socket that does not get through the handshake is closed again.\<close>

definition secure_connect_socket :: "(tls_reader, unit) act" where
  "secure_connect_socket s =
    (if transport_up (llrp (plain s)) then (Inl ReaderConfigurationError, s)
     else let s' = s\<lparr>raw_opened := Suc (raw_opened s), tls_attempts := tl (tls_attempts s),
            plain := (plain s)\<lparr>connect_results := tl (connect_results (plain s))\<rparr>\<rparr> in
       case (case tls_attempts s of [] \<Rightarrow> None | a # _ \<Rightarrow> tls_outcome a) of
         Some e \<Rightarrow> (Inl e, s'\<lparr>raw_closed := Suc (raw_closed s)\<rparr>)
       | None \<Rightarrow> (case socket_opened (plain s') of (x, r) \<Rightarrow> (x, s'\<lparr>plain := r, tls_pending := []\<rparr>)))"

section \<open>Receiving\<close>

definition SOCKET_RECV_CHUNK :: nat where "SOCKET_RECV_CHUNK = 64 * 1024"

text \<open>What a readable socket brings: a decrypted record, too little for one, an error.\<close>

datatype tls_input = Record bytes | Want_Read | Tls_Error

text \<open>
  One round of \<open>main_loop\<close>.  What a record holds beyond one \<open>recv\<close> stays pending, as long as its
  connection lasts.
\<close>

definition tls_round :: "tls_input \<Rightarrow> tls_reader \<Rightarrow> tls_reader option" where
  "tls_round input s =
    (let r = plain s; entered = r\<lparr>in_main_loop := True\<rparr>;
         keep = (\<lambda>rest r. s\<lparr>plain := r, tls_pending := rest\<rparr>) in
     if \<not> thread_running r then Some s
     else if \<not> transport_up (llrp r) then map_option (keep []) (main_loop_round Socket_Error r)
     else case input of
       Want_Read \<Rightarrow> map_option (keep (tls_pending s)) (end_round False entered)
     | Tls_Error \<Rightarrow> map_option (keep []) (main_loop_round Socket_Error r)
     | Record b \<Rightarrow>
         map_option (\<lambda>r'. keep (case fst (receive_data (take SOCKET_RECV_CHUNK b) entered) of
              Inr _ \<Rightarrow> if b \<noteq> [] \<and> thread_running r' then drop SOCKET_RECV_CHUNK b else []
            | Inl _ \<Rightarrow> []) r')
           (main_loop_round (Data (take SOCKET_RECV_CHUNK b)) r))"

text \<open>
  A wake-up of \<open>select\<close> and the rounds after it that find bytes pending, which do not block.  Without
  fuel: each of these rounds takes bytes off.
\<close>

lemma tls_round_pending:
  assumes "tls_round (Record b) s = Some s'" "thread_running (plain s)"
  shows "length (tls_pending s') \<le> length b - SOCKET_RECV_CHUNK"
  using assms by (auto simp: tls_round_def Let_def split: if_splits sum.splits)

function tls_drain :: "tls_reader \<Rightarrow> tls_reader option" where
  "tls_drain s = (if tls_pending s = [] \<or> \<not> thread_running (plain s) then Some s
     else case tls_round (Record (tls_pending s)) s of None \<Rightarrow> None | Some s' \<Rightarrow> tls_drain s')"
  by pat_completeness auto
termination
proof (relation "measure (\<lambda>s. length (tls_pending s))")
  fix s s' assume "\<not> (tls_pending s = [] \<or> \<not> thread_running (plain s))" "tls_round (Record (tls_pending s)) s = Some s'"
  then show "(s', s) \<in> measure (\<lambda>s. length (tls_pending s))"
    using tls_round_pending [of "tls_pending s" s s'] by (cases "tls_pending s") (auto simp: SOCKET_RECV_CHUNK_def)
qed simp

declare tls_drain.simps [simp del]

definition tls_wake :: "tls_input \<Rightarrow> tls_reader \<Rightarrow> tls_reader option" where
  "tls_wake input s = (case tls_round input s of None \<Rightarrow> None | Some s' \<Rightarrow> tls_drain s')"

section \<open>Connecting\<close>

text \<open>The reader client inside sees an ordinary attempt, and only a connected socket stays open.\<close>

theorem secure_connect_refines:
  assumes "connect_results (plain s) = map tls_outcome (tls_attempts s)" "secure_connect_socket s = (x, s')"
  shows "connect_socket (plain s) = (x, plain s') \<and> connect_results (plain s') = map tls_outcome (tls_attempts s') \<and>
    int (raw_opened s') - int (raw_closed s') = int (raw_opened s) - int (raw_closed s) + (if isl x then 0 else 1)"
proof -
  have opened: "socket_opened r = (Inr (), r\<lparr>llrp := (llrp r)\<lparr>transport_up := True\<rparr>, disconnected_notified := False,
      calls := calls r @ [Connection_Opened]\<rparr>)" for r
    by (simp add: socket_opened_def record_calls_def act_simps on_client_def new_events_def)
  show ?thesis
    using assms
    by (cases "tls_attempts s") (auto simp: secure_connect_socket_def connect_socket_def act_simps opened
        split: if_splits option.splits)
qed

text \<open>Host names are checked only by a context that verifies, and both are on unless switched off.\<close>

theorem tls_verification:
  assumes "create_ssl_context opt = Inr ctx"
  shows "verifies ctx = opt_verify opt \<and> (checks_hostname ctx \<longrightarrow> verifies ctx) \<and>
    (opt_verify opt \<and> opt_check_hostname opt \<noteq> Some False \<longrightarrow> checks_hostname ctx) \<and>
    (supplied (opt_keyfile opt) \<longrightarrow> cert_chain ctx \<noteq> None)"
  using assms by (auto simp: create_ssl_context_def Let_def split: if_splits option.splits)

section \<open>Records reach the client\<close>

text \<open>What the receive loop reads of a record: pieces of the size of one \<open>recv\<close>.\<close>

function chunks :: "bytes \<Rightarrow> bytes list" where
  "chunks b = (if b = [] then [] else take SOCKET_RECV_CHUNK b # chunks (drop SOCKET_RECV_CHUNK b))"
  by pat_completeness auto
termination by (relation "measure length") (auto simp: SOCKET_RECV_CHUNK_def)

declare chunks.simps [simp del]

lemma concat_chunks: "concat (chunks b) = b"
  by (induction b rule: chunks.induct) (subst chunks.simps, auto)

definition rounds_of :: "nat \<Rightarrow> bytes \<Rightarrow> reader_input list" where
  "rounds_of k b = map (\<lambda>d. Round (Data d)) (take k (chunks b))"

text \<open>The last of \<open>k\<close> rounds failed while it processed its data.\<close>

definition failed_round :: "nat \<Rightarrow> bytes \<Rightarrow> reader \<Rightarrow> bool" where
  "failed_round k b r \<longleftrightarrow> (\<exists>j r' e. k = Suc j \<and> reader_run (rounds_of j b) r = Some r' \<and>
     fst (receive_data (chunks b ! j) (r'\<lparr>in_main_loop := True\<rparr>)) = Inl e)"

lemma tls_round_plain:
  assumes "thread_running (plain s)" "b \<noteq> []"
  shows "map_option plain (tls_round (Record b) s) = main_loop_round (Data (take SOCKET_RECV_CHUNK b)) (plain s)"
proof -
  have "main_loop_round Socket_Error r = main_loop_round (Data d) r" if "\<not> transport_up (llrp r)" for r d
    using that by (simp add: main_loop_round_def)
  then show ?thesis using assms by (simp add: tls_round_def Let_def option.map_comp comp_def option.map_ident)
qed

lemma main_loop_down: "\<not> transport_up (llrp r) \<Longrightarrow> thread_running r \<Longrightarrow> main_loop_round i r = Some r' \<Longrightarrow> \<not> thread_running r'"
  by (auto simp: main_loop_round_def end_thread_def)

lemma tls_round_rest:
  assumes "thread_running (plain s)" "b \<noteq> []" "tls_round (Record b) s = Some s'"
  shows "tls_pending s' = drop SOCKET_RECV_CHUNK b \<or> tls_pending s' = [] \<and>
    (\<not> thread_running (plain s') \<or> (\<exists>e. fst (receive_data (take SOCKET_RECV_CHUNK b) ((plain s)\<lparr>in_main_loop := True\<rparr>)) = Inl e))"
proof (cases "transport_up (llrp (plain s))")
  case False
  then show ?thesis using assms main_loop_down [OF False assms(1)] by (auto simp: tls_round_def Let_def)
next
  case True
  then show ?thesis using assms
    by (cases "fst (receive_data (take SOCKET_RECV_CHUNK b) ((plain s)\<lparr>in_main_loop := True\<rparr>))") (auto simp: tls_round_def Let_def)
qed

lemma rounds_of_0 [simp]: "rounds_of 0 b = []"
  by (simp add: rounds_of_def)

lemma rounds_of_Suc:
  "b \<noteq> [] \<Longrightarrow> rounds_of (Suc k) b = Round (Data (take SOCKET_RECV_CHUNK b)) # rounds_of k (drop SOCKET_RECV_CHUNK b)"
  by (simp add: rounds_of_def chunks.simps [of b])

lemma failed_round_Suc:
  assumes "b \<noteq> []" "main_loop_round (Data (take SOCKET_RECV_CHUNK b)) r = Some r'" "failed_round k (drop SOCKET_RECV_CHUNK b) r'"
  shows "failed_round (Suc k) b r"
  using assms by (auto simp: failed_round_def rounds_of_Suc chunks.simps [of b])

definition drained :: "bytes \<Rightarrow> tls_reader \<Rightarrow> tls_reader option \<Rightarrow> nat \<Rightarrow> bool" where
  "drained b s result k \<longleftrightarrow> k \<le> length (chunks b) \<and> map_option plain result = reader_run (rounds_of k b) (plain s) \<and>
     (\<forall>s'. result = Some s' \<longrightarrow> (tls_pending s' = [] \<or> \<not> thread_running (plain s')) \<and>
        (k = length (chunks b) \<or> \<not> thread_running (plain s') \<or> failed_round k b (plain s)))"

lemma tls_drain_drained: "\<exists>k. drained (tls_pending s) s (tls_drain s) k"
proof (induction s rule: tls_drain.induct)
  case (1 s)
  let ?b = "tls_pending s" let ?d = "take SOCKET_RECV_CHUNK ?b"
  show ?case
  proof (cases "?b = [] \<or> \<not> thread_running (plain s)")
    case True
    then have "drained ?b s (tls_drain s) 0"
      by (auto simp: drained_def rounds_of_def tls_drain.simps [of s] chunks.simps [of "[]"])
    then show ?thesis ..
  next
    case False
    then have run: "thread_running (plain s)" and b: "?b \<noteq> []" by auto
    have len: "length (chunks ?b) = Suc (length (chunks (drop SOCKET_RECV_CHUNK ?b)))" using b by (simp add: chunks.simps [of ?b])
    have plain: "map_option plain (tls_round (Record ?b) s) = main_loop_round (Data ?d) (plain s)"
      using tls_round_plain [OF run b] .
    show ?thesis
    proof (cases "tls_round (Record ?b) s")
      case None
      then have "drained ?b s (tls_drain s) (Suc 0)"
        using False plain b len by (simp add: drained_def rounds_of_Suc tls_drain.simps [of s])
      then show ?thesis ..
    next
      case (Some s1)
      then have step: "main_loop_round (Data ?d) (plain s) = Some (plain s1)" using plain by simp
      have drain: "tls_drain s = tls_drain s1" using Some False by (simp add: tls_drain.simps [of s])
      from tls_round_rest [OF run b Some] show ?thesis
      proof (elim disjE conjE)
        assume rest: "tls_pending s1 = drop SOCKET_RECV_CHUNK ?b"
        obtain k where "drained (tls_pending s1) s1 (tls_drain s1) k" using 1 [OF False Some] by blast
        then have "drained ?b s (tls_drain s) (Suc k)"
          using b len step rest failed_round_Suc [OF b step] by (auto simp: drained_def rounds_of_Suc drain)
        then show ?thesis ..
      next
        assume "tls_pending s1 = []" "\<not> thread_running (plain s1)"
        then have "drained ?b s (tls_drain s) (Suc 0)"
          using b len step by (simp add: drained_def rounds_of_Suc drain tls_drain.simps [of s1])
        then show ?thesis ..
      next
        assume "tls_pending s1 = []" "\<exists>e. fst (receive_data ?d ((plain s)\<lparr>in_main_loop := True\<rparr>)) = Inl e"
        then have "drained ?b s (tls_drain s) (Suc 0)"
          using b len step by (auto simp: drained_def rounds_of_Suc drain tls_drain.simps [of s1]
              failed_round_def chunks.simps [of ?b])
        then show ?thesis ..
      qed
    qed
  qed
qed

lemma tls_wake_drain:
  "thread_running (plain s) \<Longrightarrow> b \<noteq> [] \<Longrightarrow> tls_wake (Record b) s = tls_drain (s\<lparr>tls_pending := b\<rparr>)"
  by (subst tls_drain.simps) (auto simp: tls_wake_def tls_round_def Let_def)

text \<open>
  C29. One wake-up of the secure receive loop for a decrypted record of any size is a run of the plain
  receive loop on the record's bytes, in order and in pieces of at most one \<open>recv\<close>; nothing is left
  pending behind a blocking \<open>select\<close>.  It reads the whole record, unless the receive thread ends or
  a piece cannot be processed.
\<close>

theorem tls_record_delivered:
  assumes "thread_running (plain s)" "b \<noteq> []"
  shows "\<exists>k \<le> length (chunks b). map_option plain (tls_wake (Record b) s) = reader_run (rounds_of k b) (plain s) \<and>
    concat (chunks b) = b \<and>
    (\<forall>s'. tls_wake (Record b) s = Some s' \<longrightarrow> (tls_pending s' = [] \<or> \<not> thread_running (plain s')) \<and>
       (k = length (chunks b) \<or> \<not> thread_running (plain s') \<or> failed_round k b (plain s)))"
  using tls_drain_drained [of "s\<lparr>tls_pending := b\<rparr>"] concat_chunks [of b]
  unfolding tls_wake_drain [OF assms] drained_def by auto

text \<open>A client whose socket is open and whose receive thread runs.\<close>

definition new_tls :: tls_reader where
  "new_tls = projr (new_tls_reader (new_client (\<lambda>_. default_config) id id []) ''reader'' None None None default_tls [] [] (\<lambda>_. 0) 100)"

definition example_tls :: tls_reader where
  "example_tls = (let s = snd (secure_connect_socket new_tls) in s\<lparr>plain := (plain s)\<lparr>thread_running := True\<rparr>\<rparr>)"

lemma new_tls_reader_default:
  "new_tls_reader (new_client (\<lambda>_. default_config) id id []) ''reader'' None None None default_tls [] [] (\<lambda>_. 0) 100 = Inr new_tls \<and>
   port (plain new_tls) = 5085 \<and> checks_hostname (ssl_context new_tls)"
  by (simp add: new_tls_def new_tls_reader_def options_supplied_def default_tls_def create_ssl_context_def supplied_def
      new_reader_def build_tag_deduplicator_def current_config_def new_client_def default_config_def LLRP_SECURE_PORT_def Let_def)

theorem tls_record_delivered_witness:
  "\<exists>k \<le> 1. map_option plain (tls_wake (Record [4, 10]) example_tls) = reader_run (rounds_of k [4, 10]) (plain example_tls)"
proof -
  have "thread_running (plain example_tls)" by (simp add: example_tls_def Let_def)
  from tls_record_delivered [OF this, of "[4, 10]"] show ?thesis
    by (auto simp: chunks.simps SOCKET_RECV_CHUNK_def)
qed

end
