(* ===== verification/Url_Parse.thy ===== *)
theory Url_Parse
  imports Util_Functions Reader_Config
begin

text \<open>
  What the management adapters use of \<^verbatim>\<open>urllib.parse\<close> (Python 3.11): \<open>urlparse\<close> with the
  attributes of its result, and \<open>urljoin\<close>.  Text is ASCII, so the check of host names after
  Unicode normalisation never applies.
\<close>

section \<open>Characters\<close>

definition lower :: "string \<Rightarrow> string" where
  "lower s = map lower_char s"

definition upper_char :: "char \<Rightarrow> char" where
  "upper_char c = (let n = of_char c :: nat in if 97 \<le> n \<and> n \<le> 122 then char_of (n - 32) else c)"

definition upper :: "string \<Rightarrow> string" where
  "upper s = map upper_char s"

definition is_alpha :: "char \<Rightarrow> bool" where
  "is_alpha c \<longleftrightarrow> (let n = of_char c :: nat in 65 \<le> n \<and> n \<le> 90 \<or> 97 \<le> n \<and> n \<le> 122)"

definition is_decimal :: "char \<Rightarrow> bool" where
  "is_decimal c \<longleftrightarrow> (let n = of_char c :: nat in 48 \<le> n \<and> n \<le> 57)"

definition is_alnum :: "char \<Rightarrow> bool" where
  "is_alnum c \<longleftrightarrow> is_alpha c \<or> is_decimal c"

text \<open>The same on the bits of a character, for evaluation.\<close>

definition letter_bits :: "bool \<Rightarrow> bool \<Rightarrow> bool \<Rightarrow> bool \<Rightarrow> bool \<Rightarrow> bool \<Rightarrow> bool \<Rightarrow> bool" where
  "letter_bits b0 b1 b2 b3 b4 b6 b7 \<longleftrightarrow> \<not> b7 \<and> b6 \<and> (b0 \<or> b1 \<or> b2 \<or> b3 \<or> b4) \<and> \<not> (b4 \<and> b3 \<and> (b2 \<or> b1 \<and> b0))"

lemma lower_char_code [code]:
  "lower_char (Char b0 b1 b2 b3 b4 b5 b6 b7) = Char b0 b1 b2 b3 b4 (b5 \<or> letter_bits b0 b1 b2 b3 b4 b6 b7) b6 b7"
  by (cases b0; cases b1; cases b2; cases b3; cases b4; cases b5; cases b6; cases b7)
    (simp_all add: lower_char_def letter_bits_def char_of_def bit_0 bit_Suc)

lemma upper_char_code [code]:
  "upper_char (Char b0 b1 b2 b3 b4 b5 b6 b7) = Char b0 b1 b2 b3 b4 (b5 \<and> \<not> letter_bits b0 b1 b2 b3 b4 b6 b7) b6 b7"
  by (cases b0; cases b1; cases b2; cases b3; cases b4; cases b5; cases b6; cases b7)
    (simp_all add: upper_char_def letter_bits_def char_of_def bit_0 bit_Suc)

lemma is_alpha_code [code]: "is_alpha (Char b0 b1 b2 b3 b4 b5 b6 b7) = letter_bits b0 b1 b2 b3 b4 b6 b7"
  by (cases b0; cases b1; cases b2; cases b3; cases b4; cases b5; cases b6; cases b7)
    (simp_all add: is_alpha_def letter_bits_def)

lemma is_decimal_code [code]:
  "is_decimal (Char b0 b1 b2 b3 b4 b5 b6 b7) = (\<not> b7 \<and> \<not> b6 \<and> b5 \<and> b4 \<and> \<not> (b3 \<and> (b2 \<or> b1)))"
  by (cases b0; cases b1; cases b2; cases b3; cases b4; cases b5; cases b6; cases b7)
    (simp_all add: is_decimal_def)

definition is_hex :: "char \<Rightarrow> bool" where
  "is_hex c \<longleftrightarrow> hex_digit (of_char c) \<noteq> None"

definition scheme_char :: "char \<Rightarrow> bool" where
  "scheme_char c \<longleftrightarrow> is_alnum c \<or> c \<in> set ''+-.''"

definition control_or_space :: "char \<Rightarrow> bool" where
  "control_or_space c \<longleftrightarrow> (of_char c :: nat) \<le> 32"

text \<open>Tab, carriage return and line feed are removed from URLs.\<close>

definition unsafe_char :: "char \<Rightarrow> bool" where
  "unsafe_char c \<longleftrightarrow> (of_char c :: nat) \<in> {9, 10, 13}"

text \<open>\<open>s.split(c)\<close> and \<open>c.join(parts)\<close>.\<close>

fun split_on :: "char \<Rightarrow> string \<Rightarrow> string list" where
  "split_on c [] = [[]]"
| "split_on c (x # xs) = (if x = c then [] # split_on c xs
     else (case split_on c xs of [] \<Rightarrow> [[x]] | p # ps \<Rightarrow> (x # p) # ps))"

fun join_with :: "string \<Rightarrow> string list \<Rightarrow> string" where
  "join_with sep [] = []"
| "join_with sep [p] = p"
| "join_with sep (p # ps) = p @ sep @ join_with sep ps"

text \<open>\<open>s.rpartition(c)[2]\<close> and \<open>s.rpartition(c)[0]\<close>; without \<open>c\<close> the first is \<open>s\<close> and the second empty.\<close>

definition after_last :: "char \<Rightarrow> string \<Rightarrow> string" where
  "after_last c s = rev (before c (rev s))"

definition before_last :: "char \<Rightarrow> string \<Rightarrow> string" where
  "before_last c s = rev (after c (rev s))"

section \<open>Addresses in brackets\<close>

text \<open>\<open>ipaddress\<close>: what is accepted as an IPv4 or IPv6 address.\<close>

definition octet_ok :: "string \<Rightarrow> bool" where
  "octet_ok s \<longleftrightarrow> s \<noteq> [] \<and> list_all is_decimal s \<and> length s \<le> 3 \<and> \<not> (1 < length s \<and> hd s = CHR ''0'') \<and>
     (case digit_seq 10 0 (char_codes s) of None \<Rightarrow> False | Some n \<Rightarrow> n \<le> 255)"

definition ipv4_ok :: "string \<Rightarrow> bool" where
  "ipv4_ok s \<longleftrightarrow> length (split_on (CHR ''.'') s) = 4 \<and> list_all octet_ok (split_on (CHR ''.'') s)"

definition hextet_ok :: "string \<Rightarrow> bool" where
  "hextet_ok s \<longleftrightarrow> s \<noteq> [] \<and> list_all is_hex s \<and> length s \<le> 4"

text \<open>The parts between colons; an IPv4 suffix stands for two parts.\<close>

definition ipv6_parts_ok :: "string list \<Rightarrow> bool" where
  "ipv6_parts_ok parts \<longleftrightarrow>
    (let empties = filter (\<lambda>i. parts ! i = []) [1..<length parts - 1] in
     length parts \<le> 9 \<and>
     (case empties of
        [] \<Rightarrow> length parts = 8 \<and> list_all hextet_ok parts
      | [i] \<Rightarrow>
          let hi = take i parts; lo = drop (Suc i) parts;
              hi' = (if hd hi = [] then tl hi else hi); lo' = (if last lo = [] then butlast lo else lo)
          in (hd hi = [] \<longrightarrow> hi' = []) \<and> (last lo = [] \<longrightarrow> lo' = []) \<and>
             length hi' + length lo' < 8 \<and> list_all hextet_ok hi' \<and> list_all hextet_ok lo'
      | _ \<Rightarrow> False))"

definition ipv6_ok :: "string \<Rightarrow> bool" where
  "ipv6_ok s \<longleftrightarrow>
    (let addr = before (CHR ''%'') s; scope = after (CHR ''%'') s; parts = split_on (CHR '':'') addr in
     CHR ''/'' \<notin> set s \<and> (CHR ''%'' \<in> set s \<longrightarrow> scope \<noteq> [] \<and> CHR ''%'' \<notin> set scope) \<and>
     3 \<le> length parts \<and>
     (if CHR ''.'' \<in> set (last parts)
      then ipv4_ok (last parts) \<and> ipv6_parts_ok (butlast parts @ [''0'', ''0''])
      else ipv6_parts_ok parts))"

definition bracketed_host_ok :: "string \<Rightarrow> bool" where
  "bracketed_host_ok h \<longleftrightarrow>
    (if take 1 h = ''v''
     then let version = takeWhile is_hex (tl h); rest = dropWhile is_hex (tl h)
       in version \<noteq> [] \<and> take 1 rest = ''.'' \<and> 2 \<le> length rest
     else ipv6_ok h)"

section \<open>Parsing\<close>

record url_parts =
  scheme :: string
  netloc :: string
  path :: string
  params :: string
  query :: string
  fragment :: string

definition uses_relative :: "string list" where
  "uses_relative = ['''', ''ftp'', ''http'', ''gopher'', ''nntp'', ''imap'', ''wais'', ''file'', ''https'', ''shttp'',
     ''mms'', ''prospero'', ''rtsp'', ''rtsps'', ''rtspu'', ''sftp'', ''svn'', ''svn+ssh'', ''ws'', ''wss'']"

definition uses_netloc :: "string list" where
  "uses_netloc = ['''', ''ftp'', ''http'', ''gopher'', ''nntp'', ''telnet'', ''imap'', ''wais'', ''file'', ''mms'',
     ''https'', ''shttp'', ''snews'', ''prospero'', ''rtsp'', ''rtsps'', ''rtspu'', ''rsync'', ''svn'', ''svn+ssh'',
     ''sftp'', ''nfs'', ''git'', ''git+ssh'', ''ws'', ''wss'']"

definition uses_params :: "string list" where
  "uses_params = ['''', ''ftp'', ''hdl'', ''prospero'', ''http'', ''imap'', ''https'', ''shttp'', ''rtsp'', ''rtsps'',
     ''rtspu'', ''sip'', ''sips'', ''mms'', ''sftp'', ''tel'']"

definition clean_url :: "string \<Rightarrow> string" where
  "clean_url url = filter (\<lambda>c. \<not> unsafe_char c) (dropWhile control_or_space url)"

definition split_scheme :: "string \<Rightarrow> string \<Rightarrow> string \<times> string" where
  "split_scheme inherited url =
    (let p = before (CHR '':'') url in
     if CHR '':'' \<in> set url \<and> p \<noteq> [] \<and> is_alpha (hd p) \<and> list_all scheme_char p
     then (lower p, after (CHR '':'') url) else (inherited, url))"

definition host_char :: "char \<Rightarrow> bool" where
  "host_char c \<longleftrightarrow> c \<notin> set ''/?#''"

definition netloc_ok :: "string \<Rightarrow> bool" where
  "netloc_ok n \<longleftrightarrow> (CHR ''['' \<in> set n \<longleftrightarrow> CHR '']'' \<in> set n) \<and>
     (CHR ''['' \<in> set n \<longrightarrow> bracketed_host_ok (before (CHR '']'') (after (CHR ''['') n)))"

definition split_params :: "string \<Rightarrow> string \<times> string" where
  "split_params url =
    (let dir = (if CHR ''/'' \<in> set url then before_last (CHR ''/'') url @ ''/'' else []);
         segment = after_last (CHR ''/'') url in
     if CHR '';'' \<in> set segment then (dir @ before (CHR '';'') segment, after (CHR '';'') segment) else (url, []))"

text \<open>The host part, and what follows the scheme.\<close>

definition host_part :: "string \<Rightarrow> string" where
  "host_part rest = (if take 2 rest = ''//'' then takeWhile host_char (drop 2 rest) else [])"

definition parse_rest :: "string \<Rightarrow> string \<Rightarrow> url_parts res" where
  "parse_rest sch rest =
    (let host = host_part rest;
         rest = (if take 2 rest = ''//'' then dropWhile host_char (drop 2 rest) else rest);
         frag = after (CHR ''#'') rest; rest = before (CHR ''#'') rest;
         qry = after (CHR ''?'') rest; rest = before (CHR ''?'') rest;
         (pth, par) = (if sch \<in> set uses_params then split_params rest else (rest, []))
     in if \<not> netloc_ok host then Inl ValueError
        else Inr \<lparr>scheme = sch, netloc = host, path = pth, params = par, query = qry, fragment = frag\<rparr>)"

definition urlparse :: "string \<Rightarrow> string \<Rightarrow> url_parts res" where
  "urlparse inherited url =
    (case split_scheme inherited (clean_url url) of (sch, rest) \<Rightarrow> parse_rest sch rest)"

text \<open>The attributes \<open>username\<close>, \<open>password\<close>, \<open>hostname\<close> and \<open>port\<close>.\<close>

definition has_username :: "url_parts \<Rightarrow> bool" where
  "has_username u \<longleftrightarrow> CHR ''@'' \<in> set (netloc u)"

definition has_password :: "url_parts \<Rightarrow> bool" where
  "has_password u \<longleftrightarrow> has_username u \<and> CHR '':'' \<in> set (before_last (CHR ''@'') (netloc u))"

definition host_info :: "url_parts \<Rightarrow> string \<times> string" where
  "host_info u = (let info = after_last (CHR ''@'') (netloc u) in
     if CHR ''['' \<in> set info
     then let bracketed = after (CHR ''['') info in
       (before (CHR '']'') bracketed, after (CHR '':'') (after (CHR '']'') bracketed))
     else (before (CHR '':'') info, after (CHR '':'') info))"

definition hostname :: "url_parts \<Rightarrow> string option" where
  "hostname u = (let h = fst (host_info u) in
     if h = [] then None
     else Some (lower (before (CHR ''%'') h) @ drop (length (before (CHR ''%'') h)) h))"

definition url_port :: "url_parts \<Rightarrow> int option res" where
  "url_port u = (let p = snd (host_info u) in
     if p = [] then Inr None
     else if \<not> list_all is_decimal p then Inl ValueError
     else (case digit_seq 10 0 (char_codes p) of None \<Rightarrow> Inl ValueError
       | Some n \<Rightarrow> if n \<le> 65535 then Inr (Some n) else Inl ValueError))"

section \<open>Joining\<close>

definition urlunparse :: "url_parts \<Rightarrow> string" where
  "urlunparse u =
    (let url = path u;
         url = (if params u \<noteq> [] then url @ '';'' @ params u else url);
         url = (if netloc u \<noteq> [] \<or> scheme u \<noteq> [] \<and> scheme u \<in> set uses_netloc \<or> take 2 url = ''//''
                then ''//'' @ netloc u @ (if url \<noteq> [] \<and> take 1 url \<noteq> ''/'' then ''/'' else []) @ url else url);
         url = (if scheme u \<noteq> [] then scheme u @ '':'' @ url else url);
         url = (if query u \<noteq> [] then url @ ''?'' @ query u else url)
     in if fragment u \<noteq> [] then url @ ''#'' @ fragment u else url)"

text \<open>\<open>..\<close> takes back one segment, if there is one.\<close>

definition resolve_segment :: "string list \<Rightarrow> string \<Rightarrow> string list" where
  "resolve_segment resolved seg = (if seg = ''..'' then butlast resolved else if seg = ''.'' then resolved else resolved @ [seg])"

definition resolve_path :: "string \<Rightarrow> string \<Rightarrow> string" where
  "resolve_path base_path p =
    (let base = split_on (CHR ''/'') base_path;
         base = (if last base \<noteq> [] then butlast base else base);
         segments = (if take 1 p = ''/'' then split_on (CHR ''/'') p
           else let l = base @ split_on (CHR ''/'') p
             in if length l < 2 then l else hd l # filter (\<lambda>s. s \<noteq> []) (butlast (tl l)) @ [last l]);
         resolved = foldl resolve_segment [] segments;
         resolved = (if last segments \<in> {''.'', ''..''} then resolved @ [[]] else resolved);
         joined = join_with ''/'' resolved
     in if joined = [] then ''/'' else joined)"

definition urljoin :: "string \<Rightarrow> string \<Rightarrow> string res" where
  "urljoin base url =
    (if base = [] then Inr url else if url = [] then Inr base
     else bindE (urlparse [] base) (\<lambda>b. bindE (urlparse (scheme b) url) (\<lambda>u.
       if scheme u \<noteq> scheme b \<or> scheme u \<notin> set uses_relative then Inr url
       else if scheme u \<in> set uses_netloc \<and> netloc u \<noteq> [] then Inr (urlunparse u)
       else let host = (if scheme u \<in> set uses_netloc then netloc b else netloc u) in
         if path u = [] \<and> params u = []
         then Inr (urlunparse (u\<lparr>netloc := host, path := path b, params := params b,
           query := (if query u = [] then query b else query u)\<rparr>))
         else Inr (urlunparse (u\<lparr>netloc := host, path := resolve_path (path b) (path u)\<rparr>)))))"

end
