(* ===== verification/Xml_Values.thy ===== *)
theory Xml_Values
  imports Url_Parse
begin

text \<open>
  Documents of the management interfaces, and their conversion from and to Python values, shared by
  \<^verbatim>\<open>sllurp/zebra_management.py\<close> and \<^verbatim>\<open>sllurp/intermec_management.py\<close>.
\<close>

text \<open>An element: its tag, attributes, text and children.\<close>

datatype xml = Element (tag: string) (attrib: "(string \<times> string) list") (xml_text: string) (children: "xml list")

text \<open>\<open>root.iter()\<close>: the element and all below it, in document order.\<close>

fun iter :: "xml \<Rightarrow> xml list" where
  "iter (Element t a x cs) = Element t a x cs # concat (map iter cs)"

section \<open>Values\<close>

text \<open>Values of parameters; floats and byte strings, whose text depends on \<open>repr\<close>, are not modelled.\<close>

datatype setting =
    S_None | S_Bool bool | S_Int int | S_Str string
  | S_List "setting list" | S_Map "(string \<times> setting) list"

type_synonym settings = "(string \<times> setting) list"

definition int_str :: "int \<Rightarrow> string" where
  "int_str i = (if i < 0 then ''-'' else []) @ dec_str (nat \<bar>i\<bar>)"

fun text_value :: "setting \<Rightarrow> string" where
  "text_value (S_Bool b) = (if b then ''true'' else ''false'')"
| "text_value (S_Int i) = int_str i"
| "text_value (S_Str s) = s"
| "text_value _ = []"

text \<open>The elements \<open>append_value\<close> adds for a value; a list adds one for each item.\<close>

fun append_value :: "(string \<Rightarrow> string) \<Rightarrow> string \<Rightarrow> setting \<Rightarrow> xml list" where
  "append_value ns key (S_List vs) = concat (map (append_value ns key) vs)"
| "append_value ns key (S_Map d) = [Element (ns key) [] [] (concat (map (\<lambda>(k, v). append_value ns k v) d))]"
| "append_value ns key v = [Element (ns key) [] (text_value v) []]"

definition append_settings :: "(string \<Rightarrow> string) \<Rightarrow> settings \<Rightarrow> xml list" where
  "append_settings ns d = concat (map (\<lambda>(k, v). append_value ns k v) d)"

datatype xml_value = X_Text string | X_Map "(string \<times> xml_value) list" | X_List "xml_value list"

definition str_strip :: "string \<Rightarrow> string" where
  "str_strip s = rev (dropWhile str_space (rev (dropWhile str_space s)))"

text \<open>Repeated children become a list; a child's own value is never one.\<close>

definition add_child :: "string \<Rightarrow> xml_value \<Rightarrow> (string \<times> xml_value) list \<Rightarrow> (string \<times> xml_value) list" where
  "add_child key v d = (case dict_get d key of
     None \<Rightarrow> dict_set d key v
   | Some (X_List l) \<Rightarrow> dict_set d key (X_List (l @ [v]))
   | Some current \<Rightarrow> dict_set d key (X_List [current, v]))"

fun element_value :: "(string \<Rightarrow> string) \<Rightarrow> xml \<Rightarrow> xml_value" where
  "element_value name (Element t a x cs) = (if cs = [] then X_Text (str_strip x)
     else X_Map (fold (\<lambda>c d. add_child (name (tag c)) (element_value name c) d) cs []))"

section \<open>Reading back what was written\<close>

text \<open>The value a reader of the document gets for a setting.\<close>

fun read_back :: "setting \<Rightarrow> xml_value" where
  "read_back (S_Map d) = X_Map (map (\<lambda>(k, v). (k, read_back v)) d)"
| "read_back (S_List [v]) = read_back v"
| "read_back (S_List vs) = X_List (map read_back vs)"
| "read_back v = X_Text (str_strip (text_value v))"

text \<open>Keys are proper names and distinct, dictionaries and lists are not empty, and lists hold no lists.\<close>

definition is_list :: "setting \<Rightarrow> bool" where
  "is_list v \<longleftrightarrow> (case v of S_List _ \<Rightarrow> True | _ \<Rightarrow> False)"

fun writable :: "(string \<Rightarrow> bool) \<Rightarrow> setting \<Rightarrow> bool" where
  "writable ok (S_Map d) \<longleftrightarrow> d \<noteq> [] \<and> distinct (map fst d) \<and> list_all (\<lambda>(k, v). ok k \<and> writable ok v) d"
| "writable ok (S_List vs) \<longleftrightarrow> vs \<noteq> [] \<and> list_all (\<lambda>v. writable ok v \<and> \<not> is_list v) vs"
| "writable ok _ \<longleftrightarrow> True"

locale xml_names =
  fixes ns :: "string \<Rightarrow> string" and local_name :: "string \<Rightarrow> string" and ok :: "string \<Rightarrow> bool"
  assumes local_ns: "ok k \<Longrightarrow> local_name (ns k) = k"
begin

abbreviation collect :: "xml \<Rightarrow> (string \<times> xml_value) list \<Rightarrow> (string \<times> xml_value) list" where
  "collect c d \<equiv> add_child (local_name (tag c)) (element_value local_name c) d"

definition collected :: "setting \<Rightarrow> bool" where
  "collected v \<longleftrightarrow> (\<forall>k d. ok k \<longrightarrow> k \<notin> fst ` set d \<longrightarrow> writable ok v \<longrightarrow>
     fold collect (append_value ns k v) d = d @ [(k, read_back v)] \<and>
     (\<not> is_list v \<longrightarrow> (\<exists>e. append_value ns k v = [e] \<and> local_name (tag e) = k \<and> element_value local_name e = read_back v)))"

lemma collected_single:
  assumes "collected v" "ok k" "writable ok v" "\<not> is_list v"
  obtains e where "append_value ns k v = [e]" "local_name (tag e) = k" "element_value local_name e = read_back v"
  using assms unfolding collected_def by (elim allE [of _ k] allE [of _ "[]"]) auto

lemma read_back_no_list: "\<not> is_list v \<Longrightarrow> read_back v \<noteq> X_List l"
  by (cases v) (auto simp: is_list_def)

lemma collectedI:
  assumes "\<And>k. ok k \<Longrightarrow> writable ok v \<Longrightarrow>
    \<exists>e. append_value ns k v = [e] \<and> local_name (tag e) = k \<and> element_value local_name e = read_back v"
  shows "collected v"
  unfolding collected_def
proof (intro allI impI conjI)
  fix k and d :: "(string \<times> xml_value) list" assume k: "ok k" "k \<notin> fst ` set d" "writable ok v"
  show ex: "\<exists>e. append_value ns k v = [e] \<and> local_name (tag e) = k \<and> element_value local_name e = read_back v"
    using assms k by blast
  moreover have "map_of d k = None" using k(2) by (simp add: map_of_eq_None_iff)
  ultimately show "fold collect (append_value ns k v) d = d @ [(k, read_back v)]"
    using k(2) by (auto simp: add_child_def dict_set_new)
qed

lemma fold_entries:
  "\<forall>(k, v) \<in> set d. collected v \<and> ok k \<and> writable ok v \<Longrightarrow> distinct (map fst d) \<Longrightarrow> fst ` set acc \<inter> fst ` set d = {} \<Longrightarrow>
     fold collect (append_settings ns d) acc = acc @ map (\<lambda>(k, v). (k, read_back v)) d"
proof (induction d arbitrary: acc)
  case (Cons p d)
  obtain k v where p: "p = (k, v)" by fastforce
  have "fold collect (append_value ns k v) acc = acc @ [(k, read_back v)]"
    using Cons.prems unfolding p collected_def by auto
  moreover have "fold collect (append_settings ns d) (acc @ [(k, read_back v)]) =
      (acc @ [(k, read_back v)]) @ map (\<lambda>(k, v). (k, read_back v)) d"
    using Cons.prems unfolding p by (intro Cons.IH) auto
  ultimately show ?case by (simp add: append_settings_def p)
qed (simp add: append_settings_def)

lemma dict_set_last: "k \<notin> fst ` set d \<Longrightarrow> dict_set (d @ [(k, x)]) k y = d @ [(k, y)]"
  by (simp add: dict_set_append_new)

lemma dict_get_last: "k \<notin> fst ` set d \<Longrightarrow> dict_get (d @ [(k, x)]) k = Some x"
  by (simp add: map_add_def map_of_eq_None_iff [THEN iffD2])

text \<open>The items of a list after the first two.\<close>

lemma fold_items:
  "\<forall>v \<in> set vs. collected v \<and> writable ok v \<and> \<not> is_list v \<Longrightarrow> ok k \<Longrightarrow> k \<notin> fst ` set d \<Longrightarrow>
     fold collect (concat (map (append_value ns k) vs)) (d @ [(k, X_List l)]) = d @ [(k, X_List (l @ map read_back vs))]"
proof (induction vs arbitrary: l)
  case (Cons v vs)
  then obtain e where e: "append_value ns k v = [e]" "local_name (tag e) = k" "element_value local_name e = read_back v"
    by (auto elim: collected_single [of v k])
  have "map_of (d @ [(k, X_List l)]) k = Some (X_List l)" using Cons.prems(3) by (rule dict_get_last)
  then have "collect e (d @ [(k, X_List l)]) = d @ [(k, X_List (l @ [read_back v]))]"
    using e Cons.prems(3) by (simp add: add_child_def dict_set_last)
  then show ?case using Cons.IH [of "l @ [read_back v]"] Cons.prems e by simp
qed simp

lemma collected_list:
  assumes "\<forall>v \<in> set vs. collected v"
  shows "collected (S_List vs)"
  unfolding collected_def
proof (intro allI impI conjI)
  fix k and d :: "(string \<times> xml_value) list" assume k: "ok k" "k \<notin> fst ` set d" and "writable ok (S_List vs)"
  then have vs: "vs \<noteq> []" "\<forall>v \<in> set vs. collected v \<and> writable ok v \<and> \<not> is_list v" using assms by (auto simp: list_all_iff)
  then obtain v ws where v: "vs = v # ws" by (cases vs) auto
  then have first: "fold collect (append_value ns k v) d = d @ [(k, read_back v)]" using vs(2) k by (auto simp: collected_def)
  show "fold collect (append_value ns k (S_List vs)) d = d @ [(k, read_back (S_List vs))]"
  proof (cases ws)
    case Nil
    then show ?thesis using first v by simp
  next
    case (Cons w us)
    then obtain e where e: "append_value ns k w = [e]" "local_name (tag e) = k" "element_value local_name e = read_back w"
      using vs(2) v k(1) by (auto elim: collected_single [of w k])
    have "map_of (d @ [(k, read_back v)]) k = Some (read_back v)" using k(2) by (rule dict_get_last)
    moreover have "\<And>l. read_back v \<noteq> X_List l" using vs(2) v read_back_no_list by simp
    ultimately have "collect e (d @ [(k, read_back v)]) = d @ [(k, X_List [read_back v, read_back w])]"
      using e k(2) by (simp add: add_child_def dict_set_last split: xml_value.split)
    then show ?thesis using fold_items [of us k d "[read_back v, read_back w]"] vs(2) v Cons e first k by simp
  qed
qed (simp add: is_list_def)

lemma collected_all: "collected v"
proof (induction v rule: read_back.induct [where P = collected])
  case (1 d)
  show ?case
  proof (rule collectedI)
    fix k assume k: "ok k" "writable ok (S_Map d)"
    then have "fold collect (append_settings ns d) [] = map (\<lambda>(k, v). (k, read_back v)) d"
      using fold_entries [of d "[]"] 1 by (force simp: list_all_iff)
    moreover have "append_settings ns d \<noteq> []" using calculation k(2) by auto
    ultimately show "\<exists>e. append_value ns k (S_Map d) = [e] \<and> local_name (tag e) = k \<and>
        element_value local_name e = read_back (S_Map d)"
      using k local_ns by (simp add: append_settings_def)
  qed
qed (auto intro!: collected_list, (rule collectedI; use local_ns in simp)+)

theorem settings_read_back:
  assumes "d \<noteq> []" "distinct (map fst d)" "list_all (\<lambda>(k, v). ok k \<and> writable ok v) d"
  shows "element_value local_name (Element t a x (append_settings ns d)) = X_Map (map (\<lambda>(k, v). (k, read_back v)) d)"
proof -
  have "fold collect (append_settings ns d) [] = map (\<lambda>(k, v). (k, read_back v)) d"
    using fold_entries [of d "[]"] assms collected_all by (force simp: list_all_iff)
  moreover have "append_settings ns d \<noteq> []" using calculation assms(1) by auto
  ultimately show ?thesis by simp
qed

end

end
