(* ===== verification/Reader_Management.thy ===== *)
theory Reader_Management
  imports Xml_Values Exception_State
begin

text \<open>
  The management transport \<^verbatim>\<open>HTTPReaderManager\<close> of \<^verbatim>\<open>sllurp/reader_management.py\<close>: its
  checks, URLs, headers and requests.  What the network answers is a script of outcomes, with the
  decoded forms of each body (JSON by \<^verbatim>\<open>json\<close>, XML by \<^verbatim>\<open>defusedxml\<close>); TLS contexts and
  the timeout of the socket are not modelled.
\<close>

section \<open>Requests and responses\<close>

datatype payload = Json_Payload pyval | Xml_Payload xml | Data_Payload bytes

record http_request =
  req_method :: string
  req_url :: string
  req_headers :: "(string \<times> string) list"
  req_body :: "payload option"

record http_response =
  http_status :: int
  http_headers :: "(string \<times> string) list"
  body :: bytes
  decoded_text :: string
  decoded_json :: "pyval res"
  decoded_xml :: "xml option"

text \<open>\<open>Redirect\<close> is a redirect \<^verbatim>\<open>urllib\<close> offers to \<open>redirect_request\<close>; the next outcome follows it.\<close>

datatype http_outcome = Answer http_response | Http_Error int | Transport_Error | Redirect string

type_synonym origin = "string \<times> string \<times> int"

record http_manager =
  base_url :: string
  username :: "string option"
  password :: "string option"
  bearer_token :: "string option"
  default_headers :: "(string \<times> string) list"
  base_origin :: origin
  outcomes :: "http_outcome list"
  sent :: "http_request list"
  redirects :: "string list"

type_synonym 'a managing = "(http_manager, 'a) act"

section \<open>Origins\<close>

definition http_scheme :: "string \<Rightarrow> bool" where
  "http_scheme s \<longleftrightarrow> s \<in> {''http'', ''https''}"

definition url_origin :: "url_parts \<Rightarrow> origin res" where
  "url_origin u = (case hostname u of
     None \<Rightarrow> Inl ValueError
   | Some h \<Rightarrow> bindE (url_port u) (\<lambda>p.
       let port = (case p of Some n \<Rightarrow> n | None \<Rightarrow> if scheme u = ''https'' then 443 else 80)
       in Inr (lower (scheme u), lower h, port)))"

definition redirect_request :: "origin \<Rightarrow> string \<Rightarrow> unit res" where
  "redirect_request allowed_origin newurl = bindE (urlparse [] newurl) (\<lambda>u.
     if \<not> http_scheme (scheme u) \<or> netloc u = [] then Inl ReaderManagementError
     else bindE (url_origin u) (\<lambda>org. raise_if (org \<noteq> allowed_origin) ReaderManagementError))"

section \<open>The constructor\<close>

definition given :: "string option \<Rightarrow> bool" where
  "given s \<longleftrightarrow> (case s of None \<Rightarrow> False | Some t \<Rightarrow> t \<noteq> [])"

definition strip_slashes :: "string \<Rightarrow> string" where
  "strip_slashes s = dropWhile (\<lambda>c. c = CHR ''/'') s"

definition rstrip_slashes :: "string \<Rightarrow> string" where
  "rstrip_slashes s = rev (strip_slashes (rev s))"

text \<open>An integer or a finite float, not a boolean, greater than zero; floats of the model are finite.\<close>

definition timeout_ok :: "pyval \<Rightarrow> bool" where
  "timeout_ok v \<longleftrightarrow> (case v of PInt i \<Rightarrow> 0 < i | PFloat r \<Rightarrow> 0 < r | _ \<Rightarrow> False)"

record http_args =
  arg_username :: "string option"
  arg_password :: "string option"
  arg_bearer_token :: "string option"
  arg_headers :: "(string \<times> string) list"
  arg_timeout :: pyval
  arg_cert_file :: "string option"
  arg_key_file :: "string option"

definition no_args :: http_args where
  "no_args = \<lparr>arg_username = None, arg_password = None, arg_bearer_token = None, arg_headers = [],
     arg_timeout = PFloat 5, arg_cert_file = None, arg_key_file = None\<rparr>"

definition new_http_manager :: "string \<Rightarrow> http_args \<Rightarrow> http_outcome list \<Rightarrow> http_manager res" where
  "new_http_manager url a script =
    bindE (urlparse [] url) (\<lambda>parsed.
    bindE (raise_if (\<not> http_scheme (scheme parsed) \<or> netloc parsed = []) ValueError) (\<lambda>_.
    bindE (raise_if (has_username parsed \<or> has_password parsed) ValueError) (\<lambda>_.
    bindE (raise_if (given (arg_bearer_token a) \<and> (arg_username a \<noteq> None \<or> arg_password a \<noteq> None)) ValueError) (\<lambda>_.
    bindE (raise_if ((arg_username a = None) \<noteq> (arg_password a = None)) ValueError) (\<lambda>_.
    bindE (raise_if (\<not> timeout_ok (arg_timeout a)) ValueError) (\<lambda>_.
    bindE (raise_if (given (arg_key_file a) \<and> \<not> given (arg_cert_file a)) ValueError) (\<lambda>_.
    bindE (url_origin parsed) (\<lambda>org.
    Inr \<lparr>base_url = rstrip_slashes url @ ''/'', username = arg_username a, password = arg_password a,
         bearer_token = arg_bearer_token a, default_headers = arg_headers a, base_origin = org,
         outcomes = script, sent = [], redirects = []\<rparr>))))))))"

section \<open>Sending requests\<close>

definition request_url :: "http_manager \<Rightarrow> string \<Rightarrow> string res" where
  "request_url m p = bindE (urlparse [] p) (\<lambda>parsed.
     if scheme parsed \<noteq> [] \<or> netloc parsed \<noteq> [] then
       bindE (raise_if (\<not> http_scheme (scheme parsed) \<or> netloc parsed = []) ValueError) (\<lambda>_.
       bindE (raise_if (has_username parsed \<or> has_password parsed) ValueError) (\<lambda>_.
       bindE (url_origin parsed) (\<lambda>org.
       bindE (raise_if (org \<noteq> base_origin m) ValueError) (\<lambda>_. Inr p))))
     else urljoin (base_url m) (strip_slashes p))"

text \<open>\<open>base64.b64encode\<close>.\<close>

definition base64_char :: "nat \<Rightarrow> char" where
  "base64_char n = ''ABCDEFGHIJKLMNOPQRSTUVWXYZabcdefghijklmnopqrstuvwxyz0123456789+/'' ! n"

fun b64encode :: "nat list \<Rightarrow> string" where
  "b64encode [] = []"
| "b64encode [a] = [base64_char (a div 4), base64_char (a mod 4 * 16), CHR ''='', CHR ''='']"
| "b64encode [a, b] = [base64_char (a div 4), base64_char (a mod 4 * 16 + b div 16), base64_char (b mod 16 * 4), CHR ''='']"
| "b64encode (a # b # c # rest) =
     [base64_char (a div 4), base64_char (a mod 4 * 16 + b div 16), base64_char (b mod 16 * 4 + c div 64), base64_char (c mod 64)]
     @ b64encode rest"

definition set_default :: "(string \<times> string) list \<Rightarrow> string \<Rightarrow> string \<Rightarrow> (string \<times> string) list" where
  "set_default d k v = (if dict_get d k = None then dict_set d k v else d)"

definition headers_for :: "http_manager \<Rightarrow> (string \<times> string) list \<Rightarrow> (string \<times> string) list" where
  "headers_for m extra =
    (let hs = dict_update (default_headers m) extra in
     if given (bearer_token m) then set_default hs ''Authorization'' (''Bearer '' @ the (bearer_token m))
     else case username m of
       None \<Rightarrow> hs
     | Some u \<Rightarrow> set_default hs ''Authorization''
         (''Basic '' @ b64encode (char_codes (u @ '':'' @ (case password m of None \<Rightarrow> ''None'' | Some p \<Rightarrow> p)))))"

definition json_headers :: "(string \<times> string) list \<Rightarrow> (string \<times> string) list" where
  "json_headers hs = set_default (set_default hs ''Content-Type'' ''application/json'') ''Accept'' ''application/json''"

text \<open>\<open>self._opener.open\<close>; without further outcomes the request fails.\<close>

function open_request :: "http_response managing" where
  "open_request m = (case outcomes m of
     [] \<Rightarrow> (Inl ReaderManagementError, m)
   | Answer r # rest \<Rightarrow> (Inr r, m\<lparr>outcomes := rest\<rparr>)
   | Http_Error s # rest \<Rightarrow> (Inl ReaderManagementError, m\<lparr>outcomes := rest\<rparr>)
   | Transport_Error # rest \<Rightarrow> (Inl ReaderManagementError, m\<lparr>outcomes := rest\<rparr>)
   | Redirect u # rest \<Rightarrow> (case redirect_request (base_origin m) u of
       Inl e \<Rightarrow> (Inl e, m\<lparr>outcomes := rest\<rparr>)
     | Inr _ \<Rightarrow> open_request (m\<lparr>outcomes := rest, redirects := redirects m @ [u]\<rparr>)))"
  by pat_completeness auto
termination by (relation "measure (\<lambda>m. length (outcomes m))") auto

declare open_request.simps [simp del]

definition request :: "string \<Rightarrow> string \<Rightarrow> pyval option \<Rightarrow> payload option \<Rightarrow> (string \<times> string) list \<Rightarrow> http_response managing" where
  "request method p json_body data extra = readA (\<lambda>m.
    if json_body \<noteq> None \<and> data \<noteq> None then throwA ValueError
    else let hs = headers_for m extra;
             hs = (if json_body \<noteq> None then json_headers hs else hs);
             content = (case json_body of Some v \<Rightarrow> Some (Json_Payload v) | None \<Rightarrow> data)
      in bindA (liftA (request_url m p)) (\<lambda>u.
        thenA (modifyA (\<lambda>m. m\<lparr>sent := sent m @
          [\<lparr>req_method = upper method, req_url = u, req_headers = hs, req_body = content\<rparr>]\<rparr>))
        open_request))"

definition response_json :: "http_response \<Rightarrow> pyval res" where
  "response_json r = (if body r = [] then Inr PNone else decoded_json r)"

definition get_settings :: "string \<Rightarrow> pyval managing" where
  "get_settings p = bindA (request ''GET'' p None None []) (\<lambda>r. liftA (response_json r))"

definition update_settings :: "string \<Rightarrow> pydict \<Rightarrow> string \<Rightarrow> pyval managing" where
  "update_settings p settings method =
    (let method = upper method in
     if method \<notin> {''PATCH'', ''PUT'', ''POST''} then throwA ValueError
     else bindA (request method p (Some (PDict settings)) None []) (\<lambda>r.
       if body r = [] then retA PNone else liftA (response_json r)))"

definition replace_settings :: "string \<Rightarrow> pydict \<Rightarrow> pyval managing" where
  "replace_settings p settings = update_settings p settings ''PUT''"

section \<open>Decoding responses by their content\<close>

text \<open>\<open>text.split(sep, 1)[-1]\<close> if \<open>sep\<close> occurs.\<close>

fun after_text :: "string \<Rightarrow> string \<Rightarrow> string option" where
  "after_text sep s = (if take (length sep) s = sep then Some (drop (length sep) s)
     else case s of [] \<Rightarrow> None | _ # cs \<Rightarrow> after_text sep cs)"

declare after_text.simps [simp del]

text \<open>\<open>body.lstrip().startswith((b"{", b"["))\<close>\<close>

definition looks_like_json :: "bytes \<Rightarrow> bool" where
  "looks_like_json b = (case dropWhile (\<lambda>c. c = 32 \<or> 9 \<le> c \<and> c \<le> 13) b of [] \<Rightarrow> False | c # _ \<Rightarrow> c = 123 \<or> c = 91)"

definition decode_response :: "http_response \<Rightarrow> pyval res" where
  "decode_response response =
    (if body response = [] then Inr PNone
     else if after_text ''json'' (lower (case dict_get (http_headers response) ''Content-Type'' of Some t \<Rightarrow> t | None \<Rightarrow> [])) \<noteq> None
       \<or> looks_like_json (body response)
     then response_json response else Inr (PStr (decoded_text response)))"

end
