(* ===== verification/Management_Origin.thy ===== *)
theory Management_Origin
  imports Reader_Management
begin

text \<open>
  Where the requests of the management transport go: to the origin of the base URL, unless the
  path hides an absolute URL behind a leading slash.
\<close>

section \<open>What parsing depends on\<close>

lemma before_append: "c \<in> set a \<Longrightarrow> before c (a @ b) = before c a" "c \<in> set a \<Longrightarrow> after c (a @ b) = after c a @ b"
proof -
  assume c: "c \<in> set a"
  then show b: "before c (a @ b) = before c a" by (auto simp: before_def)
  have "length (takeWhile (\<lambda>x. x \<noteq> c) a) < length a"
    using c by (metis (mono_tags, lifting) length_takeWhile_le le_neq_implies_less takeWhile_eq_all_conv takeWhile_takeWhile
        takeWhile_eq_take take_all_iff order_refl)
  then show "after c (a @ b) = after c a @ b" unfolding after_def b by (simp add: before_def)
qed

lemma before_split: "c \<in> set s \<Longrightarrow> s = before c s @ c # after c s"
proof -
  assume "c \<in> set s"
  then obtain ys zs where s: "s = ys @ c # zs" "c \<notin> set ys" by (blast dest: split_list_first)
  show ?thesis unfolding s(1) before_after [OF s(2)] ..
qed

lemma parse_rest_cases:
  obtains "netloc_ok (host_part rest)" "\<exists>u. parse_rest s rest = Inr u \<and> scheme u = s \<and> netloc u = host_part rest"
  | "\<not> netloc_ok (host_part rest)" "parse_rest s rest = Inl ValueError"
  by (cases "netloc_ok (host_part rest)") (auto simp: parse_rest_def Let_def split: prod.split)

lemma parse_rest_Inr:
  "parse_rest s rest = Inr u \<Longrightarrow> scheme u = s \<and> netloc u = host_part rest \<and> netloc_ok (host_part rest)"
  by (cases s rest rule: parse_rest_cases) auto

lemma urlparse_Inr:
  "urlparse d url = Inr u \<Longrightarrow> \<exists>rest. split_scheme d (clean_url url) = (scheme u, rest) \<and>
     netloc u = host_part rest \<and> netloc_ok (host_part rest)"
  by (cases "split_scheme d (clean_url url)") (auto simp: urlparse_def dest: parse_rest_Inr)

lemma urlparse_split:
  "split_scheme d (clean_url url) = (s, rest) \<Longrightarrow> netloc_ok (host_part rest) \<Longrightarrow>
     \<exists>u. urlparse d url = Inr u \<and> scheme u = s \<and> netloc u = host_part rest"
  by (cases s rest rule: parse_rest_cases) (auto simp: urlparse_def)

lemma split_scheme_cases:
  obtains (found) s rest where "\<And>d. split_scheme d url = (s, rest)" "s \<noteq> []" "url = before (CHR '':'') url @ CHR '':'' # rest"
    "s = lower (before (CHR '':'') url)" "is_alpha (hd (before (CHR '':'') url))" "list_all scheme_char (before (CHR '':'') url)"
  | (none) "\<And>d. split_scheme d url = (d, url)"
proof (cases "CHR '':'' \<in> set url \<and> before (CHR '':'') url \<noteq> [] \<and> is_alpha (hd (before (CHR '':'') url)) \<and>
    list_all scheme_char (before (CHR '':'') url)")
  case True
  then have "\<And>d. split_scheme d url = (lower (before (CHR '':'') url), after (CHR '':'') url)" by (simp add: split_scheme_def Let_def)
  moreover have "lower (before (CHR '':'') url) \<noteq> []" using True by (simp add: lower_def)
  ultimately show ?thesis using found before_split True by blast
next
  case False
  then have "split_scheme d url = (d, url)" for d unfolding split_scheme_def Let_def by (simp only: if_False)
  then show ?thesis by (rule none)
qed

lemma netloc_facts:
  assumes "urlparse d url = Inr u"
  shows "list_all host_char (netloc u)" "list_all (\<lambda>c. \<not> unsafe_char c) (netloc u)" "netloc_ok (netloc u)"
proof -
  obtain rest where s: "split_scheme d (clean_url url) = (scheme u, rest)" "netloc u = host_part rest" "netloc_ok (host_part rest)"
    using urlparse_Inr [OF assms] by blast
  have "set rest \<subseteq> set (clean_url url)"
    using s(1) by (auto simp: split_scheme_def after_def Let_def split: if_splits dest: in_set_dropD)
  moreover have "list_all (\<lambda>c. \<not> unsafe_char c) (clean_url url)" by (simp add: clean_url_def list_all_iff)
  ultimately show "list_all (\<lambda>c. \<not> unsafe_char c) (netloc u)" "list_all host_char (netloc u)"
    unfolding s(2) by (auto simp: host_part_def list_all_iff dest!: set_takeWhileD in_set_dropD)
  show "netloc_ok (netloc u)" using s by simp
qed

text \<open>The scheme and the host part, from the text after cleaning.\<close>

lemma host_part_authority:
  assumes "list_all host_char n" "rest = [] \<or> \<not> host_char (hd rest)"
  shows "host_part (''//'' @ n @ rest) = n"
  using assms by (cases rest) (auto simp: host_part_def list_all_iff takeWhile_append)

lemma urlparse_authority:
  assumes "clean_url url = p @ ''://'' @ n @ rest" "p \<noteq> []" "is_alpha (hd p)" "list_all scheme_char p"
    and "list_all host_char n" "netloc_ok n" "rest = [] \<or> \<not> host_char (hd rest)"
  shows "\<exists>u. urlparse d url = Inr u \<and> scheme u = lower p \<and> netloc u = n"
proof -
  have "\<not> scheme_char (CHR '':'')" by (simp add: scheme_char_def is_alnum_def is_alpha_def is_decimal_def)
  then have colon: "CHR '':'' \<notin> set p" using assms(4) by (auto simp: list_all_iff)
  have split: "split_scheme d (clean_url url) = (lower p, ''//'' @ n @ rest)"
    using before_after [OF colon, of "''//'' @ n @ rest"] assms(2-4) by (simp add: split_scheme_def assms(1) Let_def)
  from urlparse_split [OF this] host_part_authority [OF assms(5,7)] assms(6) show ?thesis by simp
qed

lemma http_scheme_text:
  "http_scheme s \<Longrightarrow> s \<noteq> []" "http_scheme s \<Longrightarrow> is_alpha (hd s)" "http_scheme s \<Longrightarrow> list_all scheme_char s"
  "http_scheme s \<Longrightarrow> lower s = s"
  by (auto simp: http_scheme_def is_alpha_def scheme_char_def is_alnum_def lower_def lower_char_def Let_def)

lemma unparse_authority:
  assumes "http_scheme (scheme u)" "netloc u \<noteq> []"
  shows "\<exists>rest. urlunparse u = scheme u @ ''://'' @ netloc u @ rest \<and> (rest = [] \<or> \<not> host_char (hd rest))"
proof -
  let ?p = "if params u \<noteq> [] then path u @ '';'' @ params u else path u"
  let ?q = "(if ?p \<noteq> [] \<and> take 1 ?p \<noteq> ''/'' then ''/'' else []) @ ?p"
  let ?rest = "?q @ (if query u \<noteq> [] then ''?'' @ query u else []) @ (if fragment u \<noteq> [] then ''#'' @ fragment u else [])"
  have "?q = [] \<or> hd ?q = CHR ''/''" by (cases ?p) auto
  then have "?rest = [] \<or> \<not> host_char (hd ?rest)"
    by (cases ?q) (auto simp: host_char_def)
  moreover have "scheme u \<noteq> []" using assms(1) by (auto simp: http_scheme_def)
  then have "urlunparse u = scheme u @ ''://'' @ netloc u @ ?rest"
    using assms(2) by (simp add: urlunparse_def Let_def)
  ultimately show ?thesis by blast
qed

lemma clean_authority:
  assumes "http_scheme s" "list_all (\<lambda>c. \<not> unsafe_char c) n" "rest = [] \<or> \<not> host_char (hd rest)"
  shows "\<exists>rest'. clean_url (s @ ''://'' @ n @ rest) = s @ ''://'' @ n @ rest' \<and> (rest' = [] \<or> \<not> host_char (hd rest'))"
proof -
  have s: "dropWhile control_or_space (s @ x) = s @ x" "filter (\<lambda>c. \<not> unsafe_char c) s = s" for x
    using assms(1) by (auto simp: http_scheme_def control_or_space_def unsafe_char_def)
  have n: "filter (\<lambda>c. \<not> unsafe_char c) n = n" using assms(2) by (simp add: list_all_iff)
  have "\<not> unsafe_char (CHR '':'')" "\<not> unsafe_char (CHR ''/'')" by (simp_all add: unsafe_char_def)
  then have "clean_url (s @ ''://'' @ n @ rest) = s @ ''://'' @ n @ filter (\<lambda>c. \<not> unsafe_char c) rest"
    using s n by (simp add: clean_url_def)
  moreover have "filter (\<lambda>c. \<not> unsafe_char c) rest = [] \<or> \<not> host_char (hd (filter (\<lambda>c. \<not> unsafe_char c) rest))"
    using assms(3) by (cases rest) (auto simp: host_char_def unsafe_char_def)
  ultimately show ?thesis by blast
qed

lemma parse_unparse:
  assumes "http_scheme (scheme u)" "netloc u \<noteq> []" "list_all host_char (netloc u)" "netloc_ok (netloc u)"
    "list_all (\<lambda>c. \<not> unsafe_char c) (netloc u)"
  shows "\<exists>v. urlparse d (urlunparse u) = Inr v \<and> scheme v = scheme u \<and> netloc v = netloc u"
proof -
  obtain rest where r: "urlunparse u = scheme u @ ''://'' @ netloc u @ rest" "rest = [] \<or> \<not> host_char (hd rest)"
    using unparse_authority [OF assms(1,2)] by blast
  obtain rest' where c: "clean_url (urlunparse u) = scheme u @ ''://'' @ netloc u @ rest'" "rest' = [] \<or> \<not> host_char (hd rest')"
    using clean_authority [OF assms(1,5) r(2)] unfolding r(1) by blast
  show ?thesis
    using urlparse_authority [OF c(1) http_scheme_text(1-3) [OF assms(1)] assms(3,4) c(2)] http_scheme_text(4) [OF assms(1)]
    by simp
qed

text \<open>The origin is a function of the scheme and the host part.\<close>

lemma url_origin_cong: "scheme u = scheme v \<Longrightarrow> netloc u = netloc v \<Longrightarrow> url_origin u = url_origin v"
proof -
  assume eq: "scheme u = scheme v" "netloc u = netloc v"
  then have "host_info u = host_info v" by (simp add: host_info_def)
  then have "hostname u = hostname v" "url_port u = url_port v" by (simp_all add: hostname_def url_port_def)
  with eq show "url_origin u = url_origin v" by (simp only: url_origin_def)
qed

section \<open>The base URL\<close>

lemma rstrip_decompose: "\<exists>k. url = rstrip_slashes url @ replicate k (CHR ''/'')"
proof -
  have "rev url = takeWhile (\<lambda>c. c = CHR ''/'') (rev url) @ strip_slashes (rev url)"
    by (simp add: strip_slashes_def)
  moreover have "takeWhile (\<lambda>c. c = CHR ''/'') (rev url) = replicate (length (takeWhile (\<lambda>c. c = CHR ''/'') (rev url))) (CHR ''/'')"
    by (rule replicate_eqI) (auto dest: set_takeWhileD)
  ultimately have "url = rstrip_slashes url @ replicate (length (takeWhile (\<lambda>c. c = CHR ''/'') (rev url))) (CHR ''/'')"
    unfolding rstrip_slashes_def by (metis rev_append rev_replicate rev_rev_ident)
  then show ?thesis by blast
qed

lemma absolute_shape:
  assumes "urlparse [] url = Inr u" "http_scheme (scheme u)" "netloc u \<noteq> []"
  shows "\<exists>p rest. clean_url url = p @ ''://'' @ netloc u @ rest \<and> lower p = scheme u \<and> (rest = [] \<or> \<not> host_char (hd rest)) \<and>
    is_alpha (hd p) \<and> p \<noteq> [] \<and> list_all scheme_char p"
proof (cases "clean_url url" rule: split_scheme_cases)
  case (found s rest)
  obtain rest' where r: "split_scheme [] (clean_url url) = (scheme u, rest')" "netloc u = host_part rest'"
    using urlparse_Inr [OF assms(1)] by blast
  then have u: "scheme u = s" "rest' = rest" using found(1) [of "[]"] by simp_all
  have slashes: "take 2 rest = ''//''" "netloc u = takeWhile host_char (drop 2 rest)"
    using assms(3) r(2) u by (auto simp: host_part_def split: if_splits)
  then have "rest = ''//'' @ netloc u @ dropWhile host_char (drop 2 rest)"
    by (metis append_take_drop_id takeWhile_dropWhile_id)
  moreover have "dropWhile host_char (drop 2 rest) = [] \<or> \<not> host_char (hd (dropWhile host_char (drop 2 rest)))"
    by (metis hd_dropWhile)
  ultimately have "\<exists>q. rest = ''//'' @ netloc u @ q \<and> (q = [] \<or> \<not> host_char (hd q))" by blast
  then obtain q where q: "rest = ''//'' @ netloc u @ q" "q = [] \<or> \<not> host_char (hd q)" by blast
  have "before (CHR '':'') (clean_url url) \<noteq> []" using found(2,4) by (auto simp: lower_def)
  with q found(3-6) u(1) show ?thesis
    by (intro exI [of _ "before (CHR '':'') (clean_url url)"] exI [of _ q]) simp
next
  case none
  with urlparse_Inr [OF assms(1)] assms(2) show ?thesis by (auto simp: http_scheme_def)
qed

lemma clean_append:
  "list_ex (\<lambda>c. \<not> control_or_space c) a \<Longrightarrow> clean_url (a @ b) = clean_url a @ filter (\<lambda>c. \<not> unsafe_char c) b"
  by (auto simp: clean_url_def list_ex_iff)

lemma append_slashes:
  assumes "a @ replicate k c = b @ d" "b \<noteq> []" "last b \<noteq> c"
  shows "\<exists>e. a = b @ e \<and> d = e @ replicate k c"
proof -
  have "length b \<le> length a"
  proof (rule ccontr)
    assume "\<not> length b \<le> length a"
    then obtain x xs where "b = a @ x # xs" "\<exists>ys. replicate k c = (x # xs) @ ys"
      using assms(1) by (auto simp: append_eq_append_conv2 neq_Nil_conv)
    then have "last b \<in> set (replicate k c)" by (metis Un_iff append_Nil2 last_appendR last_in_set list.distinct(1) set_append)
    then show False using assms(3) by auto
  qed
  then show ?thesis using assms(1) by (auto simp: append_eq_append_conv2)
qed

lemma base_authority:
  assumes "urlparse [] url = Inr u" "http_scheme (scheme u)" "netloc u \<noteq> []"
  shows "\<exists>v. urlparse [] (rstrip_slashes url @ ''/'') = Inr v \<and> scheme v = scheme u \<and> netloc v = netloc u"
proof -
  let ?r = "rstrip_slashes url" and ?n = "netloc u"
  obtain p rest where p: "clean_url url = p @ ''://'' @ ?n @ rest" "lower p = scheme u" "rest = [] \<or> \<not> host_char (hd rest)"
    "is_alpha (hd p)" "p \<noteq> []" "list_all scheme_char p"
    using absolute_shape [OF assms] by blast
  note n = netloc_facts [OF assms(1)]
  obtain k where k: "url = ?r @ replicate k (CHR ''/'')" using rstrip_decompose by blast
  have slash: "\<not> is_alpha (CHR ''/'')" "\<not> unsafe_char (CHR ''/'')" "\<not> control_or_space (CHR ''/'')" "\<not> host_char (CHR ''/'')"
    by (simp_all add: is_alpha_def unsafe_char_def control_or_space_def host_char_def)
  have "list_ex (\<lambda>c. \<not> control_or_space c) ?r"
  proof (rule ccontr)
    assume "\<not> list_ex (\<lambda>c. \<not> control_or_space c) ?r"
    then have "clean_url url = filter (\<lambda>c. \<not> unsafe_char c) (dropWhile control_or_space (replicate k (CHR ''/'')))"
      by (subst k) (simp add: clean_url_def list_ex_iff dropWhile_append2)
    then have "set (clean_url url) \<subseteq> {CHR ''/''}" by (auto dest!: set_dropWhileD)
    moreover have "hd p \<in> set (clean_url url)" using p(1,5) by simp
    ultimately have "hd p = CHR ''/''" by blast
    with p(4) slash show False by simp
  qed
  note clean = clean_append [OF this]
  have "clean_url ?r @ replicate k (CHR ''/'') = (p @ ''://'' @ ?n) @ rest"
    using p(1) clean [of "replicate k (CHR ''/'')"] slash(2) by (simp flip: k)
  moreover have "last (p @ ''://'' @ ?n) \<noteq> CHR ''/''"
  proof -
    have "host_char (last ?n)" using n(1) last_in_set [OF assms(3)] by (simp add: list_all_iff)
    moreover have "last (p @ ''://'' @ ?n) = last ?n" using assms(3) by simp
    ultimately show ?thesis using slash(4) by metis
  qed
  ultimately obtain e where e: "clean_url ?r = (p @ ''://'' @ ?n) @ e" "rest = e @ replicate k (CHR ''/'')"
    using append_slashes [of "clean_url ?r" k "CHR ''/''" "p @ ''://'' @ ?n" rest] by auto
  have "clean_url (?r @ ''/'') = p @ ''://'' @ ?n @ (e @ ''/'')" using clean [of "''/''"] e slash by simp
  moreover have "\<not> host_char (hd (e @ ''/''))" using p(3) e(2) slash(4) by (cases e) auto
  ultimately show ?thesis
    using urlparse_authority [of "?r @ ''/''" p ?n "e @ ''/''" "[]"] p(2,4-6) n(1,3) by simp
qed

section \<open>Requests\<close>

definition managed :: "http_manager \<Rightarrow> bool" where
  "managed m \<longleftrightarrow> (\<exists>b. urlparse [] (base_url m) = Inr b \<and> http_scheme (scheme b) \<and> netloc b \<noteq> [] \<and>
     url_origin b = Inr (base_origin m))"

definition at_origin :: "origin \<Rightarrow> string \<Rightarrow> bool" where
  "at_origin org url \<longleftrightarrow> (case urlparse [] url of Inl _ \<Rightarrow> False | Inr u \<Rightarrow> url_origin u = Inr org)"

definition on_origin :: "http_manager \<Rightarrow> bool" where
  "on_origin m \<longleftrightarrow> list_all (\<lambda>r. at_origin (base_origin m) (req_url r)) (sent m) \<and>
     list_all (at_origin (base_origin m)) (redirects m)"

text \<open>An absolute URL, or a path that is still one after the leading slashes are stripped.\<close>

definition plain_path :: "string \<Rightarrow> bool" where
  "plain_path p \<longleftrightarrow> (case urlparse [] p of Inl _ \<Rightarrow> True | Inr u \<Rightarrow> scheme u \<noteq> [] \<or> netloc u \<noteq> [] \<or>
     (case urlparse [] (strip_slashes p) of Inl _ \<Rightarrow> True | Inr w \<Rightarrow> scheme w = [] \<and> netloc w = []))"

lemma parse_inherited:
  assumes "urlparse [] url = Inr w" "scheme w = []" "netloc w = []"
  shows "\<exists>u. urlparse s url = Inr u \<and> scheme u = s \<and> netloc u = []"
proof (cases "clean_url url" rule: split_scheme_cases)
  case (found s rest)
  with urlparse_Inr [OF assms(1)] assms(2) show ?thesis by (metis fst_conv)
next
  case none
  then obtain "netloc_ok (host_part (clean_url url))" "host_part (clean_url url) = []"
    using urlparse_Inr [OF assms(1)] assms(3) by (metis snd_conv)
  with urlparse_split [OF none] show ?thesis by auto
qed

lemma parse_defined: "urlparse d url = Inr u \<Longrightarrow> \<exists>w. urlparse [] url = Inr w"
proof (cases "clean_url url" rule: split_scheme_cases)
  case (found s rest)
  assume "urlparse d url = Inr u"
  with urlparse_Inr [OF this] found(1) [of d] have "netloc_ok (host_part rest)" by auto
  from urlparse_split [OF found(1) this] show ?thesis by blast
next
  case none
  assume "urlparse d url = Inr u"
  with urlparse_Inr [OF this] none [of d] have "netloc_ok (host_part (clean_url url))" by auto
  from urlparse_split [OF none this] show ?thesis by blast
qed

lemma http_nonempty: "urlparse [] url = Inr u \<Longrightarrow> http_scheme (scheme u) \<Longrightarrow> url \<noteq> []"
  by (auto simp: http_scheme_def split_scheme_def clean_url_def before_def Let_def dest!: urlparse_Inr)

lemma joined_origin:
  assumes "urlparse [] base = Inr b" "http_scheme (scheme b)" "netloc b \<noteq> []"
    and "urlparse [] url = Inr w" "scheme w = []" "netloc w = []" "urljoin base url = Inr j"
  shows "\<exists>v. urlparse [] j = Inr v \<and> url_origin v = url_origin b"
proof (cases "url = []")
  case True
  with http_nonempty [OF assms(1,2)] True assms show ?thesis by (auto simp: urljoin_def)
next
  case False
  have base: "base \<noteq> []" using http_nonempty [OF assms(1,2)] .
  obtain u where u: "urlparse (scheme b) url = Inr u" "scheme u = scheme b" "netloc u = []"
    using parse_inherited [OF assms(4-6)] by blast
  have rel: "scheme b \<in> set uses_relative" "scheme b \<in> set uses_netloc"
    using assms(2) by (auto simp: http_scheme_def uses_relative_def uses_netloc_def)
  then obtain r where r: "j = urlunparse r" "scheme r = scheme b" "netloc r = netloc b"
    using assms(1,7) u False base by (auto simp: urljoin_def Let_def split: if_splits)
  from parse_unparse [of r "[]"] netloc_facts [OF assms(1)] assms(2,3) r
  obtain v where "urlparse [] j = Inr v" "scheme v = scheme b" "netloc v = netloc b" by auto
  with url_origin_cong [of v b] show ?thesis by auto
qed

lemma request_url_origin:
  assumes "managed m" "plain_path p" "request_url m p = Inr url"
  shows "at_origin (base_origin m) url"
proof -
  obtain parsed where p: "urlparse [] p = Inr parsed" using assms(3) by (cases "urlparse [] p") (auto simp: request_url_def)
  show ?thesis
  proof (cases "scheme parsed \<noteq> [] \<or> netloc parsed \<noteq> []")
    case True
    with p assms(3) show ?thesis
      by (auto simp: request_url_def at_origin_def bindE_eq_Inr raise_if_eq split: if_splits)
  next
    case False
    then have join: "urljoin (base_url m) (strip_slashes p) = Inr url" using p assms(3) by (simp add: request_url_def)
    obtain b where b: "urlparse [] (base_url m) = Inr b" "http_scheme (scheme b)" "netloc b \<noteq> []"
      "url_origin b = Inr (base_origin m)" using assms(1) by (auto simp: managed_def)
    have base: "base_url m \<noteq> []" using http_nonempty [OF b(1,2)] .
    have "strip_slashes p \<noteq> [] \<Longrightarrow> \<exists>u. urlparse (scheme b) (strip_slashes p) = Inr u"
      using join b(1) base by (cases "urlparse (scheme b) (strip_slashes p)") (auto simp: urljoin_def)
    moreover have "\<exists>w. urlparse [] [] = Inr w"
      using urlparse_split [of "[]" "[]" "[]" "[]"]
      by (auto simp: split_scheme_def clean_url_def before_def netloc_ok_def host_part_def Let_def)
    ultimately obtain w where w: "urlparse [] (strip_slashes p) = Inr w"
      using parse_defined [of "scheme b" "strip_slashes p"] by (cases "strip_slashes p = []") auto
    then have "scheme w = []" "netloc w = []" using assms(2) p False by (simp_all add: plain_path_def)
    from joined_origin [OF b(1-3) w this join] b(4) show ?thesis by (auto simp: at_origin_def)
  qed
qed


text \<open>Requests change neither the base URL nor its origin.\<close>

definition kept_on_origin :: "http_manager \<Rightarrow> http_manager \<Rightarrow> bool" where
  "kept_on_origin m m' \<longleftrightarrow> base_url m' = base_url m \<and> base_origin m' = base_origin m \<and> (on_origin m \<longrightarrow> on_origin m')"

lemma kept_on_origin_trans: "kept_on_origin m n \<Longrightarrow> kept_on_origin n k \<Longrightarrow> kept_on_origin m k"
  by (simp add: kept_on_origin_def)

lemma redirect_origin: "redirect_request org url = Inr u \<Longrightarrow> at_origin org url"
  by (auto simp: redirect_request_def at_origin_def bindE_eq_Inr raise_if_eq split: if_splits)

lemma open_request_origin: "kept_on_origin m (snd (open_request m))"
proof (induction m rule: open_request.induct)
  case (1 m)
  show ?case
  proof (cases "\<exists>u rest. outcomes m = Redirect u # rest \<and> (\<exists>x. redirect_request (base_origin m) u = Inr x)")
    case True
    then obtain u rest x where u: "outcomes m = Redirect u # rest" "redirect_request (base_origin m) u = Inr x" by blast
    then have run: "open_request m = open_request (m\<lparr>outcomes := rest, redirects := redirects m @ [u]\<rparr>)"
      by (subst open_request.simps) simp
    have "kept_on_origin m (m\<lparr>outcomes := rest, redirects := redirects m @ [u]\<rparr>)"
      using redirect_origin [OF u(2)] by (simp add: kept_on_origin_def on_origin_def)
    from kept_on_origin_trans [OF this 1 [OF u(1) refl u(2)]] show ?thesis by (simp only: run)
  next
    case False
    then show ?thesis
      by (subst open_request.simps)
        (auto simp: kept_on_origin_def on_origin_def split: list.split http_outcome.split sum.split)
  qed
qed

lemma request_origin:
  assumes "managed m" "plain_path p"
  shows "kept_on_origin m (snd (request method p json data extra m))"
proof (cases "request_url m p")
  case (Inl e)
  then show ?thesis by (simp add: request_def act_simps kept_on_origin_def Let_def)
next
  case (Inr url)
  let ?content = "case json of Some v \<Rightarrow> Some (Json_Payload v) | None \<Rightarrow> data"
  let ?hs = "if json \<noteq> None then json_headers (headers_for m extra) else headers_for m extra"
  let ?m = "m\<lparr>sent := sent m @ [\<lparr>req_method = upper method, req_url = url, req_headers = ?hs, req_body = ?content\<rparr>]\<rparr>"
  have "kept_on_origin m ?m"
    using request_url_origin [OF assms Inr] by (simp add: kept_on_origin_def on_origin_def)
  from kept_on_origin_trans [OF this open_request_origin] show ?thesis
    using Inr by (auto simp: request_def act_simps kept_on_origin_def Let_def)
qed

lemma new_http_manager_origin:
  assumes "new_http_manager url a script = Inr m"
  shows "managed m" "on_origin m"
proof -
  obtain u where u: "urlparse [] url = Inr u" "http_scheme (scheme u)" "netloc u \<noteq> []"
    "url_origin u = Inr (base_origin m)" "base_url m = rstrip_slashes url @ ''/''" "sent m = []" "redirects m = []"
    using assms by (auto simp: new_http_manager_def bindE_eq_Inr raise_if_eq)
  from base_authority [OF u(1-3)] obtain v where "urlparse [] (base_url m) = Inr v" "scheme v = scheme u" "netloc v = netloc u"
    unfolding u(5) by blast
  with u url_origin_cong [of v u] show "managed m" by (auto simp: managed_def)
  show "on_origin m" using u by (simp add: on_origin_def)
qed

text \<open>A sequence of requests, whatever each of them answers or raises.\<close>

type_synonym request_args = "string \<times> string \<times> pyval option \<times> payload option \<times> (string \<times> string) list"

fun run_requests :: "request_args list \<Rightarrow> http_manager \<Rightarrow> http_manager" where
  "run_requests [] m = m"
| "run_requests ((method, p, json, data, extra) # rs) m = run_requests rs (snd (request method p json data extra m))"

lemma run_requests_origin:
  "managed m \<Longrightarrow> list_all (\<lambda>(_, p, _). plain_path p) rs \<Longrightarrow> kept_on_origin m (run_requests rs m)"
proof (induction rs m rule: run_requests.induct)
  case (2 verb p json data extra rs m)
  let ?m = "snd (request verb p json data extra m)"
  have k: "kept_on_origin m ?m" using request_origin "2.prems" by simp
  then have "managed ?m" using "2.prems" by (simp add: managed_def kept_on_origin_def)
  from kept_on_origin_trans [OF k "2.IH" [OF this]] "2.prems" show ?case by simp
qed (simp add: kept_on_origin_def)

text \<open>
  C32. Whatever requests are made through a management transport and wherever redirects point, every
  URL that is requested or followed has the scheme, host and port of the base URL, provided that no
  path hides an absolute URL behind its leading slashes.
\<close>

theorem requests_stay_on_origin:
  assumes "new_http_manager url a script = Inr m" "list_all (\<lambda>(_, p, _). plain_path p) rs"
  shows "list_all (\<lambda>r. at_origin (base_origin m) (req_url r)) (sent (run_requests rs m)) \<and>
    list_all (at_origin (base_origin m)) (redirects (run_requests rs m))"
  using new_http_manager_origin [OF assms(1)] run_requests_origin [OF _ assms(2), of m]
  by (auto simp: kept_on_origin_def on_origin_def)


definition example_manager :: http_manager where
  "example_manager = \<lparr>base_url = ''http://reader/'', username = None, password = None, bearer_token = Some ''secret'',
     default_headers = [], base_origin = (''http'', ''reader'', 80), outcomes = [], sent = [], redirects = []\<rparr>"

lemma example_manager_new:
  "new_http_manager ''http://reader'' (no_args\<lparr>arg_bearer_token := Some ''secret''\<rparr>) [] = Inr example_manager"
  by code_simp

theorem requests_stay_on_origin_witness:
  "plain_path ''/cloud/status'' \<and>
   (let m = run_requests [(''get'', ''/cloud/status'', None, None, [])] example_manager in
    map req_url (sent m) = [''http://reader/cloud/status''] \<and>
    list_all (\<lambda>r. at_origin (''http'', ''reader'', 80) (req_url r)) (sent m))"
proof -
  have p: "plain_path ''/cloud/status''" by code_simp
  have "map req_url (sent (run_requests [(''get'', ''/cloud/status'', None, None, [])] example_manager)) =
      [''http://reader/cloud/status'']" by code_simp
  with p requests_stay_on_origin [OF example_manager_new, of "[(''get'', ''/cloud/status'', None, None, [])]"]
  show ?thesis by (simp add: example_manager_def)
qed

text \<open>
  The guard of \<open>_url\<close> looks at the path before the leading slashes are stripped: a path such as
  \<open>/http://other.example/x\<close> passes it, and the request, with the credentials of the reader, goes to
  another host.
\<close>

theorem request_leaves_origin:
  "\<not> plain_path ''/http://other.example/x'' \<and>
   sent (snd (request ''GET'' ''/http://other.example/x'' None None [] example_manager)) =
     [\<lparr>req_method = ''GET'', req_url = ''http://other.example/x'',
       req_headers = [(''Authorization'', ''Bearer secret'')], req_body = None\<rparr>] \<and>
   \<not> at_origin (base_origin example_manager) ''http://other.example/x''"
  by code_simp

end
