(* ===== verification/Impinj_Management.thy ===== *)
theory Impinj_Management
  imports Management_Origin
begin

text \<open>
  The REST adapter of \<^verbatim>\<open>sllurp/impinj_management.py\<close>.  The random part of a multipart boundary is
  an argument.  With the default prefix every resource path is one that stays on the reader.
\<close>

record impinj_manager =
  imp_model :: string
  api_prefix :: string
  imp_transport :: http_manager

type_synonym 'a impinj_action = "(impinj_manager, 'a) act"

definition IMPINJ_REST_MODELS :: "string set" where
  "IMPINJ_REST_MODELS = {''R700'', ''R720''}"

definition impinj_model_name :: "string \<Rightarrow> string" where
  "impinj_model_name model = (let v = filter is_alnum (upper model) in
     if take 6 v = ''IMPINJ'' then drop 6 v else v)"

definition new_impinj :: "string \<Rightarrow> http_args \<Rightarrow> string \<Rightarrow> string \<Rightarrow> string \<Rightarrow> string \<Rightarrow> http_outcome list \<Rightarrow> impinj_manager res" where
  "new_impinj url a model user pass prefix script =
    bindE (raise_if (impinj_model_name model \<notin> IMPINJ_REST_MODELS) ValueError) (\<lambda>_.
    let prefix = ''/'' @ rstrip_slashes (strip_slashes prefix) in
    bindE (raise_if (prefix = ''/'') ValueError) (\<lambda>_.
    bindE (new_http_manager url (a\<lparr>arg_username := Some user, arg_password := Some pass, arg_bearer_token := None,
      arg_headers := [(''Accept'', ''application/json'')]\<rparr>) script) (\<lambda>m.
    Inr \<lparr>imp_model = impinj_model_name model, api_prefix = prefix, imp_transport = m\<rparr>)))"

definition impinj_path :: "string \<Rightarrow> string \<Rightarrow> string res" where
  "impinj_path prefix resource = bindE (urlparse [] resource) (\<lambda>parsed.
     if scheme parsed \<noteq> [] \<or> netloc parsed \<noteq> [] then Inl ValueError
     else let p = ''/'' @ strip_slashes resource in
       Inr (if p = prefix \<or> take (length prefix + 1) p = prefix @ ''/'' then p else prefix @ p))"

definition impinj_response :: "string \<Rightarrow> string \<Rightarrow> pyval option \<Rightarrow> payload option \<Rightarrow> (string \<times> string) list \<Rightarrow>
    http_response impinj_action" where
  "impinj_response method resource json_body data extra = readA (\<lambda>s.
    bindA (liftA (impinj_path (api_prefix s) resource)) (\<lambda>p.
    (\<lambda>s. case request method p json_body data extra (imp_transport s) of (x, m) \<Rightarrow> (x, s\<lparr>imp_transport := m\<rparr>))))"

definition impinj_request :: "string \<Rightarrow> string \<Rightarrow> pyval option \<Rightarrow> payload option \<Rightarrow> (string \<times> string) list \<Rightarrow> pyval impinj_action" where
  "impinj_request method resource json_body data extra =
    bindA (impinj_response method resource json_body data extra) (\<lambda>r. liftA (decode_response r))"

section \<open>Resources\<close>

definition impinj_get :: "string \<Rightarrow> pyval impinj_action" where
  "impinj_get resource = impinj_request ''GET'' resource None None []"

definition impinj_put :: "string \<Rightarrow> pydict \<Rightarrow> pyval impinj_action" where
  "impinj_put resource settings = impinj_request ''PUT'' resource (Some (PDict settings)) None []"

definition impinj_patch :: "string \<Rightarrow> pydict \<Rightarrow> pyval impinj_action" where
  "impinj_patch resource settings = impinj_request ''PATCH'' resource (Some (PDict settings)) None []"

definition impinj_post :: "string \<Rightarrow> pydict option \<Rightarrow> pyval impinj_action" where
  "impinj_post resource content = impinj_request ''POST'' resource (map_option PDict content) None []"

definition impinj_delete :: "string \<Rightarrow> pyval impinj_action" where
  "impinj_delete resource = impinj_request ''DELETE'' resource None None []"

definition impinj_get_settings :: "string \<Rightarrow> pyval impinj_action" where
  "impinj_get_settings resource = impinj_get resource"

definition impinj_update_settings :: "string \<Rightarrow> pydict \<Rightarrow> string \<Rightarrow> pyval impinj_action" where
  "impinj_update_settings resource settings method =
    (if upper method \<notin> {''PUT'', ''PATCH'', ''POST''} then throwA ValueError
     else impinj_request (upper method) resource (Some (PDict settings)) None [])"

definition impinj_get_status :: "pyval impinj_action" where
  "impinj_get_status = impinj_get ''status''"

definition impinj_get_mqtt :: "pyval impinj_action" where
  "impinj_get_mqtt = impinj_get ''mqtt''"

definition impinj_set_mqtt :: "pydict \<Rightarrow> pyval impinj_action" where
  "impinj_set_mqtt settings = impinj_put ''mqtt'' settings"

definition impinj_get_power :: "pyval impinj_action" where
  "impinj_get_power = impinj_get ''system/power''"

definition impinj_set_power_source :: "string \<Rightarrow> pyval impinj_action" where
  "impinj_set_power_source src =
    (if str_strip src = [] then throwA ValueError
     else impinj_put ''system/power'' [(''powerSource'', PStr (lower (str_strip src)))])"

section \<open>Certificates\<close>

definition ascii_bytes :: "string \<Rightarrow> bytes" where
  "ascii_bytes s = map (\<lambda>c. of_nat (of_char c)) s"

definition CRLF :: string where
  "CRLF = [char_of (13::nat), char_of (10::nat)]"

definition multipart_file :: "string \<Rightarrow> string \<Rightarrow> string \<Rightarrow> bytes \<Rightarrow> string \<Rightarrow> bytes \<times> string" where
  "multipart_file uuid field_name filename content content_type =
    (let boundary = ''sllurp-'' @ uuid; q = [char_of (34::nat)] in
     (ascii_bytes (''--'' @ boundary @ CRLF)
      @ ascii_bytes (''Content-Disposition: form-data; name='' @ q @ field_name @ q @ ''; filename='' @ q @ filename @ q @ CRLF)
      @ ascii_bytes (''Content-Type: '' @ content_type @ CRLF @ CRLF)
      @ content @ ascii_bytes CRLF @ ascii_bytes (''--'' @ boundary @ ''--'' @ CRLF), boundary))"

definition install_certificate :: "string \<Rightarrow> string \<Rightarrow> string \<Rightarrow> string \<Rightarrow> bytes \<Rightarrow> pyval impinj_action" where
  "install_certificate uuid resource content_type filename certificate =
    (case multipart_file uuid ''certFile'' filename certificate content_type of (content, boundary) \<Rightarrow>
      impinj_request ''POST'' resource None (Some (Data_Payload content))
        [(''Content-Type'', ''multipart/form-data; boundary='' @ boundary), (''Accept'', ''application/json'')])"

definition install_ca_certificate :: "string \<Rightarrow> string \<Rightarrow> bytes \<Rightarrow> pyval impinj_action" where
  "install_ca_certificate uuid filename certificate =
    install_certificate uuid ''system/certificates/ca/certs'' ''application/x-pem-file'' filename certificate"

definition install_tls_certificate :: "string \<Rightarrow> string \<Rightarrow> bytes \<Rightarrow> pyval impinj_action" where
  "install_tls_certificate uuid filename certificate =
    install_certificate uuid ''system/certificates/tls/certs'' ''application/x-pkcs12'' filename certificate"

text \<open>\<open>urllib.parse.quote(s, safe="-")\<close> on ASCII text.\<close>

definition quote_char :: "char \<Rightarrow> string" where
  "quote_char c = (if is_alnum c \<or> c \<in> set ''_.-~'' then [c]
     else let n = of_char c :: nat; digit = (\<lambda>d. ''0123456789ABCDEF'' ! d) in [CHR ''%'', digit (n div 16), digit (n mod 16)])"

definition quote :: "string \<Rightarrow> string" where
  "quote s = concat (map quote_char s)"

definition set_tls_service_certificate :: "string \<Rightarrow> int \<Rightarrow> pyval impinj_action" where
  "set_tls_service_certificate service cert_id =
    (if str_strip service = [] then throwA ValueError
     else impinj_put (''system/certificates/tls/services/'' @ quote (str_strip service)) [(''certId'', PInt cert_id)])"

definition get_debug_bundle :: "bytes impinj_action" where
  "get_debug_bundle = bindA (impinj_response ''GET'' ''system/diagnostics/debug-bundle/'' None None []) (\<lambda>r. retA (body r))"

section \<open>Paths stay on the reader\<close>

lemma default_prefix_plain: "plain_path (''/api/v1'' @ rest)" if "rest = [] \<or> hd rest = CHR ''/''"
proof -
  let ?s = "''api/v1'' @ rest"
  have strip: "strip_slashes (''/api/v1'' @ rest) = ?s" by (simp add: strip_slashes_def)
  have clean: "clean_url ?s = ''api/v1'' @ filter (\<lambda>c. \<not> unsafe_char c) rest"
    by (simp add: clean_url_def control_or_space_def unsafe_char_def)
  have "\<not> scheme_char (CHR ''/'')" by (simp add: scheme_char_def is_alnum_def is_alpha_def is_decimal_def)
  then have "split_scheme [] (clean_url ?s) = ([], clean_url ?s)"
    unfolding clean by (simp add: split_scheme_def before_def Let_def)
  moreover have "host_part (clean_url ?s) = []" unfolding clean by (simp add: host_part_def)
  ultimately obtain w where "urlparse [] ?s = Inr w" "scheme w = []" "netloc w = []"
    using urlparse_split [of "[]" ?s "[]" "clean_url ?s"] by (auto simp: netloc_ok_def)
  then show ?thesis unfolding plain_path_def strip by (auto split: sum.split)
qed

lemma impinj_path_plain: "impinj_path ''/api/v1'' resource = Inr p \<Longrightarrow> plain_path p"
proof -
  assume "impinj_path ''/api/v1'' resource = Inr p"
  then have "p = ''/api/v1'' \<or> take 8 p = ''/api/v1/'' \<or> (\<exists>q. p = ''/api/v1'' @ ''/'' @ q)"
    by (auto simp: impinj_path_def bindE_eq_Inr Let_def numeral_eq_Suc split: if_splits)
  then obtain rest where "p = ''/api/v1'' @ rest" "rest = [] \<or> hd rest = CHR ''/''"
  proof (elim disjE exE)
    assume "take 8 p = ''/api/v1/''"
    then have "p = ''/api/v1'' @ ''/'' @ drop 8 p" by (metis append_take_drop_id append_assoc append_Cons append_Nil)
    then show thesis using that [of "''/'' @ drop 8 p"] by simp
  qed (use that in auto)
  then show ?thesis using default_prefix_plain by simp
qed

end
