(* ===== verification/Zebra_Management.thy ===== *)
theory Zebra_Management
  imports Reader_Management Dedup
begin

text \<open>
  The management adapters of \<^verbatim>\<open>sllurp/zebra_management.py\<close>: Reader Management sessions
  (XML commands of \<^verbatim>\<open>ZebraRMManager\<close>), the local REST client \<^verbatim>\<open>ZebraIoTConnectorManager\<close>,
  and the choice between them.
\<close>

section \<open>Models\<close>

definition RM_NS :: string where "RM_NS = ''urn:epcglobal:rm:xsd:1''"

definition EPC_NS :: string where "EPC_NS = ''urn:epcglobal:xsd:1''"

definition MOTOR_NS :: string where "MOTOR_NS = ''urn:motorfid:rm:xsd:1''"

definition XSI_NS :: string where "XSI_NS = ''http://www.w3.org/2001/XMLSchema-instance''"

definition RM_MODELS :: "string set" where
  "RM_MODELS = {''FX7400'', ''FX7500'', ''FX9500'', ''FX9600'', ''ATR7000''}"

definition IOT_MODELS :: "string set" where
  "IOT_MODELS = {''FX7500'', ''FX9600'', ''ATR7000'', ''FXR90''}"

definition FX9500_UNSUPPORTED :: "string set" where
  "FX9500_UNSUPPORTED = {''setFirmwareUpdateParams'', ''getSupportedRegionList'', ''getRegionStandardList'',
     ''setNetworkInterfaceSettings'', ''setDHCPConfig'', ''setActiveRegion'', ''setShellStatus'', ''setFTPStatus'',
     ''discardConfigChanges'', ''hasConfigChanged'', ''getUncommitedConfigChangesDescription'',
     ''importProfileToReader'', ''exportProfileFromReader''}"

definition zebra_model_name :: "string \<Rightarrow> string" where
  "zebra_model_name model = (let v = filter (\<lambda>c. c \<noteq> CHR ''-'') (upper (str_strip model)) in
     if take 5 v = ''FXR90'' then ''FXR90'' else v)"

definition zebra_local_name :: "string \<Rightarrow> string" where
  "zebra_local_name t = after_last (CHR ''}'') t"

definition find_text :: "xml \<Rightarrow> string \<Rightarrow> string option" where
  "find_text el name = map_option (\<lambda>e. str_strip (xml_text e)) (find (\<lambda>e. zebra_local_name (tag e) = name) (iter el))"

section \<open>Reader Management sessions\<close>

record zebra_rm =
  rm_model :: string
  rm_username :: string
  rm_password :: string
  target_name :: string
  session_id :: "string option"
  command_id :: nat
  transport :: http_manager

type_synonym 'a rm_action = "(zebra_rm, 'a) act"

definition new_zebra_rm :: "string \<Rightarrow> http_args \<Rightarrow> string \<Rightarrow> string \<Rightarrow> string \<Rightarrow> string \<Rightarrow> http_outcome list \<Rightarrow> zebra_rm res" where
  "new_zebra_rm url a user pass model target script =
    bindE (raise_if (zebra_model_name model \<notin> RM_MODELS) ValueError) (\<lambda>_.
    bindE (new_http_manager url (a\<lparr>arg_username := None, arg_password := None, arg_bearer_token := None, arg_headers := []\<rparr>) script)
      (\<lambda>m. Inr \<lparr>rm_model = zebra_model_name model, rm_username = user, rm_password = pass, target_name = target,
        session_id = None, command_id = 0, transport = m\<rparr>))"

definition with_transport :: "'a managing \<Rightarrow> 'a rm_action" where
  "with_transport act r = (case act (transport r) of (x, m) \<Rightarrow> (x, r\<lparr>transport := m\<rparr>))"

definition next_command_id :: "string rm_action" where
  "next_command_id = thenA (modifyA (\<lambda>r. r\<lparr>command_id := Suc (command_id r)\<rparr>)) (readA (\<lambda>r. retA (dec_str (command_id r))))"

definition require_supported :: "string \<Rightarrow> unit rm_action" where
  "require_supported name = readA (\<lambda>r.
     liftA (raise_if (rm_model r = ''FX9500'' \<and> name \<in> FX9500_UNSUPPORTED) UnsupportedReaderOperation))"

definition ns_tag :: "string \<Rightarrow> string \<Rightarrow> string" where
  "ns_tag ns name = ''{'' @ ns @ ''}'' @ name"

definition motor :: "string \<Rightarrow> string" where
  "motor = ns_tag MOTOR_NS"

definition rm_key :: "string \<Rightarrow> bool" where
  "rm_key k \<longleftrightarrow> CHR ''}'' \<notin> set k"

lemma rm_local_name: "rm_key k \<Longrightarrow> zebra_local_name (ns_tag ns k) = k"
  using before_after [of "CHR ''}''" "rev k" "rev (CHR ''{'' # ns)"]
  by (simp add: rm_key_def zebra_local_name_def ns_tag_def after_last_def)

interpretation rm_xml: xml_names motor zebra_local_name rm_key
  by unfold_locales (simp add: motor_def rm_local_name)

text \<open>The document of a command; a session is an element of its own.\<close>

definition rm_document :: "string \<Rightarrow> string \<Rightarrow> string option \<Rightarrow> string \<Rightarrow> settings \<Rightarrow> xml" where
  "rm_document number target sess name ps =
    Element (ns_tag RM_NS ''command'')
      [(ns_tag EPC_NS ''creationDate'', ''2001-12-17T09:30:47.0Z''), (ns_tag EPC_NS ''schemaVersion'', ''0.0''),
       (ns_tag XSI_NS ''schemaLocation'', ''urn:epcglobal:rm:xsd:1 RmCommand.xsd'')] []
      [Element (ns_tag RM_NS ''id'') [] number [],
       Element (ns_tag RM_NS ''targetName'') [] target [],
       Element (motor ''readerDevice'') [] []
         ((case sess of None \<Rightarrow> [] | Some s \<Rightarrow> [Element (motor ''sessionID'') [] s []])
          @ [Element (motor name) [] [] (append_settings motor ps)])]"

definition command_xml :: "string \<Rightarrow> settings \<Rightarrow> bool \<Rightarrow> xml rm_action" where
  "command_xml name ps require_session = bindA next_command_id (\<lambda>number. readA (\<lambda>r.
    if \<not> require_session then retA (rm_document number (target_name r) None name ps)
    else if given (session_id r) then retA (rm_document number (target_name r) (session_id r) name ps)
    else throwA ReaderManagementError))"

definition command_result :: "string \<Rightarrow> http_response \<Rightarrow> xml_value res" where
  "command_result name response = (case decoded_xml response of
     None \<Rightarrow> Inl ReaderManagementError
   | Some el \<Rightarrow> if find_text el ''resultCode'' \<notin> {None, Some ''0''} then Inl ReaderManagementError
       else Inr (element_value zebra_local_name
         (case find (\<lambda>e. zebra_local_name (tag e) = name) (iter el) of Some e \<Rightarrow> e | None \<Rightarrow> el)))"

definition rm_command :: "string \<Rightarrow> settings \<Rightarrow> bool \<Rightarrow> xml_value rm_action" where
  "rm_command name ps require_session = thenA (require_supported name)
    (bindA (command_xml name ps require_session) (\<lambda>doc.
     bindA (with_transport (request ''GET'' ''/control'' None (Some (Xml_Payload doc))
       [(''Content-Type'', ''application/xml''), (''Accept'', ''application/xml'')]))
     (\<lambda>response. liftA (command_result name response))))"

text \<open>\<open>str\<close> of a decoded value; a value inside another one is shown by \<open>repr\<close>.\<close>

fun value_repr :: "xml_value \<Rightarrow> string" where
  "value_repr (X_Text s) = repr_str s"
| "value_repr (X_List l) = ''['' @ join_with '', '' (map value_repr l) @ '']''"
| "value_repr (X_Map d) = ''{'' @ join_with '', '' (map (\<lambda>(k, v). repr_str k @ '': '' @ value_repr v) d) @ ''}''"

definition value_str :: "xml_value \<Rightarrow> string" where
  "value_str v = (case v of X_Text s \<Rightarrow> s | _ \<Rightarrow> value_repr v)"

fun value_true :: "xml_value \<Rightarrow> bool" where
  "value_true (X_Text s) = (s \<noteq> [])"
| "value_true (X_List l) = (l \<noteq> [])"
| "value_true (X_Map d) = (d \<noteq> [])"

definition rm_login :: "bool \<Rightarrow> string rm_action" where
  "rm_login force = readA (\<lambda>r.
    bindA (rm_command ''doLogin'' [(''username'', S_Str (rm_username r)), (''password'', S_Str (rm_password r)),
      (''forceLogin'', S_Bool force)] False) (\<lambda>result.
    case (case result of X_Map d \<Rightarrow> dict_get d ''sessionID'' | _ \<Rightarrow> None) of
      None \<Rightarrow> throwA ReaderManagementError
    | Some s \<Rightarrow> if \<not> value_true s then throwA ReaderManagementError
        else thenA (modifyA (\<lambda>r. r\<lparr>session_id := Some (str_strip (value_str s))\<rparr>)) (retA (str_strip (value_str s)))))"

text \<open>\<open>try: ... finally: self.session_id = None\<close>\<close>

definition rm_logout :: "bool \<Rightarrow> xml_value rm_action" where
  "rm_logout force r = (case rm_command ''doLogout'' [(''forceLogout'', S_Bool force)] True r of
     (x, r) \<Rightarrow> (x, r\<lparr>session_id := None\<rparr>))"

definition rm_get_info :: "(string \<times> xml_value) list rm_action" where
  "rm_get_info =
    bindA (rm_command ''getManufacturer'' [] True) (\<lambda>a. bindA (rm_command ''getModel'' [] True) (\<lambda>b.
    bindA (rm_command ''getName'' [] True) (\<lambda>c. bindA (rm_command ''getReaderVersionInfo'' [] True) (\<lambda>d.
    retA [(''manufacturer'', a), (''model'', b), (''name'', c), (''version'', d)]))))"

definition rm_get_status :: "(string \<times> xml_value) list rm_action" where
  "rm_get_status =
    bindA (rm_command ''getCPUUsage'' [] True) (\<lambda>a. bindA (rm_command ''getRAMUsage'' [] True) (\<lambda>b.
    bindA (rm_command ''getReaderDetails'' [] True) (\<lambda>c. retA [(''cpu'', a), (''ram'', b), (''details'', c)])))"

definition rm_get_network :: "string \<Rightarrow> bool \<Rightarrow> xml_value rm_action" where
  "rm_get_network interface core =
     rm_command ''getNetworkInterfaceSettings''
       [(''Interface'', S_Str interface), (''isCoreConfig'', S_Bool core)] True"

definition rm_set_network :: "settings \<Rightarrow> xml_value rm_action" where
  "rm_set_network settings = rm_command ''setNetworkInterfaceSettings'' settings True"

definition rm_set_dhcp :: "string \<Rightarrow> bool \<Rightarrow> bool \<Rightarrow> xml_value rm_action" where
  "rm_set_dhcp interface enabled ipv6 =
     rm_command ''setDHCPConfig''
       [(''Interface'', S_Str interface), (''enableDHCP'', S_Bool enabled), (''enableDHCPv6'', S_Bool ipv6)] True"

definition rm_get_supported_regions :: "xml_value rm_action" where
  "rm_get_supported_regions = rm_command ''getSupportedRegionList'' [] True"

definition rm_get_region_standards :: "string \<Rightarrow> bool \<Rightarrow> xml_value rm_action" where
  "rm_get_region_standards region_name include_channels =
     rm_command ''getRegionStandardList''
       [(''regionName'', S_Str region_name), (''requestChannelList'', S_Bool include_channels)] True"

definition rm_get_region :: "xml_value rm_action" where
  "rm_get_region = rm_command ''getActiveRegion'' [] True"

definition rm_set_region :: "string \<Rightarrow> string \<Rightarrow> int list \<Rightarrow> bool \<Rightarrow> bool \<Rightarrow> xml_value rm_action" where
  "rm_set_region region_name standard_name channels lbt hopping =
     rm_command ''setActiveRegion''
       [(''regionName'', S_Str region_name), (''standardName'', S_Str standard_name), (''channelUsed'', S_List (map S_Int channels)), (''doLBT'', S_Bool lbt), (''doHopping'', S_Bool hopping)] True"

definition rm_get_llrp_config :: "xml_value rm_action" where
  "rm_get_llrp_config = rm_command ''getLLRPConfig'' [] True"

definition rm_set_llrp_config :: "int \<Rightarrow> bool \<Rightarrow> bool \<Rightarrow> bool \<Rightarrow> string \<Rightarrow> bool \<Rightarrow> xml_value rm_action" where
  "rm_set_llrp_config portnum secure validate_peer is_client server_ip should_reconnect =
     rm_command ''setLLRPConfig''
       [(''portNum'', S_Int portnum), (''IsSecure'', S_Bool secure), (''ValidatePeerInSecureMode'', S_Bool validate_peer), (''IsClient'', S_Bool is_client), (''serverIP'', S_Str server_ip), (''ShouldReconnect'', S_Bool should_reconnect)] True"

definition rm_reboot :: "bool \<Rightarrow> xml_value rm_action" where
  "rm_reboot force =
     rm_command ''shutDown''
       [(''restartNeeded'', S_Bool True), (''forceShutdown'', S_Bool force)] True"

definition rm_shutdown :: "bool \<Rightarrow> xml_value rm_action" where
  "rm_shutdown force =
     rm_command ''shutDown''
       [(''restartNeeded'', S_Bool False), (''forceShutdown'', S_Bool force)] True"

definition rm_save_config :: "xml_value rm_action" where
  "rm_save_config = rm_command ''saveConfigChanges'' [] True"

definition rm_discard_config :: "xml_value rm_action" where
  "rm_discard_config = rm_command ''discardConfigChanges'' [] True"

definition rm_has_config_changed :: "xml_value rm_action" where
  "rm_has_config_changed = rm_command ''hasConfigChanged'' [] True"

definition rm_get_config_changes_description :: "xml_value rm_action" where
  "rm_get_config_changes_description = rm_command ''getUncommitedConfigChangesDescription'' [] True"

definition rm_set_name :: "string \<Rightarrow> xml_value rm_action" where
  "rm_set_name name = rm_command ''setName'' [(''name'', S_Str name)] True"

definition rm_get_max_antennas :: "xml_value rm_action" where
  "rm_get_max_antennas = rm_command ''getMaxAntennasSupported'' [] True"

definition rm_get_read_points :: "bool \<Rightarrow> int \<Rightarrow> xml_value rm_action" where
  "rm_get_read_points maintenance_mode refresh_interval =
     rm_command ''getAllReadPoints''
       [(''maintenanceMode'', S_Bool maintenance_mode), (''refreshInterval'', S_Int refresh_interval)] True"

definition rm_get_profiles :: "xml_value rm_action" where
  "rm_get_profiles = rm_command ''getReaderProfileList'' [] True"

definition rm_activate_profile :: "string \<Rightarrow> xml_value rm_action" where
  "rm_activate_profile name = rm_command ''setProfileActive'' [(''ProfileName'', S_Str name)] True"

definition rm_delete_profile :: "string \<Rightarrow> xml_value rm_action" where
  "rm_delete_profile name = rm_command ''deleteProfile'' [(''ProfileName'', S_Str name)] True"

definition rm_import_profile :: "string \<Rightarrow> string \<Rightarrow> bool \<Rightarrow> bool \<Rightarrow> bool \<Rightarrow> xml_value rm_action" where
  "rm_import_profile name profile_data set_active save force_overwrite =
     rm_command ''importProfileToReader''
       [(''ProfileName'', S_Str name), (''ProfileData'', S_Str profile_data), (''doSetActive'', S_Bool set_active), (''doSaveChange'', S_Bool save), (''doForceOverwrite'', S_Bool force_overwrite)] True"

definition rm_export_profile :: "string \<Rightarrow> xml_value rm_action" where
  "rm_export_profile name = rm_command ''exportProfileFromReader'' [(''ProfileName'', S_Str name)] True"

definition rm_get_time :: "xml_value rm_action" where
  "rm_get_time = rm_command ''getLocalTime'' [] True"

definition rm_set_time :: "string \<Rightarrow> xml_value rm_action" where
  "rm_set_time date_time = rm_command ''setLocalTime'' [(''dateTime'', S_Str date_time)] True"

definition rm_get_time_zones :: "xml_value rm_action" where
  "rm_get_time_zones = rm_command ''getTimeZones'' [] True"

definition rm_set_time_zone :: "int \<Rightarrow> xml_value rm_action" where
  "rm_set_time_zone time_zone_index = rm_command ''setTimeZone'' [(''timeZoneIndex'', S_Int time_zone_index)] True"

definition rm_get_shell_status :: "xml_value rm_action" where
  "rm_get_shell_status = rm_command ''getShellStatus'' [] True"

definition rm_set_shell_status :: "string \<Rightarrow> xml_value rm_action" where
  "rm_set_shell_status shell = rm_command ''setShellStatus'' [(''shellState'', S_Str shell)] True"

definition rm_get_ftp_status :: "xml_value rm_action" where
  "rm_get_ftp_status = rm_command ''getFTPStatus'' [] True"

definition rm_set_ftp_status :: "string \<Rightarrow> xml_value rm_action" where
  "rm_set_ftp_status ftp = rm_command ''setFTPStatus'' [(''ftpState'', S_Str ftp)] True"

definition rm_get_ext_antenna_mode :: "xml_value rm_action" where
  "rm_get_ext_antenna_mode = rm_command ''getExtAntennaMode'' [] True"

definition rm_set_ext_antenna_mode :: "setting \<Rightarrow> xml_value rm_action" where
  "rm_set_ext_antenna_mode antenna_mode = rm_command ''setExtAntennaMode'' [(''extAntennaMode'', antenna_mode)] True"

definition rm_configure_firmware_update :: "string \<Rightarrow> string \<Rightarrow> string \<Rightarrow> bool \<Rightarrow> xml_value rm_action" where
  "rm_configure_firmware_update image_url user pass update_all_partitions =
     rm_command ''setFirmwareUpdateParams''
       [(''imageLocationURL'', S_Str image_url), (''userName'', S_Str user), (''password'', S_Str pass), (''updateAllPartitions'', S_Bool update_all_partitions)] True"

definition rm_start_firmware_update :: "xml_value rm_action" where
  "rm_start_firmware_update = rm_command ''doFirmwareUpdate'' [] True"

definition rm_get_debounce_time :: "xml_value rm_action" where
  "rm_get_debounce_time = rm_command ''getDebounceTime'' [] True"

definition rm_set_debounce_time :: "int \<Rightarrow> xml_value rm_action" where
  "rm_set_debounce_time milliseconds = rm_command ''setDebounceTime'' [(''dbtime'', S_Int milliseconds)] True"

definition rm_change_password :: "string \<Rightarrow> string \<Rightarrow> string \<Rightarrow> xml_value rm_action" where
  "rm_change_password user old_password new_password =
     rm_command ''doChangePassword''
       [(''userName'', S_Str user), (''oldPassword'', S_Str old_password), (''newPassword'', S_Str new_password)] True"

section \<open>The local REST client\<close>

record zebra_iot_manager =
  iot_model :: string
  iot_url :: string
  iot_username :: "string option"
  iot_password :: "string option"
  iot_token :: "string option"
  iot_options :: http_args
  iot_transport :: http_manager

type_synonym 'a iot_action = "(zebra_iot_manager, 'a) act"

text \<open>The options of \<open>_transport_options\<close> with the credentials of one transport.\<close>

definition transport_args :: "http_args \<Rightarrow> string option \<Rightarrow> (string \<times> string) option \<Rightarrow> http_args" where
  "transport_args opts token basic =
    (let a = opts\<lparr>arg_username := None, arg_password := None, arg_bearer_token := None, arg_headers := []\<rparr> in
     if given token then a\<lparr>arg_bearer_token := token\<rparr>
     else case basic of None \<Rightarrow> a | Some (u, p) \<Rightarrow> a\<lparr>arg_username := Some u, arg_password := Some p\<rparr>)"

definition new_zebra_iot :: "string \<Rightarrow> http_args \<Rightarrow> string \<Rightarrow> string option \<Rightarrow> string option \<Rightarrow> string option \<Rightarrow>
    http_outcome list \<Rightarrow> zebra_iot_manager res" where
  "new_zebra_iot url opts model user pass token script =
    bindE (raise_if (zebra_model_name model \<notin> IOT_MODELS) ValueError) (\<lambda>_.
    bindE (raise_if (given token \<and> (user \<noteq> None \<or> pass \<noteq> None)) ValueError) (\<lambda>_.
    bindE (raise_if (\<not> given token \<and> ((user = None) \<noteq> (pass = None))) ValueError) (\<lambda>_.
    bindE (new_http_manager url (transport_args opts token None) script) (\<lambda>m.
    Inr \<lparr>iot_model = zebra_model_name model, iot_url = url, iot_username = user, iot_password = pass,
         iot_token = token, iot_options = opts, iot_transport = m\<rparr>))))"

text \<open>A new transport on the same network.\<close>

definition renew_transport :: "http_args \<Rightarrow> string \<Rightarrow> http_manager \<Rightarrow> http_manager res" where
  "renew_transport a url m = map_sum id (\<lambda>n. n\<lparr>sent := sent m, redirects := redirects m\<rparr>) (new_http_manager url a (outcomes m))"

text \<open>The token of a login response; \<open>show\<close> is \<open>str\<close> on JSON values that are no strings.\<close>

definition json_str :: "(pyval \<Rightarrow> string) \<Rightarrow> pyval \<Rightarrow> string" where
  "json_str show_value v = (case v of PStr s \<Rightarrow> s | _ \<Rightarrow> show_value v)"

definition json_token :: "(pyval \<Rightarrow> string) \<Rightarrow> pyval \<Rightarrow> string option" where
  "json_token show_value decoded = (case decoded of
     PDict d \<Rightarrow> map_option (\<lambda>v. str_strip (json_str show_value v))
       (find py_true (List.map_filter (dict_get d) [''token'', ''jwt'', ''access_token'', ''JWT Token'']))
   | _ \<Rightarrow> None)"

definition login_token :: "(pyval \<Rightarrow> string) \<Rightarrow> http_response \<Rightarrow> string res" where
  "login_token show_value response =
    (let text = str_strip (decoded_text response) in
     bindE (case response_json response of Inl ValueError \<Rightarrow> Inr PNone | x \<Rightarrow> x) (\<lambda>decoded.
     let token = json_token show_value decoded;
         token = (if \<not> given token \<and> text \<noteq> []
           then Some (case after_text ''JWT Token:'' text of Some rest \<Rightarrow> str_strip rest | None \<Rightarrow> text) else token)
     in if given token then Inr (the token) else Inl ReaderManagementError))"

definition iot_login :: "(pyval \<Rightarrow> string) \<Rightarrow> string iot_action" where
  "iot_login show_value = readA (\<lambda>s. case iot_username s of
     None \<Rightarrow> if given (iot_token s) then retA (the (iot_token s)) else throwA ReaderManagementError
   | Some user \<Rightarrow>
      bindA (liftA (renew_transport (transport_args (iot_options s) None (Some (user, case iot_password s of Some p \<Rightarrow> p | None \<Rightarrow> [])))
        (iot_url s) (iot_transport s))) (\<lambda>basic.
      case request ''GET'' ''/cloud/localRestLogin'' None None [] basic of (x, basic) \<Rightarrow>
        thenA (modifyA (\<lambda>s. s\<lparr>iot_transport := (iot_transport s)\<lparr>outcomes := outcomes basic, sent := sent basic, redirects := redirects basic\<rparr>\<rparr>))
        (bindA (liftA x) (\<lambda>response. bindA (liftA (login_token show_value response)) (\<lambda>token.
          thenA (modifyA (\<lambda>s. s\<lparr>iot_token := Some token\<rparr>))
          (readA (\<lambda>s. bindA (liftA (renew_transport (transport_args (iot_options s) (Some token) None) (iot_url s) (iot_transport s)))
            (\<lambda>m. thenA (modifyA (\<lambda>s. s\<lparr>iot_transport := m\<rparr>)) (retA token)))))))))"

definition iot_ensure_auth :: "(pyval \<Rightarrow> string) \<Rightarrow> unit iot_action" where
  "iot_ensure_auth show_value = readA (\<lambda>s. if given (iot_token s) then retA () else thenA (iot_login show_value) (retA ()))"

definition iot_request :: "(pyval \<Rightarrow> string) \<Rightarrow> string \<Rightarrow> string \<Rightarrow> pyval option \<Rightarrow> payload option \<Rightarrow> pyval iot_action" where
  "iot_request show_value method p json_body data =
    thenA (iot_ensure_auth show_value)
    (bindA (\<lambda>s. case request method p json_body data [] (iot_transport s) of (x, m) \<Rightarrow> (x, s\<lparr>iot_transport := m\<rparr>))
     (\<lambda>response. liftA (decode_response response)))"

text \<open>The endpoints.\<close>

definition iot_get_info :: "(pyval \<Rightarrow> string) \<Rightarrow> pyval iot_action" where
  "iot_get_info show_value = iot_request show_value ''GET'' ''/cloud/version'' None None"

definition iot_get_status :: "(pyval \<Rightarrow> string) \<Rightarrow> pyval iot_action" where
  "iot_get_status show_value = iot_request show_value ''GET'' ''/cloud/status'' None None"

definition iot_get_capabilities :: "(pyval \<Rightarrow> string) \<Rightarrow> pyval iot_action" where
  "iot_get_capabilities show_value = iot_request show_value ''GET'' ''/cloud/readerCapabilities'' None None"

definition iot_get_network :: "(pyval \<Rightarrow> string) \<Rightarrow> string option \<Rightarrow> pyval iot_action" where
  "iot_get_network show_value interface =
     iot_request show_value ''GET'' ''/cloud/network'' (if given interface then Some (PDict [(''interface'', PStr (the interface))]) else None) None"

definition iot_set_network :: "(pyval \<Rightarrow> string) \<Rightarrow> pydict \<Rightarrow> pyval iot_action" where
  "iot_set_network show_value settings =
     iot_request show_value ''PUT'' ''/cloud/network'' (Some (PDict settings)) None"

definition iot_get_hostname :: "(pyval \<Rightarrow> string) \<Rightarrow> pyval iot_action" where
  "iot_get_hostname show_value = iot_request show_value ''GET'' ''/cloud/hostname'' None None"

definition iot_set_hostname :: "(pyval \<Rightarrow> string) \<Rightarrow> string \<Rightarrow> pyval iot_action" where
  "iot_set_hostname show_value name =
     iot_request show_value ''PUT'' ''/cloud/hostname'' (Some (PDict [(''hostname'', PStr name)])) None"

definition iot_get_region :: "(pyval \<Rightarrow> string) \<Rightarrow> pyval iot_action" where
  "iot_get_region show_value = iot_request show_value ''GET'' ''/cloud/region'' None None"

definition iot_get_supported_regions :: "(pyval \<Rightarrow> string) \<Rightarrow> pyval iot_action" where
  "iot_get_supported_regions show_value = iot_request show_value ''GET'' ''/cloud/supportedRegionList'' None None"

definition iot_get_config :: "(pyval \<Rightarrow> string) \<Rightarrow> pyval iot_action" where
  "iot_get_config show_value = iot_request show_value ''GET'' ''/cloud/config'' None None"

definition iot_set_config :: "(pyval \<Rightarrow> string) \<Rightarrow> pydict \<Rightarrow> pyval iot_action" where
  "iot_set_config show_value settings = iot_request show_value ''PUT'' ''/cloud/config'' (Some (PDict settings)) None"

definition iot_get_mode :: "(pyval \<Rightarrow> string) \<Rightarrow> bool \<Rightarrow> pyval iot_action" where
  "iot_get_mode show_value verbose =
     iot_request show_value ''GET'' ''/cloud/mode'' (Some (PDict [(''verbose'', PBool verbose)])) None"

definition iot_set_mode :: "(pyval \<Rightarrow> string) \<Rightarrow> pydict \<Rightarrow> pyval iot_action" where
  "iot_set_mode show_value settings = iot_request show_value ''PUT'' ''/cloud/mode'' (Some (PDict settings)) None"

definition iot_start :: "(pyval \<Rightarrow> string) \<Rightarrow> bool \<Rightarrow> pyval iot_action" where
  "iot_start show_value persist_state =
     iot_request show_value ''PUT'' ''/cloud/start'' (Some (PDict [(''doNotPersistState'', PBool (\<not> persist_state))])) None"

definition iot_stop :: "(pyval \<Rightarrow> string) \<Rightarrow> pyval iot_action" where
  "iot_stop show_value = iot_request show_value ''PUT'' ''/cloud/stop'' None None"

definition iot_reboot :: "(pyval \<Rightarrow> string) \<Rightarrow> pyval iot_action" where
  "iot_reboot show_value = iot_request show_value ''PUT'' ''/cloud/reboot'' None None"

definition iot_get_gpi :: "(pyval \<Rightarrow> string) \<Rightarrow> pyval iot_action" where
  "iot_get_gpi show_value = iot_request show_value ''GET'' ''/cloud/gpi'' None None"

definition iot_get_gpo :: "(pyval \<Rightarrow> string) \<Rightarrow> pyval iot_action" where
  "iot_get_gpo show_value = iot_request show_value ''GET'' ''/cloud/gpo'' None None"

definition iot_set_gpo :: "(pyval \<Rightarrow> string) \<Rightarrow> int \<Rightarrow> bool \<Rightarrow> pyval iot_action" where
  "iot_set_gpo show_value portnum on =
     iot_request show_value ''PUT'' ''/cloud/gpo'' (Some (PDict [(''port'', PInt portnum), (''state'', PBool on)])) None"

definition iot_set_time_zone :: "(pyval \<Rightarrow> string) \<Rightarrow> string \<Rightarrow> pyval iot_action" where
  "iot_set_time_zone show_value zone =
     iot_request show_value ''PUT'' ''/cloud/timeZone'' (Some (PDict [(''timeZone'', PStr zone)])) None"

definition iot_update_firmware :: "(pyval \<Rightarrow> string) \<Rightarrow> pydict \<Rightarrow> pyval iot_action" where
  "iot_update_firmware show_value settings =
     iot_request show_value ''PUT'' ''/cloud/os'' (Some (PDict settings)) None"

section \<open>Choosing the adapter\<close>

datatype zebra_api = Zebra_RM | Zebra_IoT

definition zebra_reader_manager :: "string \<Rightarrow> string \<Rightarrow> zebra_api res" where
  "zebra_reader_manager model api =
    (let normalized = zebra_model_name model; choice = lower api;
         choice = (if choice = ''auto'' then if normalized = ''FXR90'' then ''iot'' else ''rm'' else choice)
     in if choice = ''rm'' then bindE (raise_if (zebra_model_name normalized \<notin> RM_MODELS) ValueError) (\<lambda>_. Inr Zebra_RM)
        else if choice = ''iot'' then bindE (raise_if (zebra_model_name normalized \<notin> IOT_MODELS) ValueError) (\<lambda>_. Inr Zebra_IoT)
        else Inl ValueError)"

end
