(* ===== verification/Intermec_Management.thy ===== *)
theory Intermec_Management
  imports Reader_Management "HOL-Library.List_Lexorder" "HOL-Library.Char_ord"
begin

text \<open>
  The SOAP adapter of \<^verbatim>\<open>sllurp/intermec_management.py\<close>: discovery of operations and endpoint from
  the WSDL document a reader serves, SOAP envelopes, and calls.
\<close>

definition WSDL_NS :: string where "WSDL_NS = ''http://schemas.xmlsoap.org/wsdl/''"

definition SOAP11_BINDING_NS :: string where "SOAP11_BINDING_NS = ''http://schemas.xmlsoap.org/wsdl/soap/''"

definition SOAP12_BINDING_NS :: string where "SOAP12_BINDING_NS = ''http://schemas.xmlsoap.org/wsdl/soap12/''"

definition SOAP11_ENV_NS :: string where "SOAP11_ENV_NS = ''http://schemas.xmlsoap.org/soap/envelope/''"

definition SOAP12_ENV_NS :: string where "SOAP12_ENV_NS = ''http://www.w3.org/2003/05/soap-envelope''"

definition INTERMEC_DCWS_MODELS :: "string set" where
  "INTERMEC_DCWS_MODELS = {''IF1'', ''IF2'', ''IF61''}"

record soap_operation =
  op_name :: string
  soap_action :: "string option"
  input_element :: string

definition intermec_model_name :: "string \<Rightarrow> string" where
  "intermec_model_name model = filter is_alnum (upper model)"

definition soap_local_name :: "string \<Rightarrow> string" where
  "soap_local_name v = (if CHR ''}'' \<in> set v then after_last (CHR ''}'') v else after_last (CHR '':'') v)"

definition in_ns :: "string \<Rightarrow> string \<Rightarrow> string" where
  "in_ns ns name = ''{'' @ ns @ ''}'' @ name"

definition plain_ns :: "string \<Rightarrow> string \<Rightarrow> string" where
  "plain_ns ns name = (if ns \<noteq> [] then in_ns ns name else name)"

definition soap_key :: "string \<Rightarrow> bool" where
  "soap_key k \<longleftrightarrow> CHR ''}'' \<notin> set k \<and> CHR '':'' \<notin> set k"

lemma after_last_name: "c \<notin> set k \<Longrightarrow> after_last c (prefix @ c # k) = k"
  using before_after [of c "rev k" "rev prefix"] by (simp add: after_last_def)

lemma after_last_absent: "c \<notin> set k \<Longrightarrow> after_last c k = k"
  unfolding after_last_def before_def by (subst takeWhile_eq_all_conv [THEN iffD2]) auto

lemma soap_local_plain: "soap_key k \<Longrightarrow> soap_local_name (plain_ns ns k) = k"
  using after_last_name [of "CHR ''}''" k "CHR ''{'' # ns"]
  by (auto simp: soap_key_def soap_local_name_def plain_ns_def in_ns_def after_last_absent)

interpretation soap_xml: xml_names "plain_ns ns" soap_local_name soap_key for ns
  by unfold_locales (rule soap_local_plain)

section \<open>The WSDL document\<close>

text \<open>\<open>find\<close>, \<open>findall\<close> and \<open>attrib.get\<close>.\<close>

definition find_child :: "xml \<Rightarrow> string \<Rightarrow> xml option" where
  "find_child e t = find (\<lambda>c. tag c = t) (children e)"

definition find_children :: "xml \<Rightarrow> string \<Rightarrow> xml list" where
  "find_children e t = filter (\<lambda>c. tag c = t) (children e)"

definition attribute :: "xml \<Rightarrow> string \<Rightarrow> string option" where
  "attribute e a = dict_get (attrib e) a"

definition wsdl_messages :: "xml \<Rightarrow> (string \<times> string) list" where
  "wsdl_messages doc = fold (\<lambda>m d.
     case (attribute m ''name'', find_child m (in_ns WSDL_NS ''part'')) of
       (Some name, Some part) \<Rightarrow>
         let element_name = (if given (attribute part ''element'') then attribute part ''element'' else attribute part ''name'')
         in if name \<noteq> [] \<and> given element_name then dict_set d name (soap_local_name (the element_name)) else d
     | _ \<Rightarrow> d) (find_children doc (in_ns WSDL_NS ''message'')) []"

definition port_type_inputs :: "xml \<Rightarrow> (string \<times> string) list" where
  "port_type_inputs doc = fold (\<lambda>oper d.
     case (attribute oper ''name'', find_child oper (in_ns WSDL_NS ''input'')) of
       (Some name, Some input) \<Rightarrow>
         if name \<noteq> [] \<and> given (attribute input ''message'')
         then dict_set d name (case dict_get (wsdl_messages doc) (soap_local_name (the (attribute input ''message''))) of
             Some e \<Rightarrow> e | None \<Rightarrow> name)
         else d
     | _ \<Rightarrow> d)
     (concat (map (\<lambda>pt. find_children pt (in_ns WSDL_NS ''operation'')) (find_children doc (in_ns WSDL_NS ''portType'')))) []"

text \<open>The first port with a SOAP address: address, version, and the name of its binding.\<close>

definition port_address :: "xml \<Rightarrow> (xml \<times> string \<times> string) option" where
  "port_address port =
    (let binding_name = soap_local_name (case attribute port ''binding'' of Some b \<Rightarrow> b | None \<Rightarrow> []) in
     case find_child port (in_ns SOAP11_BINDING_NS ''address'') of
       Some a \<Rightarrow> Some (a, ''1.1'', binding_name)
     | None \<Rightarrow> map_option (\<lambda>a. (a, ''1.2'', binding_name)) (find_child port (in_ns SOAP12_BINDING_NS ''address'')))"

definition select_address :: "xml \<Rightarrow> (xml \<times> string \<times> string) option" where
  "select_address doc =
    (case List.map_filter port_address (concat (map (\<lambda>s. find_children s (in_ns WSDL_NS ''port''))
       (find_children doc (in_ns WSDL_NS ''service'')))) of [] \<Rightarrow> None | a # _ \<Rightarrow> Some a)"

text \<open>The binding of that port, or the first one; and the SOAP version.\<close>

definition select_binding :: "xml \<Rightarrow> xml option \<times> string" where
  "select_binding doc =
    (let bindings = find_children doc (in_ns WSDL_NS ''binding'');
         version = (case select_address doc of Some (_, v, _) \<Rightarrow> v | None \<Rightarrow> ''1.1'');
         named = (case select_address doc of
             Some (_, _, n) \<Rightarrow> if n \<noteq> [] then find (\<lambda>b. attribute b ''name'' = Some n) bindings else None
           | None \<Rightarrow> None)
     in case named of Some b \<Rightarrow> (Some b, version)
        | None \<Rightarrow> (case bindings of [] \<Rightarrow> (None, version)
            | b # _ \<Rightarrow> (Some b, if find_child b (in_ns SOAP12_BINDING_NS ''binding'') \<noteq> None then ''1.2'' else version)))"

text \<open>Only the path of an advertised endpoint is taken over, so that the host stays.\<close>

definition endpoint_of :: "string \<Rightarrow> string option res" where
  "endpoint_of location = bindE (urlparse [] location) (\<lambda>parsed. Inr
    (if scheme parsed \<noteq> [] \<and> netloc parsed \<noteq> []
     then Some ((if path parsed = [] then ''/'' else path parsed) @ (if query parsed \<noteq> [] then ''?'' @ query parsed else []))
     else if location \<noteq> [] then Some location else None))"

definition wsdl_operations :: "xml \<Rightarrow> (string \<times> soap_operation) list" where
  "wsdl_operations doc = (case select_binding doc of
     (None, _) \<Rightarrow> []
   | (Some b, version) \<Rightarrow>
       let soap_ns = (if version = ''1.2'' then SOAP12_BINDING_NS else SOAP11_BINDING_NS) in
       fold (\<lambda>oper d. case attribute oper ''name'' of
           None \<Rightarrow> d
         | Some name \<Rightarrow> if name = [] then d else dict_set d name
             \<lparr>op_name = name,
              soap_action = (case find_child oper (in_ns soap_ns ''operation'') of
                 None \<Rightarrow> None | Some so \<Rightarrow> attribute so ''soapAction''),
              input_element = (case dict_get (port_type_inputs doc) name of Some e \<Rightarrow> e | None \<Rightarrow> name)\<rparr>)
         (find_children b (in_ns WSDL_NS ''operation'')) [])"

section \<open>The manager\<close>

record intermec_manager =
  dcws_model :: string
  dcws_transport :: http_manager
  wsdl_path :: string
  endpoint_path :: "string option"
  target_namespace :: string
  soap_version :: string
  operations :: "(string \<times> soap_operation) list"
  wsdl :: "bytes option"

type_synonym 'a dcws_action = "(intermec_manager, 'a) act"

definition dcws_request :: "string \<Rightarrow> string \<Rightarrow> payload option \<Rightarrow> (string \<times> string) list \<Rightarrow> http_response dcws_action" where
  "dcws_request method p data extra s =
    (case request method p None data extra (dcws_transport s) of (x, m) \<Rightarrow> (x, s\<lparr>dcws_transport := m\<rparr>))"

definition refresh_wsdl :: "(string \<times> soap_operation) list dcws_action" where
  "refresh_wsdl = readA (\<lambda>s. bindA (dcws_request ''GET'' (wsdl_path s) None []) (\<lambda>response.
    case decoded_xml response of
      None \<Rightarrow> throwA ReaderManagementError
    | Some doc \<Rightarrow>
      if soap_local_name (tag doc) \<noteq> ''definitions'' then throwA ReaderManagementError
      else thenA (modifyA (\<lambda>s. s\<lparr>wsdl := Some (body response),
          target_namespace := (case attribute doc ''targetNamespace'' of Some n \<Rightarrow> n | None \<Rightarrow> [])\<rparr>))
        (thenA (case select_address doc of
            Some (a, _, _) \<Rightarrow> readA (\<lambda>s. if endpoint_path s \<noteq> None then retA ()
              else bindA (liftA (endpoint_of (case attribute a ''location'' of Some l \<Rightarrow> l | None \<Rightarrow> [])))
                (\<lambda>e. case e of None \<Rightarrow> retA () | Some e \<Rightarrow> modifyA (\<lambda>s. s\<lparr>endpoint_path := Some e\<rparr>)))
          | None \<Rightarrow> retA ())
        (thenA (modifyA (\<lambda>s. s\<lparr>soap_version := snd (select_binding doc), operations := wsdl_operations doc\<rparr>))
          (retA (wsdl_operations doc))))))"

definition new_intermec :: "string \<Rightarrow> http_args \<Rightarrow> string \<Rightarrow> string \<Rightarrow> string option \<Rightarrow> bool \<Rightarrow> http_outcome list \<Rightarrow> intermec_manager res" where
  "new_intermec url a model wsdl_p endpoint load_wsdl script =
    bindE (raise_if (intermec_model_name model \<notin> INTERMEC_DCWS_MODELS) ValueError) (\<lambda>_.
    bindE (new_http_manager url (a\<lparr>arg_bearer_token := None, arg_headers := []\<rparr>) script) (\<lambda>m.
    let s = \<lparr>dcws_model = intermec_model_name model, dcws_transport = m, wsdl_path = wsdl_p, endpoint_path = endpoint,
             target_namespace = [], soap_version = ''1.1'', operations = [], wsdl = None\<rparr>
    in if load_wsdl then (case refresh_wsdl s of (Inl e, _) \<Rightarrow> Inl e | (Inr _, s) \<Rightarrow> Inr s) else Inr s))"

definition list_operations :: "intermec_manager \<Rightarrow> string list" where
  "list_operations s = sort (map fst (operations s))"

definition get_operation :: "string \<Rightarrow> soap_operation dcws_action" where
  "get_operation name = readA (\<lambda>s. case dict_get (operations s) name of
     None \<Rightarrow> throwA ReaderManagementError | Some op \<Rightarrow> retA op)"

section \<open>Calls\<close>

text \<open>As \<open>append_value\<close> of Zebra, but \<open>None\<close> leaves the text empty as well.\<close>

definition envelope :: "intermec_manager \<Rightarrow> soap_operation \<Rightarrow> settings \<Rightarrow> xml" where
  "envelope s op parameters =
    (let env_ns = (if soap_version s = ''1.2'' then SOAP12_ENV_NS else SOAP11_ENV_NS); ns = plain_ns (target_namespace s) in
     Element (in_ns env_ns ''Envelope'') [] [] [Element (in_ns env_ns ''Body'') [] []
       [Element (ns (input_element op)) [] [] (append_settings ns parameters)]])"

definition soap_headers :: "intermec_manager \<Rightarrow> soap_operation \<Rightarrow> (string \<times> string) list" where
  "soap_headers s op =
    (let q = [char_of (34::nat)] in
     if soap_version s = ''1.2''
     then [(''Content-Type'', ''application/soap+xml; charset=utf-8'' @
             (if given (soap_action op) then ''; action='' @ q @ the (soap_action op) @ q else [])),
           (''Accept'', ''application/soap+xml'')]
     else [(''Content-Type'', ''text/xml; charset=utf-8''), (''Accept'', ''text/xml'')] @
       (case soap_action op of None \<Rightarrow> [] | Some a \<Rightarrow> [(''SOAPAction'', q @ a @ q)]))"

definition soap_body :: "http_response \<Rightarrow> xml res" where
  "soap_body response = (case decoded_xml response of
     None \<Rightarrow> Inl ReaderManagementError
   | Some doc \<Rightarrow> (case find (\<lambda>n. soap_local_name (tag n) = ''Body'') (iter doc) of
       None \<Rightarrow> Inl ReaderManagementError
     | Some b \<Rightarrow> if list_ex (\<lambda>n. soap_local_name (tag n) = ''Fault'') (children b) then Inl ReaderManagementError else Inr b))"

definition call_raw :: "string \<Rightarrow> settings \<Rightarrow> xml dcws_action" where
  "call_raw name parameters = bindA (get_operation name) (\<lambda>op. readA (\<lambda>s.
    if \<not> given (endpoint_path s) then throwA ReaderManagementError
    else bindA (dcws_request ''POST'' (the (endpoint_path s)) (Some (Xml_Payload (envelope s op parameters))) (soap_headers s op))
      (\<lambda>response. liftA (soap_body response))))"

definition soap_value :: "xml \<Rightarrow> xml_value option" where
  "soap_value b = (case children b of
     [] \<Rightarrow> None
   | [e] \<Rightarrow> Some (element_value soap_local_name e)
   | es \<Rightarrow> Some (X_Map (dict_update [] (map (\<lambda>e. (soap_local_name (tag e), element_value soap_local_name e)) es))))"

definition dcws_call :: "string \<Rightarrow> settings \<Rightarrow> xml_value option dcws_action" where
  "dcws_call name parameters = bindA (call_raw name parameters) (\<lambda>b. retA (soap_value b))"

end
