(* ===== verification/Reader_Profiles.thy ===== *)
theory Reader_Profiles
  imports Url_Parse
begin

text \<open>
  The table of reader families of \<^verbatim>\<open>sllurp/readers.py\<close> and the lookups by model or family name.
\<close>

definition LLRP_PORT :: int where "LLRP_PORT = 5084"

definition SECURE_LLRP_PORT :: int where "SECURE_LLRP_PORT = 5085"

record reader_profile =
  profile_key :: string
  vendor :: string
  family :: string
  models :: "string list"
  aliases :: "string list"
  profile_version :: "string option"
  secure_llrp :: "bool option"
  llrp_port :: int
  secure_llrp_port :: "int option"
  profile_notes :: string

definition all_names :: "reader_profile \<Rightarrow> string list" where
  "all_names p = models p @ aliases p"

text \<open>Every entry of the table leaves the ports at their defaults.\<close>

definition profile :: "string \<Rightarrow> string \<Rightarrow> string \<Rightarrow> string list \<Rightarrow> string list \<Rightarrow> string option \<Rightarrow> bool option \<Rightarrow> string \<Rightarrow>
    reader_profile" where
  "profile key vend fam ms als version secure text =
    \<lparr>profile_key = key, vendor = vend, family = fam, models = ms, aliases = als, profile_version = version,
     secure_llrp = secure, llrp_port = LLRP_PORT, secure_llrp_port = Some SECURE_LLRP_PORT, profile_notes = text\<rparr>"

definition READER_PROFILES :: "reader_profile list" where
  "READER_PROFILES = [
     profile ''zebra-fx7400'' ''Zebra/Motorola'' ''FX7400'' [''FX7400''] []
       None (Some True)
       (''Zebra Reader Management get/setLLRPConfig exposes IsSecure and ValidatePeerInSecureMode '' @
       ''for FX7400. Secure port is configurable.''),
     profile ''zebra-fx7500'' ''Zebra'' ''FX7500'' [''FX7500''] []
       None (Some True)
       ''Zebra documents Secure LLRP/TLS; encrypted LLRP uses port 5085 by default.'',
     profile ''zebra-fx9500'' ''Zebra/Motorola'' ''FX9500'' [''FX9500''] []
       None (Some True)
       (''Zebra Reader Management get/setLLRPConfig exposes IsSecure and ValidatePeerInSecureMode '' @
       ''for FX9500. Secure port is configurable.''),
     profile ''zebra-fx9600'' ''Zebra'' ''FX9600'' [''FX9600''] []
       None (Some True)
       ''Zebra documents Secure LLRP/TLS; encrypted LLRP uses port 5085 by default.'',
     profile ''zebra-atr7000'' ''Zebra'' ''ATR7000'' [''ATR7000''] []
       None (Some True)
       ''Zebra documents Secure LLRP/TLS and Reader Management secure-mode controls.'',
     profile ''zebra-fxr90'' ''Zebra'' ''FXR90'' [''FXR90'', ''FXR90-4'', ''FXR90-8''] []
       None None
       (''Standard LLRP is supported. sllurp'' @ [char_of (39::nat)] @ ''s TLS transport can be used when the installed FXR90 '' @
       ''firmware exposes LLRP over TLS; verify endpoint/port on-reader.''),
     profile ''zebra-mc3000-rfid'' ''Zebra/Motorola'' ''MC3000 RFID'' [''MC3090Z'', ''MC319Z''] []
       None None
       ''Zebra documents LLRP custom extensions for the MC3000 RFID series.'',
     profile ''zebra-mc9000-rfid'' ''Zebra/Motorola'' ''MC9000 RFID'' [''MC9090'', ''MC9190-Z'', ''MC919Z''] [''MC9190Z'']
       None None
       ''Zebra documents LLRP custom extensions for the MC9000 RFID series.'',
     profile ''impinj-speedway'' ''Impinj'' ''Speedway'' [''Speedway R220'', ''Speedway R420''] [''R220'', ''R420'']
       None (Some True)
       ''Current Impinj Speedway documentation lists TLS 1.2 for Secure LLRP.'',
     profile ''impinj-r700-series'' ''Impinj'' ''R700 Series'' [''R700'', ''R720''] [''Impinj R700'', ''Impinj R720'']
       None (Some True)
       ''R700-series LLRPS uses port 5085; supported TLS versions depend on firmware.'',
     profile ''impinj-xportal'' ''Impinj'' ''xPortal'' [''xPortal''] []
       None None
       ''LLRP-compatible Speedway-platform gateway; verify secure-LLRP support by firmware.'',
     profile ''impinj-xarray'' ''Impinj'' ''xArray'' [''xArray''] []
       None (Some True)
       ''Impinj xArray datasheet lists TLS 1.2 for Secure LLRP.'',
     profile ''impinj-xspan'' ''Impinj'' ''xSpan'' [''xSpan''] []
       None (Some True)
       ''Impinj xSpan datasheet lists TLS 1.2 for Secure LLRP.'',
     profile ''impinj-speedway-r1000'' ''Impinj'' ''Speedway R1000'' [''Speedway R1000''] [''R1000'']
       None None
       ''Legacy sllurp-supported reader; secure LLRP not verified for this generation.'',
     profile ''honeywell-intermec-if2'' ''Honeywell/Intermec'' ''IF2'' [''IF2''] []
       (Some ''1.0.1'') (Some True)
       ''IF2 exposes unencrypted LLRP on 5084 and secure LLRP/TLS on 5085.'',
     profile ''honeywell-intermec-if61'' ''Honeywell/Intermec'' ''IF61'' [''IF61''] []
       (Some ''1.0.1'') (Some True)
       ''Intermec LLRP implementation documents TLS on IANA port 5085 for IF61.'',
     profile ''thingmagic-izar-sargas'' ''JADAK ThingMagic'' ''Network Readers'' [''IZAR'', ''Sargas''] [''ThingMagic IZAR'', ''ThingMagic Sargas'']
       None None
       ''ThingMagic documents standard LLRP and states generic LLRP clients should work.'',
     profile ''thingmagic-mercury6'' ''JADAK ThingMagic'' ''Mercury6'' [''Mercury6'', ''M6'', ''Astra-EX''] [''Mercury 6'']
       None None
       ''ThingMagic documents standard LLRP support; secure LLRP not verified.'',
     profile ''alien-alr9900plus'' ''Alien Technology'' ''ALR-9900+'' [''ALR-9900+'', ''ALR-9900+EMA''] []
       (Some ''1.1'') None
       ''Alien documents LLRP 1.1 support for the ALR-9900+ family.'']"

definition normalize_name :: "string \<Rightarrow> string" where
  "normalize_name name = filter is_alnum (lower name)"

definition lookup_names :: "reader_profile \<Rightarrow> string list" where
  "lookup_names p = profile_key p # family p # all_names p"

definition PROFILE_BY_NAME :: "(string \<times> reader_profile) list" where
  "PROFILE_BY_NAME = concat (map (\<lambda>p. map (\<lambda>name. (normalize_name name, p)) (lookup_names p)) READER_PROFILES)"

text \<open>A later entry of the comprehension replaces an earlier one of the same name.\<close>

definition get_reader_profile :: "string \<Rightarrow> reader_profile option" where
  "get_reader_profile name = map_of (rev PROFILE_BY_NAME) (normalize_name name)"

definition iter_reader_profiles :: "bool \<Rightarrow> reader_profile list" where
  "iter_reader_profiles secure_only = filter (\<lambda>p. secure_only \<longrightarrow> secure_llrp p = Some True) READER_PROFILES"

definition supports_secure_llrp :: "string \<Rightarrow> bool option" where
  "supports_secure_llrp name = (case get_reader_profile name of None \<Rightarrow> None | Some p \<Rightarrow> secure_llrp p)"

definition default_llrp_port :: "bool \<Rightarrow> int" where
  "default_llrp_port secure = (if secure then SECURE_LLRP_PORT else LLRP_PORT)"

section \<open>Lookups\<close>

definition profile_names :: "reader_profile \<Rightarrow> string list" where
  "profile_names p = remdups (map normalize_name (lookup_names p))"

lemma names_apart: "distinct (concat (map profile_names READER_PROFILES))"
  by code_simp

lemma owner_unique:
  "distinct (concat (map h ps)) \<Longrightarrow> p \<in> set ps \<Longrightarrow> q \<in> set ps \<Longrightarrow> k \<in> set (h p) \<Longrightarrow> k \<in> set (h q) \<Longrightarrow> p = q"
  by (induction ps) auto

lemma profile_found:
  assumes "p \<in> set READER_PROFILES" "name \<in> set (lookup_names p)"
  shows "get_reader_profile name = Some p"
proof -
  have mem: "(normalize_name name, p) \<in> set (rev PROFILE_BY_NAME)" using assms by (auto simp: PROFILE_BY_NAME_def)
  then obtain q where q: "get_reader_profile name = Some q"
    unfolding get_reader_profile_def by (metis weak_map_of_SomeI)
  then have "q \<in> set READER_PROFILES" "normalize_name name \<in> set (profile_names q)"
    by (auto simp: get_reader_profile_def PROFILE_BY_NAME_def profile_names_def dest!: map_of_SomeD)
  moreover have "normalize_name name \<in> set (profile_names p)" using assms(2) by (simp add: profile_names_def)
  ultimately show ?thesis using owner_unique [OF names_apart assms(1)] q by blast
qed

lemma profile_keys_distinct: "distinct (map profile_key READER_PROFILES)"
  by code_simp

lemma spelling_ignored: "normalize_name a = normalize_name b \<Longrightarrow> get_reader_profile a = get_reader_profile b"
  by (simp add: get_reader_profile_def)

text \<open>
  Every key, family, model and alias of the table, in any case and punctuation, finds its own
  profile: no name of one family hides that of another; and the listing of secure readers has
  exactly the profiles of which secure LLRP is reported as documented.
\<close>

theorem reader_profile_lookup:
  assumes "p \<in> set READER_PROFILES" "written \<in> set (lookup_names p)" "normalize_name name = normalize_name written"
  shows "get_reader_profile name = Some p \<and> supports_secure_llrp name = secure_llrp p \<and>
    (p \<in> set (iter_reader_profiles True) \<longleftrightarrow> supports_secure_llrp name = Some True)"
proof -
  have "get_reader_profile written = Some p" using profile_found assms(1,2) by simp
  then have found: "get_reader_profile name = Some p" using spelling_ignored [OF assms(3)] by simp
  then show ?thesis using assms(1) by (simp add: supports_secure_llrp_def iter_reader_profiles_def)
qed

theorem reader_profile_lookup_witness:
  "\<exists>p. get_reader_profile ''speedway-r220'' = Some p \<and> vendor p = ''Impinj'' \<and> supports_secure_llrp ''speedway-r220'' = Some True"
proof -
  let ?p = "READER_PROFILES ! 8"
  have "?p \<in> set READER_PROFILES" by (rule nth_mem) code_simp
  moreover have "''Speedway R220'' \<in> set (lookup_names ?p)" by code_simp
  moreover have "normalize_name ''speedway-r220'' = normalize_name ''Speedway R220''" by code_simp
  ultimately have found: "get_reader_profile ''speedway-r220'' = Some ?p \<and> supports_secure_llrp ''speedway-r220'' = secure_llrp ?p"
    using reader_profile_lookup by blast
  moreover have "vendor ?p = ''Impinj''" "secure_llrp ?p = Some True" by code_simp+
  ultimately show ?thesis by auto
qed

end
