(* ===== verification/Management_Factory.thy ===== *)
theory Management_Factory
  imports Zebra_Management Impinj_Management Intermec_Management Reader_Profiles
begin

text \<open>
  The client of \<^verbatim>\<open>sllurp/zebra_iot.py\<close>, a second local REST client with a transport of its own,
  and the choice of an adapter by \<^verbatim>\<open>create_reader_manager\<close> of \<^verbatim>\<open>sllurp/reader_management.py\<close>.
\<close>

section \<open>The stand-alone connector\<close>

text \<open>
  The transport has no credentials and no default headers of its own; requests and redirects are
  checked as in the management transport, failures of the network are \<open>ZebraIoTError\<close>s.
\<close>

record iot_connector =
  conn_username :: "string option"
  conn_password :: "string option"
  conn_token :: "string option"
  conn_transport :: http_manager

type_synonym 'a connector_action = "(iot_connector, 'a) act"

definition iot_error :: "py_error \<Rightarrow> py_error" where
  "iot_error e = (if e = ReaderManagementError then ZebraIoTError else e)"

definition positive_timeout :: "rat \<Rightarrow> bool" where
  "positive_timeout t \<longleftrightarrow> 0 < t"

definition new_iot_connector :: "string \<Rightarrow> string option \<Rightarrow> string option \<Rightarrow> string option \<Rightarrow> rat \<Rightarrow> http_outcome list \<Rightarrow>
    iot_connector res" where
  "new_iot_connector url user pass token timeout script =
    bindE (urlparse [] url) (\<lambda>parsed.
    bindE (raise_if (\<not> http_scheme (scheme parsed) \<or> netloc parsed = []) ValueError) (\<lambda>_.
    bindE (raise_if (has_username parsed \<or> has_password parsed) ValueError) (\<lambda>_.
    bindE (raise_if (given token \<and> (user \<noteq> None \<or> pass \<noteq> None)) ValueError) (\<lambda>_.
    bindE (raise_if ((user = None) \<noteq> (pass = None)) ValueError) (\<lambda>_.
    bindE (raise_if (\<not> positive_timeout timeout) ValueError) (\<lambda>_.
    bindE (url_origin parsed) (\<lambda>org.
    Inr \<lparr>conn_username = user, conn_password = pass, conn_token = token,
         conn_transport = \<lparr>base_url = rstrip_slashes url @ ''/'', username = None, password = None,
           bearer_token = None, default_headers = [], base_origin = org, outcomes = script, sent = [], redirects = []\<rparr>\<rparr>)))))))"

definition connector_send :: "string \<Rightarrow> string \<Rightarrow> pyval option \<Rightarrow> (string \<times> string) list \<Rightarrow> http_response connector_action" where
  "connector_send method p json_body hs c =
    (case request_url (conn_transport c) p of
       Inl e \<Rightarrow> (Inl e, c)
     | Inr u \<Rightarrow>
        (case open_request ((conn_transport c)\<lparr>sent := sent (conn_transport c) @
            [\<lparr>req_method = upper method, req_url = u, req_headers = hs, req_body = map_option Json_Payload json_body\<rparr>]\<rparr>) of
           (x, m) \<Rightarrow> (map_sum iot_error id x, c\<lparr>conn_transport := m\<rparr>)))"

definition connector_login :: "(pyval \<Rightarrow> string) \<Rightarrow> string connector_action" where
  "connector_login show_value = readA (\<lambda>c.
    if given (conn_token c) then retA (the (conn_token c))
    else case conn_username c of
      None \<Rightarrow> throwA ZebraIoTError
    | Some user \<Rightarrow>
       bindA (connector_send ''GET'' ''/cloud/localRestLogin'' None
         [(''Authorization'', ''Basic '' @ b64encode (char_codes (user @ '':'' @
            (case conn_password c of None \<Rightarrow> ''None'' | Some p \<Rightarrow> p))))]) (\<lambda>response.
       bindA (liftA (map_sum iot_error id (login_token show_value response))) (\<lambda>token.
       thenA (modifyA (\<lambda>c. c\<lparr>conn_token := Some token\<rparr>)) (retA token))))"

definition connector_request :: "(pyval \<Rightarrow> string) \<Rightarrow> string \<Rightarrow> string \<Rightarrow> pyval option \<Rightarrow> pyval connector_action" where
  "connector_request show_value method p json_body =
    bindA (connector_login show_value) (\<lambda>token.
    bindA (connector_send method p json_body ((''Authorization'', ''Bearer '' @ token) #
      (if json_body = None then [] else [(''Content-Type'', ''application/json''), (''Accept'', ''application/json'')])))
    (\<lambda>response. liftA (decode_response response)))"

definition connector_get_version :: "(pyval \<Rightarrow> string) \<Rightarrow> pyval connector_action" where
  "connector_get_version show_value = connector_request show_value ''GET'' ''/cloud/version'' None"

definition connector_get_status :: "(pyval \<Rightarrow> string) \<Rightarrow> pyval connector_action" where
  "connector_get_status show_value = connector_request show_value ''GET'' ''/cloud/status'' None"

definition connector_get_capabilities :: "(pyval \<Rightarrow> string) \<Rightarrow> pyval connector_action" where
  "connector_get_capabilities show_value = connector_request show_value ''GET'' ''/cloud/readerCapabilities'' None"

definition connector_get_hostname :: "(pyval \<Rightarrow> string) \<Rightarrow> pyval connector_action" where
  "connector_get_hostname show_value = connector_request show_value ''GET'' ''/cloud/hostname'' None"

definition connector_get_config :: "(pyval \<Rightarrow> string) \<Rightarrow> pyval connector_action" where
  "connector_get_config show_value = connector_request show_value ''GET'' ''/cloud/config'' None"

definition connector_stop :: "(pyval \<Rightarrow> string) \<Rightarrow> pyval connector_action" where
  "connector_stop show_value = connector_request show_value ''PUT'' ''/cloud/stop'' None"

definition connector_set_hostname :: "(pyval \<Rightarrow> string) \<Rightarrow> string \<Rightarrow> pyval connector_action" where
  "connector_set_hostname show_value name =
     connector_request show_value ''PUT'' ''/cloud/hostname'' (Some (PDict [(''hostname'', PStr name)]))"

definition connector_set_config :: "(pyval \<Rightarrow> string) \<Rightarrow> pydict \<Rightarrow> pyval connector_action" where
  "connector_set_config show_value settings = connector_request show_value ''PUT'' ''/cloud/config'' (Some (PDict settings))"

definition connector_start :: "(pyval \<Rightarrow> string) \<Rightarrow> bool \<Rightarrow> pyval connector_action" where
  "connector_start show_value do_not_persist_state =
     connector_request show_value ''PUT'' ''/cloud/start'' (Some (PDict [(''doNotPersistState'', PBool do_not_persist_state)]))"

section \<open>The factory\<close>

text \<open>The class the factory instantiates, with the model it hands over; the arguments are those of the class.\<close>

datatype adapter = Zebra_Adapter zebra_api | Impinj_Adapter string | Intermec_Adapter string | Generic_Adapter

definition management_model_key :: "string \<Rightarrow> string" where
  "management_model_key model = filter is_alnum (upper model)"

definition zebra_keys :: "string set" where
  "zebra_keys = {''FX7400'', ''FX7500'', ''FX9500'', ''FX9600'', ''ATR7000'', ''FXR90'', ''FXR904'', ''FXR908''}"

definition legacy_impinj :: "string set" where
  "legacy_impinj = {''R1000'', ''SPEEDWAYR1000'', ''R220'', ''SPEEDWAYR220'', ''R420'', ''SPEEDWAYR420'',
     ''XPORTAL'', ''XARRAY'', ''XSPAN''}"

definition create_reader_manager :: "string \<Rightarrow> string option \<Rightarrow> string \<Rightarrow> adapter res" where
  "create_reader_manager model vendor_name api =
    (let key = management_model_key model;
         vendor_key = strip_lower (case vendor_name of None \<Rightarrow> [] | Some v \<Rightarrow> v)
     in if key \<in> zebra_keys \<or> vendor_key \<in> {''zebra'', ''motorola''}
        then map_sum id Zebra_Adapter (zebra_reader_manager model api)
        else if key \<in> {''R700'', ''R720'', ''IMPINJR700'', ''IMPINJR720''}
        then bindE (raise_if (lower api \<notin> {''auto'', ''rest''}) ValueError) (\<lambda>_.
             bindE (raise_if (impinj_model_name model \<notin> IMPINJ_REST_MODELS) ValueError) (\<lambda>_.
             Inr (Impinj_Adapter (impinj_model_name model))))
        else if key \<in> legacy_impinj \<or> vendor_key = ''impinj'' then Inl UnsupportedReaderOperation
        else if key \<in> {''IF1'', ''IF2'', ''IF61''} \<or> vendor_key \<in> {''intermec'', ''honeywell''}
        then bindE (raise_if (lower api \<notin> {''auto'', ''dcws'', ''soap''}) ValueError) (\<lambda>_.
             bindE (raise_if (intermec_model_name model \<notin> INTERMEC_DCWS_MODELS) ValueError) (\<lambda>_.
             Inr (Intermec_Adapter (intermec_model_name model))))
        else if vendor_key \<in> {''generic'', ''http'', ''https''}
        then bindE (raise_if (lower api \<notin> {''auto'', ''generic'', ''http'', ''https''}) ValueError) (\<lambda>_. Inr Generic_Adapter)
        else Inl UnsupportedReaderOperation)"

text \<open>What the factory answers for every model of the profile table, without a vendor.\<close>

lemma known_models_dispatch:
  "list_all (\<lambda>p. list_all (\<lambda>name. case create_reader_manager name None ''auto'' of
       Inr (Zebra_Adapter _) \<Rightarrow> vendor p \<in> {''Zebra'', ''Zebra/Motorola''}
     | Inr (Impinj_Adapter _) \<Rightarrow> vendor p = ''Impinj''
     | Inr (Intermec_Adapter _) \<Rightarrow> vendor p = ''Honeywell/Intermec''
     | Inr Generic_Adapter \<Rightarrow> False
     | Inl e \<Rightarrow> e = UnsupportedReaderOperation) (models p)) READER_PROFILES"
  by code_simp

text \<open>The factory knows a Zebra model in any spelling, but the adapter it chooses strips hyphens only.\<close>

lemma spaced_model_refused:
  "management_model_key ''FX 7500'' \<in> zebra_keys \<and> create_reader_manager ''FX 7500'' None ''auto'' = Inl ValueError \<and>
   create_reader_manager ''FX-7500'' None ''auto'' = Inr (Zebra_Adapter Zebra_RM)"
  by code_simp

end
