(* ===== verification/Zebra_Sessions.thy ===== *)
theory Zebra_Sessions
  imports Zebra_Management
begin

text \<open>
  What a Reader Management client sends: numbered commands that the model supports, each with the
  session that the answer to the last successful login opened, unless the caller wants none.
\<close>

lemma open_request_sent: "sent (snd (open_request m)) = sent m"
proof (induction m rule: open_request.induct)
  case (1 m)
  show ?case
    by (subst open_request.simps) (auto simp: 1 split: list.split http_outcome.split sum.split)
qed

text \<open>A request is sent once, unless its URL is refused.\<close>

lemma request_sent:
  assumes "request method p None (Some content) extra m = (x, m')"
  shows "sent m' = sent m \<and> (\<exists>e. x = Inl e) \<or> (\<exists>q. sent m' = sent m @ [q] \<and> req_body q = Some content)"
proof (cases "request_url m p")
  case (Inl e)
  with assms show ?thesis by (auto simp: request_def act_simps)
next
  case (Inr url)
  let ?q = "\<lparr>req_method = upper method, req_url = url, req_headers = headers_for m extra, req_body = Some content\<rparr>"
  have "m' = snd (open_request (m\<lparr>sent := sent m @ [?q]\<rparr>))"
    using assms Inr by (simp add: request_def act_simps)
  then have "sent m' = sent m @ [?q]" by (simp add: open_request_sent)
  then show ?thesis by auto
qed

definition command_body :: "zebra_rm \<Rightarrow> nat \<Rightarrow> string option \<Rightarrow> string \<Rightarrow> settings \<Rightarrow> payload option" where
  "command_body r n sess name ps = Some (Xml_Payload (rm_document (dec_str n) (target_name r) sess name ps))"

definition supported :: "zebra_rm \<Rightarrow> string \<Rightarrow> bool" where
  "supported r name \<longleftrightarrow> \<not> (rm_model r = ''FX9500'' \<and> name \<in> FX9500_UNSUPPORTED)"

lemma rm_command_outcome:
  assumes "rm_command name ps b r = (x, r')"
  shows "rm_model r' = rm_model r \<and> target_name r' = target_name r \<and> session_id r' = session_id r \<and>
    (sent (transport r') = sent (transport r) \<and> (\<exists>e. x = Inl e) \<and> command_id r \<le> command_id r' \<or>
     supported r name \<and> command_id r' = Suc (command_id r) \<and> (b \<longrightarrow> given (session_id r)) \<and>
     (\<exists>q. sent (transport r') = sent (transport r) @ [q] \<and>
        req_body q = command_body r (Suc (command_id r)) (if b then session_id r else None) name ps))"
proof (cases "supported r name \<and> (b \<longrightarrow> given (session_id r))")
  case False
  then show ?thesis using assms
    by (cases "supported r name") (auto simp: rm_command_def require_supported_def command_xml_def next_command_id_def
        supported_def act_simps raise_if_def split: if_splits)
next
  case True
  let ?doc = "rm_document (dec_str (Suc (command_id r))) (target_name r) (if b then session_id r else None) name ps"
  obtain y m where req: "request ''GET'' ''/control'' None (Some (Xml_Payload ?doc))
      [(''Content-Type'', ''application/xml''), (''Accept'', ''application/xml'')] (transport r) = (y, m)" by fastforce
  have "r' = r\<lparr>command_id := Suc (command_id r), transport := m\<rparr> \<and> ((\<exists>e. y = Inl e) \<longrightarrow> (\<exists>e. x = Inl e))"
    using assms True req
    by (cases b) (auto simp: rm_command_def require_supported_def command_xml_def next_command_id_def with_transport_def
        supported_def act_simps raise_if_def split: sum.splits prod.splits)
  with request_sent [OF req] True show ?thesis by (auto simp: command_body_def)
qed

section \<open>Runs\<close>

text \<open>A call of \<open>command\<close> (with its \<open>require_session\<close>), of \<open>login\<close> or of \<open>logout\<close>.\<close>

datatype rm_input = Do_Command string settings bool | Do_Login bool | Do_Logout bool

fun rm_perform :: "rm_input \<Rightarrow> zebra_rm \<Rightarrow> zebra_rm" where
  "rm_perform (Do_Command name ps b) r = snd (rm_command name ps b r)"
| "rm_perform (Do_Login force) r = snd (rm_login force r)"
| "rm_perform (Do_Logout force) r = snd (rm_logout force r)"

definition rm_run :: "rm_input list \<Rightarrow> zebra_rm \<Rightarrow> zebra_rm" where
  "rm_run inputs r = fold rm_perform inputs r"

text \<open>What the reader answers to the command of a call, and the answers in the course of a run.\<close>

definition login_params :: "bool \<Rightarrow> zebra_rm \<Rightarrow> settings" where
  "login_params force r = [(''username'', S_Str (rm_username r)), (''password'', S_Str (rm_password r)),
     (''forceLogin'', S_Bool force)]"

fun rm_answer :: "rm_input \<Rightarrow> zebra_rm \<Rightarrow> xml_value res" where
  "rm_answer (Do_Command name ps b) r = fst (rm_command name ps b r)"
| "rm_answer (Do_Login force) r = fst (rm_command ''doLogin'' (login_params force r) False r)"
| "rm_answer (Do_Logout force) r = fst (rm_command ''doLogout'' [(''forceLogout'', S_Bool force)] True r)"

fun rm_history :: "rm_input list \<Rightarrow> zebra_rm \<Rightarrow> (rm_input \<times> xml_value res) list" where
  "rm_history [] r = []"
| "rm_history (i # is) r = (i, rm_answer i r) # rm_history is (rm_perform i r)"

text \<open>
  The session in force: that of the last login that was answered with one, unless there was a logout
  since.  A login that fails or is answered without a session leaves the session as it was.
\<close>

fun session_step :: "string option \<Rightarrow> rm_input \<times> xml_value res \<Rightarrow> string option" where
  "session_step s (Do_Logout force, answer) = None"
| "session_step s (Do_Login force, Inr (X_Map d)) = (case dict_get d ''sessionID'' of
     Some v \<Rightarrow> if value_true v then Some (str_strip (value_str v)) else s
   | None \<Rightarrow> s)"
| "session_step s x = s"

definition session_after :: "string option \<Rightarrow> (rm_input \<times> xml_value res) list \<Rightarrow> string option" where
  "session_after s h = foldl session_step s h"

lemma rm_login_eq:
  "rm_login force r = (case rm_command ''doLogin'' (login_params force r) False r of
     (Inr (X_Map d), s) \<Rightarrow> (case dict_get d ''sessionID'' of
         Some v \<Rightarrow> if value_true v then (Inr (str_strip (value_str v)), s\<lparr>session_id := Some (str_strip (value_str v))\<rparr>)
           else (Inl ReaderManagementError, s)
       | None \<Rightarrow> (Inl ReaderManagementError, s))
   | (Inr _, s) \<Rightarrow> (Inl ReaderManagementError, s)
   | (Inl e, s) \<Rightarrow> (Inl e, s))"
  by (auto simp: rm_login_def login_params_def act_simps split: prod.split sum.split xml_value.split option.split)

lemma rm_perform_session: "session_id (rm_perform i r) = session_step (session_id r) (i, rm_answer i r)"
proof (cases i)
  case (Do_Command name ps b)
  then show ?thesis using rm_command_outcome [of name ps b r] by (cases "rm_command name ps b r") simp
next
  case (Do_Login force)
  obtain x s where c: "rm_command ''doLogin'' (login_params force r) False r = (x, s)" by fastforce
  then have "session_id s = session_id r" using rm_command_outcome [OF c] by simp
  with Do_Login c show ?thesis
    by (auto simp: rm_login_eq split: sum.split xml_value.split option.split)
next
  case (Do_Logout force)
  then show ?thesis by (simp add: rm_logout_def split: prod.split)
qed

lemma rm_run_session: "session_id (rm_run inputs r) = session_after (session_id r) (rm_history inputs r)"
proof (induction inputs arbitrary: r)
  case (Cons i inputs)
  from Cons [of "rm_perform i r"] show ?case
    by (simp add: rm_run_def session_after_def rm_perform_session)
qed (simp add: rm_run_def session_after_def)

section \<open>Numbers and sessions of the requests\<close>

text \<open>The commands that a call of the run sends without a session.\<close>

definition sessionless :: "rm_input set \<Rightarrow> string \<Rightarrow> settings \<Rightarrow> bool" where
  "sessionless I name ps \<longleftrightarrow> Do_Command name ps False \<in> I \<or> name = ''doLogin'' \<and> (\<exists>force. Do_Login force \<in> I)"

text \<open>The request with this number is a supported command, and has a session unless it needs none.\<close>

definition rm_request_ok :: "rm_input set \<Rightarrow> zebra_rm \<Rightarrow> nat \<Rightarrow> http_request \<Rightarrow> bool" where
  "rm_request_ok I r n q \<longleftrightarrow> (\<exists>sess name ps. req_body q = command_body r n sess name ps \<and> supported r name \<and>
     (given sess \<or> sess = None \<and> sessionless I name ps))"

definition numbered :: "rm_input set \<Rightarrow> zebra_rm \<Rightarrow> zebra_rm \<Rightarrow> bool" where
  "numbered I r r' \<longleftrightarrow> rm_model r' = rm_model r \<and> target_name r' = target_name r \<and> command_id r \<le> command_id r' \<and>
     (\<exists>ns qs. sent (transport r') = sent (transport r) @ qs \<and> list_all2 (rm_request_ok I r) ns qs \<and> sorted_wrt (<) ns \<and>
       (\<forall>n \<in> set ns. command_id r < n \<and> n \<le> command_id r'))"

lemma request_ok_cong:
  "rm_model r' = rm_model r \<Longrightarrow> target_name r' = target_name r \<Longrightarrow> rm_request_ok I r' = rm_request_ok I r"
  by (simp add: rm_request_ok_def command_body_def supported_def fun_eq_iff)

lemma numbered_trans: "numbered I r s \<Longrightarrow> numbered I s t \<Longrightarrow> numbered I r t"
proof -
  assume r: "numbered I r s" and s: "numbered I s t"
  obtain ns qs where a: "sent (transport s) = sent (transport r) @ qs" "list_all2 (rm_request_ok I r) ns qs" "sorted_wrt (<) ns"
    "\<forall>n \<in> set ns. command_id r < n \<and> n \<le> command_id s" using r by (auto simp: numbered_def)
  obtain ms ps where b: "sent (transport t) = sent (transport s) @ ps" "list_all2 (rm_request_ok I r) ms ps" "sorted_wrt (<) ms"
    "\<forall>n \<in> set ms. command_id s < n \<and> n \<le> command_id t"
    using s request_ok_cong [of s r] r by (auto simp: numbered_def)
  have "sent (transport t) = sent (transport r) @ (qs @ ps)" "list_all2 (rm_request_ok I r) (ns @ ms) (qs @ ps)"
    using a b by (simp_all add: list_all2_appendI)
  moreover have "sorted_wrt (<) (ns @ ms)" using a(3,4) b(3,4) by (fastforce simp: sorted_wrt_append)
  moreover have "\<forall>n \<in> set (ns @ ms). command_id r < n \<and> n \<le> command_id t"
    using a(4) b(4) r s by (fastforce simp: numbered_def)
  ultimately show ?thesis using r s unfolding numbered_def by (metis order_trans)
qed

lemma numbered_session: "numbered I r s \<Longrightarrow> numbered I r (s\<lparr>session_id := x\<rparr>)"
  by (simp add: numbered_def)

lemma rm_command_numbered:
  assumes "rm_command name ps b r = (x, r')" "b \<or> sessionless I name ps"
  shows "numbered I r r'"
  using rm_command_outcome [OF assms(1)]
proof (elim conjE disjE exE)
  fix q assume *: "rm_model r' = rm_model r" "target_name r' = target_name r" "supported r name"
    "command_id r' = Suc (command_id r)" "b \<longrightarrow> given (session_id r)" "sent (transport r') = sent (transport r) @ [q]"
    "req_body q = command_body r (Suc (command_id r)) (if b then session_id r else None) name ps"
  then have "rm_request_ok I r (Suc (command_id r)) q" using assms(2)
    unfolding rm_request_ok_def by (intro exI [of _ "if b then session_id r else None"] exI [of _ name] exI [of _ ps]) auto
  with * show ?thesis
    unfolding numbered_def by (intro conjI exI [of _ "[Suc (command_id r)]"] exI [of _ "[q]"]) simp_all
next
  assume "rm_model r' = rm_model r" "target_name r' = target_name r" "sent (transport r') = sent (transport r)"
    "command_id r \<le> command_id r'"
  then show ?thesis
    unfolding numbered_def by (intro conjI exI [of _ "[]"]) simp_all
qed

lemma rm_perform_numbered: "i \<in> I \<Longrightarrow> numbered I r (rm_perform i r)"
proof (cases i)
  case (Do_Command name ps b)
  moreover assume "i \<in> I"
  ultimately have "b \<or> sessionless I name ps" by (auto simp: sessionless_def)
  with Do_Command rm_command_numbered show ?thesis by (cases "rm_command name ps b r") simp
next
  case (Do_Login force)
  assume "i \<in> I"
  with Do_Login have sl: "sessionless I ''doLogin'' (login_params force r)" by (auto simp: sessionless_def)
  obtain x s where c: "rm_command ''doLogin'' (login_params force r) False r = (x, s)" by fastforce
  have s: "numbered I r s" using rm_command_numbered [OF c] sl by blast
  have "snd (rm_login force r) = s \<or> (\<exists>y. snd (rm_login force r) = s\<lparr>session_id := y\<rparr>)"
    using c by (auto simp: rm_login_eq split: sum.split xml_value.split option.split)
  with s numbered_session [OF s] Do_Login show ?thesis by auto
next
  case (Do_Logout force)
  then show ?thesis
    by (auto simp: rm_logout_def intro!: numbered_session intro: rm_command_numbered split: prod.split)
qed

lemma rm_run_numbered: "numbered (set inputs) r (rm_run inputs r)"
proof -
  have "set inputs \<subseteq> I \<Longrightarrow> numbered I r s \<Longrightarrow> numbered I r (fold rm_perform inputs s)" for s I
  proof (induction inputs arbitrary: s)
    case (Cons i inputs)
    with Cons.IH [OF _ numbered_trans [OF Cons.prems(2) rm_perform_numbered]] show ?case by simp
  qed simp
  moreover have "numbered I r r" for I by (auto simp: numbered_def)
  ultimately show ?thesis by (simp add: rm_run_def)
qed

text \<open>
  C35. In every run of a Reader Management client, whatever the reader answers: the session in force
  is the one in the answer to the last login that had one, unless there was a logout since, even one
  that failed.  The requests sent have strictly increasing command numbers, name only commands the
  model supports, and carry a session unless they come from a login or a command that the caller
  sends without one.  At any time the next command is refused and sends nothing, or is the only
  request sent, with the next number and exactly the session in force if it requires one.
\<close>

theorem zebra_session_protocol:
  assumes "new_zebra_rm url a user pass model target script = Inr r"
  shows "session_id (rm_run inputs r) = session_after None (rm_history inputs r) \<and>
    (\<exists>ns. sorted_wrt (<) ns \<and> list_all2 (rm_request_ok (set inputs) r) ns (sent (transport (rm_run inputs r)))) \<and>
    (\<forall>name ps b. case rm_command name ps b (rm_run inputs r) of (x, r') \<Rightarrow>
       sent (transport r') = sent (transport (rm_run inputs r)) \<and> (\<exists>e. x = Inl e) \<or>
       (\<exists>q. sent (transport r') = sent (transport (rm_run inputs r)) @ [q] \<and>
          (b \<longrightarrow> given (session_after None (rm_history inputs r))) \<and>
          req_body q = command_body r (Suc (command_id (rm_run inputs r)))
            (if b then session_after None (rm_history inputs r) else None) name ps))"
proof (intro conjI allI)
  let ?r = "rm_run inputs r"
  have run: "numbered (set inputs) r ?r" by (rule rm_run_numbered)
  have new: "sent (transport r) = []" "session_id r = None"
    using assms by (auto simp: new_zebra_rm_def new_http_manager_def bindE_eq_Inr)
  show sess: "session_id ?r = session_after None (rm_history inputs r)"
    using rm_run_session [of inputs r] new(2) by simp
  show "\<exists>ns. sorted_wrt (<) ns \<and> list_all2 (rm_request_ok (set inputs) r) ns (sent (transport ?r))"
    using run new(1) by (auto simp: numbered_def)
  fix name ps b
  obtain x r' where c: "rm_command name ps b ?r = (x, r')" by fastforce
  have body: "command_body ?r = command_body r" using run by (simp add: command_body_def numbered_def fun_eq_iff)
  from rm_command_outcome [OF c] show "case rm_command name ps b ?r of (x, r') \<Rightarrow>
       sent (transport r') = sent (transport ?r) \<and> (\<exists>e. x = Inl e) \<or>
       (\<exists>q. sent (transport r') = sent (transport ?r) @ [q] \<and> (b \<longrightarrow> given (session_after None (rm_history inputs r))) \<and>
          req_body q = command_body r (Suc (command_id ?r))
            (if b then session_after None (rm_history inputs r) else None) name ps)"
    unfolding c body sess by auto
qed

definition login_answer :: http_response where
  "login_answer = \<lparr>http_status = 200, http_headers = [], body = [60], decoded_text = [], decoded_json = Inl ValueError,
     decoded_xml = Some (Element ''command'' [] [] [Element ''doLogin'' [] [] [Element ''sessionID'' [] '' 7 '' []]])\<rparr>"

theorem zebra_session_protocol_witness:
  "\<exists>r ns. new_zebra_rm ''https://reader'' no_args ''admin'' ''secret'' ''fx-9500'' ''Reader'' [Answer login_answer] = Inr r \<and>
     session_after None (rm_history [Do_Login True] r) = Some ''7'' \<and>
     list_all2 (rm_request_ok {Do_Login True, Do_Command ''getModel'' [] True} r) ns
       (sent (transport (rm_run [Do_Login True, Do_Command ''getModel'' [] True] r))) \<and>
     length ns = 2"
proof -
  let ?is = "[Do_Login True, Do_Command ''getModel'' [] True]"
  have "case new_zebra_rm ''https://reader'' no_args ''admin'' ''secret'' ''fx-9500'' ''Reader'' [Answer login_answer] of
      Inl _ \<Rightarrow> False | Inr r \<Rightarrow> session_id (rm_run [Do_Login True] r) = Some ''7'' \<and>
        length (sent (transport (rm_run [Do_Login True, Do_Command ''getModel'' [] True] r))) = 2"
    by code_simp
  then obtain r where r: "new_zebra_rm ''https://reader'' no_args ''admin'' ''secret'' ''fx-9500'' ''Reader'' [Answer login_answer] = Inr r"
    "session_id (rm_run [Do_Login True] r) = Some ''7''" "length (sent (transport (rm_run ?is r))) = 2"
    by (auto split: sum.splits)
  have "session_after None (rm_history [Do_Login True] r) = Some ''7''"
    using zebra_session_protocol [OF r(1), of "[Do_Login True]"] r(2) by simp
  moreover obtain ns where "list_all2 (rm_request_ok (set ?is) r) ns (sent (transport (rm_run ?is r)))"
    using zebra_session_protocol [OF r(1), of ?is] by blast
  ultimately show ?thesis using r by (metis list.simps(15) list_all2_lengthD set_empty)
qed

end
