(* ===== verification/Management_Theorems.thy ===== *)
theory Management_Theorems
  imports Management_Factory Zebra_Sessions
begin

text \<open>
  Properties of the management adapters that join documents, transport and endpoints: what a peer
  reads from a command, and where a service description can send the next call.
\<close>

section \<open>Documents\<close>

text \<open>Settings a document can carry: at least one, under distinct proper names.\<close>

definition writable_settings :: "(string \<Rightarrow> bool) \<Rightarrow> settings \<Rightarrow> bool" where
  "writable_settings ok ps \<longleftrightarrow> ps \<noteq> [] \<and> distinct (map fst ps) \<and> list_all (\<lambda>(k, v). ok k \<and> writable ok v) ps"

definition settings_value :: "settings \<Rightarrow> xml_value" where
  "settings_value ps = X_Map (map (\<lambda>(k, v). (k, read_back v)) ps)"

definition xml_response :: "xml \<Rightarrow> http_response" where
  "xml_response doc = \<lparr>http_status = 200, http_headers = [], body = [60], decoded_text = [], decoded_json = Inl ValueError,
     decoded_xml = Some doc\<rparr>"

text \<open>Names of the elements around a command.\<close>

definition frame_names :: "string set" where
  "frame_names = {''command'', ''id'', ''targetName'', ''readerDevice'', ''sessionID''}"

lemma rm_document_find:
  assumes "rm_key name" "name \<notin> frame_names"
  shows "find (\<lambda>e. zebra_local_name (tag e) = name) (iter (rm_document number target sess name ps)) =
    Some (Element (motor name) [] [] (append_settings motor ps))"
proof -
  have names: "zebra_local_name (ns_tag ns k) = k" if "k \<in> frame_names" for ns k
    using that by (intro rm_local_name) (auto simp: frame_names_def rm_key_def)
  show ?thesis
    using assms by (cases sess)
      (auto simp: rm_document_def names motor_def rm_local_name frame_names_def)
qed

lemma soap_body_envelope:
  assumes "soap_key (input_element op)" "input_element op \<noteq> ''Fault''"
  shows "\<exists>b. soap_body (xml_response (envelope s op ps)) = Inr b \<and>
    soap_value b = Some (element_value soap_local_name
      (Element (plain_ns (target_namespace s) (input_element op)) [] [] (append_settings (plain_ns (target_namespace s)) ps)))"
proof -
  have names: "soap_local_name (in_ns ns ''Envelope'') = ''Envelope''" "soap_local_name (in_ns ns ''Body'') = ''Body''" for ns
    by (simp_all add: in_ns_def soap_local_name_def after_last_def before_def)
  let ?op = "Element (plain_ns (target_namespace s) (input_element op)) [] []
    (append_settings (plain_ns (target_namespace s)) ps)"
  let ?env = "if soap_version s = ''1.2'' then SOAP12_ENV_NS else SOAP11_ENV_NS"
  have "soap_body (xml_response (envelope s op ps)) = Inr (Element (in_ns ?env ''Body'') [] [] [?op])"
    using assms soap_local_plain [OF assms(1)]
    by (simp add: soap_body_def xml_response_def envelope_def names Let_def)
  then show ?thesis by (simp add: soap_value_def del: element_value.simps)
qed

text \<open>
  C33. The settings of a command survive its document: a peer that looks up the command's element as
  the adapter looks up its answers, or unwraps the SOAP body as the adapter does, reads the same
  names in the same order, with every value in its text form (booleans in lower case, text stripped,
  a list of one item as the item), whatever the session, number, operation and name space.
\<close>

theorem settings_round_trip:
  assumes "rm_key name" "name \<notin> frame_names" "writable_settings rm_key ps"
    and "soap_key (input_element op)" "input_element op \<noteq> ''Fault''" "writable_settings soap_key qs"
  shows "map_option (element_value zebra_local_name)
      (find (\<lambda>e. zebra_local_name (tag e) = name) (iter (rm_document number target sess name ps))) = Some (settings_value ps) \<and>
    (\<exists>b. soap_body (xml_response (envelope s op qs)) = Inr b \<and> soap_value b = Some (settings_value qs))"
proof
  show "map_option (element_value zebra_local_name)
      (find (\<lambda>e. zebra_local_name (tag e) = name) (iter (rm_document number target sess name ps))) = Some (settings_value ps)"
    using rm_xml.settings_read_back assms(3)
    by (simp add: rm_document_find [OF assms(1,2)] writable_settings_def settings_value_def)
  show "\<exists>b. soap_body (xml_response (envelope s op qs)) = Inr b \<and> soap_value b = Some (settings_value qs)"
  proof -
    let ?e = "Element (plain_ns (target_namespace s) (input_element op)) [] [] (append_settings (plain_ns (target_namespace s)) qs)"
    obtain b where "soap_body (xml_response (envelope s op qs)) = Inr b" "soap_value b = Some (element_value soap_local_name ?e)"
      using soap_body_envelope [OF assms(4,5)] by blast
    moreover have "element_value soap_local_name ?e = settings_value qs"
      unfolding settings_value_def using assms(6) by (intro soap_xml.settings_read_back) (simp_all add: writable_settings_def)
    ultimately show ?thesis by simp
  qed
qed

theorem settings_round_trip_witness:
  "\<exists>b. soap_body (xml_response (envelope \<lparr>dcws_model = ''IF2'', dcws_transport = example_manager, wsdl_path = [],
      endpoint_path = None, target_namespace = ''urn:x'', soap_version = ''1.2'', operations = [], wsdl = None\<rparr>
      \<lparr>op_name = ''Set'', soap_action = None, input_element = ''SetRequest''\<rparr>
      [(''on'', S_Bool True), (''ports'', S_List [S_Int 1, S_Int 2]), (''net'', S_Map [(''name'', S_Str '' a '')])])) = Inr b \<and>
    soap_value b = Some (X_Map [(''on'', X_Text ''true''), (''ports'', X_List [X_Text ''1'', X_Text ''2'']),
      (''net'', X_Map [(''name'', X_Text ''a'')])])"
proof -
  let ?qs = "[(''on'', S_Bool True), (''ports'', S_List [S_Int 1, S_Int 2]), (''net'', S_Map [(''name'', S_Str '' a '')])]"
  have v: "settings_value ?qs = X_Map [(''on'', X_Text ''true''), (''ports'', X_List [X_Text ''1'', X_Text ''2'']),
      (''net'', X_Map [(''name'', X_Text ''a'')])]" by code_simp
  show ?thesis unfolding v [symmetric]
    by (rule settings_round_trip [THEN conjunct2, of "''setName''" "[(''name'', S_Str ''r'')]"]; code_simp)
qed

section \<open>Endpoints from a service description\<close>

text \<open>
  An absolute URL of plain parts: scheme, host, and a path or nothing.  Plain characters have no
  meaning in URLs other than that of a letter.
\<close>

definition plain_char :: "char \<Rightarrow> bool" where
  "plain_char c \<longleftrightarrow> \<not> control_or_space c \<and> c \<notin> set ''?#;[]''"

definition plain_host :: "string \<Rightarrow> bool" where
  "plain_host n \<longleftrightarrow> n \<noteq> [] \<and> list_all plain_char n \<and> CHR ''/'' \<notin> set n"

definition plain_rest :: "string \<Rightarrow> bool" where
  "plain_rest p \<longleftrightarrow> list_all plain_char p \<and> (p = [] \<or> hd p = CHR ''/'')"

definition absolute :: "string \<Rightarrow> string \<Rightarrow> string \<Rightarrow> string" where
  "absolute sch host rest = sch @ ''://'' @ host @ rest"

lemma http_scheme_cases:
  assumes "http_scheme s" obtains "s = ''http''" | "s = ''https''"
  using assms by (auto simp: http_scheme_def)

lemma plain_char_safe:
  assumes "plain_char c"
  shows "\<not> control_or_space c" "\<not> unsafe_char c" "c \<notin> set ''?#;[]''"
  using assms by (auto simp: plain_char_def control_or_space_def unsafe_char_def simp del: list.set)

lemma plain_clean:
  assumes "list_all plain_char url"
  shows "clean_url url = url"
proof -
  have c: "\<not> control_or_space c" "\<not> unsafe_char c" if "c \<in> set url" for c
    using assms that plain_char_safe(1,2) by (simp_all add: list_all_iff)
  then have "dropWhile control_or_space url = url" by (cases url) auto
  with c show ?thesis by (simp add: clean_url_def)
qed

lemma scheme_plain: "http_scheme s \<Longrightarrow> list_all plain_char s" "plain_char (CHR '':'')" "plain_char (CHR ''/'')"
proof -
  have "list_all plain_char ''http''" "list_all plain_char ''https''" by code_simp+
  then show "http_scheme s \<Longrightarrow> list_all plain_char s" by (elim http_scheme_cases) simp_all
  show "plain_char (CHR '':'')" "plain_char (CHR ''/'')" by code_simp+
qed

lemma plain_host_facts:
  assumes "plain_host n"
  shows "list_all host_char n" "netloc_ok n" "list_all (\<lambda>c. \<not> unsafe_char c) n"
proof -
  have n: "plain_char c" "c \<noteq> CHR ''/''" if "c \<in> set n" for c
    using assms that by (auto simp: plain_host_def list_all_iff)
  show "list_all (\<lambda>c. \<not> unsafe_char c) n" using plain_char_safe(2) [OF n(1)] by (simp add: list_all_iff)
  show "list_all host_char n" using plain_char_safe(3) [OF n(1)] n(2) by (simp add: list_all_iff host_char_def)
  have "CHR ''['' \<notin> set n" "CHR '']'' \<notin> set n" using plain_char_safe(3) [OF n(1)] by auto
  then show "netloc_ok n" by (simp add: netloc_ok_def)
qed

lemma absolute_plain:
  "http_scheme s \<Longrightarrow> plain_host n \<Longrightarrow> list_all plain_char rest \<Longrightarrow> list_all plain_char (absolute s n rest)"
  using scheme_plain by (simp add: absolute_def plain_host_def)

lemma urlparse_absolute:
  assumes "http_scheme s" "plain_host n" "list_all plain_char rest" "rest = [] \<or> hd rest = CHR ''/''"
  shows "\<exists>u. urlparse d (absolute s n rest) = Inr u \<and> scheme u = s \<and> netloc u = n"
proof -
  have "clean_url (absolute s n rest) = s @ ''://'' @ n @ rest"
    using plain_clean [OF absolute_plain [OF assms(1-3)]] by (simp add: absolute_def)
  from urlparse_authority [OF this http_scheme_text(1-3) [OF assms(1)] plain_host_facts(1,2) [OF assms(2)]]
  show ?thesis using assms(4) http_scheme_text(4) [OF assms(1)] by (auto simp: host_char_def)
qed

text \<open>The path of such a URL is all that follows the host.\<close>

lemma urlparse_absolute_path:
  assumes "http_scheme s" "plain_host n" "list_all plain_char rest" "rest = [] \<or> hd rest = CHR ''/''"
    and "urlparse d (absolute s n rest) = Inr u"
  shows "path u = rest" "query u = []"
proof -
  have no: "c \<notin> set rest" if "c \<in> set ''?#;''" for c
    using assms(3) that by (auto simp: list_all_iff plain_char_def)
  have before: "before c rest = rest" "after c rest = []" if "c \<in> set ''?#;''" for c
  proof -
    show "before c rest = rest" unfolding before_def
      by (subst takeWhile_eq_all_conv [THEN iffD2]) (use no [OF that] in auto)
    then show "after c rest = []" by (simp add: after_def)
  qed
  have "\<not> scheme_char (CHR '':'')" by (simp add: scheme_char_def is_alnum_def is_alpha_def is_decimal_def)
  then have "CHR '':'' \<notin> set s" using http_scheme_text(3) [OF assms(1)] by (auto simp: list_all_iff)
  then have split: "split_scheme d (clean_url (absolute s n rest)) = (s, ''//'' @ n @ rest)"
    using before_after [of "CHR '':''" s "''//'' @ n @ rest"] http_scheme_text [OF assms(1)]
      plain_clean [OF absolute_plain [OF assms(1-3)]]
    by (simp add: split_scheme_def absolute_def Let_def)
  have drop: "dropWhile host_char (n @ rest) = rest"
    using plain_host_facts(1) [OF assms(2)] assms(4)
    by (cases rest) (auto simp: list_all_iff host_char_def dropWhile_append)
  have "set (after_last (CHR ''/'') rest) \<subseteq> set rest" by (auto simp: after_last_def before_def dest: set_takeWhileD)
  then have "CHR '';'' \<notin> set (after_last (CHR ''/'') rest)" using no [of "CHR '';''"] by auto
  then have params: "split_params rest = (rest, [])" by (simp add: split_params_def)
  have two: "take 2 (''//'' @ n @ rest) = ''//''" "drop 2 (''//'' @ n @ rest) = n @ rest" by simp_all
  have cut: "before (CHR ''#'') rest = rest" "before (CHR ''?'') rest = rest" "after (CHR ''?'') rest = []"
    by (rule before; simp)+
  have "parse_rest s (''//'' @ n @ rest) = Inr u"
    using assms(5) unfolding urlparse_def split by simp
  then show "path u = rest" "query u = []"
    unfolding parse_rest_def Let_def two drop by (auto simp: cut params split: if_splits)
qed

text \<open>What the manager keeps of an advertised address whose path is itself an absolute URL.\<close>

lemma endpoint_hides_url:
  assumes "http_scheme s" "plain_host n" "http_scheme t" "plain_host h" "plain_rest p"
  shows "endpoint_of (absolute s n (''/'' @ absolute t h p)) = Inr (Some (''/'' @ absolute t h p))"
proof -
  let ?rest = "''/'' @ absolute t h p"
  have pl: "list_all plain_char ?rest"
    using absolute_plain [OF assms(3,4)] assms(5) scheme_plain(3) by (simp add: plain_rest_def)
  obtain u where u: "urlparse [] (absolute s n ?rest) = Inr u" "scheme u = s" "netloc u = n"
    using urlparse_absolute [OF assms(1,2) pl, of "[]"] by auto
  have "path u = ?rest" "query u = []" using urlparse_absolute_path [OF assms(1,2) pl _ u(1)] by simp_all
  with u http_scheme_text(1) [OF assms(1)] assms(2) show ?thesis by (simp add: endpoint_of_def plain_host_def)
qed

text \<open>The check of \<open>_url\<close> sees a path; joined to the base URL, the hidden URL replaces it.\<close>

lemma hidden_url_wins:
  assumes "managed m" "http_scheme t" "plain_host h" "plain_rest p"
  shows "\<exists>url v. request_url m (''/'' @ absolute t h p) = Inr url \<and> urlparse [] url = Inr v \<and>
    scheme v = t \<and> netloc v = h"
proof -
  let ?T = "absolute t h p"
  have pl: "list_all plain_char ?T" "p = [] \<or> hd p = CHR ''/''" "list_all plain_char p"
    using absolute_plain [OF assms(2,3)] assms(4) by (simp_all add: plain_rest_def)
  have hd: "?T \<noteq> []" "hd ?T \<noteq> CHR ''/''"
    using assms(2) by (auto simp: http_scheme_def absolute_def)
  have clean: "clean_url (''/'' @ ?T) = ''/'' @ ?T"
    using plain_clean [of "''/'' @ ?T"] pl(1) scheme_plain(3) by simp
  have split: "split_scheme [] (''/'' @ ?T) = ([], ''/'' @ ?T)"
    by (auto simp: split_scheme_def before_def is_alpha_def Let_def)
  have part: "host_part (''/'' @ ?T) = []" using hd by (cases ?T) (auto simp: host_part_def)
  have "netloc_ok []" by (simp add: netloc_ok_def)
  then have "\<exists>u. urlparse [] (''/'' @ ?T) = Inr u \<and> scheme u = [] \<and> netloc u = host_part (''/'' @ ?T)"
    by (intro urlparse_split) (simp_all only: clean split part)
  then obtain u0 where u0: "urlparse [] (''/'' @ ?T) = Inr u0" "scheme u0 = []" "netloc u0 = []"
    unfolding part by blast
  obtain b where b: "urlparse [] (base_url m) = Inr b" "http_scheme (scheme b)" using assms(1) by (auto simp: managed_def)
  obtain u where u: "urlparse (scheme b) ?T = Inr u" "scheme u = t" "netloc u = h"
    using urlparse_absolute [OF assms(2,3) pl(3,2)] by blast
  obtain w where w: "urlparse [] ?T = Inr w" "scheme w = t" "netloc w = h"
    using urlparse_absolute [OF assms(2,3) pl(3,2)] by blast
  obtain v where v: "urlparse [] (urlunparse u) = Inr v" "scheme v = t" "netloc v = h"
    using parse_unparse [of u "[]"] u assms(2,3) plain_host_facts [OF assms(3)] by (auto simp: plain_host_def)
  have "strip_slashes (''/'' @ ?T) = ?T" using hd by (cases ?T) (simp_all add: strip_slashes_def)
  then have "request_url m (''/'' @ ?T) = urljoin (base_url m) ?T" using u0 by (simp add: request_url_def)
  also have "\<dots> = Inr (if t \<noteq> scheme b then ?T else urlunparse u)"
    using b u hd(1) http_nonempty [OF b] assms(2,3)
    by (auto simp: urljoin_def Let_def http_scheme_def uses_relative_def uses_netloc_def plain_host_def)
  finally show ?thesis using v w by auto
qed

section \<open>The next call\<close>

lemma new_intermec_endpoint:
  assumes "new_intermec url args model wsdl_p None True (Answer r # script) = Inr s"
    and "decoded_xml r = Some doc" "select_address doc = Some (a, version, binding)"
    and "attribute a ''location'' = Some location"
  shows "managed (dcws_transport s) \<and> default_headers (dcws_transport s) = [] \<and>
    endpoint_of location = Inr (endpoint_path s)"
proof -
  obtain m where m: "new_http_manager url (args\<lparr>arg_bearer_token := None, arg_headers := []\<rparr>) (Answer r # script) = Inr m"
    using assms(1) by (auto simp: new_intermec_def bindE_eq_Inr)
  let ?s0 = "\<lparr>dcws_model = intermec_model_name model, dcws_transport = m, wsdl_path = wsdl_p, endpoint_path = None,
    target_namespace = [], soap_version = ''1.1'', operations = [], wsdl = None\<rparr>"
  have run: "\<exists>x. refresh_wsdl ?s0 = (Inr x, s)"
    using assms(1) m by (auto simp: new_intermec_def bindE_eq_Inr Let_def split: prod.splits sum.splits)
  have m0: "managed m" "default_headers m = []" "outcomes m = Answer r # script"
    using new_http_manager_origin(1) [OF m] m by (auto simp: new_http_manager_def bindE_eq_Inr)
  obtain u where u: "request_url m wsdl_p = Inr u"
    using run by (cases "request_url m wsdl_p") (auto simp: refresh_wsdl_def dcws_request_def request_def act_simps Let_def)
  let ?m = "m\<lparr>sent := sent m @ [\<lparr>req_method = upper ''GET'', req_url = u, req_headers = headers_for m [], req_body = None\<rparr>],
    outcomes := script\<rparr>"
  have "request ''GET'' wsdl_p None None [] m = (Inr r, ?m)"
    using u m0(3) by (simp add: request_def act_simps Let_def open_request.simps)
  then have "dcws_transport s = ?m \<and> endpoint_of location = Inr (endpoint_path s)"
    using run assms(2-4)
    by (auto simp: refresh_wsdl_def dcws_request_def act_simps split: if_splits sum.splits option.splits)
  moreover have "managed ?m" using m0(1) by (simp add: managed_def)
  ultimately show ?thesis using m0(2) by simp
qed

lemma call_raw_sends:
  assumes "dict_get (operations s) name = Some op" "endpoint_path s = Some e" "e \<noteq> []"
    and "default_headers (dcws_transport s) = []"
  shows "case request_url (dcws_transport s) e of
     Inl _ \<Rightarrow> sent (dcws_transport (snd (call_raw name ps s))) = sent (dcws_transport s)
   | Inr url \<Rightarrow> \<exists>q. sent (dcws_transport (snd (call_raw name ps s))) = sent (dcws_transport s) @ [q] \<and> req_url q = url \<and>
       dict_get (req_headers q) ''Authorization'' = dict_get (headers_for (dcws_transport s) []) ''Authorization''"
proof -
  let ?m = "dcws_transport s"
  have auth: "dict_get (headers_for ?m (soap_headers s op)) ''Authorization'' = dict_get (headers_for ?m []) ''Authorization''"
    using assms(4) by (simp add: headers_for_def soap_headers_def set_default_def dict_simps Let_def split: option.split)
  obtain x m where r: "request ''POST'' e None (Some (Xml_Payload (envelope s op ps))) (soap_headers s op) ?m = (x, m)" by fastforce
  then have t: "dcws_transport (snd (call_raw name ps s)) = m"
    using assms(1-3) by (auto simp: call_raw_def get_operation_def dcws_request_def given_def act_simps split: sum.split)
  show ?thesis
  proof (cases "request_url ?m e")
    case (Inl err)
    with r t show ?thesis by (auto simp: request_def act_simps Let_def)
  next
    case (Inr url)
    let ?q = "\<lparr>req_method = upper ''POST'', req_url = url, req_headers = headers_for ?m (soap_headers s op),
      req_body = Some (Xml_Payload (envelope s op ps))\<rparr>"
    have "m = snd (open_request (?m\<lparr>sent := sent ?m @ [?q]\<rparr>))"
      using r Inr by (simp add: request_def act_simps Let_def)
    then have "sent m = sent ?m @ [?q]" by (simp add: open_request_sent)
    with Inr t auth show ?thesis by auto
  qed
qed

text \<open>
  C34. A manager that takes its endpoint from the service description of its reader keeps only the path of
  the advertised address, so that the next call of any operation stays at the reader's origin if that
  path is an ordinary one.  But an address of the form \<open>http://reader/http://other/x\<close>, whose path is
  itself an absolute URL, sends that call, with the credentials of the reader in its \<open>Authorization\<close>
  header, to the other host: for any scheme, host and path.
\<close>

theorem wsdl_redirects_credentials:
  assumes "new_intermec url args model wsdl_p None True (Answer r # script) = Inr s"
    and "decoded_xml r = Some doc" "select_address doc = Some (a, version, binding)"
    and "attribute a ''location'' = Some location" "dict_get (operations s) name = Some op"
  shows "(\<forall>e q. endpoint_of location = Inr (Some e) \<and> e \<noteq> [] \<and> plain_path e \<and>
        sent (dcws_transport (snd (call_raw name ps s))) = sent (dcws_transport s) @ [q] \<longrightarrow>
      at_origin (base_origin (dcws_transport s)) (req_url q)) \<and>
    (\<forall>sch reader other_sch other rest. http_scheme sch \<and> plain_host reader \<and> http_scheme other_sch \<and>
        plain_host other \<and> plain_rest rest \<and> location = absolute sch reader (''/'' @ absolute other_sch other rest) \<longrightarrow>
      (\<exists>q v. sent (dcws_transport (snd (call_raw name ps s))) = sent (dcws_transport s) @ [q] \<and>
        urlparse [] (req_url q) = Inr v \<and> scheme v = other_sch \<and> netloc v = other \<and>
        dict_get (req_headers q) ''Authorization'' = dict_get (headers_for (dcws_transport s) []) ''Authorization''))"
proof (intro conjI allI impI; elim conjE)
  note new = new_intermec_endpoint [OF assms(1-4)]
  let ?sent = "sent (dcws_transport (snd (call_raw name ps s)))"
  {
    fix e q
    assume e: "endpoint_of location = Inr (Some e)" "e \<noteq> []" "plain_path e" "?sent = sent (dcws_transport s) @ [q]"
    then obtain u where "request_url (dcws_transport s) e = Inr u" "req_url q = u"
      using call_raw_sends [OF assms(5), of e ps] new by (auto split: sum.splits)
    with request_url_origin [OF _ e(3)] new show "at_origin (base_origin (dcws_transport s)) (req_url q)" by blast
  }
  fix sch reader other_sch other rest
  assume http: "http_scheme sch" "plain_host reader" "http_scheme other_sch" "plain_host other" "plain_rest rest"
    and loc: "location = absolute sch reader (''/'' @ absolute other_sch other rest)"
  let ?e = "''/'' @ absolute other_sch other rest"
  have "endpoint_path s = Some ?e" using new endpoint_hides_url [OF http] by (simp add: loc)
  moreover obtain u v where "request_url (dcws_transport s) ?e = Inr u" "urlparse [] u = Inr v" "scheme v = other_sch" "netloc v = other"
    using hidden_url_wins [OF _ http(3-5)] new by blast
  ultimately show "\<exists>q v. ?sent = sent (dcws_transport s) @ [q] \<and> urlparse [] (req_url q) = Inr v \<and> scheme v = other_sch \<and>
      netloc v = other \<and> dict_get (req_headers q) ''Authorization'' = dict_get (headers_for (dcws_transport s) []) ''Authorization''"
    using call_raw_sends [OF assms(5), of ?e ps] new by auto
qed

definition wsdl_document :: "string \<Rightarrow> xml" where
  "wsdl_document location = Element (in_ns WSDL_NS ''definitions'') [(''targetNamespace'', ''urn:x'')] []
      [Element (in_ns WSDL_NS ''binding'') [(''name'', ''B'')] [] [Element (in_ns WSDL_NS ''operation'') [(''name'', ''Get'')] [] []],
       Element (in_ns WSDL_NS ''service'') [] []
         [Element (in_ns WSDL_NS ''port'') [(''binding'', ''t:B'')] []
           [Element (in_ns SOAP11_BINDING_NS ''address'') [(''location'', location)] [] []]]]"

text \<open>The property for a description with such an address, whose next call goes to \<open>other.example\<close>.\<close>

theorem wsdl_redirects_credentials_witness:
  "\<exists>s q v. new_intermec ''https://reader'' (no_args\<lparr>arg_username := Some ''admin'', arg_password := Some ''secret''\<rparr>) ''IF2''
       ''/DeviceConfiguration.wsdl'' None True [Answer (xml_response (wsdl_document ''http://reader/http://other.example/x''))] = Inr s \<and>
     sent (dcws_transport (snd (call_raw ''Get'' [] s))) = sent (dcws_transport s) @ [q] \<and>
     urlparse [] (req_url q) = Inr v \<and> netloc v = ''other.example''"
proof -
  let ?l = "''http://reader/http://other.example/x''" and ?a = "no_args\<lparr>arg_username := Some ''admin'', arg_password := Some ''secret''\<rparr>"
  have "case new_intermec ''https://reader'' ?a ''IF2'' ''/DeviceConfiguration.wsdl'' None True
      [Answer (xml_response (wsdl_document ?l))] of Inl _ \<Rightarrow> False | Inr s \<Rightarrow> dict_get (operations s) ''Get'' \<noteq> None"
    by code_simp
  then obtain s op where s: "new_intermec ''https://reader'' ?a ''IF2'' ''/DeviceConfiguration.wsdl'' None True
      [Answer (xml_response (wsdl_document ?l))] = Inr s" "dict_get (operations s) ''Get'' = Some op"
    by (auto split: sum.splits)
  have "map_option (\<lambda>(a, _). attribute a ''location'') (select_address (wsdl_document ?l)) = Some (Some ?l)" by code_simp
  then obtain a ver bin where "select_address (wsdl_document ?l) = Some (a, ver, bin)" "attribute a ''location'' = Some ?l" by auto
  moreover have "http_scheme ''http'' \<and> plain_host ''reader'' \<and> http_scheme ''http'' \<and> plain_host ''other.example'' \<and>
      plain_rest ''/x'' \<and> ?l = absolute ''http'' ''reader'' (''/'' @ absolute ''http'' ''other.example'' ''/x'')" by code_simp
  moreover have "decoded_xml (xml_response (wsdl_document ?l)) = Some (wsdl_document ?l)" by (simp add: xml_response_def)
  ultimately show ?thesis
    using conjunct2 [OF wsdl_redirects_credentials [OF s(1) _ _ _ s(2), of "wsdl_document ?l" a ver bin ?l "[]"], rule_format,
        of "''http''" "''reader''" "''http''" "''other.example''" "''/x''"] s(1)
    by blast
qed

end
