(* ===== verification/Cli_Commands.thy ===== *)
theory Cli_Commands
  imports Reader_Client Util_Functions
begin

text \<open>
  The commands of \<^verbatim>\<open>sllurp/cli.py\<close>: the declared options with their types and defaults, the
  parameters of each command function, and the argument tuple it hands to its verb.  Parsing the
  command line is the work of the library \<^verbatim>\<open>click\<close>, which is not part of the sources:
  \<open>called_with\<close> is what it documents, one keyword per declared parameter, with the default or a
  value of the declared type.  A file opened for writing stands for its name, a tuple for a list.
\<close>

section \<open>Option declarations\<close>

datatype click_type =
    Integer_Option | Float_Option | Text_Option | Path_Option | File_Option | Flag_Option
  | Range_Option "int option" "int option"
  | Choice_Option "string list"

text \<open>Flags of the option, explicit parameter name, type, default, and whether it may be repeated.\<close>

datatype click_option =
  Opt (option_flags: "string list") (explicit_name: "string option") (option_type: click_type)
    (default_value: pyval) (repeatable: bool)

definition value_of_type :: "click_type \<Rightarrow> pyval \<Rightarrow> bool" where
  "value_of_type ty v = (case ty of
     Integer_Option \<Rightarrow> (case v of PInt _ \<Rightarrow> True | _ \<Rightarrow> False)
   | Float_Option \<Rightarrow> (case v of PFloat _ \<Rightarrow> True | _ \<Rightarrow> False)
   | Flag_Option \<Rightarrow> (case v of PBool _ \<Rightarrow> True | _ \<Rightarrow> False)
   | Range_Option lo hi \<Rightarrow> (case v of PInt i \<Rightarrow> (case lo of None \<Rightarrow> True | Some l \<Rightarrow> l \<le> i) \<and>
       (case hi of None \<Rightarrow> True | Some h \<Rightarrow> i \<le> h) | _ \<Rightarrow> False)
   | Choice_Option cs \<Rightarrow> (case v of PStr s \<Rightarrow> s \<in> set cs | _ \<Rightarrow> False)
   | _ \<Rightarrow> (case v of PStr _ \<Rightarrow> True | _ \<Rightarrow> False))"

text \<open>\<open>--tx-power\<close> gives the parameter \<open>tx_power\<close>: the first flag with two dashes, without them.\<close>

definition underscore :: "char \<Rightarrow> char" where
  "underscore c = (if c = CHR ''-'' then CHR ''_'' else c)"

definition long_flag :: "string list \<Rightarrow> string" where
  "long_flag flags = (case filter (\<lambda>f. take 2 f = ''--'') flags of
     f # _ \<Rightarrow> drop 2 f | [] \<Rightarrow> (case flags of f # _ \<Rightarrow> drop 1 f | [] \<Rightarrow> ''''))"

definition option_parameter :: "click_option \<Rightarrow> string" where
  "option_parameter opt = (case explicit_name opt of Some n \<Rightarrow> n
     | None \<Rightarrow> map underscore (long_flag (option_flags opt)))"

definition option_value_ok :: "click_option \<Rightarrow> pyval \<Rightarrow> bool" where
  "option_value_ok opt v \<longleftrightarrow> v = default_value opt \<or>
     (if repeatable opt then (case v of PList l \<Rightarrow> list_all (value_of_type (option_type opt)) l | _ \<Rightarrow> False)
      else value_of_type (option_type opt) v)"

definition string_list :: "pyval \<Rightarrow> bool" where
  "string_list v = (case v of PList l \<Rightarrow> list_all (\<lambda>x. case x of PStr _ \<Rightarrow> True | _ \<Rightarrow> False) l | _ \<Rightarrow> False)"

text \<open>The keywords with which \<^verbatim>\<open>click\<close> calls a command that has the argument \<open>host\<close> and these options.\<close>

definition called_with :: "click_option list \<Rightarrow> pydict \<Rightarrow> bool" where
  "called_with opts params \<longleftrightarrow>
     set (map fst params) = insert ''host'' (set (map option_parameter opts)) \<and>
     (case dict_get params ''host'' of None \<Rightarrow> False | Some v \<Rightarrow> string_list v) \<and>
     list_all (\<lambda>opt. case dict_get params (option_parameter opt) of None \<Rightarrow> False | Some v \<Rightarrow> option_value_ok opt v) opts"

text \<open>The parameters when no option is given.\<close>

definition default_parameters :: "click_option list \<Rightarrow> string list \<Rightarrow> pydict" where
  "default_parameters opts hosts =
     (''host'', PList (map PStr hosts)) # map (\<lambda>opt. (option_parameter opt, default_value opt)) opts"

definition tls_options :: "click_option list" where
  "tls_options = [Opt [''--tls''] (Some ''tls_enabled'') Flag_Option (PBool False) False,
    Opt [''--tls-verify/--tls-no-verify''] (Some ''tls_verify'') Flag_Option (PBool True) False,
    Opt [''--tls-ca-file''] None Path_Option PNone False,
    Opt [''--tls-client-cert''] None Path_Option PNone False,
    Opt [''--tls-client-key''] None Path_Option PNone False,
    Opt [''--tls-server-hostname''] None Text_Option PNone False]"

definition cli_options :: "click_option list" where
  "cli_options = [Opt [''-d'', ''--debug''] None Flag_Option (PBool False) False,
    Opt [''-l'', ''--logfile''] None Path_Option PNone False]"

definition inventory_options :: "click_option list" where
  "inventory_options = [Opt [''-p'', ''--port''] None Integer_Option PNone False,
    Opt [''-t'', ''--time''] None Float_Option PNone False,
    Opt [''--ro-report-every-n-tags''] None (Range_Option (Some 1) (Some 65535)) PNone False,
    Opt [''-n'', ''--report-every-n-tags''] None Integer_Option PNone False,
    Opt [''--dedup-seconds''] None (Range_Option (Some 1) None) PNone False,
    Opt [''--dedup-backend''] None (Choice_Option [''auto'', ''hardware'', ''memory'']) (PStr ''auto'') False,
    Opt [''-a'', ''--antennas''] None Text_Option (PStr ''1'') False,
    Opt [''-X'', ''--tx-power''] None Integer_Option (PInt 0) False,
    Opt [''-T'', ''--tari''] None Integer_Option (PInt 0) False,
    Opt [''-s'', ''--session''] None Integer_Option (PInt 2) False,
    Opt [''--mode-identifier''] None Integer_Option PNone False,
    Opt [''-P'', ''--tag-population''] None Integer_Option (PInt 4) False,
    Opt [''-r'', ''--reconnect''] None Flag_Option (PBool False) False,
    Opt [''--reconnect-retries''] None Integer_Option (PInt 5) False,
    Opt [''--tag-filter-mask''] None Text_Option (PList []) True,
    Opt [''--keepalive-interval''] None Integer_Option (PInt 60000) False,
    Opt [''--impinj-extended-configuration''] None Flag_Option (PBool False) False,
    Opt [''--impinj-search-mode''] None (Choice_Option [''1'', ''2'']) PNone False,
    Opt [''--impinj-reports''] None Flag_Option (PBool False) False,
    Opt [''-f'', ''--frequencies''] None Text_Option (PStr ''1'') False,
    Opt [''--impinj-fixed-frequency''] None Flag_Option (PBool False) False,
    Opt [''--hoptable-id''] None Integer_Option (PInt 1) False] @ tls_options"

definition log_options :: "click_option list" where
  "log_options = [Opt [''-p'', ''--port''] None Integer_Option PNone False,
    Opt [''-o'', ''--outfile''] None File_Option (PStr ''-'') False,
    Opt [''-a'', ''--antennas''] None Text_Option (PStr ''0'') False,
    Opt [''-X'', ''--tx-power''] None Integer_Option (PInt 0) False,
    Opt [''-e'', ''--epc''] None Text_Option PNone False,
    Opt [''-r'', ''--reader-timestamp''] None Flag_Option (PBool False) False,
    Opt [''-f'', ''--frequencies''] None Text_Option (PStr ''1'') False,
    Opt [''--impinj-fixed-frequency''] None Flag_Option (PBool False) False,
    Opt [''--hoptable-id''] None Integer_Option (PInt 1) False] @ tls_options"

definition access_options :: "click_option list" where
  "access_options = [Opt [''-p'', ''--port''] None Integer_Option PNone False,
    Opt [''-t'', ''--time''] None Float_Option PNone False,
    Opt [''--ro-report-every-n-tags''] None (Range_Option (Some 1) (Some 65535)) PNone False,
    Opt [''-n'', ''--report-every-n-tags''] None Integer_Option PNone False,
    Opt [''-a'', ''--antennas''] None Text_Option (PStr ''0'') False,
    Opt [''-X'', ''--tx-power''] None Integer_Option (PInt 0) False,
    Opt [''-T'', ''--tari''] None Integer_Option (PInt 0) False,
    Opt [''-s'', ''--session''] None Integer_Option (PInt 2) False,
    Opt [''--mode-identifier''] None Integer_Option PNone False,
    Opt [''-P'', ''--tag-population''] None Integer_Option (PInt 4) False,
    Opt [''-r'', ''--read-words''] None Integer_Option PNone False,
    Opt [''-w'', ''--write-words''] None Integer_Option PNone False,
    Opt [''-c'', ''--count''] None Integer_Option (PInt 0) False,
    Opt [''-mb'', ''--memory-bank''] None (Range_Option (Some 0) (Some 3)) (PInt 3) False,
    Opt [''-wp'', ''--word-ptr''] None Integer_Option (PInt 0) False,
    Opt [''-ap'', ''--access-password''] None Integer_Option (PInt 0) False,
    Opt [''-f'', ''--frequencies''] None Text_Option (PStr ''1'') False,
    Opt [''--impinj-fixed-frequency''] None Flag_Option (PBool False) False,
    Opt [''--hoptable-id''] None Integer_Option (PInt 1) False] @ tls_options"

definition reset_options :: "click_option list" where
  "reset_options = [Opt [''-p'', ''--port''] None Integer_Option PNone False] @ tls_options"

text \<open>The options that \<^verbatim>\<open>lock.py\<close> declares to \<^verbatim>\<open>argparse\<close>, with the destination where it is named.\<close>

definition lock_options :: "click_option list" where
  "lock_options = [Opt [''-p'', ''--port''] None Integer_Option (PInt LLRP_DEFAULT_PORT) False,
    Opt [''-t'', ''--time''] None Float_Option (PInt 10) False,
    Opt [''-d'', ''--debug''] None Flag_Option (PBool False) False,
    Opt [''-n'', ''--report-every-n-tags''] (Some ''every_n'') Integer_Option (PInt 1) False,
    Opt [''-a'', ''--antennas''] None Text_Option (PStr ''0'') False,
    Opt [''-X'', ''--tx-power''] (Some ''tx_power'') Integer_Option (PInt 0) False,
    Opt [''-T'', ''--tari''] None Integer_Option (PInt 0) False,
    Opt [''-s'', ''--session''] None Integer_Option (PInt 2) False,
    Opt [''--mode-identifier''] None Integer_Option PNone False,
    Opt [''-P'', ''--tag-population''] (Some ''population'') Integer_Option (PInt 4) False,
    Opt [''-c'', ''--count''] None Integer_Option (PInt 0) False,
    Opt [''-priv'', ''--privilege''] None Integer_Option (PInt 0) False,
    Opt [''-df'', ''--data-field''] (Some ''data_field'') Integer_Option (PInt 0) False,
    Opt [''-ap'', ''--access_password''] (Some ''access_password'') Integer_Option (PInt 0) False,
    Opt [''-l'', ''--logfile''] None Text_Option PNone False]"

section \<open>Arguments of the verbs\<close>

definition resolve_llrp_port :: "pyval \<Rightarrow> pyval \<Rightarrow> pyval" where
  "resolve_llrp_port explicit tls = (if explicit \<noteq> PNone then explicit
     else PInt (if py_true tls then LLRP_SECURE_PORT else LLRP_DEFAULT_PORT))"

text \<open>\<open>Args(field=value, ...)\<close> for a \<open>namedtuple\<close>; the values in the order of the fields.\<close>

definition Args :: "string list \<Rightarrow> pydict \<Rightarrow> pydict res" where
  "Args flds keywords =
    (if set (map fst keywords) \<noteq> set flds then Inl TypeError
     else mapE (\<lambda>f. bindE (py_item (PDict keywords) f) (\<lambda>v. Inr (f, v))) flds)"

text \<open>
  The body of a command function up to the call of its verb: the call checks the signature, the
  port is resolved, and each keyword names the local variable it comes from.
\<close>

definition command_args :: "string list \<Rightarrow> string list \<Rightarrow> (string \<times> string) list \<Rightarrow> pydict \<Rightarrow> pydict res" where
  "command_args signature flds keywords params =
    bindE (raise_if (set (map fst params) \<noteq> set signature) TypeError) (\<lambda>_.
    bindE (py_item (PDict params) ''port'') (\<lambda>explicit.
    bindE (py_item (PDict params) ''tls_enabled'') (\<lambda>tls.
    let locals = dict_set params ''port'' (resolve_llrp_port explicit tls) in
    bindE (mapE (\<lambda>(f, n). bindE (py_item (PDict locals) n) (\<lambda>v. Inr (f, v))) keywords) (Args flds))))"

definition inventory_signature :: "string list" where
  "inventory_signature = [''host'', ''port'', ''time'', ''ro_report_every_n_tags'', ''report_every_n_tags'',
     ''dedup_seconds'', ''dedup_backend'', ''antennas'', ''tx_power'', ''tari'', ''session'',
     ''mode_identifier'', ''tag_population'', ''reconnect'', ''reconnect_retries'', ''tag_filter_mask'',
     ''keepalive_interval'', ''impinj_extended_configuration'', ''impinj_search_mode'',
     ''impinj_reports'', ''frequencies'', ''impinj_fixed_frequency'', ''hoptable_id'', ''tls_enabled'',
     ''tls_verify'', ''tls_ca_file'', ''tls_client_cert'', ''tls_client_key'', ''tls_server_hostname'']"

definition inventory_fields :: "string list" where
  "inventory_fields = [''host'', ''port'', ''time'', ''ro_report_every_n_tags'', ''every_n'', ''dedup_seconds'',
     ''dedup_backend'', ''antennas'', ''tx_power'', ''tari'', ''session'', ''population'',
     ''mode_identifier'', ''reconnect'', ''reconnect_retries'', ''tag_filter_mask'',
     ''keepalive_interval'', ''impinj_extended_configuration'', ''impinj_search_mode'',
     ''impinj_reports'', ''frequencies'', ''impinj_fixed_frequency'', ''hoptable_id'', ''tls_enabled'',
     ''tls_verify'', ''tls_ca_file'', ''tls_client_cert'', ''tls_client_key'', ''tls_server_hostname'']"

definition inventory_keywords :: "(string \<times> string) list" where
  "inventory_keywords = [(''host'', ''host''), (''port'', ''port''), (''time'', ''time''),
     (''ro_report_every_n_tags'', ''ro_report_every_n_tags''), (''every_n'', ''report_every_n_tags''),
     (''dedup_seconds'', ''dedup_seconds''), (''dedup_backend'', ''dedup_backend''),
     (''antennas'', ''antennas''), (''tx_power'', ''tx_power''), (''tari'', ''tari''),
     (''session'', ''session''), (''population'', ''tag_population''),
     (''mode_identifier'', ''mode_identifier''), (''reconnect'', ''reconnect''),
     (''reconnect_retries'', ''reconnect_retries''), (''tag_filter_mask'', ''tag_filter_mask''),
     (''keepalive_interval'', ''keepalive_interval''),
     (''impinj_extended_configuration'', ''impinj_extended_configuration''),
     (''impinj_search_mode'', ''impinj_search_mode''), (''impinj_reports'', ''impinj_reports''),
     (''frequencies'', ''frequencies''), (''impinj_fixed_frequency'', ''impinj_fixed_frequency''),
     (''hoptable_id'', ''hoptable_id''), (''tls_enabled'', ''tls_enabled''),
     (''tls_verify'', ''tls_verify''), (''tls_ca_file'', ''tls_ca_file''),
     (''tls_client_cert'', ''tls_client_cert''), (''tls_client_key'', ''tls_client_key''),
     (''tls_server_hostname'', ''tls_server_hostname'')]"

definition inventory_args :: "pydict \<Rightarrow> pydict res" where
  "inventory_args = command_args inventory_signature inventory_fields inventory_keywords"

definition log_signature :: "string list" where
  "log_signature = [''host'', ''port'', ''outfile'', ''antennas'', ''tx_power'', ''epc'', ''reader_timestamp'',
     ''frequencies'', ''impinj_fixed_frequency'', ''hoptable_id'', ''tls_enabled'', ''tls_verify'',
     ''tls_ca_file'', ''tls_client_cert'', ''tls_client_key'', ''tls_server_hostname'']"

definition log_fields :: "string list" where
  "log_fields = [''host'', ''port'', ''outfile'', ''antennas'', ''tx_power'', ''epc'', ''reader_timestamp'',
     ''frequencies'', ''impinj_fixed_frequency'', ''hoptable_id'', ''tls_enabled'', ''tls_verify'',
     ''tls_ca_file'', ''tls_client_cert'', ''tls_client_key'', ''tls_server_hostname'']"

definition log_keywords :: "(string \<times> string) list" where
  "log_keywords = [(''host'', ''host''), (''port'', ''port''), (''outfile'', ''outfile''),
     (''tx_power'', ''tx_power''), (''antennas'', ''antennas''), (''epc'', ''epc''),
     (''reader_timestamp'', ''reader_timestamp''), (''frequencies'', ''frequencies''),
     (''impinj_fixed_frequency'', ''impinj_fixed_frequency''), (''hoptable_id'', ''hoptable_id''),
     (''tls_enabled'', ''tls_enabled''), (''tls_verify'', ''tls_verify''),
     (''tls_ca_file'', ''tls_ca_file''), (''tls_client_cert'', ''tls_client_cert''),
     (''tls_client_key'', ''tls_client_key''), (''tls_server_hostname'', ''tls_server_hostname'')]"

definition log_args :: "pydict \<Rightarrow> pydict res" where
  "log_args = command_args log_signature log_fields log_keywords"

definition access_signature :: "string list" where
  "access_signature = [''host'', ''port'', ''time'', ''ro_report_every_n_tags'', ''report_every_n_tags'', ''antennas'',
     ''tx_power'', ''tari'', ''session'', ''mode_identifier'', ''tag_population'', ''read_words'',
     ''write_words'', ''count'', ''memory_bank'', ''word_ptr'', ''access_password'', ''frequencies'',
     ''impinj_fixed_frequency'', ''hoptable_id'', ''tls_enabled'', ''tls_verify'', ''tls_ca_file'',
     ''tls_client_cert'', ''tls_client_key'', ''tls_server_hostname'']"

definition access_fields :: "string list" where
  "access_fields = [''host'', ''port'', ''time'', ''ro_report_every_n_tags'', ''every_n'', ''antennas'', ''tx_power'',
     ''tari'', ''session'', ''mode_identifier'', ''population'', ''read_words'', ''write_words'',
     ''count'', ''mb'', ''word_ptr'', ''access_password'', ''frequencies'', ''impinj_fixed_frequency'',
     ''hoptable_id'', ''tls_enabled'', ''tls_verify'', ''tls_ca_file'', ''tls_client_cert'',
     ''tls_client_key'', ''tls_server_hostname'']"

definition access_keywords :: "(string \<times> string) list" where
  "access_keywords = [(''host'', ''host''), (''port'', ''port''), (''time'', ''time''),
     (''ro_report_every_n_tags'', ''ro_report_every_n_tags''), (''every_n'', ''report_every_n_tags''),
     (''antennas'', ''antennas''), (''tx_power'', ''tx_power''), (''tari'', ''tari''),
     (''session'', ''session''), (''mode_identifier'', ''mode_identifier''),
     (''population'', ''tag_population''), (''read_words'', ''read_words''),
     (''write_words'', ''write_words''), (''count'', ''count''), (''mb'', ''memory_bank''),
     (''word_ptr'', ''word_ptr''), (''access_password'', ''access_password''),
     (''frequencies'', ''frequencies''), (''impinj_fixed_frequency'', ''impinj_fixed_frequency''),
     (''hoptable_id'', ''hoptable_id''), (''tls_enabled'', ''tls_enabled''),
     (''tls_verify'', ''tls_verify''), (''tls_ca_file'', ''tls_ca_file''),
     (''tls_client_cert'', ''tls_client_cert''), (''tls_client_key'', ''tls_client_key''),
     (''tls_server_hostname'', ''tls_server_hostname'')]"

definition access_args :: "pydict \<Rightarrow> pydict res" where
  "access_args = command_args access_signature access_fields access_keywords"

definition reset_signature :: "string list" where
  "reset_signature = [''host'', ''port'', ''tls_enabled'', ''tls_verify'', ''tls_ca_file'', ''tls_client_cert'',
     ''tls_client_key'', ''tls_server_hostname'']"

definition reset_fields :: "string list" where
  "reset_fields = [''host'', ''port'', ''tls_enabled'', ''tls_verify'', ''tls_ca_file'', ''tls_client_cert'',
     ''tls_client_key'', ''tls_server_hostname'']"

definition reset_keywords :: "(string \<times> string) list" where
  "reset_keywords = [(''host'', ''host''), (''port'', ''port''), (''tls_enabled'', ''tls_enabled''),
     (''tls_verify'', ''tls_verify''), (''tls_ca_file'', ''tls_ca_file''),
     (''tls_client_cert'', ''tls_client_cert''), (''tls_client_key'', ''tls_client_key''),
     (''tls_server_hostname'', ''tls_server_hostname'')]"

definition reset_args :: "pydict \<Rightarrow> pydict res" where
  "reset_args = command_args reset_signature reset_fields reset_keywords"

section \<open>Every accepted command line has its arguments\<close>

lemma py_item_known: "dict_get d k = Some v \<Longrightarrow> py_item (PDict d) k = Inr v"
  by (simp add: py_item_def)

lemma args_fields:
  assumes "set (map fst keywords) = set flds"
  shows "\<exists>args. Args flds keywords = Inr args \<and> map fst args = flds \<and>
    (\<forall>f \<in> set flds. dict_get args f = dict_get keywords f)"
proof -
  let ?v = "\<lambda>f. the (dict_get keywords f)"
  have known: "dict_get keywords f = Some (?v f)" if "f \<in> set flds" for f
  proof -
    have "f \<in> fst ` set keywords" using that assms by (simp flip: assms)
    then show ?thesis by (metis map_of_eq_None_iff option.collapse)
  qed
  then have "mapE (\<lambda>f. bindE (py_item (PDict keywords) f) (\<lambda>v. Inr (f, v))) flds = Inr (map (\<lambda>f. (f, ?v f)) flds)"
    by (intro mapE_Inr) (drule known [THEN py_item_known], simp only: bindE.simps)
  moreover have "dict_get (map (\<lambda>f. (f, ?v f)) flds) f = dict_get keywords f" if "f \<in> set flds" for f
    using that known by (simp add: map_of_map_restrict)
  ultimately show ?thesis using assms by (simp add: Args_def comp_def)
qed

text \<open>
  What a command hands to its verb, provided that its keywords name every field once and take
  their values from its parameters.
\<close>

lemma command_args_result:
  assumes params: "set (map fst params) = set signature" "{''port'', ''tls_enabled''} \<subseteq> set signature"
    and kws: "map fst keywords = names" "distinct names" "set names = set flds" "set (map snd keywords) \<subseteq> set signature"
  shows "\<exists>args. command_args signature flds keywords params = Inr args \<and> map fst args = flds \<and>
    (\<forall>(f, n) \<in> set keywords. dict_get args f = (if n = ''port''
       then Some (resolve_llrp_port (the (dict_get params ''port'')) (the (dict_get params ''tls_enabled'')))
       else dict_get params n))"
proof -
  have known: "\<exists>v. dict_get params n = Some v" if "n \<in> set signature" for n
  proof -
    have "n \<in> fst ` set params" using that params(1) by (simp flip: params(1))
    then show ?thesis by (metis map_of_eq_None_iff not_None_eq)
  qed
  obtain explicit tls where given: "dict_get params ''port'' = Some explicit" "dict_get params ''tls_enabled'' = Some tls"
    using known [of "''port''"] known [of "''tls_enabled''"] params(2) by auto
  let ?locals = "dict_set params ''port'' (resolve_llrp_port explicit tls)"
  let ?v = "\<lambda>n. the (dict_get ?locals n)"
  have locals: "dict_get ?locals n = Some (?v n)" if "n \<in> set signature" for n
    using known [OF that] by (auto simp: dict_simps)
  let ?kw = "map (\<lambda>(f, n). (f, ?v n)) keywords"
  have "mapE (\<lambda>(f, n). bindE (py_item (PDict ?locals) n) (\<lambda>v. Inr (f, v))) keywords = Inr ?kw"
  proof (rule mapE_Inr)
    fix x assume "x \<in> set keywords"
    then have "snd x \<in> set signature" using kws(4) by auto
    from py_item_known [OF locals [OF this]] show "(case x of (f, n) \<Rightarrow> bindE (py_item (PDict ?locals) n) (\<lambda>v. Inr (f, v))) = Inr (case x of (f, n) \<Rightarrow> (f, ?v n))"
      by (cases x) (simp only: prod.case snd_conv bindE.simps)
  qed
  moreover have names: "map fst ?kw = names" using kws(1) by (simp add: comp_def case_prod_beta)
  then obtain args where args: "Args flds ?kw = Inr args" "map fst args = flds"
    "\<forall>f \<in> set flds. dict_get args f = dict_get ?kw f"
    using args_fields [of ?kw flds] kws(3) by auto
  ultimately have "command_args signature flds keywords params = Inr args"
    using params(1) given by (simp add: command_args_def py_item_def)
  moreover have "dict_get args f = (if n = ''port'' then Some (resolve_llrp_port explicit tls) else dict_get params n)"
    if "(f, n) \<in> set keywords" for f n
  proof -
    have "(f, ?v n) \<in> set ?kw" using that by force
    then have "dict_get ?kw f = Some (?v n)" using names kws(2) by (intro map_of_is_SomeI) simp_all
    moreover have "f \<in> set flds" "n \<in> set signature" using that kws by force+
    ultimately show ?thesis using args(3) locals [of n] by (simp add: dict_simps)
  qed
  ultimately show ?thesis using args(2) given by auto
qed

text \<open>The four commands: their parameters are those of their options.\<close>

lemmas command_defs = tls_options_def inventory_options_def log_options_def access_options_def reset_options_def
  inventory_signature_def log_signature_def access_signature_def reset_signature_def
  inventory_fields_def log_fields_def access_fields_def reset_fields_def
  inventory_keywords_def log_keywords_def access_keywords_def reset_keywords_def

definition command_ok :: "click_option list \<Rightarrow> string list \<Rightarrow> string list \<Rightarrow> (string \<times> string) list \<Rightarrow> bool" where
  "command_ok opts signature flds keywords \<longleftrightarrow>
     set (''host'' # map option_parameter opts) = set signature \<and> {''port'', ''tls_enabled''} \<subseteq> set signature \<and>
     distinct (map fst keywords) \<and> set (map fst keywords) = set flds \<and> set (map snd keywords) \<subseteq> set signature"

lemma commands_ok:
  "command_ok inventory_options inventory_signature inventory_fields inventory_keywords"
  "command_ok log_options log_signature log_fields log_keywords"
  "command_ok access_options access_signature access_fields access_keywords"
  "command_ok reset_options reset_signature reset_fields reset_keywords"
  by code_simp+

lemma accepted_command:
  assumes "command_ok opts signature flds keywords" "called_with opts params"
  shows "\<exists>args. command_args signature flds keywords params = Inr args \<and> map fst args = flds \<and>
    (\<forall>(f, n) \<in> set keywords. dict_get args f = (if n = ''port''
       then Some (resolve_llrp_port (the (dict_get params ''port'')) (the (dict_get params ''tls_enabled'')))
       else dict_get params n))"
  using assms by (intro command_args_result [OF _ _ refl]) (auto simp: command_ok_def called_with_def)

end
