(* ===== verification/Verb_Setup.thy ===== *)
theory Verb_Setup
  imports Cli_Commands Url_Parse
begin

text \<open>
  What the verbs of the command line do before they connect (\<^verbatim>\<open>verb/inventory.py\<close>,
  \<^verbatim>\<open>verb/access.py\<close>, \<^verbatim>\<open>verb/log.py\<close>, \<^verbatim>\<open>verb/reset.py\<close> and \<^verbatim>\<open>lock.py\<close>): the lists of antennas
  and frequencies are parsed, the arguments become the fields of a configuration, and every host
  gets a reader client with the callbacks of the verb.  The configurations of several hosts share
  their dictionaries in the program; nothing changes them there, so each has its own here.  The
  environment of each reader client (scripts, clock, orders of sets) is an argument.
\<close>

section \<open>Arguments\<close>

text \<open>\<open>args.name\<close> and \<open>getattr(args, name, default)\<close>.\<close>

definition attr :: "pydict \<Rightarrow> string \<Rightarrow> pyval res" where
  "attr args name = (case dict_get args name of None \<Rightarrow> Inl AttributeError | Some v \<Rightarrow> Inr v)"

definition attr_or :: "pydict \<Rightarrow> string \<Rightarrow> pyval \<Rightarrow> pyval res" where
  "attr_or args name dflt = Inr (case dict_get args name of None \<Rightarrow> dflt | Some v \<Rightarrow> v)"

text \<open>\<open>[int(x.strip()) for x in text.split(",")]\<close>.\<close>

definition str_strip :: "string \<Rightarrow> string" where
  "str_strip s = rev (dropWhile str_space (rev (dropWhile str_space s)))"

definition comma_ints :: "pyval \<Rightarrow> int list res" where
  "comma_ints v = (case v of
     PStr s \<Rightarrow> mapE (\<lambda>x. py_int_parse 10 (char_codes (str_strip x))) (split_on (CHR '','') s)
   | PBytes _ \<Rightarrow> Inl TypeError
   | _ \<Rightarrow> Inl AttributeError)"

definition int_list :: "int list \<Rightarrow> pyval" where
  "int_list l = PList (map PInt l)"

text \<open>\<open>args.time and args.time > 0\<close>.\<close>

definition time_given :: "pyval \<Rightarrow> pyval res" where
  "time_given v = (if \<not> py_true v then Inr v else bindE (positive v) (\<lambda>b. Inr (PBool b)))"

text \<open>A first frequency of 0 stands for automatic channels.\<close>

definition frequency_setting :: "pyval \<Rightarrow> int list \<Rightarrow> pyval" where
  "frequency_setting hoptable freqs =
    (let automatic = hd freqs = 0 in
     PDict [(''HopTableId'', hoptable),
       (''ChannelList'', if automatic then PList [PInt 1] else int_list freqs),
       (''Automatic'', PBool automatic)])"

text \<open>A dictionary display whose values may raise.\<close>

definition dict_of :: "(string \<times> pyval res) list \<Rightarrow> pydict res" where
  "dict_of items = mapE (\<lambda>(k, r). bindE r (\<lambda>v. Inr (k, v))) items"

section \<open>The fields each verb sets\<close>

definition tls_fields :: "pydict \<Rightarrow> (string \<times> pyval res) list" where
  "tls_fields args = map (\<lambda>n. (n, attr args n)) [''tls_enabled'', ''tls_verify'', ''tls_ca_file'',
     ''tls_client_cert'', ''tls_client_key'', ''tls_server_hostname'']"

definition selector :: "string list \<Rightarrow> pydict \<Rightarrow> pyval" where
  "selector enabled rest = PDict (map (\<lambda>n. (n, PBool (n \<in> set enabled)))
     [''EnableROSpecID'', ''EnableSpecIndex'', ''EnableInventoryParameterSpecID'', ''EnableAntennaID'',
      ''EnableChannelIndex'', ''EnablePeakRSSI'', ''EnableFirstSeenTimestamp'', ''EnableLastSeenTimestamp'',
      ''EnableTagSeenCount'', ''EnableAccessSpecID''] @ rest)"

definition no_epc_memory :: pydict where
  "no_epc_memory = [(''C1G2EPCMemorySelector'', PDict [(''EnableCRC'', PBool False), (''EnablePCBits'', PBool False)])]"

definition inventory_factory :: "pydict \<Rightarrow> pydict res" where
  "inventory_factory args =
    bindE (attr args ''antennas'') (\<lambda>a. bindE (comma_ints a) (\<lambda>ants.
    bindE (attr args ''frequencies'') (\<lambda>f. bindE (comma_ints f) (\<lambda>freqs.
    dict_of ([
      (''duration'', attr args ''time''),
      (''ro_report_every_n_tags'', attr_or args ''ro_report_every_n_tags'' PNone),
      (''report_every_n_tags'', attr args ''every_n''),
      (''dedup_seconds'', attr_or args ''dedup_seconds'' PNone),
      (''dedup_backend'', attr_or args ''dedup_backend'' (PStr ''auto'')),
      (''antennas'', Inr (int_list ants)),
      (''tx_power'', attr args ''tx_power''),
      (''tari'', attr args ''tari''),
      (''session'', attr args ''session''),
      (''mode_identifier'', attr args ''mode_identifier''),
      (''tag_population'', attr args ''population''),
      (''start_inventory'', Inr (PBool True)),
      (''disconnect_when_done'', bindE (attr args ''time'') time_given),
      (''reconnect'', attr args ''reconnect''),
      (''reconnect_retries'', attr args ''reconnect_retries''),
      (''tag_filter_mask'', attr args ''tag_filter_mask''),
      (''tag_content_selector'', Inr (selector [''EnableChannelIndex'', ''EnableLastSeenTimestamp'', ''EnableTagSeenCount''] no_epc_memory)),
      (''frequencies'', bindE (attr args ''hoptable_id'') (\<lambda>hoptable. Inr (frequency_setting hoptable freqs))),
      (''impinj_fixed_frequency'', attr_or args ''impinj_fixed_frequency'' (PBool False)),
      (''keepalive_interval'', attr args ''keepalive_interval'')] @
     tls_fields args @
     [(''impinj_extended_configuration'', attr args ''impinj_extended_configuration''),
      (''impinj_search_mode'', attr args ''impinj_search_mode''),
      (''impinj_tag_content_selector'', bindE (attr args ''impinj_reports'') (\<lambda>reports. Inr (if py_true reports
         then PDict [(''EnableRFPhaseAngle'', PBool True), (''EnablePeakRSSI'', PBool True),
           (''EnableRFDopplerFrequency'', PBool True)] else PNone)))])))))"

definition access_selector :: pyval where
  "access_selector = selector [''EnableAntennaID'', ''EnablePeakRSSI'', ''EnableLastSeenTimestamp'',
     ''EnableTagSeenCount'', ''EnableAccessSpecID''] []"

definition access_factory :: "pydict \<Rightarrow> pydict res" where
  "access_factory args =
    bindE (attr args ''antennas'') (\<lambda>a. bindE (comma_ints a) (\<lambda>ants.
    bindE (attr args ''frequencies'') (\<lambda>f. bindE (comma_ints f) (\<lambda>freqs.
    dict_of ([
      (''duration'', attr args ''time''),
      (''ro_report_every_n_tags'', attr_or args ''ro_report_every_n_tags'' PNone),
      (''report_every_n_tags'', attr args ''every_n''),
      (''antennas'', Inr (int_list ants)),
      (''tx_power'', attr args ''tx_power''),
      (''tari'', attr args ''tari''),
      (''session'', attr args ''session''),
      (''mode_identifier'', attr args ''mode_identifier''),
      (''tag_population'', attr args ''population'')] @
     tls_fields args @
     [(''start_inventory'', Inr (PBool True)),
      (''disconnect_when_done'', bindE (bindE (attr args ''time'') time_given) (\<lambda>v. Inr (PBool (py_true v)))),
      (''tag_content_selector'', Inr access_selector),
      (''frequencies'', bindE (attr args ''hoptable_id'') (\<lambda>hoptable. Inr (frequency_setting hoptable freqs))),
      (''impinj_fixed_frequency'', attr_or args ''impinj_fixed_frequency'' (PBool False))])))))"

definition log_factory :: "pydict \<Rightarrow> pydict res" where
  "log_factory args =
    bindE (attr args ''antennas'') (\<lambda>a. bindE (comma_ints a) (\<lambda>ants.
    bindE (attr args ''frequencies'') (\<lambda>f. bindE (comma_ints f) (\<lambda>freqs.
    dict_of ([
      (''antennas'', Inr (int_list ants)),
      (''tx_power'', attr args ''tx_power'')] @
     tls_fields args @
     [(''start_inventory'', Inr (PBool True)),
      (''disconnect_when_done'', Inr (PBool True)),
      (''tag_content_selector'', Inr (selector [''EnableAntennaID'', ''EnablePeakRSSI'', ''EnableLastSeenTimestamp'',
         ''EnableTagSeenCount''] no_epc_memory)),
      (''frequencies'', bindE (attr args ''hoptable_id'') (\<lambda>hoptable. Inr (frequency_setting hoptable freqs))),
      (''impinj_fixed_frequency'', attr_or args ''impinj_fixed_frequency'' (PBool False))])))))"

definition reset_factory :: "pydict \<Rightarrow> pydict res" where
  "reset_factory args = dict_of ([
     (''start_inventory'', Inr (PBool False)),
     (''reset_on_connect'', Inr (PBool False))] @ tls_fields args)"

definition lock_factory :: "pydict \<Rightarrow> pydict res" where
  "lock_factory args =
    bindE (attr args ''antennas'') (\<lambda>a. bindE (comma_ints a) (\<lambda>ants.
    dict_of [
      (''duration'', attr args ''time''),
      (''report_every_n_tags'', attr args ''every_n''),
      (''antennas'', Inr (int_list ants)),
      (''tx_power'', attr args ''tx_power''),
      (''tari'', attr args ''tari''),
      (''session'', attr args ''session''),
      (''mode_identifier'', attr args ''mode_identifier''),
      (''tag_population'', attr args ''population''),
      (''start_inventory'', Inr (PBool True)),
      (''disconnect_when_done'', bindE (bindE (attr args ''time'') time_given) (\<lambda>v. Inr (PBool (py_true v)))),
      (''tag_content_selector'', Inr access_selector)]))"

section \<open>The reader clients\<close>

text \<open>\<open>LLRPReaderConfig(factory_args)\<close>; all values are scalars, so the construction is always modelled.\<close>

definition verb_config :: "pydict \<Rightarrow> reader_config res" where
  "verb_config d = (case new_reader_config (map (\<lambda>(k, v). (k, Scalar v)) d) of
     Some r \<Rightarrow> r | None \<Rightarrow> Inl TypeError)"

record reader_env =
  env_masks :: "pyval list \<Rightarrow> pyval list"
  env_indices :: "int list \<Rightarrow> int list"
  env_tx :: "py_error option list"
  env_connects :: "py_error option list"
  env_waits :: "bool list"
  env_clock :: "nat \<Rightarrow> rat"
  env_stack :: nat

definition verb_client :: "reader_env \<Rightarrow> int \<Rightarrow> reader_config \<Rightarrow> reader res" where
  "verb_client env p cfg = new_reader (new_client (\<lambda>_. cfg) (env_masks env) (env_indices env) (env_tx env))
     (Some p) (env_connects env) (env_waits env) (env_clock env) (env_stack env)"

text \<open>The host of a reader client and the client; callbacks have numbers.\<close>

type_synonym verb_reader = "string \<times> reader"

definition FINISH_CB :: nat where "FINISH_CB = 0"
definition TAG_REPORT_CB :: nat where "TAG_REPORT_CB = 1"
definition STATE_CB :: nat where "STATE_CB = 2"

definition counting_callbacks :: "reader \<Rightarrow> reader" where
  "counting_callbacks r = add_tag_report_callback TAG_REPORT_CB (add_disconnected_callback FINISH_CB r)"

definition inventory_callbacks :: "reader \<Rightarrow> reader" where
  "inventory_callbacks r = add_state_callback STATE_INVENTORYING STATE_CB (counting_callbacks r)"

definition reset_callbacks :: "reader \<Rightarrow> reader" where
  "reset_callbacks r = add_state_callback STATE_CONNECTED STATE_CB r"

text \<open>\<open>for host_value in args.host\<close>.\<close>

fun make_readers :: "(reader \<Rightarrow> reader) \<Rightarrow> pydict \<Rightarrow> int \<Rightarrow> (nat \<Rightarrow> reader_env) \<Rightarrow> nat \<Rightarrow> pyval list \<Rightarrow>
    verb_reader list res" where
  "make_readers listen d p env i [] = Inr []"
| "make_readers listen d p env i (h # hs) =
    bindE (case h of PStr s \<Rightarrow> split_host_port s p | _ \<Rightarrow> Inl AttributeError) (\<lambda>(host, host_port).
    bindE (verb_config d) (\<lambda>cfg.
    bindE (verb_client (env i) host_port cfg) (\<lambda>r.
    bindE (make_readers listen d p env (Suc i) hs) (\<lambda>rs. Inr ((host, listen r) # rs)))))"

definition verb_readers :: "(pydict \<Rightarrow> pydict res) \<Rightarrow> (reader \<Rightarrow> reader) \<Rightarrow> (nat \<Rightarrow> reader_env) \<Rightarrow> pydict \<Rightarrow>
    verb_reader list res" where
  "verb_readers factory listen env args =
    bindE (factory args) (\<lambda>d.
    bindE (attr args ''host'') (\<lambda>hosts. bindE (py_iter hosts) (\<lambda>hosts.
    bindE (attr args ''port'') (\<lambda>p.
    case p of PInt p \<Rightarrow> make_readers listen d p env 0 hosts | _ \<Rightarrow> Inl TypeError))))"

definition inventory_readers :: "(nat \<Rightarrow> reader_env) \<Rightarrow> pydict \<Rightarrow> verb_reader list res" where
  "inventory_readers = verb_readers inventory_factory inventory_callbacks"

definition access_readers :: "(nat \<Rightarrow> reader_env) \<Rightarrow> pydict \<Rightarrow> verb_reader list res" where
  "access_readers = verb_readers access_factory inventory_callbacks"

definition log_readers :: "(nat \<Rightarrow> reader_env) \<Rightarrow> pydict \<Rightarrow> verb_reader list res" where
  "log_readers = verb_readers log_factory counting_callbacks"

definition reset_readers :: "(nat \<Rightarrow> reader_env) \<Rightarrow> pydict \<Rightarrow> verb_reader list res" where
  "reset_readers = verb_readers reset_factory reset_callbacks"

definition lock_readers :: "(nat \<Rightarrow> reader_env) \<Rightarrow> pydict \<Rightarrow> verb_reader list res" where
  "lock_readers = verb_readers lock_factory inventory_callbacks"

text \<open>The locking script without options: its arguments are those its configuration needs.\<close>

lemma lock_defaults:
  "lock_factory (default_parameters lock_options hosts) = Inr [(''duration'', PInt 10), (''report_every_n_tags'', PInt 1),
     (''antennas'', int_list [0]), (''tx_power'', PInt 0), (''tari'', PInt 0), (''session'', PInt 2),
     (''mode_identifier'', PNone), (''tag_population'', PInt 4), (''start_inventory'', PBool True),
     (''disconnect_when_done'', PBool True), (''tag_content_selector'', access_selector)]"
proof -
  have "comma_ints (PStr ''0'') = Inr [0]" by code_simp
  then show ?thesis
    by (simp add: lock_factory_def default_parameters_def lock_options_def option_parameter_def long_flag_def underscore_def
        attr_def dict_of_def time_given_def positive_def number_of_def)
qed

end
