(* ===== verification/Verb_Acceptance.thy ===== *)
theory Verb_Acceptance
  imports Verb_Setup
begin

text \<open>
  Which command lines are accepted: the inventory verb turns every list of parameters that
  \<^verbatim>\<open>click\<close> can produce into validated reader clients, or refuses it with \<open>ValueError\<close> (text that is
  not a number or an address) or \<open>LLRPError\<close> (values the configuration does not allow).
\<close>

section \<open>Configurations built from arguments\<close>

lemma update_inventory_fields:
  "update_fields (map (\<lambda>(k, v). (k, Scalar v)) [
      (''duration'', tm), (''ro_report_every_n_tags'', ro), (''report_every_n_tags'', n),
      (''dedup_seconds'', ds), (''dedup_backend'', db), (''antennas'', ants), (''tx_power'', tx), (''tari'', ta),
      (''session'', se), (''mode_identifier'', md), (''tag_population'', pop), (''start_inventory'', st),
      (''disconnect_when_done'', done_flag), (''reconnect'', rec), (''reconnect_retries'', ret), (''tag_filter_mask'', msk),
      (''tag_content_selector'', sel), (''frequencies'', fr), (''impinj_fixed_frequency'', fix_f),
      (''keepalive_interval'', ka), (''tls_enabled'', t1), (''tls_verify'', t2), (''tls_ca_file'', t3),
      (''tls_client_cert'', t4), (''tls_client_key'', t5), (''tls_server_hostname'', t6),
      (''impinj_extended_configuration'', ext), (''impinj_search_mode'', sm),
      (''impinj_tag_content_selector'', its)]) default_config =
   Some (default_config\<lparr>duration := tm, ro_report_every_n_tags := ro, report_every_n_tags := n,
      dedup_seconds := ds, dedup_backend := db, antennas := ants, tx_power := Scalar tx, tari := ta,
      session := se, mode_identifier := md, tag_population := pop, start_inventory := st,
      disconnect_when_done := done_flag, reconnect := rec, reconnect_retries := ret, tag_filter_mask := msk,
      tag_content_selector := sel, frequencies := fr, impinj_fixed_frequency := fix_f,
      keepalive_interval := ka, tls_enabled := t1, tls_verify := t2, tls_ca_file := t3,
      tls_client_cert := t4, tls_client_key := t5, tls_server_hostname := t6,
      impinj_extended_configuration := ext, impinj_search_mode := sm,
      impinj_tag_content_selector := its\<rparr>)"
  by (simp add: set_field_def scalar_def)

text \<open>What the configuration must allow.\<close>

definition antennas_accepted :: "int list \<Rightarrow> bool" where
  "antennas_accepted ants \<longleftrightarrow> ants \<noteq> [] \<and> list_all (\<lambda>a. 0 \<le> a) ants \<and> (0 \<in> set ants \<longrightarrow> length ants = 1)"

definition channels_accepted :: "int list \<Rightarrow> bool \<Rightarrow> bool" where
  "channels_accepted freqs fixed \<longleftrightarrow>
     (if hd freqs = 0 then fixed else list_all (\<lambda>f. 1 \<le> f) freqs \<and> (length freqs > 1 \<longrightarrow> fixed))"

definition dedup_accepted :: "pyval \<Rightarrow> pyval \<Rightarrow> bool" where
  "dedup_accepted seconds backend \<longleftrightarrow> \<not> (backend = PStr ''hardware'' \<and>
     (case seconds of PInt s \<Rightarrow> s > ZEBRA_TIMED_DEDUP_MAX_SECONDS | _ \<Rightarrow> False))"

definition key_accepted :: "pyval \<Rightarrow> pyval \<Rightarrow> bool" where
  "key_accepted cert key \<longleftrightarrow> (py_true key \<longrightarrow> py_true cert)"

text \<open>The fields that no verb sets, and the types of those that come from options.\<close>

definition plain_config :: "reader_config \<Rightarrow> bool" where
  "plain_config c \<longleftrightarrow> rf_telemetry_mode c = PStr ''off'' \<and> zebra_tag_content_selector c = PNone \<and>
     tx_power_dbm c = Scalar PNone \<and> request_timeout c = PNone \<and> max_message_size c = PInt DEFAULT_MAX_MESSAGE_SIZE \<and>
     reconnect_delay c = PFloat 60 \<and> dedup_max_entries c = PInt 1000000 \<and>
     socket_receive_buffer_bytes c = PInt (push_bit 20 1) \<and>
     none_or (int_between 1 65535) (ro_report_every_n_tags c) \<and> none_or (int_from 1) (dedup_seconds c) \<and>
     dedup_backend c \<in> {PStr ''auto'', PStr ''hardware'', PStr ''memory''}"

lemma require_if: "require b = (if b then Inr () else Inl LLRPError)"
  by (simp add: require_def raise_if_def)

lemma antennas_ok_int_list: "antennas_ok (int_list ants) \<longleftrightarrow> antennas_accepted ants"
  by (auto simp: antennas_ok_def int_list_def antennas_accepted_def int_from_def list_all_iff)

lemma check_scalars_plain:
  assumes "plain_config c" "antennas c = int_list ants" "reconnect_retries c = PInt ret"
  shows "check_scalars c = (if antennas_accepted ants \<and> -1 \<le> ret then Inr () else Inl LLRPError)"
  using assms by (simp add: plain_config_def check_scalars_def antennas_ok_int_list require_if
      number_of_def none_or_def int_from_def DEFAULT_MAX_MESSAGE_SIZE_def)

lemma check_frequencies_plain:
  assumes "freqs \<noteq> []"
  shows "\<exists>d. normalize_frequencies (frequency_setting h freqs) = Inr d \<and> frequency_setting h freqs = PDict d \<and>
    check_frequencies d (PBool fixed) = (if channels_accepted freqs fixed then Inr () else Inl LLRPError)"
  using assms by (auto simp: frequency_setting_def normalize_frequencies_def check_frequencies_def Let_def
      require_if channels_accepted_def int_list_def list_all_iff int_from_def)

lemma antenna_list_int_list: "antenna_list (int_list ants) = ants"
  by (simp add: antenna_list_def int_list_def comp_def)

lemma validate_plain:
  assumes plain: "plain_config c" and ants: "antennas c = int_list ants"
    and ret: "reconnect_retries c = PInt ret" and tx: "tx_power c = Scalar (PInt p)"
    and fr: "frequencies c = frequency_setting h freqs" "freqs \<noteq> []" "impinj_fixed_frequency c = PBool fixed"
  shows "validate_config c =
    (if antennas_accepted ants \<and> -1 \<le> ret \<and> channels_accepted freqs fixed \<and>
        dedup_accepted (dedup_seconds c) (dedup_backend c) \<and> key_accepted (tls_client_cert c) (tls_client_key c)
     then Inr (c\<lparr>tx_power := Per_Antenna (dict_update [] (map (\<lambda>a. (a, PInt p)) ants))\<rparr>) else Inl LLRPError)"
proof -
  obtain d where d: "normalize_frequencies (frequencies c) = Inr d" "frequencies c = PDict d"
    "check_frequencies d (PBool fixed) = (if channels_accepted freqs fixed then Inr () else Inl LLRPError)"
    using check_frequencies_plain [OF fr(2), of h fixed] fr(1) by auto
  have same: "c\<lparr>frequencies := PDict d\<rparr> = c" using d(2) by (simp flip: d(2))
  have tele: "normalize_telemetry c = Inr c" and zeb: "normalize_zebra c = Inr c"
    using plain by (simp_all add: plain_config_def normalize_telemetry_def normalize_zebra_def strip_lower_modes zebra_ok_def)
  have ded: "check_dedup c = (if dedup_accepted (dedup_seconds c) (dedup_backend c) \<and>
      key_accepted (tls_client_cert c) (tls_client_key c) then Inr () else Inl LLRPError)"
    using plain by (auto simp: plain_config_def check_dedup_def require_if raise_if_def hashable_def none_or_def int_from_def
        dedup_accepted_def key_accepted_def)
  have pow: "normalize_tx_power c = Inr (c\<lparr>tx_power := Per_Antenna (dict_update [] (map (\<lambda>a. (a, PInt p)) ants))\<rparr>)"
    by (simp add: normalize_tx_power_def Let_def tx ants antenna_list_int_list)
  have dbm: "normalize_tx_power_dbm (c\<lparr>tx_power := q\<rparr>) = Inr (c\<lparr>tx_power := q\<rparr>)" for q
    using plain by (simp add: plain_config_def normalize_tx_power_dbm_def)
  show ?thesis
    by (simp add: validate_config_eq check_scalars_plain [OF plain ants ret] d(2,3) d(1) [unfolded d(2)] same fr(3) tele zeb ded pow dbm)
qed

section \<open>Parameters of the inventory command\<close>

definition param :: "pydict \<Rightarrow> string \<Rightarrow> pyval" where
  "param pars n = the (dict_get pars n)"

lemma called_with_param:
  "called_with opts pars \<Longrightarrow> opt \<in> set opts \<Longrightarrow> option_value_ok opt (param pars (option_parameter opt))"
  by (auto simp: called_with_def list_all_iff param_def split: option.splits)

lemma called_with_known:
  assumes "called_with opts pars" "n \<in> insert ''host'' (set (map option_parameter opts))"
  shows "dict_get pars n = Some (param pars n)"
proof -
  have "n \<in> fst ` set pars" using assms by (simp add: called_with_def)
  then show ?thesis by (metis map_of_eq_None_iff option.collapse param_def)
qed

definition resolved_port :: "pydict \<Rightarrow> pyval" where
  "resolved_port pars = resolve_llrp_port (param pars ''port'') (param pars ''tls_enabled'')"

lemma command_args_get:
  assumes ok: "command_ok opts signature flds keywords" and call: "called_with opts pars"
  shows "\<exists>args. command_args signature flds keywords pars = Inr args \<and>
    (\<forall>(f, n) \<in> set keywords. dict_get args f = Some (if n = ''port'' then resolved_port pars else param pars n))"
proof -
  have "dict_get pars n = Some (param pars n)" if "(f, n) \<in> set keywords" for f n
  proof (rule called_with_known [OF call])
    show "n \<in> insert ''host'' (set (map option_parameter opts))"
      using ok that unfolding command_ok_def by force
  qed
  then show ?thesis
    using accepted_command [OF ok call] unfolding resolved_port_def param_def by fastforce
qed

lemma inventory_types:
  assumes "called_with inventory_options pars"
  shows "param pars ''time'' = PNone \<or> (\<exists>r. param pars ''time'' = PFloat r)"
    "none_or (int_between 1 65535) (param pars ''ro_report_every_n_tags'')"
    "none_or (int_from 1) (param pars ''dedup_seconds'')"
    "param pars ''dedup_backend'' \<in> {PStr ''auto'', PStr ''hardware'', PStr ''memory''}"
    "\<exists>s. param pars ''antennas'' = PStr s" "\<exists>i. param pars ''tx_power'' = PInt i"
    "\<exists>i. param pars ''reconnect_retries'' = PInt i" "\<exists>s. param pars ''frequencies'' = PStr s"
    "\<exists>b. param pars ''impinj_fixed_frequency'' = PBool b"
    "param pars ''port'' = PNone \<or> (\<exists>i. param pars ''port'' = PInt i)"
    "\<exists>b. param pars ''impinj_reports'' = PBool b" "\<exists>b. param pars ''tls_enabled'' = PBool b"
proof -
  have opt: "option_value_ok opt (param pars n)" if "opt \<in> set inventory_options" "option_parameter opt = n" for opt n
    using called_with_param [OF assms that(1)] that(2) by simp
  note types = option_value_ok_def value_of_type_def none_or_def int_between_def int_from_def
  have "option_value_ok (Opt [''-t'', ''--time''] None Float_Option PNone False) (param pars ''time'')"
    by (rule opt) code_simp+
  then show "param pars ''time'' = PNone \<or> (\<exists>r. param pars ''time'' = PFloat r)"
    by (auto simp: types split: pyval.splits)
  have "option_value_ok (Opt [''--ro-report-every-n-tags''] None (Range_Option (Some 1) (Some 65535)) PNone False)
      (param pars ''ro_report_every_n_tags'')"
    by (rule opt) code_simp+
  then show "none_or (int_between 1 65535) (param pars ''ro_report_every_n_tags'')"
    by (auto simp: types split: pyval.splits)
  have "option_value_ok (Opt [''--dedup-seconds''] None (Range_Option (Some 1) None) PNone False) (param pars ''dedup_seconds'')"
    by (rule opt) code_simp+
  then show "none_or (int_from 1) (param pars ''dedup_seconds'')" by (auto simp: types split: pyval.splits)
  have "option_value_ok (Opt [''--dedup-backend''] None (Choice_Option [''auto'', ''hardware'', ''memory'']) (PStr ''auto'') False)
      (param pars ''dedup_backend'')"
    by (rule opt) code_simp+
  then show "param pars ''dedup_backend'' \<in> {PStr ''auto'', PStr ''hardware'', PStr ''memory''}"
    by (auto simp: types split: pyval.splits)
  have "option_value_ok (Opt [''-a'', ''--antennas''] None Text_Option (PStr ''1'') False) (param pars ''antennas'')"
    by (rule opt) code_simp+
  then show "\<exists>s. param pars ''antennas'' = PStr s" by (auto simp: types split: pyval.splits)
  have "option_value_ok (Opt [''-X'', ''--tx-power''] None Integer_Option (PInt 0) False) (param pars ''tx_power'')"
    by (rule opt) code_simp+
  then show "\<exists>i. param pars ''tx_power'' = PInt i" by (auto simp: types split: pyval.splits)
  have "option_value_ok (Opt [''--reconnect-retries''] None Integer_Option (PInt 5) False) (param pars ''reconnect_retries'')"
    by (rule opt) code_simp+
  then show "\<exists>i. param pars ''reconnect_retries'' = PInt i" by (auto simp: types split: pyval.splits)
  have "option_value_ok (Opt [''-f'', ''--frequencies''] None Text_Option (PStr ''1'') False) (param pars ''frequencies'')"
    by (rule opt) code_simp+
  then show "\<exists>s. param pars ''frequencies'' = PStr s" by (auto simp: types split: pyval.splits)
  have "option_value_ok (Opt [''--impinj-fixed-frequency''] None Flag_Option (PBool False) False) (param pars ''impinj_fixed_frequency'')"
    by (rule opt) code_simp+
  then show "\<exists>b. param pars ''impinj_fixed_frequency'' = PBool b" by (auto simp: types split: pyval.splits)
  have "option_value_ok (Opt [''-p'', ''--port''] None Integer_Option PNone False) (param pars ''port'')"
    by (rule opt) code_simp+
  then show "param pars ''port'' = PNone \<or> (\<exists>i. param pars ''port'' = PInt i)" by (auto simp: types split: pyval.splits)
  have "option_value_ok (Opt [''--impinj-reports''] None Flag_Option (PBool False) False) (param pars ''impinj_reports'')"
    by (rule opt) code_simp+
  then show "\<exists>b. param pars ''impinj_reports'' = PBool b" by (auto simp: types split: pyval.splits)
  have "option_value_ok (Opt [''--tls''] (Some ''tls_enabled'') Flag_Option (PBool False) False) (param pars ''tls_enabled'')"
    by (rule opt) code_simp+
  then show "\<exists>b. param pars ''tls_enabled'' = PBool b" by (auto simp: types split: pyval.splits)
qed

section \<open>The configuration of an inventory\<close>

definition time_flag :: "pyval \<Rightarrow> pyval" where
  "time_flag tm = (case tm of PFloat r \<Rightarrow> if r = 0 then tm else PBool (0 < r) | _ \<Rightarrow> tm)"

definition inventory_items :: "pydict \<Rightarrow> int list \<Rightarrow> int list \<Rightarrow> pydict" where
  "inventory_items pars ants freqs = [
      (''duration'', param pars ''time''), (''ro_report_every_n_tags'', param pars ''ro_report_every_n_tags''),
      (''report_every_n_tags'', param pars ''report_every_n_tags''), (''dedup_seconds'', param pars ''dedup_seconds''),
      (''dedup_backend'', param pars ''dedup_backend''), (''antennas'', int_list ants),
      (''tx_power'', param pars ''tx_power''), (''tari'', param pars ''tari''), (''session'', param pars ''session''),
      (''mode_identifier'', param pars ''mode_identifier''), (''tag_population'', param pars ''tag_population''),
      (''start_inventory'', PBool True), (''disconnect_when_done'', time_flag (param pars ''time'')),
      (''reconnect'', param pars ''reconnect''), (''reconnect_retries'', param pars ''reconnect_retries''),
      (''tag_filter_mask'', param pars ''tag_filter_mask''),
      (''tag_content_selector'', selector [''EnableChannelIndex'', ''EnableLastSeenTimestamp'', ''EnableTagSeenCount''] no_epc_memory),
      (''frequencies'', frequency_setting (param pars ''hoptable_id'') freqs),
      (''impinj_fixed_frequency'', param pars ''impinj_fixed_frequency''),
      (''keepalive_interval'', param pars ''keepalive_interval''), (''tls_enabled'', param pars ''tls_enabled''),
      (''tls_verify'', param pars ''tls_verify''), (''tls_ca_file'', param pars ''tls_ca_file''),
      (''tls_client_cert'', param pars ''tls_client_cert''), (''tls_client_key'', param pars ''tls_client_key''),
      (''tls_server_hostname'', param pars ''tls_server_hostname''),
      (''impinj_extended_configuration'', param pars ''impinj_extended_configuration''),
      (''impinj_search_mode'', param pars ''impinj_search_mode''),
      (''impinj_tag_content_selector'', if py_true (param pars ''impinj_reports'')
         then PDict [(''EnableRFPhaseAngle'', PBool True), (''EnablePeakRSSI'', PBool True),
           (''EnableRFDopplerFrequency'', PBool True)] else PNone)]"

lemma time_given_flag: "tm = PNone \<or> (\<exists>r. tm = PFloat r) \<Longrightarrow> time_given tm = Inr (time_flag tm)"
  by (auto simp: time_given_def time_flag_def positive_def number_of_def)

lemma inventory_factory_items:
  assumes "called_with inventory_options pars"
    and "\<forall>(f, n) \<in> set inventory_keywords. dict_get args f = Some (if n = ''port'' then q else param pars n)"
  shows "inventory_factory args =
    bindE (comma_ints (param pars ''antennas'')) (\<lambda>ants.
    bindE (comma_ints (param pars ''frequencies'')) (\<lambda>freqs. Inr (inventory_items pars ants freqs)))"
  using assms(2) time_given_flag [OF inventory_types(1) [OF assms(1)]]
  by (simp add: inventory_keywords_def inventory_factory_def attr_def attr_or_def dict_of_def tls_fields_def inventory_items_def)

lemma comma_ints_result:
  assumes "v = PStr s"
  shows "comma_ints v = Inl ValueError \<or> (\<exists>l. comma_ints v = Inr l \<and> l \<noteq> [])"
proof -
  have "split_on (CHR '','') s \<noteq> []" by (cases s) (auto split: list.split)
  then have "l \<noteq> []" if "comma_ints v = Inr l" for l
    using that assms mapE_length by (fastforce simp: comma_ints_def)
  moreover have "e = ValueError" if "comma_ints v = Inl e" for e
    using that assms by (auto simp: comma_ints_def dest!: mapE_error py_int_parse_error)
  ultimately show ?thesis by (cases "comma_ints v") auto
qed

definition retries_of :: "pydict \<Rightarrow> int" where
  "retries_of pars = (case param pars ''reconnect_retries'' of PInt i \<Rightarrow> i | _ \<Rightarrow> 0)"

text \<open>The condition under which the configuration of an inventory passes validation.\<close>

definition inventory_accepted :: "pydict \<Rightarrow> int list \<Rightarrow> int list \<Rightarrow> bool" where
  "inventory_accepted pars ants freqs \<longleftrightarrow> antennas_accepted ants \<and> -1 \<le> retries_of pars \<and>
     channels_accepted freqs (py_true (param pars ''impinj_fixed_frequency'')) \<and>
     dedup_accepted (param pars ''dedup_seconds'') (param pars ''dedup_backend'') \<and>
     key_accepted (param pars ''tls_client_cert'') (param pars ''tls_client_key'')"

text \<open>
  The whole configuration that the options ask for, field by field: 29 fields come from the command
  line, the other 14 are the defaults of \<^verbatim>\<open>LLRPReaderConfig\<close>.
\<close>

definition asked_time :: "pyval \<Rightarrow> pyval" where
  "asked_time tm = (case tm of PFloat r \<Rightarrow> if r < 0 then PBool False else if 0 < r then PBool True else PFloat r | _ \<Rightarrow> PNone)"

definition asked_channels :: "pyval \<Rightarrow> int list \<Rightarrow> pyval" where
  "asked_channels hoptable freqs = PDict [(''HopTableId'', hoptable),
     (''ChannelList'', PList (if hd freqs = 0 then [PInt 1] else map PInt freqs)), (''Automatic'', PBool (hd freqs = 0))]"

definition asked_content :: pyval where
  "asked_content = PDict [
     (''EnableROSpecID'', PBool False), (''EnableSpecIndex'', PBool False),
     (''EnableInventoryParameterSpecID'', PBool False), (''EnableAntennaID'', PBool False),
     (''EnableChannelIndex'', PBool True), (''EnablePeakRSSI'', PBool False),
     (''EnableFirstSeenTimestamp'', PBool False), (''EnableLastSeenTimestamp'', PBool True),
     (''EnableTagSeenCount'', PBool True), (''EnableAccessSpecID'', PBool False),
     (''C1G2EPCMemorySelector'', PDict [(''EnableCRC'', PBool False), (''EnablePCBits'', PBool False)])]"

text \<open>One power for every antenna, each antenna once, in the order of the list.\<close>

definition asked_powers :: "pyval \<Rightarrow> int list \<Rightarrow> power_setting" where
  "asked_powers p ants = Per_Antenna (map (\<lambda>a. (a, p)) (rev (remdups (rev ants))))"

text \<open>The port of the option, or the default port of the transport.\<close>

definition asked_port :: "pydict \<Rightarrow> int" where
  "asked_port pars = (case param pars ''port'' of PInt p \<Rightarrow> p | _ \<Rightarrow> if param pars ''tls_enabled'' = PBool True then 5085 else 5084)"

definition configured_as :: "pydict \<Rightarrow> int list \<Rightarrow> int list \<Rightarrow> reader_config \<Rightarrow> bool" where
  "configured_as pars ants freqs c \<longleftrightarrow> c = \<lparr>
     duration = param pars ''time'',
     tari = param pars ''tari'',
     session = param pars ''session'',
     mode_identifier = param pars ''mode_identifier'',
     tag_population = param pars ''tag_population'',
     ro_report_every_n_tags = param pars ''ro_report_every_n_tags'',
     report_every_n_tags = param pars ''report_every_n_tags'',
     report_timeout_ms = PInt 0,
     dedup_seconds = param pars ''dedup_seconds'',
     dedup_backend = param pars ''dedup_backend'',
     dedup_max_entries = PInt 1000000,
     rf_telemetry_mode = PStr ''off'',
     socket_receive_buffer_bytes = PInt 1048576,
     max_message_size = PInt 16777216,
     request_timeout = PNone,
     antennas = PList (map PInt ants),
     tx_power = asked_powers (param pars ''tx_power'') ants,
     tx_power_dbm = Scalar PNone,
     disconnect_when_done = asked_time (param pars ''time''),
     tag_filter_mask = param pars ''tag_filter_mask'',
     tag_content_selector = asked_content,
     event_selector = PDict (map (\<lambda>n. (n, PBool False))
       [''HoppingEvent'', ''GPIEvent'', ''ROSpecEvent'', ''ReportBufferFillWarning'', ''ReaderExceptionEvent'',
        ''RFSurveyEvent'', ''AISpecEvent'', ''AISpecEventWithSingulation'', ''AntennaEvent'']),
     frequencies = asked_channels (param pars ''hoptable_id'') freqs,
     gpi_ports_config = Per_Antenna [],
     reconnect = param pars ''reconnect'',
     start_inventory = PBool True,
     reset_on_connect = PBool True,
     tls_enabled = param pars ''tls_enabled'',
     tls_verify = param pars ''tls_verify'',
     tls_ca_file = param pars ''tls_ca_file'',
     tls_client_cert = param pars ''tls_client_cert'',
     tls_client_key = param pars ''tls_client_key'',
     tls_server_hostname = param pars ''tls_server_hostname'',
     impinj_extended_configuration = param pars ''impinj_extended_configuration'',
     impinj_fixed_frequency = param pars ''impinj_fixed_frequency'',
     impinj_search_mode = param pars ''impinj_search_mode'',
     impinj_reports = PBool False,
     impinj_tag_content_selector = (if param pars ''impinj_reports'' = PBool True
       then PDict [(''EnableRFPhaseAngle'', PBool True), (''EnablePeakRSSI'', PBool True),
         (''EnableRFDopplerFrequency'', PBool True)] else PNone),
     zebra_tag_content_selector = PNone,
     impinj_event_selector = PNone,
     keepalive_interval = param pars ''keepalive_interval'',
     reconnect_retries = param pars ''reconnect_retries'',
     reconnect_delay = PFloat 60\<rparr>"

lemma dict_set_same:
  "dict_set (map (\<lambda>a. (a, p)) l) b p = (if b \<in> set l then map (\<lambda>a. (a, p)) l else map (\<lambda>a. (a, p)) l @ [(b, p)])"
  by (induction l) auto

lemma asked_powers_table: "asked_powers p ants = Per_Antenna (dict_update [] (map (\<lambda>a. (a, p)) ants))"
proof -
  have "dict_update [] (map (\<lambda>a. (a, p)) ants) = map (\<lambda>a. (a, p)) (rev (remdups (rev ants)))"
    by (induction ants rule: rev_induct) (simp_all add: dict_update_def dict_set_same)
  then show ?thesis by (simp add: asked_powers_def)
qed

lemma asked_port_resolved:
  assumes "called_with inventory_options pars"
  shows "resolved_port pars = PInt (asked_port pars)"
  using inventory_types(10,12) [OF assms] by (auto simp: resolved_port_def resolve_llrp_port_def asked_port_def
      LLRP_SECURE_PORT_def LLRP_DEFAULT_PORT_def)

lemma asked_flag: "tm = PNone \<or> (\<exists>r. tm = PFloat r) \<Longrightarrow> time_flag tm = asked_time tm"
  by (auto simp: time_flag_def asked_time_def)

lemma asked_setting: "frequency_setting h freqs = asked_channels h freqs"
  by (simp add: frequency_setting_def asked_channels_def int_list_def Let_def)

lemma asked_selector:
  "selector [''EnableChannelIndex'', ''EnableLastSeenTimestamp'', ''EnableTagSeenCount''] no_epc_memory = asked_content"
  by (simp add: selector_def no_epc_memory_def asked_content_def)

lemma inventory_config:
  assumes "called_with inventory_options pars" "freqs \<noteq> []"
  shows "if inventory_accepted pars ants freqs
    then \<exists>c. verb_config (inventory_items pars ants freqs) = Inr c \<and> config_valid c \<and> configured_as pars ants freqs c
    else verb_config (inventory_items pars ants freqs) = Inl LLRPError"
proof -
  note types = inventory_types [OF assms(1)]
  obtain p ret fixed rep where vals: "param pars ''tx_power'' = PInt p" "param pars ''reconnect_retries'' = PInt ret"
    "param pars ''impinj_fixed_frequency'' = PBool fixed" "param pars ''impinj_reports'' = PBool rep" using types(6,7,9,11) by auto
  obtain c where c: "update_fields (map (\<lambda>(k, v). (k, Scalar v)) (inventory_items pars ants freqs)) default_config = Some c"
    unfolding inventory_items_def update_inventory_fields by simp
  note c_eq = c [unfolded inventory_items_def update_inventory_fields option.inject, symmetric]
  have asked: "configured_as pars ants freqs (c\<lparr>tx_power := Per_Antenna (dict_update [] (map (\<lambda>a. (a, PInt p)) ants))\<rparr>)"
    by (simp add: configured_as_def c_eq vals default_config_def asked_powers_table asked_flag [OF types(1)] asked_setting
        asked_selector int_list_def DEFAULT_MAX_MESSAGE_SIZE_def)
  have "plain_config c" using types by (simp add: c_eq plain_config_def default_config_def)
  moreover have fields: "antennas c = int_list ants" "reconnect_retries c = PInt ret" "tx_power c = Scalar (PInt p)"
    "frequencies c = frequency_setting (param pars ''hoptable_id'') freqs" "impinj_fixed_frequency c = PBool fixed"
    "dedup_seconds c = param pars ''dedup_seconds''" "dedup_backend c = param pars ''dedup_backend''"
    "tls_client_cert c = param pars ''tls_client_cert''" "tls_client_key c = param pars ''tls_client_key''"
    by (simp_all add: c_eq vals)
  ultimately have valid: "validate_config c = (if inventory_accepted pars ants freqs
     then Inr (c\<lparr>tx_power := Per_Antenna (dict_update [] (map (\<lambda>a. (a, PInt p)) ants))\<rparr>) else Inl LLRPError)"
    using validate_plain [OF _ fields(1-4) assms(2) fields(5)]
    by (simp add: inventory_accepted_def retries_of_def vals fields(6-9))
  have "dict_get (map (\<lambda>(k, v). (k, Scalar v)) (inventory_items pars ants freqs)) ''disconnect_when_done'' \<noteq> None"
    "inventory_items pars ants freqs \<noteq> []" by (simp_all add: inventory_items_def)
  then have "verb_config (inventory_items pars ants freqs) = validate_config c"
    using c by (auto simp: verb_config_def new_reader_config_def)
  with asked validate_config_valid [of c] show ?thesis unfolding valid by auto
qed

section \<open>The reader clients\<close>

lemma split_host_port_error: "split_host_port h p = Inl e \<Longrightarrow> e = ValueError"
  by (auto simp: split_host_port_def Let_def res_simps dest: py_int_parse_error split: if_splits)

lemma verb_client_result:
  assumes "none_or (int_from 1) (dedup_seconds c)" "dedup_max_entries c = PInt 1000000"
  shows "\<exists>r. verb_client env p c = Inr r \<and> reader_settings r = c \<and> port r = p \<and> \<not> thread_running r \<and>
    \<not> transport_up (llrp r) \<and> state (llrp r) = STATE_DISCONNECTED"
proof -
  have "\<exists>d. build_tag_deduplicator c = Inr d"
    using assms by (auto simp: build_tag_deduplicator_def none_or_def int_from_def py_int_def py_number_def
        number_of_def new_dedup_def split: pyval.splits)
  then show ?thesis
    by (auto simp: verb_client_def new_reader_def reader_settings_def current_config_def new_client_def)
qed

text \<open>A reader client as a verb hands it to its first connection.\<close>

definition configured_reader :: "reader_config \<Rightarrow> string \<times> int \<Rightarrow> verb_reader \<Rightarrow> bool" where
  "configured_reader c addr hr \<longleftrightarrow> fst hr = fst addr \<and> port (snd hr) = snd addr \<and> reader_settings (snd hr) = c \<and>
     \<not> thread_running (snd hr) \<and> \<not> transport_up (llrp (snd hr)) \<and> state (llrp (snd hr)) = STATE_DISCONNECTED"

definition harmless :: "(reader \<Rightarrow> reader) \<Rightarrow> bool" where
  "harmless g \<longleftrightarrow> (\<forall>r. llrp (g r) = llrp r \<and> port (g r) = port r \<and> reader_cfg (g r) = reader_cfg r \<and>
     thread_running (g r) = thread_running r)"

lemma callbacks_harmless: "harmless inventory_callbacks" "harmless counting_callbacks" "harmless reset_callbacks"
  by (simp_all add: harmless_def inventory_callbacks_def counting_callbacks_def reset_callbacks_def
      add_state_callback_def add_tag_report_callback_def add_disconnected_callback_def add_message_callback_def)

lemma make_readers_result:
  assumes "verb_config d = Inr c" "none_or (int_from 1) (dedup_seconds c)" "dedup_max_entries c = PInt 1000000"
    "harmless listen"
  shows "case mapE (\<lambda>h. split_host_port h p) hosts of
      Inl e \<Rightarrow> make_readers listen d p env i (map PStr hosts) = Inl e
    | Inr addrs \<Rightarrow> \<exists>rs. make_readers listen d p env i (map PStr hosts) = Inr rs \<and> list_all2 (configured_reader c) addrs rs"
proof (induction hosts arbitrary: i)
  case Nil
  then show ?case by simp
next
  case (Cons h hosts)
  show ?case
  proof (cases "split_host_port h p")
    case (Inl e)
    then show ?thesis by simp
  next
    case (Inr addr)
    obtain r where r: "verb_client (env i) (snd addr) c = Inr r" "reader_settings r = c" "port r = snd addr"
      "\<not> thread_running r" "\<not> transport_up (llrp r)" "state (llrp r) = STATE_DISCONNECTED"
      using verb_client_result [OF assms(2,3)] by blast
    then have "configured_reader c addr (fst addr, listen r)"
      using assms(4) by (simp add: configured_reader_def harmless_def reader_settings_def)
    then show ?thesis
      using Cons.IH [of "Suc i"] r(1) assms(1) Inr
      by (cases "mapE (\<lambda>h. split_host_port h p) hosts") (auto simp: case_prod_beta)
  qed
qed

lemma make_readers_refused:
  assumes "verb_config d = Inl LLRPError" "hosts \<noteq> []"
  shows "make_readers listen d p env i (map PStr hosts) = Inl LLRPError \<or>
    (\<exists>h \<in> set hosts. split_host_port h p = Inl ValueError) \<and> make_readers listen d p env i (map PStr hosts) = Inl ValueError"
proof -
  obtain h hs where hosts: "hosts = h # hs" using assms(2) by (cases hosts) auto
  show ?thesis
    using assms(1) split_host_port_error [of h p] unfolding hosts
    by (cases "split_host_port h p") (auto simp: case_prod_beta)
qed

lemma inventory_run:
  assumes "called_with inventory_options pars" "param pars ''host'' = PList (map PStr hosts)"
  shows "\<exists>args q. inventory_args pars = Inr args \<and> resolved_port pars = PInt q \<and>
    inventory_readers env args =
      bindE (comma_ints (param pars ''antennas'')) (\<lambda>ants. bindE (comma_ints (param pars ''frequencies'')) (\<lambda>freqs.
      make_readers inventory_callbacks (inventory_items pars ants freqs) q env 0 (map PStr hosts)))"
proof -
  obtain args where args: "inventory_args pars = Inr args"
    "\<forall>(f, n) \<in> set inventory_keywords. dict_get args f = Some (if n = ''port'' then resolved_port pars else param pars n)"
    using command_args_get [OF commands_ok(1) assms(1)] unfolding inventory_args_def by blast
  obtain q where q: "resolved_port pars = PInt q"
    using inventory_types(10) [OF assms(1)] by (auto simp: resolved_port_def resolve_llrp_port_def)
  have "dict_get args ''host'' = Some (PList (map PStr hosts))" "dict_get args ''port'' = Some (PInt q)"
    using args(2) q assms(2) by (simp_all add: inventory_keywords_def)
  then show ?thesis
    using inventory_factory_items [OF assms(1) args(2)] args(1) q
    by (simp add: inventory_readers_def verb_readers_def attr_def py_iter_def bindE_assoc)
qed

section \<open>Properties\<close>

text \<open>
  C36. Every command line of the inventory verb that the option parser accepts is turned into
  reader clients or refused for a reason.  There is one client per host, with the host and port
  of its address, or the port of the option or of the transport, not connected, with a validated
  configuration that has in every one of its 43 fields the value of its option or its default.  It is refused with \<open>ValueError\<close> exactly
  when a list or an address is not made of numbers, and with \<open>LLRPError\<close> only when the values are
  not accepted: no other exception is possible, and an accepted one is never refused.
\<close>

theorem inventory_command_line:
  assumes "called_with inventory_options pars" "param pars ''host'' = PList (map PStr hosts)" "hosts \<noteq> []"
  shows "\<exists>args q. inventory_args pars = Inr args \<and> q = asked_port pars \<and>
    (case (comma_ints (param pars ''antennas''), comma_ints (param pars ''frequencies'')) of
       (Inr ants, Inr freqs) \<Rightarrow>
         if inventory_accepted pars ants freqs
         then (case mapE (\<lambda>h. split_host_port h q) hosts of
             Inl e \<Rightarrow> e = ValueError \<and> inventory_readers env args = Inl ValueError
           | Inr addrs \<Rightarrow> \<exists>c rs. inventory_readers env args = Inr rs \<and> list_all2 (configured_reader c) addrs rs \<and>
               config_valid c \<and> configured_as pars ants freqs c)
         else inventory_readers env args = Inl LLRPError \<or>
           (\<exists>h \<in> set hosts. split_host_port h q = Inl ValueError) \<and> inventory_readers env args = Inl ValueError
     | _ \<Rightarrow> inventory_readers env args = Inl ValueError)"
proof -
  note types = inventory_types [OF assms(1)]
  obtain args q where args: "inventory_args pars = Inr args" and q: "resolved_port pars = PInt q"
    and run: "inventory_readers env args =
      bindE (comma_ints (param pars ''antennas'')) (\<lambda>ants. bindE (comma_ints (param pars ''frequencies'')) (\<lambda>freqs.
      make_readers inventory_callbacks (inventory_items pars ants freqs) q env 0 (map PStr hosts)))"
    using inventory_run [OF assms(1,2)] by blast
  have port: "q = asked_port pars" using asked_port_resolved [OF assms(1)] q by simp
  obtain s s' where texts: "param pars ''antennas'' = PStr s" "param pars ''frequencies'' = PStr s'" using types by auto
  show ?thesis
  proof (cases "comma_ints (param pars ''antennas'')")
    case (Inl e)
    then show ?thesis using comma_ints_result [OF texts(1)] args port run by auto
  next
    case ants: (Inr ants)
    show ?thesis
    proof (cases "comma_ints (param pars ''frequencies'')")
      case (Inl e)
      then show ?thesis using comma_ints_result [OF texts(2)] args port run ants by auto
    next
      case freqs: (Inr freqs)
      then have "freqs \<noteq> []" using comma_ints_result [OF texts(2)] by auto
      note cfg = inventory_config [OF assms(1) this, of ants]
      show ?thesis
      proof (cases "inventory_accepted pars ants freqs")
        case False
        then show ?thesis
          using cfg make_readers_refused [OF _ assms(3)] args port run ants freqs by auto
      next
        case True
        then obtain c where c: "verb_config (inventory_items pars ants freqs) = Inr c" "config_valid c"
          "configured_as pars ants freqs c" using cfg by auto
        have "none_or (int_from 1) (dedup_seconds c)" "dedup_max_entries c = PInt 1000000"
          using types(3) c(3) by (simp_all add: configured_as_def)
        note readers = make_readers_result [OF c(1) this callbacks_harmless(1), where p = q and env = env and i = 0 and hosts = hosts]
        have "e = ValueError" if "mapE (\<lambda>h. split_host_port h q) hosts = Inl e" for e
          using mapE_error [OF that] split_host_port_error by blast
        then show ?thesis using readers True args port run ants freqs c
          by (cases "mapE (\<lambda>h. split_host_port h q) hosts") auto
      qed
    qed
  qed
qed

theorem inventory_command_line_witness:
  "\<forall>env. \<exists>args c rs. inventory_args (default_parameters inventory_options [''10.0.0.2'', ''[fe80::1]:5090'']) = Inr args \<and>
     inventory_readers env args = Inr rs \<and> list_all2 (configured_reader c) [(''10.0.0.2'', 5084), (''fe80::1'', 5090)] rs \<and>
     configured_as (default_parameters inventory_options [''10.0.0.2'', ''[fe80::1]:5090'']) [1] [1] c"
proof
  fix env
  let ?p = "default_parameters inventory_options [''10.0.0.2'', ''[fe80::1]:5090'']"
  have call: "called_with inventory_options ?p" by code_simp
  have host: "param ?p ''host'' = PList (map PStr [''10.0.0.2'', ''[fe80::1]:5090''])" by code_simp
  have vals: "comma_ints (param ?p ''antennas'') = Inr [1]" "comma_ints (param ?p ''frequencies'') = Inr [1]"
    "inventory_accepted ?p [1] [1]" "asked_port ?p = 5084"
    "mapE (\<lambda>h. split_host_port h 5084) [''10.0.0.2'', ''[fe80::1]:5090''] = Inr [(''10.0.0.2'', 5084), (''fe80::1'', 5090)]"
    by code_simp+
  show "\<exists>args c rs. inventory_args ?p = Inr args \<and> inventory_readers env args = Inr rs \<and>
      list_all2 (configured_reader c) [(''10.0.0.2'', 5084), (''fe80::1'', 5090)] rs \<and> configured_as ?p [1] [1] c"
    using inventory_command_line [OF call host, of env] vals by auto
qed

end
