(* ===== verification/Verb_Counters.thy ===== *)
theory Verb_Counters
  imports Exception_State Py_Values
begin

text \<open>
  The statistics the verbs keep in their modules (\<^verbatim>\<open>verb/inventory.py\<close>, \<^verbatim>\<open>verb/access.py\<close>,
  \<^verbatim>\<open>lock.py\<close>): a total, and a start time and a count per reader, changed by the callbacks of
  several readers in any order.  Readers are numbered; the clock reading of a call is an argument.
  The locale \<open>tag_counters\<close> states what the three modules have in common and proves the accounting
  once: each callback run is a list of events, and what is logged when readers finish together
  with what is still counted is the total.
\<close>

section \<open>State and results\<close>

record 'k counters =
  start_time :: "rat option"
  tag_total :: int
  reader_start_times :: "('k \<times> rat) list"
  reader_tag_counts :: "('k \<times> int) list"

text \<open>The count and rate of a reader, and the total, as \<open>finish_cb\<close> logs them.\<close>

type_synonym finish_line = "int \<times> rat \<times> int"

definition no_counters :: "'k counters" where
  "no_counters = \<lparr>start_time = None, tag_total = 0, reader_start_times = [], reader_tag_counts = []\<rparr>"

definition count_in :: "('k \<times> int) list \<Rightarrow> 'k \<Rightarrow> int" where
  "count_in d k = (case dict_get d k of None \<Rightarrow> 0 | Some n \<Rightarrow> n)"

definition set_default :: "('k \<times> 'v) list \<Rightarrow> 'k \<Rightarrow> 'v \<Rightarrow> ('k \<times> 'v) list" where
  "set_default d k v = (if dict_get d k = None then dict_set d k v else d)"

text \<open>\<open>sum(int(tag.get("TagSeenCount", 1)) for tag in tags)\<close>.\<close>

definition seen_count :: "pyval \<Rightarrow> int res" where
  "seen_count tags = bindE (py_iter tags) (\<lambda>l.
     bindE (mapE (\<lambda>tag. bindE (py_get tag ''TagSeenCount'' (PInt 1)) py_int) l) (\<lambda>ns. Inr (sum_list ns)))"

definition rate_of :: "int \<Rightarrow> rat option \<Rightarrow> rat \<Rightarrow> rat" where
  "rate_of count started now =
    (let runtime = (case started of None \<Rightarrow> 0 | Some t \<Rightarrow> max 0 (now - t))
     in if runtime > 0 then of_int count / runtime else 0)"

text \<open>The part of every \<open>tag_report_cb\<close> that counts.\<close>

definition add_count :: "'k \<Rightarrow> int \<Rightarrow> ('k, 'z) counters_scheme \<Rightarrow> ('k, 'z) counters_scheme" where
  "add_count k n s = s\<lparr>tag_total := tag_total s + n,
     reader_tag_counts := dict_set (reader_tag_counts s) k (count_in (reader_tag_counts s) k + n)\<rparr>"

definition count_report :: "'k \<Rightarrow> pyval \<Rightarrow> (('k, 'z) counters_scheme, unit) act" where
  "count_report k tags = (if \<not> py_true tags then retA ()
     else bindA (liftA (seen_count tags)) (\<lambda>n. modifyA (add_count k n)))"

section \<open>Inventory\<close>

text \<open>The key of a reader; \<open>None\<close> stands for a call without a reader.\<close>

type_synonym inventory_counters = "nat option counters"

definition inventory_reset_stats :: "inventory_counters \<Rightarrow> inventory_counters" where
  "inventory_reset_stats s = no_counters"

definition inventory_start_cb :: "nat option \<Rightarrow> rat \<Rightarrow> inventory_counters \<Rightarrow> inventory_counters" where
  "inventory_start_cb k now s = s\<lparr>start_time := Some now,
     reader_start_times := dict_set (reader_start_times s) k now,
     reader_tag_counts := set_default (reader_tag_counts s) k 0\<rparr>"

definition inventory_tag_report_cb :: "nat option \<Rightarrow> pyval \<Rightarrow> (inventory_counters, unit) act" where
  "inventory_tag_report_cb = count_report"

definition inventory_finish_cb :: "nat option \<Rightarrow> rat \<Rightarrow> inventory_counters \<Rightarrow> finish_line \<times> inventory_counters" where
  "inventory_finish_cb k now s =
    (let started = (case dict_get (reader_start_times s) k of None \<Rightarrow> start_time s | Some t \<Rightarrow> Some t);
         count = (case dict_get (reader_tag_counts s) k of
           None \<Rightarrow> if k = None then tag_total s else 0 | Some n \<Rightarrow> n)
     in ((count, rate_of count started now, tag_total s),
         s\<lparr>reader_start_times := dict_pop (reader_start_times s) k,
           reader_tag_counts := dict_pop (reader_tag_counts s) k\<rparr>))"

section \<open>Access and locking\<close>

type_synonym access_counters = "nat counters"

definition mark_reader_start :: "nat \<Rightarrow> rat \<Rightarrow> (nat, 'z) counters_scheme \<Rightarrow> (nat, 'z) counters_scheme" where
  "mark_reader_start k now s = s\<lparr>
     start_time := (case start_time s of None \<Rightarrow> Some now | Some t \<Rightarrow> Some t),
     reader_start_times := set_default (reader_start_times s) k now\<rparr>"

text \<open>Both modules log the count of the reader with the total.\<close>

definition finish_reader :: "nat \<Rightarrow> rat \<Rightarrow> (nat, 'z) counters_scheme \<Rightarrow> finish_line \<times> (nat, 'z) counters_scheme" where
  "finish_reader k now s =
    (let started = (case dict_get (reader_start_times s) k of None \<Rightarrow> start_time s | Some t \<Rightarrow> Some t);
         count = count_in (reader_tag_counts s) k
     in ((count, rate_of count started now, tag_total s),
         s\<lparr>reader_start_times := dict_pop (reader_start_times s) k,
           reader_tag_counts := dict_pop (reader_tag_counts s) k\<rparr>))"

definition access_finish_cb :: "nat \<Rightarrow> rat \<Rightarrow> (nat, 'z) counters_scheme \<Rightarrow> finish_line \<times> (nat, 'z) counters_scheme" where
  "access_finish_cb = finish_reader"

record lock_counters = "nat counters" +
  end_time :: "rat option"

definition lock_reset_runtime_state :: "lock_counters \<Rightarrow> lock_counters" where
  "lock_reset_runtime_state s = s\<lparr>start_time := None, end_time := None, tag_total := 0,
     reader_start_times := [], reader_tag_counts := []\<rparr>"

definition startTimeMeasurement :: "rat \<Rightarrow> lock_counters \<Rightarrow> lock_counters" where
  "startTimeMeasurement now s = s\<lparr>start_time := Some now\<rparr>"

definition stopTimeMeasurement :: "rat \<Rightarrow> lock_counters \<Rightarrow> lock_counters" where
  "stopTimeMeasurement now s = s\<lparr>end_time := Some now\<rparr>"

definition lock_mark_start :: "nat \<Rightarrow> rat \<Rightarrow> lock_counters \<Rightarrow> lock_counters" where
  "lock_mark_start k now s = s\<lparr>reader_start_times := set_default (reader_start_times s) k now\<rparr>"

definition lock_finish_cb :: "nat \<Rightarrow> rat \<Rightarrow> lock_counters \<Rightarrow> finish_line \<times> lock_counters" where
  "lock_finish_cb k now s = finish_reader k now (stopTimeMeasurement now s)"

section \<open>The accounting\<close>

datatype 'k counter_event = Started 'k rat | Reported 'k pyval | Finished 'k rat

text \<open>What a report adds: nothing when it is empty or not readable.\<close>

definition counted :: "pyval \<Rightarrow> int" where
  "counted tags = (if py_true tags then (case seen_count tags of Inl _ \<Rightarrow> 0 | Inr n \<Rightarrow> n) else 0)"

text \<open>The tags a reader reported since it last finished, for a reader that had \<open>n\<close> before.\<close>

fun tally :: "'k \<Rightarrow> int \<Rightarrow> 'k counter_event list \<Rightarrow> int" where
  "tally k n [] = n"
| "tally k n (Started k' t # es) = tally k n es"
| "tally k n (Reported k' tags # es) = tally k (if k' = k then n + counted tags else n) es"
| "tally k n (Finished k' t # es) = tally k (if k' = k then 0 else n) es"

fun all_counted :: "'k counter_event list \<Rightarrow> int" where
  "all_counted [] = 0"
| "all_counted (Reported k tags # es) = counted tags + all_counted es"
| "all_counted (_ # es) = all_counted es"

text \<open>The lines to be logged: for each reader that finishes, what it reported since it last finished.\<close>

fun lines_of :: "('k \<Rightarrow> int) \<Rightarrow> 'k counter_event list \<Rightarrow> ('k \<times> int) list" where
  "lines_of c [] = []"
| "lines_of c (Started k t # es) = lines_of c es"
| "lines_of c (Reported k tags # es) = lines_of (c(k := c k + counted tags)) es"
| "lines_of c (Finished k t # es) = (k, c k) # lines_of (c(k := 0)) es"

text \<open>A run of the callbacks of a module: the counts it logs, and the state it leaves.\<close>

fun counter_run :: "('k \<Rightarrow> rat \<Rightarrow> 's \<Rightarrow> 's) \<Rightarrow> ('k \<Rightarrow> pyval \<Rightarrow> ('s, unit) act) \<Rightarrow> ('k \<Rightarrow> rat \<Rightarrow> 's \<Rightarrow> finish_line \<times> 's) \<Rightarrow>
    'k counter_event list \<Rightarrow> 's \<Rightarrow> ('k \<times> int) list \<times> 's" where
  "counter_run start report finish [] s = ([], s)"
| "counter_run start report finish (Started k t # es) s = counter_run start report finish es (start k t s)"
| "counter_run start report finish (Reported k tags # es) s = counter_run start report finish es (snd (report k tags s))"
| "counter_run start report finish (Finished k t # es) s = (case finish k t s of (line, s) \<Rightarrow>
     (case counter_run start report finish es s of (out, s) \<Rightarrow> ((k, fst line) # out, s)))"

text \<open>A run in which only proper readers finish.\<close>

fun proper_event :: "('k \<Rightarrow> bool) \<Rightarrow> 'k counter_event \<Rightarrow> bool" where
  "proper_event proper (Finished k t) = proper k"
| "proper_event proper _ = True"

definition count_sum :: "('k \<times> int) list \<Rightarrow> int" where
  "count_sum d = sum_list (map snd d)"

lemma count_sum_pop: "distinct (map fst d) \<Longrightarrow> count_sum (dict_pop d k) + count_in d k = count_sum d"
  by (induction d) (auto simp: count_sum_def count_in_def delete_id)

lemma count_sum_set: "distinct (map fst d) \<Longrightarrow> count_sum (dict_set d k (count_in d k + n)) = count_sum d + n"
  by (induction d) (auto simp: count_sum_def count_in_def)

lemma count_in_set: "count_in (dict_set d k n) k' = (if k' = k then n else count_in d k')"
  by (simp add: count_in_def dict_simps)

lemma count_in_pop: "count_in (dict_pop d k) k' = (if k' = k then 0 else count_in d k')"
  by (simp add: count_in_def dict_simps)

lemma set_default_zero:
  "count_in (set_default d k 0) k' = count_in d k'" "count_sum (set_default d k 0) = count_sum d"
  "distinct (map fst d) \<Longrightarrow> distinct (map fst (set_default d k 0))"
proof -
  have new: "dict_set d k 0 = d @ [(k, 0)]" if "dict_get d k = None" using that by (simp add: map_of_eq_None_iff dict_set_new)
  then show "count_sum (set_default d k 0) = count_sum d" by (simp add: set_default_def count_sum_def)
  show "count_in (set_default d k 0) k' = count_in d k'" by (auto simp: set_default_def count_in_set) (simp add: count_in_def)
  show "distinct (map fst d) \<Longrightarrow> distinct (map fst (set_default d k 0))" by (simp add: set_default_def distinct_update)
qed

locale tag_counters =
  fixes total :: "'s \<Rightarrow> int"
    and counts :: "'s \<Rightarrow> ('k \<times> int) list"
    and start :: "'k \<Rightarrow> rat \<Rightarrow> 's \<Rightarrow> 's"
    and report :: "'k \<Rightarrow> pyval \<Rightarrow> ('s, unit) act"
    and finish :: "'k \<Rightarrow> rat \<Rightarrow> 's \<Rightarrow> finish_line \<times> 's"
    and proper :: "'k \<Rightarrow> bool"
  assumes started: "total (start k t s) = total s"
      "counts (start k t s) = counts s \<or> counts (start k t s) = set_default (counts s) k 0"
    and reported: "total (snd (report k tags s)) = total s + counted tags"
      "counts (snd (report k tags s)) = counts s \<and> counted tags = 0 \<or>
       counts (snd (report k tags s)) = dict_set (counts s) k (count_in (counts s) k + counted tags)"
    and finished: "proper k \<Longrightarrow> finish k t s = ((n, rate, all), s') \<Longrightarrow>
       n = count_in (counts s) k \<and> all = total s \<and> total s' = total s \<and> counts s' = dict_pop (counts s) k"
begin

abbreviation run :: "'k counter_event list \<Rightarrow> 's \<Rightarrow> ('k \<times> int) list \<times> 's" where
  "run \<equiv> counter_run start report finish"

lemma reported_view:
  assumes "distinct (map fst (counts s))"
  shows "distinct (map fst (counts (snd (report k tags s))))"
    "count_sum (counts (snd (report k tags s))) = count_sum (counts s) + counted tags"
    "count_in (counts (snd (report k tags s))) k' = (if k' = k then count_in (counts s) k + counted tags else count_in (counts s) k')"
  using reported(2) [of k tags s] assms by (auto simp: distinct_update count_sum_set count_in_set)

lemma started_view:
  assumes "distinct (map fst (counts s))"
  shows "distinct (map fst (counts (start k t s)))" "count_sum (counts (start k t s)) = count_sum (counts s)"
    "count_in (counts (start k t s)) k' = count_in (counts s) k'"
  using started(2) [of k t s] assms set_default_zero [of "counts s" k] by auto

lemma balance:
  assumes "list_all (proper_event proper) es" "distinct (map fst (counts s))" "run es s = (out, s')"
  shows "total s' = total s + all_counted es \<and>
    count_sum out + count_sum (counts s') = count_sum (counts s) + all_counted es \<and>
    (\<forall>k. count_in (counts s') k = tally k (count_in (counts s) k) es) \<and> out = lines_of (count_in (counts s)) es"
  using assms
proof (induction es arbitrary: s out)
  case Nil
  then show ?case by (simp add: count_sum_def)
next
  case (Cons e es)
  show ?case
  proof (cases e)
    case (Started k t)
    have view: "distinct (map fst (counts (start k t s)))" "count_in (counts (start k t s)) = count_in (counts s)"
      using started_view [OF Cons.prems(2)] by (auto simp: fun_eq_iff)
    with Cons.IH [of "start k t s" out] Cons.prems Started show ?thesis
      by (auto simp: started started_view)
  next
    case (Reported k tags)
    have view: "distinct (map fst (counts (snd (report k tags s))))"
      "count_in (counts (snd (report k tags s))) = (count_in (counts s))(k := count_in (counts s) k + counted tags)"
      using reported_view [OF Cons.prems(2)] by (auto simp: fun_eq_iff)
    with Cons.IH [of "snd (report k tags s)" out] Cons.prems Reported show ?thesis
      by (auto simp: reported(1) reported_view fun_upd_def)
  next
    case (Finished k t)
    obtain n rate all s1 where f: "finish k t s = ((n, rate, all), s1)" by (metis prod_cases3 surj_pair)
    have k: "proper k" using Cons.prems(1) Finished by simp
    note laws = finished [OF k f]
    obtain rest where rest: "run es s1 = (rest, s')" "out = (k, n) # rest"
      using Cons.prems(3) Finished f by (auto split: prod.splits)
    have view: "distinct (map fst (counts s1))" "count_in (counts s1) = (count_in (counts s))(k := 0)"
      using laws Cons.prems(2) by (simp_all add: distinct_delete fun_eq_iff count_in_pop)
    with Cons.IH [of s1 rest] Cons.prems Finished rest laws show ?thesis
      using count_sum_pop [OF Cons.prems(2), of k] by (auto simp: count_sum_def)
  qed
qed

end

lemma count_report_total:
  "tag_total (snd (count_report k tags s)) = tag_total s + counted tags"
  "reader_tag_counts (snd (count_report k tags s)) = reader_tag_counts s \<and> counted tags = 0 \<or>
   reader_tag_counts (snd (count_report k tags s)) =
     dict_set (reader_tag_counts s) k (count_in (reader_tag_counts s) k + counted tags)"
  by (auto simp: count_report_def counted_def add_count_def act_simps split: sum.splits)

lemma inventory_finish_some:
  "inventory_finish_cb (Some k) now s = ((n, rate, all), s') \<Longrightarrow>
     n = count_in (reader_tag_counts s) (Some k) \<and> all = tag_total s \<and> tag_total s' = tag_total s \<and>
     reader_tag_counts s' = dict_pop (reader_tag_counts s) (Some k)"
  by (auto simp: inventory_finish_cb_def count_in_def Let_def split: option.splits)

lemma finish_reader_result:
  "finish_reader k now s = ((n, rate, all), s') \<Longrightarrow>
     n = count_in (reader_tag_counts s) k \<and> all = tag_total s \<and> tag_total s' = tag_total s \<and>
     reader_tag_counts s' = dict_pop (reader_tag_counts s) k"
  by (auto simp: finish_reader_def Let_def)

interpretation inventory_counts: tag_counters tag_total reader_tag_counts inventory_start_cb
    inventory_tag_report_cb inventory_finish_cb "\<lambda>k. k \<noteq> None"
  unfolding inventory_tag_report_cb_def
  by unfold_locales (simp add: inventory_start_cb_def, simp add: inventory_start_cb_def,
      rule count_report_total, rule count_report_total, use inventory_finish_some in force)

interpretation access_counts: tag_counters tag_total reader_tag_counts mark_reader_start
    count_report access_finish_cb "\<lambda>_. True"
  unfolding access_finish_cb_def
  by unfold_locales (simp add: mark_reader_start_def, simp add: mark_reader_start_def,
      rule count_report_total, rule count_report_total, rule finish_reader_result)

interpretation lock_counts: tag_counters tag_total reader_tag_counts lock_mark_start
    count_report lock_finish_cb "\<lambda>_. True"
  by unfold_locales (simp add: lock_mark_start_def, simp add: lock_mark_start_def,
      rule count_report_total, rule count_report_total,
      use finish_reader_result in \<open>fastforce simp: lock_finish_cb_def stopTimeMeasurement_def\<close>)

section \<open>Properties\<close>

text \<open>The accounting of a run that started with nothing counted.\<close>

definition balanced :: "'k counter_event list \<Rightarrow> ('k \<times> int) list \<Rightarrow> int \<Rightarrow> ('k \<times> int) list \<Rightarrow> bool" where
  "balanced es out all active \<longleftrightarrow> all = all_counted es \<and> count_sum out + count_sum active = all \<and>
     (\<forall>k. count_in active k = tally k 0 es) \<and> out = lines_of (\<lambda>_. 0) es"

text \<open>
  C38. The statistics of the verbs add up: for any sequence of starts, reports and ends of any
  number of readers, the total is the sum of all tags reported, what was logged for readers that
  finished together with what is counted for the active ones is the total, every line gives exactly
  the tags its reader reported since it last finished, and no reader's tags appear in another's line.
\<close>

theorem verb_counts_balance:
  "(list_all (proper_event (\<lambda>k. k \<noteq> None)) es \<longrightarrow> (case counter_run inventory_start_cb inventory_tag_report_cb inventory_finish_cb es
       (inventory_reset_stats i) of (out, s) \<Rightarrow> balanced es out (tag_total s) (reader_tag_counts s))) \<and>
   (case counter_run mark_reader_start count_report access_finish_cb fs no_counters of
      (out, s) \<Rightarrow> balanced fs out (tag_total s) (reader_tag_counts s)) \<and>
   (case counter_run lock_mark_start count_report lock_finish_cb gs (lock_reset_runtime_state l) of
      (out, s) \<Rightarrow> balanced gs out (tag_total s) (reader_tag_counts s))"
proof -
  have zero: "count_in ([] :: ('x \<times> int) list) = (\<lambda>_. 0)" by (simp add: fun_eq_iff count_in_def)
  have fresh: "reader_tag_counts (inventory_reset_stats i) = []" "tag_total (inventory_reset_stats i) = 0"
    "reader_tag_counts (lock_reset_runtime_state l) = []" "tag_total (lock_reset_runtime_state l) = 0"
    "reader_tag_counts (no_counters :: access_counters) = []" "tag_total (no_counters :: access_counters) = 0"
    by (simp_all add: inventory_reset_stats_def lock_reset_runtime_state_def no_counters_def)
  have anyone: "list_all (proper_event (\<lambda>_. True)) xs" for xs :: "nat counter_event list"
  proof -
    have "proper_event (\<lambda>_. True) e" for e :: "nat counter_event" by (cases e) simp_all
    then show ?thesis by (simp add: list_all_iff)
  qed
  show ?thesis
    using inventory_counts.balance [of es "inventory_reset_stats i"]
      access_counts.balance [OF anyone, of no_counters] lock_counts.balance [OF anyone, of "lock_reset_runtime_state l"]
    by (auto simp: balanced_def fresh zero count_sum_def split: prod.split)
qed

theorem verb_counts_balance_witness:
  "case counter_run inventory_start_cb inventory_tag_report_cb inventory_finish_cb
       [Started (Some 1) 0, Reported (Some 1) (PList [PDict [(''TagSeenCount'', PInt 3)], PDict []]),
        Reported (Some 2) (PList [PDict []]), Finished (Some 1) 2] no_counters of
     (out, s) \<Rightarrow> out = [(Some 1, 4)] \<and> tag_total s = 5 \<and> reader_tag_counts s = [(Some 2, 1)]"
proof -
  let ?es = "[Started (Some 1) 0, Reported (Some 1) (PList [PDict [(''TagSeenCount'', PInt 3)], PDict []]),
    Reported (Some (2::nat)) (PList [PDict []]), Finished (Some 1) 2]"
  have "list_all (proper_event (\<lambda>k. k \<noteq> None)) ?es" by simp
  with verb_counts_balance [of ?es no_counters "[]" "[]" undefined] have
    "case counter_run inventory_start_cb inventory_tag_report_cb inventory_finish_cb ?es no_counters of
      (out, s) \<Rightarrow> balanced ?es out (tag_total s) (reader_tag_counts s)"
    by (simp add: inventory_reset_stats_def del: counter_run.simps)
  moreover have "reader_tag_counts (snd (counter_run inventory_start_cb inventory_tag_report_cb inventory_finish_cb ?es no_counters)) = [(Some 2, 1)]"
    by code_simp
  ultimately show ?thesis
    by (auto simp: balanced_def counted_def seen_count_def py_iter_def py_get_def py_int_def simp del: counter_run.simps split: prod.splits)
qed

end
