(* ===== verification/Verb_Access.thy ===== *)
theory Verb_Access
  imports Verb_Setup Verb_Counters
begin

text \<open>
  The access verb (\<^verbatim>\<open>verb/access.py\<close>) and the locking script (\<^verbatim>\<open>lock.py\<close>): the callbacks of
  several reader clients that share the state of the module.  Standard input is a list of bytes
  that ends, standard output the bytes written so far.  Which access operations were
  started, on which reader, is recorded.  The lemmas show that a payload for writing is read once
  and is the same for every reader, and what is written to the output.
\<close>

section \<open>State\<close>

record access_state = "nat counters" +
  access_args :: pydict
  write_data :: "bytes option"
  write_data_words :: "int option"
  std_input :: bytes
  std_output :: bytes
  clients :: "reader list"
  operations :: "(nat \<times> op_spec) list"

type_synonym 'a access_command = "(access_state, 'a) act"

text \<open>A call of reader client number \<open>k\<close>.\<close>

definition on_reader :: "nat \<Rightarrow> 'a reader_command \<Rightarrow> 'a access_command" where
  "on_reader k m = (\<lambda>s. if k < length (clients s)
     then (case m (clients s ! k) of (x, r) \<Rightarrow> (x, s\<lparr>clients := (clients s)[k := r]\<rparr>))
     else (Inl IndexError, s))"

definition access_reset_runtime_state :: "access_state \<Rightarrow> access_state" where
  "access_reset_runtime_state s = s\<lparr>start_time := None, tag_total := 0, reader_start_times := [],
     reader_tag_counts := [], write_data := None, write_data_words := None\<rparr>"

definition int_arg :: "pydict \<Rightarrow> string \<Rightarrow> int res" where
  "int_arg args n = bindE (attr args n) py_operand"

section \<open>Writing\<close>

text \<open>\<open>read(n)\<close> of a binary stream: up to \<open>n\<close> bytes, or all of them when \<open>n\<close> is negative.\<close>

definition read_stdin :: "int \<Rightarrow> bytes access_command" where
  "read_stdin n = readA (\<lambda>s. let m = (if n < 0 then length (std_input s) else nat n) in
     thenA (modifyA (\<lambda>s. s\<lparr>std_input := drop m (std_input s)\<rparr>)) (retA (take m (std_input s))))"

definition get_write_data :: "nat \<Rightarrow> bytes option access_command" where
  "get_write_data k = readA (\<lambda>s. bindA (liftA (int_arg (access_args s) ''write_words'')) (\<lambda>word_count.
     let expected_bytes = word_count * 2 in
     if write_data s \<noteq> None \<and> write_data_words s = Some word_count then retA (write_data s)
     else bindA (read_stdin expected_bytes) (\<lambda>content.
       if int (length content) \<noteq> expected_bytes then thenA (on_reader k disconnect) (retA None)
       else thenA (modifyA (\<lambda>s. s\<lparr>write_data := Some content, write_data_words := Some word_count\<rparr>))
         (retA (Some content)))))"

text \<open>\<open>reader.start_access_spec(opspec, stop_after_count=args.count)\<close>.\<close>

definition start_operation :: "nat \<Rightarrow> op_spec \<Rightarrow> unit access_command" where
  "start_operation k op = readA (\<lambda>s. bindA (liftA (int_arg (access_args s) ''count'')) (\<lambda>count.
     thenA (modifyA (\<lambda>s. s\<lparr>operations := operations s @ [(k, op)]\<rparr>))
       (on_reader k (start_access_spec op [] count 1))))"

definition access_cb :: "nat \<Rightarrow> rat \<Rightarrow> unit access_command" where
  "access_cb k now = thenA (modifyA (mark_reader_start k now)) (readA (\<lambda>s.
     let args = access_args s; arg = (\<lambda>n. liftA (attr args n)) in
     bindA (arg ''read_words'') (\<lambda>read_words.
     if py_true read_words
     then bindA (arg ''access_password'') (\<lambda>password. bindA (arg ''mb'') (\<lambda>mb. bindA (arg ''word_ptr'') (\<lambda>ptr.
       start_operation k (C1G2Read (PInt 0) password mb ptr read_words))))
     else bindA (arg ''write_words'') (\<lambda>write_words.
       if py_true write_words
       then bindA (get_write_data k) (\<lambda>content. case content of
           None \<Rightarrow> retA ()
         | Some b \<Rightarrow> bindA (arg ''access_password'') (\<lambda>password. bindA (arg ''mb'') (\<lambda>mb. bindA (arg ''word_ptr'') (\<lambda>ptr.
             start_operation k (C1G2Write (PInt 0) password mb ptr write_words (PBytes b))))))
       else retA ()))))"

section \<open>Reports\<close>

text \<open>The data of one read result, if there is any.\<close>

definition read_result :: "pyval \<Rightarrow> bytes res" where
  "read_result tag = bindE (py_in ''C1G2ReadOpSpecResult'' tag) (\<lambda>present. if \<not> present then Inr []
     else bindE (py_item tag ''C1G2ReadOpSpecResult'') (\<lambda>result.
       bindE (py_get result ''ReadData'' PNone) (\<lambda>content.
       if py_true content then py_bytes content else Inr [])))"

definition write_result :: "pyval \<Rightarrow> unit access_command" where
  "write_result tag = bindA (liftA (read_result tag)) (\<lambda>b. modifyA (\<lambda>s. s\<lparr>std_output := std_output s @ b\<rparr>))"

definition access_tag_report_cb :: "nat \<Rightarrow> pyval \<Rightarrow> unit access_command" where
  "access_tag_report_cb k tags = (if \<not> py_true tags then retA ()
     else thenA (count_report k tags) (bindA (liftA (py_iter tags)) (forA write_result)))"

section \<open>Locking (\<^verbatim>\<open>lock.py\<close>)\<close>

record lock_state = lock_counters +
  lock_args :: pydict
  locked_clients :: "reader list"

text \<open>A payload outside the enumerations raises before the operation is started.\<close>

definition lock_access_cb :: "nat \<Rightarrow> rat \<Rightarrow> (lock_state, unit) act" where
  "lock_access_cb k now =
    thenA (modifyA (\<lambda>s. s\<lparr>reader_start_times := set_default (reader_start_times s) k now\<rparr>)) (readA (\<lambda>s.
    bindA (liftA (int_arg (lock_args s) ''privilege'')) (\<lambda>privilege.
    bindA (liftA (int_arg (lock_args s) ''data_field'')) (\<lambda>field.
    bindA (liftA (C1G2LockPayload privilege field)) (\<lambda>payload.
    bindA (liftA (attr (lock_args s) ''access_password'')) (\<lambda>password.
    bindA (liftA (new_C1G2Lock (PInt 0) password [payload])) (\<lambda>op.
    bindA (liftA (int_arg (lock_args s) ''count'')) (\<lambda>count. \<lambda>s.
      if k < length (locked_clients s)
      then (case start_access_spec op [] count 1 (locked_clients s ! k) of (x, r) \<Rightarrow>
        (x, s\<lparr>locked_clients := (locked_clients s)[k := r]\<rparr>))
      else (Inl IndexError, s)))))))))"

text \<open>The result of a lock operation is read to be logged.\<close>

definition lock_result :: "pyval \<Rightarrow> unit res" where
  "lock_result tag = bindE (py_in ''C1G2LockOpSpecResult'' tag) (\<lambda>present. if \<not> present then Inr ()
     else bindE (py_item tag ''C1G2LockOpSpecResult'') (\<lambda>result.
       bindE (py_get result ''Result'' PNone) (\<lambda>_. Inr ())))"

definition lock_tag_report_cb :: "nat \<Rightarrow> pyval \<Rightarrow> (lock_state, unit) act" where
  "lock_tag_report_cb k tags = (if \<not> py_true tags then retA ()
     else thenA (count_report k tags) (bindA (liftA (py_iter tags)) (forA (\<lambda>tag. liftA (lock_result tag)))))"

section \<open>Runs of the access verb\<close>

text \<open>Callbacks of any reader and anything the reader clients do on their own, in any order.\<close>

datatype access_event =
    State_Callback nat rat
  | Report_Callback nat pyval
  | Finish_Callback nat rat
  | Client_Works nat reader_input

definition client_works :: "nat \<Rightarrow> reader_input \<Rightarrow> access_state \<Rightarrow> access_state option" where
  "client_works k i s = (if k < length (clients s)
     then map_option (\<lambda>r. s\<lparr>clients := (clients s)[k := r]\<rparr>) (reader_step i (clients s ! k)) else Some s)"

fun access_step :: "access_event \<Rightarrow> access_state \<Rightarrow> access_state option" where
  "access_step (State_Callback k now) s = Some (snd (access_cb k now s))"
| "access_step (Report_Callback k tags) s = Some (snd (access_tag_report_cb k tags s))"
| "access_step (Finish_Callback k now) s = Some (snd (access_finish_cb k now s))"
| "access_step (Client_Works k i) s = client_works k i s"

fun access_run :: "access_event list \<Rightarrow> access_state \<Rightarrow> access_state option" where
  "access_run [] s = Some s"
| "access_run (e # es) s = (case access_step e s of None \<Rightarrow> None | Some s \<Rightarrow> access_run es s)"

section \<open>The payload for writing\<close>

text \<open>What the payload depends on; reports and the work of the reader clients leave it alone.\<close>

definition payload_view :: "access_state \<Rightarrow> pydict \<times> bytes option \<times> int option \<times> bytes \<times> (nat \<times> op_spec) list" where
  "payload_view s = (access_args s, write_data s, write_data_words s, std_input s, operations s)"

definition same_payload :: "access_state \<Rightarrow> access_state \<Rightarrow> bool" where
  "same_payload s s' \<longleftrightarrow> payload_view s' = payload_view s"

interpretation sp: state_relation same_payload
  by unfold_locales (simp_all add: same_payload_def)

lemma report_same_payload: "keeps same_payload (access_tag_report_cb k tags)"
proof -
  have count: "keeps same_payload (count_report k tags)" for k and tags :: pyval
    unfolding count_report_def
    by (intro sp.kept sp.modifyA) (simp_all add: same_payload_def payload_view_def add_count_def)
  have "keeps same_payload (write_result tag)" for tag
    unfolding write_result_def by (intro sp.kept sp.modifyA) (simp_all add: same_payload_def payload_view_def)
  then show ?thesis unfolding access_tag_report_cb_def by (intro sp.kept count)
qed

lemma reader_same_payload: "keeps same_payload (on_reader k m)"
  by (auto simp: keeps_def on_reader_def same_payload_def payload_view_def split: prod.split)

lemma finish_same_payload: "same_payload s (snd (access_finish_cb k now s))"
  by (simp add: access_finish_cb_def finish_reader_def same_payload_def payload_view_def Let_def)

lemma works_same_payload: "client_works k i s = Some s' \<Longrightarrow> same_payload s s'"
  by (auto simp: client_works_def same_payload_def payload_view_def split: if_splits)

text \<open>The write operation that the arguments ask for.\<close>

definition write_operation :: "pydict \<Rightarrow> int \<Rightarrow> bytes \<Rightarrow> op_spec \<Rightarrow> bool" where
  "write_operation args w b op \<longleftrightarrow> (case (attr args ''access_password'', attr args ''mb'', attr args ''word_ptr'') of
     (Inr password, Inr mb, Inr ptr) \<Rightarrow> op = C1G2Write (PInt 0) password mb ptr (PInt w) (PBytes b)
   | _ \<Rightarrow> False)"

text \<open>
  The state of the payload: not read yet, read and stored, or the input was too short and is used up.
\<close>

definition payload_ok :: "pydict \<Rightarrow> int \<Rightarrow> bytes \<Rightarrow> access_state \<Rightarrow> bool" where
  "payload_ok args w input s \<longleftrightarrow> access_args s = args \<and> (let n = nat (2 * w) in
     (if write_data s = None
      then operations s = [] \<and> (std_input s = input \<or> length input < n \<and> std_input s = [])
      else n \<le> length input \<and> write_data s = Some (take n input) \<and> write_data_words s = Some w \<and>
        std_input s = drop n input) \<and>
     (\<forall>(k, op) \<in> set (operations s). write_operation args w (take n input) op))"

lemma payload_ok_same: "payload_ok args w input s \<Longrightarrow> same_payload s s' \<Longrightarrow> payload_ok args w input s'"
  by (auto simp: payload_ok_def same_payload_def payload_view_def Let_def)

lemma payload_ok_keeps: "payload_ok args w input s \<Longrightarrow> keeps same_payload m \<Longrightarrow> payload_ok args w input (snd (m s))"
  by (auto simp: keeps_def intro: payload_ok_same)

lemma get_write_data_result:
  assumes "payload_ok args w input s" "dict_get args ''write_words'' = Some (PInt w)" "0 < w"
    "get_write_data k s = (x, s')"
  shows "payload_ok args w input s' \<and> operations s' = operations s \<and>
    (x = Inr (Some (take (nat (2 * w)) input)) \<and> nat (2 * w) \<le> length input \<and> write_data s' \<noteq> None \<or>
     length input < nat (2 * w) \<and> (\<forall>b. x \<noteq> Inr (Some b)) \<and> operations s' = [])"
proof -
  let ?n = "nat (2 * w)"
  have arg: "int_arg (access_args s) ''write_words'' = Inr w"
    using assms(1,2) by (simp add: payload_ok_def int_arg_def attr_def py_operand_def)
  have n: "nat (w * 2) = ?n" "\<not> w * 2 < 0" "int ?n = w * 2" using assms(3) by auto
  show ?thesis
  proof (cases "write_data s")
    case (Some b)
    then show ?thesis using assms arg
      by (auto simp: get_write_data_def act_simps payload_ok_def Let_def)
  next
    case None
    let ?s = "s\<lparr>std_input := drop ?n (std_input s)\<rparr>"
    have read: "read_stdin (w * 2) s = (Inr (take ?n (std_input s)), ?s)"
      using n assms(3) by (simp add: read_stdin_def act_simps Let_def)
    show ?thesis
    proof (cases "?n \<le> length (std_input s)")
      case True
      then have "std_input s = input"
        using assms(1,3) None by (auto simp: payload_ok_def Let_def)
      with True show ?thesis using assms None arg read n
        by (auto simp: get_write_data_def act_simps payload_ok_def Let_def)
    next
      case False
      then have "length input < ?n" "drop ?n (std_input s) = []" "operations s = []"
        using assms(1) None by (auto simp: payload_ok_def Let_def)
      then have "payload_ok args w input ?s" using assms(1) None by (simp add: payload_ok_def Let_def)
      moreover obtain y s1 where dis: "on_reader k disconnect ?s = (y, s1)" by fastforce
      ultimately have "payload_ok args w input s1"
        using payload_ok_same keepsD [OF reader_same_payload dis] by blast
      moreover have "operations s1 = []"
        using keepsD [OF reader_same_payload dis] \<open>operations s = []\<close>
        by (simp add: same_payload_def payload_view_def)
      moreover have "int (length (take ?n (std_input s))) \<noteq> w * 2" using False n by simp
      then have "get_write_data k s = thenA (on_reader k disconnect) (retA None) ?s"
        using arg None read by (simp add: get_write_data_def act_simps Let_def)
      ultimately show ?thesis
        using assms(4) dis \<open>length input < ?n\<close> \<open>operations s = []\<close> by (auto simp: act_simps split: sum.splits)
    qed
  qed
qed

lemma start_operation_payload:
  assumes "payload_ok args w input s" "write_data s \<noteq> None"
    "write_operation args w (take (nat (2 * w)) input) op"
  shows "payload_ok args w input (snd (start_operation k op s))"
proof -
  have "payload_ok args w input (s\<lparr>operations := operations s @ [(k, op)]\<rparr>)"
    using assms by (auto simp: payload_ok_def Let_def)
  from payload_ok_keeps [OF this reader_same_payload] show ?thesis
    using assms(1) by (auto simp: start_operation_def act_simps split: sum.split)
qed

lemma access_cb_payload:
  assumes "payload_ok args w input s" "dict_get args ''write_words'' = Some (PInt w)" "0 < w"
    "dict_get args ''read_words'' = Some PNone"
  shows "payload_ok args w input (snd (access_cb k now s))"
proof -
  let ?s = "mark_reader_start k now s"
  have ok: "payload_ok args w input ?s"
    using assms(1) by (rule payload_ok_same) (simp add: same_payload_def payload_view_def mark_reader_start_def)
  obtain x s1 where get: "get_write_data k ?s = (x, s1)" by fastforce
  note result = get_write_data_result [OF ok assms(2,3) get]
  have args: "access_args ?s = args" using ok by (simp add: payload_ok_def)
  show ?thesis
  proof (cases "\<exists>b. x = Inr (Some b)")
    case False
    then have "snd (access_cb k now s) = s1"
      using assms(2-4) args get by (auto simp: access_cb_def act_simps attr_def Let_def split: sum.splits option.splits)
    then show ?thesis using result by simp
  next
    case True
    then have x: "x = Inr (Some (take (nat (2 * w)) input))" and ok1: "payload_ok args w input s1" "write_data s1 \<noteq> None"
      using result by auto
    show ?thesis
      using assms(2-4) args get x ok1 start_operation_payload [OF ok1]
      by (auto simp: access_cb_def act_simps attr_def write_operation_def Let_def split: option.split)
  qed
qed

lemma access_step_payload:
  assumes "payload_ok args w input s" "dict_get args ''write_words'' = Some (PInt w)" "0 < w"
    "dict_get args ''read_words'' = Some PNone" "access_step e s = Some s'"
  shows "payload_ok args w input s'"
proof (cases e)
  case (State_Callback k now)
  then show ?thesis using access_cb_payload [OF assms(1-4)] assms(5) by auto
next
  case (Report_Callback k tags)
  then show ?thesis using payload_ok_keeps [OF assms(1) report_same_payload] assms(5) by auto
next
  case (Finish_Callback k now)
  then show ?thesis using payload_ok_same [OF assms(1) finish_same_payload] assms(5) by auto
next
  case (Client_Works k i)
  then show ?thesis using payload_ok_same [OF assms(1) works_same_payload] assms(5) by auto
qed

lemma access_run_payload:
  assumes "payload_ok args w input s" "dict_get args ''write_words'' = Some (PInt w)" "0 < w"
    "dict_get args ''read_words'' = Some PNone" "access_run es s = Some s'"
  shows "payload_ok args w input s'"
  using assms(1,5)
  by (induction es arbitrary: s) (auto split: option.splits dest: access_step_payload [OF _ assms(2-4)])

section \<open>Properties\<close>

lemma payload_ok_fresh: "operations s = [] \<Longrightarrow>
    payload_ok (access_args s) w (std_input s) (access_reset_runtime_state s)"
  by (simp add: payload_ok_def access_reset_runtime_state_def)

text \<open>
  C39. \<^verbatim>\<open>--write-words\<close> reads the payload once and shares it: in every run of the callbacks of
  any number of readers, in any order, every operation started is the write that the arguments ask
  for with the first \<open>2 * w\<close> bytes of standard input as its data, whichever reader it is for; the
  input is consumed exactly up to the end of the payload once an operation was started, and when the
  input is shorter than the payload no operation is ever started.
\<close>

theorem write_payload_shared:
  fixes s w
  defines "n \<equiv> nat (2 * w)"
  assumes "dict_get (access_args s) ''write_words'' = Some (PInt w)" "0 < w"
    "dict_get (access_args s) ''read_words'' = Some PNone" "operations s = []"
    "access_run es (access_reset_runtime_state s) = Some s'"
  shows "(\<forall>(k, op) \<in> set (operations s'). write_operation (access_args s) w (take n (std_input s)) op) \<and>
    (operations s' \<noteq> [] \<longrightarrow> n \<le> length (std_input s) \<and> std_input s' = drop n (std_input s)) \<and>
    (length (std_input s) < n \<longrightarrow> operations s' = []) \<and> std_input s' \<in> {std_input s, drop n (std_input s)}"
  using access_run_payload [OF payload_ok_fresh [OF assms(5)] assms(2-4,6)]
  by (auto simp: n_def payload_ok_def Let_def split: if_splits)

text \<open>Two readers: both write the first two bytes of an input of three.\<close>

definition write_example :: access_state where
  "write_example = (let r = projr (new_reader (new_client (\<lambda>_. default_config) id id []) None [] [] (\<lambda>_. 0) 100) in
     \<lparr>start_time = None, tag_total = 0, reader_start_times = [], reader_tag_counts = [],
     access_args = [(''read_words'', PNone), (''write_words'', PInt 1), (''access_password'', PInt 0),
       (''mb'', PInt 3), (''word_ptr'', PInt 0), (''count'', PInt 0)],
     write_data = None, write_data_words = None, std_input = [1, 2, 3], std_output = [],
     clients = [r, r], operations = []\<rparr>)"

lemma on_reader_view:
  "access_args (snd (on_reader k m s)) = access_args s" "write_data (snd (on_reader k m s)) = write_data s"
  "write_data_words (snd (on_reader k m s)) = write_data_words s" "std_input (snd (on_reader k m s)) = std_input s"
  "operations (snd (on_reader k m s)) = operations s"
  using keepsD [OF reader_same_payload, of k m s] by (auto simp: same_payload_def payload_view_def prod_eq_iff)

theorem write_payload_shared_witness:
  "\<exists>s'. access_run [State_Callback 1 0, State_Callback 0 0] (access_reset_runtime_state write_example) = Some s' \<and>
     operations s' = [(1, C1G2Write (PInt 0) (PInt 0) (PInt 3) (PInt 0) (PInt 1) (PBytes [1, 2])),
       (0, C1G2Write (PInt 0) (PInt 0) (PInt 3) (PInt 0) (PInt 1) (PBytes [1, 2]))] \<and> std_input s' = [3]"
proof -
  obtain s' where run: "access_run [State_Callback 1 0, State_Callback 0 0] (access_reset_runtime_state write_example) = Some s'"
    by simp
  have args: "dict_get (access_args write_example) ''write_words'' = Some (PInt 1)"
    "dict_get (access_args write_example) ''read_words'' = Some PNone" "operations write_example = []"
    by (simp_all add: write_example_def Let_def)
  have readers: "map fst (operations s') = [1, 0]"
    using run by (auto simp: write_example_def access_reset_runtime_state_def access_cb_def act_simps attr_def int_arg_def
        py_operand_def get_write_data_def read_stdin_def start_operation_def mark_reader_start_def on_reader_view Let_def)
  note shared = write_payload_shared [OF args(1) _ args(2,3) run]
  then have "\<forall>(k, op) \<in> set (operations s'). op = C1G2Write (PInt 0) (PInt 0) (PInt 3) (PInt 0) (PInt 1) (PBytes [1, 2])"
    "std_input s' = [3]"
    using readers by (auto simp: write_example_def write_operation_def attr_def Let_def numeral_2_eq_2)
  then show ?thesis using run readers by (auto simp: Cons_eq_map_conv map_eq_Cons_conv)
qed

end
