(* ===== verification/Verb_Log.thy ===== *)
theory Verb_Log
  imports Verb_Setup Exception_State
begin

text \<open>
  The logging verb (\<^verbatim>\<open>verb/log.py\<close>): a logger that writes one row per tag of a report, filters by
  EPC and uses the reader's own time when asked to.  The file is its list of rows; how \<^verbatim>\<open>csv\<close> writes
  a row is not modelled.  Text is ASCII: a byte that is not (U+FFFD in the program) is the
  character 255, and case folding is that of ASCII.  How \<open>str\<close> shows a value that is neither text nor
  bytes is an argument.
\<close>

section \<open>Values of a report\<close>

definition ascii_char :: "byte \<Rightarrow> char" where
  "ascii_char b = (if b < 128 then char_of (unat b) else char_of (255::nat))"

definition epc_text :: "(pyval \<Rightarrow> string) \<Rightarrow> pyval \<Rightarrow> string" where
  "epc_text show_value v = (case v of
     PBytes b \<Rightarrow> map ascii_char b
   | PStr s \<Rightarrow> s
   | _ \<Rightarrow> show_value v)"

definition casefold :: "string \<Rightarrow> string" where
  "casefold s = map lower_char s"

text \<open>\<open>float(v)\<close>; text is not modelled as a number.\<close>

definition py_float :: "pyval \<Rightarrow> rat res" where
  "py_float v = (case v of
     PBool b \<Rightarrow> Inr (of_bool b)
   | PStr _ \<Rightarrow> Inl ValueError
   | PBytes _ \<Rightarrow> Inl ValueError
   | _ \<Rightarrow> (case number_of v of Some r \<Rightarrow> Inr r | None \<Rightarrow> Inl TypeError))"

text \<open>The first of the two keys that has a value, in seconds.\<close>

fun utc_of_keys :: "string list \<Rightarrow> pyval \<Rightarrow> rat option res" where
  "utc_of_keys [] tag = Inr None"
| "utc_of_keys (k # ks) tag = bindE (py_get tag k PNone) (\<lambda>v.
     if v = PNone then utc_of_keys ks tag
     else bindE (py_float v) (\<lambda>r. Inr (Some (r / 1000000))))"

definition reader_utc_timestamp :: "pyval \<Rightarrow> rat option res" where
  "reader_utc_timestamp tag = utc_of_keys [''LastSeenTimestampUTC'', ''FirstSeenTimestampUTC''] tag"

section \<open>The logger\<close>

text \<open>\<open>Header\<close> is the row of column names.\<close>

datatype csv_row = Header | Row (row_time: rat) (row_reader: string) (row_antenna: pyval) (row_rssi: pyval) (row_epc: string)

record csv_logger =
  csv_epc :: "string option"
  csv_reader_timestamp :: bool
  csv_rows :: "csv_row list"
  csv_flushed :: nat
  num_tags :: int
  warned_missing_reader_utc :: bool
  csv_warnings :: nat

definition new_CsvLogger :: "string option \<Rightarrow> bool \<Rightarrow> csv_logger" where
  "new_CsvLogger epc utc = \<lparr>csv_epc = epc, csv_reader_timestamp = utc, csv_rows = [Header], csv_flushed = 0,
     num_tags = 0, warned_missing_reader_utc = False, csv_warnings = 0\<rparr>"

text \<open>Rows, count of observations and whether a reader time was missing.\<close>

type_synonym batch = "csv_row list \<times> int \<times> bool"

definition tag_epc :: "pyval \<Rightarrow> pyval res" where
  "tag_epc tag = bindE (py_get tag ''EPC-96'' PNone) (\<lambda>other. py_get tag ''EPC'' other)"

definition epc_wanted :: "csv_logger \<Rightarrow> string \<Rightarrow> bool" where
  "epc_wanted l epc = (case csv_epc l of None \<Rightarrow> True | Some wanted \<Rightarrow> casefold epc = casefold wanted)"

fun tag_rows :: "(pyval \<Rightarrow> string) \<Rightarrow> csv_logger \<Rightarrow> string \<Rightarrow> rat \<Rightarrow> pyval list \<Rightarrow> batch \<Rightarrow> batch res" where
  "tag_rows show_value l reader_name received_at [] acc = Inr acc"
| "tag_rows show_value l reader_name received_at (tag # tags) (rows, cnt, missing) =
    bindE (tag_epc tag) (\<lambda>raw_epc.
    if raw_epc = PNone then tag_rows show_value l reader_name received_at tags (rows, cnt, missing)
    else let epc = epc_text show_value raw_epc in
      if \<not> epc_wanted l epc then tag_rows show_value l reader_name received_at tags (rows, cnt, missing)
      else
        bindE (if csv_reader_timestamp l
               then bindE (reader_utc_timestamp tag) (\<lambda>t. Inr (case t of None \<Rightarrow> (received_at, True) | Some t \<Rightarrow> (t, missing)))
               else Inr (received_at, missing)) (\<lambda>(timestamp, missing).
        bindE (py_get tag ''AntennaID'' PNone) (\<lambda>antenna.
        bindE (py_get tag ''PeakRSSI'' PNone) (\<lambda>rssi.
        bindE (bindE (py_get tag ''TagSeenCount'' (PInt 1)) py_int) (\<lambda>n.
        tag_rows show_value l reader_name received_at tags
          (rows @ [Row timestamp reader_name antenna rssi epc], cnt + n, missing))))))"

text \<open>\<open>tag_cb\<close>; nothing is written when a tag raises.  The warning is logged after the lock is released.\<close>

definition tag_cb :: "(pyval \<Rightarrow> string) \<Rightarrow> string \<Rightarrow> nat \<Rightarrow> rat \<Rightarrow> pyval \<Rightarrow> (csv_logger, unit) act" where
  "tag_cb show_value host host_port received_at tags = readA (\<lambda>l.
    bindA (liftA (py_iter tags)) (\<lambda>tags.
    bindA (liftA (tag_rows show_value l (format_host_port host host_port) received_at tags ([], 0, False))) (\<lambda>(rows, cnt, missing).
    if rows = [] \<and> \<not> missing then retA ()
    else
      thenA (whenA (rows \<noteq> []) (modifyA (\<lambda>l. l\<lparr>csv_rows := csv_rows l @ rows, num_tags := num_tags l + cnt,
        csv_flushed := length (csv_rows l @ rows)\<rparr>)))
      (whenA (missing \<and> \<not> warned_missing_reader_utc l) (modifyA (\<lambda>l. l\<lparr>warned_missing_reader_utc := True,
        csv_warnings := Suc (csv_warnings l)\<rparr>))))))"

definition flush :: "csv_logger \<Rightarrow> csv_logger" where
  "flush l = l\<lparr>csv_flushed := length (csv_rows l)\<rparr>"

text \<open>\<open>finish_cb\<close> logs the count of the logger.\<close>

definition log_finish_cb :: "csv_logger \<Rightarrow> int" where
  "log_finish_cb l = num_tags l"

section \<open>What is written\<close>

text \<open>The rows of a batch, tag by tag: the reference that the loop implements.\<close>

definition tag_time :: "csv_logger \<Rightarrow> rat \<Rightarrow> pyval \<Rightarrow> rat \<times> bool" where
  "tag_time l received_at tag = (if csv_reader_timestamp l
     then (case reader_utc_timestamp tag of Inr (Some t) \<Rightarrow> (t, False) | _ \<Rightarrow> (received_at, True))
     else (received_at, False))"

definition field_of :: "pyval \<Rightarrow> string \<Rightarrow> pyval" where
  "field_of tag k = (case py_get tag k PNone of Inr v \<Rightarrow> v | Inl _ \<Rightarrow> PNone)"

definition tag_row :: "(pyval \<Rightarrow> string) \<Rightarrow> csv_logger \<Rightarrow> string \<Rightarrow> rat \<Rightarrow> pyval \<Rightarrow> csv_row option" where
  "tag_row show_value l reader_name received_at tag = (case tag_epc tag of
     Inr v \<Rightarrow> if v \<noteq> PNone \<and> epc_wanted l (epc_text show_value v)
       then Some (Row (fst (tag_time l received_at tag)) reader_name (field_of tag ''AntennaID'')
         (field_of tag ''PeakRSSI'') (epc_text show_value v))
       else None
   | Inl _ \<Rightarrow> None)"

definition seen_times :: "pyval \<Rightarrow> int" where
  "seen_times tag = (case bindE (py_get tag ''TagSeenCount'' (PInt 1)) py_int of Inr n \<Rightarrow> n | Inl _ \<Rightarrow> 0)"

lemma tag_rows_reference:
  assumes "tag_rows show_value l reader_name received_at tags (rows, cnt, missing) = Inr (rows', cnt', missing')"
  shows "rows' = rows @ List.map_filter (tag_row show_value l reader_name received_at) tags \<and>
    cnt' = cnt + sum_list (map seen_times (filter (\<lambda>t. tag_row show_value l reader_name received_at t \<noteq> None) tags)) \<and>
    (missing' \<longleftrightarrow> missing \<or> (\<exists>t \<in> set tags. tag_row show_value l reader_name received_at t \<noteq> None \<and> snd (tag_time l received_at t)))"
  using assms
proof (induction tags arbitrary: rows cnt missing)
  case Nil
  then show ?case by (simp add: map_filter_simps)
next
  case (Cons t tags)
  let ?row = "tag_row show_value l reader_name received_at"
  obtain v where v: "tag_epc t = Inr v" using Cons.prems by (auto simp: res_simps)
  show ?case
  proof (cases "v = PNone \<or> \<not> epc_wanted l (epc_text show_value v)")
    case True
    then have "?row t = None" using v by (auto simp: tag_row_def)
    moreover have "tag_rows show_value l reader_name received_at tags (rows, cnt, missing) = Inr (rows', cnt', missing')"
      using Cons.prems v True by (cases "v = PNone") (simp_all add: Let_def)
    ultimately show ?thesis using Cons.IH by (simp add: map_filter_simps)
  next
    case False
    let ?stamp = "if csv_reader_timestamp l
      then bindE (reader_utc_timestamp t) (\<lambda>t. Inr (case t of None \<Rightarrow> (received_at, True) | Some t \<Rightarrow> (t, missing)))
      else Inr (received_at, missing)"
    obtain time late where time: "tag_time l received_at t = (time, late)" by fastforce
    have stamp: "x = (time, missing \<or> late)" if "?stamp = Inr x" for x
      using that time by (auto simp: tag_time_def res_simps split: if_splits option.splits)
    have step: "bindE ?stamp (\<lambda>(timestamp, missing).
        bindE (py_get t ''AntennaID'' PNone) (\<lambda>antenna.
        bindE (py_get t ''PeakRSSI'' PNone) (\<lambda>rssi.
        bindE (bindE (py_get t ''TagSeenCount'' (PInt 1)) py_int) (\<lambda>n.
        tag_rows show_value l reader_name received_at tags
          (rows @ [Row timestamp reader_name antenna rssi (epc_text show_value v)], cnt + n, missing))))) = Inr (rows', cnt', missing')"
      using Cons.prems v False by (simp add: Let_def)
    obtain x where x: "?stamp = Inr x" using step by (auto simp only: res_simps)
    obtain antenna rssi n where read: "tag_time l received_at t = (time, late)"
      "py_get t ''AntennaID'' PNone = Inr antenna" "py_get t ''PeakRSSI'' PNone = Inr rssi"
      "bindE (py_get t ''TagSeenCount'' (PInt 1)) py_int = Inr n"
      "tag_rows show_value l reader_name received_at tags
         (rows @ [Row time reader_name antenna rssi (epc_text show_value v)], cnt + n, missing \<or> late) = Inr (rows', cnt', missing')"
      using step time unfolding x stamp [OF x] by (auto simp: res_simps)
    moreover from read v False have "?row t = Some (Row time reader_name antenna rssi (epc_text show_value v))"
      "seen_times t = n" by (simp_all add: tag_row_def field_of_def seen_times_def)
    ultimately show ?thesis using Cons.IH [OF read(5)] by (auto simp: map_filter_simps)
  qed
qed

section \<open>Runs of the logger\<close>

text \<open>One call: the address of the reader, the time of receipt and the report.\<close>

type_synonym log_input = "string \<times> nat \<times> rat \<times> pyval"

fun log_step :: "(pyval \<Rightarrow> string) \<Rightarrow> log_input \<Rightarrow> csv_logger \<Rightarrow> csv_logger" where
  "log_step show_value (host, host_port, received_at, tags) l = snd (tag_cb show_value host host_port received_at tags l)"

definition log_run :: "(pyval \<Rightarrow> string) \<Rightarrow> log_input list \<Rightarrow> csv_logger \<Rightarrow> csv_logger" where
  "log_run show_value = fold (log_step show_value)"

text \<open>
  The reference: the rows, observations and missing times of a report, all empty if some tag
  raises.  Only the settings of the logger matter.
\<close>

fun batch_of :: "(pyval \<Rightarrow> string) \<Rightarrow> csv_logger \<Rightarrow> log_input \<Rightarrow> batch" where
  "batch_of show_value l (host, host_port, received_at, tags) =
    (let row = tag_row show_value l (format_host_port host host_port) received_at in
     case bindE (py_iter tags) (\<lambda>tags. tag_rows show_value l (format_host_port host host_port) received_at tags ([], 0, False)) of
       Inl _ \<Rightarrow> ([], 0, False)
     | Inr _ \<Rightarrow> (case py_iter tags of Inl _ \<Rightarrow> ([], 0, False) | Inr tags \<Rightarrow>
         (List.map_filter row tags, sum_list (map seen_times (filter (\<lambda>t. row t \<noteq> None) tags)),
          \<exists>t \<in> set tags. row t \<noteq> None \<and> snd (tag_time l received_at t))))"

definition csv_settings :: "csv_logger \<Rightarrow> string option \<times> bool" where
  "csv_settings l = (csv_epc l, csv_reader_timestamp l)"

lemma tag_rows_settings:
  "csv_settings l = csv_settings l' \<Longrightarrow> tag_rows show_value l rn tm tags acc = tag_rows show_value l' rn tm tags acc"
proof (induction tags arbitrary: acc)
  case Nil
  then show ?case by (cases acc) simp
next
  case (Cons t tags)
  have wanted: "epc_wanted l = epc_wanted l'" and utc: "csv_reader_timestamp l = csv_reader_timestamp l'"
    using Cons.prems by (simp_all add: csv_settings_def epc_wanted_def fun_eq_iff)
  obtain rows cnt missing where acc: "acc = (rows, cnt, missing)" by (metis prod_cases3)
  show ?case unfolding acc tag_rows.simps wanted utc Cons.IH [OF Cons.prems] by (rule refl)
qed

lemma batch_of_settings: "csv_settings l = csv_settings l' \<Longrightarrow> batch_of show_value l b = batch_of show_value l' b"
proof -
  assume s: "csv_settings l = csv_settings l'"
  then have times: "tag_time l = tag_time l'" and wanted: "epc_wanted l = epc_wanted l'"
    by (simp_all add: fun_eq_iff tag_time_def epc_wanted_def csv_settings_def)
  have "tag_row show_value l = tag_row show_value l'"
    by (intro ext) (unfold tag_row_def times wanted, rule refl)
  moreover obtain host host_port tm tags where "b = (host, host_port, tm, tags)" by (metis prod_cases4)
  ultimately show ?thesis unfolding times by (simp add: times tag_rows_settings [OF s] cong: sum.case_cong)
qed

text \<open>One call appends the rows of its report; all rows are flushed then, and it warns only the first time.\<close>

lemma log_step_result:
  assumes "batch_of show_value l b = (rows, cnt, missing)"
  shows "csv_settings (log_step show_value b l) = csv_settings l \<and>
    csv_rows (log_step show_value b l) = csv_rows l @ rows \<and> num_tags (log_step show_value b l) = num_tags l + cnt \<and>
    (warned_missing_reader_utc (log_step show_value b l) \<longleftrightarrow> warned_missing_reader_utc l \<or> missing) \<and>
    csv_warnings (log_step show_value b l) = csv_warnings l + of_bool (missing \<and> \<not> warned_missing_reader_utc l) \<and>
    csv_flushed (log_step show_value b l) = (if rows = [] then csv_flushed l else length (csv_rows l @ rows))"
proof -
  obtain host host_port tm tags where b: "b = (host, host_port, tm, tags)" by (metis prod_cases4)
  let ?rows = "\<lambda>tags. tag_rows show_value l (format_host_port host host_port) tm tags ([], 0, False)"
  show ?thesis
  proof (cases "bindE (py_iter tags) ?rows")
    case (Inl e)
    then have "log_step show_value b l = l" by (auto simp: b tag_cb_def act_simps res_simps)
    moreover have "rows = []" "cnt = 0" "\<not> missing" using assms Inl by (auto simp: b)
    ultimately show ?thesis by simp
  next
    case (Inr batch)
    then obtain ts where ts: "py_iter tags = Inr ts" "?rows ts = Inr batch" by (auto simp: res_simps)
    obtain rows1 cnt1 missing1 where batch: "batch = (rows1, cnt1, missing1)" by (metis prod_cases3)
    note ref = tag_rows_reference [OF ts(2) [unfolded batch], simplified]
    have "batch_of show_value l b = (rows1, cnt1, missing1)" using ts ref by (simp add: b Let_def)
    then have same: "rows1 = rows" "cnt1 = cnt" "missing1 = missing" using assms by simp_all
    have none: "cnt = 0" if "rows = []"
    proof -
      have "filter (\<lambda>t. tag_row show_value l (format_host_port host host_port) tm t \<noteq> None) ts = []"
        using ref that unfolding same by (simp add: List.map_filter_def filter_empty_conv comp_def)
      then show ?thesis using ref unfolding same by simp
    qed
    have "log_step show_value b l =
      snd (if rows = [] \<and> \<not> missing then retA () l
        else thenA (whenA (rows \<noteq> []) (modifyA (\<lambda>l. l\<lparr>csv_rows := csv_rows l @ rows, num_tags := num_tags l + cnt,
               csv_flushed := length (csv_rows l @ rows)\<rparr>)))
             (whenA (missing \<and> \<not> warned_missing_reader_utc l) (modifyA (\<lambda>l. l\<lparr>warned_missing_reader_utc := True,
               csv_warnings := Suc (csv_warnings l)\<rparr>))) l)"
      using ts by (simp add: b tag_cb_def act_simps batch same)
    then show ?thesis using none by (auto simp: act_simps csv_settings_def)
  qed
qed

lemma log_run_result:
  fixes show_value l bs
  defines "batches \<equiv> map (batch_of show_value l) bs" and "l' \<equiv> log_run show_value bs l"
  shows "csv_settings l' = csv_settings l \<and> csv_rows l' = csv_rows l @ concat (map fst batches) \<and>
    num_tags l' = num_tags l + sum_list (map (\<lambda>b. fst (snd b)) batches) \<and>
    (warned_missing_reader_utc l' \<longleftrightarrow> warned_missing_reader_utc l \<or> (\<exists>b \<in> set batches. snd (snd b))) \<and>
    csv_warnings l' = csv_warnings l + of_bool (warned_missing_reader_utc l' \<and> \<not> warned_missing_reader_utc l)"
  unfolding batches_def l'_def
proof (induction bs arbitrary: l)
  case Nil
  then show ?case by (simp add: log_run_def)
next
  case (Cons b bs)
  obtain rows cnt missing where b: "batch_of show_value l b = (rows, cnt, missing)" by (metis prod_cases3)
  let ?l = "log_step show_value b l"
  note step = log_step_result [OF b]
  have same: "map (batch_of show_value ?l) bs = map (batch_of show_value l) bs"
    using step by (auto intro: batch_of_settings)
  have run: "log_run show_value (b # bs) l = log_run show_value bs ?l" by (simp add: log_run_def)
  show ?case
    using Cons.IH [of ?l] step unfolding same run by (simp add: b)
qed

section \<open>Properties\<close>

text \<open>
  C40. The logging verb writes the table it promises: after any sequence of reports of any number of
  readers the file holds the header once and then, report by report and in the order of the tags,
  one row for every tag that has an EPC and passes the filter and none for a report that raised; the
  number of tags is the sum of the observations of the rows, and a missing reader time is warned of
  once at most, exactly if there was one.
\<close>

theorem csv_log_rows:
  fixes show_value epc utc bs
  defines "batches \<equiv> map (batch_of show_value (new_CsvLogger epc utc)) bs"
    and "l \<equiv> log_run show_value bs (new_CsvLogger epc utc)"
  shows "csv_rows l = Header # concat (map fst batches) \<and>
    log_finish_cb l = sum_list (map (\<lambda>b. fst (snd b)) batches) \<and>
    csv_warnings l = of_bool (\<exists>b \<in> set batches. snd (snd b)) \<and>
    (csv_flushed l = length (csv_rows l) \<or> csv_rows l = [Header])"
proof -
  note run = log_run_result [of show_value bs "new_CsvLogger epc utc", folded batches_def l_def]
  have "csv_flushed (log_run show_value bs l0) = length (csv_rows (log_run show_value bs l0)) \<or> csv_rows (log_run show_value bs l0) = [Header]"
    if "csv_flushed l0 = length (csv_rows l0) \<or> csv_rows l0 = [Header]" for l0
    using that
  proof (induction bs arbitrary: l0)
    case Nil
    then show ?case by (simp add: log_run_def)
  next
    case (Cons b bs)
    obtain rows cnt missing where b: "batch_of show_value l0 b = (rows, cnt, missing)" by (metis prod_cases3)
    show ?case using Cons.IH [of "log_step show_value b l0"] Cons.prems log_step_result [OF b]
      by (auto simp: log_run_def split: if_splits)
  qed
  from this [of "new_CsvLogger epc utc"] show ?thesis
    using run by (simp add: l_def new_CsvLogger_def log_finish_cb_def)
qed

end
