(* ===== verification/Verb_Sessions.thy ===== *)
theory Verb_Sessions
  imports Verb_Setup Reader_Theorems
begin

text \<open>
  The main programs of the verbs after the reader clients are made: connect to all of them, abort
  all when one fails (\<^verbatim>\<open>reset\<close> goes on), wait until no receive thread is alive, and disconnect all
  when the user interrupts.  The threads of the readers, their timers and the callbacks work at any
  moment between two steps of the main program.  The lemmas follow a reader that was asked to
  disconnect: it stays so and opens no connection again.
\<close>

section \<open>The program\<close>

text \<open>How the verbs differ: abort on the first error, leave the loop on an interrupt, last actions, exit code.\<close>

record verb =
  aborts :: bool
  breaks :: bool
  sweeps :: bool
  exit_code :: "bool \<Rightarrow> int"

definition inventory_verb :: verb where
  "inventory_verb = \<lparr>aborts = True, breaks = True, sweeps = True, exit_code = (\<lambda>_. 0)\<rparr>"

definition log_verb :: verb where
  "log_verb = \<lparr>aborts = True, breaks = True, sweeps = False, exit_code = (\<lambda>_. 0)\<rparr>"

definition access_verb :: verb where
  "access_verb = \<lparr>aborts = True, breaks = True, sweeps = False, exit_code = (\<lambda>b. if b then 1 else 0)\<rparr>"

definition lock_verb :: verb where
  "lock_verb = \<lparr>aborts = True, breaks = True, sweeps = False, exit_code = (\<lambda>_. 0)\<rparr>"

definition reset_verb :: verb where
  "reset_verb = \<lparr>aborts = False, breaks = False, sweeps = False, exit_code = (\<lambda>_. 0)\<rparr>"

datatype phase = Connecting nat | Aborting nat | Waiting | Finished int | Crashed py_error

record main_state =
  phase :: phase
  readers :: "reader list"
  connection_failed :: bool

definition main_start :: "verb_reader list \<Rightarrow> main_state" where
  "main_start rs = \<lparr>phase = Connecting 0, readers = map snd rs, connection_failed = False\<rparr>"

definition finish_main :: "verb \<Rightarrow> main_state \<Rightarrow> main_state" where
  "finish_main v s = s\<lparr>phase := Finished (exit_code v (connection_failed s)),
     readers := (if sweeps v then disconnect_all_readers True (readers s) else readers s)\<rparr>"

text \<open>\<open>reader.disconnect()\<close> on every reader, with exceptions logged and ignored.\<close>

definition disconnect_each :: "reader list \<Rightarrow> reader list" where
  "disconnect_each rs = map (\<lambda>r. snd (disconnect r)) rs"

fun works :: "reader_input \<Rightarrow> bool" where
  "works (Call_Connect b) = False"
| "works _ = True"

inductive main_step :: "verb \<Rightarrow> main_state \<Rightarrow> main_state \<Rightarrow> bool" for v where
  reader_works: "i < length (readers s) \<Longrightarrow> works x \<Longrightarrow> reader_step x (readers s ! i) = Some r \<Longrightarrow>
    main_step v s (s\<lparr>readers := (readers s)[i := r]\<rparr>)"
| connected: "phase s = Connecting i \<Longrightarrow> i < length (readers s) \<Longrightarrow> connect True (readers s ! i) = Some (Inr u, r) \<Longrightarrow>
    main_step v s (s\<lparr>phase := Connecting (Suc i), readers := (readers s)[i := r]\<rparr>)"
| refused: "phase s = Connecting i \<Longrightarrow> i < length (readers s) \<Longrightarrow> connect True (readers s ! i) = Some (Inl e, r) \<Longrightarrow>
    main_step v s (s\<lparr>phase := (if aborts v then Aborting 0 else Connecting (Suc i)),
      readers := (readers s)[i := r], connection_failed := (aborts v \<or> connection_failed s)\<rparr>)"
| all_tried: "phase s = Connecting i \<Longrightarrow> i = length (readers s) \<Longrightarrow> main_step v s (s\<lparr>phase := Waiting\<rparr>)"
| aborted: "phase s = Aborting i \<Longrightarrow> i < length (readers s) \<Longrightarrow> disconnect (readers s ! i) = (Inr u, r) \<Longrightarrow>
    main_step v s (s\<lparr>phase := Aborting (Suc i), readers := (readers s)[i := r]\<rparr>)"
| abort_raises: "phase s = Aborting i \<Longrightarrow> i < length (readers s) \<Longrightarrow> disconnect (readers s ! i) = (Inl e, r) \<Longrightarrow>
    main_step v s (s\<lparr>phase := Crashed e, readers := (readers s)[i := r]\<rparr>)"
| all_aborted: "phase s = Aborting i \<Longrightarrow> i = length (readers s) \<Longrightarrow> main_step v s (s\<lparr>phase := Waiting\<rparr>)"
| all_ended: "phase s = Waiting \<Longrightarrow> list_all (\<lambda>r. \<not> thread_running r) (readers s) \<Longrightarrow> main_step v s (finish_main v s)"
| interrupted: "phase s = Waiting \<Longrightarrow> breaks v \<Longrightarrow>
    main_step v s (finish_main v (s\<lparr>readers := disconnect_each (readers s)\<rparr>))"
| interrupted_goes_on: "phase s = Waiting \<Longrightarrow> \<not> breaks v \<Longrightarrow>
    main_step v s (s\<lparr>readers := disconnect_each (readers s)\<rparr>)"

text \<open>The main program up to its first connection, as exit code or start of the session.\<close>

definition run_verb :: "((nat \<Rightarrow> reader_env) \<Rightarrow> pydict \<Rightarrow> verb_reader list res) \<Rightarrow> (nat \<Rightarrow> reader_env) \<Rightarrow> pydict \<Rightarrow>
    (int + main_state) res" where
  "run_verb build env args = bindE (build env args) (\<lambda>rs. Inr (Inr (main_start rs)))"

definition no_hosts :: "pydict \<Rightarrow> bool res" where
  "no_hosts args = bindE (attr args ''host'') (\<lambda>h. Inr (\<not> py_true h))"

definition inventory_main :: "(nat \<Rightarrow> reader_env) \<Rightarrow> pydict \<Rightarrow> (int + main_state) res" where
  "inventory_main env args = bindE (no_hosts args) (\<lambda>none. if none then Inr (Inl 0)
     else run_verb inventory_readers env args)"

definition log_main :: "(nat \<Rightarrow> reader_env) \<Rightarrow> pydict \<Rightarrow> (int + main_state) res" where
  "log_main env args = bindE (no_hosts args) (\<lambda>none. if none then Inr (Inl 0)
     else bindE (attr args ''outfile'') (\<lambda>outfile. if \<not> py_true outfile then Inr (Inl 0)
     else run_verb log_readers env args))"

definition reset_main :: "(nat \<Rightarrow> reader_env) \<Rightarrow> pydict \<Rightarrow> (int + main_state) res" where
  "reset_main env args = bindE (no_hosts args) (\<lambda>none. if none then Inr (Inl 0)
     else run_verb reset_readers env args)"

definition lock_main :: "(nat \<Rightarrow> reader_env) \<Rightarrow> pydict \<Rightarrow> (int + main_state) res" where
  "lock_main env args = bindE (no_hosts args) (\<lambda>none. if none then Inr (Inl 0)
     else run_verb lock_readers env args)"

text \<open>Reading and writing exclude each other.\<close>

definition access_main :: "(nat \<Rightarrow> reader_env) \<Rightarrow> pydict \<Rightarrow> (int + main_state) res" where
  "access_main env args = bindE (no_hosts args) (\<lambda>none. if none then Inr (Inl 0)
     else bindE (attr args ''read_words'') (\<lambda>read_words. bindE (attr args ''write_words'') (\<lambda>write_words.
       if read_words \<noteq> PNone \<and> write_words \<noteq> PNone then Inr (Inl 2)
       else if read_words = PNone \<and> write_words = PNone then Inr (Inl 2)
       else run_verb access_readers env args)))"

text \<open>The exception \<open>Exit(status)\<close> with which the command \<open>access\<close> ends, if any.\<close>

definition access_exit :: "int \<Rightarrow> int option" where
  "access_exit code = (if code \<noteq> 0 then Some code else None)"

text \<open>The state callback of \<^verbatim>\<open>reset\<close>.\<close>

definition shutdown :: "unit reader_command" where
  "shutdown = disconnect"

section \<open>Readers that were asked to disconnect\<close>

definition connections_opened :: "reader \<Rightarrow> nat" where
  "connections_opened r = length (filter (\<lambda>x. x = Connection_Opened) (calls r))"

definition closing :: "reader \<Rightarrow> reader \<Rightarrow> bool" where
  "closing r r' \<longleftrightarrow> (disconnect_requested r \<longrightarrow> disconnect_requested r' \<and> connections_opened r' = connections_opened r)"

interpretation cl: state_relation closing
  by unfold_locales (simp_all add: closing_def)

lemma keeps_snd: "keeps closing m \<Longrightarrow> closing r (snd (m r))"
  by (simp add: keeps_def)

lemma closing_same: "(\<And>r. disconnect_requested (g r) = disconnect_requested r \<and> calls (g r) = calls r) \<Longrightarrow> keeps closing (modifyA g)"
  by (simp add: keeps_def act_simps closing_def connections_opened_def)

lemma closing_calls: "list_all (\<lambda>x. x \<noteq> Connection_Opened) cs \<Longrightarrow> keeps closing (record_calls cs)"
  by (auto simp: record_calls_def keeps_def act_simps closing_def connections_opened_def list_all_iff filter_empty_conv)

lemmas closing_rules = cl.kept closing_same closing_calls

lemma closing_timer: "keeps closing cancel_duration_timer" "keeps closing schedule_duration_disconnect"
  unfolding schedule_duration_disconnect_def cancel_duration_timer_def Let_def by (intro closing_rules; simp)+

lemma closing_disconnected: "keeps closing on_disconnected"
  unfolding on_disconnected_def by (intro closing_rules closing_timer) (simp_all add: list_all_iff)

lemma closing_event: "keeps closing (on_client_event ev)"
  unfolding on_client_event_def on_llrp_state_changed_def config_applied_def session_closed_def
  by (cases ev) (auto intro!: closing_rules closing_timer closing_disconnected simp: list_all_iff)

lemma closing_on_client: "keeps closing (on_client m)"
proof (rule keepsI)
  fix r x r' assume run: "on_client m r = (x, r')"
  obtain y c where m: "m (llrp r) = (y, c)" by fastforce
  let ?es = "new_events (llrp r) c"
  have "closing r (r\<lparr>llrp := c\<rparr>)" by (simp add: closing_def connections_opened_def)
  moreover have "keeps closing (forA on_client_event ?es)" by (intro cl.forA closing_event)
  then have "closing (r\<lparr>llrp := c\<rparr>) (snd (forA on_client_event ?es (r\<lparr>llrp := c\<rparr>)))" by (simp add: keeps_def)
  moreover have "r' = snd (forA on_client_event ?es (r\<lparr>llrp := c\<rparr>))"
    using run m by (auto simp: on_client_def split: prod.splits sum.splits)
  ultimately show "closing r r'" by (auto intro: cl.trans)
qed

lemma closing_hard: "keeps closing hard_disconnect" "keeps closing reset_session"
  unfolding hard_disconnect_def reset_session_def by (intro closing_rules closing_on_client; simp)+

definition disconnect_body :: "unit reader_command" where
  "disconnect_body = readA (\<lambda>r. if \<not> thread_running r then thenA hard_disconnect on_disconnected
     else on_client (stopPolitely (Some Disconnect_Cb) True))"

lemma closing_disconnect_body: "keeps closing disconnect_body"
  unfolding disconnect_body_def by (intro cl.kept closing_on_client closing_hard closing_disconnected)

text \<open>A request to disconnect takes effect even if it raises.\<close>

lemma disconnect_requests: "closing r (snd (disconnect r)) \<and> disconnect_requested (snd (disconnect r))"
proof -
  obtain x r' where body: "disconnect_body (r\<lparr>disconnect_requested := True\<rparr>) = (x, r')" by fastforce
  then have "disconnect r = (x, r')" by (simp add: disconnect_def disconnect_body_def act_simps)
  moreover have "closing (r\<lparr>disconnect_requested := True\<rparr>) r'"
    using closing_disconnect_body body by (rule keepsD)
  ultimately show ?thesis by (simp add: closing_def connections_opened_def)
qed

lemma closing_disconnect: "keeps closing disconnect"
  using disconnect_requests by (simp add: keeps_def)

section \<open>The receive thread of a closing reader\<close>

lemma closing_drop: "keeps closing drop_connection"
  unfolding drop_connection_def by (intro cl.kept closing_hard closing_disconnected)

lemma closing_lost: "on_lost_connection r = Some (b, r') \<Longrightarrow> closing r r'"
proof -
  assume run: "on_lost_connection r = Some (b, r')"
  show ?thesis
  proof (cases "disconnect_requested r")
    case True
    let ?r1 = "snd (on_client (setState STATE_DISCONNECTED) r)"
    have r1: "closing r ?r1" by (rule keeps_snd [OF closing_on_client])
    have "closing ?r1 (snd (hard_disconnect ?r1))" by (rule keeps_snd [OF closing_hard(1)])
    moreover have "closing (snd (hard_disconnect ?r1)) (snd (on_disconnected (snd (hard_disconnect ?r1))))"
      by (rule keeps_snd [OF closing_disconnected])
    moreover have "r' = snd (on_disconnected (snd (hard_disconnect ?r1)))"
      using run r1 True by (simp add: on_lost_connection_def Let_def closing_def)
    ultimately show ?thesis using r1 by (auto intro: cl.trans)
  qed (simp add: closing_def)
qed

lemma closing_end_thread: "end_thread r = Some r' \<Longrightarrow> closing r r'"
  by (auto simp: end_thread_def closing_def connections_opened_def)

lemma closing_end_round: "end_round lost r = Some r' \<Longrightarrow> closing r r'"
proof -
  have again: "closing r (r1\<lparr>stop_main_loop := False\<rparr>)" if "closing r r1" for r1
    using that by (simp add: closing_def connections_opened_def)
  assume "end_round lost r = Some r'"
  then show ?thesis
    by (auto simp: end_round_def cl.refl split: if_splits option.splits prod.splits
        dest!: closing_end_thread closing_lost intro: cl.trans again)
qed

lemma closing_deliver: "closing r (fst (deliver_message m r))"
proof -
  obtain name md where m: "m = (name, md)" by fastforce
  have "keeps closing (run_message_callback name md cb)" for cb
    unfolding run_message_callback_def on_llrp_tag_report_def on_llrp_event_notification_def deduplicate_def read_clock_def Let_def
    by (cases cb) (auto intro!: closing_rules simp: list_all_iff split: option.split bool.split prod.split)
  then have "keeps closing (thenA (on_llrp_message_received name md) (on_client (handleMessage name md)))"
    unfolding on_llrp_message_received_def by (intro cl.kept closing_on_client)
  then show ?thesis unfolding m keeps_def
    by (auto simp: deliver_message_def split: prod.split sum.split) (metis snd_conv)+
qed

lemma closing_receive: "keeps closing (receive_data data)"
proof (rule keepsI)
  fix r x r' assume run: "receive_data data r = (x, r')"
  obtain f r1 err where raw: "raw_data_received (stack_room r) (message_limit (reader_settings r)) deliver_message data (frame r) r = (f, r1, err)"
    by (metis prod_cases3)
  have "closing r (fst (snd (raw_data_received (stack_room r) (message_limit (reader_settings r)) deliver_message data (frame r) r)))"
    by (rule raw_data_keeps [where R = closing]) (rule cl.refl, erule (1) cl.trans, rule closing_deliver)
  then have "closing r r1" by (simp add: raw)
  then show "closing r r'" using run raw by (auto simp: receive_data_def closing_def connections_opened_def)
qed

lemma closing_round: "main_loop_round x r = Some r' \<Longrightarrow> closing r r'"
proof -
  assume run: "main_loop_round x r = Some r'"
  have drop: "closing q (snd (drop_connection q))" for q using closing_drop by (simp add: keeps_def)
  have hard: "closing q (snd (thenA hard_disconnect on_disconnected q))" for q
    using cl.thenA [OF closing_hard(1) closing_disconnected] by (simp add: keeps_def)
  let ?r = "r\<lparr>in_main_loop := True\<rparr>"
  have start: "closing r ?r" by (simp add: closing_def connections_opened_def)
  show ?thesis
  proof (cases "\<not> thread_running r \<or> \<not> transport_up (llrp r)")
    case True
    then have "r' = r \<or> end_thread (if in_main_loop r then snd (drop_connection r) else r) = Some r'"
      using run by (cases "thread_running r") (simp_all add: main_loop_round_def)
    then show ?thesis
      using closing_end_thread [of "if in_main_loop r then snd (drop_connection r) else r" r'] drop [of r]
      by (auto simp: cl.refl intro: cl.trans split: if_splits)
  next
    case False
    have ended: "closing r r'" if "end_round lost q = Some r'" "closing ?r q" for lost q
      using closing_end_round [OF that(1)] that(2) start by (blast intro: cl.trans)
    show ?thesis
    proof (cases "x = Data [] \<or> x = Socket_Error")
      case True
      then show ?thesis using run False ended [OF _ cl.refl] by (auto simp: main_loop_round_def Let_def)
    next
      case nonempty: False
      then obtain data where x: "x = Data data" "data \<noteq> []" by (cases x) auto
      obtain y r1 where recv: "receive_data data ?r = (y, r1)" by fastforce
      have r1: "closing ?r r1" using closing_receive recv by (rule keepsD)
      have stopped: "closing r r'" if "end_thread (snd (drop_connection r1)) = Some r'"
        using closing_end_thread [OF that] drop [of r1] r1 start by (blast intro: cl.trans)
      have failed: "closing r r'" if "end_round False (snd (thenA hard_disconnect on_disconnected r1)) = Some r'"
        using ended [OF that] hard [of r1] r1 by (blast intro: cl.trans)
      show ?thesis
      proof (cases y)
        case (Inr u)
        then have "end_round False r1 = Some r'" using run False x recv by (simp add: main_loop_round_def Let_def)
        then show ?thesis using ended r1 by blast
      next
        case (Inl e)
        then have "(if e = OSError then end_round True r1
          else if e = ReaderConfigurationError then end_round False (snd (thenA hard_disconnect on_disconnected r1))
          else end_thread (snd (drop_connection r1))) = Some r'"
          using run False x recv by (simp add: main_loop_round_def Let_def)
        then show ?thesis using ended [OF _ r1] failed stopped by (auto split: if_splits)
      qed
    qed
  qed
qed

lemma closing_step: "works x \<Longrightarrow> reader_step x r = Some r' \<Longrightarrow> closing r r'"
proof -
  assume w: "works x" and run: "reader_step x r = Some r'"
  have fires: "keeps closing (duration_timer_fires t)" for t
    unfolding duration_timer_fires_def by (intro closing_same) simp
  have runs: "keeps closing (duration_timer_runs i)" for i
    unfolding duration_timer_runs_def duration_expired_def by (intro closing_rules closing_disconnect; simp)
  have update: "keeps closing (reader_update_config a)" for a
    unfolding reader_update_config_def Let_def by (intro closing_rules closing_on_client; simp)
  have applied: "keeps closing (reader_apply_config a u)" for a u
    unfolding reader_apply_config_def
    by (intro closing_rules closing_on_client update) (auto split: option.split)
  have acc: "keeps closing (start_access_spec op ts n i)" for op ts n i
    unfolding start_access_spec_def by (intro closing_rules closing_on_client)
  have change: "closing r (change_callbacks y r)" for y
    by (cases y) (simp_all add: closing_def connections_opened_def add_state_callback_def remove_state_callback_def
        clear_state_callback_def add_message_callback_def remove_message_callback_def clear_message_callback_def
        add_tag_report_callback_def remove_tag_report_callback_def clear_tag_report_callback_def
        add_event_callback_def remove_event_callback_def clear_event_callback_def add_disconnected_callback_def
        remove_disconnected_callback_def clear_disconnected_callback_def Let_def split: option.split)
  show ?thesis
  proof (cases x)
    case (Call_Connect b)
    then show ?thesis using w by simp
  next
    case (Round y)
    then show ?thesis using run closing_round by simp
  qed (use run change in \<open>auto intro!: keeps_snd closing_disconnect closing_hard fires runs update applied acc closing_on_client\<close>)
qed

section \<open>Runs of the main program\<close>

lemma closing_all: "list_all disconnect_requested rs \<Longrightarrow> list_all2 closing rs rs' \<Longrightarrow> list_all disconnect_requested rs'"
  by (auto simp: list_all_length list_all2_conv_all_nth closing_def)

lemma closing_refl_all: "list_all2 closing rs rs"
  by (simp add: list_all2_conv_all_nth cl.refl)

lemma closing_at: "i < length rs \<Longrightarrow> closing (rs ! i) r \<Longrightarrow> list_all2 closing rs (rs[i := r])"
  by (auto simp: list_all2_conv_all_nth nth_list_update cl.refl)

lemma closing_each: "list_all2 closing rs (disconnect_each rs)" "list_all disconnect_requested (disconnect_each rs)"
  using disconnect_requests
  by (auto simp: disconnect_each_def list_all2_conv_all_nth list_all_iff)

lemma closing_sweep: "list_all2 closing rs (disconnect_all_readers True rs)"
proof -
  have "closing r (disconnect_unless_requested r)" for r
    by (simp add: disconnect_unless_requested_def act_simps cl.refl disconnect_requests)
  moreover have "closing r (snd (hard_disconnect r))" for r by (rule keeps_snd [OF closing_hard(1)])
  ultimately show ?thesis
    by (auto simp: disconnect_all_readers_def list_all2_conv_all_nth Let_def intro: cl.trans)
qed

lemma closing_finish: "list_all2 closing (readers s) (readers (finish_main v s))"
  by (simp add: finish_main_def closing_sweep closing_refl_all)

definition over :: "main_state \<Rightarrow> bool" where
  "over s \<longleftrightarrow> phase s = Waiting \<or> (\<exists>c. phase s = Finished c)"

text \<open>Once the main program only waits, no step of it connects a reader.\<close>

lemma over_step:
  assumes "over s" "main_step v s s'"
  shows "over s' \<and> list_all2 closing (readers s) (readers s') \<and> connection_failed s' = connection_failed s"
  using assms(2)
proof (cases rule: main_step.cases)
  case (reader_works i x r)
  then show ?thesis using assms(1) closing_at [OF _ closing_step] by (auto simp: over_def)
next
  case interrupted
  have "list_all2 closing (disconnect_each (readers s)) (readers s')"
    using closing_finish [of "s\<lparr>readers := disconnect_each (readers s)\<rparr>" v] interrupted by simp
  then have "list_all2 closing (readers s) (readers s')"
    using closing_each(1) list_all2_trans [of closing closing closing] cl.trans by blast
  then show ?thesis using interrupted by (simp add: over_def finish_main_def)
qed (use assms(1) closing_finish closing_each in \<open>auto simp: over_def finish_main_def\<close>)

lemma over_run:
  assumes "(main_step v)\<^sup>*\<^sup>* s s'" "over s"
  shows "over s' \<and> list_all2 closing (readers s) (readers s') \<and> connection_failed s' = connection_failed s"
  using assms
proof (induction rule: rtranclp_induct)
  case base
  then show ?case by (simp add: closing_refl_all)
next
  case (step t u)
  then have t: "over t" "list_all2 closing (readers s) (readers t)" "connection_failed t = connection_failed s" by auto
  from over_step [OF t(1) step(2)] t show ?case
    using list_all2_trans [of closing closing closing "readers s" "readers t" "readers u"] cl.trans by blast
qed

text \<open>What every phase guarantees.\<close>

definition main_ok :: "verb \<Rightarrow> main_state \<Rightarrow> bool" where
  "main_ok v s \<longleftrightarrow> (case phase s of
     Connecting i \<Rightarrow> \<not> connection_failed s
   | Aborting i \<Rightarrow> connection_failed s \<and> i \<le> length (readers s) \<and> (\<forall>j < i. disconnect_requested (readers s ! j))
   | Waiting \<Rightarrow> connection_failed s \<longrightarrow> list_all disconnect_requested (readers s)
   | Finished c \<Rightarrow> c = exit_code v (connection_failed s) \<and>
       (connection_failed s \<longrightarrow> list_all disconnect_requested (readers s))
   | Crashed e \<Rightarrow> connection_failed s)"

lemma main_ok_finish:
  assumes "connection_failed s \<longrightarrow> list_all disconnect_requested (readers s)"
  shows "main_ok v (finish_main v s)"
  using assms closing_all [OF _ closing_finish [of s v]] by (auto simp: main_ok_def finish_main_def)

lemma main_ok_step:
  assumes "main_ok v s" "main_step v s s'"
  shows "main_ok v s'"
  using assms(2)
proof (cases rule: main_step.cases)
  case (reader_works i x r)
  have "list_all2 closing (readers s) (readers s')"
    using closing_at [OF reader_works(2) closing_step [OF reader_works(3,4)]] reader_works(1) by simp
  moreover have "phase s' = phase s" "connection_failed s' = connection_failed s" using reader_works by simp_all
  ultimately show ?thesis using assms(1) closing_all [of "readers s" "readers s'"]
    by (auto simp: main_ok_def closing_def list_all2_conv_all_nth split: phase.splits)
next
  case (aborted i u r)
  then have "disconnect_requested r" using disconnect_requests [of "readers s ! i"] by simp
  with aborted assms(1) show ?thesis by (auto simp: main_ok_def nth_list_update less_Suc_eq)
next
  case all_ended
  then show ?thesis using assms(1) main_ok_finish by (simp add: main_ok_def)
next
  case interrupted
  then show ?thesis using closing_each(2) main_ok_finish [of "s\<lparr>readers := disconnect_each (readers s)\<rparr>" v] by simp
next
  case interrupted_goes_on
  then show ?thesis using closing_each(2) by (simp add: main_ok_def)
qed (use assms(1) in \<open>auto simp: main_ok_def list_all_length split: if_splits\<close>)

lemma main_ok_run: "(main_step v)\<^sup>*\<^sup>* (main_start rs) s \<Longrightarrow> main_ok v s"
proof (induction rule: rtranclp_induct)
  case base
  then show ?case by (simp add: main_ok_def main_start_def)
qed (rule main_ok_step)

text \<open>The steps of the main program alone, as a function, and the first \<open>n\<close> of them.\<close>

definition main_next :: "verb \<Rightarrow> main_state \<Rightarrow> main_state option" where
  "main_next v s = (case phase s of
     Connecting i \<Rightarrow> if i < length (readers s)
       then (case connect True (readers s ! i) of None \<Rightarrow> None
         | Some (Inr u, r) \<Rightarrow> Some (s\<lparr>phase := Connecting (Suc i), readers := (readers s)[i := r]\<rparr>)
         | Some (Inl e, r) \<Rightarrow> Some (s\<lparr>phase := (if aborts v then Aborting 0 else Connecting (Suc i)),
             readers := (readers s)[i := r], connection_failed := (aborts v \<or> connection_failed s)\<rparr>))
       else if i = length (readers s) then Some (s\<lparr>phase := Waiting\<rparr>) else None
   | Aborting i \<Rightarrow> if i < length (readers s)
       then (case disconnect (readers s ! i) of
           (Inr u, r) \<Rightarrow> Some (s\<lparr>phase := Aborting (Suc i), readers := (readers s)[i := r]\<rparr>)
         | (Inl e, r) \<Rightarrow> Some (s\<lparr>phase := Crashed e, readers := (readers s)[i := r]\<rparr>))
       else if i = length (readers s) then Some (s\<lparr>phase := Waiting\<rparr>) else None
   | Waiting \<Rightarrow> if list_all (\<lambda>r. \<not> thread_running r) (readers s) then Some (finish_main v s) else None
   | _ \<Rightarrow> None)"

fun main_steps :: "nat \<Rightarrow> verb \<Rightarrow> main_state \<Rightarrow> main_state option" where
  "main_steps 0 v s = Some s"
| "main_steps (Suc n) v s = (case main_next v s of None \<Rightarrow> None | Some s \<Rightarrow> main_steps n v s)"

lemma main_next_step: "main_next v s = Some s' \<Longrightarrow> main_step v s s'"
proof -
  assume next_: "main_next v s = Some s'"
  show ?thesis
  proof (cases "phase s")
    case (Connecting i)
    then have "i < length (readers s) \<or> i = length (readers s)" using next_ by (auto simp: main_next_def split: if_splits)
    with Connecting next_ show ?thesis
      by (auto simp: main_next_def split: option.splits prod.splits sum.splits split del: if_split intro: main_step.intros)
  next
    case (Aborting i)
    then have "i < length (readers s) \<or> i = length (readers s)" using next_ by (auto simp: main_next_def split: if_splits)
    with Aborting next_ show ?thesis
      by (auto simp: main_next_def split: prod.splits sum.splits intro: main_step.intros)
  qed (use next_ in \<open>auto simp: main_next_def split: if_splits intro: main_step.intros\<close>)
qed

lemma main_steps_run: "main_steps n v s = Some s' \<Longrightarrow> (main_step v)\<^sup>*\<^sup>* s s'"
  by (induction n v s rule: main_steps.induct)
    (auto split: option.splits intro: main_next_step converse_rtranclp_into_rtranclp)

section \<open>Properties\<close>

text \<open>
  C37. An aborted verb stays down: once the main program has met a reader that could not be
  connected and has aborted, or all readers were asked to disconnect on an interrupt of the user,
  every reader has been asked to disconnect, and whatever the threads, timers and callbacks of the
  readers do afterwards, none of them opens a connection again (not even when it is configured to
  reconnect); the exit code tells whether a connection had failed.
\<close>

theorem aborted_verb_stays_down:
  assumes "(main_step v)\<^sup>*\<^sup>* (main_start rs) s" "over s"
    and "connection_failed s \<or> list_all disconnect_requested (readers s)"
    and "(main_step v)\<^sup>*\<^sup>* s s'"
  shows "list_all2 (\<lambda>r r'. disconnect_requested r \<and> disconnect_requested r' \<and> connections_opened r' = connections_opened r) (readers s) (readers s') \<and>
    (\<forall>c. phase s' = Finished c \<longrightarrow> c = exit_code v (connection_failed s))"
proof -
  have run: "over s'" "list_all2 closing (readers s) (readers s')" "connection_failed s' = connection_failed s"
    using over_run [OF assms(4,2)] by auto
  have "list_all disconnect_requested (readers s)"
    using main_ok_run [OF assms(1)] assms(2,3) by (auto simp: main_ok_def over_def)
  then have "list_all2 (\<lambda>r r'. disconnect_requested r \<and> disconnect_requested r' \<and> connections_opened r' = connections_opened r) (readers s) (readers s')"
    using run(2) by (auto simp: list_all2_conv_all_nth list_all_length closing_def)
  moreover have "main_ok v s'" using main_ok_run assms(1,4) by (blast intro: rtranclp_trans)
  ultimately show ?thesis using run(3) by (auto simp: main_ok_def)
qed

text \<open>Two readers: the first one is connected and loses its connection, the second one refuses.\<close>

definition demo_start :: main_state where
  "demo_start = main_start [(''a'', example_reader), (''b'', example_reader\<lparr>connect_results := [Some OSError]\<rparr>)]"

lemmas demo_eval = example_reader_eq new_client_def reader_eval act_simps Let_def main_start_def main_next_def
  connections_opened_def main_loop_round_def end_round_def end_thread_def on_lost_connection_def setState_def
  on_llrp_state_changed_def reader_settings_def default_config_def disconnect_requests

lemma demo_run:
  "\<exists>s r t. main_next access_verb demo_start = Some s \<and> length (readers s) = 2 \<and>
     reader_step (Round Socket_Error) (readers s ! 0) = Some r \<and>
     main_steps (Suc (Suc (Suc (Suc 0)))) access_verb (s\<lparr>readers := (readers s)[0 := r]\<rparr>) = Some t \<and>
     phase t = Waiting \<and> connection_failed t \<and> map connections_opened (readers t) = [1, 0]"
  by (simp add: demo_start_def demo_eval access_verb_def)

theorem aborted_verb_stays_down_witness:
  "\<exists>rs t. (main_step access_verb)\<^sup>*\<^sup>* (main_start rs) t \<and> phase t = Waiting \<and> map connections_opened (readers t) = [1, 0] \<and>
     (\<forall>u. (main_step access_verb)\<^sup>*\<^sup>* t u \<longrightarrow> map connections_opened (readers u) = [1, 0] \<and> (\<forall>c. phase u = Finished c \<longrightarrow> c = 1))"
proof -
  obtain s r t where s: "main_next access_verb demo_start = Some s" "length (readers s) = 2"
    and r: "reader_step (Round Socket_Error) (readers s ! 0) = Some r"
    and t: "main_steps (Suc (Suc (Suc (Suc 0)))) access_verb (s\<lparr>readers := (readers s)[0 := r]\<rparr>) = Some t"
      "phase t = Waiting" "connection_failed t" "map connections_opened (readers t) = [1, 0]"
    using demo_run by (elim exE conjE) (rule that)
  have "main_step access_verb s (s\<lparr>readers := (readers s)[0 := r]\<rparr>)"
    using s(2) by (intro main_step.reader_works [OF _ _ r]) simp_all
  with main_next_step [OF s(1)] main_steps_run [OF t(1)]
  have run: "(main_step access_verb)\<^sup>*\<^sup>* (main_start [(''a'', example_reader), (''b'', example_reader\<lparr>connect_results := [Some OSError]\<rparr>)]) t"
    unfolding demo_start_def by (meson converse_rtranclp_into_rtranclp)
  have "map connections_opened (readers u) = [1, 0] \<and> (\<forall>c. phase u = Finished c \<longrightarrow> c = 1)"
    if "(main_step access_verb)\<^sup>*\<^sup>* t u" for u
  proof -
    have later: "list_all2 (\<lambda>r r'. disconnect_requested r \<and> disconnect_requested r' \<and> connections_opened r' = connections_opened r)
        (readers t) (readers u) \<and> (\<forall>c. phase u = Finished c \<longrightarrow> c = exit_code access_verb (connection_failed t))"
      using t(2,3) that by (intro aborted_verb_stays_down [OF run]) (simp_all add: over_def)
    then have "map connections_opened (readers u) = map connections_opened (readers t)"
      by (auto simp: list_all2_conv_all_nth intro: nth_equalityI)
    with later t(3,4) show ?thesis by (simp add: access_verb_def)
  qed
  with run t(2,4) show ?thesis by blast
qed

text \<open>
  The abort is not protected: a reader that already has a request to delete its access
  specifications pending, such as one whose duration has just expired, raises when it is asked to
  disconnect again; the main program then ends with the exception and the readers after it are left
  as they are, with their receive threads running.
\<close>

lemma abort_leaves_readers_connected:
  assumes "phase s = Aborting i" "i < length (readers s)" "thread_running (readers s ! i)"
    and "has_response_type ''DELETE_ACCESSSPEC_RESPONSE'' (pending_requests (llrp (readers s ! i)))"
  shows "\<exists>r. main_next v s = Some (s\<lparr>phase := Crashed ReaderConfigurationError, readers := (readers s)[i := r]\<rparr>)"
  using assms
  by (simp add: main_next_def disconnect_def act_simps on_client_def stopPolitely_def send_request_def new_events_def)
    (rule exI, rule refl)

end
