(* ===== verification/Log_Setup.thy ===== *)
theory Log_Setup
  imports Exception_State Py_Values
begin

text \<open>
  The logging set-up of \<^verbatim>\<open>sllurp/log.py\<close>: the handlers of the root logger, of which the module
  replaces only those it installed itself, and the switch for high-rate messages.  Handlers are
  numbered in the order they are made, since Python compares them by identity.  Whether opening a log
  file or closing a handler fails is the choice of the environment.  The lemmas show that handlers of
  the application survive in order, that set-ups do not pile up, and that no log file is left open.
\<close>

section \<open>Handlers\<close>

definition DEBUG_LEVEL :: int where "DEBUG_LEVEL = 10"
definition INFO_LEVEL :: int where "INFO_LEVEL = 20"

text \<open>The argument \<open>stream\<close>: one of the names, or an object that can be written to or not.\<close>

datatype stream_arg = Stream_Name string | Writable nat | Not_Writable

datatype log_target = Error_Output | Standard_Output | Given_Output nat | Log_File string | Elsewhere

record log_handler =
  handler_number :: nat
  target :: log_target
  handler_level :: int
  sllurp_owned :: bool

record log_setup =
  general_debug_enabled :: bool
  root_level :: int
  root_handlers :: "log_handler list"
  next_handler :: nat
  closed_handlers :: "nat list"
  close_failures :: nat
  open_error :: "nat \<Rightarrow> py_error option"
  close_fails :: "nat \<Rightarrow> bool"
  debugfast_installed :: bool

section \<open>Operations\<close>

definition set_general_debug :: "bool \<Rightarrow> log_setup \<Rightarrow> log_setup" where
  "set_general_debug debug s = s\<lparr>general_debug_enabled := debug\<rparr>"

definition is_general_debug_enabled :: "log_setup \<Rightarrow> bool" where
  "is_general_debug_enabled s = general_debug_enabled s"

definition output_stream :: "stream_arg \<Rightarrow> log_target res" where
  "output_stream stream = (case stream of
     Stream_Name n \<Rightarrow> if n = ''stderr'' then Inr Error_Output
       else if n = ''stdout'' then Inr Standard_Output else Inl ValueError
   | Writable n \<Rightarrow> Inr (Given_Output n)
   | Not_Writable \<Rightarrow> Inl ValueError)"

text \<open>A new handler with its formatter and level; it becomes one of the module's own.\<close>

definition new_handler :: "log_target \<Rightarrow> int \<Rightarrow> (log_setup, log_handler) act" where
  "new_handler tgt level = readA (\<lambda>s. thenA (modifyA (\<lambda>s. s\<lparr>next_handler := Suc (next_handler s)\<rparr>))
     (retA \<lparr>handler_number = next_handler s, target = tgt, handler_level = level, sllurp_owned = True\<rparr>))"

definition open_log_file :: "string \<Rightarrow> int \<Rightarrow> (log_setup, log_handler) act" where
  "open_log_file path level = readA (\<lambda>s. case open_error s (next_handler s) of
     Some e \<Rightarrow> throwA e | None \<Rightarrow> new_handler (Log_File path) level)"

definition addHandler :: "log_handler \<Rightarrow> log_setup \<Rightarrow> log_setup" where
  "addHandler h s = (if h \<in> set (root_handlers s) then s else s\<lparr>root_handlers := root_handlers s @ [h]\<rparr>)"

text \<open>Removing and closing a previous handler; a failure to close is logged.\<close>

definition drop_handler :: "log_handler \<Rightarrow> log_setup \<Rightarrow> log_setup" where
  "drop_handler h s = s\<lparr>root_handlers := remove1 h (root_handlers s),
     closed_handlers := closed_handlers s @ [handler_number h],
     close_failures := close_failures s + of_bool (close_fails s (handler_number h))\<rparr>"

definition init_logging :: "bool \<Rightarrow> string option \<Rightarrow> stream_arg \<Rightarrow> (log_setup, unit) act" where
  "init_logging debug logfile stream =
    thenA (modifyA (set_general_debug debug))
    (let level = (if debug then DEBUG_LEVEL else INFO_LEVEL) in
     bindA (liftA (output_stream stream)) (\<lambda>out.
     bindA (new_handler out level) (\<lambda>h.
     thenA (modifyA (\<lambda>s. s\<lparr>root_level := level\<rparr>))
     (thenA (readA (\<lambda>s. forA (\<lambda>h. modifyA (drop_handler h)) (filter sllurp_owned (root_handlers s))))
     (thenA (modifyA (addHandler h))
     (case logfile of None \<Rightarrow> retA () | Some path \<Rightarrow> whenA (path \<noteq> '''')
       (bindA (open_log_file path level) (\<lambda>f. modifyA (addHandler f)))))))))"

text \<open>The handlers that write a record of a logger without a level of its own.\<close>

definition emits :: "int \<Rightarrow> log_setup \<Rightarrow> log_handler list" where
  "emits level s = (if root_level s \<le> level then filter (\<lambda>h. handler_level h \<le> level) (root_handlers s) else [])"

definition debugfast :: "log_setup \<Rightarrow> log_handler list" where
  "debugfast s = (if general_debug_enabled s then emits DEBUG_LEVEL s else [])"

text \<open>\<open>get_logger\<close> adds \<open>debugfast\<close> to the logger class unless it is there.\<close>

definition get_logger :: "string \<Rightarrow> (log_setup, string) act" where
  "get_logger module_name = readA (\<lambda>s.
     thenA (whenA (\<not> debugfast_installed s) (modifyA (\<lambda>s. s\<lparr>debugfast_installed := True\<rparr>))) (retA module_name))"

text \<open>\<open>MaxLevelFilter.filter\<close>.\<close>

definition max_level_filter :: "int \<Rightarrow> int \<Rightarrow> bool" where
  "max_level_filter level levelno \<longleftrightarrow> levelno < level"

text \<open>\<open>formatTime\<close>, given the date and time to the second in UTC.\<close>

definition formatTime :: "string \<Rightarrow> nat \<Rightarrow> string" where
  "formatTime base msecs = (let digits = dec_str msecs in
     base @ ''.'' @ replicate (3 - length digits) (CHR ''0'') @ digits @ ''Z'')"

section \<open>What a set-up does\<close>

lemma for_modify: "forA (\<lambda>x. modifyA (g x)) xs s = (Inr (), fold g xs s)"
  by (induction xs arbitrary: s) (simp_all add: act_simps)

text \<open>The handlers that belong to the application, and those of the module.\<close>

definition foreign :: "log_setup \<Rightarrow> log_handler list" where
  "foreign s = filter (\<lambda>h. \<not> sllurp_owned h) (root_handlers s)"

definition own :: "log_setup \<Rightarrow> log_handler list" where
  "own s = filter sllurp_owned (root_handlers s)"

lemma remove_all: "fold remove1 (filter P xs) (ys @ xs) = ys @ filter (\<lambda>x. \<not> P x) xs" if "\<forall>y \<in> set ys. \<not> P y"
  using that
proof (induction xs arbitrary: ys)
  case (Cons x xs)
  show ?case
  proof (cases "P x")
    case True
    then have "x \<notin> set ys" using Cons.prems by blast
    then show ?thesis using True Cons by (simp add: remove1_append)
  next
    case False
    then show ?thesis using Cons.IH [of "ys @ [x]"] Cons.prems by simp
  qed
qed simp

lemma drop_all: "fold drop_handler hs s = s\<lparr>root_handlers := fold remove1 hs (root_handlers s),
    closed_handlers := closed_handlers s @ map handler_number hs,
    close_failures := close_failures s + length (filter (close_fails s) (map handler_number hs))\<rparr>"
  by (induction hs arbitrary: s) (simp_all add: drop_handler_def)

text \<open>The handlers that one set-up leaves, for a stream that is accepted.\<close>

definition own_handlers :: "nat \<Rightarrow> log_target \<Rightarrow> bool \<Rightarrow> string option \<Rightarrow> log_handler list" where
  "own_handlers n out debug logfile = (let level = if debug then DEBUG_LEVEL else INFO_LEVEL in
     \<lparr>handler_number = n, target = out, handler_level = level, sllurp_owned = True\<rparr> #
     (case logfile of None \<Rightarrow> [] | Some path \<Rightarrow> if path = '''' then []
        else [\<lparr>handler_number = Suc n, target = Log_File path, handler_level = level, sllurp_owned = True\<rparr>]))"

text \<open>A log file that cannot be opened: its error, after the stream handler was installed.\<close>

definition file_error :: "string option \<Rightarrow> log_setup \<Rightarrow> py_error option" where
  "file_error logfile s = (case logfile of None \<Rightarrow> None | Some path \<Rightarrow>
     if path = '''' then None else open_error s (Suc (next_handler s)))"

lemma init_logging_refused:
  "output_stream stream = Inl e \<Longrightarrow> init_logging debug logfile stream s = (Inl e, s\<lparr>general_debug_enabled := debug\<rparr>)"
  by (simp add: init_logging_def act_simps Let_def set_general_debug_def)

lemma init_logging_result:
  assumes "output_stream stream = Inr out"
  shows "init_logging debug logfile stream s =
    ((case file_error logfile s of None \<Rightarrow> Inr () | Some e \<Rightarrow> Inl e),
     s\<lparr>general_debug_enabled := debug, root_level := (if debug then DEBUG_LEVEL else INFO_LEVEL),
       root_handlers := foreign s @ (let hs = own_handlers (next_handler s) out debug logfile in
         if file_error logfile s = None then hs else [hd hs]),
       next_handler := next_handler s + (if file_error logfile s = None then length (own_handlers (next_handler s) out debug logfile) else 1),
       closed_handlers := closed_handlers s @ map handler_number (own s),
       close_failures := close_failures s + length (filter (close_fails s) (map handler_number (own s)))\<rparr>)"
proof -
  have "fold remove1 (filter sllurp_owned (root_handlers s)) (root_handlers s) = foreign s"
    using remove_all [of "[]" sllurp_owned] by (simp add: foreign_def)
  moreover have "h \<notin> set (foreign s)" if "sllurp_owned h" for h using that by (simp add: foreign_def)
  ultimately show ?thesis using assms
    by (auto simp: init_logging_def act_simps Let_def set_general_debug_def new_handler_def open_log_file_def for_modify
        drop_all addHandler_def own_handlers_def file_error_def own_def split: option.split)
qed

section \<open>Any number of set-ups\<close>

type_synonym setup_call = "bool \<times> string option \<times> stream_arg"

fun setup_run :: "setup_call list \<Rightarrow> log_setup \<Rightarrow> log_setup" where
  "setup_run [] s = s"
| "setup_run ((debug, logfile, stream) # cs) s = setup_run cs (snd (init_logging debug logfile stream s))"

text \<open>Every handler made so far is installed or was closed, and at most two are installed.\<close>

definition accounted :: "log_setup \<Rightarrow> bool" where
  "accounted s \<longleftrightarrow> (\<forall>n < next_handler s. n \<in> handler_number ` set (own s) \<union> set (closed_handlers s)) \<and>
     length (own s) \<le> 2"

lemma setup_accounted:
  assumes "accounted s"
  shows "accounted (snd (init_logging debug logfile stream s)) \<and> foreign (snd (init_logging debug logfile stream s)) = foreign s"
proof (cases "output_stream stream")
  case (Inl e)
  with assms show ?thesis by (simp add: init_logging_refused accounted_def own_def foreign_def)
next
  case (Inr out)
  let ?s = "snd (init_logging debug logfile stream s)"
  let ?hs = "let hs = own_handlers (next_handler s) out debug logfile in if file_error logfile s = None then hs else [hd hs]"
  note run = init_logging_result [OF Inr]
  have owned: "list_all sllurp_owned ?hs \<and> length ?hs \<le> 2 \<and> handler_number ` set ?hs = {next_handler s ..< next_handler ?s}"
  proof (cases "logfile = None \<or> logfile = Some []")
    case True
    then show ?thesis by (auto simp: run own_handlers_def Let_def atLeastLessThanSuc)
  next
    case False
    then obtain path where "logfile = Some path" "path \<noteq> []" by auto
    then show ?thesis by (auto simp: run own_handlers_def Let_def atLeastLessThanSuc)
  qed
  have "root_handlers ?s = foreign s @ ?hs" "closed_handlers ?s = closed_handlers s @ map handler_number (own s)"
    by (simp_all add: run)
  with owned have "own ?s = ?hs" "foreign ?s = foreign s"
    by (simp_all add: own_def foreign_def filter_empty_conv filter_id_conv list_all_iff)
  moreover have "n \<in> handler_number ` set (own s) \<union> set (closed_handlers s) \<or> n \<in> handler_number ` set ?hs" if "n < next_handler ?s" for n
    using assms that owned by (cases "n < next_handler s") (auto simp: accounted_def)
  ultimately show ?thesis using owned \<open>closed_handlers ?s = _\<close> by (auto simp: accounted_def)
qed

text \<open>
  Embedding applications keep their handlers: whatever sequence of set-ups is made, refused and
  failing ones included, the handlers of the application stay as they are and in order, the module
  has at most two of its own, and every handler it ever made is installed or has been closed.
\<close>

theorem setups_do_not_pile_up:
  assumes "next_handler s = 0" "own s = []"
  shows "foreign (setup_run cs s) = foreign s \<and> length (own (setup_run cs s)) \<le> 2 \<and>
    (\<forall>n < next_handler (setup_run cs s). n \<in> handler_number ` set (own (setup_run cs s)) \<union> set (closed_handlers (setup_run cs s)))"
proof -
  have "accounted (setup_run cs s) \<and> foreign (setup_run cs s) = foreign s" if "accounted s" for s
    using that by (induction cs s rule: setup_run.induct) (simp_all add: setup_accounted)
  moreover have "accounted s" using assms by (simp add: accounted_def)
  ultimately show ?thesis by (auto simp: accounted_def)
qed

text \<open>Without debugging, high-rate messages go nowhere; with it, to every own handler.\<close>

theorem debugfast_switch:
  assumes "output_stream stream = Inr out"
  shows "debugfast (snd (init_logging debug logfile stream s)) = (if debug
    then filter (\<lambda>h. handler_level h \<le> DEBUG_LEVEL) (foreign s) @ own (snd (init_logging debug logfile stream s)) else [])"
  by (auto simp: init_logging_result [OF assms] debugfast_def emits_def own_def own_handlers_def foreign_def
      filter_empty_conv Let_def split: option.split)

text \<open>A stream that is refused has changed the switch for high-rate messages already.\<close>

lemma refused_stream_switches_debug:
  "init_logging debug logfile Not_Writable s = (Inl ValueError, s\<lparr>general_debug_enabled := debug\<rparr>)"
  by (simp add: init_logging_refused output_stream_def)

end
