(* ===== verification/Message_Text.thy ===== *)
theory Message_Text
  imports LLRP_Message
begin

text \<open>
  The constructor and the text of \<open>LLRPMessage\<close> (\<^verbatim>\<open>llrp.py\<close>) and \<open>llrp_data2xml\<close>
  (\<^verbatim>\<open>llrp_proto.py\<close>), which renders a decoded message for logs.  The text is built from lines, so that
  its structure can be stated; \<open>str\<close> and \<open>repr\<close> of values that are not text are arguments.  The
  lemmas show that the text of every message with uniform lists exists and is properly nested.
\<close>

section \<open>Lines\<close>

datatype xml_line =
    Open_Tag nat string
  | Close_Tag nat string
  | Field_Line nat string string

definition tabs :: "nat \<Rightarrow> string" where
  "tabs n = replicate n (char_of (9::nat))"

definition new_line :: string where
  "new_line = [char_of (10::nat)]"

fun line_text :: "xml_line \<Rightarrow> string" where
  "line_text (Open_Tag n name) = tabs n @ ''<'' @ name @ ''>'' @ new_line"
| "line_text (Close_Tag n name) = tabs n @ ''</'' @ name @ ''>'' @ new_line"
| "line_text (Field_Line n name v) = tabs n @ ''<'' @ name @ ''>'' @ v @ ''</'' @ name @ ''>'' @ new_line"

text \<open>How values are shown: \<open>str\<close> and \<open>repr\<close>.\<close>

record show_env =
  show_str :: "pyval \<Rightarrow> string"
  show_repr :: "pyval \<Rightarrow> string"

definition shown :: "show_env \<Rightarrow> pyval \<Rightarrow> string" where
  "shown sh v = (case v of PStr s \<Rightarrow> s | _ \<Rightarrow> show_str sh v)"

section \<open>\<open>llrp_data2xml\<close>\<close>

text \<open>The \<open>fields\<close> of a parameter, or else of a message.\<close>

definition struct_fields :: "string \<Rightarrow> string list option" where
  "struct_fields name = (case map_of Param_struct name of
     Some p \<Rightarrow> Some (pi_fields (ps_info p))
   | None \<Rightarrow> map_option (\<lambda>m. pi_fields (ms_info m)) (map_of Message_struct name))"

fun is_dict :: "pyval \<Rightarrow> bool" where
  "is_dict (PDict _) = True"
| "is_dict _ = False"

text \<open>A list that starts with a dictionary is taken for a list of parameters.\<close>

definition dict_list :: "pyval \<Rightarrow> pyval list option" where
  "dict_list v = (case v of PList (x # xs) \<Rightarrow> if is_dict x then Some (x # xs) else None | _ \<Rightarrow> None)"

definition listed :: "pyval \<Rightarrow> pyval list" where
  "listed v = (case dict_list v of Some l \<Rightarrow> l | None \<Rightarrow> [v])"

text \<open>An unknown or undecoded parameter.\<close>

definition error_line :: "show_env \<Rightarrow> nat \<Rightarrow> pyval \<Rightarrow> string \<Rightarrow> xml_line list res" where
  "error_line sh level e k = bindE (py_in k e) (\<lambda>present. if \<not> present then Inr []
     else bindE (py_item e k) (\<lambda>v. Inr [Field_Line level k (shown sh v)]))"

definition error_lines :: "show_env \<Rightarrow> nat \<Rightarrow> string \<Rightarrow> pyval \<Rightarrow> xml_line list res" where
  "error_lines sh level name e =
    bindE (py_get e ''Name'' (PStr name)) (\<lambda>sub_name.
    bindE (mapE (error_line sh (Suc level) e) [''DecodeError'', ''Type'', ''Data'', ''VendorID'', ''Subtype'']) (\<lambda>rest.
    Inr (Open_Tag level DECODE_ERROR_PARNAME #
      (if py_true sub_name then [Field_Line (Suc level) ''Name'' (shown sh sub_name)] else []) @
      concat rest @ [Close_Tag level DECODE_ERROR_PARNAME])))"

text \<open>\<open>msg[p]\<close> with \<open>KeyError\<close> ignored; values that are not dictionaries raise \<open>TypeError\<close>.\<close>

definition field_value :: "pyval \<Rightarrow> string \<Rightarrow> pyval option res" where
  "field_value msg p = (case msg of PDict d \<Rightarrow> Inr (dict_get d p) | _ \<Rightarrow> Inl TypeError)"

lemma field_value_size: "field_value msg p = Inr (Some v) \<Longrightarrow> size v < size msg"
proof -
  assume found: "field_value msg p = Inr (Some v)"
  then obtain d where d: "msg = PDict d" "(p, v) \<in> set d"
    by (auto simp: field_value_def dest: map_of_SomeD split: pyval.splits)
  then have "size_prod (\<lambda>_. 0) size (p, v) \<le> size_list (size_prod (\<lambda>_. 0) size) d"
    by (intro size_list_estimation' [OF d(2)] order_refl)
  with d show ?thesis by simp
qed

lemma dict_list_size: "dict_list v = Some l \<Longrightarrow> x \<in> set l \<Longrightarrow> size x < size v"
proof -
  assume l: "dict_list v = Some l" and x: "x \<in> set l"
  then have v: "v = PList l" by (auto simp: dict_list_def split: pyval.splits list.splits if_splits)
  show ?thesis unfolding v using size_list_estimation' [OF x, of "size x" size] by simp
qed

function element_lines :: "show_env \<Rightarrow> pyval \<Rightarrow> string \<Rightarrow> nat \<Rightarrow> xml_line list res" where
  "element_lines sh msg name level = (case struct_fields name of
     None \<Rightarrow> bindE (mapE (error_lines sh level name) (listed msg)) (\<lambda>ls. Inr (concat ls))
   | Some flds \<Rightarrow>
      bindE (mapE (\<lambda>p. bindE (field_value msg p) (\<lambda>found. case found of
          None \<Rightarrow> Inr []
        | Some sub \<Rightarrow> if is_dict sub then element_lines sh sub p (Suc level)
            else (case dict_list sub of
              Some l \<Rightarrow> bindE (mapE (\<lambda>e. element_lines sh e p (Suc level)) l) (\<lambda>ls. Inr (concat ls))
            | None \<Rightarrow> Inr [Field_Line (Suc level) p (show_repr sh sub)]))) (flds @ [DECODE_ERROR_PARNAME])) (\<lambda>ls.
      Inr (Open_Tag level name # concat ls @ [Close_Tag level name])))"
  by pat_completeness auto

termination
  by (relation "measure (\<lambda>(_, msg, _). size msg)")
    (auto dest: field_value_size dict_list_size intro: less_trans [OF dict_list_size field_value_size])

declare element_lines.simps [simp del]

definition data2xml_lines :: "show_env \<Rightarrow> pydict \<Rightarrow> xml_line list res" where
  "data2xml_lines sh msg = bindE (mapE (\<lambda>(name, sub).
     bindE (mapE (\<lambda>e. element_lines sh e name 0) (listed sub)) (\<lambda>ls. Inr (concat ls))) msg) (\<lambda>ls. Inr (concat ls))"

definition llrp_data2xml :: "show_env \<Rightarrow> pydict \<Rightarrow> string res" where
  "llrp_data2xml sh msg = (if msg = [] then Inr ''''
     else bindE (data2xml_lines sh msg) (\<lambda>ls. Inr (butlast (concat (map line_text ls)))))"

section \<open>The message object\<close>

record llrp_message =
  msg_dict :: "pydict option"
  msg_bytes :: "bytes option"
  msg_name :: "string option"

text \<open>\<open>__init__\<close>; absent arguments and empty ones count as not given.\<close>

definition new_message :: "nat \<Rightarrow> pydict \<Rightarrow> bytes \<Rightarrow> llrp_message res" where
  "new_message stack d b = (if d = [] \<and> b = [] then Inl LLRPError
     else if b = [] then bindE (serialize d) (\<lambda>out.
       Inr \<lparr>msg_dict = Some d, msg_bytes = Some out, msg_name = Some (fst (hd d))\<rparr>)
     else if d = [] then bindE (deserialize stack b) (\<lambda>(name, md).
       Inr \<lparr>msg_dict = Some [(name, PDict md)], msg_bytes = Some b, msg_name = Some name\<rparr>)
     else Inr \<lparr>msg_dict = Some d, msg_bytes = Some b, msg_name = None\<rparr>)"

text \<open>\<open>__repr__\<close>; only a \<open>TypeError\<close> is caught.\<close>

definition message_repr :: "show_env \<Rightarrow> llrp_message \<Rightarrow> string res" where
  "message_repr sh m = catchE (case msg_dict m of None \<Rightarrow> Inr '''' | Some d \<Rightarrow> llrp_data2xml sh d)
     (\<lambda>e. if e = TypeError then Some (Inr '''') else None)"

text \<open>The script \<^verbatim>\<open>decode.py\<close>: what it prints for a message in hexadecimal.\<close>

definition decode_main :: "nat \<Rightarrow> show_env \<Rightarrow> string \<Rightarrow> string res" where
  "decode_main stack sh msg =
    bindE (unhexlify (char_codes msg)) (\<lambda>b.
    bindE (new_message stack [] b) (\<lambda>message.
    bindE (message_repr sh message) (\<lambda>shown_message.
    Inr (''Decoded message:'' @ new_line @ ''=========='' @ new_line @ shown_message @ new_line))))"

lemma decode_main_hexlify:
  "decode_main stack sh (map (\<lambda>b. char_of (unat b)) (hexlify b)) =
     bindE (new_message stack [] b) (\<lambda>message. bindE (message_repr sh message) (\<lambda>t.
       Inr (''Decoded message:'' @ new_line @ ''=========='' @ new_line @ t @ new_line)))"
proof -
  have "unat (x :: byte) < 256" for x using unsigned_less [of x] by simp
  then have "char_codes (map (\<lambda>b. char_of (unat b)) (hexlify b)) = map unat (hexlify b)"
    by (simp add: char_codes_def)
  then show ?thesis by (simp add: decode_main_def unhexlify_hexlify)
qed

section \<open>Nesting\<close>

text \<open>Reading lines with a stack of open tags; the indentation of each is the height of the stack.\<close>

fun nested :: "string list \<Rightarrow> xml_line list \<Rightarrow> string list option" where
  "nested st [] = Some st"
| "nested st (Open_Tag n name # ls) = (if n = length st then nested (name # st) ls else None)"
| "nested st (Field_Line n name v # ls) = (if n = length st then nested st ls else None)"
| "nested [] (Close_Tag n name # ls) = None"
| "nested (opened_tag # st) (Close_Tag n name # ls) = (if n = length st \<and> name = opened_tag then nested st ls else None)"

definition balanced_at :: "nat \<Rightarrow> xml_line list \<Rightarrow> bool" where
  "balanced_at n ls \<longleftrightarrow> (\<forall>st rest. length st = n \<longrightarrow> nested st (ls @ rest) = nested st rest)"

lemma balanced_at_simps [simp]:
  "balanced_at n []" "balanced_at n [Field_Line n name v]"
  by (simp_all add: balanced_at_def)

lemma balanced_at_append: "balanced_at n xs \<Longrightarrow> balanced_at n ys \<Longrightarrow> balanced_at n (xs @ ys)"
  by (simp add: balanced_at_def)

lemma balanced_at_concat: "(\<And>l. l \<in> set ls \<Longrightarrow> balanced_at n l) \<Longrightarrow> balanced_at n (concat ls)"
  by (induction ls) (simp_all add: balanced_at_append)

lemma balanced_at_tag:
  "balanced_at (Suc n) ls \<Longrightarrow> balanced_at n (Open_Tag n name # ls @ [Close_Tag n name])"
  by (simp add: balanced_at_def)

lemma mapE_elements: "mapE f xs = Inr ys \<Longrightarrow> y \<in> set ys \<Longrightarrow> \<exists>x \<in> set xs. f x = Inr y"
  by (induction xs arbitrary: ys) (auto simp: res_simps)

lemma error_lines_balanced: "error_lines sh level name e = Inr ls \<Longrightarrow> balanced_at level ls"
proof -
  assume run: "error_lines sh level name e = Inr ls"
  have line: "balanced_at n l" if "error_line sh n e k = Inr l" for n k l
    using that by (auto simp: error_line_def res_simps split: if_splits)
  from run obtain sub_name rest where
    rest: "mapE (error_line sh (Suc level) e) [''DecodeError'', ''Type'', ''Data'', ''VendorID'', ''Subtype''] = Inr rest"
    and ls: "ls = Open_Tag level DECODE_ERROR_PARNAME #
      ((if py_true sub_name then [Field_Line (Suc level) ''Name'' (shown sh sub_name)] else []) @ concat rest) @
      [Close_Tag level DECODE_ERROR_PARNAME]"
    by (auto simp: error_lines_def res_simps simp del: mapE.simps)
  have "balanced_at (Suc level) (concat rest)"
    using mapE_elements [OF rest] line by (blast intro: balanced_at_concat)
  then show ?thesis unfolding ls by (intro balanced_at_tag balanced_at_append) simp_all
qed

lemma element_lines_balanced: "element_lines sh msg name level = Inr ls \<Longrightarrow> balanced_at level ls"
proof (induction sh msg name level arbitrary: ls rule: element_lines.induct)
  case (1 sh msg name level)
  show ?case
  proof (cases "struct_fields name")
    case None
    then obtain es where "mapE (error_lines sh level name) (listed msg) = Inr es" "ls = concat es"
      using "1.prems" by (auto simp: res_simps element_lines.simps [of sh msg name])
    then show ?thesis using mapE_elements error_lines_balanced by (metis balanced_at_concat)
  next
    case (Some flds)
    let ?field = "\<lambda>p. bindE (field_value msg p) (\<lambda>found. case found of
          None \<Rightarrow> Inr []
        | Some sub \<Rightarrow> if is_dict sub then element_lines sh sub p (Suc level)
            else (case dict_list sub of
              Some l \<Rightarrow> bindE (mapE (\<lambda>e. element_lines sh e p (Suc level)) l) (\<lambda>ls. Inr (concat ls))
            | None \<Rightarrow> Inr [Field_Line (Suc level) p (show_repr sh sub)]))"
    obtain fs where fs: "mapE ?field (flds @ [DECODE_ERROR_PARNAME]) = Inr fs" "ls = Open_Tag level name # concat fs @ [Close_Tag level name]"
      using "1.prems" Some by (auto simp: res_simps element_lines.simps [of sh msg name] simp del: mapE.simps)
    have "balanced_at (Suc level) f" if p: "p \<in> set (flds @ [DECODE_ERROR_PARNAME])" and f: "?field p = Inr f" for p f
    proof -
      obtain found where found: "field_value msg p = Inr found" using f by (auto simp: res_simps)
      show ?thesis
      proof (cases found)
        case None
        then show ?thesis using f found by simp
      next
        case sub: (Some sub)
        have elem: "balanced_at (Suc level) l" if "is_dict sub" "element_lines sh sub p (Suc level) = Inr l" for l
          using "1.IH"(1) [OF Some p found sub] that by blast
        have elems: "balanced_at (Suc level) l"
          if "\<not> is_dict sub" "dict_list sub = Some es" "e \<in> set es" "element_lines sh e p (Suc level) = Inr l" for es e l
          using "1.IH"(2) [OF Some p found sub] that by blast
        show ?thesis using f found sub elem elems
          by (auto simp: res_simps split: if_splits option.splits intro!: balanced_at_concat dest!: mapE_elements)
      qed
    qed
    then show ?thesis using mapE_elements [OF fs(1)] unfolding fs(2) by (intro balanced_at_tag balanced_at_concat) blast
  qed
qed

lemma data2xml_nested: "data2xml_lines sh msg = Inr ls \<Longrightarrow> nested [] ls = Some []"
proof -
  assume "data2xml_lines sh msg = Inr ls"
  then obtain es where es: "mapE (\<lambda>(name, sub). bindE (mapE (\<lambda>e. element_lines sh e name 0) (listed sub)) (\<lambda>ls. Inr (concat ls))) msg = Inr es"
    "ls = concat es" by (auto simp: data2xml_lines_def res_simps)
  have "balanced_at 0 l" if "l \<in> set es" for l
    using mapE_elements [OF es(1) that]
    by (auto simp: res_simps intro!: balanced_at_concat dest!: mapE_elements element_lines_balanced)
  then have "balanced_at 0 ls" unfolding es(2) by (rule balanced_at_concat)
  then show ?thesis unfolding balanced_at_def by (metis append_Nil2 list.size(3) nested.simps(1))
qed

section \<open>Messages that have a text\<close>

text \<open>A list that starts with a dictionary has no other elements, at any depth.\<close>

fun uniform :: "pyval \<Rightarrow> bool" where
  "uniform (PDict d) \<longleftrightarrow> (\<forall>x \<in> set d. uniform (snd x))"
| "uniform (PList l) \<longleftrightarrow> (\<forall>x \<in> set l. uniform x) \<and> (case l of [] \<Rightarrow> True | x # xs \<Rightarrow> is_dict x \<longrightarrow> list_all is_dict xs)"
| "uniform _ \<longleftrightarrow> True"

lemma error_lines_dict: "is_dict e \<Longrightarrow> \<exists>ls. error_lines sh level name e = Inr ls"
proof -
  assume "is_dict e"
  then obtain d where e: "e = PDict d" by (cases e) simp_all
  have line: "\<exists>l. error_line sh n e k = Inr l" for n k
    by (auto simp: e error_line_def py_in_def py_item_def split: option.splits)
  have "\<exists>ls. mapE (error_line sh n e) ks = Inr ls" for n ks
  proof (induction ks)
    case (Cons k ks)
    then show ?case using line [of n k] by auto
  qed simp
  from this [of "Suc level" "[''DecodeError'', ''Type'', ''Data'', ''VendorID'', ''Subtype'']"] show ?thesis
    by (auto simp: error_lines_def e py_get_def simp del: mapE.simps split: option.split)
qed

lemma mapE_total: "(\<And>x. x \<in> set xs \<Longrightarrow> \<exists>y. f x = Inr y) \<Longrightarrow> \<exists>ys. mapE f xs = Inr ys"
proof (induction xs)
  case (Cons x xs)
  then obtain y ys where "f x = Inr y" "mapE f xs = Inr ys" by (meson list.set_intros)
  then show ?case by simp
qed simp

lemma uniform_listed:
  "uniform v \<Longrightarrow> dict_list v = Some l \<Longrightarrow> x \<in> set l \<Longrightarrow> is_dict x \<and> uniform x"
  by (cases v) (auto simp: dict_list_def list_all_iff split: list.splits if_splits)

lemma uniform_field: "uniform msg \<Longrightarrow> field_value msg p = Inr (Some v) \<Longrightarrow> uniform v"
  by (cases msg) (fastforce simp: field_value_def dest: map_of_SomeD)+

lemma element_lines_total: "is_dict msg \<Longrightarrow> uniform msg \<Longrightarrow> \<exists>ls. element_lines sh msg name level = Inr ls"
proof (induction sh msg name level rule: element_lines.induct)
  case (1 sh msg name level)
  show ?case
  proof (cases "struct_fields name")
    case None
    have "listed msg = [msg]" using "1.prems"(1) by (cases msg) (simp_all add: listed_def dict_list_def)
    then show ?thesis using None error_lines_dict [OF "1.prems"(1), of sh level name]
      by (auto simp: element_lines.simps [of sh msg name])
  next
    case (Some flds)
    let ?field = "\<lambda>p. bindE (field_value msg p) (\<lambda>found. case found of
          None \<Rightarrow> Inr []
        | Some sub \<Rightarrow> if is_dict sub then element_lines sh sub p (Suc level)
            else (case dict_list sub of
              Some l \<Rightarrow> bindE (mapE (\<lambda>e. element_lines sh e p (Suc level)) l) (\<lambda>ls. Inr (concat ls))
            | None \<Rightarrow> Inr [Field_Line (Suc level) p (show_repr sh sub)]))"
    have "\<exists>f. ?field p = Inr f" if p: "p \<in> set (flds @ [DECODE_ERROR_PARNAME])" for p
    proof -
      obtain found where found: "field_value msg p = Inr found"
        using "1.prems"(1) by (cases msg) (simp_all add: field_value_def)
      show ?thesis
      proof (cases found)
        case None
        then show ?thesis using found by simp
      next
        case sub: (Some sub)
        have "uniform sub" using uniform_field "1.prems"(2) found sub by blast
        then have "\<exists>l. element_lines sh sub p (Suc level) = Inr l" if "is_dict sub"
          using "1.IH"(1) [OF Some p found sub] that by blast
        moreover have "\<exists>ls. mapE (\<lambda>e. element_lines sh e p (Suc level)) es = Inr ls" if "\<not> is_dict sub" "dict_list sub = Some es" for es
          using "1.IH"(2) [OF Some p found sub] that uniform_listed [OF \<open>uniform sub\<close> that(2)] by (intro mapE_total) blast
        ultimately show ?thesis using found sub by (cases "is_dict sub") (auto split: option.split)
      qed
    qed
    then obtain fs where "mapE ?field (flds @ [DECODE_ERROR_PARNAME]) = Inr fs" using mapE_total by meson
    then show ?thesis using Some by (simp add: element_lines.simps [of sh msg name] del: mapE.simps)
  qed
qed

text \<open>
  The text of a message: when its values are uniform dictionaries there is one, and it consists of
  lines in which every tag is closed in order and indented by the number of tags around it.
\<close>

theorem message_text_nested:
  assumes "list_all (\<lambda>(name, v). is_dict v \<and> uniform v) msg"
  shows "\<exists>ls. llrp_data2xml sh msg = Inr (butlast (concat (map line_text ls))) \<and> nested [] ls = Some []"
proof -
  have "\<exists>l. (\<lambda>(name, sub). bindE (mapE (\<lambda>e. element_lines sh e name 0) (listed sub)) (\<lambda>ls. Inr (concat ls))) x = Inr l"
    if "x \<in> set msg" for x
  proof -
    obtain name v where x: "x = (name, v)" by fastforce
    then have v: "is_dict v" "uniform v" using assms that by (auto simp: list_all_iff)
    then have "listed v = [v]" by (cases v) (simp_all add: listed_def dict_list_def)
    then show ?thesis using element_lines_total [OF v, of sh name 0] by (auto simp: x)
  qed
  then obtain es where es: "data2xml_lines sh msg = Inr es"
    using mapE_total [of msg] unfolding data2xml_lines_def by (smt (verit, best) bindE.simps(2))
  then have "llrp_data2xml sh msg = Inr (butlast (concat (map line_text es)))"
    by (auto simp: llrp_data2xml_def data2xml_lines_def)
  then show ?thesis using data2xml_nested [OF es] by blast
qed

text \<open>A mixed list has no text, and the \<open>AttributeError\<close> of an unknown parameter without a dictionary is not caught.\<close>

lemma unknown_scalar_raises: "struct_fields name = None \<Longrightarrow> message_repr sh \<lparr>msg_dict = Some [(name, PInt 0)], msg_bytes = b, msg_name = n\<rparr> = Inl AttributeError"
  by (simp add: message_repr_def llrp_data2xml_def data2xml_lines_def listed_def dict_list_def error_lines_def py_get_def catchE_def element_lines.simps)

end
