(* ===== verification/Spec2Isabelle.thy ===== *)
theory Spec2Isabelle
  imports Wire_Theorems Pending_Registry Config_Plan Dedup Epc_Codes Util_Functions ROSpec_Build
    Reader_Theorems Client_Transactions Client_Startup Secure_Client Impinj_Management Management_Theorems
    Verb_Acceptance Verb_Access Verb_Log Verb_Sessions Log_Setup Message_Text
begin

text \<open>
  Verification development of sllurp, a Python client for LLRP, the protocol by which an application
  drives RFID readers.  All paths are under \<^verbatim>\<open>src/sllurp\<close>.

  \<^bold>\<open>The program.\<close>  Bytes from a socket are cut into frames, frames are decoded into nested
  dictionaries by a registry of parameter and message definitions, and the dictionaries drive the state
  machine of \<^verbatim>\<open>LLRPClient\<close>: the handshake, inventories, access operations, pauses, configuration
  transactions.  Requests are correlated with responses by a registry with timers.  Around it
  \<^verbatim>\<open>LLRPReaderClient\<close> owns the socket, reconnects, runs the receive thread and the duration timer, and
  hands (deduplicated) tag reports to callbacks; \<^verbatim>\<open>secure.py\<close> does the same over TLS.  Beside the
  protocol there are adapters for the HTTP management interfaces of readers.

  \<^bold>\<open>Wire format.\<close>
  \<^item> \<open>Sllurp_Prelude\<close>, \<open>Py_Values\<close>, \<open>Exception_State\<close>: errors as values (\<open>res\<close>), Python values
    (\<open>pyval\<close>) and the operations the sources apply to them, dictionaries as association lists in insertion
    order, and actions that change a state and may raise (\<open>act\<close>: what was done before an exception stays done).
  \<^item> \<open>Byte_Codec\<close>, \<open>Header_Codec\<close>: \<^verbatim>\<open>struct\<close> formats and \<^verbatim>\<open>llrp_decoder.py\<close> (message headers; TLV, TV
    and vendor parameter headers).  Integers have the width of their format; out of range is an error.
  \<^item> \<open>Codec_Core\<close>, \<open>Codec_Loop\<close>: the generators and the recursion of \<^verbatim>\<open>llrp_proto.py\<close>:
    \<^verbatim>\<open>encode_param\<close> (as replaced by \<^verbatim>\<open>_protocol_fixes.py\<close>), \<^verbatim>\<open>decode_param\<close>,
    \<^verbatim>\<open>decode_all_parameters\<close>.  Decoding takes the room of the interpreter stack as its argument
    \<open>stack\<close>: the number of calls of \<^verbatim>\<open>decode_all_parameters\<close> that fit inside each other, after which the
    next one raises \<open>RecursionError\<close>.  More room than there are bytes is always enough.  (Python counts
    frames: a nested parameter takes a few, so the number is a fraction of the recursion limit.  It is a
    value of the environment, and every theorem holds for all values.)  Encoding runs on the depth of
    the dictionary, which is enough; the dictionaries that are encoded come from the application and
    not from the network, and the limit of the stack is not modelled there, nor in the printing of messages.
  \<^item> \<open>Proto_Enums\<close> to \<open>Proto_Moto\<close>, \<open>Proto_Registry\<close>, \<open>Proto_Messages\<close>: every name table, every
    entry of \<^verbatim>\<open>Param_struct\<close> and \<^verbatim>\<open>Message_struct\<close> with its coder, the post-processing and the fixes.
  \<^item> \<open>LLRP_Message\<close> (\<^verbatim>\<open>LLRPMessage\<close>), \<open>Framing\<close> (\<^verbatim>\<open>raw_data_received\<close>), \<open>Wire_Theorems\<close>: serialising
    and reading messages; arbitrary bytes give a complete message or \<open>LLRPError\<close>, or \<open>RecursionError\<close> where
    the stack is short, for which a message of 10 + 4 n bytes is enough; encoded parameters are
    recognised and consumed exactly, the chunks in which a stream arrives cannot be observed, and a stream
    of frames is delivered completely and in order.

  \<^bold>\<open>Parts of the client.\<close>
  \<^item> \<open>Pending_Registry\<close> (\<^verbatim>\<open>llrp_runtime.py\<close>): the registry of requests with timers that fire, are cancelled
    and expire in any order.  \<open>Request_Table\<close> states as a locale what the client relies on, and shows that
    the registry provides it.
  \<^item> \<open>Config_Plan\<close> (\<^verbatim>\<open>llrp_runtime.py\<close>), \<open>Reader_Config\<close> (\<^verbatim>\<open>LLRPReaderConfig\<close>;
    \<open>validate_in_place\<close> keeps what validation assigned before it raised, \<open>validate_config\<close> is its outcome
    for a new object, and \<open>config_valid\<close> states the documented constraints without it), \<open>ROSpec_Build\<close>
    (\<^verbatim>\<open>LLRPROSpec\<close>), \<open>Access_Spec\<close> (C1G2 operations), \<open>Dedup\<close> (\<^verbatim>\<open>dedup.py\<close>), \<open>Epc_Codes\<close>
    (\<^verbatim>\<open>epc\<close>), \<open>Util_Functions\<close> (\<^verbatim>\<open>util.py\<close>).

  \<^bold>\<open>The protocol client\<close> (\<^verbatim>\<open>LLRPClient\<close> in \<^verbatim>\<open>llrp.py\<close>, with \<^verbatim>\<open>_runtime_fixes.py\<close>).
  \<^item> \<open>Client_State\<close>: the record \<open>client\<close>, state changes, message identifiers, sending a request.
    \<open>Client_Capabilities\<close>: power tables, modes, reported configuration.  \<open>Client_Operations\<close>: requests,
    inventory, access specifications, the steps of a configuration transaction.  \<open>Client_Machine\<close>:
    \<^verbatim>\<open>handleMessage\<close>, one definition per state, and \<^verbatim>\<open>apply_config\<close>.  Closures that wait for a response
    are the constructors of \<open>cont\<close>; \<open>run_cont\<close> is their code.
  \<^item> \<open>Client_Runs\<close>: all inputs of a client (messages, timers, losses of the connection, calls of the
    application) in any order.  \<open>Client_Relations\<close> is the locale by which a relation that respects the
    few primitives holds for every operation and run; \<open>Client_Invariant\<close> (requests and callbacks agree),
    \<open>Client_Messages\<close> (whole frames, identifiers in range) and \<open>Client_Pauses\<close> (timers of pauses)
    interpret it.  \<open>Client_Theorems\<close> holds the properties of all runs.
  \<^item> \<open>Client_Startup\<close>: from the call that starts an inventory through the answers of the reader to the
    inventory state.
  \<^item> \<open>Client_Transactions\<close>: the abstract protocol of a configuration transaction (settled, waiting with
    the configuration its stage expects, or stuck after an exception) and that every stage implements it.

  \<^bold>\<open>The reader client.\<close>  \<open>Reader_Client\<close> is \<^verbatim>\<open>LLRPReaderClient\<close>, with the protocol client as its
  part \<open>llrp\<close>; \<open>Reader_Relations\<close> carries relations through its operations as above, and
  \<open>Reader_Theorems\<close> interprets it: a run of the reader client is a run of the protocol client inside, a
  disconnect is notified once per connection, reconnecting is bounded, and two behaviours that are not
  intended: connecting while connected, under every reconnect policy, and a late duration timer.  \<open>Secure_Client\<close> is \<^verbatim>\<open>secure.py\<close>: contexts, the two stages of connecting, and the receive
  loop with bytes that were decrypted already.

  \<^bold>\<open>Management.\<close>  \<open>Url_Parse\<close> is what is used of \<^verbatim>\<open>urllib.parse\<close>; \<open>Xml_Values\<close> the conversion
  between documents and values, with a locale for name spaces that both XML adapters interpret;
  \<open>Reader_Management\<close> the HTTP transport of \<^verbatim>\<open>reader_management.py\<close>; \<open>Zebra_Management\<close>,
  \<open>Impinj_Management\<close>, \<open>Intermec_Management\<close> the adapters; \<open>Management_Factory\<close> the client of
  \<^verbatim>\<open>zebra_iot.py\<close> and the choice of an adapter; \<open>Reader_Profiles\<close> the table of \<^verbatim>\<open>readers.py\<close>.
  \<open>Management_Origin\<close> shows where requests go; \<open>Zebra_Sessions\<close> that a client carries the session its
  last login answered, from a fold over the answers it received; \<open>Management_Theorems\<close> the round trip of
  documents, and which advertised addresses keep a client at the reader's origin and which escape it.

  \<^bold>\<open>The command line\<close> (\<^verbatim>\<open>cli.py\<close>, \<^verbatim>\<open>verb\<close>, \<^verbatim>\<open>lock.py\<close>).
  \<^item> \<open>Cli_Commands\<close>: the declared options and the argument tuple of each command.  What \<^verbatim>\<open>click\<close>
    passes to a command is the predicate \<open>called_with\<close>, a hypothesis where it is needed.  \<open>Verb_Setup\<close>:
    the configuration each verb builds and its reader clients.  \<open>Verb_Acceptance\<close> determines which
    inventory command lines are accepted and every field of what they configure.
  \<^item> \<open>Verb_Counters\<close>: the statistics that callbacks of several readers share, with a locale for what
    the three modules have in common.  \<open>Verb_Access\<close>: the callbacks of \<^verbatim>\<open>verb/access.py\<close> and
    \<^verbatim>\<open>lock.py\<close>, and that one payload serves every reader.  \<open>Verb_Log\<close>: the table that
    \<^verbatim>\<open>verb/log.py\<close> writes, against a reference that has no loop.
  \<^item> \<open>Verb_Sessions\<close>: the main programs as a step relation in which the readers' threads work between
    any two steps; what an abort or an interrupt guarantees afterwards, and where an abort fails.
  \<^item> \<open>Log_Setup\<close> (\<^verbatim>\<open>log.py\<close>): the handlers the module installs and replaces; those of an application
    survive.  \<open>Message_Text\<close>: \<^verbatim>\<open>llrp_data2xml\<close>, the message object and \<^verbatim>\<open>decode.py\<close>; the text of
    a message is properly nested.

  \<^bold>\<open>The environment.\<close>
  \<^item> Handlers and calls run one after the other: threads interleave between inputs, not inside one.  A
    timer fires in one step and its thread runs in a later one, so that a cancellation can come between.
  \<^item> The outcomes of sending, connecting, waiting, of the clock and of HTTP requests are scripts, lists
    or functions given to the model; every theorem holds for all of them.  Closing a socket never fails.
  \<^item> Callbacks of the application are numbers whose calls are recorded.  They do not call back into the
    client.  What the protocol client tells the reader client is recorded as events, which take effect
    when the call returns.
  \<^item> Configuration objects live in a store (\<open>objects\<close>, by address), since the client keeps and compares
    references.  Dictionaries inside one configuration are not shared.
  \<^item> Exceptions are their classes; texts are omitted.  Floats are rationals.  Text in URLs and in the
    names of models is ASCII.  How Python shows a JSON value that is not a string is an argument
    (\<open>show_value\<close>), and so are the order of sets (\<open>mask_order\<close>, \<open>index_order\<close>) and the random part of a
    multipart boundary.
  \<^item> Loops that need not end are \<open>partial_function (option)\<close>: \<open>None\<close> is a call that never returns
    (reconnecting without a limit).  All other definitions are total.

  \<^bold>\<open>Not modelled.\<close>  How \<^verbatim>\<open>click\<close> and \<^verbatim>\<open>argparse\<close> parse a command line, the messages that are
  logged, and the text of a CSV row: they are the work of libraries.  TLS itself, certificates,
  sockets, the text of JSON and XML (bodies come with their decoded forms), and waiting on
  \<^verbatim>\<open>threading.Event\<close>.
\<close>

end
